(* ===== verification/Prelude.thy ===== *)
theory Prelude
  imports Main "HOL-Library.Word" "HOL-Library.Sublist"
begin

text \<open>
  Shared vocabulary of the development: the machine integers of the Rust sources, the
  saturating and checked arithmetic of the standard library, the sequencing of fallible
  calls (the question-mark operator), hash maps as partial functions, and the
  interfaces the stateful components are checked against: \<open>transition_system\<close> (an
  invariant holds in every state a sequence of calls can reach), \<open>refinement\<close> (a
  concrete step function simulates an abstract one) and \<open>streak\<close> (what a component remembers
  about how long a condition has held).
\<close>

section \<open>Types\<close>

type_synonym u8 = "8 word"
type_synonym u16 = "16 word"
type_synonym u32 = "32 word"
type_synonym u64 = "64 word"

type_synonym bytes = "u8 list"

named_theorems model_defs \<open>definitions unfolded when a property is evaluated on an input\<close>
named_theorems step_simps \<open>effect of an operation on the fields of its state\<close>

section \<open>Saturating and checked machine arithmetic\<close>

definition saturating_add :: "'a::len word \<Rightarrow> 'a word \<Rightarrow> 'a word" where
  "saturating_add a b = (if unat a + unat b < 2 ^ LENGTH('a) then a + b else - 1)"

definition saturating_sub :: "'a::len word \<Rightarrow> 'a word \<Rightarrow> 'a word" where
  "saturating_sub a b = (if b \<le> a then a - b else 0)"

definition checked_add :: "'a::len word \<Rightarrow> 'a word \<Rightarrow> 'a word option" where
  "checked_add a b = (if unat a + unat b < 2 ^ LENGTH('a) then Some (a + b) else None)"

definition checked_sub :: "'a::len word \<Rightarrow> 'a word \<Rightarrow> 'a word option" where
  "checked_sub a b = (if b \<le> a then Some (a - b) else None)"

lemma unat_add_no_overflow:
  fixes a b :: "'a::len word"
  shows "unat a + unat b < 2 ^ LENGTH('a) \<Longrightarrow> unat (a + b) = unat a + unat b"
  by (simp add: unat_word_ariths)

lemma unat_sub_le:
  fixes a b :: "'a::len word"
  shows "b \<le> a \<Longrightarrow> unat (a - b) = unat a - unat b"
  by (rule unat_sub)

lemma unat_saturating_sub: "unat (saturating_sub a b) = unat a - unat b"
  by (auto simp: saturating_sub_def unat_sub_le word_le_nat_alt)

lemma unat_max_word: "unat (- 1 :: 'a::len word) = 2 ^ LENGTH('a) - 1"
  by (simp add: unat_eq_nat_uint unsigned_minus_1_eq_mask mask_eq_exp_minus_1 nat_diff_distrib
      nat_power_eq)

lemma unat_saturating_add:
  fixes a b :: "'a::len word"
  shows "unat (saturating_add a b) = min (unat a + unat b) (2 ^ LENGTH('a) - 1)"
proof (cases "unat a + unat b < 2 ^ LENGTH('a)")
  case True
  then show ?thesis by (simp add: saturating_add_def unat_add_no_overflow)
next
  case False
  then show ?thesis by (simp add: saturating_add_def unat_max_word)
qed

lemma saturating_add_mono:
  fixes a b :: "'a::len word"
  shows "a \<le> saturating_add a b"
proof -
  have "unat a < 2 ^ LENGTH('a)" by simp
  then have "unat a \<le> 2 ^ LENGTH('a) - 1" by linarith
  then show ?thesis by (simp add: word_le_nat_alt unat_saturating_add)
qed

lemma unat_of_nat_small: "n < 2 ^ LENGTH('a) \<Longrightarrow> unat (of_nat n :: 'a::len word) = n"
  by (simp add: unat_of_nat take_bit_nat_eq_self)

section \<open>Fallible calls\<close>

text \<open>
  A Rust \<open>Result<T, E>\<close> is \<open>E + T\<close>; \<open>and_then\<close> is the question-mark operator: the
  first error is returned and nothing after it runs.
\<close>

definition and_then :: "'e + 'a \<Rightarrow> ('a \<Rightarrow> 'e + 'b) \<Rightarrow> 'e + 'b" where
  "and_then r f = (case r of Inl e \<Rightarrow> Inl e | Inr x \<Rightarrow> f x)"

lemma and_then_simps [simp]:
  "and_then (Inl e) f = Inl e"
  "and_then (Inr x) f = f x"
  by (simp_all add: and_then_def)

lemma and_then_Inr_iff: "and_then r f = Inr y \<longleftrightarrow> (\<exists>x. r = Inr x \<and> f x = Inr y)"
  by (cases r) simp_all

lemma and_then_Inl_iff:
  "and_then r f = Inl e \<longleftrightarrow> r = Inl e \<or> (\<exists>x. r = Inr x \<and> f x = Inl e)"
  by (cases r) simp_all

definition ensure :: "bool \<Rightarrow> 'e \<Rightarrow> 'e + unit" where
  "ensure b e = (if b then Inr () else Inl e)"

lemma ensure_Inr_iff [simp]: "ensure b e = Inr u \<longleftrightarrow> b"
  by (simp add: ensure_def)

lemma ensure_Inl_iff [simp]: "ensure b e = Inl e' \<longleftrightarrow> \<not> b \<and> e' = e"
  by (auto simp: ensure_def)

definition is_ok :: "'e + 'a \<Rightarrow> bool" where
  "is_ok r = (case r of Inl _ \<Rightarrow> False | Inr _ \<Rightarrow> True)"

lemma is_ok_iff: "is_ok r \<longleftrightarrow> (\<exists>x. r = Inr x)"
  by (cases r) (simp_all add: is_ok_def)

section \<open>Hash maps\<close>

text \<open>
  A \<open>HashMap<K, V>\<close> is a partial function; iteration order is never observed by the
  modelled code. \<open>map_retain\<close> is \<open>retain\<close>.
\<close>

definition map_retain :: "('k \<Rightarrow> 'v \<Rightarrow> bool) \<Rightarrow> ('k \<rightharpoonup> 'v) \<Rightarrow> ('k \<rightharpoonup> 'v)" where
  "map_retain p m = (\<lambda>k. case m k of None \<Rightarrow> None | Some v \<Rightarrow> if p k v then Some v else None)"

lemma map_retain_Some [simp]: "map_retain p m k = Some v \<longleftrightarrow> m k = Some v \<and> p k v"
  by (auto simp: map_retain_def split: option.splits)

lemma map_retain_None: "map_retain p m k = None \<longleftrightarrow> (\<forall>v. m k = Some v \<longrightarrow> \<not> p k v)"
  by (auto simp: map_retain_def split: option.splits)

lemma map_retain_idem [simp]: "map_retain p (map_retain p m) = map_retain p m"
  by (auto simp: map_retain_def fun_eq_iff split: option.splits)

lemma dom_map_retain: "dom (map_retain p m) \<subseteq> dom m"
  by (auto simp: dom_def)

section \<open>The last bytes of a list\<close>

definition last_n :: "nat \<Rightarrow> 'a list \<Rightarrow> 'a list" where
  "last_n n xs = drop (length xs - n) xs"

lemma length_last_n [simp]: "length (last_n n xs) = min n (length xs)"
  by (simp add: last_n_def)

lemma suffix_last_n: "suffix (last_n n xs) xs"
  by (simp add: last_n_def suffix_drop)

lemma suffix_last_n_eq: "suffix ys xs \<Longrightarrow> last_n (length ys) xs = ys"
  by (auto simp: suffix_def last_n_def)

lemma last_n_append: "last_n n (xs @ ys) = last_n (n - length ys) xs @ last_n n ys"
proof (cases "length ys \<le> n")
  case True
  then have eq: "length xs + length ys - n = length xs - (n - length ys)" by arith
  have "drop (length xs + length ys - n) xs = drop (length xs - (n - length ys)) xs"
    by (rule arg_cong [OF eq])
  with True show ?thesis by (simp add: last_n_def)
next
  case False
  then show ?thesis by (simp add: last_n_def)
qed

lemma last_n_last_n [simp]: "last_n m (last_n n xs) = last_n (min m n) xs"
proof -
  have "length xs - (length xs - n) - m + (length xs - n) = length xs - min m n" by arith
  then show ?thesis by (simp only: last_n_def length_drop drop_drop)
qed

lemma suffix_append_last_n:
  assumes "suffix ys xs"
  shows "suffix (last_n n (ys @ zs)) (xs @ zs)"
  using assms by (metis suffix_order.trans suffix_last_n same_suffix_suffix)

section \<open>Interface: a component reached by a sequence of calls\<close>

text \<open>
  \<open>step\<close> applies one call of the component, \<open>inv\<close> is its invariant. The laws are the two
  obligations every component discharges; the lemmas lift them to any sequence of calls.
\<close>

locale transition_system =
  fixes init :: "'s"
    and step :: "'s \<Rightarrow> 'c \<Rightarrow> 's"
    and inv :: "'s \<Rightarrow> bool"
  assumes inv_init: "inv init"
    and inv_step: "inv s \<Longrightarrow> inv (step s c)"
begin

lemma inv_run: "inv s \<Longrightarrow> inv (foldl step s cs)"
  by (induction cs arbitrary: s) (auto intro: inv_step)

lemma inv_reachable: "inv (foldl step init cs)"
  by (rule inv_run [OF inv_init])

end

text \<open>
  The same for a step relation: \<open>safe\<close> is a set of states that no step leaves. What holds of it
  holds of every state reached from one of its states.
\<close>

locale step_relation =
  fixes step :: "'s \<Rightarrow> 's \<Rightarrow> bool"
    and safe :: "'s \<Rightarrow> bool"
  assumes safe_step: "safe s \<Longrightarrow> step s t \<Longrightarrow> safe t"
begin

lemma safe_reachable:
  assumes "step\<^sup>*\<^sup>* s t" and "safe s"
  shows "safe t"
  using assms by (induction rule: rtranclp_induct) (auto intro: safe_step)

end

text \<open>
  A monotone measure of the state: the shape of every generation or offset counter.
\<close>

locale monotone_system =
  fixes step :: "'s \<Rightarrow> 'c \<Rightarrow> 's"
    and measure_of :: "'s \<Rightarrow> 'm::preorder"
  assumes step_mono: "measure_of s \<le> measure_of (step s c)"
begin

lemma run_mono: "measure_of s \<le> measure_of (foldl step s cs)"
proof (induction cs arbitrary: s)
  case Nil
  show ?case by simp
next
  case (Cons c cs)
  have "measure_of s \<le> measure_of (step s c)" by (rule step_mono)
  also have "\<dots> \<le> measure_of (foldl step (step s c) cs)" by (rule Cons.IH)
  finally show ?case by simp
qed

end

text \<open>
  A simulation: a relation between concrete and abstract states that every call keeps.
  \<open>ok\<close> is the guard under which the concrete call does not leave its number range.
\<close>

locale refinement =
  fixes cstep :: "'s \<Rightarrow> 'c \<Rightarrow> 's"
    and astep :: "'a \<Rightarrow> 'c \<Rightarrow> 'a"
    and rel :: "'s \<Rightarrow> 'a \<Rightarrow> bool"
    and ok :: "'a \<Rightarrow> 'c \<Rightarrow> bool"
  assumes simulates: "rel s a \<Longrightarrow> ok a c \<Longrightarrow> rel (cstep s c) (astep a c)"
begin

primrec ok_run :: "'a \<Rightarrow> 'c list \<Rightarrow> bool" where
  "ok_run a [] = True"
| "ok_run a (c # cs) = (ok a c \<and> ok_run (astep a c) cs)"

lemma run_simulates: "rel s a \<Longrightarrow> ok_run a cs \<Longrightarrow> rel (foldl cstep s cs) (foldl astep a cs)"
  by (induction cs arbitrary: s a) (auto intro: simulates)

end

section \<open>Interface: how long a condition has held\<close>

text \<open>
  A component remembers since when a condition holds. \<open>since\<close> is what it remembers, \<open>holds s x\<close> the
  condition on the input \<open>x\<close> in state \<open>s\<close>, \<open>clock\<close> the time of a state. The law: whatever is remembered after
  a step was remembered before it or is the time of the step, and the condition held.
\<close>

locale streak =
  fixes step :: "'s \<Rightarrow> 'x \<Rightarrow> 's"
    and since :: "'s \<Rightarrow> 't option"
    and holds :: "'s \<Rightarrow> 'x \<Rightarrow> bool"
    and clock :: "'s \<Rightarrow> 't"
  assumes remembers: "since (step s x) = Some t \<Longrightarrow> holds s x \<and> (since s = Some t \<or> t = clock (step s x))"
begin

primrec holds_along :: "'s \<Rightarrow> 'x list \<Rightarrow> bool" where
  "holds_along s [] = True"
| "holds_along s (x # xs) = (holds s x \<and> holds_along (step s x) xs)"

lemma holds_along_append:
  "holds_along s (xs @ ys) = (holds_along s xs \<and> holds_along (foldl step s xs) ys)"
  by (induction xs arbitrary: s) auto

lemma since_run:
  assumes "since s0 = None" "since (foldl step s0 xs) = Some t"
  shows "\<exists>ys y zs. xs = ys @ y # zs \<and> clock (foldl step s0 (ys @ [y])) = t \<and> holds_along (foldl step s0 ys) (y # zs)"
  using assms(2)
proof (induction xs rule: rev_induct)
  case Nil
  with assms(1) show ?case by simp
next
  case (snoc x xs)
  let ?s = "foldl step s0 xs"
  from snoc.prems have r: "holds ?s x" "since ?s = Some t \<or> t = clock (step ?s x)"
    using remembers [of ?s x t] by auto
  from r(2) show ?case
  proof
    assume "since ?s = Some t"
    from snoc.IH [OF this] obtain ys y zs where i: "xs = ys @ y # zs" "clock (foldl step s0 (ys @ [y])) = t"
      "holds_along (foldl step s0 ys) (y # zs)" by blast
    from i r(1) have "xs @ [x] = ys @ y # (zs @ [x])" "holds_along (foldl step s0 ys) (y # (zs @ [x]))"
      using holds_along_append [of "foldl step s0 ys" "y # zs" "[x]"] by simp_all
    with i(2) show ?thesis by blast
  next
    assume "t = clock (step ?s x)"
    with r(1) show ?thesis by (intro exI [of _ xs] exI [of _ x] exI [of _ "[]"]) simp
  qed
qed

end

end
