(* ===== verification/Scrollback.thy ===== *)
theory Scrollback
  imports Prelude
begin

text \<open>
  The terminal scrollback buffer (\<open>server/src/pty/buffer.rs\<close>): a bounded tail of the
  bytes a PTY has produced, with a 64-bit counter of all bytes ever written that makes
  delta replay to a reconnecting client possible. The specification is the output history of
  the terminal, in full and since the last clear; the buffer refines it exactly, and a client that applies a replay to
  what it has already received ends with the true history.
\<close>

section \<open>State and operations\<close>

record scrollback_buffer =
  data :: bytes
  capacity :: nat
  total_written :: u64

record buffer_replay =
  replay_data :: bytes
  replay_offset :: u64
  replay_reset :: bool
  replay_truncated :: bool

definition buffer_new :: "nat \<Rightarrow> scrollback_buffer" where
  "buffer_new cap = \<lparr>data = [], capacity = cap, total_written = 0\<rparr>"

definition buffer_push :: "scrollback_buffer \<Rightarrow> bytes \<Rightarrow> scrollback_buffer" where
  "buffer_push b chunk =
     (let b1 = b\<lparr>total_written := total_written b + of_nat (length chunk)\<rparr>;
          total = length (data b1) + length chunk
      in if capacity b1 < total then
           (let keep_from = total - capacity b1
            in if length (data b1) \<le> keep_from then
                 (let chunk_keep = length chunk - (keep_from - length (data b1))
                  in b1\<lparr>data := drop (length chunk - chunk_keep) chunk\<rparr>)
               else b1\<lparr>data := drop keep_from (data b1) @ chunk\<rparr>)
         else b1\<lparr>data := data b1 @ chunk\<rparr>)"

definition current_offset :: "scrollback_buffer \<Rightarrow> u64" where
  "current_offset b = total_written b"

definition read_replay :: "scrollback_buffer \<Rightarrow> u64 option \<Rightarrow> buffer_replay" where
  "read_replay b from_offset =
     (let buffer_start_offset =
            saturating_sub (total_written b) (of_nat (length (data b)))
      in case from_offset of
           None \<Rightarrow> \<lparr>replay_data = data b, replay_offset = total_written b,
                    replay_reset = True, replay_truncated = False\<rparr>
         | Some requested_offset \<Rightarrow>
             if requested_offset < buffer_start_offset then
               \<lparr>replay_data = data b, replay_offset = total_written b,
                replay_reset = True, replay_truncated = True\<rparr>
             else if total_written b < requested_offset then
               \<lparr>replay_data = data b, replay_offset = total_written b,
                replay_reset = True, replay_truncated = False\<rparr>
             else
               (let skip = min (unat (requested_offset - buffer_start_offset)) (length (data b))
                in \<lparr>replay_data = drop skip (data b), replay_offset = total_written b,
                    replay_reset = False, replay_truncated = False\<rparr>))"

definition read_from :: "scrollback_buffer \<Rightarrow> u64 option \<Rightarrow> bytes \<times> u64" where
  "read_from b from_offset =
     (let replay = read_replay b from_offset in (replay_data replay, replay_offset replay))"

definition buffer_snapshot :: "scrollback_buffer \<Rightarrow> bytes \<times> u64" where
  "buffer_snapshot b = (data b, total_written b)"

definition buffer_len :: "scrollback_buffer \<Rightarrow> nat" where
  "buffer_len b = length (data b)"

definition buffer_is_empty :: "scrollback_buffer \<Rightarrow> bool" where
  "buffer_is_empty b = (data b = [])"

definition buffer_clear :: "scrollback_buffer \<Rightarrow> scrollback_buffer" where
  "buffer_clear b = b\<lparr>data := []\<rparr>"

definition hydrate :: "scrollback_buffer \<Rightarrow> bytes \<Rightarrow> u64 \<Rightarrow> scrollback_buffer" where
  "hydrate b persisted written =
     (let keep = min (length persisted) (capacity b);
          start = length persisted - keep
      in b\<lparr>data := drop start persisted, total_written := written\<rparr>)"

definition hydrate_prefix :: "scrollback_buffer \<Rightarrow> bytes \<Rightarrow> u64 \<Rightarrow> scrollback_buffer" where
  "hydrate_prefix b persisted written =
     (let (suffix, suffix_total_written) = buffer_snapshot b
      in hydrate b (persisted @ suffix) (saturating_add written suffix_total_written))"

lemmas buffer_defs [model_defs] =
  buffer_new_def buffer_push_def current_offset_def read_replay_def read_from_def
  buffer_snapshot_def buffer_len_def buffer_is_empty_def buffer_clear_def hydrate_def
  hydrate_prefix_def

section \<open>The buffer keeps the last bytes\<close>

lemma buffer_push_data: "data (buffer_push b chunk) = last_n (capacity b) (data b @ chunk)"
proof -
  have "drop (length (data b)) (data b) = []" by simp
  then show ?thesis
    by (auto simp: buffer_push_def last_n_def Let_def)
qed

lemma buffer_push_frame [step_simps]:
  "capacity (buffer_push b chunk) = capacity b"
  "total_written (buffer_push b chunk) = total_written b + of_nat (length chunk)"
  by (simp_all add: buffer_push_def Let_def)

lemma hydrate_fields [step_simps]:
  "data (hydrate b xs n) = last_n (capacity b) xs"
  "capacity (hydrate b xs n) = capacity b"
  "total_written (hydrate b xs n) = n"
  by (auto simp: hydrate_def last_n_def Let_def min_def)

lemma hydrate_prefix_fields [step_simps]:
  "data (hydrate_prefix b xs n) = last_n (capacity b) (xs @ data b)"
  "capacity (hydrate_prefix b xs n) = capacity b"
  "total_written (hydrate_prefix b xs n) = saturating_add n (total_written b)"
  by (simp_all add: hydrate_prefix_def buffer_snapshot_def hydrate_fields)

lemma buffer_clear_fields [step_simps]:
  "data (buffer_clear b) = []"
  "capacity (buffer_clear b) = capacity b"
  "total_written (buffer_clear b) = total_written b"
  by (simp_all add: buffer_clear_def)

section \<open>The abstract terminal history\<close>

text \<open>
  \<open>represents b h\<close>: \<open>b\<close> is a buffer of a terminal whose output so far is \<open>h\<close>. The
  retained bytes are the end of \<open>h\<close>, within capacity, and the counter is the length of
  \<open>h\<close>.
\<close>

definition represents :: "scrollback_buffer \<Rightarrow> bytes \<Rightarrow> bool" where
  "represents b h \<longleftrightarrow>
     suffix (data b) h \<and> length (data b) \<le> capacity b \<and> unat (total_written b) = length h"

text \<open>
  \<open>represents\<close> is what a replay needs. The refinement is against an exact history: everything the terminal
  has put out, and what of it came after the last clear. \<open>holds_tail\<close> determines the buffer: it holds
  the last \<open>capacity\<close> bytes since the last clear, and counts all the output.
\<close>

datatype buffer_call = Push bytes | Clear

fun buffer_step :: "scrollback_buffer \<Rightarrow> buffer_call \<Rightarrow> scrollback_buffer" where
  "buffer_step b (Push chunk) = buffer_push b chunk"
| "buffer_step b Clear = buffer_clear b"

type_synonym output_history = "bytes \<times> bytes"

fun history_step :: "output_history \<Rightarrow> buffer_call \<Rightarrow> output_history" where
  "history_step (h, s) (Push chunk) = (h @ chunk, s @ chunk)"
| "history_step (h, s) Clear = (h, [])"

fun history_fits :: "output_history \<Rightarrow> buffer_call \<Rightarrow> bool" where
  "history_fits (h, s) (Push chunk) = (length h + length chunk < 2 ^ 64)"
| "history_fits (h, s) Clear = True"

fun holds_tail :: "nat \<Rightarrow> scrollback_buffer \<Rightarrow> output_history \<Rightarrow> bool" where
  "holds_tail cap b (h, s) \<longleftrightarrow>
     capacity b = cap \<and> data b = last_n cap s \<and> suffix s h \<and>
     unat (total_written b) = length h"

lemma represents_length: "represents b h \<Longrightarrow> length h < 2 ^ 64"
  using unsigned_less [of "total_written b", where ?'a = nat] by (simp add: represents_def)

lemma represents_data_length: "represents b h \<Longrightarrow> length (data b) \<le> length h"
  by (auto simp: represents_def dest: suffix_length_le)

lemma unat_add_of_nat:
  fixes w :: u64
  assumes "unat w + n < 2 ^ 64"
  shows "unat (w + of_nat n) = unat w + n"
proof -
  have "n < 2 ^ LENGTH(64)" using assms by simp
  then have "unat (of_nat n :: u64) = n" by (rule unat_of_nat_small)
  with assms show ?thesis by (simp add: unat_add_no_overflow)
qed

lemma holds_tail_represents: "holds_tail cap b (h, s) \<Longrightarrow> represents b h"
  by (auto simp: represents_def intro: suffix_order.trans suffix_last_n)

lemma buffer_new_holds_tail: "holds_tail cap (buffer_new cap) ([], [])"
  by (simp add: buffer_new_def last_n_def)

lemma buffer_step_holds_tail:
  assumes "holds_tail cap b hs" and "history_fits hs c"
  shows "holds_tail cap (buffer_step b c) (history_step hs c)"
proof (cases hs)
  case (Pair h s)
  show ?thesis
  proof (cases c)
    case (Push chunk)
    have "last_n cap (last_n cap s @ chunk) = last_n cap (s @ chunk)"
      by (simp add: last_n_append)
    with Push Pair assms show ?thesis
      by (simp add: buffer_push_data buffer_push_frame unat_add_of_nat)
  next
    case Clear
    with Pair assms show ?thesis by (simp add: buffer_clear_fields last_n_def)
  qed
qed

interpretation buffer_history: refinement buffer_step history_step "holds_tail cap" history_fits
  for cap :: nat
  by unfold_locales (rule buffer_step_holds_tail)

text \<open>The same history read off the calls: all the bytes pushed, and those pushed after the last clear.\<close>

fun pushed :: "buffer_call \<Rightarrow> bytes" where
  "pushed (Push chunk) = chunk"
| "pushed Clear = []"

definition output_of :: "buffer_call list \<Rightarrow> bytes" where
  "output_of calls = concat (map pushed calls)"

definition output_since_clear :: "buffer_call list \<Rightarrow> bytes" where
  "output_since_clear calls = output_of (rev (takeWhile (\<lambda>c. c \<noteq> Clear) (rev calls)))"

lemma history_of_calls:
  "foldl history_step ([], []) calls = (output_of calls, output_since_clear calls)"
proof (induction calls rule: rev_induct)
  case Nil
  show ?case by (simp add: output_of_def output_since_clear_def)
next
  case (snoc c calls)
  then show ?case by (cases c) (simp_all add: output_of_def output_since_clear_def)
qed

lemma fitting_calls:
  "length h + length (output_of calls) < 2 ^ 64 \<Longrightarrow> buffer_history.ok_run (h, s) calls"
proof (induction calls arbitrary: h s)
  case (Cons c calls)
  have "buffer_history.ok_run (history_step (h, s) c) calls"
    using Cons by (cases c) (simp_all add: output_of_def)
  moreover have "history_fits (h, s) c"
    using Cons.prems by (cases c) (simp_all add: output_of_def)
  ultimately show ?case by simp
qed simp

text \<open>
  C24: the buffer refines the output history of its terminal. After any sequence of pushes and clears
  whose bytes fit the 64-bit counter it holds exactly the last \<open>capacity\<close> bytes of what was pushed
  since the last clear, whatever the chunk boundaries, and its offset is the number of all the bytes
  ever pushed; clearing does not move the offset.
\<close>

theorem scrollback_refines_history:
  assumes "length (output_of calls) < 2 ^ 64"
  shows "data (foldl buffer_step (buffer_new cap) calls) = last_n cap (output_since_clear calls) \<and>
    unat (current_offset (foldl buffer_step (buffer_new cap) calls)) = length (output_of calls)"
proof -
  have "buffer_history.ok_run ([], []) calls" using assms by (intro fitting_calls) simp
  with buffer_new_holds_tail
  have "holds_tail cap (foldl buffer_step (buffer_new cap) calls)
    (foldl history_step ([], []) calls)"
    by (rule buffer_history.run_simulates)
  then show ?thesis by (simp add: history_of_calls current_offset_def)
qed

theorem scrollback_refines_history_witness:
  "data (foldl buffer_step (buffer_new 2) [Push [9], Clear, Push [1, 2], Push [3]]) = [2, 3] \<and>
    unat (current_offset
      (foldl buffer_step (buffer_new 2) [Push [9], Clear, Push [1, 2], Push [3]])) = 4"
  using scrollback_refines_history [of "[Push [9], Clear, Push [1, 2], Push [3]]" 2]
  by (simp add: output_of_def output_since_clear_def last_n_def)

text \<open>
  A fresh buffer that receives a sequence of chunks holds exactly the last
  \<open>capacity\<close> bytes of their concatenation, whatever the chunk boundaries, and its counter
  is the number of bytes written modulo the width of the counter.
\<close>

lemma pushes_keep_tail:
  "data (foldl buffer_push (buffer_new cap) chunks) = last_n cap (concat chunks) \<and>
   total_written (foldl buffer_push (buffer_new cap) chunks) = of_nat (length (concat chunks))"
proof (induction chunks rule: rev_induct)
  case Nil
  show ?case by (simp add: buffer_new_def last_n_def)
next
  case (snoc chunk chunks)
  let ?b = "foldl buffer_push (buffer_new cap) chunks"
  have cap: "capacity ?b = cap"
    by (induction chunks rule: rev_induct) (simp_all add: buffer_new_def buffer_push_frame)
  have "last_n cap (last_n cap xs @ ys) = last_n cap (xs @ ys)" for xs ys :: bytes
    by (simp add: last_n_append)
  with snoc.IH show ?case
    by (simp add: buffer_push_data buffer_push_frame cap)
qed

section \<open>Replay to a reconnecting client\<close>

text \<open>
  What the replay metadata asks of the client: \<open>reset\<close> means clear the display and write
  the snapshot, otherwise append the delta.
\<close>

definition client_apply :: "bytes \<Rightarrow> buffer_replay \<Rightarrow> bytes" where
  "client_apply screen r =
     (if replay_reset r then replay_data r else screen @ replay_data r)"

lemma unat_buffer_start:
  assumes "represents b h"
  shows "unat (saturating_sub (total_written b) (of_nat (length (data b)))) =
    length h - length (data b)"
proof -
  have "length (data b) < 2 ^ LENGTH(64)"
    using represents_length [OF assms] represents_data_length [OF assms] by simp
  with assms show ?thesis
    by (simp add: unat_saturating_sub unat_of_nat_small represents_def)
qed

lemma read_replay_delta:
  assumes "represents b h"
    and "length h - length (data b) \<le> unat off" and "unat off \<le> length h"
  shows "read_replay b (Some off) =
    \<lparr>replay_data = drop (unat off) h, replay_offset = total_written b,
     replay_reset = False, replay_truncated = False\<rparr>"
proof -
  let ?start = "saturating_sub (total_written b) (of_nat (length (data b)))"
  note start = unat_buffer_start [OF assms(1)]
  have le: "?start \<le> off" using start assms(2) by (simp add: word_le_nat_alt)
  have skip: "unat (off - ?start) = unat off - (length h - length (data b))"
    using le start by (simp add: unat_sub_le)
  obtain old where h: "h = old @ data b"
    using assms(1) by (auto simp: represents_def suffix_def)
  have "\<not> off < ?start" "\<not> total_written b < off"
    using le assms by (auto simp: word_less_nat_alt word_le_nat_alt represents_def)
  moreover have "min (unat (off - ?start)) (length (data b)) = unat off - length old"
    using skip assms(3) h by simp
  moreover have "drop (unat off - length old) (data b) = drop (unat off) h"
    using assms(2) h by simp
  ultimately show ?thesis by (simp add: read_replay_def Let_def)
qed

lemma read_replay_truncated:
  assumes "represents b h" and "unat off < length h - length (data b)"
  shows "read_replay b (Some off) =
    \<lparr>replay_data = data b, replay_offset = total_written b,
     replay_reset = True, replay_truncated = True\<rparr>"
  using assms unat_buffer_start [OF assms(1)]
  by (simp add: read_replay_def Let_def word_less_nat_alt)

lemma read_replay_future:
  assumes "represents b h" and "length h < unat off"
  shows "read_replay b (Some off) =
    \<lparr>replay_data = data b, replay_offset = total_written b,
     replay_reset = True, replay_truncated = False\<rparr>"
  using assms unat_buffer_start [OF assms(1)]
  by (auto simp: read_replay_def Let_def word_less_nat_alt represents_def)

text \<open>
  C27: replay resynchronises a client. A client that has received the first \<open>off\<close> bytes of
  the history and applies the replay for \<open>off\<close> ends with the whole history, or, exactly
  when bytes it misses have been evicted, with the retained tail and the
  \<open>truncated\<close> mark; the offset it is told is the length of the history.
\<close>

theorem replay_resynchronises:
  assumes "represents b h" and "unat off \<le> length h"
  defines "r \<equiv> read_replay b (Some off)"
  shows "client_apply (take (unat off) h) r = (if replay_truncated r then data b else h) \<and>
    (replay_truncated r \<longleftrightarrow> unat off < length h - length (data b)) \<and>
    unat (replay_offset r) = length h"
proof (cases "unat off < length h - length (data b)")
  case True
  with assms(1) have "r = \<lparr>replay_data = data b, replay_offset = total_written b,
     replay_reset = True, replay_truncated = True\<rparr>"
    by (simp add: r_def read_replay_truncated)
  with True assms(1) show ?thesis
    by (simp add: client_apply_def represents_def)
next
  case False
  with assms have "r = \<lparr>replay_data = drop (unat off) h, replay_offset = total_written b,
     replay_reset = False, replay_truncated = False\<rparr>"
    by (simp add: read_replay_delta)
  with False assms(1) show ?thesis
    by (simp add: client_apply_def represents_def)
qed

theorem replay_resynchronises_witness:
  "client_apply [1, 2, 3]
     (read_replay \<lparr>data = [3, 4], capacity = 2, total_written = 4\<rparr> (Some 3)) = [1, 2, 3, 4]"
proof -
  let ?b = "\<lparr>data = [3, 4], capacity = 2, total_written = 4\<rparr> :: scrollback_buffer"
  have "represents ?b [1, 2, 3, 4]" by (simp add: represents_def suffix_def)
  from replay_resynchronises [OF this, of 3] show ?thesis by simp
qed

section \<open>Restoring a persisted terminal\<close>

text \<open>
  \<open>retains b h\<close> is the exact form of \<open>represents\<close>: nothing within capacity was dropped,
  which holds as long as the buffer is not cleared.
\<close>

definition retains :: "scrollback_buffer \<Rightarrow> bytes \<Rightarrow> bool" where
  "retains b h \<longleftrightarrow> data b = last_n (capacity b) h \<and> unat (total_written b) = length h"

lemma retains_represents: "retains b h \<Longrightarrow> represents b h"
  by (auto simp: retains_def represents_def suffix_last_n)

lemma last_n_append_last_n:
  "last_n n (last_n n xs @ last_n n ys) = last_n n (xs @ ys)"
  by (simp add: last_n_append min_def)

text \<open>
  Restart. When the snapshot of the old buffer is hydrated in front of what the
  relaunched terminal has already printed, the result is the buffer of the joined
  history, so offsets handed out before the restart stay meaningful.
\<close>

lemma hydrate_prefix_joins_histories:
  assumes "retains old h0" and "retains fresh h1" and "capacity old = capacity fresh"
    and "length h0 + length h1 < 2 ^ 64"
  shows "retains (hydrate_prefix fresh (fst (buffer_snapshot old)) (snd (buffer_snapshot old)))
    (h0 @ h1)"
  using assms
  by (simp add: retains_def hydrate_prefix_fields buffer_snapshot_def last_n_append_last_n
      unat_saturating_add)

end
