(* ===== verification/Text.thy ===== *)
theory Text
  imports Prelude
begin

text \<open>
  The string operations of the Rust standard library that the modelled code uses. A
  \<open>String\<close> is its UTF-8 byte sequence, one \<open>char\<close> per byte; every separator and every
  character class the code tests for is ASCII, so byte-wise splitting and testing agree
  with Rust's character-wise ones.
\<close>

section \<open>Prefixes, suffixes and splitting\<close>

definition strip_prefix_str :: "string \<Rightarrow> string \<Rightarrow> string option" where
  "strip_prefix_str p s = (if take (length p) s = p then Some (drop (length p) s) else None)"

definition starts_with :: "string \<Rightarrow> string \<Rightarrow> bool" where
  "starts_with p s \<longleftrightarrow> take (length p) s = p"

definition ends_with :: "string \<Rightarrow> string \<Rightarrow> bool" where
  "ends_with p s \<longleftrightarrow> length p \<le> length s \<and> drop (length s - length p) s = p"

fun split_once :: "char \<Rightarrow> string \<Rightarrow> (string \<times> string) option" where
  "split_once c [] = None"
| "split_once c (x # xs) =
     (if x = c then Some ([], xs) else map_option (\<lambda>(a, b). (x # a, b)) (split_once c xs))"

definition rsplit_once :: "char \<Rightarrow> string \<Rightarrow> (string \<times> string) option" where
  "rsplit_once c s = map_option (\<lambda>(a, b). (rev b, rev a)) (split_once c (rev s))"

fun split_on :: "char \<Rightarrow> string \<Rightarrow> string list" where
  "split_on c [] = [[]]"
| "split_on c (x # xs) =
     (if x = c then [] # split_on c xs
      else (case split_on c xs of [] \<Rightarrow> [[x]] | y # ys \<Rightarrow> (x # y) # ys))"

definition is_ascii_space :: "char \<Rightarrow> bool" where
  "is_ascii_space c \<longleftrightarrow> of_char c \<in> {9, 10, 11, 12, 13, 32 :: nat}"

definition trim_start :: "string \<Rightarrow> string" where
  "trim_start s = dropWhile is_ascii_space s"

definition trim_end :: "string \<Rightarrow> string" where
  "trim_end s = rev (dropWhile is_ascii_space (rev s))"

definition trim_ascii :: "string \<Rightarrow> string" where
  "trim_ascii s = trim_end (trim_start s)"

lemma strip_prefix_str_Some: "strip_prefix_str p s = Some r \<longleftrightarrow> s = p @ r"
proof (cases "take (length p) s = p")
  case True
  then have "p @ drop (length p) s = s" by (metis append_take_drop_id)
  with True show ?thesis by (auto simp: strip_prefix_str_def)
next
  case False
  then show ?thesis by (auto simp: strip_prefix_str_def)
qed

lemma strip_prefix_str_append [simp]: "strip_prefix_str p (p @ r) = Some r"
  by (simp add: strip_prefix_str_def)

lemma split_once_Some: "split_once c s = Some (a, b) \<longleftrightarrow> s = a @ c # b \<and> c \<notin> set a"
proof (induction s arbitrary: a)
  case Nil
  show ?case by simp
next
  case (Cons x xs)
  show ?case
  proof (cases "x = c")
    case True
    then show ?thesis by (cases a) auto
  next
    case False
    with Cons.IH show ?thesis by (cases a) (auto split: prod.splits)
  qed
qed

lemma split_once_append [simp]: "c \<notin> set a \<Longrightarrow> split_once c (a @ c # b) = Some (a, b)"
  by (simp add: split_once_Some)

lemma split_once_None: "split_once c s = None \<longleftrightarrow> c \<notin> set s"
  by (induction s) auto

lemma split_on_nonempty [simp]: "split_on c s \<noteq> []"
  by (induction s) (auto split: list.splits)

fun join_with :: "char \<Rightarrow> string list \<Rightarrow> string" where
  "join_with c [] = []"
| "join_with c [x] = x"
| "join_with c (x # y # ys) = x @ c # join_with c (y # ys)"

lemma join_with_Cons: "ys \<noteq> [] \<Longrightarrow> join_with c (x # ys) = x @ c # join_with c ys"
  by (cases ys) simp_all

lemma join_with_append:
  "xs \<noteq> [] \<Longrightarrow> ys \<noteq> [] \<Longrightarrow> join_with c (xs @ ys) = join_with c xs @ c # join_with c ys"
  by (induction xs rule: join_with.induct) (simp_all add: join_with_Cons)

lemma join_split [simp]: "join_with c (split_on c s) = s"
proof (induction s)
  case Nil
  show ?case by simp
next
  case (Cons x xs)
  obtain y ys where "split_on c xs = y # ys"
    using split_on_nonempty [of c xs] by (cases "split_on c xs") auto
  with Cons.IH show ?case by (cases ys) (auto simp: join_with_Cons)
qed

lemma split_on_free: "p \<in> set (split_on c s) \<Longrightarrow> c \<notin> set p"
proof (induction s arbitrary: p)
  case Nil
  then show ?case by simp
next
  case (Cons x xs)
  obtain y ys where "split_on c xs = y # ys"
    using split_on_nonempty [of c xs] by (cases "split_on c xs") auto
  with Cons show ?case by (auto split: if_splits)
qed

lemma set_split_on: "p \<in> set (split_on c s) \<Longrightarrow> set p \<subseteq> set s"
proof (induction s arbitrary: p)
  case Nil
  then show ?case by simp
next
  case (Cons x xs)
  obtain y ys where ys: "split_on c xs = y # ys"
    using split_on_nonempty [of c xs] by (cases "split_on c xs") auto
  with Cons.IH have "set q \<subseteq> set xs" if "q \<in> set (y # ys)" for q using that by metis
  with ys Cons.prems show ?case by (fastforce split: if_splits)
qed

section \<open>Paths\<close>

text \<open>
  \<open>Path::file_name\<close> and \<open>Path::extension\<close> on Unix: empty and \<open>.\<close> components are
  normalised away, \<open>..\<close> has no file name, and a leading dot does not start an extension.
\<close>

definition path_file_name :: "string \<Rightarrow> string option" where
  "path_file_name p =
     (case rev (filter (\<lambda>c. c \<noteq> [] \<and> c \<noteq> ''.'') (split_on (CHR ''/'') p)) of
        [] \<Rightarrow> None
      | c # _ \<Rightarrow> if c = ''..'' then None else Some c)"

definition path_extension :: "string \<Rightarrow> string option" where
  "path_extension p =
     (case path_file_name p of
        None \<Rightarrow> None
      | Some name \<Rightarrow>
          (case rsplit_once (CHR ''.'') name of
             None \<Rightarrow> None
           | Some (before, after) \<Rightarrow> if before = [] then None else Some after))"

section \<open>ASCII character classes\<close>

definition is_ascii_digit :: "char \<Rightarrow> bool" where
  "is_ascii_digit c \<longleftrightarrow> 48 \<le> (of_char c :: nat) \<and> (of_char c :: nat) \<le> 57"

definition is_ascii_uppercase :: "char \<Rightarrow> bool" where
  "is_ascii_uppercase c \<longleftrightarrow> 65 \<le> (of_char c :: nat) \<and> (of_char c :: nat) \<le> 90"

definition is_ascii_lowercase :: "char \<Rightarrow> bool" where
  "is_ascii_lowercase c \<longleftrightarrow> 97 \<le> (of_char c :: nat) \<and> (of_char c :: nat) \<le> 122"

definition is_ascii_alphabetic :: "char \<Rightarrow> bool" where
  "is_ascii_alphabetic c \<longleftrightarrow> is_ascii_uppercase c \<or> is_ascii_lowercase c"

definition is_ascii_alphanumeric :: "char \<Rightarrow> bool" where
  "is_ascii_alphanumeric c \<longleftrightarrow> is_ascii_alphabetic c \<or> is_ascii_digit c"

definition is_ascii_hexdigit :: "char \<Rightarrow> bool" where
  "is_ascii_hexdigit c \<longleftrightarrow> is_ascii_digit c \<or>
     (65 \<le> (of_char c :: nat) \<and> (of_char c :: nat) \<le> 70) \<or>
     (97 \<le> (of_char c :: nat) \<and> (of_char c :: nat) \<le> 102)"

definition to_ascii_lower :: "char \<Rightarrow> char" where
  "to_ascii_lower c = (if is_ascii_uppercase c then char_of ((of_char c :: nat) + 32) else c)"

definition to_ascii_lowercase :: "string \<Rightarrow> string" where
  "to_ascii_lowercase s = map to_ascii_lower s"

definition eq_ignore_ascii_case :: "string \<Rightarrow> string \<Rightarrow> bool" where
  "eq_ignore_ascii_case a b \<longleftrightarrow> to_ascii_lowercase a = to_ascii_lowercase b"

lemmas ascii_class_defs = is_ascii_digit_def is_ascii_uppercase_def is_ascii_lowercase_def
  is_ascii_alphabetic_def is_ascii_alphanumeric_def is_ascii_hexdigit_def

section \<open>Decimal numbers\<close>

definition digit_char :: "nat \<Rightarrow> char" where
  "digit_char d = char_of (48 + d)"

fun dec :: "nat \<Rightarrow> string" where
  "dec n = (if n < 10 then [digit_char n] else dec (n div 10) @ [digit_char (n mod 10)])"

declare dec.simps [simp del]

definition digits_value :: "string \<Rightarrow> nat" where
  "digits_value s = foldl (\<lambda>acc c. acc * 10 + ((of_char c :: nat) - 48)) 0 s"

text \<open>
  \<open>str::parse\<close> for an unsigned type of \<open>w\<close> bits: one optional plus sign, then at least one
  digit, and the value fits.
\<close>

definition parse_unsigned :: "nat \<Rightarrow> string \<Rightarrow> nat option" where
  "parse_unsigned w s =
     (let ds = (case s of c # cs \<Rightarrow> if c = CHR ''+'' then cs else s | [] \<Rightarrow> [])
      in if ds = [] \<or> \<not> list_all is_ascii_digit ds then None
         else if digits_value ds < 2 ^ w then Some (digits_value ds) else None)"

lemma of_char_digit [simp]: "d < 10 \<Longrightarrow> of_char (digit_char d) = (48 + d :: nat)"
  by (simp add: digit_char_def)

lemma digit_char_is_digit: "d < 10 \<Longrightarrow> is_ascii_digit (digit_char d)"
  by (simp add: is_ascii_digit_def)

lemma dec_nonempty [simp]: "dec n \<noteq> []"
  by (subst dec.simps) simp

lemma dec_digits: "list_all is_ascii_digit (dec n)"
proof (induction n rule: dec.induct)
  case (1 n)
  show ?case
  proof (cases "n < 10")
    case True
    then show ?thesis by (subst dec.simps) (simp add: digit_char_is_digit)
  next
    case False
    with "1.IH" show ?thesis by (subst dec.simps) (simp add: digit_char_is_digit)
  qed
qed

lemma digits_value_dec: "digits_value (dec n) = n"
proof (induction n rule: dec.induct)
  case (1 n)
  show ?case
  proof (cases "n < 10")
    case True
    then show ?thesis by (subst dec.simps) (simp add: digits_value_def)
  next
    case False
    with "1.IH" show ?thesis by (subst dec.simps) (simp add: digits_value_def)
  qed
qed

lemma digit_not_sign: "is_ascii_digit c \<Longrightarrow> c \<noteq> CHR ''+'' \<and> c \<noteq> CHR ''-'' \<and> c \<noteq> CHR '',''"
  by (auto simp: is_ascii_digit_def)

lemma dec_no_sign: "CHR ''+'' \<notin> set (dec n)" "CHR ''-'' \<notin> set (dec n)" "CHR '','' \<notin> set (dec n)"
  using dec_digits [of n] digit_not_sign by (auto simp: list_all_iff)

lemma parse_dec: "n < 2 ^ w \<Longrightarrow> parse_unsigned w (dec n) = Some n"
proof -
  assume fits: "n < 2 ^ w"
  obtain c cs where ds: "dec n = c # cs" by (cases "dec n") auto
  then have "c \<noteq> CHR ''+''" using dec_no_sign(1) [of n] by auto
  with ds fits dec_digits [of n] digits_value_dec [of n] show ?thesis
    by (simp add: parse_unsigned_def)
qed

lemma parse_unsigned_bound: "parse_unsigned w s = Some n \<Longrightarrow> n < 2 ^ w"
  by (auto simp: parse_unsigned_def Let_def split: if_splits list.splits)

lemma parse_unsigned_Nil [simp]: "parse_unsigned w [] = None"
  by (simp add: parse_unsigned_def)

section \<open>Unicode white space, lines and lower case\<close>

text \<open>
  \<open>str::trim\<close> removes characters with the Unicode property White\_Space. \<open>ws_chars\<close> lists
  their UTF-8 encodings: the six ASCII ones, U+0085, U+00A0, U+1680, U+2000 to U+200A,
  U+2028, U+2029, U+202F, U+205F and U+3000.
\<close>

definition ws_chars :: "string list" where
  "ws_chars = map (map char_of)
     ([[9], [10], [11], [12], [13], [32], [194, 133], [194, 160], [225, 154, 128],
       [226, 128, 128], [226, 128, 129], [226, 128, 130], [226, 128, 131], [226, 128, 132],
       [226, 128, 133], [226, 128, 134], [226, 128, 135], [226, 128, 136], [226, 128, 137],
       [226, 128, 138], [226, 128, 168], [226, 128, 169], [226, 128, 175], [226, 129, 159],
       [227, 128, 128]] :: nat list list)"

text \<open>
  \<open>drop_ws ws\<close> removes leading white space; the rest is strictly shorter at every step, so
  the length of the text is enough fuel.
\<close>

fun drop_ws_fuel :: "nat \<Rightarrow> string list \<Rightarrow> string \<Rightarrow> string" where
  "drop_ws_fuel 0 ws s = s"
| "drop_ws_fuel (Suc n) ws s =
     (case find (\<lambda>w. starts_with w s) ws of
        None \<Rightarrow> s
      | Some w \<Rightarrow> drop_ws_fuel n ws (drop (length w) s))"

definition drop_ws :: "string list \<Rightarrow> string \<Rightarrow> string" where
  "drop_ws ws s = drop_ws_fuel (length s) ws s"

definition trim_str :: "string \<Rightarrow> string" where
  "trim_str s = rev (drop_ws (map rev ws_chars) (rev (drop_ws ws_chars s)))"

text \<open>
  \<open>str::lines\<close>: a line ends with a newline, optionally preceded by a carriage return, which
  is removed only then; an empty last line is not a line.
\<close>

definition NL :: char where "NL = CHR 0x0A"

definition CR :: char where "CR = CHR 0x0D"

definition strip_cr :: "string \<Rightarrow> string" where
  "strip_cr s = (if s \<noteq> [] \<and> last s = CR then butlast s else s)"

definition str_lines :: "string \<Rightarrow> string list" where
  "str_lines s = (let ps = split_on NL s in
     map strip_cr (butlast ps) @ (if last ps = [] then [] else [last ps]))"

text \<open>
  \<open>str::to_lowercase\<close>, as far as a comparison with an ASCII text can tell: besides the
  ASCII letters the only character whose lower case form is ASCII is the Kelvin sign
  U+212A (bytes E2 84 AA).
\<close>

fun to_lowercase_str :: "string \<Rightarrow> string" where
  "to_lowercase_str (a # b # c # s) =
     (if a = CHR 0xE2 \<and> b = CHR 0x84 \<and> c = CHR 0xAA then CHR ''k'' # to_lowercase_str s
      else to_ascii_lower a # to_lowercase_str (b # c # s))"
| "to_lowercase_str s = map to_ascii_lower s"

definition contains_str :: "string \<Rightarrow> string \<Rightarrow> bool" where
  "contains_str p s \<longleftrightarrow> list_ex (\<lambda>n. starts_with p (drop n s)) [0 ..< length s + 1]"

lemma starts_with_iff: "starts_with p s \<longleftrightarrow> (\<exists>r. s = p @ r)"
  unfolding starts_with_def by (metis append_eq_conv_conj append_take_drop_id)

lemma ends_with_iff: "ends_with p s \<longleftrightarrow> (\<exists>r. s = r @ p)"
proof
  assume "ends_with p s"
  then have "s = take (length s - length p) s @ p"
    by (metis append_take_drop_id ends_with_def)
  then show "\<exists>r. s = r @ p" by blast
qed (auto simp: ends_with_def)

lemma set_drop_ws_fuel: "set (drop_ws_fuel n ws s) \<subseteq> set s"
  by (induction n ws s rule: drop_ws_fuel.induct)
    (auto split: option.splits dest: in_set_dropD)

lemma set_trim_str: "set (trim_str s) \<subseteq> set s"
  using set_drop_ws_fuel unfolding trim_str_def drop_ws_def
  by (metis (no_types, lifting) order_trans set_rev)

lemma set_strip_cr: "set (strip_cr s) \<subseteq> set s"
  by (auto simp: strip_cr_def dest: in_set_butlastD)

lemma str_lines_elem:
  assumes "l \<in> set (str_lines s)"
  obtains p where "p \<in> set (split_on NL s)" "set l \<subseteq> set p"
proof -
  consider p where "p \<in> set (butlast (split_on NL s))" "l = strip_cr p" | "l = last (split_on NL s)"
    using assms by (auto simp: str_lines_def Let_def split: if_splits)
  then show ?thesis
  proof cases
    case 1
    then show ?thesis using that [of p] set_strip_cr [of p] by (auto dest: in_set_butlastD)
  next
    case 2
    then show ?thesis using that [of l] by simp
  qed
qed

lemma str_lines_free: "l \<in> set (str_lines s) \<Longrightarrow> NL \<notin> set l"
  by (elim str_lines_elem) (auto dest: split_on_free)

lemma set_str_lines: "l \<in> set (str_lines s) \<Longrightarrow> set l \<subseteq> set s"
  by (elim str_lines_elem) (use set_split_on in blast)

lemma split_on_append_sep: "c \<notin> set a \<Longrightarrow> split_on c (a @ c # s) = a # split_on c s"
  by (induction a) auto

lemma split_on_id: "c \<notin> set a \<Longrightarrow> split_on c a = [a]"
  by (induction a) auto

lemma split_on_join:
  "\<forall>l \<in> set ls. c \<notin> set l \<Longrightarrow> ls \<noteq> [] \<Longrightarrow> split_on c (join_with c ls @ [c]) = ls @ [[]]"
proof (induction ls rule: join_with.induct)
  case (2 c x)
  then show ?case by (simp add: split_on_append_sep)
next
  case (3 c x y ys)
  then show ?case by (simp add: split_on_append_sep)
qed simp

lemma strip_cr_id: "CR \<notin> set l \<Longrightarrow> strip_cr l = l"
  unfolding strip_cr_def by (metis last_in_set)

lemma str_lines_join:
  assumes "\<forall>l \<in> set ls. NL \<notin> set l \<and> CR \<notin> set l" "ls \<noteq> []"
  shows "str_lines (join_with NL ls @ [NL]) = ls"
proof -
  have "map strip_cr ls = ls" using assms(1) by (intro map_idI strip_cr_id) blast
  with assms show ?thesis by (simp add: str_lines_def split_on_join)
qed

definition graphic :: "char \<Rightarrow> bool" where
  "graphic c \<longleftrightarrow> 33 \<le> (of_char c :: nat) \<and> (of_char c :: nat) \<le> 126"

lemma ws_edges:
  assumes "w \<in> set ws_chars"
  shows "w \<noteq> []" "\<not> graphic (hd w)" "\<not> graphic (last w)"
  using assms by (auto simp: ws_chars_def graphic_def)

lemma drop_ws_graphic:
  assumes "\<forall>w \<in> set ws. w \<noteq> [] \<and> \<not> graphic (hd w)" "s = [] \<or> graphic (hd s)"
  shows "drop_ws ws s = s"
proof -
  have "\<not> starts_with w s" if "w \<in> set ws" for w
  proof
    assume sw: "starts_with w s"
    from assms(1) that obtain c cs where w: "w = c # cs" "\<not> graphic c" by (cases w) auto
    with sw have "s \<noteq> [] \<and> hd s = c" by (auto simp: starts_with_iff)
    with assms(2) w show False by auto
  qed
  then have none: "find (\<lambda>w. starts_with w s) ws = None" by (auto simp: find_None_iff)
  show ?thesis unfolding drop_ws_def using none by (cases "length s") auto
qed

lemma trim_str_id:
  assumes "s = [] \<or> graphic (hd s) \<and> graphic (last s)"
  shows "trim_str s = s"
proof -
  have "drop_ws ws_chars s = s"
    using assms ws_edges by (intro drop_ws_graphic) auto
  moreover have "drop_ws (map rev ws_chars) (rev s) = rev s"
    using assms ws_edges by (intro drop_ws_graphic) (auto simp: hd_rev)
  ultimately show ?thesis by (simp add: trim_str_def)
qed

end
