(* ===== verification/Byte_Range.thy ===== *)
theory Byte_Range
  imports Text
begin

text \<open>
  The HTTP range parser of the media endpoints (\<open>server/src/api/http_byte_range.rs\<close>), on
  64-bit words. Its error type carries no information, so it is \<open>unit\<close>.
\<close>

record byte_range =
  br_start :: u64
  br_end :: u64

definition byte_range_len :: "byte_range \<Rightarrow> u64 option" where
  "byte_range_len r =
     (case checked_sub (br_end r) (br_start r) of None \<Rightarrow> None | Some d \<Rightarrow> checked_add d 1)"

definition parse_u64 :: "string \<Rightarrow> unit + u64" where
  "parse_u64 value =
     (if value = [] then Inl ()
      else (case parse_unsigned 64 value of None \<Rightarrow> Inl () | Some n \<Rightarrow> Inr (of_nat n)))"

definition parse_single_range :: "string \<Rightarrow> u64 \<Rightarrow> unit + byte_range" where
  "parse_single_range value sz =
     (if sz = 0 then Inl ()
      else (case strip_prefix_str ''bytes='' value of
        None \<Rightarrow> Inl ()
      | Some rng \<Rightarrow>
          if CHR '','' \<in> set rng then Inl ()
          else (case split_once (CHR ''-'') rng of
            None \<Rightarrow> Inl ()
          | Some (fst_part, lst_part) \<Rightarrow>
              if CHR ''-'' \<in> set lst_part then Inl ()
              else if fst_part = [] then
                and_then (parse_u64 lst_part) (\<lambda>suffix.
                  if suffix = 0 then Inl ()
                  else (let len = min suffix sz
                        in Inr \<lparr>br_start = sz - len, br_end = sz - 1\<rparr>))
              else
                and_then (parse_u64 fst_part) (\<lambda>start.
                  if sz \<le> start then Inl ()
                  else and_then
                    (if lst_part = [] then Inr (sz - 1)
                     else and_then (parse_u64 lst_part) (\<lambda>e. Inr (min e (sz - 1))))
                    (\<lambda>end_pos.
                       if end_pos < start then Inl ()
                       else Inr \<lparr>br_start = start, br_end = end_pos\<rparr>)))))"

lemma parse_u64_dec [simp]: "n < 2 ^ 64 \<Longrightarrow> parse_u64 (dec n) = Inr (of_nat n)"
  using parse_dec [of n 64] by (simp add: parse_u64_def)

lemma parse_u64_unat [simp]: "parse_u64 (dec (unat (w :: u64))) = Inr w"
proof -
  have "unat w < 2 ^ 64" using unsigned_less [of w, where ?'a = nat] by simp
  then show ?thesis by simp
qed

lemma min_word_pred:
  fixes e sz :: u64
  assumes "sz \<noteq> 0"
  shows "unat (min e (sz - 1)) = min (unat e) (unat sz - 1)"
proof -
  have "unat (sz - 1) = unat sz - 1" using assms by (rule unat_minus_one)
  then show ?thesis by (simp add: min_def word_le_nat_alt)
qed

lemma parse_single_range_bounds:
  assumes "parse_single_range value sz = Inr r"
  shows "unat (br_start r) \<le> unat (br_end r) \<and> unat (br_end r) < unat sz \<and>
    (\<exists>n. byte_range_len r = Some n \<and> unat n = unat (br_end r) - unat (br_start r) + 1 \<and>
       0 < unat n \<and> unat n \<le> unat sz)"
proof -
  have sz: "sz \<noteq> 0"
    using assms by (auto simp: parse_single_range_def)
  then have pred: "unat (sz - 1) = unat sz - 1" and pos: "0 < unat sz"
    by (simp_all add: unat_minus_one unat_gt_0)
  have nz: "x \<noteq> 0 \<Longrightarrow> Suc 0 \<le> unat x" for x :: u64
    by (simp add: Suc_le_eq unat_gt_0)
  have bounds: "unat (br_start r) \<le> unat (br_end r) \<and> unat (br_end r) < unat sz"
    using assms sz pred pos
    by (auto simp: parse_single_range_def Let_def and_then_Inr_iff not_less word_le_nat_alt
        word_less_nat_alt unat_sub_le min_def split: option.splits if_splits)
      (simp add: nz diff_le_mono2)
  have "unat sz < 2 ^ 64" using unsigned_less [of sz, where ?'a = nat] by simp
  with bounds have "unat (br_end r) - unat (br_start r) + 1 < 2 ^ 64" by linarith
  moreover have order: "br_start r \<le> br_end r" using bounds by (simp add: word_le_nat_alt)
  ultimately have "unat (br_end r - br_start r) + unat (1 :: u64) < 2 ^ LENGTH(64)"
    "br_start r \<le> br_end r"
    by (simp_all add: unat_sub_le)
  then show ?thesis
    using bounds
    by (auto simp: byte_range_len_def checked_sub_def checked_add_def unat_add_no_overflow
        unat_sub_le)
qed

text \<open>
  Every accepted range lies inside the representation: \<open>start \<le> end < size\<close>, its
  length does not overflow, and it is positive and at most the size.
\<close>

lemma parse_single_range_within:
  assumes "parse_single_range value sz = Inr r"
  shows "unat (br_start r) \<le> unat (br_end r) \<and> unat (br_end r) < unat sz \<and>
    (\<exists>n. byte_range_len r = Some n \<and> unat n = unat (br_end r) - unat (br_start r) + 1 \<and>
       0 < unat n \<and> unat n \<le> unat sz)"
  using assms by (rule parse_single_range_bounds)

text \<open>
  The three forms of a byte range mean what RFC 9110 says: a closed range is cut at
  the last byte, an open range runs to the last byte, a suffix range is the last \<open>n\<close>
  bytes (all of them when \<open>n\<close> is larger than the representation).
\<close>

lemma parse_single_range_forms:
  fixes a b n sz :: u64
  shows
  "a < sz \<and> a \<le> b \<Longrightarrow>
     parse_single_range (''bytes='' @ dec (unat a) @ ''-'' @ dec (unat b)) sz =
       Inr \<lparr>br_start = a, br_end = min b (sz - 1)\<rparr> \<and>
     parse_single_range (''bytes='' @ dec (unat a) @ ''-'') sz =
       Inr \<lparr>br_start = a, br_end = sz - 1\<rparr> \<and>
     (0 < n \<longrightarrow> parse_single_range (''bytes=-'' @ dec (unat n)) sz =
       Inr \<lparr>br_start = sz - min n sz, br_end = sz - 1\<rparr>)"
proof -
  assume ab: "a < sz \<and> a \<le> b"
  then have sz: "sz \<noteq> 0" by auto
  have once: "split_once (CHR ''-'') (dec (unat a) @ CHR ''-'' # rest) = Some (dec (unat a), rest)"
    for rest by (rule split_once_append) (rule dec_no_sign)
  have le: "a \<le> sz - 1"
    using ab sz by (auto simp: word_le_nat_alt word_less_nat_alt unat_minus_one)
  have pre: "strip_prefix_str ''bytes='' (CHR ''b'' # CHR ''y'' # CHR ''t'' # CHR ''e'' # CHR ''s''
      # CHR ''='' # rest) = Some rest" for rest
    by (simp add: strip_prefix_str_def)
  show ?thesis
    using ab sz le
    by (auto simp: parse_single_range_def pre once dec_no_sign not_le not_less min_def)
qed

end
