(* ===== verification/Media_Tickets.thy ===== *)
theory Media_Tickets
  imports Prelude
begin

text \<open>
  The media ticket store (\<open>server/src/fs/media_ticket.rs\<close> and the session types of
  \<open>media_session.rs\<close>): short-lived capabilities for streaming a project file, bound to a
  cookie session, with idle and absolute expiry, revocation, a context generation and
  ticket incarnations for the check-then-finalise protocol of the stream handler. The
  mutex makes every operation one atomic step on \<open>media_ticket_inner\<close>. The monotonic clock
  is an argument (milliseconds), so are the random draws (\<open>draw k\<close> is the result of the
  \<open>k\<close>-th attempt of a call) and the SHA-256 digest of a token (\<open>sha\<close>).
\<close>

section \<open>Records\<close>

type_synonym instant = nat
type_synonym media_session_digest = bytes
type_synonym media_session_token = string

definition MEDIA_SESSION_IDLE_TTL :: nat where
  "MEDIA_SESSION_IDLE_TTL = 30 * 60 * 1000"

definition MEDIA_SESSION_ABSOLUTE_TTL :: nat where
  "MEDIA_SESSION_ABSOLUTE_TTL = 8 * 60 * 60 * 1000"

definition MEDIA_TICKET_IDLE_TTL :: nat where
  "MEDIA_TICKET_IDLE_TTL = 15 * 60 * 1000"

definition MEDIA_TICKET_ABSOLUTE_TTL :: nat where
  "MEDIA_TICKET_ABSOLUTE_TTL = 8 * 60 * 60 * 1000"

lemmas ttl_defs = MEDIA_SESSION_IDLE_TTL_def MEDIA_SESSION_ABSOLUTE_TTL_def
  MEDIA_TICKET_IDLE_TTL_def MEDIA_TICKET_ABSOLUTE_TTL_def

datatype media_ticket_kind = Video | Image

datatype media_ticket_purpose = Playback | Download | Preview

record project_worktree =
  wt_path :: string
  wt_repository_path :: string
  wt_branch :: string
  wt_commit_hash :: string
  wt_is_main :: bool
  wt_is_locked :: bool
  wt_is_detached :: bool
  wt_is_bare :: bool
  wt_is_prunable :: bool
  wt_is_available :: bool

record resolved_project_target =
  rt_project :: string
  rt_configured_root :: string
  rt_target_path :: string
  rt_target_key :: string
  rt_is_root :: bool
  rt_available :: bool
  rt_worktree :: "project_worktree option"

record media_file_version =
  mf_canonical_path :: string
  mf_size :: u64
  mf_modified :: int
  mf_validator :: string
  mf_device :: u64
  mf_inode :: u64

record media_ticket_record =
  mr_kind :: media_ticket_kind
  mr_purpose :: media_ticket_purpose
  mr_target :: resolved_project_target
  mr_project_relative_path :: string
  mr_file :: media_file_version
  mr_mime :: string
  mr_filename :: string

record media_session_binding =
  mb_actor_subject :: string
  mb_session_digest :: media_session_digest

record media_session_lease =
  ml_token :: media_session_token
  ml_binding :: media_session_binding

record media_ticket_lease =
  tl_ticket :: string
  tl_expires_at_epoch_ms :: nat

record media_ticket_authorization =
  ma_record :: media_ticket_record
  ma_ticket_incarnation :: u64
  ma_binding :: media_session_binding

record media_ticket_bound_lease =
  bl_ticket :: media_ticket_lease
  bl_session :: media_session_lease

datatype media_ticket_issue =
  TicketIssued media_ticket_lease | TicketCapacity | TicketContextChanged

datatype media_ticket_bound_issue =
  BoundIssued media_ticket_bound_lease | BoundCapacity | BoundContextChanged

datatype media_session_issue = SessionIssued media_session_lease | SessionCapacity

record stored_media_ticket =
  st_record :: media_ticket_record
  st_binding :: "media_session_binding option"
  st_incarnation :: u64
  st_idle_expires_at :: instant
  st_absolute_expires_at :: instant

record stored_media_session =
  ss_actor_subject :: string
  ss_idle_expires_at :: instant
  ss_absolute_expires_at :: instant

record media_ticket_inner =
  tickets :: "string \<rightharpoonup> stored_media_ticket"
  sessions :: "media_session_digest \<rightharpoonup> stored_media_session"
  generation :: u64
  next_incarnation :: u64

definition media_store_new :: media_ticket_inner where
  "media_store_new =
     \<lparr>tickets = Map.empty, sessions = Map.empty, generation = 0, next_incarnation = 0\<rparr>"

section \<open>Helpers of the store\<close>

definition digest_matches :: "media_session_digest \<Rightarrow> media_session_digest \<Rightarrow> bool" where
  "digest_matches a b \<longleftrightarrow> a = b"

definition ticket_expired :: "stored_media_ticket \<Rightarrow> instant \<Rightarrow> bool" where
  "ticket_expired t now \<longleftrightarrow> st_idle_expires_at t \<le> now \<or> st_absolute_expires_at t \<le> now"

definition session_expired :: "stored_media_session \<Rightarrow> instant \<Rightarrow> bool" where
  "session_expired s now \<longleftrightarrow> ss_idle_expires_at s \<le> now \<or> ss_absolute_expires_at s \<le> now"

definition prune_expired :: "media_ticket_inner \<Rightarrow> instant \<Rightarrow> media_ticket_inner" where
  "prune_expired inner now =
     (let inner1 = inner\<lparr>sessions := map_retain (\<lambda>_ s. \<not> session_expired s now) (sessions inner)\<rparr>
      in inner1\<lparr>tickets := map_retain
           (\<lambda>_ t. \<not> ticket_expired t now \<and>
              (case st_binding t of None \<Rightarrow> True
               | Some binding \<Rightarrow> sessions inner1 (mb_session_digest binding) \<noteq> None))
           (tickets inner1)\<rparr>)"

definition next_ticket_incarnation :: "media_ticket_inner \<Rightarrow> u64 \<times> media_ticket_inner" where
  "next_ticket_incarnation inner =
     (next_incarnation inner, inner\<lparr>next_incarnation := next_incarnation inner + 1\<rparr>)"

text \<open>
  The iteration over the session map for an entry with a given digest is a lookup: keys
  are unique and \<open>digest_matches\<close> is equality.
\<close>

definition binding_matches_live_session ::
  "media_session_binding \<Rightarrow> (media_session_digest \<rightharpoonup> stored_media_session) \<Rightarrow> bool" where
  "binding_matches_live_session binding sess =
     (case sess (mb_session_digest binding) of
        None \<Rightarrow> False
      | Some session \<Rightarrow> ss_actor_subject session = mb_actor_subject binding)"

definition session_matches ::
  "(media_session_token \<Rightarrow> media_session_digest) \<Rightarrow> media_session_binding option \<Rightarrow>
   media_session_token option \<Rightarrow> (media_session_digest \<rightharpoonup> stored_media_session) \<Rightarrow> bool" where
  "session_matches sha binding token sess =
     (case (binding, token) of
        (Some b, Some tok) \<Rightarrow>
          (case sess (sha tok) of
             None \<Rightarrow> False
           | Some session \<Rightarrow>
               digest_matches (sha tok) (mb_session_digest b) \<and>
               ss_actor_subject session = mb_actor_subject b)
      | _ \<Rightarrow> binding = None \<and> token = None)"

definition touched_session :: "instant \<Rightarrow> stored_media_session \<Rightarrow> stored_media_session" where
  "touched_session now s =
     s\<lparr>ss_idle_expires_at := min (now + MEDIA_SESSION_IDLE_TTL) (ss_absolute_expires_at s)\<rparr>"

definition touched_ticket :: "instant \<Rightarrow> stored_media_ticket \<Rightarrow> stored_media_ticket" where
  "touched_ticket now t =
     t\<lparr>st_idle_expires_at := min (now + MEDIA_TICKET_IDLE_TTL) (st_absolute_expires_at t)\<rparr>"

definition touch_session :: "media_ticket_inner \<Rightarrow> media_session_digest \<Rightarrow> instant \<Rightarrow> media_ticket_inner" where
  "touch_session inner d now =
     (case sessions inner d of
        None \<Rightarrow> inner
      | Some s \<Rightarrow> inner\<lparr>sessions := (sessions inner)(d \<mapsto> touched_session now s)\<rparr>)"

definition touch_ticket :: "media_ticket_inner \<Rightarrow> string \<Rightarrow> instant \<Rightarrow> media_ticket_inner" where
  "touch_ticket inner ticket now =
     (case tickets inner ticket of
        None \<Rightarrow> inner
      | Some t \<Rightarrow> inner\<lparr>tickets := (tickets inner)(ticket \<mapsto> touched_ticket now t)\<rparr>)"

definition epoch_ms :: "int \<Rightarrow> nat" where
  "epoch_ms time = nat time"

definition first_fresh :: "(nat \<Rightarrow> 'a) \<Rightarrow> ('a \<Rightarrow> bool) \<Rightarrow> 'a option" where
  "first_fresh draw fresh = find fresh (map draw [0..<4])"

section \<open>Operations\<close>

definition establish_session ::
  "(media_session_token \<Rightarrow> media_session_digest) \<Rightarrow> media_ticket_inner \<Rightarrow> instant \<Rightarrow>
   (nat \<Rightarrow> media_session_token) \<Rightarrow> string \<Rightarrow> media_session_token option \<Rightarrow>
   media_ticket_inner \<times> media_session_issue" where
  "establish_session sha inner0 now draw actor existing =
     (let inner = prune_expired inner0 now;
          reuse = (case existing of
             None \<Rightarrow> None
           | Some token \<Rightarrow>
               (case sessions inner (sha token) of
                  None \<Rightarrow> None
                | Some session \<Rightarrow>
                    if ss_actor_subject session = actor then Some token else None))
      in case reuse of
           Some token \<Rightarrow>
             (touch_session inner (sha token) now,
              SessionIssued \<lparr>ml_token = token,
                ml_binding = \<lparr>mb_actor_subject = actor, mb_session_digest = sha token\<rparr>\<rparr>)
         | None \<Rightarrow>
             (case first_fresh draw (\<lambda>token. sessions inner (sha token) = None) of
                None \<Rightarrow> (inner, SessionCapacity)
              | Some token \<Rightarrow>
                  (inner\<lparr>sessions := (sessions inner)(sha token \<mapsto>
                     \<lparr>ss_actor_subject = actor,
                      ss_idle_expires_at = now + MEDIA_SESSION_IDLE_TTL,
                      ss_absolute_expires_at = now + MEDIA_SESSION_ABSOLUTE_TTL\<rparr>)\<rparr>,
                   SessionIssued \<lparr>ml_token = token,
                     ml_binding = \<lparr>mb_actor_subject = actor, mb_session_digest = sha token\<rparr>\<rparr>)))"

definition insert_ticket ::
  "media_ticket_inner \<Rightarrow> instant \<Rightarrow> string \<Rightarrow> media_ticket_record \<Rightarrow>
   media_session_binding option \<Rightarrow> media_ticket_inner" where
  "insert_ticket inner now ticket rec binding =
     (let (incarnation, inner1) = next_ticket_incarnation inner
      in inner1\<lparr>tickets := (tickets inner1)(ticket \<mapsto>
           \<lparr>st_record = rec, st_binding = binding, st_incarnation = incarnation,
            st_idle_expires_at = now + MEDIA_TICKET_IDLE_TTL,
            st_absolute_expires_at = now + MEDIA_TICKET_ABSOLUTE_TTL\<rparr>)\<rparr>)"

definition issue_bound ::
  "(media_session_token \<Rightarrow> media_session_digest) \<Rightarrow> media_ticket_inner \<Rightarrow> instant \<Rightarrow> int \<Rightarrow>
   (nat \<Rightarrow> string) \<Rightarrow> (nat \<Rightarrow> media_session_token) \<Rightarrow> u64 \<Rightarrow> string \<Rightarrow>
   media_session_token option \<Rightarrow> media_ticket_record \<Rightarrow>
   media_ticket_inner \<times> media_ticket_bound_issue" where
  "issue_bound sha inner0 now system draw_ticket draw_session expected_generation actor existing rec =
     (let inner = prune_expired inner0 now
      in if generation inner \<noteq> expected_generation then (inner, BoundContextChanged)
         else
           (let reusable = (case existing of
                None \<Rightarrow> None
              | Some token \<Rightarrow>
                  (case sessions inner (sha token) of
                     None \<Rightarrow> None
                   | Some stored \<Rightarrow>
                       if ss_actor_subject stored = actor then
                         Some \<lparr>ml_token = token, ml_binding =
                           \<lparr>mb_actor_subject = actor, mb_session_digest = sha token\<rparr>\<rparr>
                       else None))
            in case first_fresh draw_ticket (\<lambda>t. tickets inner t = None) of
                 None \<Rightarrow> (inner, BoundCapacity)
               | Some ticket \<Rightarrow>
                   (case (case reusable of
                       Some session \<Rightarrow>
                         Some (touch_session inner (mb_session_digest (ml_binding session)) now, session)
                     | None \<Rightarrow>
                         (case first_fresh draw_session (\<lambda>tok. sessions inner (sha tok) = None) of
                            None \<Rightarrow> None
                          | Some token \<Rightarrow>
                              Some (inner\<lparr>sessions := (sessions inner)(sha token \<mapsto>
                                 \<lparr>ss_actor_subject = actor,
                                  ss_idle_expires_at = now + MEDIA_SESSION_IDLE_TTL,
                                  ss_absolute_expires_at = now + MEDIA_SESSION_ABSOLUTE_TTL\<rparr>)\<rparr>,
                                \<lparr>ml_token = token, ml_binding =
                                  \<lparr>mb_actor_subject = actor, mb_session_digest = sha token\<rparr>\<rparr>)))
                    of None \<Rightarrow> (inner, BoundCapacity)
                     | Some (inner2, session) \<Rightarrow>
                         (insert_ticket inner2 now ticket rec (Some (ml_binding session)),
                          BoundIssued \<lparr>bl_ticket =
                            \<lparr>tl_ticket = ticket,
                             tl_expires_at_epoch_ms = epoch_ms (system + int MEDIA_TICKET_IDLE_TTL)\<rparr>,
                            bl_session = session\<rparr>))))"

definition issue_inner ::
  "media_ticket_inner \<Rightarrow> instant \<Rightarrow> int \<Rightarrow> (nat \<Rightarrow> string) \<Rightarrow> u64 \<Rightarrow> media_ticket_record \<Rightarrow>
   media_session_binding option \<Rightarrow> media_ticket_inner \<times> media_ticket_issue" where
  "issue_inner inner0 now system draw_ticket expected_generation rec binding =
     (let inner = prune_expired inner0 now
      in if generation inner \<noteq> expected_generation then (inner, TicketContextChanged)
         else if \<not> (case binding of None \<Rightarrow> True
                     | Some b \<Rightarrow> binding_matches_live_session b (sessions inner))
         then (inner, TicketCapacity)
         else (case first_fresh draw_ticket (\<lambda>t. tickets inner t = None) of
                 None \<Rightarrow> (inner, TicketCapacity)
               | Some ticket \<Rightarrow>
                   (insert_ticket inner now ticket rec binding,
                    TicketIssued \<lparr>tl_ticket = ticket,
                      tl_expires_at_epoch_ms = epoch_ms (system + int MEDIA_TICKET_IDLE_TTL)\<rparr>)))"

definition ticket_issue ::
  "media_ticket_inner \<Rightarrow> instant \<Rightarrow> int \<Rightarrow> (nat \<Rightarrow> string) \<Rightarrow> u64 \<Rightarrow> media_ticket_record \<Rightarrow>
   media_ticket_inner \<times> media_ticket_issue" where
  "ticket_issue inner now system draw expected_generation rec =
     issue_inner inner now system draw expected_generation rec None"

definition issue_for_session ::
  "media_ticket_inner \<Rightarrow> instant \<Rightarrow> int \<Rightarrow> (nat \<Rightarrow> string) \<Rightarrow> u64 \<Rightarrow> string \<Rightarrow>
   media_session_lease \<Rightarrow> media_ticket_record \<Rightarrow> media_ticket_inner \<times> media_ticket_issue" where
  "issue_for_session inner now system draw expected_generation actor session rec =
     (if mb_actor_subject (ml_binding session) \<noteq> actor then (inner, TicketContextChanged)
      else issue_inner inner now system draw expected_generation rec (Some (ml_binding session)))"

definition authorize_bound ::
  "(media_session_token \<Rightarrow> media_session_digest) \<Rightarrow> media_ticket_inner \<Rightarrow> instant \<Rightarrow> string \<Rightarrow>
   media_ticket_kind \<Rightarrow> media_session_token \<Rightarrow>
   media_ticket_inner \<times> media_ticket_authorization option" where
  "authorize_bound sha inner0 now ticket kind token =
     (let inner = prune_expired inner0 now
      in case tickets inner ticket of
           None \<Rightarrow> (inner, None)
         | Some stored \<Rightarrow>
             (case st_binding stored of
                None \<Rightarrow> (inner, None)
              | Some binding \<Rightarrow>
                  if mr_kind (st_record stored) \<noteq> kind \<or>
                     \<not> session_matches sha (Some binding) (Some token) (sessions inner)
                  then (inner, None)
                  else (inner, Some \<lparr>ma_record = st_record stored,
                          ma_ticket_incarnation = st_incarnation stored, ma_binding = binding\<rparr>)))"

definition authorize_ticket ::
  "media_ticket_inner \<Rightarrow> instant \<Rightarrow> string \<Rightarrow> media_ticket_kind \<Rightarrow>
   media_ticket_inner \<times> media_ticket_authorization option" where
  "authorize_ticket inner0 now ticket kind =
     (let inner = prune_expired inner0 now
      in case tickets inner ticket of
           None \<Rightarrow> (inner, None)
         | Some stored \<Rightarrow>
             (case st_binding stored of
                None \<Rightarrow> (inner, None)
              | Some binding \<Rightarrow>
                  if mr_kind (st_record stored) \<noteq> kind \<or>
                     \<not> binding_matches_live_session binding (sessions inner)
                  then (inner, None)
                  else (inner, Some \<lparr>ma_record = st_record stored,
                          ma_ticket_incarnation = st_incarnation stored, ma_binding = binding\<rparr>)))"

definition finalize_bound_and_touch ::
  "(media_session_token \<Rightarrow> media_session_digest) \<Rightarrow> media_ticket_inner \<Rightarrow> instant \<Rightarrow> string \<Rightarrow>
   media_ticket_kind \<Rightarrow> media_session_token \<Rightarrow> media_ticket_authorization \<Rightarrow>
   media_ticket_inner \<times> bool" where
  "finalize_bound_and_touch sha inner0 now ticket kind token auth =
     (let inner = prune_expired inner0 now
      in case tickets inner ticket of
           None \<Rightarrow> (inner, False)
         | Some stored \<Rightarrow>
             if mr_kind (st_record stored) \<noteq> kind \<or>
                st_incarnation stored \<noteq> ma_ticket_incarnation auth \<or>
                st_binding stored \<noteq> Some (ma_binding auth) \<or>
                \<not> session_matches sha (st_binding stored) (Some token) (sessions inner) \<or>
                sessions inner (mb_session_digest (ma_binding auth)) = None
             then (inner, False)
             else (touch_ticket
                     (touch_session inner (mb_session_digest (ma_binding auth)) now) ticket now,
                   True))"

definition finalize_ticket_and_touch ::
  "media_ticket_inner \<Rightarrow> instant \<Rightarrow> string \<Rightarrow> media_ticket_kind \<Rightarrow>
   media_ticket_authorization \<Rightarrow> media_ticket_inner \<times> bool" where
  "finalize_ticket_and_touch inner0 now ticket kind auth =
     (let inner = prune_expired inner0 now
      in case tickets inner ticket of
           None \<Rightarrow> (inner, False)
         | Some stored \<Rightarrow>
             if mr_kind (st_record stored) \<noteq> kind \<or>
                st_incarnation stored \<noteq> ma_ticket_incarnation auth \<or>
                st_binding stored \<noteq> Some (ma_binding auth) \<or>
                \<not> binding_matches_live_session (ma_binding auth) (sessions inner)
             then (inner, False)
             else (touch_ticket
                     (touch_session inner (mb_session_digest (ma_binding auth)) now) ticket now,
                   True))"

definition lookup_inner ::
  "(media_session_token \<Rightarrow> media_session_digest) \<Rightarrow> media_ticket_inner \<Rightarrow> instant \<Rightarrow> string \<Rightarrow>
   media_ticket_kind \<Rightarrow> media_session_token option \<Rightarrow>
   media_ticket_inner \<times> media_ticket_record option" where
  "lookup_inner sha inner0 now ticket kind token =
     (let inner = prune_expired inner0 now
      in case tickets inner ticket of
           None \<Rightarrow> (inner, None)
         | Some stored \<Rightarrow>
             if mr_kind (st_record stored) \<noteq> kind \<or>
                \<not> session_matches sha (st_binding stored) token (sessions inner)
             then (inner, None)
             else (let inner1 = (case st_binding stored of
                          None \<Rightarrow> inner
                        | Some binding \<Rightarrow> touch_session inner (mb_session_digest binding) now)
                   in (touch_ticket inner1 ticket now, Some (st_record stored))))"

definition lookup_and_touch ::
  "(media_session_token \<Rightarrow> media_session_digest) \<Rightarrow> media_ticket_inner \<Rightarrow> instant \<Rightarrow> string \<Rightarrow>
   media_ticket_kind \<Rightarrow> media_ticket_inner \<times> media_ticket_record option" where
  "lookup_and_touch sha inner now ticket kind = lookup_inner sha inner now ticket kind None"

definition lookup_and_touch_for_session ::
  "(media_session_token \<Rightarrow> media_session_digest) \<Rightarrow> media_ticket_inner \<Rightarrow> instant \<Rightarrow> string \<Rightarrow>
   media_ticket_kind \<Rightarrow> media_session_token \<Rightarrow>
   media_ticket_inner \<times> media_ticket_record option" where
  "lookup_and_touch_for_session sha inner now ticket kind token =
     lookup_inner sha inner now ticket kind (Some token)"

definition ticket_revoke :: "media_ticket_inner \<Rightarrow> string \<Rightarrow> media_ticket_kind \<Rightarrow> media_ticket_inner" where
  "ticket_revoke inner ticket kind =
     (case tickets inner ticket of
        None \<Rightarrow> inner
      | Some stored \<Rightarrow>
          if mr_kind (st_record stored) = kind
          then inner\<lparr>tickets := (tickets inner)(ticket := None)\<rparr> else inner)"

definition revoke_bound ::
  "(media_session_token \<Rightarrow> media_session_digest) \<Rightarrow> media_ticket_inner \<Rightarrow> instant \<Rightarrow> string \<Rightarrow>
   media_ticket_kind \<Rightarrow> string \<Rightarrow> media_session_token \<Rightarrow> media_ticket_inner" where
  "revoke_bound sha inner0 now ticket kind actor token =
     (let inner = prune_expired inner0 now;
          remove = (case tickets inner ticket of
             None \<Rightarrow> False
           | Some stored \<Rightarrow>
               mr_kind (st_record stored) = kind \<and>
               (case st_binding stored of
                  None \<Rightarrow> False
                | Some binding \<Rightarrow>
                    mb_actor_subject binding = actor \<and>
                    session_matches sha (Some binding) (Some token) (sessions inner)))
      in if remove then inner\<lparr>tickets := (tickets inner)(ticket := None)\<rparr> else inner)"

definition drop_session :: "media_ticket_inner \<Rightarrow> media_session_digest \<Rightarrow> media_ticket_inner" where
  "drop_session inner d =
     inner\<lparr>sessions := (sessions inner)(d := None),
           tickets := map_retain (\<lambda>_ t. case st_binding t of None \<Rightarrow> True
              | Some binding \<Rightarrow> mb_session_digest binding \<noteq> d) (tickets inner)\<rparr>"

definition revoke_session_for_actor ::
  "(media_session_token \<Rightarrow> media_session_digest) \<Rightarrow> media_ticket_inner \<Rightarrow> string \<Rightarrow>
   media_session_token \<Rightarrow> media_ticket_inner" where
  "revoke_session_for_actor sha inner actor token =
     (case sessions inner (sha token) of
        None \<Rightarrow> inner
      | Some session \<Rightarrow>
          if ss_actor_subject session = actor then drop_session inner (sha token) else inner)"

definition revoke_session ::
  "(media_session_token \<Rightarrow> media_session_digest) \<Rightarrow> media_ticket_inner \<Rightarrow>
   media_session_token \<Rightarrow> media_ticket_inner" where
  "revoke_session sha inner token =
     (case sessions inner (sha token) of
        None \<Rightarrow> inner
      | Some _ \<Rightarrow> drop_session inner (sha token))"

definition revoke_all :: "media_ticket_inner \<Rightarrow> media_ticket_inner" where
  "revoke_all inner =
     inner\<lparr>tickets := Map.empty, sessions := Map.empty, generation := generation inner + 1\<rparr>"

section \<open>Interface: an entry with an idle and an absolute deadline\<close>

text \<open>
  Tickets and sessions expire by the same rule. The locale states the rule once; both
  kinds of entry interpret it.
\<close>

locale ttl_entry =
  fixes idle :: "'e \<Rightarrow> nat" and absolute :: "'e \<Rightarrow> nat"
    and touched :: "nat \<Rightarrow> 'e \<Rightarrow> 'e" and expired :: "'e \<Rightarrow> nat \<Rightarrow> bool" and ttl :: nat
  assumes expired_iff: "expired e now \<longleftrightarrow> idle e \<le> now \<or> absolute e \<le> now"
    and idle_touched: "idle (touched now e) = min (now + ttl) (absolute e)"
    and absolute_touched: "absolute (touched now e) = absolute e"
    and ttl_positive: "0 < ttl"
begin

lemma expired_mono: "expired e now \<Longrightarrow> now \<le> later \<Longrightarrow> expired e later"
  by (auto simp: expired_iff)

lemma touched_live: "\<not> expired e now \<Longrightarrow> \<not> expired (touched now e) now"
  using ttl_positive by (auto simp: expired_iff idle_touched absolute_touched)

lemma touched_within_absolute: "idle (touched now e) \<le> absolute (touched now e)"
  by (simp add: idle_touched absolute_touched)

lemma touched_expires: "absolute e \<le> later \<Longrightarrow> expired (touched now e) later"
  by (simp add: expired_iff absolute_touched)

end

interpretation ticket_ttl: ttl_entry st_idle_expires_at st_absolute_expires_at touched_ticket
  ticket_expired MEDIA_TICKET_IDLE_TTL
  by unfold_locales (simp_all add: ticket_expired_def touched_ticket_def ttl_defs)

interpretation session_ttl: ttl_entry ss_idle_expires_at ss_absolute_expires_at touched_session
  session_expired MEDIA_SESSION_IDLE_TTL
  by unfold_locales (simp_all add: session_expired_def touched_session_def ttl_defs)

lemma touched_ticket_fields [simp]:
  "st_record (touched_ticket now t) = st_record t"
  "st_binding (touched_ticket now t) = st_binding t"
  "st_incarnation (touched_ticket now t) = st_incarnation t"
  "st_absolute_expires_at (touched_ticket now t) = st_absolute_expires_at t"
  by (simp_all add: touched_ticket_def)

lemma touched_session_fields [simp]:
  "ss_actor_subject (touched_session now s) = ss_actor_subject s"
  "ss_absolute_expires_at (touched_session now s) = ss_absolute_expires_at s"
  by (simp_all add: touched_session_def)

section \<open>Effect of the helpers on the maps\<close>

lemma prune_sessions [step_simps]:
  "sessions (prune_expired inner now) d = Some s \<longleftrightarrow>
     sessions inner d = Some s \<and> \<not> session_expired s now"
  by (simp add: prune_expired_def Let_def)

lemma prune_tickets [step_simps]:
  "tickets (prune_expired inner now) k = Some t \<longleftrightarrow>
     tickets inner k = Some t \<and> \<not> ticket_expired t now \<and>
     (\<forall>b. st_binding t = Some b \<longrightarrow>
        (\<exists>s. sessions inner (mb_session_digest b) = Some s \<and> \<not> session_expired s now))"
  by (auto simp: prune_expired_def Let_def split: option.splits)

lemma prune_counters [step_simps]:
  "generation (prune_expired inner now) = generation inner"
  "next_incarnation (prune_expired inner now) = next_incarnation inner"
  by (simp_all add: prune_expired_def Let_def)

lemma touch_session_maps [step_simps]:
  "sessions (touch_session inner d now) =
     (sessions inner)(d := map_option (touched_session now) (sessions inner d))"
  "tickets (touch_session inner d now) = tickets inner"
  "generation (touch_session inner d now) = generation inner"
  "next_incarnation (touch_session inner d now) = next_incarnation inner"
  by (auto simp: touch_session_def split: option.splits)

lemma touch_ticket_maps [step_simps]:
  "tickets (touch_ticket inner k now) =
     (tickets inner)(k := map_option (touched_ticket now) (tickets inner k))"
  "sessions (touch_ticket inner k now) = sessions inner"
  "generation (touch_ticket inner k now) = generation inner"
  "next_incarnation (touch_ticket inner k now) = next_incarnation inner"
  by (auto simp: touch_ticket_def split: option.splits)

lemma insert_ticket_maps [step_simps]:
  "tickets (insert_ticket inner now k rec b) = (tickets inner)(k \<mapsto>
     \<lparr>st_record = rec, st_binding = b, st_incarnation = next_incarnation inner,
      st_idle_expires_at = now + MEDIA_TICKET_IDLE_TTL,
      st_absolute_expires_at = now + MEDIA_TICKET_ABSOLUTE_TTL\<rparr>)"
  "sessions (insert_ticket inner now k rec b) = sessions inner"
  "generation (insert_ticket inner now k rec b) = generation inner"
  "next_incarnation (insert_ticket inner now k rec b) = next_incarnation inner + 1"
  by (simp_all add: insert_ticket_def next_ticket_incarnation_def)

lemma drop_session_maps [step_simps]:
  "sessions (drop_session inner d) = (sessions inner)(d := None)"
  "tickets (drop_session inner d) k = Some t \<longleftrightarrow>
     tickets inner k = Some t \<and> (\<forall>b. st_binding t = Some b \<longrightarrow> mb_session_digest b \<noteq> d)"
  "generation (drop_session inner d) = generation inner"
  "next_incarnation (drop_session inner d) = next_incarnation inner"
  by (auto simp: drop_session_def split: option.splits)

lemma first_fresh_Some: "first_fresh draw p = Some x \<Longrightarrow> p x"
  by (auto simp: first_fresh_def find_Some_iff)

lemma session_matches_bound:
  "session_matches sha (Some b) (Some tok) sess \<longleftrightarrow>
     mb_session_digest b = sha tok \<and> binding_matches_live_session b sess"
  by (auto simp: session_matches_def binding_matches_live_session_def digest_matches_def
      split: option.splits)

lemma session_matches_Some_token:
  "session_matches sha b (Some tok) sess \<longleftrightarrow>
     (\<exists>b'. b = Some b' \<and> mb_session_digest b' = sha tok \<and> binding_matches_live_session b' sess)"
  by (cases b) (auto simp: session_matches_bound, simp add: session_matches_def)

lemma session_matches_None_token: "session_matches sha b None sess \<longleftrightarrow> b = None"
  by (cases b) (simp_all add: session_matches_def)

lemma binding_live_iff:
  "binding_matches_live_session b sess \<longleftrightarrow>
     (\<exists>s. sess (mb_session_digest b) = Some s \<and> ss_actor_subject s = mb_actor_subject b)"
  by (auto simp: binding_matches_live_session_def split: option.splits)

end
