(* ===== verification/Media_Ticket_Safety.thy ===== *)
theory Media_Ticket_Safety
  imports Media_Tickets
begin

text \<open>
  Safety of the media ticket store: every call keeps the store well formed, a ticket's
  absolute deadline and record never change during its life, and the check-then-finalise
  protocol of the stream handler cannot be confused by interleaved revocation or reissue.
\<close>

section \<open>All calls of the store\<close>

datatype media_call =
    EstablishSession instant "nat \<Rightarrow> media_session_token" string "media_session_token option"
  | IssueBound instant int "nat \<Rightarrow> string" "nat \<Rightarrow> media_session_token" u64 string
      "media_session_token option" media_ticket_record
  | Issue instant int "nat \<Rightarrow> string" u64 media_ticket_record
  | IssueForSession instant int "nat \<Rightarrow> string" u64 string media_session_lease media_ticket_record
  | AuthorizeBound instant string media_ticket_kind media_session_token
  | AuthorizeTicket instant string media_ticket_kind
  | FinalizeBound instant string media_ticket_kind media_session_token media_ticket_authorization
  | FinalizeTicket instant string media_ticket_kind media_ticket_authorization
  | LookupAndTouch instant string media_ticket_kind
  | LookupForSession instant string media_ticket_kind media_session_token
  | Revoke string media_ticket_kind
  | RevokeBound instant string media_ticket_kind string media_session_token
  | RevokeSessionForActor string media_session_token
  | RevokeSession media_session_token
  | RevokeAll

fun media_step ::
  "(media_session_token \<Rightarrow> media_session_digest) \<Rightarrow> media_ticket_inner \<Rightarrow> media_call \<Rightarrow>
   media_ticket_inner" where
  "media_step sha s (EstablishSession now draw actor existing) =
     fst (establish_session sha s now draw actor existing)"
| "media_step sha s (IssueBound now system dt ds gen actor existing rec) =
     fst (issue_bound sha s now system dt ds gen actor existing rec)"
| "media_step sha s (Issue now system dt gen rec) = fst (ticket_issue s now system dt gen rec)"
| "media_step sha s (IssueForSession now system dt gen actor lease rec) =
     fst (issue_for_session s now system dt gen actor lease rec)"
| "media_step sha s (AuthorizeBound now k kind tok) = fst (authorize_bound sha s now k kind tok)"
| "media_step sha s (AuthorizeTicket now k kind) = fst (authorize_ticket s now k kind)"
| "media_step sha s (FinalizeBound now k kind tok a) =
     fst (finalize_bound_and_touch sha s now k kind tok a)"
| "media_step sha s (FinalizeTicket now k kind a) = fst (finalize_ticket_and_touch s now k kind a)"
| "media_step sha s (LookupAndTouch now k kind) = fst (lookup_and_touch sha s now k kind)"
| "media_step sha s (LookupForSession now k kind tok) =
     fst (lookup_and_touch_for_session sha s now k kind tok)"
| "media_step sha s (Revoke k kind) = ticket_revoke s k kind"
| "media_step sha s (RevokeBound now k kind actor tok) = revoke_bound sha s now k kind actor tok"
| "media_step sha s (RevokeSessionForActor actor tok) = revoke_session_for_actor sha s actor tok"
| "media_step sha s (RevokeSession tok) = revoke_session sha s tok"
| "media_step sha s RevokeAll = revoke_all s"

section \<open>The store invariant\<close>

text \<open>
  Every bound ticket points to a stored session of the same actor, and no idle deadline
  lies beyond the absolute one.
\<close>

definition media_inv :: "media_ticket_inner \<Rightarrow> bool" where
  "media_inv s \<longleftrightarrow>
     (\<forall>k t b. tickets s k = Some t \<and> st_binding t = Some b \<longrightarrow>
        binding_matches_live_session b (sessions s)) \<and>
     (\<forall>k t. tickets s k = Some t \<longrightarrow> st_idle_expires_at t \<le> st_absolute_expires_at t) \<and>
     (\<forall>d e. sessions s d = Some e \<longrightarrow> ss_idle_expires_at e \<le> ss_absolute_expires_at e)"

lemmas touched_bounds = ticket_ttl.touched_within_absolute [simplified]
  session_ttl.touched_within_absolute [simplified]

lemma media_inv_binding:
  assumes "media_inv s" and "tickets s k = Some t" and "st_binding t = Some b"
  obtains e where "sessions s (mb_session_digest b) = Some e"
    and "ss_actor_subject e = mb_actor_subject b"
  using assms unfolding media_inv_def binding_live_iff by blast

lemma media_invI:
  assumes "\<And>k t b. tickets s k = Some t \<Longrightarrow> st_binding t = Some b \<Longrightarrow>
      \<exists>e. sessions s (mb_session_digest b) = Some e \<and> ss_actor_subject e = mb_actor_subject b"
    and "\<And>k t. tickets s k = Some t \<Longrightarrow> st_idle_expires_at t \<le> st_absolute_expires_at t"
    and "\<And>d e. sessions s d = Some e \<Longrightarrow> ss_idle_expires_at e \<le> ss_absolute_expires_at e"
  shows "media_inv s"
  using assms unfolding media_inv_def binding_live_iff by blast

lemma media_inv_deadlines:
  "media_inv s \<Longrightarrow> tickets s k = Some t \<Longrightarrow> st_idle_expires_at t \<le> st_absolute_expires_at t"
  "media_inv s \<Longrightarrow> sessions s d = Some e \<Longrightarrow> ss_idle_expires_at e \<le> ss_absolute_expires_at e"
  by (simp_all add: media_inv_def)

lemma media_inv_prune [intro]: "media_inv s \<Longrightarrow> media_inv (prune_expired s now)"
  by (rule media_invI)
    (auto simp: prune_sessions prune_tickets media_inv_deadlines elim: media_inv_binding)

lemma media_inv_touch_session [intro]: "media_inv s \<Longrightarrow> media_inv (touch_session s d now)"
  by (rule media_invI)
    (auto simp: touch_session_maps touched_bounds media_inv_deadlines elim: media_inv_binding
      split: if_splits)

lemma media_inv_touch_ticket [intro]: "media_inv s \<Longrightarrow> media_inv (touch_ticket s k now)"
  by (rule media_invI)
    (auto simp: touch_ticket_maps touched_bounds media_inv_deadlines elim: media_inv_binding
      split: if_splits)

lemma media_inv_insert_ticket [intro]:
  assumes "media_inv s" and "\<And>b'. b = Some b' \<Longrightarrow> binding_matches_live_session b' (sessions s)"
  shows "media_inv (insert_ticket s now k rec b)"
  using assms unfolding media_inv_def by (auto simp: insert_ticket_maps ttl_defs)

lemma media_inv_new_session [intro]:
  assumes "media_inv s" and "sessions s d = None"
  shows "media_inv (s\<lparr>sessions := (sessions s)(d \<mapsto>
    \<lparr>ss_actor_subject = actor, ss_idle_expires_at = now + MEDIA_SESSION_IDLE_TTL,
     ss_absolute_expires_at = now + MEDIA_SESSION_ABSOLUTE_TTL\<rparr>)\<rparr>)"
  using assms by (intro media_invI)
    (auto simp: ttl_defs media_inv_deadlines elim: media_inv_binding split: if_splits)

lemma media_inv_remove_ticket [intro]:
  "media_inv s \<Longrightarrow> media_inv (s\<lparr>tickets := (tickets s)(k := None)\<rparr>)"
  unfolding media_inv_def by auto

lemma media_inv_drop_session [intro]: "media_inv s \<Longrightarrow> media_inv (drop_session s d)"
  by (rule media_invI)
    (auto simp: drop_session_maps media_inv_deadlines elim: media_inv_binding split: if_splits)

lemma media_inv_revoke_all [intro]: "media_inv (revoke_all s)"
  by (simp add: media_inv_def revoke_all_def)

lemma media_inv_issue_inner [intro]:
  "media_inv s \<Longrightarrow> media_inv (fst (issue_inner s now system dt gen rec b))"
  by (auto simp: issue_inner_def Let_def split: option.splits)

lemma media_inv_establish [intro]:
  "media_inv s \<Longrightarrow> media_inv (fst (establish_session sha s now draw actor existing))"
  by (auto simp: establish_session_def Let_def split: option.splits dest: first_fresh_Some)

lemma media_inv_issue_bound [intro]:
  "media_inv s \<Longrightarrow> media_inv (fst (issue_bound sha s now system dt ds gen actor existing rec))"
  by (auto simp: issue_bound_def Let_def binding_live_iff touch_session_maps
      split: option.splits dest: first_fresh_Some intro!: media_inv_insert_ticket)

lemma media_inv_step: "media_inv s \<Longrightarrow> media_inv (media_step sha s c)"
  by (cases c)
    (auto simp: ticket_issue_def issue_for_session_def authorize_bound_def authorize_ticket_def
      finalize_bound_and_touch_def finalize_ticket_and_touch_def lookup_and_touch_def
      lookup_and_touch_for_session_def lookup_inner_def ticket_revoke_def revoke_bound_def
      revoke_session_for_actor_def revoke_session_def Let_def split: option.splits)

interpretation media_store: transition_system media_store_new "media_step sha" media_inv
  for sha :: "media_session_token \<Rightarrow> media_session_digest"
proof unfold_locales
  show "media_inv media_store_new" by (simp add: media_inv_def media_store_new_def)
qed (rule media_inv_step)

section \<open>The life of a ticket\<close>

text \<open>
  A call either keeps every surviving ticket's record, binding, incarnation and absolute
  deadline (\<open>keeps\<close>), or does that and then inserts one ticket with the next incarnation.
\<close>

definition same_ticket :: "stored_media_ticket \<Rightarrow> stored_media_ticket \<Rightarrow> bool" where
  "same_ticket t t' \<longleftrightarrow>
     st_record t' = st_record t \<and> st_binding t' = st_binding t \<and>
     st_incarnation t' = st_incarnation t \<and>
     st_absolute_expires_at t' = st_absolute_expires_at t"

definition keeps :: "media_ticket_inner \<Rightarrow> media_ticket_inner \<Rightarrow> bool" where
  "keeps s s' \<longleftrightarrow>
     next_incarnation s' = next_incarnation s \<and>
     (\<forall>k t'. tickets s' k = Some t' \<longrightarrow> (\<exists>t. tickets s k = Some t \<and> same_ticket t t'))"

lemma keeps_refl [intro]: "keeps s s"
  by (auto simp: keeps_def same_ticket_def)

lemma keeps_trans: "keeps s s1 \<Longrightarrow> keeps s1 s2 \<Longrightarrow> keeps s s2"
  unfolding keeps_def same_ticket_def by metis

lemma keeps_prune [intro]: "keeps s (prune_expired s now)"
  by (auto simp: keeps_def same_ticket_def prune_tickets prune_counters)

lemma keeps_primitives:
  "keeps s s1 \<Longrightarrow> keeps s (touch_session s1 d now)"
  "keeps s s1 \<Longrightarrow> keeps s (touch_ticket s1 k now)"
  "keeps s s1 \<Longrightarrow> keeps s (s1\<lparr>sessions := m\<rparr>)"
  "keeps s s1 \<Longrightarrow> keeps s (s1\<lparr>tickets := (tickets s1)(k := None)\<rparr>)"
  "keeps s s1 \<Longrightarrow> keeps s (drop_session s1 d)"
  "keeps s s1 \<Longrightarrow> keeps s (revoke_all s1)"
  by (erule keeps_trans, fastforce simp: keeps_def same_ticket_def touch_session_maps
      touch_ticket_maps drop_session_maps revoke_all_def split: if_splits)+

lemmas keeps_intros = keeps_refl keeps_prune keeps_primitives

definition inserts :: "media_ticket_inner \<Rightarrow> media_ticket_inner \<Rightarrow> bool" where
  "inserts s s' \<longleftrightarrow> (\<exists>s1 now k rec b. keeps s s1 \<and> s' = insert_ticket s1 now k rec b)"

lemma insertsI [intro]: "keeps s s1 \<Longrightarrow> inserts s (insert_ticket s1 now k rec b)"
  unfolding inserts_def by blast

lemma issue_inner_life:
  "keeps s (fst (issue_inner s now system dt gen rec b)) \<or>
   inserts s (fst (issue_inner s now system dt gen rec b))"
  by (auto simp: issue_inner_def Let_def split: option.splits intro: keeps_intros)

lemma issue_bound_life:
  "keeps s (fst (issue_bound sha s now system dt ds gen actor existing rec)) \<or>
   inserts s (fst (issue_bound sha s now system dt ds gen actor existing rec))"
  by (auto simp: issue_bound_def Let_def split: option.splits intro: keeps_intros)

lemma establish_life: "keeps s (fst (establish_session sha s now draw actor existing))"
  by (auto simp: establish_session_def Let_def split: option.splits intro: keeps_intros)

lemma media_step_life: "keeps s (media_step sha s c) \<or> inserts s (media_step sha s c)"
  using issue_inner_life issue_bound_life establish_life
  by (cases c)
    (auto simp: ticket_issue_def issue_for_session_def authorize_bound_def authorize_ticket_def
      finalize_bound_and_touch_def finalize_ticket_and_touch_def lookup_and_touch_def
      lookup_and_touch_for_session_def lookup_inner_def ticket_revoke_def revoke_bound_def
      revoke_session_for_actor_def revoke_session_def Let_def split: option.splits
      intro: keeps_intros)

text \<open>
  \<open>evolves s s'\<close>: in \<open>s'\<close> every ticket is one of \<open>s\<close> with its identity kept, or was issued
  after \<open>s\<close>.
\<close>

definition evolves :: "media_ticket_inner \<Rightarrow> media_ticket_inner \<Rightarrow> bool" where
  "evolves s s' \<longleftrightarrow>
     unat (next_incarnation s) \<le> unat (next_incarnation s') \<and>
     (\<forall>k t'. tickets s' k = Some t' \<longrightarrow>
        (\<exists>t. tickets s k = Some t \<and> same_ticket t t') \<or>
        unat (next_incarnation s) \<le> unat (st_incarnation t'))"

lemma evolves_trans:
  assumes "evolves s s1" and "evolves s1 s2"
  shows "evolves s s2"
proof -
  have "(\<exists>t. tickets s k = Some t \<and> same_ticket t t') \<or>
      unat (next_incarnation s) \<le> unat (st_incarnation t')"
    if s2: "tickets s2 k = Some t'" for k t'
  proof -
    from assms(2) s2 consider t1 where "tickets s1 k = Some t1" "same_ticket t1 t'"
      | "unat (next_incarnation s1) \<le> unat (st_incarnation t')"
      unfolding evolves_def by blast
    then show ?thesis
    proof cases
      case 1
      from assms(1) 1(1) consider t0 where "tickets s k = Some t0" "same_ticket t0 t1"
        | "unat (next_incarnation s) \<le> unat (st_incarnation t1)"
        unfolding evolves_def by blast
      then show ?thesis
        using 1(2) by cases (auto simp: same_ticket_def)
    next
      case 2
      with assms(1) show ?thesis unfolding evolves_def by linarith
    qed
  qed
  with assms show ?thesis unfolding evolves_def by auto
qed

lemma media_step_evolves:
  assumes "unat (next_incarnation s) + 1 < 2 ^ 64"
  shows "evolves s (media_step sha s c) \<and>
    unat (next_incarnation (media_step sha s c)) \<le> unat (next_incarnation s) + 1"
proof -
  have next_step: "unat (next_incarnation s + 1) = unat (next_incarnation s) + 1"
    using assms by (simp add: unat_word_ariths)
  from media_step_life [of s sha c] show ?thesis
  proof
    assume "keeps s (media_step sha s c)"
    then show ?thesis by (auto simp: keeps_def evolves_def)
  next
    assume "inserts s (media_step sha s c)"
    then show ?thesis using next_step
      by (auto simp: inserts_def keeps_def evolves_def insert_ticket_maps split: if_splits)
  qed
qed

lemma media_run_evolves:
  "unat (next_incarnation s) + length cs < 2 ^ 64 \<Longrightarrow> evolves s (foldl (media_step sha) s cs)"
proof (induction cs arbitrary: s)
  case Nil
  show ?case by (auto simp: evolves_def same_ticket_def)
next
  case (Cons c cs)
  then have step: "evolves s (media_step sha s c)"
    and next_le: "unat (next_incarnation (media_step sha s c)) \<le> unat (next_incarnation s) + 1"
    using media_step_evolves [of s sha c] by auto
  from next_le Cons.prems have "unat (next_incarnation (media_step sha s c)) + length cs < 2 ^ 64"
    by simp
  then have "evolves (media_step sha s c) (foldl (media_step sha) (media_step sha s c) cs)"
    by (rule Cons.IH)
  with step show ?case by (auto intro: evolves_trans)
qed

definition incarnations_below :: "media_ticket_inner \<Rightarrow> bool" where
  "incarnations_below s \<longleftrightarrow>
     (\<forall>k t. tickets s k = Some t \<longrightarrow> unat (st_incarnation t) < unat (next_incarnation s))"

lemma incarnations_below_step:
  assumes "incarnations_below s" and "unat (next_incarnation s) + 1 < 2 ^ 64"
  shows "incarnations_below (media_step sha s c)"
proof -
  have next_step: "unat (next_incarnation s + 1) = unat (next_incarnation s) + 1"
    using assms(2) by (simp add: unat_word_ariths)
  from media_step_life [of s sha c] show ?thesis
  proof
    assume "keeps s (media_step sha s c)"
    with assms(1) show ?thesis
      unfolding incarnations_below_def keeps_def same_ticket_def by metis
  next
    assume "inserts s (media_step sha s c)"
    then obtain s1 now k rec b where kept: "keeps s s1"
      and step: "media_step sha s c = insert_ticket s1 now k rec b"
      by (auto simp: inserts_def)
    show ?thesis unfolding incarnations_below_def
    proof (intro allI impI)
      fix k' t assume t: "tickets (media_step sha s c) k' = Some t"
      from kept have next_s1: "next_incarnation s1 = next_incarnation s" by (simp add: keeps_def)
      have "unat (st_incarnation t) \<le> unat (next_incarnation s)"
      proof (cases "k' = k")
        case True
        with t step next_s1 show ?thesis by (auto simp: insert_ticket_maps)
      next
        case False
        with t step have "tickets s1 k' = Some t" by (simp add: insert_ticket_maps)
        with kept assms(1) show ?thesis
          unfolding keeps_def same_ticket_def incarnations_below_def by (metis less_imp_le)
      qed
      with step next_s1 next_step show
        "unat (st_incarnation t) < unat (next_incarnation (media_step sha s c))"
        by (simp add: insert_ticket_maps)
    qed
  qed
qed

lemma reachable_incarnations:
  "length cs < 2 ^ 64 \<Longrightarrow>
     incarnations_below (foldl (media_step sha) media_store_new cs) \<and>
     unat (next_incarnation (foldl (media_step sha) media_store_new cs)) \<le> length cs"
proof (induction cs rule: rev_induct)
  case Nil
  show ?case by (simp add: incarnations_below_def media_store_new_def)
next
  case (snoc c cs)
  let ?s = "foldl (media_step sha) media_store_new cs"
  from snoc have below: "incarnations_below ?s"
    and "unat (next_incarnation ?s) + 1 < 2 ^ 64" "unat (next_incarnation ?s) \<le> length cs"
    by simp_all
  with media_step_evolves [of ?s sha c] incarnations_below_step [of ?s sha c] show ?case
    by simp
qed

section \<open>Authorisation\<close>

lemma authorize_bound_state: "fst (authorize_bound sha s now k kind tok) = prune_expired s now"
  by (simp add: authorize_bound_def Let_def split: option.splits)

lemma authorize_bound_iff:
  "snd (authorize_bound sha s now k kind tok) = Some a \<longleftrightarrow>
     (\<exists>t e. tickets s k = Some t \<and> \<not> ticket_expired t now \<and> mr_kind (st_record t) = kind \<and>
        st_binding t = Some (ma_binding a) \<and> ma_record a = st_record t \<and>
        ma_ticket_incarnation a = st_incarnation t \<and>
        mb_session_digest (ma_binding a) = sha tok \<and> sessions s (sha tok) = Some e \<and>
        \<not> session_expired e now \<and> ss_actor_subject e = mb_actor_subject (ma_binding a))"
  (is "?auth = Some a \<longleftrightarrow> ?rhs")
proof
  assume "?auth = Some a"
  then show ?rhs
    by (auto simp: authorize_bound_def Let_def session_matches_bound binding_live_iff
        prune_sessions prune_tickets split: option.splits if_splits)
next
  assume ?rhs
  then obtain t e where te: "tickets s k = Some t" "\<not> ticket_expired t now"
    "mr_kind (st_record t) = kind" "st_binding t = Some (ma_binding a)"
    "ma_record a = st_record t" "ma_ticket_incarnation a = st_incarnation t"
    "mb_session_digest (ma_binding a) = sha tok" "sessions s (sha tok) = Some e"
    "\<not> session_expired e now" "ss_actor_subject e = mb_actor_subject (ma_binding a)"
    by blast
  then have "tickets (prune_expired s now) k = Some t"
    and "sessions (prune_expired s now) (sha tok) = Some e"
    by (simp_all add: prune_tickets prune_sessions)
  with te show "?auth = Some a"
    by (simp add: authorize_bound_def session_matches_bound binding_live_iff)
qed

lemma finalize_bound_true:
  "snd (finalize_bound_and_touch sha s now k kind tok a) \<Longrightarrow>
     \<exists>t. tickets s k = Some t \<and> st_incarnation t = ma_ticket_incarnation a \<and>
       st_binding t = Some (ma_binding a) \<and> mb_session_digest (ma_binding a) = sha tok \<and>
       \<not> ticket_expired t now"
  by (auto simp: finalize_bound_and_touch_def Let_def prune_tickets session_matches_Some_token
      split: option.splits if_splits)

lemma finalize_ticket_true:
  "snd (finalize_ticket_and_touch s now k kind a) \<Longrightarrow>
     \<exists>t. tickets s k = Some t \<and> st_incarnation t = ma_ticket_incarnation a \<and>
       st_binding t = Some (ma_binding a) \<and> \<not> ticket_expired t now"
  by (auto simp: finalize_ticket_and_touch_def Let_def prune_tickets
      split: option.splits if_splits)

text \<open>
  An authorisation whose ticket is gone from \<open>s\<close> stays dead in every later state.
\<close>

lemma stale_authorization:
  assumes "evolves s s'" and "unat (ma_ticket_incarnation a) < unat (next_incarnation s)"
    and "\<And>k t. tickets s k = Some t \<Longrightarrow> st_binding t \<noteq> Some (ma_binding a)"
  shows "\<not> snd (finalize_bound_and_touch sha s' now k kind tok a) \<and>
    \<not> snd (finalize_ticket_and_touch s' now k kind a)"
proof -
  have "\<not> (tickets s' k = Some t \<and> st_incarnation t = ma_ticket_incarnation a \<and>
      st_binding t = Some (ma_binding a))" for t
    using assms unfolding evolves_def same_ticket_def by (metis not_le)
  then show ?thesis using finalize_bound_true finalize_ticket_true by metis
qed

lemma revoke_session_unbinds:
  assumes "media_inv s" and "tickets (revoke_session sha s tok) k = Some t"
    and "st_binding t = Some b"
  shows "mb_session_digest b \<noteq> sha tok"
  using assms by (auto simp: revoke_session_def drop_session_maps split: option.splits
      elim: media_inv_binding)

lemma revoke_session_counter:
  "next_incarnation (revoke_session sha s tok) = next_incarnation s"
  by (simp add: revoke_session_def drop_session_maps split: option.splits)

lemma revoked_authorization_dead:
  assumes "length before + length between + length after + 1 < 2 ^ 64"
    and "s = foldl (media_step sha) media_store_new before"
    and "authorize_bound sha s now k kind tok = (s1, Some a)"
    and "s2 = revoke_session sha (foldl (media_step sha) s1 between) tok"
    and "s3 = foldl (media_step sha) s2 after"
  shows "\<not> snd (finalize_bound_and_touch sha s3 later k' kind' tok' a) \<and>
    \<not> snd (finalize_ticket_and_touch s3 later k' kind' a)"
proof -
  let ?s1' = "foldl (media_step sha) s1 between"
  have below: "incarnations_below s" and next_le: "unat (next_incarnation s) \<le> length before"
    using assms(1,2) reachable_incarnations [of before sha] by simp_all
  have s1: "s1 = prune_expired s now"
    using authorize_bound_state [of sha s now k kind tok] assms(3) by simp
  from assms(3) obtain t where t: "tickets s k = Some t"
    "ma_ticket_incarnation a = st_incarnation t" "mb_session_digest (ma_binding a) = sha tok"
    using authorize_bound_iff [of sha s now k kind tok a] by auto
  let ?calls = "before @ AuthorizeBound now k kind tok # between"
  have s1': "?s1' = foldl (media_step sha) media_store_new ?calls"
    using assms(2,3) by simp
  have inv: "media_inv ?s1'" unfolding s1' by (rule media_store.inv_reachable)
  have "unat (next_incarnation s1) + length between < 2 ^ 64"
    using assms(1) next_le by (simp add: s1 prune_counters)
  then have "evolves s1 ?s1'" by (rule media_run_evolves)
  then have old: "unat (ma_ticket_incarnation a) < unat (next_incarnation ?s1')"
    using below t unfolding incarnations_below_def evolves_def s1 prune_counters
    by (metis order_less_le_trans)
  have "unat (next_incarnation s2) \<le> length ?calls"
    using reachable_incarnations [of ?calls sha] assms(1)
    unfolding assms(4) revoke_session_counter s1' by simp
  then have "unat (next_incarnation s2) + length after < 2 ^ 64" using assms(1) by simp
  then have later: "evolves s2 s3" unfolding assms(5) by (rule media_run_evolves)
  show ?thesis
  proof (rule stale_authorization [OF later])
    show "unat (ma_ticket_incarnation a) < unat (next_incarnation s2)"
      using old by (simp add: assms(4) revoke_session_counter)
    show "st_binding u \<noteq> Some (ma_binding a)" if "tickets s2 j = Some u" for j u
      using revoke_session_unbinds [OF inv that [unfolded assms(4)]] t(3) by auto
  qed
qed

section \<open>Properties\<close>

text \<open>
  C26: after any sequence of calls on a fresh store, with any clock readings and random
  draws, every bound ticket points to a stored session of the same actor and no idle
  deadline is later than the absolute one.
\<close>

theorem media_store_invariant: "media_inv (foldl (media_step sha) media_store_new cs)"
  by (rule media_store.inv_reachable)

text \<open>
  A cookie-bound authorisation is granted exactly when the ticket is stored, live, of
  the requested kind and bound to the session of the presented token, that session is
  live, and its actor is the one the ticket was issued to; what is granted is the stored
  record.
\<close>

lemma authorize_bound_characterised:
  "snd (authorize_bound sha s now k kind tok) = Some a \<longleftrightarrow>
     (\<exists>t e. tickets s k = Some t \<and> now < st_idle_expires_at t \<and> now < st_absolute_expires_at t \<and>
        mr_kind (st_record t) = kind \<and>
        st_binding t = Some (ma_binding a) \<and> ma_record a = st_record t \<and>
        ma_ticket_incarnation a = st_incarnation t \<and>
        mb_session_digest (ma_binding a) = sha tok \<and> sessions s (sha tok) = Some e \<and>
        now < ss_idle_expires_at e \<and> now < ss_absolute_expires_at e \<and>
        ss_actor_subject e = mb_actor_subject (ma_binding a))"
  unfolding authorize_bound_iff ticket_expired_def session_expired_def
  by (simp add: not_le conj_assoc)

text \<open>
  C13: what is finalised is what was authorised. Between the authorisation of a ticket and
  its finalisation any calls may run (expiry, revocation, reissue of the same ticket
  string); if the finalisation succeeds, the ticket stored then has the record and the
  absolute deadline of the ticket that was authorised. The bound on the number of calls
  keeps the 64-bit incarnation counter from wrapping.
\<close>

theorem finalized_is_authorized:
  assumes "length before + length between < 2 ^ 64"
    and "s = foldl (media_step sha) media_store_new before"
    and "authorize_bound sha s now k kind tok = (s1, Some a)"
    and "s2 = foldl (media_step sha) s1 between"
    and "snd (finalize_bound_and_touch sha s2 later k kind tok' a)"
  shows "\<exists>t t'. tickets s k = Some t \<and> tickets s2 k = Some t' \<and>
    st_record t' = ma_record a \<and> st_binding t' = Some (ma_binding a) \<and>
    st_absolute_expires_at t' = st_absolute_expires_at t"
proof -
  have below: "incarnations_below s"
    and next_le: "unat (next_incarnation s) \<le> length before"
    using assms(1,2) reachable_incarnations [of before sha] by simp_all
  have s1: "s1 = prune_expired s now"
    using authorize_bound_state [of sha s now k kind tok] assms(3) by simp
  from assms(3) obtain t where t: "tickets s k = Some t" "ma_record a = st_record t"
    "ma_ticket_incarnation a = st_incarnation t" "st_binding t = Some (ma_binding a)"
    using authorize_bound_iff [of sha s now k kind tok a] by auto
  from finalize_bound_true [OF assms(5)] obtain t' where t': "tickets s2 k = Some t'"
    "st_incarnation t' = ma_ticket_incarnation a"
    by blast
  have "unat (next_incarnation s1) + length between < 2 ^ 64"
    using assms(1) next_le by (simp add: s1 prune_counters)
  then have "evolves s1 s2" unfolding assms(4) by (rule media_run_evolves)
  then consider t1 where "tickets s1 k = Some t1" "same_ticket t1 t'"
    | "unat (next_incarnation s1) \<le> unat (st_incarnation t')"
    using t'(1) unfolding evolves_def by blast
  then show ?thesis
  proof cases
    case 1
    with t t' show ?thesis by (auto simp: s1 prune_tickets same_ticket_def)
  next
    case 2
    have "unat (st_incarnation t') < unat (next_incarnation s)"
      using below t t' unfolding incarnations_below_def by metis
    with 2 show ?thesis by (simp add: s1 prune_counters)
  qed
qed

text \<open>
  C14: revocation wins over a request in flight. Once the session of a token is revoked, an
  authorisation obtained with that token before can no longer be finalised, by cookie or
  by ticket alone, under any ticket string, whatever calls run before and after the
  revocation.
\<close>

theorem revoked_session_never_finalizes:
  assumes "length before + length between + length after + 1 < 2 ^ 64"
    and "s = foldl (media_step sha) media_store_new before"
    and "authorize_bound sha s now k kind tok = (s1, Some a)"
    and "s2 = revoke_session sha (foldl (media_step sha) s1 between) tok"
    and "s3 = foldl (media_step sha) s2 after"
  shows "\<not> snd (finalize_bound_and_touch sha s3 later k' kind' tok' a) \<and>
    \<not> snd (finalize_ticket_and_touch s3 later k' kind' a)"
  using assms by (rule revoked_authorization_dead)

text \<open>
  Touching never extends a ticket beyond its absolute lifetime. A ticket issued at
  \<open>now\<close> gets the incarnation \<open>next_incarnation s\<close>; whatever calls follow, an authorisation
  for its string at least eight hours later is not one for that ticket.
\<close>

lemma absolute_lifetime:
  assumes "unat (next_incarnation s) + length after + 1 < 2 ^ 64"
    and "issue_bound sha s now system dt ds gen actor existing rec = (s1, BoundIssued l)"
    and "s2 = foldl (media_step sha) s1 after"
    and "now + MEDIA_TICKET_ABSOLUTE_TTL \<le> later"
    and "snd (authorize_bound sha s2 later (tl_ticket (bl_ticket l)) kind tok) = Some a"
  shows "ma_ticket_incarnation a \<noteq> next_incarnation s"
proof
  assume inc: "ma_ticket_incarnation a = next_incarnation s"
  let ?k = "tl_ticket (bl_ticket l)"
  have issued: "tickets s1 ?k = Some t \<Longrightarrow> st_absolute_expires_at t = now + MEDIA_TICKET_ABSOLUTE_TTL"
    and next_s1: "next_incarnation s1 = next_incarnation s + 1" for t
    using assms(2) by (auto simp: issue_bound_def Let_def insert_ticket_maps touch_session_maps
        prune_counters split: option.splits if_splits)
  have next_val: "unat (next_incarnation s1) = unat (next_incarnation s) + 1"
    using assms(1) by (simp add: next_s1 unat_word_ariths)
  with assms(1) have "evolves s1 s2" unfolding assms(3) by (intro media_run_evolves) simp
  moreover from assms(5) obtain t where t: "tickets s2 ?k = Some t" "\<not> ticket_expired t later"
    "ma_ticket_incarnation a = st_incarnation t"
    unfolding authorize_bound_iff by blast
  ultimately obtain t1 where "tickets s1 ?k = Some t1" "same_ticket t1 t"
    using inc next_val unfolding evolves_def by fastforce
  then have "st_absolute_expires_at t = now + MEDIA_TICKET_ABSOLUTE_TTL"
    using issued by (auto simp: same_ticket_def)
  with t(2) assms(4) show False by (simp add: ticket_expired_def)
qed

section \<open>An issued ticket works\<close>

text \<open>
  \<open>usable\<close>: the ticket \<open>k\<close> of the given record, binding and incarnation and the session of the binding
  are stored, and neither has expired at \<open>later\<close>. Calls made meanwhile may prune, touch and issue;
  only the revocations named by \<open>may_revoke\<close> can end it before its time.
\<close>

definition usable ::
  "media_ticket_inner \<Rightarrow> instant \<Rightarrow> string \<Rightarrow> media_ticket_record \<Rightarrow> media_session_binding \<Rightarrow> u64 \<Rightarrow> bool" where
  "usable s later k rec b n \<longleftrightarrow>
     (\<exists>t e. tickets s k = Some t \<and> st_record t = rec \<and> st_binding t = Some b \<and>
        st_incarnation t = n \<and> \<not> ticket_expired t later \<and>
        sessions s (mb_session_digest b) = Some e \<and> ss_actor_subject e = mb_actor_subject b \<and>
        \<not> session_expired e later)"

fun call_clocks :: "media_call \<Rightarrow> instant list" where
  "call_clocks (EstablishSession now _ _ _) = [now]"
| "call_clocks (IssueBound now _ _ _ _ _ _ _) = [now]"
| "call_clocks (Issue now _ _ _ _) = [now]"
| "call_clocks (IssueForSession now _ _ _ _ _ _) = [now]"
| "call_clocks (AuthorizeBound now _ _ _) = [now]"
| "call_clocks (AuthorizeTicket now _ _) = [now]"
| "call_clocks (FinalizeBound now _ _ _ _) = [now]"
| "call_clocks (FinalizeTicket now _ _ _) = [now]"
| "call_clocks (LookupAndTouch now _ _) = [now]"
| "call_clocks (LookupForSession now _ _ _) = [now]"
| "call_clocks (RevokeBound now _ _ _ _) = [now]"
| "call_clocks _ = []"

fun may_revoke ::
  "(media_session_token \<Rightarrow> media_session_digest) \<Rightarrow> string \<Rightarrow> media_session_digest \<Rightarrow> media_call \<Rightarrow> bool" where
  "may_revoke sha k d (Revoke k' _) = (k' = k)"
| "may_revoke sha k d (RevokeBound _ k' _ _ _) = (k' = k)"
| "may_revoke sha k d (RevokeSessionForActor _ tok) = (sha tok = d)"
| "may_revoke sha k d (RevokeSession tok) = (sha tok = d)"
| "may_revoke sha k d RevokeAll = True"
| "may_revoke sha k d _ = False"

lemma usable_prune:
  assumes "usable s later k rec b n" and "now \<le> later"
  shows "usable (prune_expired s now) later k rec b n"
  using assms ticket_ttl.expired_mono session_ttl.expired_mono
  unfolding usable_def prune_tickets prune_sessions by (metis option.inject)

lemma usable_touch_session:
  assumes "usable s later k rec b n" and "later < now + MEDIA_TICKET_IDLE_TTL"
  shows "usable (touch_session s d now) later k rec b n"
  using assms unfolding usable_def
  by (auto simp: touch_session_maps session_expired_def touched_session_def ttl_defs)

lemma usable_touch_ticket:
  assumes "usable s later k rec b n" and "later < now + MEDIA_TICKET_IDLE_TTL"
  shows "usable (touch_ticket s k' now) later k rec b n"
  using assms unfolding usable_def
  by (auto simp: touch_ticket_maps ticket_expired_def touched_ticket_def)

lemma usable_insert_ticket:
  "usable s later k rec b n \<Longrightarrow> tickets s k' = None \<Longrightarrow>
     usable (insert_ticket s now k' rec' b') later k rec b n"
  unfolding usable_def by (auto simp: insert_ticket_maps)

lemma usable_new_session:
  "usable s later k rec b n \<Longrightarrow> sessions s d = None \<Longrightarrow>
     usable (s\<lparr>sessions := (sessions s)(d \<mapsto> e)\<rparr>) later k rec b n"
  unfolding usable_def by auto

lemma usable_remove_ticket:
  "usable s later k rec b n \<Longrightarrow> k' \<noteq> k \<Longrightarrow>
     usable (s\<lparr>tickets := (tickets s)(k' := None)\<rparr>) later k rec b n"
  unfolding usable_def by auto

lemma usable_drop_session:
  "usable s later k rec b n \<Longrightarrow> d \<noteq> mb_session_digest b \<Longrightarrow>
     usable (drop_session s d) later k rec b n"
  unfolding usable_def by (auto simp: drop_session_maps)

lemmas usable_primitives = usable_prune usable_touch_session usable_touch_ticket
  usable_insert_ticket usable_new_session usable_remove_ticket usable_drop_session

lemma usable_issue_inner:
  assumes "usable s later k rec b n" and "now \<le> later"
  shows "usable (fst (issue_inner s now system dt gen rec' b')) later k rec b n"
  using usable_prune [OF assms]
  by (auto simp: issue_inner_def Let_def split: option.splits
      intro!: usable_insert_ticket dest: first_fresh_Some)

lemma usable_issue_bound:
  assumes "usable s later k rec b n" and "now \<le> later" and "later < now + MEDIA_TICKET_IDLE_TTL"
  shows "usable (fst (issue_bound sha s now system dt ds gen actor existing rec')) later k rec b n"
  using usable_prune [OF assms(1,2)] assms(3)
  by (auto simp: issue_bound_def Let_def touch_session_maps split: option.splits
      intro!: usable_insert_ticket usable_touch_session usable_new_session dest: first_fresh_Some)

lemma usable_establish:
  assumes "usable s later k rec b n" and "now \<le> later" and "later < now + MEDIA_TICKET_IDLE_TTL"
  shows "usable (fst (establish_session sha s now draw actor existing)) later k rec b n"
  using usable_prune [OF assms(1,2)] assms(3)
  by (auto simp: establish_session_def Let_def split: option.splits
      intro!: usable_touch_session usable_new_session dest: first_fresh_Some)

lemma usable_step:
  assumes "usable s later k rec b n"
    and "\<forall>now \<in> set (call_clocks c). now \<le> later \<and> later < now + MEDIA_TICKET_IDLE_TTL"
    and "\<not> may_revoke sha k (mb_session_digest b) c"
  shows "usable (media_step sha s c) later k rec b n"
  using assms usable_issue_inner usable_issue_bound usable_establish
  by (cases c)
    (auto simp: ticket_issue_def issue_for_session_def authorize_bound_def authorize_ticket_def
      finalize_bound_and_touch_def finalize_ticket_and_touch_def lookup_and_touch_def
      lookup_and_touch_for_session_def lookup_inner_def ticket_revoke_def revoke_bound_def
      revoke_session_for_actor_def revoke_session_def Let_def split: option.splits
      intro!: usable_primitives)

lemma usable_run:
  assumes "usable s later k rec b n"
    and "\<forall>c \<in> set cs. \<not> may_revoke sha k (mb_session_digest b) c \<and>
      (\<forall>now \<in> set (call_clocks c). now \<le> later \<and> later < now + MEDIA_TICKET_IDLE_TTL)"
  shows "usable (foldl (media_step sha) s cs) later k rec b n"
  using assms by (induction cs arbitrary: s) (simp_all add: usable_step)

lemma usable_authorizes:
  assumes "usable s later k rec b n" and "mb_session_digest b = sha tok"
  shows "snd (authorize_bound sha s later k (mr_kind rec) tok) =
    Some \<lparr>ma_record = rec, ma_ticket_incarnation = n, ma_binding = b\<rparr>"
  using assms unfolding authorize_bound_iff usable_def by auto

lemma issue_bound_usable:
  assumes "issue_bound sha s now system dt ds gen actor existing rec = (s1, BoundIssued l)"
    and "sessions s1 (sha (ml_token (bl_session l))) = Some e"
    and "now \<le> later" and "later < now + MEDIA_TICKET_IDLE_TTL"
    and "later < ss_absolute_expires_at e"
  shows "usable s1 later (tl_ticket (bl_ticket l)) rec (ml_binding (bl_session l)) (next_incarnation s) \<and>
    mb_session_digest (ml_binding (bl_session l)) = sha (ml_token (bl_session l)) \<and>
    mb_actor_subject (ml_binding (bl_session l)) = actor"
  using assms unfolding usable_def
  by (auto simp: issue_bound_def Let_def insert_ticket_maps touch_session_maps prune_counters
      ticket_expired_def session_expired_def touched_session_def ttl_defs
      split: option.splits if_splits)

lemma issue_bound_session:
  assumes "issue_bound sha s now system dt ds gen actor existing rec = (s1, BoundIssued l)"
  obtains e where "sessions s1 (sha (ml_token (bl_session l))) = Some e"
  using assms
  by (auto simp: issue_bound_def Let_def insert_ticket_maps touch_session_maps
      split: option.splits if_splits)

text \<open>
  C28: an issued ticket works until it is due or revoked. The lease returned for a request, with a
  session cookie or without, authorises the record it was issued for, in the actor's name and under
  its own incarnation, at every moment of the next fifteen minutes that lies before the
  absolute deadline of its session, whatever calls run in between, provided none of them revokes the
  ticket, its session or everything, and their clock readings lie between the issue and the use.
\<close>

theorem issued_ticket_authorizes:
  assumes "issue_bound sha s now system dt ds gen actor existing rec = (s1, BoundIssued l)"
    and "s2 = foldl (media_step sha) s1 between"
    and "\<forall>c \<in> set between.
      \<not> may_revoke sha (tl_ticket (bl_ticket l)) (sha (ml_token (bl_session l))) c \<and>
      (\<forall>t \<in> set (call_clocks c). now \<le> t \<and> t \<le> later)"
    and "now \<le> later" and "later < now + MEDIA_TICKET_IDLE_TTL"
    and "\<forall>e. sessions s1 (sha (ml_token (bl_session l))) = Some e \<longrightarrow>
      later < ss_absolute_expires_at e"
  shows "\<exists>a. snd (authorize_bound sha s2 later (tl_ticket (bl_ticket l)) (mr_kind rec)
      (ml_token (bl_session l))) = Some a \<and> ma_record a = rec \<and>
      mb_actor_subject (ma_binding a) = actor \<and> ma_ticket_incarnation a = next_incarnation s"
proof -
  let ?b = "ml_binding (bl_session l)" and ?k = "tl_ticket (bl_ticket l)"
  from issue_bound_session [OF assms(1)] obtain e
    where e: "sessions s1 (sha (ml_token (bl_session l))) = Some e" .
  with assms(6) have "later < ss_absolute_expires_at e" by blast
  from issue_bound_usable [OF assms(1) e assms(4,5) this]
  have start: "usable s1 later ?k rec ?b (next_incarnation s)"
    and digest: "mb_session_digest ?b = sha (ml_token (bl_session l))"
    and actor: "mb_actor_subject ?b = actor" by simp_all
  have "usable s2 later ?k rec ?b (next_incarnation s)" unfolding assms(2)
    by (rule usable_run [OF start]) (use assms(3,5) digest in fastforce)
  from usable_authorizes [where sha = sha, OF this digest] actor show ?thesis by simp
qed

text \<open>
  A context change invalidates requests in flight. A request that read the generation
  before \<open>revoke_all\<close> ran is answered \<open>ContextChanged\<close>, however many other calls ran in
  between, and leaves no ticket behind.
\<close>

fun is_revoke_all :: "media_call \<Rightarrow> bool" where
  "is_revoke_all RevokeAll = True"
| "is_revoke_all _ = False"

lemma media_step_generation:
  "generation (media_step sha s c) = generation s + (if is_revoke_all c then 1 else 0)"
  by (cases c)
    (auto simp: establish_session_def issue_bound_def issue_inner_def ticket_issue_def
      issue_for_session_def authorize_bound_def authorize_ticket_def
      finalize_bound_and_touch_def finalize_ticket_and_touch_def lookup_and_touch_def
      lookup_and_touch_for_session_def lookup_inner_def ticket_revoke_def revoke_bound_def
      revoke_session_for_actor_def revoke_session_def revoke_all_def Let_def prune_counters
      touch_session_maps touch_ticket_maps insert_ticket_maps drop_session_maps
      split: option.splits)

lemma media_run_generation:
  "generation (foldl (media_step sha) s cs) = generation s + of_nat (length (filter is_revoke_all cs))"
  by (induction cs arbitrary: s) (simp_all add: media_step_generation)

lemma stale_generation_rejected:
  assumes "0 < length (filter is_revoke_all cs)" and "length (filter is_revoke_all cs) < 2 ^ 64"
    and "s' = foldl (media_step sha) s cs"
  shows "issue_bound sha s' now system dt ds (generation s) actor existing rec =
    (prune_expired s' now, BoundContextChanged)"
proof -
  let ?n = "length (filter is_revoke_all cs)"
  have "unat (of_nat ?n :: u64) = ?n" using assms(2) by (simp add: unat_of_nat_small)
  with assms(1) have "(of_nat ?n :: u64) \<noteq> 0" by fastforce
  then have "generation s' \<noteq> generation s" by (simp add: assms(3) media_run_generation)
  then show ?thesis by (simp add: issue_bound_def Let_def prune_counters)
qed

section \<open>Witnesses\<close>

text \<open>
  A concrete run: a ticket \<open>t\<close> is issued to Alice with the fresh session token \<open>s\<close>, and
  authorised three milliseconds later.
\<close>

definition demo_record :: media_ticket_record where
  "demo_record = \<lparr>mr_kind = Video, mr_purpose = Playback,
     mr_target = \<lparr>rt_project = ''p'', rt_configured_root = ''/p'', rt_target_path = ''/p'',
       rt_target_key = ''k'', rt_is_root = True, rt_available = True, rt_worktree = None\<rparr>,
     mr_project_relative_path = ''a.mp4'',
     mr_file = \<lparr>mf_canonical_path = ''/p/a.mp4'', mf_size = 10, mf_modified = 0,
       mf_validator = ''v'', mf_device = 1, mf_inode = 2\<rparr>,
     mr_mime = ''video/mp4'', mr_filename = ''a.mp4''\<rparr>"

definition demo_sha :: "media_session_token \<Rightarrow> media_session_digest" where
  "demo_sha tok = map of_char tok"

definition demo_issue :: media_call where
  "demo_issue = IssueBound 0 0 (\<lambda>_. ''t'') (\<lambda>_. ''s'') 0 ''alice'' None demo_record"

definition demo_state :: media_ticket_inner where
  "demo_state = foldl (media_step demo_sha) media_store_new [demo_issue]"

definition demo_auth :: media_ticket_authorization where
  "demo_auth = \<lparr>ma_record = demo_record, ma_ticket_incarnation = 0,
     ma_binding = \<lparr>mb_actor_subject = ''alice'', mb_session_digest = demo_sha ''s''\<rparr>\<rparr>"

lemma find_fresh_first [simp]: "fresh (draw 0) \<Longrightarrow> first_fresh draw fresh = Some (draw 0)"
  by (simp add: first_fresh_def upt_rec)

lemma demo_issue_result:
  "issue_bound demo_sha media_store_new 0 0 (\<lambda>_. ''t'') (\<lambda>_. ''s'') 0 ''alice'' None demo_record =
    (demo_state, BoundIssued \<lparr>bl_ticket = \<lparr>tl_ticket = ''t'', tl_expires_at_epoch_ms = 900000\<rparr>,
      bl_session = \<lparr>ml_token = ''s'', ml_binding =
        \<lparr>mb_actor_subject = ''alice'', mb_session_digest = demo_sha ''s''\<rparr>\<rparr>\<rparr>)"
  by (simp add: demo_state_def demo_issue_def issue_bound_def media_store_new_def
      prune_expired_def map_retain_def epoch_ms_def ttl_defs Let_def)

lemma demo_maps:
  "tickets demo_state = [''t'' \<mapsto> \<lparr>st_record = demo_record,
     st_binding = Some \<lparr>mb_actor_subject = ''alice'', mb_session_digest = demo_sha ''s''\<rparr>,
     st_incarnation = 0, st_idle_expires_at = 900000, st_absolute_expires_at = 28800000\<rparr>]"
  "sessions demo_state = [demo_sha ''s'' \<mapsto> \<lparr>ss_actor_subject = ''alice'',
     ss_idle_expires_at = 1800000, ss_absolute_expires_at = 28800000\<rparr>]"
  by (simp_all add: demo_state_def demo_issue_def issue_bound_def media_store_new_def
      prune_expired_def map_retain_def ttl_defs Let_def insert_ticket_maps fun_eq_iff)

lemma demo_authorize:
  "authorize_bound demo_sha demo_state 3 ''t'' Video ''s'' = (prune_expired demo_state 3, Some demo_auth)"
proof -
  have "snd (authorize_bound demo_sha demo_state 3 ''t'' Video ''s'') = Some demo_auth"
    unfolding authorize_bound_iff
    by (simp add: demo_maps demo_auth_def demo_record_def ticket_expired_def session_expired_def)
  with authorize_bound_state [of demo_sha demo_state 3 "''t''" Video "''s''"] show ?thesis
    by (metis prod.collapse)
qed

lemma demo_finalize:
  "snd (finalize_bound_and_touch demo_sha (prune_expired demo_state 3) 4 ''t'' Video ''s'' demo_auth)"
proof -
  have "tickets (prune_expired (prune_expired demo_state 3) 4) = tickets demo_state"
    "sessions (prune_expired (prune_expired demo_state 3) 4) = sessions demo_state"
    by (simp_all add: prune_expired_def Let_def map_retain_def demo_maps ticket_expired_def
        session_expired_def fun_eq_iff)
  then show ?thesis
    by (simp add: finalize_bound_and_touch_def demo_maps demo_auth_def
        session_matches_bound binding_live_iff) (simp add: demo_record_def)
qed

theorem finalized_is_authorized_witness:
  "\<exists>t t'. tickets demo_state ''t'' = Some t \<and>
    tickets (foldl (media_step demo_sha) (prune_expired demo_state 3) []) ''t'' = Some t' \<and>
    st_record t' = ma_record demo_auth \<and> st_binding t' = Some (ma_binding demo_auth) \<and>
    st_absolute_expires_at t' = st_absolute_expires_at t"
  by (rule finalized_is_authorized [OF _ _ demo_authorize, of "[demo_issue]" "[]" _ 4 "''s''"])
    (simp_all add: demo_state_def [symmetric] demo_finalize, simp add: demo_state_def)

theorem revoked_session_never_finalizes_witness:
  "\<not> snd (finalize_bound_and_touch demo_sha
      (revoke_session demo_sha (prune_expired demo_state 3) ''s'') 4 ''t'' Video ''s'' demo_auth)"
  using revoked_session_never_finalizes [OF _ _ demo_authorize refl refl,
      of "[demo_issue]" "[]" "[]" 4 "''t''" Video "''s''"]
  by (simp add: demo_state_def)

theorem issued_ticket_authorizes_witness:
  "\<exists>a. snd (authorize_bound demo_sha
      (foldl (media_step demo_sha) demo_state [AuthorizeTicket 5 ''t'' Video, RevokeSession ''x''])
      899999 ''t'' (mr_kind demo_record) ''s'') = Some a \<and>
    ma_record a = demo_record \<and> mb_actor_subject (ma_binding a) = ''alice'' \<and>
    ma_ticket_incarnation a = next_incarnation media_store_new"
  using issued_ticket_authorizes [OF demo_issue_result refl, of "[AuthorizeTicket 5 ''t'' Video, RevokeSession ''x'']" 899999]
  by (simp add: ttl_defs demo_maps demo_sha_def)

text \<open>
  The other ticket string: after eight hours the random generator may hand out \<open>t\<close> again,
  and the authorisation then carries the incarnation of the new ticket.
\<close>

definition demo_reissue :: media_call where
  "demo_reissue = IssueBound 28800000 0 (\<lambda>_. ''t'') (\<lambda>_. ''s'') 0 ''bob'' None demo_record"

lemma demo_reissued:
  "snd (authorize_bound demo_sha (media_step demo_sha demo_state demo_reissue) 28800001 ''t''
     Video ''s'') = Some \<lparr>ma_record = demo_record, ma_ticket_incarnation = 1,
     ma_binding = \<lparr>mb_actor_subject = ''bob'', mb_session_digest = demo_sha ''s''\<rparr>\<rparr>"
proof -
  have gone: "tickets (prune_expired demo_state 28800000) ''t'' = None"
    "sessions (prune_expired demo_state 28800000) (demo_sha ''s'') = None"
    by (simp_all add: prune_expired_def Let_def map_retain_def demo_maps ticket_expired_def
        session_expired_def)
  have "generation demo_state = 0" "next_incarnation demo_state = 1"
    by (simp_all add: demo_state_def demo_issue_def issue_bound_def media_store_new_def
        prune_expired_def map_retain_def Let_def insert_ticket_maps)
  with gone show ?thesis
    unfolding authorize_bound_iff
    by (simp add: demo_reissue_def issue_bound_def Let_def prune_counters insert_ticket_maps
        ticket_expired_def session_expired_def ttl_defs) (simp add: demo_record_def)
qed

end
