(* ===== verification/Media_Stream.thy ===== *)
theory Media_Stream
  imports Byte_Range Media_Ticket_Safety
begin

text \<open>
  The streaming side of the media subsystem: the image and video adapters of the ticket
  store (\<open>fs/image_ticket.rs\<close>, \<open>fs/video_ticket.rs\<close>), the session cookie
  (\<open>fs/media_session.rs\<close>), the response headers (\<open>api/media_stream_headers.rs\<close>) and the
  handler that serves a ticket (\<open>api/media_stream_response.rs\<close>).

  Third-party code and file access are parameters, gathered in \<open>stream_env\<close>: header text
  conversion and validity (\<open>http\<close>), URL-safe base64 decoding (\<open>base64\<close>), HTTP dates
  (\<open>httpdate\<close>), resolution of a project path and opening of a file. The handler awaits
  while it opens the file; \<open>between\<close> lists the calls other tasks make on the store at that
  point.
\<close>

section \<open>Image and video adapters\<close>

definition IMAGE_TYPES :: "(string \<times> string) list" where
  "IMAGE_TYPES = [(''png'', ''image/png''), (''jpg'', ''image/jpeg''), (''jpeg'', ''image/jpeg''),
     (''gif'', ''image/gif''), (''webp'', ''image/webp'')]"

definition image_mime :: "string \<Rightarrow> string option" where
  "image_mime path =
     (case path_extension path of
        None \<Rightarrow> None
      | Some extension \<Rightarrow>
          map_option snd (find (\<lambda>(allowed, _). eq_ignore_ascii_case extension allowed) IMAGE_TYPES))"

definition is_supported_image :: "string \<Rightarrow> bool" where
  "is_supported_image path \<longleftrightarrow> image_mime path \<noteq> None"

definition VIDEO_EXTENSIONS :: "string list" where
  "VIDEO_EXTENSIONS = [''mp4'', ''m4v'', ''webm'', ''ogv'', ''ogg'', ''mov'']"

definition is_supported_video :: "string \<Rightarrow> bool" where
  "is_supported_video path =
     (case path_extension path of
        None \<Rightarrow> False
      | Some extension \<Rightarrow> list_ex (\<lambda>allowed. eq_ignore_ascii_case extension allowed) VIDEO_EXTENSIONS)"

record image_ticket_record =
  ir_target :: resolved_project_target
  ir_project_relative_path :: string
  ir_file :: media_file_version
  ir_mime :: string
  ir_filename :: string

datatype video_ticket_purpose = VideoPlayback | VideoDownload

record video_ticket_record =
  vr_purpose :: video_ticket_purpose
  vr_target :: resolved_project_target
  vr_project_relative_path :: string
  vr_file :: media_file_version
  vr_mime :: string
  vr_filename :: string

definition image_into_media :: "image_ticket_record \<Rightarrow> media_ticket_record" where
  "image_into_media r =
     \<lparr>mr_kind = Image, mr_purpose = Preview, mr_target = ir_target r,
      mr_project_relative_path = ir_project_relative_path r, mr_file = ir_file r,
      mr_mime = ir_mime r, mr_filename = ir_filename r\<rparr>"

definition image_from_media :: "media_ticket_record \<Rightarrow> image_ticket_record option" where
  "image_from_media r =
     (if mr_kind r = Image \<and> mr_purpose r = Preview
      then Some \<lparr>ir_target = mr_target r,
        ir_project_relative_path = mr_project_relative_path r, ir_file = mr_file r,
        ir_mime = mr_mime r, ir_filename = mr_filename r\<rparr>
      else None)"

definition video_into_media :: "video_ticket_record \<Rightarrow> media_ticket_record" where
  "video_into_media r =
     \<lparr>mr_kind = Video,
      mr_purpose = (case vr_purpose r of VideoPlayback \<Rightarrow> Playback | VideoDownload \<Rightarrow> Download),
      mr_target = vr_target r, mr_project_relative_path = vr_project_relative_path r,
      mr_file = vr_file r, mr_mime = vr_mime r, mr_filename = vr_filename r\<rparr>"

definition video_from_media :: "media_ticket_record \<Rightarrow> video_ticket_record option" where
  "video_from_media r =
     (case (case mr_purpose r of Playback \<Rightarrow> Some VideoPlayback
            | Download \<Rightarrow> Some VideoDownload | Preview \<Rightarrow> None) of
        None \<Rightarrow> None
      | Some purpose \<Rightarrow>
          if mr_kind r = Video
          then Some \<lparr>vr_purpose = purpose, vr_target = mr_target r,
            vr_project_relative_path = mr_project_relative_path r, vr_file = mr_file r,
            vr_mime = mr_mime r, vr_filename = mr_filename r\<rparr>
          else None)"

datatype adapter_issue_error = AdapterCapacity | AdapterContextChanged

definition image_issue_bound ::
  "(media_session_token \<Rightarrow> media_session_digest) \<Rightarrow> media_ticket_inner \<Rightarrow> instant \<Rightarrow> int \<Rightarrow>
   (nat \<Rightarrow> string) \<Rightarrow> (nat \<Rightarrow> media_session_token) \<Rightarrow> u64 \<Rightarrow> string \<Rightarrow>
   media_session_token option \<Rightarrow> image_ticket_record \<Rightarrow>
   media_ticket_inner \<times> (adapter_issue_error + media_ticket_lease \<times> media_session_lease)" where
  "image_issue_bound sha s now system dt ds gen actor existing r =
     (case issue_bound sha s now system dt ds gen actor existing (image_into_media r) of
        (s', BoundIssued lease) \<Rightarrow> (s', Inr (bl_ticket lease, bl_session lease))
      | (s', BoundCapacity) \<Rightarrow> (s', Inl AdapterCapacity)
      | (s', BoundContextChanged) \<Rightarrow> (s', Inl AdapterContextChanged))"

record video_ticket_lease =
  vl_ticket :: string
  vl_expires_at_epoch_ms :: nat
  vl_purpose :: video_ticket_purpose

definition video_issue_bound ::
  "(media_session_token \<Rightarrow> media_session_digest) \<Rightarrow> media_ticket_inner \<Rightarrow> instant \<Rightarrow> int \<Rightarrow>
   (nat \<Rightarrow> string) \<Rightarrow> (nat \<Rightarrow> media_session_token) \<Rightarrow> u64 \<Rightarrow> string \<Rightarrow>
   media_session_token option \<Rightarrow> video_ticket_record \<Rightarrow>
   media_ticket_inner \<times> (adapter_issue_error + video_ticket_lease \<times> media_session_lease)" where
  "video_issue_bound sha s now system dt ds gen actor existing r =
     (case issue_bound sha s now system dt ds gen actor existing (video_into_media r) of
        (s', BoundIssued lease) \<Rightarrow>
          (s', Inr (\<lparr>vl_ticket = tl_ticket (bl_ticket lease),
             vl_expires_at_epoch_ms = tl_expires_at_epoch_ms (bl_ticket lease),
             vl_purpose = vr_purpose r\<rparr>, bl_session lease))
      | (s', BoundCapacity) \<Rightarrow> (s', Inl AdapterCapacity)
      | (s', BoundContextChanged) \<Rightarrow> (s', Inl AdapterContextChanged))"

text \<open>
  The adapters lose nothing and never mix kinds: a record comes back from the shared
  store exactly as it went in, and a record of the other kind is not returned.
\<close>

lemma adapter_round_trips:
  "image_from_media (image_into_media i) = Some i \<and>
   video_from_media (video_into_media v) = Some v \<and>
   image_from_media (video_into_media v) = None \<and>
   video_from_media (image_into_media i) = None"
  by (cases "vr_purpose v")
    (simp_all add: image_from_media_def image_into_media_def video_from_media_def
      video_into_media_def)

section \<open>Requests, responses and the environment\<close>

type_synonym header_map = "(string \<times> string) list"

definition get_all :: "string \<Rightarrow> header_map \<Rightarrow> string list" where
  "get_all name hs = map snd (filter (\<lambda>h. fst h = name) hs)"

datatype http_method = HEAD | GET

record response =
  rs_status :: nat
  rs_headers :: header_map
  rs_body :: bytes

record file_metadata =
  fm_is_file :: bool
  fm_len :: u64
  fm_modified :: "int option"
  fm_dev :: u64
  fm_ino :: u64

text \<open>\<open>of_seek_ok\<close> says whether seeking the open file to an offset succeeds.\<close>

record opened_file =
  of_metadata :: file_metadata
  of_content :: bytes
  of_seek_ok :: "u64 \<Rightarrow> bool"

record project_target_ref =
  tr_project :: string
  tr_worktree_path :: "string option"

record resolved_file =
  rf_target :: resolved_project_target
  rf_canonical :: string

record stream_env =
  env_to_str :: "string \<Rightarrow> string option"
  env_header_ok :: "string \<Rightarrow> bool"
  env_b64_decode :: "string \<Rightarrow> bytes option"
  env_parse_http_date :: "string \<Rightarrow> int option"
  env_fmt_http_date :: "int \<Rightarrow> string"
  env_resolve :: "project_target_ref \<Rightarrow> string \<Rightarrow> resolved_file option"
  env_open_regular_file :: "string \<Rightarrow> opened_file option"

section \<open>The media session cookie\<close>

definition MEDIA_SESSION_COOKIE :: string where
  "MEDIA_SESSION_COOKIE = ''damhopper-media-session''"

definition from_cookie_value :: "stream_env \<Rightarrow> string \<Rightarrow> media_session_token option" where
  "from_cookie_value env value =
     (case env_b64_decode env value of
        None \<Rightarrow> None
      | Some bs \<Rightarrow> if length bs = 32 then Some value else None)"

definition cookie_part :: "string \<Rightarrow> string option" where
  "cookie_part part =
     (case split_once (CHR ''='') (trim_ascii part) of
        None \<Rightarrow> None
      | Some (name, value) \<Rightarrow> if name = MEDIA_SESSION_COOKIE then Some value else None)"

definition media_session_from_headers :: "stream_env \<Rightarrow> header_map \<Rightarrow> media_session_token option" where
  "media_session_from_headers env headers =
     (case get_all ''cookie'' headers of
        [] \<Rightarrow> None
      | raw # _ \<Rightarrow>
          (case env_to_str env raw of
             None \<Rightarrow> None
           | Some raw_cookie \<Rightarrow>
               (case List.map_filter cookie_part (split_on (CHR '';'') raw_cookie) of
                  [value] \<Rightarrow> from_cookie_value env value
                | _ \<Rightarrow> None)))"

definition cookie_header :: "string \<Rightarrow> nat \<Rightarrow> string" where
  "cookie_header value max_age =
     MEDIA_SESSION_COOKIE @ ''='' @ value @ ''; HttpOnly; SameSite=Lax; Path=/api/fs; Max-Age='' @
     dec max_age"

definition media_session_cookie :: "media_session_lease \<Rightarrow> string" where
  "media_session_cookie lease = cookie_header (ml_token lease) (MEDIA_SESSION_ABSOLUTE_TTL div 1000)"

definition clear_media_session_cookie :: string where
  "clear_media_session_cookie = cookie_header [] 0"

section \<open>Response headers\<close>

definition header_value :: "stream_env \<Rightarrow> string \<Rightarrow> string \<Rightarrow> string" where
  "header_value env value fallback = (if env_header_ok env value then value else fallback)"

definition number_header :: "stream_env \<Rightarrow> u64 \<Rightarrow> string" where
  "number_header env value = header_value env (dec (unat value)) ''0''"

definition MAX_HTTP_DATE_SECONDS :: int where
  "MAX_HTTP_DATE_SECONDS = 253402300799"

text \<open>File times are nanoseconds since the epoch, HTTP dates whole seconds.\<close>

definition last_modified_time :: "media_file_version \<Rightarrow> int" where
  "last_modified_time f =
     (if mf_modified f < 0 then 0 else min (mf_modified f div 1000000000) MAX_HTTP_DATE_SECONDS)"

definition last_modified :: "stream_env \<Rightarrow> media_file_version \<Rightarrow> string" where
  "last_modified env f =
     header_value env (env_fmt_http_date env (last_modified_time f)) ''Thu, 01 Jan 1970 00:00:00 GMT''"

definition quote :: "string \<Rightarrow> string" where
  "quote s = CHR 0x22 # s @ [CHR 0x22]"

definition etag :: "stream_env \<Rightarrow> media_file_version \<Rightarrow> string" where
  "etag env f = header_value env (quote (mf_validator f)) (quote ''invalid'')"

definition if_range_matches :: "stream_env \<Rightarrow> header_map \<Rightarrow> media_file_version \<Rightarrow> bool" where
  "if_range_matches env headers f =
     (case get_all ''if-range'' headers of
        [] \<Rightarrow> True
      | [raw] \<Rightarrow>
          (case env_to_str env raw of
             None \<Rightarrow> False
           | Some value \<Rightarrow> value = quote (mf_validator f) \<or>
               (case env_parse_http_date env value of
                  None \<Rightarrow> False
                | Some date \<Rightarrow> last_modified_time f \<le> date))
      | _ \<Rightarrow> False)"

definition ascii_filename :: "string \<Rightarrow> string" where
  "ascii_filename filename =
     (let value = map (\<lambda>b. if is_ascii_alphanumeric b \<or> b \<in> {CHR ''.'', CHR ''-'', CHR ''_''}
                           then b else CHR ''_'') filename
      in if value = [] then ''download'' else value)"

definition hex_digit :: "nat \<Rightarrow> char" where
  "hex_digit n = (if n < 10 then char_of (48 + n) else char_of (55 + n))"

definition rfc5987_plain :: "char \<Rightarrow> bool" where
  "rfc5987_plain b \<longleftrightarrow> is_ascii_alphanumeric b \<or>
     b \<in> {CHR ''!'', CHR ''#'', CHR ''$'', CHR ''&'', CHR ''+'', CHR ''-'', CHR ''.'', CHR ''^'',
           CHR ''_'', CHR 0x60, CHR ''|'', CHR ''~''}"

definition rfc5987_byte :: "char \<Rightarrow> string" where
  "rfc5987_byte b =
     (if rfc5987_plain b then [b]
      else [CHR ''%'', hex_digit (of_char b div 16), hex_digit (of_char b mod 16)])"

definition rfc5987_filename :: "string \<Rightarrow> string" where
  "rfc5987_filename filename = concat (map rfc5987_byte filename)"

datatype media_disposition = Inline | VideoDisposition video_ticket_purpose

definition disposition :: "stream_env \<Rightarrow> media_disposition \<Rightarrow> string \<Rightarrow> string" where
  "disposition env policy filename =
     (case policy of
        Inline \<Rightarrow> ''inline''
      | VideoDisposition VideoPlayback \<Rightarrow> ''inline''
      | VideoDisposition VideoDownload \<Rightarrow>
          header_value env
            (''attachment; filename='' @ quote (ascii_filename filename) @
             ''; filename*=UTF-8'' @ [CHR 0x27, CHR 0x27] @ rfc5987_filename filename)
            (''attachment; filename='' @ quote ''download''))"

definition response_with_body ::
  "stream_env \<Rightarrow> nat \<Rightarrow> media_ticket_record \<Rightarrow> byte_range option \<Rightarrow> bytes \<Rightarrow>
   media_disposition \<Rightarrow> response option" where
  "response_with_body env status rec rng body policy =
     (case (case rng of Some r \<Rightarrow> byte_range_len r | None \<Rightarrow> Some (mf_size (mr_file rec))) of
        None \<Rightarrow> None
      | Some len \<Rightarrow> Some
          \<lparr>rs_status = status,
           rs_headers =
             [(''accept-ranges'', ''bytes''),
              (''content-type'', header_value env (mr_mime rec) ''application/octet-stream''),
              (''content-length'', number_header env len),
              (''etag'', etag env (mr_file rec)),
              (''last-modified'', last_modified env (mr_file rec)),
              (''cache-control'', ''private, no-store''),
              (''content-disposition'', disposition env policy (mr_filename rec))] @
             (case rng of None \<Rightarrow> []
              | Some r \<Rightarrow> [(''content-range'', header_value env
                  (''bytes '' @ dec (unat (br_start r)) @ ''-'' @ dec (unat (br_end r)) @ ''/'' @
                   dec (unat (mf_size (mr_file rec)))) ''bytes */0'')]),
           rs_body = body\<rparr>)"

definition range_not_satisfiable :: "stream_env \<Rightarrow> media_ticket_record \<Rightarrow> response" where
  "range_not_satisfiable env rec =
     \<lparr>rs_status = 416,
      rs_headers =
        [(''accept-ranges'', ''bytes''), (''content-length'', ''0''),
         (''content-range'',
          header_value env (''bytes */'' @ dec (unat (mf_size (mr_file rec)))) ''bytes */0''),
         (''etag'', etag env (mr_file rec)), (''last-modified'', last_modified env (mr_file rec)),
         (''cache-control'', ''private, no-store'')],
      rs_body = []\<rparr>"

definition empty_response :: "nat \<Rightarrow> response" where
  "empty_response status =
     \<lparr>rs_status = status, rs_headers = [(''cache-control'', ''private, no-store'')], rs_body = []\<rparr>"

section \<open>Serving a ticket\<close>

definition disposition_for :: "media_ticket_record \<Rightarrow> media_ticket_kind \<Rightarrow> media_disposition option" where
  "disposition_for rec kind =
     (case kind of
        Image \<Rightarrow> if mr_purpose rec = Preview then Some Inline else None
      | Video \<Rightarrow>
          (case mr_purpose rec of
             Playback \<Rightarrow> Some (VideoDisposition VideoPlayback)
           | Download \<Rightarrow> Some (VideoDisposition VideoDownload)
           | Preview \<Rightarrow> None))"

definition requested_range :: "stream_env \<Rightarrow> header_map \<Rightarrow> u64 \<Rightarrow> unit + byte_range option" where
  "requested_range env headers sz =
     (case get_all ''range'' headers of
        [] \<Rightarrow> Inr None
      | [raw] \<Rightarrow>
          (case env_to_str env raw of
             None \<Rightarrow> Inl ()
           | Some value \<Rightarrow> and_then (parse_single_range value sz) (\<lambda>r. Inr (Some r)))
      | _ \<Rightarrow> Inl ())"

definition version_matches :: "media_file_version \<Rightarrow> file_metadata \<Rightarrow> bool" where
  "version_matches expected actual \<longleftrightarrow>
     fm_is_file actual \<and> mf_size expected = fm_len actual \<and>
     fm_modified actual = Some (mf_modified expected) \<and>
     mf_device expected = fm_dev actual \<and> mf_inode expected = fm_ino actual"

definition open_revalidated :: "stream_env \<Rightarrow> media_ticket_record \<Rightarrow> opened_file option" where
  "open_revalidated env rec =
     (let target = mr_target rec;
          target_ref = \<lparr>tr_project = rt_project target,
            tr_worktree_path = (if rt_is_root target then None else Some (rt_target_path target))\<rparr>
      in case env_resolve env target_ref (mr_project_relative_path rec) of
           None \<Rightarrow> None
         | Some resolved \<Rightarrow>
             if rt_target_key (rf_target resolved) \<noteq> rt_target_key target \<or>
                rt_target_path (rf_target resolved) \<noteq> rt_target_path target \<or>
                rt_configured_root (rf_target resolved) \<noteq> rt_configured_root target
             then None
             else if rf_canonical resolved \<noteq> mf_canonical_path (mr_file rec) then None
             else (case env_open_regular_file env (rf_canonical resolved) of
                     None \<Rightarrow> None
                   | Some f \<Rightarrow>
                       if version_matches (mr_file rec) (of_metadata f) then Some f else None))"

definition stream_body :: "opened_file \<Rightarrow> byte_range option \<Rightarrow> u64 \<Rightarrow> bytes option" where
  "stream_body f rng sz =
     (if sz = 0 then Some []
      else (case (case rng of Some r \<Rightarrow> Some r
                  | None \<Rightarrow> map_option (\<lambda>e. \<lparr>br_start = 0, br_end = e\<rparr>) (checked_sub sz 1)) of
              None \<Rightarrow> None
            | Some r \<Rightarrow>
                if \<not> of_seek_ok f (br_start r) then None
                else (case byte_range_len r of
                        None \<Rightarrow> None
                      | Some n \<Rightarrow> Some (take (unat n) (drop (unat (br_start r)) (of_content f))))))"

datatype authorization_mode = CookieMode media_session_token | TicketMode

definition respond_authorize ::
  "(media_session_token \<Rightarrow> media_session_digest) \<Rightarrow> stream_env \<Rightarrow> media_ticket_inner \<Rightarrow>
   instant \<Rightarrow> instant \<Rightarrow> string \<Rightarrow> media_ticket_kind \<Rightarrow> header_map \<Rightarrow> bool \<Rightarrow>
   media_ticket_inner \<times> (media_ticket_authorization \<times> authorization_mode) option" where
  "respond_authorize sha env s t1 t2 ticket kind headers allow_ticket_only =
     (let by_ticket = (\<lambda>s t. case authorize_ticket s t ticket kind of
            (s', a) \<Rightarrow> (s', map_option (\<lambda>a. (a, TicketMode)) a))
      in case media_session_from_headers env headers of
           Some token \<Rightarrow>
             (case authorize_bound sha s t1 ticket kind token of
                (s', Some a) \<Rightarrow> (s', Some (a, CookieMode token))
              | (s', None) \<Rightarrow> if allow_ticket_only then by_ticket s' t2 else (s', None))
         | None \<Rightarrow> if allow_ticket_only then by_ticket s t1 else (s, None))"

definition finalize_mode ::
  "(media_session_token \<Rightarrow> media_session_digest) \<Rightarrow> media_ticket_inner \<Rightarrow> instant \<Rightarrow> string \<Rightarrow>
   media_ticket_kind \<Rightarrow> authorization_mode \<Rightarrow> media_ticket_authorization \<Rightarrow>
   media_ticket_inner \<times> bool" where
  "finalize_mode sha s t ticket kind mode auth =
     (case mode of
        CookieMode token \<Rightarrow> finalize_bound_and_touch sha s t ticket kind token auth
      | TicketMode \<Rightarrow> finalize_ticket_and_touch s t ticket kind auth)"

definition stale_response ::
  "media_ticket_inner \<Rightarrow> string \<Rightarrow> media_ticket_kind \<Rightarrow> media_ticket_inner \<times> response" where
  "stale_response s ticket kind = (ticket_revoke s ticket kind, empty_response 410)"

definition effective_range ::
  "stream_env \<Rightarrow> header_map \<Rightarrow> media_file_version \<Rightarrow> unit + byte_range option" where
  "effective_range env headers f =
     and_then (requested_range env headers (mf_size f)) (\<lambda>rng.
       Inr (if rng \<noteq> None \<and> if_range_matches env headers f then rng else None))"

definition respond_body ::
  "stream_env \<Rightarrow> media_ticket_inner \<Rightarrow> string \<Rightarrow> media_ticket_kind \<Rightarrow> media_ticket_record \<Rightarrow>
   opened_file \<Rightarrow> byte_range option \<Rightarrow> media_disposition \<Rightarrow> media_ticket_inner \<times> response" where
  "respond_body env s ticket kind rec file rng policy =
     (case stream_body file rng (mf_size (mr_file rec)) of
        None \<Rightarrow> stale_response s ticket kind
      | Some body \<Rightarrow>
          (case response_with_body env (if rng = None then 200 else 206) rec rng body policy of
             None \<Rightarrow> stale_response s ticket kind
           | Some r \<Rightarrow> (s, r)))"

definition respond ::
  "(media_session_token \<Rightarrow> media_session_digest) \<Rightarrow> stream_env \<Rightarrow> media_ticket_inner \<Rightarrow>
   instant \<Rightarrow> instant \<Rightarrow> media_call list \<Rightarrow> instant \<Rightarrow> string \<Rightarrow> media_ticket_kind \<Rightarrow>
   http_method \<Rightarrow> header_map \<Rightarrow> bool \<Rightarrow> media_ticket_inner \<times> response" where
  "respond sha env s t1 t2 between t3 ticket kind meth headers allow_ticket_only =
     (case respond_authorize sha env s t1 t2 ticket kind headers allow_ticket_only of
        (s1, None) \<Rightarrow> (s1, empty_response 404)
      | (s1, Some (auth, mode)) \<Rightarrow>
          (let rec = ma_record auth
           in case disposition_for rec kind of
                None \<Rightarrow> (s1, empty_response 404)
              | Some policy \<Rightarrow>
                  (let s2 = foldl (media_step sha) s1 between
                   in case open_revalidated env rec of
                        None \<Rightarrow> (ticket_revoke s2 ticket kind, empty_response 410)
                      | Some file \<Rightarrow>
                          if meth = HEAD then
                            (case finalize_mode sha s2 t3 ticket kind mode auth of
                               (s3, False) \<Rightarrow> (s3, empty_response 404)
                             | (s3, True) \<Rightarrow>
                                 (case response_with_body env 200 rec None [] policy of
                                    None \<Rightarrow> stale_response s3 ticket kind
                                  | Some r \<Rightarrow> (s3, r)))
                          else
                            (case effective_range env headers (mr_file rec) of
                               Inl _ \<Rightarrow> (s2, range_not_satisfiable env rec)
                             | Inr rng \<Rightarrow>
                                 (case finalize_mode sha s2 t3 ticket kind mode auth of
                                    (s3, False) \<Rightarrow> (s3, empty_response 404)
                                  | (s3, True) \<Rightarrow>
                                      respond_body env s3 ticket kind rec file rng policy)))))"

section \<open>What a successful response serves\<close>

lemma response_with_body_status:
  "response_with_body env status rec rng body policy = Some r \<Longrightarrow>
     rs_status r = status \<and> rs_body r = body"
  by (auto simp: response_with_body_def split: option.splits)

lemma error_statuses [simp]:
  "rs_status (empty_response n) = n"
  "rs_status (range_not_satisfiable env rec) = 416"
  "rs_status (snd (stale_response s ticket kind)) = 410"
  by (simp_all add: empty_response_def range_not_satisfiable_def stale_response_def)

text \<open>
  \<open>served\<close> collects what a 200 or 206 answer to a GET rests on: an authorisation, a
  revalidated file, the requested range and a successful finalisation.
\<close>

definition served ::
  "(media_session_token \<Rightarrow> media_session_digest) \<Rightarrow> stream_env \<Rightarrow> media_ticket_inner \<Rightarrow>
   instant \<Rightarrow> instant \<Rightarrow> media_call list \<Rightarrow> instant \<Rightarrow> string \<Rightarrow> media_ticket_kind \<Rightarrow>
   header_map \<Rightarrow> bool \<Rightarrow> media_ticket_authorization \<Rightarrow> authorization_mode \<Rightarrow> opened_file \<Rightarrow> bool" where
  "served sha env s t1 t2 between t3 ticket kind headers allow auth mode file \<longleftrightarrow>
     (\<exists>s1. respond_authorize sha env s t1 t2 ticket kind headers allow = (s1, Some (auth, mode)) \<and>
        open_revalidated env (ma_record auth) = Some file \<and>
        snd (finalize_mode sha (foldl (media_step sha) s1 between) t3 ticket kind mode auth))"

lemma effective_range_None:
  "effective_range env headers f = Inr None \<Longrightarrow>
     get_all ''range'' headers = [] \<or> \<not> if_range_matches env headers f"
  by (auto simp: effective_range_def requested_range_def and_then_Inr_iff
      split: list.splits option.splits if_splits)

lemma effective_range_Some:
  "effective_range env headers f = Inr (Some rng) \<Longrightarrow>
     if_range_matches env headers f \<and>
     (\<exists>raw value. get_all ''range'' headers = [raw] \<and> env_to_str env raw = Some value \<and>
        parse_single_range value (mf_size f) = Inr rng)"
  by (auto simp: effective_range_def requested_range_def and_then_Inr_iff
      split: list.splits option.splits if_splits)

lemma respond_body_ok:
  assumes "respond_body env s ticket kind rec file rng policy = (s', r)"
    and "rs_status r = 200 \<or> rs_status r = 206"
  shows "\<exists>body. stream_body file rng (mf_size (mr_file rec)) = Some body \<and>
    response_with_body env (if rng = None then 200 else 206) rec rng body policy = Some r"
proof (cases "stream_body file rng (mf_size (mr_file rec))")
  case None
  with assms show ?thesis by (auto simp: respond_body_def stale_response_def)
next
  case (Some body)
  with assms show ?thesis
    by (cases "response_with_body env (if rng = None then 200 else 206) rec rng body policy")
      (auto simp: respond_body_def stale_response_def)
qed

lemma respond_ok:
  assumes "respond sha env s t1 t2 between t3 ticket kind meth headers allow = (s', r)"
    and "rs_status r = 200 \<or> rs_status r = 206"
  shows "\<exists>auth mode file.
    served sha env s t1 t2 between t3 ticket kind headers allow auth mode file \<and>
    (meth = GET \<longrightarrow> (\<exists>rng policy s3.
       effective_range env headers (mr_file (ma_record auth)) = Inr rng \<and>
       respond_body env s3 ticket kind (ma_record auth) file rng policy = (s', r))) \<and>
    (meth = HEAD \<longrightarrow> rs_body r = [])"
proof -
  obtain s1 res where auth: "respond_authorize sha env s t1 t2 ticket kind headers allow = (s1, res)"
    by fastforce
  with assms obtain a mode where res: "res = Some (a, mode)"
    by (cases res) (auto simp: respond_def)
  with assms auth obtain policy where policy: "disposition_for (ma_record a) kind = Some policy"
    by (cases "disposition_for (ma_record a) kind") (auto simp: respond_def Let_def)
  with assms auth res obtain f where opened: "open_revalidated env (ma_record a) = Some f"
    by (cases "open_revalidated env (ma_record a)") (auto simp: respond_def Let_def)
  obtain s3 ok where fin:
    "finalize_mode sha (foldl (media_step sha) s1 between) t3 ticket kind mode a = (s3, ok)"
    by fastforce
  note eqs = auth res policy opened fin
  show ?thesis
  proof (cases meth)
    case HEAD
    with assms eqs have ok and "rs_body r = []"
      by (auto simp: respond_def Let_def stale_response_def empty_response_def
          split: option.splits bool.splits dest: response_with_body_status)
    with HEAD eqs show ?thesis unfolding served_def by auto
  next
    case GET
    obtain rng where rng: "effective_range env headers (mr_file (ma_record a)) = Inr rng"
      using assms eqs GET
      by (cases "effective_range env headers (mr_file (ma_record a))") (auto simp: respond_def Let_def)
    have ok using assms eqs GET rng by (cases ok) (auto simp: respond_def Let_def)
    then have "respond_body env s3 ticket kind (ma_record a) f rng policy = (s', r)"
      using assms eqs GET rng by (simp add: respond_def Let_def)
    with GET eqs rng \<open>ok\<close> show ?thesis unfolding served_def
      by (intro exI [of _ a] exI [of _ mode] exI [of _ f]) auto
  qed
qed

section \<open>Properties\<close>

text \<open>
  C29: a GET answered 200 or 206 serves the requested bytes of the authorised file only. The file opened
  for the response is the very version the ticket was issued for (path, size, modification
  time, device, inode). A 200 carries its whole content, and is given only when the request has no
  \<open>Range\<close> header or its \<open>If-Range\<close> condition does not hold. A 206 carries the slice that the one \<open>Range\<close>
  header of the request asks for, under a true \<open>If-Range\<close> condition, and names the slice in
  \<open>Content-Range\<close>. \<open>Content-Length\<close> announces the length of the body. The hypothesis on the
  environment is that an opened file holds as many bytes as its metadata says.
\<close>

definition content_length_honest :: "stream_env \<Rightarrow> bool" where
  "content_length_honest env \<longleftrightarrow> (\<forall>path f. env_open_regular_file env path = Some f \<longrightarrow>
     length (of_content f) = unat (fm_len (of_metadata f)))"

lemma open_revalidated_version:
  "open_revalidated env rec = Some f \<Longrightarrow> version_matches (mr_file rec) (of_metadata f) \<and>
     env_open_regular_file env (mf_canonical_path (mr_file rec)) = Some f"
  by (auto simp: open_revalidated_def Let_def split: option.splits if_splits)

lemma stream_body_whole:
  assumes "stream_body f None sz = Some body" and "length (of_content f) = unat sz"
  shows "body = of_content f"
proof (cases "sz = 0")
  case True
  with assms show ?thesis by (simp add: stream_body_def)
next
  case False
  then have pred: "unat (sz - 1) = unat sz - 1" and pos: "0 < unat sz"
    by (simp_all add: unat_minus_one unat_gt_0)
  from pos have "1 \<le> sz" by (simp add: word_le_nat_alt)
  then have "byte_range_len \<lparr>br_start = 0, br_end = sz - 1\<rparr> = Some n \<Longrightarrow> unat n = unat sz" for n
    using pred pos by (auto simp: byte_range_len_def checked_sub_def checked_add_def
        split: if_splits)
  with assms False \<open>1 \<le> sz\<close> show ?thesis
    by (auto simp: stream_body_def checked_sub_def split: option.splits if_splits)
qed

lemma response_content_length:
  assumes "response_with_body env status rec rng body policy = Some r"
  shows "\<exists>n. (case rng of Some q \<Rightarrow> byte_range_len q | None \<Rightarrow> Some (mf_size (mr_file rec))) = Some n \<and>
    (''content-length'', number_header env n) \<in> set (rs_headers r)"
  using assms by (auto simp: response_with_body_def split: option.splits)

definition content_range_of :: "byte_range \<Rightarrow> u64 \<Rightarrow> string" where
  "content_range_of rng sz =
     ''bytes '' @ dec (unat (br_start rng)) @ ''-'' @ dec (unat (br_end rng)) @ ''/'' @ dec (unat sz)"

lemma response_content_range:
  "response_with_body env status rec (Some rng) body policy = Some r \<Longrightarrow>
     (''content-range'', header_value env (content_range_of rng (mf_size (mr_file rec))) ''bytes */0'')
       \<in> set (rs_headers r)"
  by (auto simp: response_with_body_def content_range_of_def split: option.splits)

lemma served_slice:
  assumes "stream_body f (Some rng) sz = Some body" and "parse_single_range value sz = Inr rng"
    and "length (of_content f) = unat sz"
  shows "body = take (unat (br_end rng) - unat (br_start rng) + 1)
      (drop (unat (br_start rng)) (of_content f)) \<and>
    byte_range_len rng = Some (of_nat (length body))"
proof -
  from parse_single_range_bounds [OF assms(2)] obtain n where
    bounds: "unat (br_start rng) \<le> unat (br_end rng)" "unat (br_end rng) < unat sz"
    and n: "byte_range_len rng = Some n" "unat n = unat (br_end rng) - unat (br_start rng) + 1"
    by blast
  have sz: "sz \<noteq> 0" using bounds by auto
  from assms(1) sz n have body: "body = take (unat n) (drop (unat (br_start rng)) (of_content f))"
    by (auto simp: stream_body_def split: if_splits)
  with bounds n assms(3) have "length body = unat n" by simp
  then have "of_nat (length body) = n" by simp
  with body n show ?thesis by simp
qed

theorem respond_serves_authorized_file:
  assumes "content_length_honest env"
    and "respond sha env s t1 t2 between t3 ticket kind GET headers allow = (s', r)"
    and "rs_status r = 200 \<or> rs_status r = 206"
  shows "\<exists>auth mode f.
    served sha env s t1 t2 between t3 ticket kind headers allow auth mode f \<and>
    version_matches (mr_file (ma_record auth)) (of_metadata f) \<and>
    (''content-length'', number_header env (of_nat (length (rs_body r)))) \<in> set (rs_headers r) \<and>
    (if rs_status r = 200 then
       rs_body r = of_content f \<and>
       (get_all ''range'' headers = [] \<or> \<not> if_range_matches env headers (mr_file (ma_record auth)))
     else \<exists>raw value rng. get_all ''range'' headers = [raw] \<and> env_to_str env raw = Some value \<and>
       parse_single_range value (mf_size (mr_file (ma_record auth))) = Inr rng \<and>
       if_range_matches env headers (mr_file (ma_record auth)) \<and>
       rs_body r = take (unat (br_end rng) - unat (br_start rng) + 1)
         (drop (unat (br_start rng)) (of_content f)) \<and>
       (''content-range'', header_value env
          (content_range_of rng (mf_size (mr_file (ma_record auth)))) ''bytes */0'')
         \<in> set (rs_headers r))"
proof -
  from respond_ok [OF assms(2,3)] obtain auth mode f rng policy s3 where
    served: "served sha env s t1 t2 between t3 ticket kind headers allow auth mode f"
    and rng: "effective_range env headers (mr_file (ma_record auth)) = Inr rng"
    and body: "respond_body env s3 ticket kind (ma_record auth) f rng policy = (s', r)"
    by blast
  let ?file = "mr_file (ma_record auth)"
  have opened: "version_matches ?file (of_metadata f)"
    "env_open_regular_file env (mf_canonical_path ?file) = Some f"
    using served open_revalidated_version by (auto simp: served_def)
  then have len: "length (of_content f) = unat (mf_size ?file)"
    using assms(1) by (simp add: content_length_honest_def version_matches_def)
  from respond_body_ok [OF body assms(3)] obtain bs where
    bs: "stream_body f rng (mf_size ?file) = Some bs"
    and resp: "response_with_body env (if rng = None then 200 else 206) (ma_record auth) rng bs policy
      = Some r"
    by blast
  note shape = response_with_body_status [OF resp] response_content_length [OF resp]
  show ?thesis
  proof (cases rng)
    case None
    with bs len have "bs = of_content f" by (simp add: stream_body_whole)
    with None shape len have "rs_status r = 200" "rs_body r = of_content f"
      "(''content-length'', number_header env (of_nat (length (rs_body r)))) \<in> set (rs_headers r)"
      by auto
    moreover have "get_all ''range'' headers = [] \<or> \<not> if_range_matches env headers ?file"
      using effective_range_None rng None by blast
    ultimately show ?thesis using served opened by auto
  next
    case (Some q)
    with rng effective_range_Some obtain raw v where
      q: "parse_single_range v (mf_size ?file) = Inr q" and
      asked: "get_all ''range'' headers = [raw]" "env_to_str env raw = Some v"
        "if_range_matches env headers ?file"
      by blast
    note header = response_content_range [OF resp [unfolded Some]]
    from q Some bs len have "bs = take (unat (br_end q) - unat (br_start q) + 1)
        (drop (unat (br_start q)) (of_content f))" "byte_range_len q = Some (of_nat (length bs))"
      using served_slice by blast+
    moreover from Some shape have "rs_status r = 206" "rs_body r = bs" by auto
    moreover from Some shape have "\<exists>n. byte_range_len q = Some n \<and>
        (''content-length'', number_header env n) \<in> set (rs_headers r)" by simp
    ultimately show ?thesis using served opened q asked header
      by (intro exI [of _ auth] exI [of _ mode] exI [of _ f]) auto
  qed
qed

text \<open>
  Revocation stops a response in flight. When the session named by the request's
  cookie is revoked while the handler is opening the file, a cookie-authorised request is
  not answered with content, whatever else runs on the store meanwhile.
\<close>

lemma revocation_stops_response:
  assumes "length before + length xs + length ys + 1 < 2 ^ 64"
    and "s = foldl (media_step sha) media_store_new before"
    and "media_session_from_headers env headers = Some tok"
  shows "rs_status (snd (respond sha env s t1 t2 (xs @ RevokeSession tok # ys) t3 ticket kind meth
    headers False)) \<notin> {200, 206}"
proof
  let ?r = "respond sha env s t1 t2 (xs @ RevokeSession tok # ys) t3 ticket kind meth headers False"
  assume "rs_status (snd ?r) \<in> {200, 206}"
  then have ok: "rs_status (snd ?r) = 200 \<or> rs_status (snd ?r) = 206" by simp
  have eq: "?r = (fst ?r, snd ?r)" by simp
  from respond_ok [OF eq ok] obtain auth mode f where
    "served sha env s t1 t2 (xs @ RevokeSession tok # ys) t3 ticket kind headers False auth mode f"
    by blast
  then obtain s1 where auth: "respond_authorize sha env s t1 t2 ticket kind headers False
      = (s1, Some (auth, mode))"
    and fin: "snd (finalize_mode sha (foldl (media_step sha) s1 (xs @ RevokeSession tok # ys)) t3
      ticket kind mode auth)"
    by (auto simp: served_def)
  from auth assms(3) have bound: "authorize_bound sha s t1 ticket kind tok = (s1, Some auth)"
    and mode: "mode = CookieMode tok"
    by (auto simp: respond_authorize_def Let_def split: prod.splits option.splits)
  from revoked_authorization_dead [OF assms(1,2) bound refl refl, of t3 ticket kind tok] fin mode
  show False by (simp add: finalize_mode_def)
qed

section \<open>Witnesses\<close>

text \<open>The run of the ticket store above, with a ten-byte file behind the ticket.\<close>

definition demo_env :: stream_env where
  "demo_env = \<lparr>env_to_str = Some, env_header_ok = (\<lambda>_. True),
     env_b64_decode = (\<lambda>_. Some (replicate 32 0)), env_parse_http_date = (\<lambda>_. None),
     env_fmt_http_date = (\<lambda>_. ''date''),
     env_resolve = (\<lambda>_ _. Some \<lparr>rf_target = mr_target demo_record, rf_canonical = ''/p/a.mp4''\<rparr>),
     env_open_regular_file = (\<lambda>_. Some \<lparr>of_metadata = \<lparr>fm_is_file = True, fm_len = 10,
       fm_modified = Some 0, fm_dev = 1, fm_ino = 2\<rparr>, of_content = [0, 1, 2, 3, 4, 5, 6, 7, 8, 9],
       of_seek_ok = (\<lambda>_. True)\<rparr>)\<rparr>"

definition demo_headers :: header_map where
  "demo_headers = [(''cookie'', ''damhopper-media-session=s''), (''range'', ''bytes=2-5'')]"

lemma demo_cookie: "media_session_from_headers demo_env demo_headers = Some ''s''"
proof -
  have "trim_ascii ''damhopper-media-session=s'' = ''damhopper-media-session=s''"
    by (simp add: trim_ascii_def trim_start_def trim_end_def is_ascii_space_def)
  then show ?thesis
    by (simp add: media_session_from_headers_def demo_headers_def demo_env_def get_all_def
        List.map_filter_def cookie_part_def MEDIA_SESSION_COOKIE_def from_cookie_value_def)
qed

lemma demo_open: "open_revalidated demo_env demo_record = Some \<lparr>of_metadata = \<lparr>fm_is_file = True, fm_len = 10,
       fm_modified = Some 0, fm_dev = 1, fm_ino = 2\<rparr>, of_content = [0, 1, 2, 3, 4, 5, 6, 7, 8, 9],
       of_seek_ok = (\<lambda>_. True)\<rparr>"
  by (simp add: open_revalidated_def demo_env_def demo_record_def version_matches_def)

lemma demo_range:
  "parse_single_range ''bytes=2-5'' 10 = Inr \<lparr>br_start = 2, br_end = 5\<rparr>"
  by (simp add: parse_single_range_def parse_u64_def parse_unsigned_def digits_value_def
      strip_prefix_str_def starts_with_def is_ascii_digit_def and_then_def word_less_nat_alt
      word_le_nat_alt min_def)

lemma demo_respond:
  "rs_status (snd (respond demo_sha demo_env demo_state 3 3 [] 4 ''t'' Video GET demo_headers False)) = 206"
proof -
  obtain s3 where "finalize_bound_and_touch demo_sha (prune_expired demo_state 3) 4 ''t'' Video ''s''
      demo_auth = (s3, True)"
    using demo_finalize by (cases "finalize_bound_and_touch demo_sha (prune_expired demo_state 3) 4
        ''t'' Video ''s'' demo_auth") auto
  moreover have "mf_size (mr_file demo_record) = 10" by (simp add: demo_record_def)
  moreover from this
  have "effective_range demo_env demo_headers (mr_file demo_record) =
      Inr (Some \<lparr>br_start = 2, br_end = 5\<rparr>)"
    by (simp add: effective_range_def requested_range_def if_range_matches_def demo_headers_def
        get_all_def demo_env_def demo_range)
  moreover have "ma_record demo_auth = demo_record" by (simp add: demo_auth_def)
  moreover have "disposition_for demo_record Video = Some (VideoDisposition VideoPlayback)"
    by (simp add: disposition_for_def demo_record_def)
  ultimately show ?thesis
    by (simp add: respond_def respond_authorize_def demo_cookie demo_authorize demo_open
        finalize_mode_def respond_body_def stream_body_def checked_sub_def byte_range_len_def
        checked_add_def response_with_body_def)
qed

theorem respond_serves_authorized_file_witness:
  "rs_body (snd (respond demo_sha demo_env demo_state 3 3 [] 4 ''t'' Video GET demo_headers False)) =
    [2, 3, 4, 5]"
proof -
  let ?r = "respond demo_sha demo_env demo_state 3 3 [] 4 ''t'' Video GET demo_headers False"
  have "content_length_honest demo_env" by (simp add: content_length_honest_def demo_env_def)
  moreover have "?r = (fst ?r, snd ?r)" by simp
  moreover have status: "rs_status (snd ?r) = 206" by (rule demo_respond)
  ultimately obtain auth mode f where
    served: "served demo_sha demo_env demo_state 3 3 [] 4 ''t'' Video demo_headers False auth mode f"
    and slice: "\<exists>raw value rng. get_all ''range'' demo_headers = [raw] \<and>
       env_to_str demo_env raw = Some value \<and>
       parse_single_range value (mf_size (mr_file (ma_record auth))) = Inr rng \<and>
       rs_body (snd ?r) = take (unat (br_end rng) - unat (br_start rng) + 1)
         (drop (unat (br_start rng)) (of_content f))"
    using respond_serves_authorized_file [of demo_env demo_sha demo_state 3 3 "[]" 4 "''t''" Video
        demo_headers False "fst ?r" "snd ?r"] by auto
  have "auth = demo_auth" "open_revalidated demo_env (ma_record auth) = Some f"
    using served by (auto simp: served_def respond_authorize_def demo_cookie demo_authorize)
  then have "mf_size (mr_file (ma_record auth)) = 10"
    and "of_content f = [0, 1, 2, 3, 4, 5, 6, 7, 8, 9]"
    using demo_open by (auto simp: demo_auth_def demo_record_def)
  with slice show ?thesis
    by (auto simp: demo_headers_def get_all_def demo_env_def demo_range)
qed

end
