(* ===== verification/Release_Manifest.thy ===== *)
theory Release_Manifest
  imports Text
begin

text \<open>
  The release contract of the Linux release manager: version, tag and digest checks
  (\<open>linux_release/version.rs\<close>), inventory paths and entries (\<open>inventory.rs\<close>,
  \<open>inventory_path.rs\<close>, \<open>inventory_validation.rs\<close>), the manifest and its invariants
  (\<open>manifest.rs\<close>, \<open>manifest_validation.rs\<close>) with the constants of \<open>constants.rs\<close>.

  The semantic version parser is a third-party crate and a parameter \<open>semver\<close>; so is the
  JSON decoder \<open>from_slice\<close>. Error messages keep their literal text; values that the code
  interpolates into a message are left out of it.
\<close>

unbundle bit_operations_syntax

section \<open>Errors\<close>

text \<open>
  The variants of \<open>ReleaseError\<close> that the modelled code raises, grouped by the stage that
  raises them; the Rust enum is the flat sum of the groups.
\<close>

datatype manifest_error =
    PayloadTooLarge nat
  | JsonDeserialization string
  | InvalidSchemaVersion u32 u32
  | InvalidVersion string
  | InvalidTag string string
  | ComponentVersionMismatch string string string
  | InvalidCommitSha
  | ProfileMismatch string string string
  | SystemdVersionTooLow u32 u32
  | ArchiveNameMismatch string string
  | InvalidArchiveSha256
  | InvalidArchiveSize
  | ServiceContractMismatch string string string string
  | ServicePortMismatch string u16 u16
  | RollbackMismatch string string string

datatype inventory_error =
    InventoryTooLarge nat
  | InvalidInventoryPath string
  | DuplicateInventoryPath string
  | InvalidFileSha256 string
  | InvalidMode string u32
  | EmptyRoles string
  | MissingFileMetadata string
  | UnexpectedDirectoryMetadata string
  | MissingRequiredPath string
  | InvalidRequiredPath string
  | DisallowedRuntimeFile string

datatype unit_error =
    InvalidWebOrigin string string
  | DuplicateWebOrigin string
  | TemplateTokenInjection string string
  | UnresolvedTemplateToken string
  | UnitPolicyViolation string string

datatype deploy_error =
    MissingRole
  | RoleConflict string string
  | DeploymentLockBusy
  | DeploymentLockError string
  | ArchiveDigestMismatch string string string
  | InvalidBundle string string
  | SystemdCommandFailed string
  | OwnershipViolation string string string
  | ProcessInspectionFailed string
  | LegacyMigrationRejected string
  | ExchangeFailed string string
  | Io string string
  | Config string

datatype archive_error =
    ArchiveTooLarge u64
  | ArchiveEntryNotRegularFileOrDir string
  | ArchiveEntryTraversal string
  | ArchiveEntryInvalid string string
  | ArchiveInventoryMismatch string

datatype release_error =
    ManifestError manifest_error
  | InventoryError inventory_error
  | ArchiveError archive_error
  | UnitError unit_error
  | DeployError deploy_error

section \<open>Constants\<close>

definition SCHEMA_VERSION :: u32 where "SCHEMA_VERSION = 1"
definition PROFILE_ID :: string where "PROFILE_ID = ''linux-x86_64-systemd''"
definition LEGACY_PROFILE_ID :: string where "LEGACY_PROFILE_ID = ''fedora44-x86_64-systemd''"
definition PROFILE_OS_ID :: string where "PROFILE_OS_ID = ''linux''"
definition PROFILE_OS_VERSION :: string where "PROFILE_OS_VERSION = ''any''"
definition PROFILE_ARCH :: string where "PROFILE_ARCH = ''x86_64''"
definition PROFILE_TARGET :: string where "PROFILE_TARGET = ''x86_64-unknown-linux-gnu''"
definition PROFILE_GLIBC_MIN :: string where "PROFILE_GLIBC_MIN = ''2.39''"
definition PROFILE_SYSTEMD_MIN :: u32 where "PROFILE_SYSTEMD_MIN = 245"
definition API_SERVICE_UNIT :: string where "API_SERVICE_UNIT = ''dam-hopper-api.service''"
definition API_SERVICE_IDENTITY :: string where "API_SERVICE_IDENTITY = ''root''"
definition API_SERVICE_HOME :: string where "API_SERVICE_HOME = ''/var/lib/dam-hopper''"
definition API_SERVICE_BIND_HOST :: string where "API_SERVICE_BIND_HOST = ''0.0.0.0''"
definition API_SERVICE_PORT :: u16 where "API_SERVICE_PORT = 4801"
definition API_SERVICE_HEALTH_PATH :: string where "API_SERVICE_HEALTH_PATH = ''/api/health''"
definition WEB_SERVICE_UNIT :: string where "WEB_SERVICE_UNIT = ''dam-hopper-web.service''"
definition WEB_SERVICE_IDENTITY :: string where "WEB_SERVICE_IDENTITY = ''dam-hopper-web''"
definition WEB_SERVICE_BIND_HOST :: string where "WEB_SERVICE_BIND_HOST = ''0.0.0.0''"
definition WEB_SERVICE_PORT :: u16 where "WEB_SERVICE_PORT = 4802"
definition WEB_SERVICE_HEALTH_PATH :: string where
  "WEB_SERVICE_HEALTH_PATH = ''/__dam-hopper/health''"
definition RECOVERY_SERVICE_UNIT :: string where
  "RECOVERY_SERVICE_UNIT = ''dam-hopper-recovery.service''"
definition ALL_SERVICE_UNITS :: "string list" where
  "ALL_SERVICE_UNITS = [API_SERVICE_UNIT, WEB_SERVICE_UNIT, RECOVERY_SERVICE_UNIT]"
definition ROLLBACK_PREVIOUS_COMPATIBLE :: bool where "ROLLBACK_PREVIOUS_COMPATIBLE = True"
definition ROLLBACK_STATE_COMPATIBILITY :: string where "ROLLBACK_STATE_COMPATIBILITY = ''n-1''"
definition MAX_MANIFEST_BYTES :: nat where "MAX_MANIFEST_BYTES = 1024 * 1024"
definition MAX_STATE_BYTES :: nat where "MAX_STATE_BYTES = 1024 * 1024"
definition MAX_INVENTORY_ENTRIES :: nat where "MAX_INVENTORY_ENTRIES = 20000"
definition MAX_PATH_LENGTH :: nat where "MAX_PATH_LENGTH = 255"

definition expected_archive_name :: "string \<Rightarrow> string" where
  "expected_archive_name tag = ''dam-hopper-'' @ tag @ ''-'' @ PROFILE_ID @ ''.tar.gz''"

lemmas unit_name_defs = API_SERVICE_UNIT_def WEB_SERVICE_UNIT_def RECOVERY_SERVICE_UNIT_def
  ALL_SERVICE_UNITS_def

section \<open>Versions, tags and digests\<close>

record semver_version =
  sv_major :: u64
  sv_minor :: u64
  sv_patch :: u64
  sv_pre :: string
  sv_build :: string

type_synonym semver_parser = "string \<Rightarrow> string + semver_version"

definition validate_version :: "semver_parser \<Rightarrow> string \<Rightarrow> release_error + semver_version" where
  "validate_version semver raw =
     (case semver raw of
        Inl e \<Rightarrow> Inl (ManifestError (InvalidVersion e))
      | Inr parsed \<Rightarrow>
          if sv_pre parsed \<noteq> [] \<or> sv_build parsed \<noteq> []
          then Inl (ManifestError (InvalidVersion
                 ''prerelease and build metadata are rejected for stable releases''))
          else Inr parsed)"

definition validate_release_tag :: "string \<Rightarrow> string \<Rightarrow> release_error + unit" where
  "validate_release_tag tag expected_version =
     (if tag \<noteq> CHR ''v'' # expected_version
      then Inl (ManifestError (InvalidTag tag expected_version)) else Inr ())"

definition validate_tag_format :: "semver_parser \<Rightarrow> string \<Rightarrow> release_error + semver_version" where
  "validate_tag_format semver tag =
     (case strip_prefix_str ''v'' tag of
        None \<Rightarrow> Inl (ManifestError (InvalidTag tag ''missing 'v' prefix''))
      | Some version_part \<Rightarrow> validate_version semver version_part)"

definition lowercase_hex :: "nat \<Rightarrow> string \<Rightarrow> bool" where
  "lowercase_hex n s \<longleftrightarrow>
     length s = n \<and> list_all (\<lambda>c. is_ascii_hexdigit c \<and> \<not> is_ascii_uppercase c) s"

definition validate_commit_sha :: "string \<Rightarrow> release_error + unit" where
  "validate_commit_sha sha = ensure (lowercase_hex 40 sha) (ManifestError InvalidCommitSha)"

definition validate_sha256_hex :: "string \<Rightarrow> release_error + unit" where
  "validate_sha256_hex digest =
     ensure (lowercase_hex 64 digest) (ManifestError InvalidArchiveSha256)"

section \<open>Inventory entries and roles\<close>

datatype entry_kind = EntryFile | EntryDir

datatype release_role = RoleCommon | RoleServer | RoleWeb

datatype target_role = TargetServer | TargetWeb | TargetBoth

fun role_matches :: "target_role \<Rightarrow> release_role list \<Rightarrow> bool" where
  "role_matches TargetServer roles = (RoleCommon \<in> set roles \<or> RoleServer \<in> set roles)"
| "role_matches TargetWeb roles = (RoleCommon \<in> set roles \<or> RoleWeb \<in> set roles)"
| "role_matches TargetBoth roles = True"

fun role_str :: "target_role \<Rightarrow> string" where
  "role_str TargetServer = ''server''"
| "role_str TargetWeb = ''web''"
| "role_str TargetBoth = ''both''"

fun includes_server :: "target_role \<Rightarrow> bool" where
  "includes_server TargetWeb = False"
| "includes_server _ = True"

fun includes_web :: "target_role \<Rightarrow> bool" where
  "includes_web TargetServer = False"
| "includes_web _ = True"

record inventory_entry =
  ie_path :: string
  ie_kind :: entry_kind
  ie_roles :: "release_role list"
  ie_mode :: u32
  ie_size :: "u64 option"
  ie_sha256 :: "string option"

definition normalize_inventory_path :: "string \<Rightarrow> release_error + unit" where
  "normalize_inventory_path raw =
     (let bad = Inl (InventoryError (InvalidInventoryPath raw)) in
      if raw = [] \<or> MAX_PATH_LENGTH < length raw then bad
      else if CHR 0x00 \<in> set raw \<or> CHR 0x5C \<in> set raw \<or> starts_with ''/'' raw
              \<or> ends_with ''/'' raw then bad
      else if list_ex (\<lambda>component. component = [] \<or> component = ''.'' \<or> component = ''..'')
                (split_on (CHR ''/'') raw) then bad
      else Inr ())"

definition check_disallowed_files :: "string \<Rightarrow> release_error + unit" where
  "check_disallowed_files path =
     (let lower = to_lowercase_str path;
          file_name = to_lowercase_str (last (split_on (CHR ''/'') path));
          is_disallowed =
            file_name = ''.env'' \<or> starts_with ''.env.'' file_name \<or> file_name = ''server.env''
            \<or> file_name = ''server-safety.env'' \<or> file_name = ''dam-hopper.toml''
            \<or> file_name = ''config.toml'' \<or> file_name = ''server-token''
            \<or> ends_with ''.sqlite'' lower \<or> ends_with ''.sqlite-wal'' lower
            \<or> ends_with ''.sqlite-shm'' lower \<or> ends_with ''.db'' lower
      in if is_disallowed then Inl (InventoryError (DisallowedRuntimeFile path)) else Inr ())"

section \<open>Inventory validation\<close>

definition validate_entry_kind :: "inventory_entry \<Rightarrow> release_error + unit" where
  "validate_entry_kind entry =
     (case ie_kind entry of
        EntryFile \<Rightarrow>
          (case (ie_size entry, ie_sha256 entry) of
             (Some _, Some sha) \<Rightarrow>
               ensure (lowercase_hex 64 sha)
                 (InventoryError (InvalidFileSha256 (ie_path entry)))
           | _ \<Rightarrow> Inl (InventoryError (MissingFileMetadata (ie_path entry))))
      | EntryDir \<Rightarrow>
          ensure (ie_size entry = None \<and> ie_sha256 entry = None)
            (InventoryError (UnexpectedDirectoryMetadata (ie_path entry))))"

record required_paths_tracker =
  has_manager :: bool
  has_server :: bool
  has_web :: bool
  has_api_unit :: bool
  has_web_unit :: bool
  has_recovery_unit :: bool
  has_web_sysusers :: bool
  has_web_payload :: bool
  has_license_or_notices :: bool

definition tracker_default :: required_paths_tracker where
  "tracker_default = \<lparr> has_manager = False, has_server = False, has_web = False,
     has_api_unit = False, has_web_unit = False, has_recovery_unit = False,
     has_web_sysusers = False, has_web_payload = False, has_license_or_notices = False \<rparr>"

definition required_binary :: "release_role \<Rightarrow> inventory_entry \<Rightarrow> bool" where
  "required_binary r entry \<longleftrightarrow>
     ie_kind entry = EntryFile \<and> r \<in> set (ie_roles entry) \<and> (ie_mode entry AND 0b001001001) \<noteq> 0"

definition required_file :: "release_role \<Rightarrow> inventory_entry \<Rightarrow> bool" where
  "required_file r entry \<longleftrightarrow> ie_kind entry = EntryFile \<and> r \<in> set (ie_roles entry)"

definition check_entry ::
  "required_paths_tracker \<Rightarrow> inventory_entry \<Rightarrow> release_error + required_paths_tracker" where
  "check_entry t entry =
     (let p = ie_path entry in
      if p = ''bin/dam-hopper-manager'' then
        (if required_binary RoleCommon entry then Inr (t\<lparr>has_manager := True\<rparr>)
         else Inl (InventoryError (InvalidRequiredPath ''bin/dam-hopper-manager'')))
      else if p = ''bin/dam-hopper-server'' then
        (if required_binary RoleServer entry then Inr (t\<lparr>has_server := True\<rparr>)
         else Inl (InventoryError (InvalidRequiredPath ''bin/dam-hopper-server'')))
      else if p = ''bin/dam-hopper-web'' then
        (if required_binary RoleWeb entry then Inr (t\<lparr>has_web := True\<rparr>)
         else Inl (InventoryError (InvalidRequiredPath ''bin/dam-hopper-web'')))
      else if p = ''systemd/dam-hopper-api.service'' \<or> p = ''systemd/dam-hopper-api.service.in'' then
        (if required_file RoleServer entry then Inr (t\<lparr>has_api_unit := True\<rparr>)
         else Inl (InventoryError (InvalidRequiredPath ''systemd/dam-hopper-api.service'')))
      else if p = ''systemd/dam-hopper-web.service'' \<or> p = ''systemd/dam-hopper-web.service.in'' then
        (if required_file RoleWeb entry then Inr (t\<lparr>has_web_unit := True\<rparr>)
         else Inl (InventoryError (InvalidRequiredPath ''systemd/dam-hopper-web.service'')))
      else if p = ''systemd/dam-hopper-recovery.service''
              \<or> p = ''systemd/dam-hopper-recovery.service.in'' then
        (if required_file RoleCommon entry then Inr (t\<lparr>has_recovery_unit := True\<rparr>)
         else Inl (InventoryError (InvalidRequiredPath ''systemd/dam-hopper-recovery.service'')))
      else if p = ''sysusers.d/dam-hopper-web.conf'' then
        (if required_file RoleWeb entry then Inr (t\<lparr>has_web_sysusers := True\<rparr>)
         else Inl (InventoryError (InvalidRequiredPath ''sysusers.d/dam-hopper-web.conf'')))
      else if p = ''LICENSE'' \<or> p = ''NOTICES'' then
        Inr (if required_file RoleCommon entry then t\<lparr>has_license_or_notices := True\<rparr> else t)
      else if p = ''web'' \<or> starts_with ''web/'' p then
        Inr (if RoleWeb \<in> set (ie_roles entry) then t\<lparr>has_web_payload := True\<rparr> else t)
      else Inr t)"

definition assert_complete :: "required_paths_tracker \<Rightarrow> release_error + unit" where
  "assert_complete t =
     (case find (\<lambda>(present, path). \<not> present)
        [(has_manager t, ''bin/dam-hopper-manager''),
         (has_server t, ''bin/dam-hopper-server''),
         (has_web t, ''bin/dam-hopper-web''),
         (has_api_unit t, ''systemd/dam-hopper-api.service''),
         (has_web_unit t, ''systemd/dam-hopper-web.service''),
         (has_recovery_unit t, ''systemd/dam-hopper-recovery.service''),
         (has_web_sysusers t, ''sysusers.d/dam-hopper-web.conf''),
         (has_web_payload t, ''web''),
         (has_license_or_notices t, ''LICENSE'')] of
        Some (_, path) \<Rightarrow> Inl (InventoryError (MissingRequiredPath path))
      | None \<Rightarrow> Inr ())"

text \<open>One iteration of the loop of \<open>validate_inventory\<close>, then the loop itself.\<close>

definition validate_entry ::
  "string list \<Rightarrow> required_paths_tracker \<Rightarrow> inventory_entry
    \<Rightarrow> release_error + required_paths_tracker" where
  "validate_entry seen t entry =
     and_then (normalize_inventory_path (ie_path entry)) (\<lambda>_.
     and_then (check_disallowed_files (ie_path entry)) (\<lambda>_.
     and_then (ensure (ie_path entry \<notin> set seen)
                (InventoryError (DuplicateInventoryPath (ie_path entry)))) (\<lambda>_.
     and_then (ensure (ie_roles entry \<noteq> []) (InventoryError (EmptyRoles (ie_path entry)))) (\<lambda>_.
     and_then (ensure (ie_mode entry \<le> 0b111111111111)
                (InventoryError (InvalidMode (ie_path entry) (ie_mode entry)))) (\<lambda>_.
     and_then (validate_entry_kind entry) (\<lambda>_.
     check_entry t entry))))))"

fun validate_entries ::
  "string list \<Rightarrow> required_paths_tracker \<Rightarrow> inventory_entry list
    \<Rightarrow> release_error + required_paths_tracker" where
  "validate_entries seen t [] = Inr t"
| "validate_entries seen t (entry # entries) =
     and_then (validate_entry seen t entry)
       (\<lambda>t'. validate_entries (ie_path entry # seen) t' entries)"

definition validate_inventory :: "inventory_entry list \<Rightarrow> release_error + unit" where
  "validate_inventory entries =
     (if MAX_INVENTORY_ENTRIES < length entries
      then Inl (InventoryError (InventoryTooLarge (length entries)))
      else and_then (validate_entries [] tracker_default entries) assert_complete)"

section \<open>The manifest\<close>

record release_meta =
  rm_tag :: string
  rm_version :: string
  rm_commit_sha :: string

record profile_meta =
  pm_id :: string
  pm_os_id :: string
  pm_os_version :: string
  pm_arch :: string
  pm_target :: string
  pm_glibc_min :: string
  pm_systemd_min :: u32

record archive_meta =
  am_name :: string
  am_size :: u64
  am_sha256 :: string

text \<open>\<open>ComponentVersion\<close> has one field, the version; the record holds the four versions.\<close>

record components_meta =
  cm_cli :: string
  cm_api :: string
  cm_web_host :: string
  cm_web_assets :: string

record service_contract =
  sc_unit_name :: string
  sc_identity :: string
  sc_bind_host :: string
  sc_port :: u16
  sc_health_path :: string

record services_meta =
  sm_api :: service_contract
  sm_web :: service_contract

record rollback_meta =
  rb_previous_release_compatible :: bool
  rb_state_compatibility :: string

record release_manifest =
  mf_schema_version :: u32
  mf_release :: release_meta
  mf_profile :: profile_meta
  mf_archive :: archive_meta
  mf_components :: components_meta
  mf_inventory :: "inventory_entry list"
  mf_services :: services_meta
  mf_rollback :: rollback_meta

text \<open>
  \<open>first_error\<close> runs a list of checks in order and returns the first error, as a block of
  \<open>if .. return Err\<close> statements does.
\<close>

fun first_error :: "(bool \<times> 'e) list \<Rightarrow> 'e + unit" where
  "first_error [] = Inr ()"
| "first_error ((passes, e) # cs) = (if passes then first_error cs else Inl e)"

lemma first_error_Inr: "first_error cs = Inr u \<longleftrightarrow> list_all fst cs"
  by (induction cs rule: first_error.induct) simp_all

definition validate_profile :: "release_manifest \<Rightarrow> release_error + unit" where
  "validate_profile m =
     (let p = mf_profile m in first_error
       [(pm_id p = PROFILE_ID \<or> pm_id p = LEGACY_PROFILE_ID,
         ManifestError (ProfileMismatch ''id''
           (PROFILE_ID @ '' or '' @ LEGACY_PROFILE_ID) (pm_id p))),
        (pm_os_id p = PROFILE_OS_ID \<or> pm_os_id p = ''fedora'',
         ManifestError (ProfileMismatch ''osId'' (PROFILE_OS_ID @ '' or fedora'') (pm_os_id p))),
        (pm_os_version p = PROFILE_OS_VERSION \<or> pm_os_version p = ''44'',
         ManifestError (ProfileMismatch ''osVersion''
           (PROFILE_OS_VERSION @ '' or 44'') (pm_os_version p))),
        (pm_arch p = PROFILE_ARCH,
         ManifestError (ProfileMismatch ''arch'' PROFILE_ARCH (pm_arch p))),
        (pm_target p = PROFILE_TARGET,
         ManifestError (ProfileMismatch ''target'' PROFILE_TARGET (pm_target p))),
        (pm_glibc_min p = PROFILE_GLIBC_MIN,
         ManifestError (ProfileMismatch ''glibcMin'' PROFILE_GLIBC_MIN (pm_glibc_min p))),
        (PROFILE_SYSTEMD_MIN \<le> pm_systemd_min p,
         ManifestError (SystemdVersionTooLow PROFILE_SYSTEMD_MIN (pm_systemd_min p)))])"

definition validate_archive :: "release_manifest \<Rightarrow> release_error + unit" where
  "validate_archive m =
     (let tag = rm_tag (mf_release m); a = mf_archive m;
          expected_name = expected_archive_name tag;
          legacy_name = ''dam-hopper-'' @ tag @ ''-'' @ LEGACY_PROFILE_ID @ ''.tar.gz'' in
      and_then (first_error
        [(am_name a = expected_name \<or> am_name a = legacy_name,
          ManifestError (ArchiveNameMismatch expected_name (am_name a))),
         (am_size a \<noteq> 0, ManifestError InvalidArchiveSize)]) (\<lambda>_.
      validate_sha256_hex (am_sha256 a)))"

definition validate_components :: "release_manifest \<Rightarrow> release_error + unit" where
  "validate_components m =
     (let ver = rm_version (mf_release m); c = mf_components m in first_error
        (map (\<lambda>(component, comp_ver).
           (comp_ver = ver, ManifestError (ComponentVersionMismatch component ver comp_ver)))
         [(''cli'', cm_cli c), (''api'', cm_api c), (''webHost'', cm_web_host c),
          (''webAssets'', cm_web_assets c)]))"

definition service_mismatch :: "string \<Rightarrow> string \<Rightarrow> string \<Rightarrow> string \<Rightarrow> bool \<times> release_error" where
  "service_mismatch service field expected got =
     (got = expected, ManifestError (ServiceContractMismatch service field expected got))"

definition validate_services :: "release_manifest \<Rightarrow> release_error + unit" where
  "validate_services m =
     (let api = sm_api (mf_services m); web = sm_web (mf_services m) in first_error
       [service_mismatch ''api'' ''unitName'' API_SERVICE_UNIT (sc_unit_name api),
        service_mismatch ''api'' ''identity'' API_SERVICE_IDENTITY (sc_identity api),
        service_mismatch ''api'' ''bindHost'' API_SERVICE_BIND_HOST (sc_bind_host api),
        (sc_port api = API_SERVICE_PORT,
         ManifestError (ServicePortMismatch ''api'' API_SERVICE_PORT (sc_port api))),
        service_mismatch ''api'' ''healthPath'' API_SERVICE_HEALTH_PATH (sc_health_path api),
        service_mismatch ''web'' ''unitName'' WEB_SERVICE_UNIT (sc_unit_name web),
        service_mismatch ''web'' ''identity'' WEB_SERVICE_IDENTITY (sc_identity web),
        service_mismatch ''web'' ''bindHost'' WEB_SERVICE_BIND_HOST (sc_bind_host web),
        (sc_port web = WEB_SERVICE_PORT,
         ManifestError (ServicePortMismatch ''web'' WEB_SERVICE_PORT (sc_port web))),
        service_mismatch ''web'' ''healthPath'' WEB_SERVICE_HEALTH_PATH (sc_health_path web)])"

definition bool_str :: "bool \<Rightarrow> string" where
  "bool_str b = (if b then ''true'' else ''false'')"

definition validate_rollback :: "release_manifest \<Rightarrow> release_error + unit" where
  "validate_rollback m =
     (let r = mf_rollback m in first_error
       [(rb_previous_release_compatible r = ROLLBACK_PREVIOUS_COMPATIBLE,
         ManifestError (RollbackMismatch ''previousReleaseCompatible''
           (bool_str ROLLBACK_PREVIOUS_COMPATIBLE) (bool_str (rb_previous_release_compatible r)))),
        (rb_state_compatibility r = ROLLBACK_STATE_COMPATIBILITY,
         ManifestError (RollbackMismatch ''stateCompatibility''
           ROLLBACK_STATE_COMPATIBILITY (rb_state_compatibility r)))])"

definition validate_manifest_invariants ::
  "semver_parser \<Rightarrow> release_manifest \<Rightarrow> release_error + unit" where
  "validate_manifest_invariants semver m =
     and_then (ensure (mf_schema_version m = SCHEMA_VERSION)
       (ManifestError (InvalidSchemaVersion SCHEMA_VERSION (mf_schema_version m)))) (\<lambda>_.
     and_then (validate_version semver (rm_version (mf_release m))) (\<lambda>_.
     and_then (validate_release_tag (rm_tag (mf_release m)) (rm_version (mf_release m))) (\<lambda>_.
     and_then (validate_commit_sha (rm_commit_sha (mf_release m))) (\<lambda>_.
     and_then (validate_profile m) (\<lambda>_.
     and_then (validate_archive m) (\<lambda>_.
     and_then (validate_components m) (\<lambda>_.
     and_then (validate_services m) (\<lambda>_.
     and_then (validate_rollback m) (\<lambda>_.
     validate_inventory (mf_inventory m))))))))))"

definition parse_and_validate ::
  "semver_parser \<Rightarrow> (bytes \<Rightarrow> string + release_manifest) \<Rightarrow> bytes
    \<Rightarrow> release_error + release_manifest" where
  "parse_and_validate semver from_slice raw_bytes =
     (if MAX_MANIFEST_BYTES < length raw_bytes
      then Inl (ManifestError (PayloadTooLarge (length raw_bytes)))
      else case from_slice raw_bytes of
             Inl e \<Rightarrow> Inl (ManifestError (JsonDeserialization e))
           | Inr manifest \<Rightarrow>
               and_then (validate_manifest_invariants semver manifest) (\<lambda>_. Inr manifest))"

definition project_role :: "release_manifest \<Rightarrow> target_role \<Rightarrow> inventory_entry list" where
  "project_role m role = filter (\<lambda>entry. role_matches role (ie_roles entry)) (mf_inventory m)"

section \<open>What a validated inventory is\<close>

definition path_ok :: "string \<Rightarrow> bool" where
  "path_ok p \<longleftrightarrow> length p \<le> MAX_PATH_LENGTH \<and> CHR 0x00 \<notin> set p \<and> CHR 0x5C \<notin> set p
     \<and> (\<forall>c \<in> set (split_on (CHR ''/'') p). c \<noteq> [] \<and> c \<noteq> ''.'' \<and> c \<noteq> ''..'')"

lemma split_on_Cons_sep: "split_on c (c # s) = [] # split_on c s"
  by simp

lemma split_on_snoc_sep: "last (split_on c (s @ [c])) = []"
proof (induction s)
  case (Cons x s)
  obtain y ys where ys: "split_on c (s @ [c]) = y # ys"
    using split_on_nonempty by (metis neq_Nil_conv)
  have "ys \<noteq> []"
  proof
    assume "ys = []"
    then have "s @ [c] = y" using join_split [of c "s @ [c]"] ys by simp
    then show False using split_on_free [of y c "s @ [c]"] ys by auto
  qed
  with Cons ys show ?case by simp
qed simp

lemma path_ok_edges:
  assumes "\<forall>c \<in> set (split_on (CHR ''/'') p). c \<noteq> []"
  shows "p \<noteq> []" "\<not> starts_with ''/'' p" "\<not> ends_with ''/'' p"
proof -
  show "p \<noteq> []" using assms by auto
  show "\<not> starts_with ''/'' p" using assms by (auto simp: starts_with_iff)
  show "\<not> ends_with ''/'' p"
  proof
    assume "ends_with ''/'' p"
    then obtain r where "p = r @ ''/''" by (auto simp: ends_with_iff)
    then have "[] \<in> set (split_on (CHR ''/'') p)"
      using split_on_snoc_sep split_on_nonempty last_in_set by metis
    with assms show False by blast
  qed
qed

lemma normalize_inventory_path_iff: "normalize_inventory_path p = Inr u \<longleftrightarrow> path_ok p"
  using path_ok_edges [of p]
  by (auto simp: normalize_inventory_path_def path_ok_def Let_def list_ex_iff)

text \<open>
  Walking a path lexically from a directory, as the kernel does when no component is a
  symbolic link: \<open>.\<close> and empty components stay, \<open>..\<close> goes up (and stays at the root).
\<close>

fun walk :: "string list \<Rightarrow> string list \<Rightarrow> string list" where
  "walk dir [] = dir"
| "walk dir (c # cs) =
     (if c = [] \<or> c = ''.'' then walk dir cs
      else if c = ''..'' then walk (butlast dir) cs
      else walk (dir @ [c]) cs)"

lemma walk_plain:
  "\<forall>c \<in> set cs. c \<noteq> [] \<and> c \<noteq> ''.'' \<and> c \<noteq> ''..'' \<Longrightarrow> walk dir cs = dir @ cs"
  by (induction dir cs rule: walk.induct) auto

text \<open>The contract of the required paths, and what an entry provides.\<close>

definition contract_ok :: "inventory_entry \<Rightarrow> bool" where
  "contract_ok e \<longleftrightarrow>
     (ie_path e = ''bin/dam-hopper-manager'' \<longrightarrow> required_binary RoleCommon e) \<and>
     (ie_path e = ''bin/dam-hopper-server'' \<longrightarrow> required_binary RoleServer e) \<and>
     (ie_path e = ''bin/dam-hopper-web'' \<longrightarrow> required_binary RoleWeb e) \<and>
     (ie_path e \<in> {''systemd/dam-hopper-api.service'', ''systemd/dam-hopper-api.service.in''}
        \<longrightarrow> required_file RoleServer e) \<and>
     (ie_path e \<in> {''systemd/dam-hopper-web.service'', ''systemd/dam-hopper-web.service.in''}
        \<longrightarrow> required_file RoleWeb e) \<and>
     (ie_path e \<in> {''systemd/dam-hopper-recovery.service'',
        ''systemd/dam-hopper-recovery.service.in''} \<longrightarrow> required_file RoleCommon e) \<and>
     (ie_path e = ''sysusers.d/dam-hopper-web.conf'' \<longrightarrow> required_file RoleWeb e)"

definition kind_ok :: "inventory_entry \<Rightarrow> bool" where
  "kind_ok e \<longleftrightarrow>
     (case ie_kind e of
        EntryFile \<Rightarrow> ie_size e \<noteq> None \<and> (\<exists>sha. ie_sha256 e = Some sha \<and> lowercase_hex 64 sha)
      | EntryDir \<Rightarrow> ie_size e = None \<and> ie_sha256 e = None)"

definition entry_ok :: "inventory_entry \<Rightarrow> bool" where
  "entry_ok e \<longleftrightarrow> path_ok (ie_path e) \<and> is_ok (check_disallowed_files (ie_path e))
     \<and> ie_roles e \<noteq> [] \<and> ie_mode e \<le> 4095 \<and> kind_ok e \<and> contract_ok e"

definition provides_license :: "inventory_entry \<Rightarrow> bool" where
  "provides_license e \<longleftrightarrow> ie_path e \<in> {''LICENSE'', ''NOTICES''} \<and> required_file RoleCommon e"

definition provides_web :: "inventory_entry \<Rightarrow> bool" where
  "provides_web e \<longleftrightarrow>
     (ie_path e = ''web'' \<or> starts_with ''web/'' (ie_path e)) \<and> RoleWeb \<in> set (ie_roles e)"

definition mark :: "required_paths_tracker \<Rightarrow> inventory_entry \<Rightarrow> required_paths_tracker" where
  "mark t e = \<lparr>
     has_manager = (has_manager t \<or> ie_path e = ''bin/dam-hopper-manager''),
     has_server = (has_server t \<or> ie_path e = ''bin/dam-hopper-server''),
     has_web = (has_web t \<or> ie_path e = ''bin/dam-hopper-web''),
     has_api_unit = (has_api_unit t \<or>
       ie_path e \<in> {''systemd/dam-hopper-api.service'', ''systemd/dam-hopper-api.service.in''}),
     has_web_unit = (has_web_unit t \<or>
       ie_path e \<in> {''systemd/dam-hopper-web.service'', ''systemd/dam-hopper-web.service.in''}),
     has_recovery_unit = (has_recovery_unit t \<or> ie_path e \<in>
       {''systemd/dam-hopper-recovery.service'', ''systemd/dam-hopper-recovery.service.in''}),
     has_web_sysusers = (has_web_sysusers t \<or> ie_path e = ''sysusers.d/dam-hopper-web.conf''),
     has_web_payload = (has_web_payload t \<or> provides_web e),
     has_license_or_notices = (has_license_or_notices t \<or> provides_license e) \<rparr>"

lemmas check_entry_defs = check_entry_def Let_def contract_ok_def mark_def provides_web_def
  provides_license_def

definition fixed_paths :: "string set" where
  "fixed_paths = {''bin/dam-hopper-manager'', ''bin/dam-hopper-server'', ''bin/dam-hopper-web'',
    ''systemd/dam-hopper-api.service'', ''systemd/dam-hopper-api.service.in'',
    ''systemd/dam-hopper-web.service'', ''systemd/dam-hopper-web.service.in'',
    ''systemd/dam-hopper-recovery.service'', ''systemd/dam-hopper-recovery.service.in'',
    ''sysusers.d/dam-hopper-web.conf'', ''LICENSE'', ''NOTICES''}"

lemma fixed_paths_cases:
  "p \<in> fixed_paths \<Longrightarrow> p = ''bin/dam-hopper-manager'' \<or> p = ''bin/dam-hopper-server''
    \<or> p = ''bin/dam-hopper-web'' \<or> p = ''systemd/dam-hopper-api.service''
    \<or> p = ''systemd/dam-hopper-api.service.in'' \<or> p = ''systemd/dam-hopper-web.service''
    \<or> p = ''systemd/dam-hopper-web.service.in'' \<or> p = ''systemd/dam-hopper-recovery.service''
    \<or> p = ''systemd/dam-hopper-recovery.service.in'' \<or> p = ''sysusers.d/dam-hopper-web.conf''
    \<or> p = ''LICENSE'' \<or> p = ''NOTICES''"
  by (simp only: fixed_paths_def insert_iff empty_iff simp_thms)

lemma check_entry_other:
  assumes "ie_path e \<notin> fixed_paths"
  shows "check_entry t e = Inr t' \<longleftrightarrow> contract_ok e \<and> t' = mark t e"
proof -
  note neq = assms [unfolded fixed_paths_def insert_iff empty_iff de_Morgan_disj simp_thms]
  show ?thesis
    by (cases t) (auto simp only: check_entry_defs neq simp_thms if_True if_False
      insert_iff empty_iff required_paths_tracker.simps sum.inject split: if_splits)
qed

lemma check_entry_iff: "check_entry t e = Inr t' \<longleftrightarrow> contract_ok e \<and> t' = mark t e"
proof (cases "ie_path e \<in> fixed_paths")
  case True
  from fixed_paths_cases [OF True] show ?thesis
    by (elim disjE; cases t; simp add: check_entry_defs starts_with_def; blast)
next
  case False
  then show ?thesis by (rule check_entry_other)
qed

lemma validate_entry_kind_iff: "validate_entry_kind e = Inr u \<longleftrightarrow> kind_ok e"
  by (auto simp: validate_entry_kind_def kind_ok_def split: entry_kind.splits option.splits)

lemma check_disallowed_unit: "check_disallowed_files p = Inr u \<longleftrightarrow> is_ok (check_disallowed_files p)"
  by (simp add: is_ok_iff)

lemma validate_entry_iff:
  "validate_entry seen t e = Inr t' \<longleftrightarrow> entry_ok e \<and> ie_path e \<notin> set seen \<and> t' = mark t e"
  by (auto simp: validate_entry_def and_then_Inr_iff normalize_inventory_path_iff
      check_disallowed_unit validate_entry_kind_iff check_entry_iff entry_ok_def)

lemma validate_entries_iff:
  "validate_entries seen t es = Inr t' \<longleftrightarrow>
     (\<forall>e \<in> set es. entry_ok e \<and> ie_path e \<notin> set seen) \<and> distinct (map ie_path es)
     \<and> t' = foldl mark t es"
  by (induction es arbitrary: seen t) (auto simp: and_then_Inr_iff validate_entry_iff image_iff)

lemma foldl_mark:
  "has_manager (foldl mark t es) \<longleftrightarrow>
     has_manager t \<or> (\<exists>e \<in> set es. ie_path e = ''bin/dam-hopper-manager'')"
  "has_server (foldl mark t es) \<longleftrightarrow>
     has_server t \<or> (\<exists>e \<in> set es. ie_path e = ''bin/dam-hopper-server'')"
  "has_web (foldl mark t es) \<longleftrightarrow>
     has_web t \<or> (\<exists>e \<in> set es. ie_path e = ''bin/dam-hopper-web'')"
  "has_api_unit (foldl mark t es) \<longleftrightarrow> has_api_unit t \<or> (\<exists>e \<in> set es. ie_path e \<in>
     {''systemd/dam-hopper-api.service'', ''systemd/dam-hopper-api.service.in''})"
  "has_web_unit (foldl mark t es) \<longleftrightarrow> has_web_unit t \<or> (\<exists>e \<in> set es. ie_path e \<in>
     {''systemd/dam-hopper-web.service'', ''systemd/dam-hopper-web.service.in''})"
  "has_recovery_unit (foldl mark t es) \<longleftrightarrow> has_recovery_unit t \<or> (\<exists>e \<in> set es. ie_path e \<in>
     {''systemd/dam-hopper-recovery.service'', ''systemd/dam-hopper-recovery.service.in''})"
  "has_web_sysusers (foldl mark t es) \<longleftrightarrow>
     has_web_sysusers t \<or> (\<exists>e \<in> set es. ie_path e = ''sysusers.d/dam-hopper-web.conf'')"
  "has_web_payload (foldl mark t es) \<longleftrightarrow> has_web_payload t \<or> (\<exists>e \<in> set es. provides_web e)"
  "has_license_or_notices (foldl mark t es) \<longleftrightarrow>
     has_license_or_notices t \<or> (\<exists>e \<in> set es. provides_license e)"
  by (induction es arbitrary: t; simp add: mark_def disj_assoc)+

definition required_present :: "inventory_entry list \<Rightarrow> bool" where
  "required_present es \<longleftrightarrow>
     (\<exists>e \<in> set es. ie_path e = ''bin/dam-hopper-manager'') \<and>
     (\<exists>e \<in> set es. ie_path e = ''bin/dam-hopper-server'') \<and>
     (\<exists>e \<in> set es. ie_path e = ''bin/dam-hopper-web'') \<and>
     (\<exists>e \<in> set es. ie_path e \<in>
        {''systemd/dam-hopper-api.service'', ''systemd/dam-hopper-api.service.in''}) \<and>
     (\<exists>e \<in> set es. ie_path e \<in>
        {''systemd/dam-hopper-web.service'', ''systemd/dam-hopper-web.service.in''}) \<and>
     (\<exists>e \<in> set es. ie_path e \<in>
        {''systemd/dam-hopper-recovery.service'', ''systemd/dam-hopper-recovery.service.in''}) \<and>
     (\<exists>e \<in> set es. ie_path e = ''sysusers.d/dam-hopper-web.conf'') \<and>
     (\<exists>e \<in> set es. provides_web e) \<and> (\<exists>e \<in> set es. provides_license e)"

lemma assert_complete_iff:
  "assert_complete t = Inr u \<longleftrightarrow> has_manager t \<and> has_server t \<and> has_web t \<and> has_api_unit t
     \<and> has_web_unit t \<and> has_recovery_unit t \<and> has_web_sysusers t \<and> has_web_payload t
     \<and> has_license_or_notices t"
  by (simp add: assert_complete_def)

lemma validate_inventory_spec:
  "validate_inventory es = Inr u \<longleftrightarrow> length es \<le> MAX_INVENTORY_ENTRIES
     \<and> distinct (map ie_path es) \<and> (\<forall>e \<in> set es. entry_ok e) \<and> required_present es"
proof -
  have "validate_inventory es = Inr u \<longleftrightarrow> length es \<le> MAX_INVENTORY_ENTRIES
      \<and> (\<forall>e \<in> set es. entry_ok e) \<and> distinct (map ie_path es)
      \<and> assert_complete (foldl mark tracker_default es) = Inr u"
    by (auto simp: validate_inventory_def and_then_Inr_iff validate_entries_iff)
  then show ?thesis
    unfolding assert_complete_iff foldl_mark required_present_def
    by (simp add: tracker_default_def conj_ac)
qed

section \<open>Properties\<close>

text \<open>
  C30: the inventory loop with its seen-set and its tracker accepts exactly the inventories
  of the contract: within the size limit, no path twice, every entry well formed (relative
  normalised path, no runtime file, a role, permission bits only, a digest for a file and
  none for a directory, the role and mode its path requires), and every required path there.
\<close>

theorem validate_inventory_iff:
  "is_ok (validate_inventory es) \<longleftrightarrow> length es \<le> 20000 \<and> distinct (map ie_path es)
     \<and> list_all entry_ok es \<and> required_present es"
  by (auto simp: is_ok_iff validate_inventory_spec list_all_iff MAX_INVENTORY_ENTRIES_def)

lemma accepted_invariants:
  "parse_and_validate semver from_slice raw = Inr m \<Longrightarrow>
     from_slice raw = Inr m \<and> length raw \<le> MAX_MANIFEST_BYTES
     \<and> validate_manifest_invariants semver m = Inr ()"
  by (auto simp: parse_and_validate_def and_then_Inr_iff split: if_splits sum.splits)

lemma accepted_inventory:
  "parse_and_validate semver from_slice raw = Inr m \<Longrightarrow>
     required_present (mf_inventory m) \<and> (\<forall>e \<in> set (mf_inventory m). entry_ok e)"
  by (drule accepted_invariants)
    (auto simp: validate_manifest_invariants_def and_then_Inr_iff validate_inventory_spec)

lemma accepted_tag:
  "parse_and_validate semver from_slice raw = Inr m \<Longrightarrow>
     rm_tag (mf_release m) = CHR ''v'' # rm_version (mf_release m)"
  by (drule accepted_invariants)
    (auto simp: validate_manifest_invariants_def and_then_Inr_iff validate_release_tag_def
      split: if_splits)

lemma common_projected: "RoleCommon \<in> set (ie_roles e) \<Longrightarrow> role_matches role (ie_roles e)"
  by (cases role) simp_all

lemma server_projected:
  "RoleServer \<in> set (ie_roles e) \<Longrightarrow> includes_server role \<Longrightarrow> role_matches role (ie_roles e)"
  by (cases role) simp_all

lemma web_projected:
  "RoleWeb \<in> set (ie_roles e) \<Longrightarrow> includes_web role \<Longrightarrow> role_matches role (ie_roles e)"
  by (cases role) simp_all

definition binary_at :: "string \<Rightarrow> inventory_entry list \<Rightarrow> bool" where
  "binary_at p es \<longleftrightarrow>
     list_ex (\<lambda>e. ie_path e = p \<and> ie_kind e = EntryFile \<and> (ie_mode e AND 73) \<noteq> 0) es"

lemma binary_at_projected:
  assumes "e \<in> set (mf_inventory m)" "ie_path e = p" "required_binary r e"
    and "r \<in> set (ie_roles e) \<Longrightarrow> role_matches role (ie_roles e)"
  shows "binary_at p (project_role m role)"
  using assms by (auto simp: binary_at_def project_role_def list_ex_iff required_binary_def)

text \<open>
  A manifest that is accepted can be deployed in any role. Its tag is \<open>v\<close> and the
  version; whatever role the inventory is projected to, the projection has the manager
  binary, the server binary when the role includes the server and the web host binary when
  it includes the web, all of them executable files; and every projected path, walked from
  any directory, stays below that directory.
\<close>

lemma accepted_manifest_deployable:
  assumes "parse_and_validate semver from_slice raw = Inr m"
  shows "rm_tag (mf_release m) = CHR ''v'' # rm_version (mf_release m)
    \<and> binary_at ''bin/dam-hopper-manager'' (project_role m role)
    \<and> (includes_server role \<longrightarrow> binary_at ''bin/dam-hopper-server'' (project_role m role))
    \<and> (includes_web role \<longrightarrow> binary_at ''bin/dam-hopper-web'' (project_role m role))
    \<and> list_all (\<lambda>e. walk dir (split_on (CHR ''/'') (ie_path e))
                      = dir @ split_on (CHR ''/'') (ie_path e)) (project_role m role)"
proof -
  have ok: "\<forall>e \<in> set (mf_inventory m). entry_ok e"
    and req: "required_present (mf_inventory m)"
    using accepted_inventory [OF assms] by auto
  obtain em es ew where
    em: "em \<in> set (mf_inventory m)" "ie_path em = ''bin/dam-hopper-manager''" and
    es: "es \<in> set (mf_inventory m)" "ie_path es = ''bin/dam-hopper-server''" and
    ew: "ew \<in> set (mf_inventory m)" "ie_path ew = ''bin/dam-hopper-web''"
    using req unfolding required_present_def by blast
  have contract: "contract_ok em" "contract_ok es" "contract_ok ew"
    using ok em es ew by (simp_all add: entry_ok_def)
  have bins: "required_binary RoleCommon em" "required_binary RoleServer es"
      "required_binary RoleWeb ew"
    using contract em(2) es(2) ew(2) unfolding contract_ok_def by simp_all
  have "walk dir (split_on (CHR ''/'') (ie_path e)) = dir @ split_on (CHR ''/'') (ie_path e)"
    if "e \<in> set (mf_inventory m)" for e
    using ok that by (intro walk_plain) (auto simp: entry_ok_def path_ok_def)
  then show ?thesis
    using accepted_tag [OF assms]
      binary_at_projected [OF em bins(1) common_projected]
      binary_at_projected [OF es bins(2) server_projected]
      binary_at_projected [OF ew bins(3) web_projected]
    by (simp add: list_all_iff project_role_def)
qed

text \<open>A release manifest that is accepted, with a parser of three dotted numbers.\<close>

definition demo_semver :: semver_parser where
  "demo_semver s =
     (case map (parse_unsigned 64) (split_on (CHR ''.'') s) of
        [Some a, Some b, Some c] \<Rightarrow>
          Inr \<lparr> sv_major = of_nat a, sv_minor = of_nat b, sv_patch = of_nat c,
                sv_pre = [], sv_build = [] \<rparr>
      | _ \<Rightarrow> Inl ''unexpected character'')"

definition demo_file :: "string \<Rightarrow> release_role list \<Rightarrow> u32 \<Rightarrow> inventory_entry" where
  "demo_file p roles mode = \<lparr> ie_path = p, ie_kind = EntryFile, ie_roles = roles,
     ie_mode = mode, ie_size = Some 10, ie_sha256 = Some (replicate 64 (CHR ''a'')) \<rparr>"

definition demo_inventory :: "inventory_entry list" where
  "demo_inventory =
     [demo_file ''bin/dam-hopper-manager'' [RoleCommon] 493,
      demo_file ''bin/dam-hopper-server'' [RoleServer] 493,
      demo_file ''bin/dam-hopper-web'' [RoleWeb] 493,
      demo_file ''systemd/dam-hopper-api.service.in'' [RoleServer] 420,
      demo_file ''systemd/dam-hopper-web.service.in'' [RoleWeb] 420,
      demo_file ''systemd/dam-hopper-recovery.service.in'' [RoleCommon] 420,
      demo_file ''sysusers.d/dam-hopper-web.conf'' [RoleWeb] 420,
      demo_file ''web/index.html'' [RoleWeb] 420,
      demo_file ''LICENSE'' [RoleCommon] 420]"

definition demo_manifest :: release_manifest where
  "demo_manifest = \<lparr> mf_schema_version = 1,
     mf_release = \<lparr> rm_tag = ''v1.2.3'', rm_version = ''1.2.3'',
       rm_commit_sha = replicate 40 (CHR ''0'') \<rparr>,
     mf_profile = \<lparr> pm_id = PROFILE_ID, pm_os_id = PROFILE_OS_ID,
       pm_os_version = PROFILE_OS_VERSION, pm_arch = PROFILE_ARCH, pm_target = PROFILE_TARGET,
       pm_glibc_min = PROFILE_GLIBC_MIN, pm_systemd_min = 250 \<rparr>,
     mf_archive = \<lparr> am_name = expected_archive_name ''v1.2.3'', am_size = 5000,
       am_sha256 = replicate 64 (CHR ''b'') \<rparr>,
     mf_components = \<lparr> cm_cli = ''1.2.3'', cm_api = ''1.2.3'', cm_web_host = ''1.2.3'',
       cm_web_assets = ''1.2.3'' \<rparr>,
     mf_inventory = demo_inventory,
     mf_services = \<lparr> sm_api = \<lparr> sc_unit_name = API_SERVICE_UNIT,
         sc_identity = API_SERVICE_IDENTITY, sc_bind_host = API_SERVICE_BIND_HOST,
         sc_port = API_SERVICE_PORT, sc_health_path = API_SERVICE_HEALTH_PATH \<rparr>,
       sm_web = \<lparr> sc_unit_name = WEB_SERVICE_UNIT,
         sc_identity = WEB_SERVICE_IDENTITY, sc_bind_host = WEB_SERVICE_BIND_HOST,
         sc_port = WEB_SERVICE_PORT, sc_health_path = WEB_SERVICE_HEALTH_PATH \<rparr> \<rparr>,
     mf_rollback = \<lparr> rb_previous_release_compatible = True, rb_state_compatibility = ''n-1'' \<rparr> \<rparr>"

lemma lowercase_hex_replicate:
  "is_ascii_hexdigit c \<Longrightarrow> \<not> is_ascii_uppercase c \<Longrightarrow> lowercase_hex n (replicate n c)"
  by (simp add: lowercase_hex_def list_all_iff)

lemma demo_digests:
  "lowercase_hex 64 (replicate 64 (CHR ''a''))" "lowercase_hex 64 (replicate 64 (CHR ''b''))"
  "lowercase_hex 40 (replicate 40 (CHR ''0''))"
  by (rule lowercase_hex_replicate; simp add: ascii_class_defs)+

lemma demo_inventory_ok: "validate_inventory demo_inventory = Inr ()"
  unfolding validate_inventory_spec
proof (intro conjI)
  show "length demo_inventory \<le> MAX_INVENTORY_ENTRIES"
    by (simp add: demo_inventory_def MAX_INVENTORY_ENTRIES_def)
  show "distinct (map ie_path demo_inventory)" by (simp add: demo_inventory_def demo_file_def)
  show "\<forall>e \<in> set demo_inventory. entry_ok e"
    by (simp add: demo_inventory_def demo_file_def entry_ok_def path_ok_def MAX_PATH_LENGTH_def
        is_ok_def check_disallowed_files_def to_ascii_lower_def ascii_class_defs starts_with_def
        ends_with_def kind_ok_def demo_digests contract_ok_def char_of_def required_binary_def
        required_file_def)
  show "required_present demo_inventory"
    by (simp add: demo_inventory_def demo_file_def required_present_def provides_web_def
        provides_license_def required_file_def starts_with_def)
qed

lemma demo_manifest_accepted:
  "parse_and_validate demo_semver (\<lambda>_. Inr demo_manifest) [] = Inr demo_manifest"
  by (simp add: parse_and_validate_def validate_manifest_invariants_def demo_manifest_def
      demo_inventory_ok ensure_def SCHEMA_VERSION_def validate_version_def demo_semver_def
      parse_unsigned_def digits_value_def ascii_class_defs validate_release_tag_def
      validate_commit_sha_def demo_digests validate_profile_def PROFILE_SYSTEMD_MIN_def
      validate_archive_def validate_sha256_hex_def validate_components_def validate_services_def
      service_mismatch_def validate_rollback_def ROLLBACK_PREVIOUS_COMPATIBLE_def
      ROLLBACK_STATE_COMPATIBILITY_def Let_def)

end
