(* ===== verification/Release_State.thy ===== *)
theory Release_State
  imports Release_Manifest
begin

text \<open>
  The authoritative state of the release manager: the records of
  \<open>linux_release/state_record.rs\<close>, the envelope of \<open>state.rs\<close> with its validation and tag
  references, and the transition graph and recovery classification of \<open>journal.rs\<close>.
\<close>

section \<open>Records\<close>

record release_record =
  rr_tag :: string
  rr_version :: string
  rr_role :: target_role
  rr_release_path :: string
  rr_manifest_sha256 :: string
  rr_archive_sha256 :: string
  rr_installed_at :: string
  rr_committed_at :: string
  rr_api_unit_sha256 :: "string option"
  rr_web_unit_sha256 :: "string option"
  rr_host_config_sha256 :: "string option"

record pending_candidate_record =
  pc_tag :: string
  pc_role :: target_role
  pc_staged_at :: string
  pc_release_path :: string
  pc_manifest_sha256 :: string
  pc_archive_sha256 :: string
  pc_pending_units_path :: "string option"
  pc_pending_host_config_path :: "string option"
  pc_api_unit_sha256 :: "string option"
  pc_web_unit_sha256 :: "string option"
  pc_host_config_sha256 :: "string option"

datatype transaction_phase =
  PhaseStaged | PhaseQuiesced | PhaseSwitched | PhaseProbing | PhaseCommitted
  | PhaseRollingBack | PhaseRolledBack | PhaseFailed

record migration_record =
  mr_legacy_root :: string
  mr_migration_root :: string
  mr_legacy_binary_sha256 :: string
  mr_legacy_unit_sha256 :: string
  mr_legacy_api_version :: "string option"
  mr_exchanged :: bool
  mr_old_unit_backup_path :: string
  mr_old_wants_link_path :: string

record transaction_record =
  tr_tx_id :: string
  tr_phase :: transaction_phase
  tr_started_at :: string
  tr_target_tag :: string
  tr_target_role :: target_role
  tr_previous_tag :: "string option"
  tr_previous_role :: "target_role option"
  tr_units_backup_dir :: "string option"
  tr_config_backup_path :: "string option"
  tr_public_config_backup_path :: "string option"
  tr_migration :: "migration_record option"

record failure_record =
  fr_failed_at :: string
  fr_tx_id :: "string option"
  fr_target_tag :: "string option"
  fr_phase :: string
  fr_sanitized_error :: string

record manager_state =
  ms_schema_version :: u32
  ms_generation :: u64
  ms_updated_at :: string
  ms_active :: "release_record option"
  ms_previous :: "release_record option"
  ms_pending :: "pending_candidate_record option"
  ms_transaction :: "transaction_record option"
  ms_latest_failure :: "failure_record option"

definition manager_state_default :: "string \<Rightarrow> manager_state" where
  "manager_state_default now = \<lparr> ms_schema_version = SCHEMA_VERSION, ms_generation = 1,
     ms_updated_at = now, ms_active = None, ms_previous = None, ms_pending = None,
     ms_transaction = None, ms_latest_failure = None \<rparr>"

section \<open>Validation\<close>

definition LEGACY_FORMAT2_TAG :: string where
  "LEGACY_FORMAT2_TAG = ''imported-format-2''"

text \<open>\<open>if let Some(h) = .. { check(h)?; }\<close>\<close>

definition when_some :: "('a \<Rightarrow> 'e + unit) \<Rightarrow> 'a option \<Rightarrow> 'e + unit" where
  "when_some check v = (case v of None \<Rightarrow> Inr () | Some x \<Rightarrow> check x)"

lemma when_some_Inr: "when_some check v = Inr u \<longleftrightarrow> (\<forall>x. v = Some x \<longrightarrow> check x = Inr ())"
  by (cases v) (simp_all add: when_some_def)

definition ignore :: "'e + 'a \<Rightarrow> 'e + unit" where
  "ignore r = and_then r (\<lambda>_. Inr ())"

definition validate_release_record :: "release_record \<Rightarrow> release_error + unit" where
  "validate_release_record r =
     and_then (if rr_tag r \<noteq> ''imported-format-2''
               then validate_release_tag (rr_tag r) (rr_version r) else Inr ()) (\<lambda>_.
     and_then (validate_sha256_hex (rr_manifest_sha256 r)) (\<lambda>_.
     and_then (validate_sha256_hex (rr_archive_sha256 r)) (\<lambda>_.
     and_then (when_some validate_sha256_hex (rr_api_unit_sha256 r)) (\<lambda>_.
     and_then (when_some validate_sha256_hex (rr_web_unit_sha256 r)) (\<lambda>_.
     when_some validate_sha256_hex (rr_host_config_sha256 r))))))"

definition validate_pending_candidate ::
  "semver_parser \<Rightarrow> pending_candidate_record \<Rightarrow> release_error + unit" where
  "validate_pending_candidate semver p =
     and_then (validate_tag_format semver (pc_tag p)) (\<lambda>_.
     and_then (validate_sha256_hex (pc_manifest_sha256 p)) (\<lambda>_.
     and_then (validate_sha256_hex (pc_archive_sha256 p)) (\<lambda>_.
     and_then (when_some validate_sha256_hex (pc_api_unit_sha256 p)) (\<lambda>_.
     and_then (when_some validate_sha256_hex (pc_web_unit_sha256 p)) (\<lambda>_.
     when_some validate_sha256_hex (pc_host_config_sha256 p))))))"

definition tx_id_ok :: "string \<Rightarrow> bool" where
  "tx_id_ok s \<longleftrightarrow> trim_str s \<noteq> [] \<and> length s \<le> 64 \<and>
     list_all (\<lambda>c. is_ascii_alphanumeric c \<or> c = CHR ''-'' \<or> c = CHR ''_'') s"

definition check_transaction_tag :: "semver_parser \<Rightarrow> string \<Rightarrow> release_error + unit" where
  "check_transaction_tag semver tag =
     (if tag \<noteq> ''imported-format-2'' then ignore (validate_tag_format semver tag) else Inr ())"

definition validate_transaction_record ::
  "semver_parser \<Rightarrow> transaction_record \<Rightarrow> release_error + unit" where
  "validate_transaction_record semver t =
     and_then (ensure (tx_id_ok (tr_tx_id t)) (DeployError (Config
       ''transaction id must contain only ASCII letters, digits, '-' or '_' and be at most 64 bytes''))) (\<lambda>_.
     and_then (check_transaction_tag semver (tr_target_tag t)) (\<lambda>_.
     when_some (check_transaction_tag semver) (tr_previous_tag t)))"

definition validate_manager_state :: "semver_parser \<Rightarrow> manager_state \<Rightarrow> release_error + unit" where
  "validate_manager_state semver s =
     and_then (ensure (ms_schema_version s = SCHEMA_VERSION)
       (DeployError (Config ''unsupported state schema version''))) (\<lambda>_.
     and_then (ensure (ms_generation s \<noteq> 0)
       (DeployError (Config ''generation must be non-zero''))) (\<lambda>_.
     and_then (when_some validate_release_record (ms_active s)) (\<lambda>_.
     and_then (when_some validate_release_record (ms_previous s)) (\<lambda>_.
     and_then (when_some (validate_pending_candidate semver) (ms_pending s)) (\<lambda>_.
     when_some (validate_transaction_record semver) (ms_transaction s))))))"

definition is_tag_referenced :: "manager_state \<Rightarrow> string \<Rightarrow> bool" where
  "is_tag_referenced s tag \<longleftrightarrow>
     (case ms_active s of Some a \<Rightarrow> rr_tag a = tag | None \<Rightarrow> False)
     \<or> (case ms_previous s of Some p \<Rightarrow> rr_tag p = tag | None \<Rightarrow> False)
     \<or> (case ms_pending s of Some c \<Rightarrow> pc_tag c = tag | None \<Rightarrow> False)
     \<or> (case ms_transaction s of
          Some tx \<Rightarrow> tr_target_tag tx = tag \<or> tr_previous_tag tx = Some tag
        | None \<Rightarrow> False)
     \<or> (case ms_latest_failure s of Some f \<Rightarrow> fr_target_tag f = Some tag | None \<Rightarrow> False)"

section \<open>Deployment states and recovery\<close>

datatype deployment_state =
  DepAbsent | DepActive | DepStaged | DepPending | DepQuiesced | DepSwitched | DepProbing
  | DepCommitted | DepRollingBack | DepRolledBack | DepRecoveryRequired

fun phase_deployment_state :: "transaction_phase \<Rightarrow> deployment_state" where
  "phase_deployment_state PhaseStaged = DepStaged"
| "phase_deployment_state PhaseQuiesced = DepQuiesced"
| "phase_deployment_state PhaseSwitched = DepSwitched"
| "phase_deployment_state PhaseProbing = DepProbing"
| "phase_deployment_state PhaseCommitted = DepCommitted"
| "phase_deployment_state PhaseRollingBack = DepRollingBack"
| "phase_deployment_state PhaseRolledBack = DepRolledBack"
| "phase_deployment_state PhaseFailed = DepRecoveryRequired"

definition current_deployment_state :: "manager_state \<Rightarrow> deployment_state" where
  "current_deployment_state s =
     (case ms_transaction s of
        Some tx \<Rightarrow> phase_deployment_state (tr_phase tx)
      | None \<Rightarrow>
          if ms_pending s \<noteq> None then DepPending
          else if ms_active s \<noteq> None then DepActive
          else DepAbsent)"

definition allowed_transitions :: "(deployment_state \<times> deployment_state) list" where
  "allowed_transitions =
     [(DepAbsent, DepStaged), (DepActive, DepStaged), (DepStaged, DepPending),
      (DepPending, DepQuiesced), (DepQuiesced, DepSwitched), (DepSwitched, DepProbing),
      (DepProbing, DepCommitted), (DepProbing, DepRollingBack), (DepSwitched, DepRollingBack),
      (DepQuiesced, DepRollingBack), (DepRollingBack, DepRolledBack),
      (DepRollingBack, DepRecoveryRequired), (DepRolledBack, DepActive),
      (DepRolledBack, DepAbsent), (DepCommitted, DepActive)]"

definition transition_allowed :: "deployment_state \<Rightarrow> deployment_state \<Rightarrow> bool" where
  "transition_allowed current target \<longleftrightarrow>
     (current, target) \<in> set allowed_transitions \<or> target = DepRecoveryRequired"

definition validate_transition ::
  "deployment_state \<Rightarrow> deployment_state \<Rightarrow> release_error + unit" where
  "validate_transition current target =
     ensure (transition_allowed current target)
       (DeployError (Config ''invalid deployment transition''))"

datatype recovery_action =
  NoAction | ResumePending | RestorePrevious | RepairCommitted | RecoveryRequired string

definition classify_recovery :: "semver_parser \<Rightarrow> manager_state \<Rightarrow> recovery_action" where
  "classify_recovery semver s =
     (if \<not> is_ok (validate_manager_state semver s) then RecoveryRequired ''state validation failed''
      else case ms_transaction s of
        None \<Rightarrow>
          if ms_pending s \<noteq> None then ResumePending
          else if ms_active s \<noteq> None then RepairCommitted
          else NoAction
      | Some tx \<Rightarrow>
          (case tr_phase tx of
             PhaseStaged \<Rightarrow> ResumePending
           | PhaseQuiesced \<Rightarrow> RestorePrevious
           | PhaseSwitched \<Rightarrow> RestorePrevious
           | PhaseProbing \<Rightarrow> RestorePrevious
           | PhaseRollingBack \<Rightarrow> RestorePrevious
           | PhaseCommitted \<Rightarrow> RepairCommitted
           | PhaseRolledBack \<Rightarrow> NoAction
           | PhaseFailed \<Rightarrow> RecoveryRequired (''in-flight transaction '' @ tr_tx_id tx @ '' failed'')))"

section \<open>The transition graph\<close>

inductive lifecycle :: "deployment_state \<Rightarrow> deployment_state list \<Rightarrow> deployment_state \<Rightarrow> bool" where
  here: "lifecycle s [] s"
| there: "transition_allowed s t \<Longrightarrow> lifecycle t path u \<Longrightarrow> lifecycle s (t # path) u"

inductive_cases lifecycle_NilE: "lifecycle s [] u"
inductive_cases lifecycle_ConsE: "lifecycle s (t # path) u"
inductive_simps lifecycle_simps: "lifecycle s [] u" "lifecycle s (t # path) u"

code_pred lifecycle .

lemma transition_from: "transition_allowed s t \<longleftrightarrow>
    t = DepRecoveryRequired \<or>
    (case s of
       DepAbsent \<Rightarrow> t = DepStaged
     | DepActive \<Rightarrow> t = DepStaged
     | DepStaged \<Rightarrow> t = DepPending
     | DepPending \<Rightarrow> t = DepQuiesced
     | DepQuiesced \<Rightarrow> t = DepSwitched \<or> t = DepRollingBack
     | DepSwitched \<Rightarrow> t = DepProbing \<or> t = DepRollingBack
     | DepProbing \<Rightarrow> t = DepCommitted \<or> t = DepRollingBack
     | DepCommitted \<Rightarrow> t = DepActive
     | DepRollingBack \<Rightarrow> t = DepRolledBack
     | DepRolledBack \<Rightarrow> t = DepActive \<or> t = DepAbsent
     | DepRecoveryRequired \<Rightarrow> False)"
  by (cases s) (auto simp: transition_allowed_def allowed_transitions_def)

lemma recovery_required_sink:
  "lifecycle s path u \<Longrightarrow> s = DepRecoveryRequired \<Longrightarrow> u = DepRecoveryRequired"
  by (induction rule: lifecycle.induct) (auto simp: transition_from)

text \<open>Before a commit the release has been probed, switched and quiesced, in this order.\<close>

lemma lifecycle_before_commit:
  "lifecycle s path u \<Longrightarrow> u = DepCommitted \<Longrightarrow>
    (case s of
       DepCommitted \<Rightarrow> True
     | DepProbing \<Rightarrow> path \<noteq> []
     | DepSwitched \<Rightarrow> DepProbing \<in> set path
     | DepQuiesced \<Rightarrow> DepProbing \<in> set path \<and> DepSwitched \<in> set path
     | _ \<Rightarrow> DepProbing \<in> set path \<and> DepSwitched \<in> set path \<and> DepQuiesced \<in> set path)"
proof (induction rule: lifecycle.induct)
  case (here s)
  then show ?case by simp
next
  case (there s t path u)
  show ?case
  proof (cases "t = DepRecoveryRequired")
    case True
    with there recovery_required_sink show ?thesis by fastforce
  next
    case False
    with there show ?thesis by (cases s) (auto simp: transition_from)
  qed
qed

text \<open>
  Along the transition graph a pending candidate is only committed after it has been
  quiesced, switched and probed.
\<close>

lemma commit_is_probed:
  assumes "lifecycle DepPending path DepCommitted"
  shows "DepQuiesced \<in> set path \<and> DepSwitched \<in> set path \<and> DepProbing \<in> set path"
  using lifecycle_before_commit [OF assms] by simp

end
