(* ===== verification/Release_Probe.thy ===== *)
theory Release_Probe
  imports Release_State
begin

text \<open>
  One health probe of a service: the judgement of \<open>linux_release/health.rs\<close> (\<open>probe_target\<close>,
  \<open>probe_http_endpoint\<close>) and of \<open>process.rs\<close> (\<open>verify_service_identity_and_exe\<close>,
  \<open>read_proc_uid_gid\<close>) on what was observed of the unit, its process, its port and its HTTP
  endpoint. The observations come from the machine; the JSON decoder is a parameter.
\<close>

section \<open>Observations\<close>

record service_process_evidence =
  pe_uid :: u32
  pe_gid :: u32
  pe_exe_path :: "string option"

record health_payload =
  hp_schema_version :: u32
  hp_status :: string
  hp_version :: string
  hp_role :: string

text \<open>
  A response: its status is a success or not, its content type (empty when the header is
  missing or not text), its declared length and its body, a sequence of chunks and read
  errors.
\<close>

datatype http_observation =
    HttpError string
  | HttpReply bool string "nat option" "(string + bytes) list"

record service_observation =
  so_active :: "string + bool"
  so_process :: "string + service_process_evidence option"
  so_listening :: "string + bool"
  so_http :: http_observation

record health_probe_target =
  ht_unit_name :: string
  ht_role :: string
  ht_port :: u16
  ht_path :: string
  ht_expected_version :: string
  ht_expected_uid :: u32
  ht_expected_gid :: u32
  ht_expected_exe_prefix :: string

datatype probe_outcome = Success | Transient string | Fatal string

section \<open>The process\<close>

text \<open>\<open>Path::starts_with\<close> compares whole components.\<close>

definition path_components :: "string \<Rightarrow> string list" where
  "path_components p = filter (\<lambda>c. c \<noteq> [] \<and> c \<noteq> ''.'') (split_on (CHR ''/'') p)"

definition path_starts_with :: "string \<Rightarrow> string \<Rightarrow> bool" where
  "path_starts_with p q \<longleftrightarrow>
     starts_with ''/'' p = starts_with ''/'' q \<and>
     take (length (path_components q)) (path_components p) = path_components q"

definition verify_service_identity_and_exe ::
  "service_process_evidence \<Rightarrow> u32 \<Rightarrow> string \<Rightarrow> release_error + unit" where
  "verify_service_identity_and_exe evidence expected_uid expected_exe_prefix =
     (if pe_uid evidence \<noteq> expected_uid
      then Inl (DeployError (ProcessInspectionFailed ''effective UID mismatch''))
      else case pe_exe_path evidence of
        Some exe \<Rightarrow>
          if path_starts_with exe expected_exe_prefix then Inr ()
          else Inl (DeployError (ProcessInspectionFailed ''executable path mismatch''))
      | None \<Rightarrow>
          Inl (DeployError (ProcessInspectionFailed ''executable link could not be resolved'')))"

text \<open>
  \<open>split_whitespace\<close> on a line of \<open>/proc/<pid>/status\<close>, which is ASCII; the last line that
  starts with \<open>Uid:\<close> or \<open>Gid:\<close> and has three fields decides.
\<close>

definition split_whitespace :: "string \<Rightarrow> string list" where
  "split_whitespace s =
     filter (\<lambda>w. w \<noteq> [])
       (split_on (CHR '' '') (map (\<lambda>c. if is_ascii_space c then CHR '' '' else c) s))"

definition status_field :: "string \<Rightarrow> string \<Rightarrow> nat option \<Rightarrow> nat option" where
  "status_field key line old =
     (if starts_with key line then
        (let parts = split_whitespace line in
         if 3 \<le> length parts then parse_unsigned 32 (parts ! 2) else old)
      else old)"

fun scan_status :: "string list \<Rightarrow> nat option \<Rightarrow> nat option \<Rightarrow> nat option \<times> nat option" where
  "scan_status [] uid gid = (uid, gid)"
| "scan_status (line # ls) uid gid =
     (if starts_with ''Uid:'' line then scan_status ls (status_field ''Uid:'' line uid) gid
      else scan_status ls uid (status_field ''Gid:'' line gid))"

definition read_proc_uid_gid :: "string \<Rightarrow> release_error + (u32 \<times> u32)" where
  "read_proc_uid_gid content =
     (case scan_status (str_lines content) None None of
        (Some u, Some g) \<Rightarrow> Inr (of_nat u, of_nat g)
      | _ \<Rightarrow> Inl (DeployError (ProcessInspectionFailed ''failed to parse UID/GID'')))"

section \<open>The HTTP endpoint\<close>

definition MAX_HEALTH_BODY_BYTES :: nat where "MAX_HEALTH_BODY_BYTES = 65536"

fun read_body :: "bytes \<Rightarrow> (string + bytes) list \<Rightarrow> probe_outcome + bytes" where
  "read_body acc [] = Inr acc"
| "read_body acc (Inl _ # rest) = Inl (Transient ''failed to read response bytes'')"
| "read_body acc (Inr chunk # rest) =
     (if MAX_HEALTH_BODY_BYTES < length acc + length chunk
      then Inl (Fatal ''health body exceeds the limit'')
      else read_body (acc @ chunk) rest)"

definition judge_payload :: "string \<Rightarrow> string \<Rightarrow> health_payload \<Rightarrow> probe_outcome" where
  "judge_payload expected_role expected_version body =
     (if hp_schema_version body \<noteq> 1 then Fatal ''schemaVersion, expected 1''
      else if hp_status body \<noteq> ''ok'' then Fatal ''status, expected ok''
      else if hp_role body \<noteq> expected_role then Fatal ''role mismatch''
      else if hp_version body \<noteq> expected_version then Fatal ''version mismatch''
      else Success)"

definition probe_http_endpoint ::
  "(bytes \<Rightarrow> string + health_payload) \<Rightarrow> http_observation \<Rightarrow> string \<Rightarrow> string \<Rightarrow> probe_outcome" where
  "probe_http_endpoint from_slice resp expected_role expected_version =
     (case resp of
        HttpError e \<Rightarrow> Transient (''HTTP request error: '' @ e)
      | HttpReply ok_status ctype content_length chunks \<Rightarrow>
          if \<not> ok_status then Transient ''HTTP status''
          else if \<not> contains_str ''application/json'' ctype
            then Fatal ''unexpected Content-Type, expected JSON''
          else if (case content_length of Some l \<Rightarrow> MAX_HEALTH_BODY_BYTES < l | None \<Rightarrow> False)
            then Fatal ''health body exceeds the limit''
          else case read_body [] chunks of
            Inl outcome \<Rightarrow> outcome
          | Inr body \<Rightarrow>
              (case from_slice body of
                 Inl e \<Rightarrow> Fatal (''failed to parse health JSON: '' @ e)
               | Inr payload \<Rightarrow> judge_payload expected_role expected_version payload))"

definition judge_target ::
  "(bytes \<Rightarrow> string + health_payload) \<Rightarrow> health_probe_target \<Rightarrow> service_observation
    \<Rightarrow> probe_outcome" where
  "judge_target from_slice t obs =
     (case so_active obs of
        Inl e \<Rightarrow> Fatal (''systemctl is-active failed: '' @ e)
      | Inr False \<Rightarrow> Transient ''unit is not active''
      | Inr True \<Rightarrow>
          (case so_process obs of
             Inl e \<Rightarrow> Fatal (''inspect process failed: '' @ e)
           | Inr None \<Rightarrow> Transient ''main pid is zero or absent''
           | Inr (Some evidence) \<Rightarrow>
               if \<not> is_ok (verify_service_identity_and_exe evidence (ht_expected_uid t)
                             (ht_expected_exe_prefix t))
               then Fatal ''process identity check failed''
               else if pe_gid evidence \<noteq> ht_expected_gid t
               then Fatal ''effective GID mismatch''
               else (case so_listening obs of
                  Inl e \<Rightarrow> Fatal (''port check error: '' @ e)
                | Inr False \<Rightarrow> Transient ''port not listening on wildcard''
                | Inr True \<Rightarrow>
                    probe_http_endpoint from_slice (so_http obs) (ht_role t)
                      (ht_expected_version t))))"

section \<open>What a successful probe has seen\<close>

lemma read_body_bound:
  "read_body acc chunks = Inr body \<Longrightarrow> length acc \<le> MAX_HEALTH_BODY_BYTES \<Longrightarrow>
     length body \<le> MAX_HEALTH_BODY_BYTES"
  by (induction acc chunks rule: read_body.induct) (auto split: if_splits)

lemma judge_payload_Success:
  "judge_payload role version p = Success \<longleftrightarrow>
     hp_schema_version p = 1 \<and> hp_status p = ''ok'' \<and> hp_role p = role \<and> hp_version p = version"
  by (simp add: judge_payload_def)

lemma probe_http_endpoint_Success:
  assumes "probe_http_endpoint from_slice resp role version = Success"
  obtains ctype cl chunks body p where
    "resp = HttpReply True ctype cl chunks" "read_body [] chunks = Inr body"
    "from_slice body = Inr p" "judge_payload role version p = Success"
proof -
  have no_success: "o' \<noteq> Success" if "read_body acc cs = Inl o'" for acc cs o'
    using that by (induction acc cs rule: read_body.induct) (auto split: if_splits)
  from assms that no_success show ?thesis
    unfolding probe_http_endpoint_def
    by (auto split: http_observation.splits if_splits sum.splits)
qed

lemma judge_target_Success:
  assumes "judge_target from_slice t obs = Success"
  obtains evidence where
    "so_active obs = Inr True" "so_process obs = Inr (Some evidence)"
    "verify_service_identity_and_exe evidence (ht_expected_uid t) (ht_expected_exe_prefix t) = Inr ()"
    "pe_gid evidence = ht_expected_gid t" "so_listening obs = Inr True"
    "probe_http_endpoint from_slice (so_http obs) (ht_role t) (ht_expected_version t) = Success"
  using assms that unfolding judge_target_def
  by (auto simp: is_ok_iff split: sum.splits option.splits bool.splits if_splits)

text \<open>
  A successful probe has seen the expected release. The unit is active, its main
  process runs with the expected user and group, its executable lies under the expected path
  of the release (whole path components), the port listens, and the response was a success
  whose body, at most 64 KiB, decodes to schema 1, status ok, the expected role and exactly
  the expected version.
\<close>

lemma successful_probe_is_release:
  assumes "judge_target from_slice t obs = Success"
  shows "so_active obs = Inr True \<and> so_listening obs = Inr True
    \<and> (\<exists>evidence exe ctype cl chunks body p.
        so_process obs = Inr (Some evidence) \<and> pe_uid evidence = ht_expected_uid t
        \<and> pe_gid evidence = ht_expected_gid t \<and> pe_exe_path evidence = Some exe
        \<and> path_starts_with exe (ht_expected_exe_prefix t)
        \<and> so_http obs = HttpReply True ctype cl chunks
        \<and> read_body [] chunks = Inr body \<and> length body \<le> 65536 \<and> from_slice body = Inr p
        \<and> hp_schema_version p = 1 \<and> hp_status p = ''ok'' \<and> hp_role p = ht_role t
        \<and> hp_version p = ht_expected_version t)"
proof -
  from assms obtain ev where ev: "so_active obs = Inr True" "so_process obs = Inr (Some ev)"
    "verify_service_identity_and_exe ev (ht_expected_uid t) (ht_expected_exe_prefix t) = Inr ()"
    "pe_gid ev = ht_expected_gid t" "so_listening obs = Inr True"
    "probe_http_endpoint from_slice (so_http obs) (ht_role t) (ht_expected_version t) = Success"
    by (rule judge_target_Success)
  from ev(6) obtain ctype cl chunks body p where
    "so_http obs = HttpReply True ctype cl chunks" "read_body [] chunks = Inr body"
    "from_slice body = Inr p" "judge_payload (ht_role t) (ht_expected_version t) p = Success"
    by (rule probe_http_endpoint_Success)
  moreover have "length body \<le> 65536"
    using read_body_bound [OF \<open>read_body [] chunks = Inr body\<close>] by (simp add: MAX_HEALTH_BODY_BYTES_def)
  moreover have "\<exists>exe. pe_uid ev = ht_expected_uid t \<and> pe_exe_path ev = Some exe
      \<and> path_starts_with exe (ht_expected_exe_prefix t)"
    using ev(3) by (auto simp: verify_service_identity_and_exe_def split: if_splits option.splits)
  ultimately show ?thesis using ev by (auto simp: judge_payload_Success)
qed

definition demo_target :: health_probe_target where
  "demo_target = \<lparr> ht_unit_name = API_SERVICE_UNIT, ht_role = ''api'', ht_port = API_SERVICE_PORT,
     ht_path = API_SERVICE_HEALTH_PATH, ht_expected_version = ''1.2.3'', ht_expected_uid = 990,
     ht_expected_gid = 991, ht_expected_exe_prefix = ''/r/bin/dam-hopper-server'' \<rparr>"

definition demo_payload :: health_payload where
  "demo_payload = \<lparr> hp_schema_version = 1, hp_status = ''ok'', hp_version = ''1.2.3'',
     hp_role = ''api'' \<rparr>"

definition demo_observation :: service_observation where
  "demo_observation = \<lparr> so_active = Inr True,
     so_process = Inr (Some \<lparr> pe_uid = 990, pe_gid = 991,
       pe_exe_path = Some ''/r/bin/dam-hopper-server'' \<rparr>),
     so_listening = Inr True, so_http = HttpReply True ''application/json'' None [Inr [0]] \<rparr>"

lemma demo_probe: "judge_target (\<lambda>_. Inr demo_payload) demo_target demo_observation = Success"
  by (simp add: judge_target_def demo_observation_def demo_target_def is_ok_def
      verify_service_identity_and_exe_def path_starts_with_def starts_with_def path_components_def
      probe_http_endpoint_def contains_str_def MAX_HEALTH_BODY_BYTES_def judge_payload_def
      demo_payload_def upt_rec)

end
