(* ===== verification/Release_Unit.thy ===== *)
theory Release_Unit
  imports Release_Manifest
begin

text \<open>
  Rendering and checking of systemd units: the web origins of \<open>linux_release/origin.rs\<close>, the
  unit file parser of \<open>unit_parser.rs\<close>, the policies of \<open>unit_policy.rs\<close>, the template
  renderer of \<open>unit.rs\<close> and the rewriting of the service identity in \<open>activate.rs\<close>
  (\<open>update_unit_service_identity\<close>).
\<close>

section \<open>Web origins\<close>

definition origin_error :: "string \<Rightarrow> string \<Rightarrow> release_error + 'a" where
  "origin_error origin reason = Inl (UnitError (InvalidWebOrigin origin reason))"

definition origin_scheme :: "string \<Rightarrow> (string \<times> string) option" where
  "origin_scheme s =
     (case strip_prefix_str ''https://'' s of
        Some stripped \<Rightarrow> Some (''https'', stripped)
      | None \<Rightarrow> map_option (Pair ''http'') (strip_prefix_str ''http://'' s))"

text \<open>\<open>rest.find('/')\<close> splits the rest into the host and port and the path from the slash on.\<close>

definition split_path :: "string \<Rightarrow> string \<times> string" where
  "split_path rest =
     (case split_once (CHR ''/'') rest of
        Some (host_port, after) \<Rightarrow> (host_port, CHR ''/'' # after)
      | None \<Rightarrow> (rest, []))"

definition split_host_port :: "string \<Rightarrow> string \<Rightarrow> release_error + (string \<times> string option)" where
  "split_host_port origin host_port =
     (case split_once (CHR '':'') host_port of
        Some (h, p) \<Rightarrow>
          if p = [] then origin_error origin ''port cannot be empty when ':' is present''
          else if parse_unsigned 16 p = None then origin_error origin ''invalid port number''
          else Inr (h, Some p)
      | None \<Rightarrow> Inr (host_port, None))"

definition validate_web_origin :: "string \<Rightarrow> release_error + string" where
  "validate_web_origin origin =
     (let trimmed = trim_str origin in
      if trimmed = [] then origin_error origin ''origin cannot be empty''
      else if CHR ''*'' \<in> set trimmed then origin_error origin ''wildcard origin is forbidden''
      else case origin_scheme trimmed of
        None \<Rightarrow> origin_error origin ''scheme must be http:// or https://''
      | Some (scheme, rest) \<Rightarrow>
          if rest = [] then origin_error origin ''missing host''
          else if CHR ''@'' \<in> set rest
            then origin_error origin ''userinfo (username/password) is forbidden''
          else if CHR ''?'' \<in> set rest \<or> CHR ''#'' \<in> set rest
            then origin_error origin ''query parameters and fragments are forbidden in origins''
          else (case split_path rest of (host_port, path) \<Rightarrow>
            if path \<noteq> [] \<and> path \<noteq> ''/''
              then origin_error origin ''path components are forbidden in origins''
            else if host_port = [] then origin_error origin ''host cannot be empty''
            else and_then (split_host_port origin host_port) (\<lambda>(host, port).
              if host = [] then origin_error origin ''host cannot be empty''
              else Inr (scheme @ ''://'' @ host
                        @ (case port of Some p \<Rightarrow> CHR '':'' # p | None \<Rightarrow> [])))))"

fun collect_origins :: "string list \<Rightarrow> string list \<Rightarrow> release_error + string list" where
  "collect_origins normalized [] = Inr normalized"
| "collect_origins normalized (origin # origins) =
     and_then (validate_web_origin origin) (\<lambda>n.
       if n \<in> set normalized then Inl (UnitError (DuplicateWebOrigin n))
       else collect_origins (normalized @ [n]) origins)"

definition validate_web_origins :: "string list \<Rightarrow> release_error + string list" where
  "validate_web_origins origins = collect_origins [] origins"

section \<open>Parsed units\<close>

text \<open>
  The sections of a unit in order of first appearance; the code keeps them in a hash map
  and only looks up, appends and asks whether some section has an entry.
\<close>

type_synonym parsed_unit = "(string \<times> (string \<times> string) list) list"

fun section_push :: "string \<Rightarrow> (string \<times> string) list \<Rightarrow> parsed_unit \<Rightarrow> parsed_unit" where
  "section_push name kvs [] = [(name, kvs)]"
| "section_push name kvs ((n, es) # ss) =
     (if n = name then (n, es @ kvs) # ss else (n, es) # section_push name kvs ss)"

definition is_header :: "string \<Rightarrow> bool" where
  "is_header trimmed \<longleftrightarrow> starts_with ''['' trimmed \<and> ends_with '']'' trimmed"

definition is_skipped :: "string \<Rightarrow> bool" where
  "is_skipped trimmed \<longleftrightarrow>
     trimmed = [] \<or> starts_with ''#'' trimmed \<or> starts_with '';'' trimmed"

fun parse_unit_lines ::
  "parsed_unit \<Rightarrow> string \<Rightarrow> string list \<Rightarrow> release_error + parsed_unit" where
  "parse_unit_lines sections current_section [] = Inr sections"
| "parse_unit_lines sections current_section (line # rest) =
     (let trimmed = trim_str line in
      if is_skipped trimmed then parse_unit_lines sections current_section rest
      else if is_header trimmed then
        (let name = trim_str (butlast (tl trimmed))
         in parse_unit_lines (section_push name [] sections) name rest)
      else if current_section = [] then
        Inl (UnitError (UnitPolicyViolation ''unknown'' ''directive outside of any section''))
      else case split_once (CHR ''='') trimmed of
        Some (k, v) \<Rightarrow>
          parse_unit_lines (section_push current_section [(trim_str k, trim_str v)] sections)
            current_section rest
      | None \<Rightarrow> parse_unit_lines sections current_section rest)"

definition parse_unit :: "string \<Rightarrow> release_error + parsed_unit" where
  "parse_unit content = parse_unit_lines [] [] (str_lines content)"

definition get_all_values :: "parsed_unit \<Rightarrow> string \<Rightarrow> string \<Rightarrow> string list" where
  "get_all_values u name key =
     (case map_of u name of
        None \<Rightarrow> []
      | Some entries \<Rightarrow> map snd (filter (\<lambda>(k, _). k = key) entries))"

definition get_value :: "parsed_unit \<Rightarrow> string \<Rightarrow> string \<Rightarrow> string option" where
  "get_value u name key =
     (case map_of u name of
        None \<Rightarrow> None
      | Some entries \<Rightarrow> map_option snd (find (\<lambda>(k, _). k = key) entries))"

definition coupling_keys :: "string list" where
  "coupling_keys = [''Requires'', ''PartOf'', ''BindsTo'', ''ConsistsOf'', ''Wants'', ''After'',
     ''Before'']"

definition has_coupling :: "parsed_unit \<Rightarrow> string \<Rightarrow> bool" where
  "has_coupling u forbidden_keyword \<longleftrightarrow>
     list_ex (\<lambda>(_, entries).
       list_ex (\<lambda>(k, v). k \<in> set coupling_keys \<and> contains_str forbidden_keyword v) entries) u"

section \<open>Unit policies\<close>

record unit_render_context =
  uc_release_root :: string
  uc_release_version :: string
  uc_public_config :: string
  uc_api_origins :: "string list"
  uc_api_user :: string
  uc_api_group :: string
  uc_api_home :: string

definition violation :: "string \<Rightarrow> string \<Rightarrow> release_error" where
  "violation u reason = UnitError (UnitPolicyViolation u reason)"

definition quoted :: "string \<Rightarrow> string" where
  "quoted s = CHR 0x27 # s @ [CHR 0x27]"

definition assert_eq_prop ::
  "parsed_unit \<Rightarrow> string \<Rightarrow> string \<Rightarrow> string \<Rightarrow> string \<Rightarrow> release_error + unit" where
  "assert_eq_prop u unit_name name key expected =
     (case get_value u name key of
        Some actual \<Rightarrow>
          if actual = expected then Inr ()
          else Inl (violation unit_name (''['' @ name @ ''] '' @ key @ '' expected '' @ quoted expected
                 @ '', got '' @ quoted actual))
      | None \<Rightarrow> Inl (violation unit_name
                 (''['' @ name @ ''] missing required property '' @ quoted key)))"

text \<open>A run of \<open>assert_eq_prop(..)?\<close> statements.\<close>

fun assert_props ::
  "parsed_unit \<Rightarrow> string \<Rightarrow> (string \<times> string \<times> string) list \<Rightarrow> release_error + unit" where
  "assert_props u unit_name [] = Inr ()"
| "assert_props u unit_name ((name, key, expected) # ps) =
     and_then (assert_eq_prop u unit_name name key expected) (\<lambda>_. assert_props u unit_name ps)"

fun join_comma :: "string list \<Rightarrow> string" where
  "join_comma xs = join_with (CHR '','') xs"

definition api_exec_start :: "unit_render_context \<Rightarrow> string" where
  "api_exec_start ctx = uc_release_root ctx @ ''/bin/dam-hopper-server --config ''
     @ uc_api_home ctx @ ''/.config/dam-hopper/dam-hopper.toml --host 0.0.0.0 --port 4801''"

definition api_required_envs :: "unit_render_context \<Rightarrow> string list" where
  "api_required_envs ctx =
     [''HOME='' @ uc_api_home ctx, ''XDG_CONFIG_HOME='' @ uc_api_home ctx @ ''/.config'',
      ''RUST_LOG=info'', ''RUST_ENV=production'']"

definition validate_api_unit_policy ::
  "parsed_unit \<Rightarrow> unit_render_context \<Rightarrow> release_error + unit" where
  "validate_api_unit_policy u ctx =
     (let name = ''dam-hopper-api.service'';
          env_entries = get_all_values u ''Service'' ''Environment'';
          expected_origins_env = ''DAM_HOPPER_CORS_ORIGINS='' @ join_comma (uc_api_origins ctx) in
      and_then (ensure (\<not> has_coupling u ''web'')
        (violation name ''API unit must never have coupling dependencies to web unit'')) (\<lambda>_.
      and_then (ensure (uc_api_user ctx \<noteq> ''root'')
        (violation name ''API unit must not run as root'')) (\<lambda>_.
      and_then (assert_props u name
        [(''Service'', ''Type'', ''exec''), (''Service'', ''User'', uc_api_user ctx),
         (''Service'', ''Group'', uc_api_group ctx),
         (''Service'', ''StateDirectory'', ''dam-hopper''),
         (''Service'', ''RuntimeDirectory'', ''dam-hopper''),
         (''Service'', ''WorkingDirectory'', uc_api_home ctx),
         (''Service'', ''Restart'', ''on-failure''), (''Service'', ''KillSignal'', ''SIGTERM''),
         (''Service'', ''KillMode'', ''mixed''), (''Service'', ''TimeoutStopSec'', ''20s''),
         (''Service'', ''UMask'', ''0077''), (''Service'', ''NoNewPrivileges'', ''false''),
         (''Service'', ''SyslogIdentifier'', ''dam-hopper-api'')]) (\<lambda>_.
      and_then (ensure (list_all (\<lambda>req. req \<in> set env_entries) (api_required_envs ctx))
        (violation name ''missing required Environment entry'')) (\<lambda>_.
      and_then (ensure (expected_origins_env \<in> set env_entries)
        (violation name ''missing or mismatched Environment entry'')) (\<lambda>_.
      assert_props u name
        [(''Service'', ''ExecStart'', api_exec_start ctx),
         (''Install'', ''WantedBy'', ''multi-user.target'')]))))))"

definition web_exec_start :: "unit_render_context \<Rightarrow> string" where
  "web_exec_start ctx = uc_release_root ctx @ ''/bin/dam-hopper-web --root ''
     @ uc_release_root ctx @ ''/web --host 0.0.0.0 --port 4802 --runtime-config ''
     @ uc_public_config ctx @ '' --release-version '' @ uc_release_version ctx"

definition validate_web_unit_policy ::
  "parsed_unit \<Rightarrow> unit_render_context \<Rightarrow> release_error + unit" where
  "validate_web_unit_policy u ctx =
     (let name = ''dam-hopper-web.service'';
          read_only_paths = get_all_values u ''Service'' ''ReadOnlyPaths'' in
      and_then (ensure (\<not> has_coupling u ''api'')
        (violation name ''Web unit must never have coupling dependencies to API unit'')) (\<lambda>_.
      and_then (ensure (\<not> list_ex (\<lambda>(_, entries).
                list_ex (\<lambda>(k, _). k = ''EnvironmentFile'' \<or> k = ''ReadWritePaths'') entries) u)
        (violation name ''Web unit must not load EnvironmentFile or define ReadWritePaths'')) (\<lambda>_.
      and_then (assert_props u name
        [(''Service'', ''Type'', ''exec''), (''Service'', ''User'', ''dam-hopper-web''),
         (''Service'', ''Group'', ''dam-hopper-web''), (''Service'', ''Restart'', ''on-failure''),
         (''Service'', ''KillSignal'', ''SIGTERM''), (''Service'', ''KillMode'', ''mixed''),
         (''Service'', ''TimeoutStopSec'', ''10s''), (''Service'', ''UMask'', ''0077''),
         (''Service'', ''NoNewPrivileges'', ''true''), (''Service'', ''ProtectSystem'', ''strict''),
         (''Service'', ''ProtectHome'', ''true''), (''Service'', ''PrivateTmp'', ''true''),
         (''Service'', ''PrivateDevices'', ''true''),
         (''Service'', ''SyslogIdentifier'', ''dam-hopper-web''),
         (''Service'', ''ExecStart'', web_exec_start ctx)]) (\<lambda>_.
      and_then (ensure (uc_release_root ctx \<in> set read_only_paths
                        \<and> uc_public_config ctx \<in> set read_only_paths)
        (violation name ''ReadOnlyPaths must include the release root and the public config'')) (\<lambda>_.
      assert_props u name [(''Install'', ''WantedBy'', ''multi-user.target'')])))))"

section \<open>Rendering\<close>

definition ALLOWED_TOKENS :: "string list" where
  "ALLOWED_TOKENS = [''@RELEASE_ROOT@'', ''@RELEASE_VERSION@'', ''@PUBLIC_CONFIG@'',
     ''@API_ORIGINS@'', ''@API_USER@'', ''@API_GROUP@'', ''@API_HOME@'']"

definition validate_path_param :: "string \<Rightarrow> string \<Rightarrow> release_error + unit" where
  "validate_path_param name path =
     (if \<not> starts_with ''/'' path
      then Inl (UnitError (TemplateTokenInjection name ''path must be absolute''))
      else if NL \<in> set path \<or> CR \<in> set path \<or> CHR 0x00 \<in> set path \<or> CHR 0x09 \<in> set path
      then Inl (UnitError (TemplateTokenInjection name
             ''path contains forbidden control characters''))
      else Inr ())"

definition validate_ident_param :: "string \<Rightarrow> string \<Rightarrow> release_error + unit" where
  "validate_ident_param name val =
     (if val = [] \<or> NL \<in> set val \<or> CR \<in> set val \<or> CHR 0x00 \<in> set val \<or> CHR 0x09 \<in> set val
         \<or> CHR '' '' \<in> set val \<or> CHR ''@'' \<in> set val
      then Inl (UnitError (TemplateTokenInjection name
             ''identity value contains forbidden characters''))
      else Inr ())"

definition render_context_new ::
  "semver_parser \<Rightarrow> string \<Rightarrow> string \<Rightarrow> string \<Rightarrow> string list
    \<Rightarrow> release_error + unit_render_context" where
  "render_context_new semver release_root release_version public_config api_origins =
     and_then (validate_path_param ''release_root'' release_root) (\<lambda>_.
     and_then (validate_path_param ''public_config'' public_config) (\<lambda>_.
     and_then (validate_version semver release_version) (\<lambda>_.
     and_then (validate_web_origins api_origins) (\<lambda>validated_origins.
     Inr \<lparr> uc_release_root = release_root, uc_release_version = release_version,
           uc_public_config = public_config, uc_api_origins = validated_origins,
           uc_api_user = ''dam-hopper'', uc_api_group = ''dam-hopper'',
           uc_api_home = ''/var/lib/dam-hopper'' \<rparr>))))"

definition with_api_identity ::
  "unit_render_context \<Rightarrow> string \<Rightarrow> string \<Rightarrow> string \<Rightarrow> release_error + unit_render_context" where
  "with_api_identity ctx user grp home =
     and_then (validate_ident_param ''api_user'' user) (\<lambda>_.
     and_then (validate_ident_param ''api_group'' grp) (\<lambda>_.
     and_then (validate_path_param ''api_home'' home) (\<lambda>_.
     Inr (ctx\<lparr>uc_api_user := user, uc_api_group := grp, uc_api_home := home\<rparr>))))"

text \<open>The texts between pairs of at-signs that the scanning loop visits in a line.\<close>

function at_tokens :: "string \<Rightarrow> string list" where
  "at_tokens rest =
     (case split_once (CHR ''@'') rest of
        None \<Rightarrow> []
      | Some (_, after) \<Rightarrow>
          (case split_once (CHR ''@'') after of
             None \<Rightarrow> []
           | Some (middle, rest') \<Rightarrow> middle # at_tokens rest'))"
  by pat_completeness auto
termination
  by (relation "measure length") (auto simp: split_once_Some)

declare at_tokens.simps [simp del]

definition is_placeholder :: "string \<Rightarrow> bool" where
  "is_placeholder middle \<longleftrightarrow>
     middle \<noteq> [] \<and> list_all (\<lambda>c. is_ascii_uppercase c \<or> c = CHR ''_'') middle"

definition token_of :: "string \<Rightarrow> string" where
  "token_of middle = CHR ''@'' # middle @ ''@''"

definition placeholders :: "string \<Rightarrow> string list" where
  "placeholders s = filter is_placeholder (concat (map at_tokens (str_lines s)))"

text \<open>\<open>str::replace\<close> for a non-empty pattern: leftmost matches, not overlapping.\<close>

function replace_str :: "string \<Rightarrow> string \<Rightarrow> string \<Rightarrow> string" where
  "replace_str from to s =
     (if s = [] \<or> from = [] then s
      else if starts_with from s then to @ replace_str from to (drop (length from) s)
      else hd s # replace_str from to (tl s))"
  by pat_completeness auto
termination
  by (relation "measure (\<lambda>(_, _, s). length s)") auto

declare replace_str.simps [simp del]

definition substitute :: "unit_render_context \<Rightarrow> string \<Rightarrow> string" where
  "substitute ctx template =
     replace_str ''@API_HOME@'' (uc_api_home ctx)
     (replace_str ''@API_GROUP@'' (uc_api_group ctx)
     (replace_str ''@API_USER@'' (uc_api_user ctx)
     (replace_str ''@API_ORIGINS@'' (join_comma (uc_api_origins ctx))
     (replace_str ''@PUBLIC_CONFIG@'' (uc_public_config ctx)
     (replace_str ''@RELEASE_VERSION@'' (uc_release_version ctx)
     (replace_str ''@RELEASE_ROOT@'' (uc_release_root ctx) template))))))"

definition render_unit :: "string \<Rightarrow> unit_render_context \<Rightarrow> release_error + string" where
  "render_unit template ctx =
     (case find (\<lambda>middle. token_of middle \<notin> set ALLOWED_TOKENS) (placeholders template) of
        Some middle \<Rightarrow> Inl (UnitError (TemplateTokenInjection (token_of middle)
          ''token is not in the allowlist of unit template placeholders''))
      | None \<Rightarrow>
          let rendered = substitute ctx template in
          (case placeholders rendered of
             middle # _ \<Rightarrow> Inl (UnitError (UnresolvedTemplateToken (token_of middle)))
           | [] \<Rightarrow> Inr rendered))"

definition render_api_unit :: "string \<Rightarrow> unit_render_context \<Rightarrow> release_error + string" where
  "render_api_unit template ctx =
     and_then (render_unit template ctx) (\<lambda>rendered.
     and_then (parse_unit rendered) (\<lambda>parsed.
     and_then (validate_api_unit_policy parsed ctx) (\<lambda>_. Inr rendered)))"

definition render_web_unit :: "string \<Rightarrow> unit_render_context \<Rightarrow> release_error + string" where
  "render_web_unit template ctx =
     and_then (render_unit template ctx) (\<lambda>rendered.
     and_then (parse_unit rendered) (\<lambda>parsed.
     and_then (validate_web_unit_policy parsed ctx) (\<lambda>_. Inr rendered)))"

definition render_recovery_unit :: "string \<Rightarrow> unit_render_context \<Rightarrow> release_error + string" where
  "render_recovery_unit template ctx =
     and_then (render_unit template ctx) (\<lambda>rendered.
     and_then (parse_unit rendered) (\<lambda>parsed.
       let name = ''dam-hopper-recovery.service'';
           expected_exec = uc_release_root ctx @ ''/bin/dam-hopper-manager recover --boot'' in
       case get_value parsed ''Service'' ''ExecStart'' of
         None \<Rightarrow> Inl (violation name ''missing ExecStart in recovery unit'')
       | Some actual_exec \<Rightarrow>
           if actual_exec = expected_exec then Inr rendered
           else Inl (violation name ''ExecStart mismatch'')))"

section \<open>Changing the identity of an installed unit\<close>

record identity_flags =
  has_user :: bool
  has_group :: bool
  has_workdir :: bool
  has_home_env :: bool
  has_xdg_env :: bool

definition missing_identity :: "identity_flags \<Rightarrow> string \<Rightarrow> string \<Rightarrow> string \<Rightarrow> string list" where
  "missing_identity f user grp home =
     (if has_user f then [] else [''User='' @ user]) @
     (if has_group f then [] else [''Group='' @ grp]) @
     (if has_workdir f then [] else [''WorkingDirectory='' @ home]) @
     (if has_home_env f then [] else [''Environment=HOME='' @ home]) @
     (if has_xdg_env f then [] else [''Environment=XDG_CONFIG_HOME='' @ home @ ''/.config''])"

definition identity_line ::
  "string \<Rightarrow> string \<Rightarrow> string \<Rightarrow> identity_flags \<Rightarrow> string \<Rightarrow> identity_flags \<times> string" where
  "identity_line user grp home f line =
     (let trimmed = trim_str line in
      if starts_with ''User='' trimmed then (f\<lparr>has_user := True\<rparr>, ''User='' @ user)
      else if starts_with ''Group='' trimmed then (f\<lparr>has_group := True\<rparr>, ''Group='' @ grp)
      else if starts_with ''WorkingDirectory='' trimmed
        then (f\<lparr>has_workdir := True\<rparr>, ''WorkingDirectory='' @ home)
      else if starts_with ''Environment=HOME='' trimmed
        then (f\<lparr>has_home_env := True\<rparr>, ''Environment=HOME='' @ home)
      else if starts_with ''Environment=XDG_CONFIG_HOME='' trimmed
        then (f\<lparr>has_xdg_env := True\<rparr>, ''Environment=XDG_CONFIG_HOME='' @ home @ ''/.config'')
      else (f, line))"

text \<open>The loop over the lines of the unit, then the lines of a last open \<open>[Service]\<close>.\<close>

fun identity_lines ::
  "string \<Rightarrow> string \<Rightarrow> string \<Rightarrow> bool \<Rightarrow> identity_flags \<Rightarrow> string list \<Rightarrow> string list" where
  "identity_lines user grp home in_service f [] =
     (if in_service then missing_identity f user grp home else [])"
| "identity_lines user grp home in_service f (line # rest) =
     (let trimmed = trim_str line in
      if trimmed = ''[Service]'' then line # identity_lines user grp home True f rest
      else if is_header trimmed then
        (if in_service then missing_identity f user grp home else [])
        @ line # identity_lines user grp home False f rest
      else if in_service then
        (case identity_line user grp home f line of
           (f', line') \<Rightarrow> line' # identity_lines user grp home True f' rest)
      else line # identity_lines user grp home False f rest)"

definition update_unit_service_identity ::
  "string \<Rightarrow> string \<Rightarrow> string \<Rightarrow> string \<Rightarrow> string" where
  "update_unit_service_identity unit_content user grp home =
     join_with NL (identity_lines user grp home False
       \<lparr> has_user = False, has_group = False, has_workdir = False, has_home_env = False,
         has_xdg_env = False \<rparr> (str_lines unit_content)) @ [NL]"

section \<open>What the parser reads\<close>

text \<open>
  The directives of a unit in order, each with the section it stands in, and whether every
  directive stands in a section.
\<close>

fun directives :: "string \<Rightarrow> string list \<Rightarrow> (string \<times> string \<times> string) list" where
  "directives cur [] = []"
| "directives cur (line # rest) =
     (let trimmed = trim_str line in
      if is_skipped trimmed then directives cur rest
      else if is_header trimmed then directives (trim_str (butlast (tl trimmed))) rest
      else case split_once (CHR ''='') trimmed of
        Some (k, v) \<Rightarrow> (cur, trim_str k, trim_str v) # directives cur rest
      | None \<Rightarrow> directives cur rest)"

fun sectioned :: "string \<Rightarrow> string list \<Rightarrow> bool" where
  "sectioned cur [] = True"
| "sectioned cur (line # rest) =
     (let trimmed = trim_str line in
      if is_skipped trimmed then sectioned cur rest
      else if is_header trimmed then sectioned (trim_str (butlast (tl trimmed))) rest
      else cur \<noteq> [] \<and> sectioned cur rest)"

definition values_of :: "string \<Rightarrow> string \<Rightarrow> (string \<times> string \<times> string) list \<Rightarrow> string list" where
  "values_of name key ds = map (snd \<circ> snd) (filter (\<lambda>(n, k, _). n = name \<and> k = key) ds)"

lemma values_of_simps [simp]:
  "values_of name key [] = []"
  "values_of name key ((n, k, v) # ds) =
     (if n = name \<and> k = key then v # values_of name key ds else values_of name key ds)"
  "values_of name key (ds @ ds') = values_of name key ds @ values_of name key ds'"
  by (simp_all add: values_of_def)

lemma map_of_section_push:
  "map_of (section_push name kvs u) n =
     (if n = name then Some ((case map_of u name of None \<Rightarrow> [] | Some es \<Rightarrow> es) @ kvs) else map_of u n)"
  by (induction name kvs u rule: section_push.induct) auto

lemma get_all_values_push [simp]:
  "get_all_values (section_push name kvs u) n key =
     get_all_values u n key @ (if n = name then map snd (filter (\<lambda>(k, _). k = key) kvs) else [])"
  by (simp add: get_all_values_def map_of_section_push split: option.splits)

lemma get_value_hd:
  "get_value u n key = (case get_all_values u n key of [] \<Rightarrow> None | v # _ \<Rightarrow> Some v)"
proof (cases "map_of u n")
  case None
  then show ?thesis by (simp add: get_value_def get_all_values_def)
next
  case (Some es)
  have "map_option snd (find (\<lambda>(k, _). k = key) es) =
      (case map snd (filter (\<lambda>(k, _). k = key) es) of [] \<Rightarrow> None | v # _ \<Rightarrow> Some v)"
    by (induction es) (auto split: list.splits)
  with Some show ?thesis by (simp add: get_value_def get_all_values_def)
qed

lemma parse_unit_lines_ok: "is_ok (parse_unit_lines u cur ls) \<longleftrightarrow> sectioned cur ls"
  by (induction u cur ls rule: parse_unit_lines.induct)
    (auto simp: Let_def is_ok_def split: option.splits)

lemma parse_unit_lines_values:
  "parse_unit_lines u cur ls = Inr u' \<Longrightarrow>
     get_all_values u' n key = get_all_values u n key @ values_of n key (directives cur ls)"
  by (induction u cur ls rule: parse_unit_lines.induct)
    (auto simp: Let_def split: option.splits if_splits)

lemma parse_unit_values:
  "parse_unit s = Inr u \<Longrightarrow>
     get_all_values u n key = values_of n key (directives [] (str_lines s))"
  unfolding parse_unit_def by (drule parse_unit_lines_values) (simp add: get_all_values_def)

lemma parse_unit_ok: "is_ok (parse_unit s) \<longleftrightarrow> sectioned [] (str_lines s)"
  by (simp add: parse_unit_def parse_unit_lines_ok)

lemma directives_free:
  "(n, k, v) \<in> set (directives cur ls) \<Longrightarrow> \<forall>l \<in> set ls. c \<notin> set l \<Longrightarrow> c \<notin> set v"
proof (induction ls arbitrary: cur)
  case (Cons line rest)
  have free: "c \<notin> set (trim_str v')" if "split_once (CHR ''='') (trim_str line) = Some (k', v')" for k' v'
  proof -
    have "set v' \<subseteq> set (trim_str line)" using that by (auto simp: split_once_Some)
    then show ?thesis using Cons.prems(2) set_trim_str [of line] set_trim_str [of v'] by auto
  qed
  from Cons show ?case by (auto simp: Let_def dest: free split: if_splits option.splits)
qed simp

lemma parsed_value_free: "parse_unit s = Inr u \<Longrightarrow> v \<in> set (get_all_values u n key) \<Longrightarrow> NL \<notin> set v"
  using directives_free [where c = NL] str_lines_free
  by (auto simp: parse_unit_values values_of_def)

lemma assert_eq_prop_Inr [simp]:
  "assert_eq_prop u nm n k e = Inr x \<longleftrightarrow> get_value u n k = Some e"
  by (auto simp: assert_eq_prop_def split: option.splits)

lemma join_with_mem: "x \<in> set xs \<Longrightarrow> set x \<subseteq> set (join_with c xs)"
  by (induction c xs rule: join_with.induct) auto

section \<open>Rendered units\<close>

lemma render_unit_Inr:
  "render_unit template ctx = Inr r \<Longrightarrow> r = substitute ctx template \<and> placeholders r = []"
  by (auto simp: render_unit_def Let_def split: option.splits list.splits)

lemma api_policy_Inr:
  "validate_api_unit_policy u ctx = Inr x \<longleftrightarrow>
     \<not> has_coupling u ''web'' \<and> uc_api_user ctx \<noteq> ''root''
     \<and> list_all (\<lambda>(n, k, e). get_value u n k = Some e)
        [(''Service'', ''Type'', ''exec''), (''Service'', ''User'', uc_api_user ctx),
         (''Service'', ''Group'', uc_api_group ctx),
         (''Service'', ''StateDirectory'', ''dam-hopper''),
         (''Service'', ''RuntimeDirectory'', ''dam-hopper''),
         (''Service'', ''WorkingDirectory'', uc_api_home ctx),
         (''Service'', ''Restart'', ''on-failure''), (''Service'', ''KillSignal'', ''SIGTERM''),
         (''Service'', ''KillMode'', ''mixed''), (''Service'', ''TimeoutStopSec'', ''20s''),
         (''Service'', ''UMask'', ''0077''), (''Service'', ''NoNewPrivileges'', ''false''),
         (''Service'', ''SyslogIdentifier'', ''dam-hopper-api''),
         (''Service'', ''ExecStart'', api_exec_start ctx),
         (''Install'', ''WantedBy'', ''multi-user.target'')]
     \<and> list_all (\<lambda>req. req \<in> set (get_all_values u ''Service'' ''Environment''))
        (api_required_envs ctx)
     \<and> ''DAM_HOPPER_CORS_ORIGINS='' @ join_comma (uc_api_origins ctx)
        \<in> set (get_all_values u ''Service'' ''Environment'')"
  by (auto simp: validate_api_unit_policy_def Let_def and_then_Inr_iff)

text \<open>
  A rendered API unit is the one the operator asked for. The text that
  \<open>render_api_unit\<close> returns parses, leaves no placeholder, has no dependency on the web unit,
  runs the server binary of the release as the requested user, never as root; and no allowed
  origin smuggled a line break into the unit, since then its environment entry would not be
  there as one value.
\<close>

lemma render_api_unit_policy:
  assumes "render_api_unit template ctx = Inr r"
  shows "uc_api_user ctx \<noteq> ''root'' \<and> placeholders r = []
    \<and> list_all (\<lambda>origin. NL \<notin> set origin) (uc_api_origins ctx)
    \<and> (\<exists>u. parse_unit r = Inr u \<and> \<not> has_coupling u ''web''
        \<and> get_value u ''Service'' ''User'' = Some (uc_api_user ctx)
        \<and> get_value u ''Service'' ''ExecStart'' = Some (uc_release_root ctx @
            ''/bin/dam-hopper-server --config '' @ uc_api_home ctx @
            ''/.config/dam-hopper/dam-hopper.toml --host 0.0.0.0 --port 4801''))"
proof -
  from assms obtain u where r: "render_unit template ctx = Inr r" and u: "parse_unit r = Inr u"
    and pol: "validate_api_unit_policy u ctx = Inr ()"
    by (auto simp: render_api_unit_def and_then_Inr_iff)
  let ?env = "''DAM_HOPPER_CORS_ORIGINS='' @ join_comma (uc_api_origins ctx)"
  have "?env \<in> set (get_all_values u ''Service'' ''Environment'')"
    using pol by (simp only: api_policy_Inr)
  then have "NL \<notin> set ?env" by (rule parsed_value_free [OF u])
  then have "list_all (\<lambda>origin. NL \<notin> set origin) (uc_api_origins ctx)"
    using join_with_mem by (fastforce simp: list_all_iff)
  with pol u render_unit_Inr [OF r] show ?thesis
    by (auto simp: api_policy_Inr api_exec_start_def)
qed

section \<open>The identity of an updated unit\<close>

declare directives.simps(2) [simp del] sectioned.simps(2) [simp del] identity_lines.simps(2) [simp del]

lemmas unit_line_simps = directives.simps(2) sectioned.simps(2) identity_lines.simps(2) Let_def

text \<open>
  A unit in canonical form: no carriage return, no white space around a line, around a
  section name or before an equals sign. The templates under \<open>deploy/systemd\<close> have it.
\<close>

definition canonical_line :: "string \<Rightarrow> bool" where
  "canonical_line l \<longleftrightarrow> trim_str l = l \<and>
     (is_header l \<longrightarrow> trim_str (butlast (tl l)) = butlast (tl l)) \<and>
     (case split_once (CHR ''='') l of None \<Rightarrow> True | Some (k, v) \<Rightarrow> trim_str k = k)"

definition canonical_unit :: "string \<Rightarrow> bool" where
  "canonical_unit s \<longleftrightarrow> CR \<notin> set s \<and> list_all canonical_line (str_lines s)"

text \<open>A value that can stand in a directive unchanged: graphic ASCII, not empty.\<close>

definition plain :: "string \<Rightarrow> bool" where
  "plain v \<longleftrightarrow> v \<noteq> [] \<and> list_all graphic v"

lemma plain_edges: "plain v \<Longrightarrow> v \<noteq> [] \<and> graphic (hd v) \<and> graphic (last v)"
  by (simp add: plain_def list_all_iff)

lemma graphic_not_break: "\<not> graphic NL" "\<not> graphic CR"
  by (simp_all add: graphic_def NL_def CR_def)

definition identity_keys :: "string set" where
  "identity_keys = {''User'', ''Group'', ''WorkingDirectory'', ''Environment''}"

lemma header_service: "is_header l \<Longrightarrow> butlast (tl l) = ''Service'' \<Longrightarrow> l = ''[Service]''"
proof -
  assume h: "is_header l" and m: "butlast (tl l) = ''Service''"
  obtain t where t: "l = CHR ''['' # t" using h by (auto simp: is_header_def starts_with_iff)
  obtain s where s: "l = s @ '']''" using h by (auto simp: is_header_def ends_with_iff)
  have "t \<noteq> []" using m t by auto
  then have "last t = CHR '']''" using s t by (metis last.simps last_snoc)
  then have "t = ''Service'' @ '']''" using \<open>t \<noteq> []\<close> m t by (metis append_butlast_last_id list.sel(3))
  with t show ?thesis by simp
qed

lemma service_header: "is_header ''[Service]''" "\<not> is_skipped ''[Service]''"
  by (simp_all add: is_header_def is_skipped_def starts_with_def ends_with_def)

lemma graphic_trim [simp]: "graphic c \<Longrightarrow> plain v \<Longrightarrow> trim_str (c # s @ v) = c # s @ v"
  using plain_edges [of v] by (intro trim_str_id) simp

text \<open>A directive line that the update writes.\<close>

definition directive_line :: "string \<Rightarrow> string \<Rightarrow> string" where
  "directive_line k v = k @ CHR ''='' # v"

definition good_key :: "string \<Rightarrow> bool" where
  "good_key k \<longleftrightarrow> k \<noteq> [] \<and> list_all is_ascii_alphabetic k"

lemma alphabetic_graphic: "is_ascii_alphabetic c \<Longrightarrow> graphic c"
  by (auto simp: graphic_def ascii_class_defs)

lemma directive_line_read:
  assumes "good_key k" "plain v"
  shows "trim_str (directive_line k v) = directive_line k v"
    "\<not> is_skipped (directive_line k v)" "\<not> is_header (directive_line k v)"
    "split_once (CHR ''='') (directive_line k v) = Some (k, v)"
    "trim_str k = k" "trim_str v = v"
proof -
  obtain c cs where k: "k = c # cs" "is_ascii_alphabetic c" "list_all is_ascii_alphabetic cs"
    using assms(1) by (cases k) (auto simp: good_key_def)
  have v: "v \<noteq> []" "graphic (hd v)" "graphic (last v)" using plain_edges [OF assms(2)] by auto
  have "graphic c" using k(2) by (rule alphabetic_graphic)
  then show "trim_str (directive_line k v) = directive_line k v"
    using v k by (intro trim_str_id) (simp add: directive_line_def)
  show "\<not> is_skipped (directive_line k v)" "\<not> is_header (directive_line k v)"
    using k by (auto simp: directive_line_def is_skipped_def is_header_def starts_with_iff
        ascii_class_defs)
  have "CHR ''='' \<notin> set k"
    using assms(1) by (auto simp: good_key_def list_all_iff ascii_class_defs)
  then show "split_once (CHR ''='') (directive_line k v) = Some (k, v)"
    by (simp add: directive_line_def)
  have "graphic (last k)"
    using assms(1) by (intro alphabetic_graphic) (simp add: good_key_def list_all_iff)
  then show "trim_str k = k" using k \<open>graphic c\<close> by (intro trim_str_id) simp
  show "trim_str v = v" using v by (intro trim_str_id) simp
qed

lemma directives_directive_line:
  "good_key k \<Longrightarrow> plain v \<Longrightarrow>
     directives cur (directive_line k v # ls) = (cur, k, v) # directives cur ls"
  by (simp add: unit_line_simps directive_line_read)

lemma sectioned_directive_line:
  "good_key k \<Longrightarrow> plain v \<Longrightarrow>
     sectioned cur (directive_line k v # ls) \<longleftrightarrow> cur \<noteq> [] \<and> sectioned cur ls"
  by (simp add: unit_line_simps directive_line_read)

text \<open>The five directives of an identity, and the lines of the update in terms of them.\<close>

lemma identity_good_keys:
  "good_key ''User''" "good_key ''Group''" "good_key ''WorkingDirectory''" "good_key ''Environment''"
  by (simp_all add: good_key_def ascii_class_defs)

definition missing_pairs ::
  "identity_flags \<Rightarrow> string \<Rightarrow> string \<Rightarrow> string \<Rightarrow> (string \<times> string) list" where
  "missing_pairs f user grp home =
     (if has_user f then [] else [(''User'', user)]) @
     (if has_group f then [] else [(''Group'', grp)]) @
     (if has_workdir f then [] else [(''WorkingDirectory'', home)]) @
     (if has_home_env f then [] else [(''Environment'', ''HOME='' @ home)]) @
     (if has_xdg_env f then [] else [(''Environment'', ''XDG_CONFIG_HOME='' @ home @ ''/.config'')])"

lemma missing_identity_lines:
  "missing_identity f user grp home =
     map (\<lambda>(k, v). directive_line k v) (missing_pairs f user grp home)"
  by (simp add: missing_identity_def missing_pairs_def directive_line_def)

lemma plain_env: "plain home \<Longrightarrow> plain (''HOME='' @ home)"
  "plain home \<Longrightarrow> plain (''XDG_CONFIG_HOME='' @ home @ ''/.config'')"
  by (simp_all add: plain_def graphic_def)

lemma missing_pairs_good:
  "plain user \<Longrightarrow> plain grp \<Longrightarrow> plain home \<Longrightarrow> (k, v) \<in> set (missing_pairs f user grp home) \<Longrightarrow>
     good_key k \<and> plain v"
  using plain_env [of home] by (auto simp: missing_pairs_def identity_good_keys split: if_splits)

lemma missing_pairs_keys:
  "(k, v) \<in> set (missing_pairs f user grp home) \<Longrightarrow>
     k \<in> identity_keys \<and> (k = ''User'' \<longrightarrow> v = user) \<and> (k = ''Group'' \<longrightarrow> v = grp)
     \<and> (k = ''WorkingDirectory'' \<longrightarrow> v = home)"
  by (auto simp: missing_pairs_def identity_keys_def split: if_splits)

lemma directives_written:
  "\<forall>(k, v) \<in> set ps. good_key k \<and> plain v \<Longrightarrow>
     directives cur (map (\<lambda>(k, v). directive_line k v) ps @ ls) = map (Pair cur) ps @ directives cur ls"
  by (induction ps) (auto simp: directives_directive_line)

lemma sectioned_written:
  "\<forall>(k, v) \<in> set ps. good_key k \<and> plain v \<Longrightarrow> cur \<noteq> [] \<Longrightarrow>
     sectioned cur (map (\<lambda>(k, v). directive_line k v) ps @ ls) \<longleftrightarrow> sectioned cur ls"
  by (induction ps) (auto simp: sectioned_directive_line)

lemma prefix_read:
  assumes "good_key k" "starts_with (k @ ''='') l"
  shows "\<exists>v. split_once (CHR ''='') l = Some (k, v)" "\<not> is_skipped l"
proof -
  from assms(2) obtain v where l: "l = k @ CHR ''='' # v" by (auto simp: starts_with_iff)
  have "CHR ''='' \<notin> set k"
    using assms(1) by (auto simp: good_key_def list_all_iff ascii_class_defs)
  with l show "\<exists>v. split_once (CHR ''='') l = Some (k, v)" by simp
  show "\<not> is_skipped l"
    using assms(1) l by (cases k) (auto simp: is_skipped_def starts_with_iff good_key_def
        ascii_class_defs)
qed

lemma read_prefix: "split_once (CHR ''='') l = Some (k, v) \<Longrightarrow> starts_with (k @ ''='') l"
  by (auto simp: split_once_Some starts_with_iff)

lemma starts_with_shorter: "starts_with (p @ q) l \<Longrightarrow> starts_with p l"
  by (auto simp: starts_with_iff)

definition rewritten ::
  "string \<Rightarrow> string \<Rightarrow> string \<Rightarrow> identity_flags \<Rightarrow> string \<Rightarrow> identity_flags \<Rightarrow> string \<Rightarrow> string \<Rightarrow> bool" where
  "rewritten user grp home f l f' k v \<longleftrightarrow>
     identity_line user grp home f l = (f', directive_line k v) \<and> good_key k \<and> plain v
     \<and> k \<in> identity_keys \<and> (\<exists>v0. split_once (CHR ''='') l = Some (k, v0)) \<and> \<not> is_skipped l
     \<and> (k = ''User'' \<longrightarrow> v = user) \<and> (k = ''Group'' \<longrightarrow> v = grp)
     \<and> (k = ''WorkingDirectory'' \<longrightarrow> v = home)
     \<and> (has_user f' \<longrightarrow> has_user f \<or> k = ''User'') \<and> (has_group f' \<longrightarrow> has_group f \<or> k = ''Group'')
     \<and> (has_workdir f' \<longrightarrow> has_workdir f \<or> k = ''WorkingDirectory'')"

lemma identity_line_step:
  assumes can: "canonical_line l" and pl: "plain user" "plain grp" "plain home"
  shows "(\<exists>f' k v. rewritten user grp home f l f' k v) \<or>
    (identity_line user grp home f l = (f, l)
     \<and> (\<forall>k v. split_once (CHR ''='') l = Some (k, v) \<longrightarrow> k \<notin> {''User'', ''Group'', ''WorkingDirectory''}))"
proof -
  have tr: "trim_str l = l" using can by (simp add: canonical_line_def)
  have read: "(\<exists>v. split_once (CHR ''='') l = Some (k, v)) \<and> \<not> is_skipped l"
    if "good_key k" "starts_with (k @ ''='' @ p) l" for k p
    using prefix_read [OF that(1)] starts_with_shorter [of "k @ ''=''" p l] that(2) by auto
  let ?r = "rewritten user grp home f l"
  note defs = rewritten_def identity_line_def Let_def tr directive_line_def identity_good_keys
    identity_keys_def plain_env pl
  consider "starts_with ''User='' l" | "\<not> starts_with ''User='' l" "starts_with ''Group='' l"
    | "\<not> starts_with ''User='' l" "\<not> starts_with ''Group='' l" "starts_with ''WorkingDirectory='' l"
    | "\<not> starts_with ''User='' l" "\<not> starts_with ''Group='' l"
      "\<not> starts_with ''WorkingDirectory='' l" "starts_with ''Environment=HOME='' l"
    | "\<not> starts_with ''User='' l" "\<not> starts_with ''Group='' l"
      "\<not> starts_with ''WorkingDirectory='' l" "\<not> starts_with ''Environment=HOME='' l"
      "starts_with ''Environment=XDG_CONFIG_HOME='' l"
    | (none) "\<not> starts_with ''User='' l" "\<not> starts_with ''Group='' l"
      "\<not> starts_with ''WorkingDirectory='' l" "\<not> starts_with ''Environment=HOME='' l"
      "\<not> starts_with ''Environment=XDG_CONFIG_HOME='' l" by blast
  then show ?thesis
  proof cases
    case 1
    then have "?r (f\<lparr>has_user := True\<rparr>) ''User'' user"
      using read [of "''User''" "[]"] by (simp add: defs)
    then show ?thesis by blast
  next
    case 2
    then have "?r (f\<lparr>has_group := True\<rparr>) ''Group'' grp"
      using read [of "''Group''" "[]"] by (simp add: defs)
    then show ?thesis by blast
  next
    case 3
    then have "?r (f\<lparr>has_workdir := True\<rparr>) ''WorkingDirectory'' home"
      using read [of "''WorkingDirectory''" "[]"] by (simp add: defs)
    then show ?thesis by blast
  next
    case 4
    then have "?r (f\<lparr>has_home_env := True\<rparr>) ''Environment'' (''HOME='' @ home)"
      using read [of "''Environment''" "''HOME=''"] plain_env pl by (simp add: defs)
    then show ?thesis by blast
  next
    case 5
    then have "?r (f\<lparr>has_xdg_env := True\<rparr>) ''Environment'' (''XDG_CONFIG_HOME='' @ home @ ''/.config'')"
      using read [of "''Environment''" "''XDG_CONFIG_HOME=''"] plain_env pl by (simp add: defs)
    then show ?thesis by blast
  next
    case none
    then have "identity_line user grp home f l = (f, l)"
      by (simp add: identity_line_def tr)
    moreover have "k \<notin> {''User'', ''Group'', ''WorkingDirectory''}"
      if "split_once (CHR ''='') l = Some (k, v)" for k v
      using read_prefix [OF that] none by auto
    ultimately show ?thesis by blast
  qed
qed

lemma header_not_skipped: "is_header l \<Longrightarrow> \<not> is_skipped l"
  by (auto simp: is_header_def is_skipped_def starts_with_iff ends_with_iff)

lemma identity_induct [consumes 4, case_names nil service header rewritten same outside]:
  assumes can: "list_all canonical_line ls" and pl: "plain user" "plain grp" "plain home"
    and nil: "\<And>cur f. P cur f []"
    and service: "\<And>cur f rest. P ''Service'' f rest \<Longrightarrow> P cur f (''[Service]'' # rest)"
    and header: "\<And>cur f l rest. \<lbrakk>is_header l; l \<noteq> ''[Service]''; trim_str l = l;
       trim_str (butlast (tl l)) = butlast (tl l); butlast (tl l) \<noteq> ''Service'';
       P (butlast (tl l)) f rest\<rbrakk> \<Longrightarrow> P cur f (l # rest)"
    and rewritten: "\<And>f l f' k v rest. \<lbrakk>rewritten user grp home f l f' k v; \<not> is_header l; canonical_line l;
       P ''Service'' f' rest\<rbrakk> \<Longrightarrow> P ''Service'' f (l # rest)"
    and same: "\<And>f l rest. \<lbrakk>identity_line user grp home f l = (f, l); \<not> is_header l; canonical_line l;
       \<forall>k v. split_once (CHR ''='') l = Some (k, v) \<longrightarrow> k \<notin> {''User'', ''Group'', ''WorkingDirectory''};
       P ''Service'' f rest\<rbrakk> \<Longrightarrow> P ''Service'' f (l # rest)"
    and outside: "\<And>cur f l rest. \<lbrakk>cur \<noteq> ''Service''; \<not> is_header l; canonical_line l; P cur f rest\<rbrakk>
       \<Longrightarrow> P cur f (l # rest)"
  shows "P cur f ls"
  using can
proof (induction ls arbitrary: cur f)
  case Nil
  show ?case by (rule nil)
next
  case (Cons l rest)
  then have l: "canonical_line l" and IH: "\<And>cur f. P cur f rest" by auto
  consider "l = ''[Service]''" | "is_header l" "l \<noteq> ''[Service]''"
    | "\<not> is_header l" "cur = ''Service''" | "\<not> is_header l" "cur \<noteq> ''Service''" by blast
  then show ?case
  proof cases
    case 1
    then show ?thesis using service [OF IH] by simp
  next
    case 2
    then have "butlast (tl l) \<noteq> ''Service''" using header_service by blast
    with 2 l show ?thesis by (intro header IH) (auto simp: canonical_line_def)
  next
    case 3
    with identity_line_step [OF l pl, of f] show ?thesis
      using rewritten [OF _ 3(1) l IH] same [OF _ 3(1) l _ IH] by blast
  next
    case 4
    then show ?thesis by (intro outside l IH)
  qed
qed

text \<open>The loop of the update and the reading of its result, one line at a time.\<close>

abbreviation updated :: "string \<Rightarrow> string \<Rightarrow> string \<Rightarrow> string \<Rightarrow> identity_flags \<Rightarrow> string list \<Rightarrow> string list" where
  "updated user grp home cur f ls \<equiv> identity_lines user grp home (cur = ''Service'') f ls"

lemma trim_service: "trim_str ''[Service]'' = ''[Service]''" "trim_str ''Service'' = ''Service''"
  by (rule trim_str_id; simp add: graphic_def)+

lemma updated_simps:
  shows "is_header l \<Longrightarrow> l \<noteq> ''[Service]'' \<Longrightarrow> trim_str l = l \<Longrightarrow>
      identity_lines user grp home b f (l # rest) =
        (if b then missing_identity f user grp home else [])
        @ l # identity_lines user grp home False f rest"
    and "rewritten user grp home f l f' k v \<Longrightarrow> \<not> is_header l \<Longrightarrow> canonical_line l \<Longrightarrow>
      identity_lines user grp home True f (l # rest) =
        directive_line k v # identity_lines user grp home True f' rest"
    and "identity_line user grp home f l = (f, l) \<Longrightarrow> \<not> is_header l \<Longrightarrow> canonical_line l \<Longrightarrow>
      identity_lines user grp home True f (l # rest) = l # identity_lines user grp home True f rest"
    and "\<not> is_header l \<Longrightarrow> canonical_line l \<Longrightarrow>
      identity_lines user grp home False f (l # rest) = l # identity_lines user grp home False f rest"
    and "identity_lines user grp home b f (''[Service]'' # rest) =
      ''[Service]'' # identity_lines user grp home True f rest"
  using service_header(1)
  by (auto simp: unit_line_simps canonical_line_def rewritten_def trim_service)

definition line_directives :: "string \<Rightarrow> string \<Rightarrow> (string \<times> string \<times> string) list" where
  "line_directives cur l =
     (if is_skipped l then []
      else case split_once (CHR ''='') l of None \<Rightarrow> [] | Some (k, v) \<Rightarrow> [(cur, k, trim_str v)])"

lemma read_line:
  "\<not> is_header l \<Longrightarrow> canonical_line l \<Longrightarrow>
     directives cur (l # ls) = line_directives cur l @ directives cur ls"
  "\<not> is_header l \<Longrightarrow> canonical_line l \<Longrightarrow>
     sectioned cur (l # ls) \<longleftrightarrow> (is_skipped l \<or> cur \<noteq> []) \<and> sectioned cur ls"
  by (auto simp: line_directives_def canonical_line_def unit_line_simps split: option.splits)

lemma read_header:
  "is_header l \<Longrightarrow> trim_str l = l \<Longrightarrow> trim_str (butlast (tl l)) = butlast (tl l) \<Longrightarrow>
     directives cur (l # ls) = directives (butlast (tl l)) ls"
  "is_header l \<Longrightarrow> trim_str l = l \<Longrightarrow> trim_str (butlast (tl l)) = butlast (tl l) \<Longrightarrow>
     sectioned cur (l # ls) = sectioned (butlast (tl l)) ls"
  by (simp_all add: unit_line_simps header_not_skipped)

lemma read_service:
  "directives cur (''[Service]'' # ls) = directives ''Service'' ls"
  "sectioned cur (''[Service]'' # ls) = sectioned ''Service'' ls"
  using service_header by (simp_all add: unit_line_simps trim_service)

lemma missing_read:
  assumes "plain user" "plain grp" "plain home"
  shows "directives ''Service'' (missing_identity f user grp home @ ls) =
      map (Pair ''Service'') (missing_pairs f user grp home) @ directives ''Service'' ls"
    and "sectioned ''Service'' (missing_identity f user grp home @ ls) \<longleftrightarrow> sectioned ''Service'' ls"
proof -
  have good: "\<forall>(k, v) \<in> set (missing_pairs f user grp home). good_key k \<and> plain v"
    using missing_pairs_good [OF assms] by blast
  show "directives ''Service'' (missing_identity f user grp home @ ls) =
      map (Pair ''Service'') (missing_pairs f user grp home) @ directives ''Service'' ls"
    unfolding missing_identity_lines by (rule directives_written [OF good])
  show "sectioned ''Service'' (missing_identity f user grp home @ ls) \<longleftrightarrow> sectioned ''Service'' ls"
    unfolding missing_identity_lines by (rule sectioned_written [OF good]) simp
qed

lemmas missing_read_end = missing_read [where ls = "[]", simplified]

lemma rewritten_read:
  "rewritten user grp home f l f' k v \<Longrightarrow>
     directives cur (directive_line k v # ls) = (cur, k, v) # directives cur ls"
  "rewritten user grp home f l f' k v \<Longrightarrow>
     sectioned cur (directive_line k v # ls) \<longleftrightarrow> cur \<noteq> [] \<and> sectioned cur ls"
  by (simp_all add: directives_directive_line sectioned_directive_line rewritten_def)

lemmas unit_reads = read_line read_header read_service missing_read missing_read_end rewritten_read

lemma updated_sectioned:
  assumes "list_all canonical_line ls" "plain user" "plain grp" "plain home"
  shows "sectioned cur ls \<Longrightarrow> sectioned cur (updated user grp home cur f ls)"
  using assms
  by (induction cur f ls rule: identity_induct)
    (auto simp: updated_simps unit_reads assms)

text \<open>The directives outside the identity are those of the original unit, in order.\<close>

definition untouched :: "string \<times> string \<times> string \<Rightarrow> bool" where
  "untouched d \<longleftrightarrow> (case d of (n, k, _) \<Rightarrow> n \<noteq> ''Service'' \<or> k \<notin> identity_keys)"

lemma missing_touched: "filter untouched (map (Pair ''Service'') (missing_pairs f user grp home)) = []"
  unfolding filter_empty_conv
proof
  fix d assume "d \<in> set (map (Pair ''Service'') (missing_pairs f user grp home))"
  then obtain k v where d: "d = (''Service'', k, v)" "(k, v) \<in> set (missing_pairs f user grp home)"
    by auto
  from missing_pairs_keys [OF d(2)] have "k \<in> identity_keys" by blast
  with d(1) show "\<not> untouched d" by (simp add: untouched_def)
qed

lemma rewritten_touched:
  assumes "rewritten user grp home f l f' k v"
  shows "\<not> untouched (''Service'', k, v)" "filter untouched (line_directives ''Service'' l) = []"
proof -
  have k: "k \<in> identity_keys" using assms by (simp add: rewritten_def)
  then show "\<not> untouched (''Service'', k, v)" by (simp add: untouched_def)
  from assms obtain v0 where "split_once (CHR ''='') l = Some (k, v0)" "\<not> is_skipped l"
    unfolding rewritten_def by blast
  with k show "filter untouched (line_directives ''Service'' l) = []"
    by (simp add: line_directives_def untouched_def)
qed

lemma updated_untouched:
  assumes "list_all canonical_line ls" "plain user" "plain grp" "plain home"
  shows "filter untouched (directives cur (updated user grp home cur f ls)) =
    filter untouched (directives cur ls)"
  using assms
  by (induction cur f ls rule: identity_induct)
    (auto simp: updated_simps unit_reads assms missing_touched rewritten_touched)

text \<open>Every identity directive of the service section has the requested value.\<close>

definition identity_set :: "string \<Rightarrow> string \<Rightarrow> string \<Rightarrow> string \<times> string \<times> string \<Rightarrow> bool" where
  "identity_set user grp home d \<longleftrightarrow> (case d of (n, k, v) \<Rightarrow> n = ''Service'' \<longrightarrow>
     (k = ''User'' \<longrightarrow> v = user) \<and> (k = ''Group'' \<longrightarrow> v = grp) \<and> (k = ''WorkingDirectory'' \<longrightarrow> v = home))"

lemma identity_set_missing:
  "list_all (identity_set user grp home) (map (Pair ''Service'') (missing_pairs f user grp home))"
  using missing_pairs_keys by (fastforce simp: list_all_iff identity_set_def)

lemma identity_set_rewritten:
  "rewritten user grp home f l f' k v \<Longrightarrow> identity_set user grp home (n, k, v)"
  by (auto simp: rewritten_def identity_set_def)

lemma identity_set_same:
  "\<forall>k v. split_once (CHR ''='') l = Some (k, v) \<longrightarrow> k \<notin> {''User'', ''Group'', ''WorkingDirectory''} \<Longrightarrow>
     list_all (identity_set user grp home) (line_directives ''Service'' l)"
  by (auto simp: line_directives_def identity_set_def split: option.splits)

lemma identity_set_outside:
  "cur \<noteq> ''Service'' \<Longrightarrow> list_all (identity_set user grp home) (line_directives cur l)"
  by (auto simp: line_directives_def identity_set_def split: option.splits)

lemma updated_identity_set:
  assumes "list_all canonical_line ls" "plain user" "plain grp" "plain home"
  shows "list_all (identity_set user grp home) (directives cur (updated user grp home cur f ls))"
  using assms
  by (induction cur f ls rule: identity_induct)
    (auto simp: updated_simps unit_reads assms identity_set_missing identity_set_rewritten
      identity_set_same identity_set_outside)

text \<open>And it is there, once the unit has a service section.\<close>

definition identity_due ::
  "string \<Rightarrow> string \<Rightarrow> string \<Rightarrow> identity_flags \<Rightarrow> (string \<times> string \<times> string) set \<Rightarrow> bool" where
  "identity_due user grp home f ds \<longleftrightarrow>
     (has_user f \<or> (''Service'', ''User'', user) \<in> ds)
     \<and> (has_group f \<or> (''Service'', ''Group'', grp) \<in> ds)
     \<and> (has_workdir f \<or> (''Service'', ''WorkingDirectory'', home) \<in> ds)"

lemma identity_due_missing:
  "identity_due user grp home f (Pair ''Service'' ` set (missing_pairs f user grp home) \<union> ds)"
  by (auto simp: identity_due_def missing_pairs_def)

lemma identity_due_mono: "identity_due user grp home f ds \<Longrightarrow> ds \<subseteq> ds' \<Longrightarrow> identity_due user grp home f ds'"
  by (auto simp: identity_due_def)

lemma identity_due_rewritten:
  "rewritten user grp home f l f' k v \<Longrightarrow> identity_due user grp home f' ds \<Longrightarrow>
     identity_due user grp home f (insert (''Service'', k, v) ds)"
  by (auto simp: rewritten_def identity_due_def)

lemma updated_identity_due:
  assumes "list_all canonical_line ls" "plain user" "plain grp" "plain home"
  shows "cur = ''Service'' \<or> ''[Service]'' \<in> set ls \<Longrightarrow>
    identity_due user grp home f (set (directives cur (updated user grp home cur f ls)))"
  using assms
proof (induction cur f ls rule: identity_induct)
  case (nil cur f)
  then show ?case using identity_due_missing [where ds = "{}"] by (simp add: unit_reads assms)
next
  case (service cur f rest)
  then show ?case by (simp add: updated_simps unit_reads)
next
  case (header cur f l rest)
  then show ?case
    using identity_due_missing by (cases "cur = ''Service''") (auto simp: updated_simps unit_reads assms)
next
  case (rewritten f l f' k v rest)
  then show ?case
    using identity_due_rewritten [OF rewritten(1)] by (simp add: updated_simps unit_reads)
next
  case (same f l rest)
  then show ?case using identity_due_mono by (fastforce simp: updated_simps unit_reads)
next
  case (outside cur f l rest)
  then have "l \<noteq> ''[Service]''" using service_header by auto
  with outside show ?case using identity_due_mono by (fastforce simp: updated_simps unit_reads)
qed

definition break_free :: "string \<Rightarrow> bool" where
  "break_free l \<longleftrightarrow> NL \<notin> set l \<and> CR \<notin> set l"

lemma written_break_free:
  assumes "good_key k" "plain v"
  shows "break_free (directive_line k v)"
proof -
  have "graphic c" if "c \<in> set k \<or> c \<in> set v" for c
    using that assms alphabetic_graphic by (auto simp: good_key_def plain_def list_all_iff)
  moreover have "\<not> graphic NL" "\<not> graphic CR" by (rule graphic_not_break)+
  ultimately show ?thesis by (auto simp: break_free_def directive_line_def NL_def CR_def)
qed

lemma missing_break_free:
  assumes "plain user" "plain grp" "plain home"
  shows "list_all break_free (missing_identity f user grp home)"
  unfolding missing_identity_lines list_all_iff
  using missing_pairs_good [OF assms] written_break_free by (auto simp: list_all_iff)

lemma updated_break_free:
  assumes "list_all canonical_line ls" "plain user" "plain grp" "plain home"
  shows "list_all break_free ls \<Longrightarrow> list_all break_free (updated user grp home cur f ls)"
  using assms
proof (induction cur f ls rule: identity_induct)
  case (rewritten f l f' k v rest)
  then have "break_free (directive_line k v)"
    by (intro written_break_free) (auto simp: rewritten_def)
  with rewritten show ?case by (simp add: updated_simps)
qed (auto simp: updated_simps missing_break_free assms)

lemma identity_lines_nonempty: "ls \<noteq> [] \<Longrightarrow> identity_lines user grp home b f ls \<noteq> []"
  by (cases ls) (auto simp: unit_line_simps split: prod.splits)

lemma values_of_untouched:
  "untouched (n, k, v) \<Longrightarrow> values_of n k (filter untouched ds) = values_of n k ds"
  by (induction ds) (auto simp: untouched_def split: if_splits)

abbreviation no_flags :: identity_flags where
  "no_flags \<equiv> \<lparr> has_user = False, has_group = False, has_workdir = False, has_home_env = False,
     has_xdg_env = False \<rparr>"

lemma update_lines:
  assumes "canonical_unit s" "str_lines s \<noteq> []" "plain user" "plain grp" "plain home"
  shows "str_lines (update_unit_service_identity s user grp home) =
    updated user grp home [] no_flags (str_lines s)"
proof -
  have can: "list_all canonical_line (str_lines s)" and "CR \<notin> set s"
    using assms(1) by (simp_all add: canonical_unit_def)
  then have "list_all break_free (str_lines s)"
    using str_lines_free set_str_lines by (fastforce simp: list_all_iff break_free_def)
  then have "list_all break_free (updated user grp home [] no_flags (str_lines s))"
    by (rule updated_break_free [OF can assms(3-5)])
  then have "str_lines (join_with NL (updated user grp home [] no_flags (str_lines s)) @ [NL]) =
      updated user grp home [] no_flags (str_lines s)"
    using identity_lines_nonempty [OF assms(2)]
    by (intro str_lines_join) (auto simp: list_all_iff break_free_def)
  then show ?thesis by (simp add: update_unit_service_identity_def)
qed

lemma values_of_identity:
  assumes "list_all (identity_set user grp home) ds" "identity_due user grp home no_flags (set ds)"
  shows "set (values_of ''Service'' ''User'' ds) = {user}"
    "set (values_of ''Service'' ''Group'' ds) = {grp}"
    "set (values_of ''Service'' ''WorkingDirectory'' ds) = {home}"
  using assms by (fastforce simp: values_of_def list_all_iff identity_set_def identity_due_def image_iff)+

lemma get_value_singleton: "set (get_all_values u n k) = {v} \<Longrightarrow> get_value u n k = Some v"
  by (cases "get_all_values u n k") (auto simp: get_value_hd)

text \<open>
  Changing the identity of a unit changes its identity and nothing else. For a unit in
  canonical form that parses and has a service section, the rewritten text parses again; in
  the service section every user, group and working directory directive has the requested
  value and there is one of each, whether or not the unit had it before; every other
  directive, in every section, is the one the unit had.
\<close>

lemma identity_update_effective:
  assumes "canonical_unit s" "''[Service]'' \<in> set (str_lines s)" "parse_unit s = Inr u"
    and "plain user" "plain grp" "plain home"
  shows "\<exists>u'. parse_unit (update_unit_service_identity s user grp home) = Inr u'
    \<and> set (get_all_values u' ''Service'' ''User'') = {user}
    \<and> set (get_all_values u' ''Service'' ''Group'') = {grp}
    \<and> set (get_all_values u' ''Service'' ''WorkingDirectory'') = {home}
    \<and> get_value u' ''Service'' ''User'' = Some user
    \<and> (\<forall>n k. n \<noteq> ''Service'' \<or> k \<notin> identity_keys \<longrightarrow> get_all_values u' n k = get_all_values u n k)"
proof -
  let ?s = "update_unit_service_identity s user grp home"
  let ?ds = "directives [] (updated user grp home [] no_flags (str_lines s))"
  have can: "list_all canonical_line (str_lines s)" using assms(1) by (simp add: canonical_unit_def)
  have ls: "str_lines ?s = updated user grp home [] no_flags (str_lines s)"
    using assms(2) by (intro update_lines assms) auto
  have "sectioned [] (str_lines s)" using parse_unit_ok [of s] assms(3) by (simp add: is_ok_def)
  then have "is_ok (parse_unit ?s)"
    unfolding parse_unit_ok ls by (rule updated_sectioned [OF can assms(4-6)])
  then obtain u' where u': "parse_unit ?s = Inr u'" by (auto simp: is_ok_iff)
  have vals: "get_all_values u' n k = values_of n k ?ds" for n k
    using parse_unit_values [OF u'] ls by simp
  have ids: "set (get_all_values u' ''Service'' ''User'') = {user}"
      "set (get_all_values u' ''Service'' ''Group'') = {grp}"
      "set (get_all_values u' ''Service'' ''WorkingDirectory'') = {home}"
    unfolding vals
    by (rule values_of_identity [OF updated_identity_set [OF can assms(4-6)]
        updated_identity_due [OF can assms(4-6) disjI2 [OF assms(2)]]])+
  have "get_all_values u' n k = get_all_values u n k" if "n \<noteq> ''Service'' \<or> k \<notin> identity_keys" for n k
  proof -
    have "untouched (n, k, [])" using that by (simp add: untouched_def)
    then show ?thesis
      unfolding vals parse_unit_values [OF assms(3)]
      using values_of_untouched updated_untouched [OF can assms(4-6)] by metis
  qed
  with u' ids get_value_singleton [OF ids(1)] show ?thesis by blast
qed

definition demo_unit :: string where
  "demo_unit = join_with NL
     [''[Unit]'', ''After=network-online.target'', '''', ''[Service]'', ''Type=exec'', ''User=root'',
      ''ExecStart=/opt/server'', ''[Install]'', ''WantedBy=multi-user.target''] @ [NL]"

lemma demo_unit_lines:
  "str_lines demo_unit =
     [''[Unit]'', ''After=network-online.target'', '''', ''[Service]'', ''Type=exec'', ''User=root'',
      ''ExecStart=/opt/server'', ''[Install]'', ''WantedBy=multi-user.target'']"
  unfolding demo_unit_def by (rule str_lines_join) (simp_all add: NL_def CR_def)

lemma demo_unit_canonical: "canonical_unit demo_unit"
  unfolding canonical_unit_def demo_unit_lines
  by (simp add: demo_unit_def NL_def CR_def canonical_line_def trim_str_id graphic_def is_header_def
      starts_with_def ends_with_def)

lemma demo_unit_parses: "\<exists>u. parse_unit demo_unit = Inr u"
proof -
  have "is_ok (parse_unit demo_unit)"
    unfolding parse_unit_ok demo_unit_lines
    by (simp add: unit_line_simps trim_str_id graphic_def is_header_def is_skipped_def
        starts_with_def ends_with_def)
  then show ?thesis by (simp add: is_ok_iff)
qed

lemma replace_str_absent: "CHR ''@'' \<notin> set s \<Longrightarrow> replace_str (CHR ''@'' # from) to s = s"
proof (induction s)
  case (Cons c s)
  then show ?case by (subst replace_str.simps) (auto simp: starts_with_iff)
qed (simp add: replace_str.simps)

lemma render_unit_plain:
  assumes "CHR ''@'' \<notin> set template"
  shows "render_unit template ctx = Inr template"
proof -
  have "at_tokens l = []" if "l \<in> set (str_lines template)" for l
  proof -
    have "set l \<subseteq> set template" using that by (rule set_str_lines)
    then have "split_once (CHR ''@'') l = None" using assms by (auto simp: split_once_None)
    then show ?thesis by (subst at_tokens.simps) simp
  qed
  then have "placeholders template = []" by (simp add: placeholders_def filter_empty_conv)
  moreover have "substitute ctx template = template"
    by (simp add: substitute_def replace_str_absent assms)
  ultimately show ?thesis by (simp add: render_unit_def)
qed

definition demo_api_lines :: "string list" where
  "demo_api_lines =
     [''[Service]'', ''Type=exec'', ''User=hopper'', ''Group=users'', ''StateDirectory=dam-hopper'',
      ''RuntimeDirectory=dam-hopper'', ''WorkingDirectory=/h'', ''Environment=HOME=/h'',
      ''Environment=XDG_CONFIG_HOME=/h/.config'', ''Environment=RUST_LOG=info'',
      ''Environment=RUST_ENV=production'', ''Environment=DAM_HOPPER_CORS_ORIGINS=http://a'',
      ''ExecStart=/r/bin/dam-hopper-server --config /h/.config/dam-hopper/dam-hopper.toml --host 0.0.0.0 --port 4801'',
      ''Restart=on-failure'', ''KillSignal=SIGTERM'', ''KillMode=mixed'', ''TimeoutStopSec=20s'',
      ''UMask=0077'', ''NoNewPrivileges=false'', ''SyslogIdentifier=dam-hopper-api'',
      ''[Install]'', ''WantedBy=multi-user.target'']"

definition demo_api_unit :: string where
  "demo_api_unit = join_with NL demo_api_lines @ [NL]"

definition demo_context :: unit_render_context where
  "demo_context = \<lparr> uc_release_root = ''/r'', uc_release_version = ''1.2.3'',
     uc_public_config = ''/c'', uc_api_origins = [''http://a''], uc_api_user = ''hopper'',
     uc_api_group = ''users'', uc_api_home = ''/h'' \<rparr>"

lemma demo_api_unit_lines: "str_lines demo_api_unit = demo_api_lines"
  unfolding demo_api_unit_def
  by (rule str_lines_join) (simp_all add: demo_api_lines_def NL_def CR_def)

lemma demo_api_unit_renders: "render_api_unit demo_api_unit demo_context = Inr demo_api_unit"
proof -
  have r: "render_unit demo_api_unit demo_context = Inr demo_api_unit"
    by (rule render_unit_plain) (simp add: demo_api_unit_def demo_api_lines_def NL_def)
  have "\<exists>u. parse_unit demo_api_unit = Inr u \<and> \<not> has_coupling u ''web''"
    unfolding parse_unit_def demo_api_unit_lines demo_api_lines_def
    by (simp add: trim_str_id graphic_def is_header_def is_skipped_def starts_with_def
        ends_with_def has_coupling_def coupling_keys_def)
  then obtain u where u: "parse_unit demo_api_unit = Inr u" "\<not> has_coupling u ''web''" by blast
  have "validate_api_unit_policy u demo_context = Inr ()"
    unfolding api_policy_Inr get_value_hd parse_unit_values [OF u(1)] demo_api_unit_lines
    using u(2)
    by (simp add: demo_api_lines_def demo_context_def unit_line_simps trim_str_id graphic_def
        is_header_def is_skipped_def starts_with_def ends_with_def api_exec_start_def
        api_required_envs_def)
  then show ?thesis using r u by (simp add: render_api_unit_def)
qed

end
