(* ===== verification/Release_Host.thy ===== *)
theory Release_Host
  imports Release_Probe Release_Unit "HOL-Library.AList"
begin

text \<open>
  The machine the release manager works on: files, the durable write operations of
  \<open>linux_release/durable_fs.rs\<close>, the paths of \<open>layout.rs\<close>, the unit file operations of
  \<open>systemd_backup.rs\<close>, the service commands of \<open>systemd.rs\<close> and the load, save and backup of
  the state envelope in \<open>state.rs\<close>.

  A command is a function from the host to a result and the host it leaves. The calls that
  leave the process (system calls, child processes) are numbered by \<open>hs_ticks\<close>; whether the
  n-th of them fails, what the clock says and what a query answers is up to the environment
  \<open>env\<close>, so a statement about every environment covers every failure at every place, and a
  crash is the environment in which every call from some point on fails. The \<open>ManagerState\<close>
  value of the running command is \<open>hs_mem\<close>; it is mutated through a reference, so it keeps
  its changes when the call that made them fails.
\<close>

section \<open>Host, environment and commands\<close>

datatype file_node =
    RegularFile string u32
  | Directory u32
  | Symlink string

text \<open>
  The state file is represented by its size and by what the JSON decoder makes of it.
\<close>

datatype state_file =
    StateMissing
  | StateNotRegular
  | StateFile nat "string + manager_state"

record host =
  hs_files :: "(string \<times> file_node) list"
  hs_state :: state_file
  hs_mem :: manager_state
  hs_enabled :: "string list"
  hs_log :: "(string \<times> string) list"
  hs_slept :: nat
  hs_ticks :: nat

record host_config =
  hc_role :: target_role
  hc_allowed_web_origins :: "string list"
  hc_service_user :: "string option"

record host_public_config =
  hpc_schema_version :: u32
  hpc_role :: target_role
  hpc_release_version :: string
  hpc_profile_id :: string
  hpc_api_url :: "string option"
  hpc_allowed_web_origins :: "string list"

text \<open>
  The environment: the outcome of the n-th call, the clock, what the machine answers, and the
  encoders, decoders and account lookups the code gets from its libraries. \<open>en_account\<close> gives the
  user id, the name of the primary group if it has one, and the home of an account;
  \<open>en_uuid_parse\<close> whether a string is a UUID and whether its version is random.
\<close>

record env =
  en_fault :: "nat \<Rightarrow> string option"
  en_flag :: "nat \<Rightarrow> bool"
  en_now :: "nat \<Rightarrow> string"
  en_uuid :: "nat \<Rightarrow> string"
  en_clock :: "nat \<Rightarrow> nat"
  en_observe :: "nat \<Rightarrow> string \<Rightarrow> service_observation"
  en_health_json :: "bytes \<Rightarrow> string + health_payload"
  en_semver :: semver_parser
  en_json_size :: "manager_state \<Rightarrow> nat"
  en_euid :: u32
  en_error_text :: "release_error \<Rightarrow> string"
  en_sha256 :: "string \<Rightarrow> string"
  en_toml_parse :: "string \<Rightarrow> string + host_config"
  en_toml_render :: "host_config \<Rightarrow> string"
  en_user :: "nat \<Rightarrow> string"
  en_group :: "nat \<Rightarrow> string"
  en_home :: "nat \<Rightarrow> string"
  en_ids :: "nat \<Rightarrow> u32 \<times> u32"
  en_manifest_json :: "bytes \<Rightarrow> string + release_manifest"
  en_public_json :: "string \<Rightarrow> string + host_public_config"
  en_public_render :: "host_public_config \<Rightarrow> string"
  en_uuid_parse :: "string \<Rightarrow> bool option"
  en_account :: "string \<Rightarrow> (u32 \<times> string option \<times> string) option"
  en_sudo_user :: "string option"

type_synonym 'a command = "host \<Rightarrow> (release_error + 'a) \<times> host"

definition retE :: "'a \<Rightarrow> 'a command" where
  "retE x h = (Inr x, h)"

definition failE :: "release_error \<Rightarrow> 'a command" where
  "failE e h = (Inl e, h)"

definition bindE :: "'a command \<Rightarrow> ('a \<Rightarrow> 'b command) \<Rightarrow> 'b command" where
  "bindE m f h = (case m h of (Inl e, h') \<Rightarrow> (Inl e, h') | (Inr x, h') \<Rightarrow> f x h')"

text \<open>\<open>attempt\<close> is a call whose result is looked at, or dropped with \<open>let _ =\<close>.\<close>

definition attempt :: "'a command \<Rightarrow> (release_error + 'a) command" where
  "attempt m h = (case m h of (r, h') \<Rightarrow> (Inr r, h'))"

definition liftE :: "release_error + 'a \<Rightarrow> 'a command" where
  "liftE r h = (r, h)"

definition gets :: "(host \<Rightarrow> 'a) \<Rightarrow> 'a command" where
  "gets f h = (Inr (f h), h)"

definition modify :: "(host \<Rightarrow> host) \<Rightarrow> unit command" where
  "modify f h = (Inr (), f h)"

definition whenE :: "bool \<Rightarrow> unit command \<Rightarrow> unit command" where
  "whenE b m = (if b then m else retE ())"

fun stepsE :: "unit command list \<Rightarrow> unit command" where
  "stepsE [] = retE ()"
| "stepsE (m # ms) = bindE m (\<lambda>_. stepsE ms)"

text \<open>One numbered call: it fails without an effect, or it has its effect.\<close>

definition syscall :: "env \<Rightarrow> (string \<Rightarrow> release_error) \<Rightarrow> 'a command \<Rightarrow> 'a command" where
  "syscall env err body h =
     (let h' = h\<lparr>hs_ticks := Suc (hs_ticks h)\<rparr> in
      case en_fault env (hs_ticks h) of
        Some details \<Rightarrow> (Inl (err details), h')
      | None \<Rightarrow> body h')"

definition io :: "string \<Rightarrow> string \<Rightarrow> release_error" where
  "io action details = DeployError (Io action details)"

definition cfg :: "string \<Rightarrow> release_error" where
  "cfg msg = DeployError (Config msg)"

definition not_regular :: "string \<Rightarrow> string \<Rightarrow> string \<Rightarrow> release_error" where
  "not_regular path expected got = DeployError (OwnershipViolation path expected got)"

definition timestamp :: "env \<Rightarrow> string command" where
  "timestamp env h = (Inr (en_now env (hs_ticks h)), h\<lparr>hs_ticks := Suc (hs_ticks h)\<rparr>)"

text \<open>
  The monotonic clock, in milliseconds: what the environment let pass, and the time the
  command has slept.
\<close>

definition read_clock :: "env \<Rightarrow> nat command" where
  "read_clock env h =
     (Inr (en_clock env (hs_ticks h) + hs_slept h), h\<lparr>hs_ticks := Suc (hs_ticks h)\<rparr>)"

definition sleep_ms :: "nat \<Rightarrow> unit command" where
  "sleep_ms d = modify (\<lambda>h. h\<lparr>hs_slept := hs_slept h + d\<rparr>)"

section \<open>Layout\<close>

definition path_join :: "string \<Rightarrow> string \<Rightarrow> string" where
  "path_join base p =
     (if starts_with ''/'' p then p
      else if base = [] \<or> ends_with ''/'' base then base @ p
      else base @ ''/'' @ p)"

definition path_parent :: "string \<Rightarrow> string" where
  "path_parent p = (case rsplit_once (CHR ''/'') p of Some (dir, _) \<Rightarrow> dir | None \<Rightarrow> [])"

record layout =
  ly_opt_dir :: string
  ly_etc_dir :: string
  ly_var_lib_dir :: string
  ly_run_lock_dir :: string
  ly_systemd_unit_dir :: string

definition layout_new :: layout where
  "layout_new = \<lparr> ly_opt_dir = ''/opt/dam-hopper'', ly_etc_dir = ''/etc/dam-hopper'',
     ly_var_lib_dir = ''/var/lib/dam-hopper-manager'', ly_run_lock_dir = ''/run/lock/dam-hopper'',
     ly_systemd_unit_dir = ''/etc/systemd/system'' \<rparr>"

definition staging_dir :: "layout \<Rightarrow> string" where
  "staging_dir ly = path_join (ly_opt_dir ly) ''.staging''"

definition transaction_staging_dir :: "layout \<Rightarrow> string \<Rightarrow> string" where
  "transaction_staging_dir ly tx_id = path_join (staging_dir ly) tx_id"

definition releases_dir :: "layout \<Rightarrow> string" where
  "releases_dir ly = path_join (ly_opt_dir ly) ''releases''"

definition release_role_dir :: "layout \<Rightarrow> string \<Rightarrow> string \<Rightarrow> string" where
  "release_role_dir ly tag role = path_join (path_join (releases_dir ly) tag) role"

definition current_link :: "layout \<Rightarrow> string" where
  "current_link ly = path_join (ly_opt_dir ly) ''current''"

definition host_config_path :: "layout \<Rightarrow> string" where
  "host_config_path ly = path_join (ly_etc_dir ly) ''host.toml''"

definition host_config_json_path :: "layout \<Rightarrow> string" where
  "host_config_json_path ly = path_join (ly_etc_dir ly) ''host-config.json''"

definition sysusers_conf_path :: "layout \<Rightarrow> string" where
  "sysusers_conf_path ly = path_join (path_join (ly_etc_dir ly) ''sysusers.d'') ''dam-hopper-web.conf''"

definition manager_state_path :: "layout \<Rightarrow> string" where
  "manager_state_path ly = path_join (ly_var_lib_dir ly) ''state.json''"

definition deploy_lock_path :: "layout \<Rightarrow> string" where
  "deploy_lock_path ly = path_join (ly_run_lock_dir ly) ''deploy.lock''"

definition backups_root :: "layout \<Rightarrow> string \<Rightarrow> string" where
  "backups_root ly tx_id = path_join (path_join (ly_var_lib_dir ly) ''backups'') tx_id"

section \<open>Files\<close>

definition get_file :: "string \<Rightarrow> host \<Rightarrow> file_node option" where
  "get_file p h = map_of (hs_files h) p"

definition put_file :: "string \<Rightarrow> file_node \<Rightarrow> host \<Rightarrow> host" where
  "put_file p n h = h\<lparr>hs_files := AList.update p n (hs_files h)\<rparr>"

definition delete_file :: "string \<Rightarrow> host \<Rightarrow> host" where
  "delete_file p h = h\<lparr>hs_files := AList.delete p (hs_files h)\<rparr>"

definition is_dir :: "file_node \<Rightarrow> bool" where
  "is_dir n = (case n of Directory _ \<Rightarrow> True | _ \<Rightarrow> False)"

definition is_regular :: "file_node \<Rightarrow> bool" where
  "is_regular n = (case n of RegularFile _ _ \<Rightarrow> True | _ \<Rightarrow> False)"

text \<open>\<open>fs::symlink_metadata\<close>; \<open>None\<close> is the error kind \<open>NotFound\<close>.\<close>

definition symlink_metadata :: "env \<Rightarrow> string \<Rightarrow> string \<Rightarrow> file_node option command" where
  "symlink_metadata env action p = syscall env (io action) (gets (get_file p))"

definition remove_file :: "env \<Rightarrow> string \<Rightarrow> string \<Rightarrow> unit command" where
  "remove_file env action p = syscall env (io action) (modify (delete_file p))"

text \<open>The names in a directory, in the order of the file table.\<close>

definition child_name :: "string \<Rightarrow> string \<Rightarrow> string option" where
  "child_name dir p =
     (case strip_prefix_str (dir @ ''/'') p of
        Some name \<Rightarrow> if name \<noteq> [] \<and> CHR ''/'' \<notin> set name then Some name else None
      | None \<Rightarrow> None)"

definition dir_entries :: "string \<Rightarrow> host \<Rightarrow> (string \<times> file_node) list" where
  "dir_entries dir h =
     concat (map (\<lambda>(p, n). case child_name dir p of Some name \<Rightarrow> [(name, n)] | None \<Rightarrow> [])
       (hs_files h))"

definition read_dir :: "env \<Rightarrow> string \<Rightarrow> string \<Rightarrow> (string \<times> file_node) list command" where
  "read_dir env action dir = syscall env (io action) (gets (dir_entries dir))"

text \<open>\<open>fs::create_dir_all\<close>: the missing directories of the path, outermost first.\<close>

definition path_prefixes :: "string \<Rightarrow> string list" where
  "path_prefixes p =
     map (\<lambda>n. join_with (CHR ''/'') (take n (split_on (CHR ''/'') p)))
       [2 ..< length (split_on (CHR ''/'') p) + 1]"

definition make_dirs :: "string \<Rightarrow> host \<Rightarrow> host" where
  "make_dirs p h =
     foldl (\<lambda>h d. if get_file d h = None then put_file d (Directory 0x1ED) h else h) h
       (path_prefixes p)"

definition create_dir_all :: "env \<Rightarrow> string \<Rightarrow> string \<Rightarrow> unit command" where
  "create_dir_all env action p = syscall env (io action) (\<lambda>h.
     if list_ex (\<lambda>d. case get_file d h of Some (RegularFile _ _) \<Rightarrow> True | _ \<Rightarrow> False) (path_prefixes p)
     then (Inl (io action ''not a directory''), h)
     else (Inr (), make_dirs p h))"

definition chmod :: "u32 \<Rightarrow> file_node \<Rightarrow> file_node" where
  "chmod m n = (case n of RegularFile c _ \<Rightarrow> RegularFile c m | Directory _ \<Rightarrow> Directory m
                | Symlink t \<Rightarrow> Symlink t)"

definition set_permissions :: "env \<Rightarrow> string \<Rightarrow> string \<Rightarrow> u32 \<Rightarrow> unit command" where
  "set_permissions env action p m = syscall env (io action) (\<lambda>h.
     case get_file p h of
       Some n \<Rightarrow> (Inr (), put_file p (chmod m n) h)
     | None \<Rightarrow> (Inl (io action ''not found''), h))"

section \<open>Durable writes\<close>

definition sync_dir :: "env \<Rightarrow> string \<Rightarrow> unit command" where
  "sync_dir env dir =
     bindE (symlink_metadata env ''inspect directory for sync'' dir) (\<lambda>node.
       case node of
         None \<Rightarrow> retE ()
       | Some n \<Rightarrow>
           if is_dir n then stepsE
             [syscall env (io ''open directory for sync'') (retE ()),
              syscall env (io ''fsync directory'') (retE ())]
           else failE (not_regular dir ''regular directory'' ''symbolic link or non-directory''))"

definition ensure_directory :: "env \<Rightarrow> string \<Rightarrow> string \<Rightarrow> unit command" where
  "ensure_directory env path action =
     bindE (symlink_metadata env action path) (\<lambda>node.
       case node of
         Some n \<Rightarrow>
           if is_dir n then retE ()
           else failE (not_regular path ''regular directory'' ''symbolic link or non-directory'')
       | None \<Rightarrow>
           bindE (create_dir_all env action path) (\<lambda>_.
           bindE (attempt (set_permissions env action path 0x1ED)) (\<lambda>_.
           bindE (symlink_metadata env action path) (\<lambda>node'.
             case node' of
               Some n \<Rightarrow>
                 if is_dir n then retE ()
                 else failE (not_regular path ''regular directory''
                        ''symbolic link or non-directory'')
             | None \<Rightarrow> failE (io action ''not found'')))))"

text \<open>
  The steps of \<open>atomic_write_file\<close>. The file changes when the temporary file is renamed over
  it; the call can still fail after that, when the directory is synced. \<open>persisted\<close> is the
  effect of the rename.
\<close>

definition atomic_write :: "env \<Rightarrow> string \<Rightarrow> (host \<Rightarrow> host) \<Rightarrow> unit command" where
  "atomic_write env path persisted = stepsE
     [ensure_directory env (path_parent path) ''create parent directory'',
      syscall env (io ''create tempfile in parent directory'') (retE ()),
      syscall env (io ''set tempfile permissions'') (retE ()),
      syscall env (io ''write data to tempfile'') (retE ()),
      syscall env (io ''fsync tempfile'') (retE ()),
      syscall env (io ''atomic persist tempfile over destination'') (modify persisted),
      sync_dir env (path_parent path)]"

definition atomic_write_file :: "env \<Rightarrow> string \<Rightarrow> string \<Rightarrow> u32 \<Rightarrow> unit command" where
  "atomic_write_file env path content mode =
     atomic_write env path (put_file path (RegularFile content mode))"

definition copy_file_durable :: "env \<Rightarrow> string \<Rightarrow> string \<Rightarrow> u32 \<Rightarrow> unit command" where
  "copy_file_durable env src dst mode =
     bindE (symlink_metadata env ''inspect source file for durable copy'' src) (\<lambda>node.
       case node of
         Some (RegularFile _ _) \<Rightarrow>
           bindE (syscall env (io ''read source file for durable copy'') (gets (get_file src))) (\<lambda>node'.
             case node' of
               Some (RegularFile content _) \<Rightarrow> atomic_write_file env dst content mode
             | _ \<Rightarrow> failE (io ''read source file for durable copy'' ''not found''))
       | Some _ \<Rightarrow> failE (not_regular src ''regular source file''
                            ''symbolic link or non-regular file'')
       | None \<Rightarrow> failE (io ''inspect source file for durable copy'' ''not found''))"

definition atomic_symlink :: "env \<Rightarrow> string \<Rightarrow> string \<Rightarrow> unit command" where
  "atomic_symlink env target link_path = stepsE
     [ensure_directory env (path_parent link_path) ''create parent directory for symlink'',
      syscall env (io ''create temporary symlink'') (retE ()),
      syscall env (io ''rename temporary symlink over target link'')
        (modify (put_file link_path (Symlink target))),
      sync_dir env (path_parent link_path)]"

section \<open>The state envelope on disk\<close>

definition load_or_init_manager_state :: "env \<Rightarrow> layout \<Rightarrow> unit command" where
  "load_or_init_manager_state env ly =
     bindE (syscall env (io ''inspect authoritative state'') (gets hs_state)) (\<lambda>f.
       case f of
         StateMissing \<Rightarrow>
           bindE (timestamp env) (\<lambda>now. modify (\<lambda>h. h\<lparr>hs_mem := manager_state_default now\<rparr>))
       | StateNotRegular \<Rightarrow>
           failE (not_regular (manager_state_path ly) ''regular authoritative state file''
             ''symbolic link or non-regular file'')
       | StateFile len parsed \<Rightarrow>
           bindE (syscall env (io ''open authoritative state with no-follow'') (retE ())) (\<lambda>_.
           bindE (syscall env (io ''read authoritative state'') (retE ())) (\<lambda>_.
             if MAX_STATE_BYTES < len
             then failE (cfg ''authoritative state exceeds maximum size'')
             else case parsed of
               Inl _ \<Rightarrow> failE (cfg ''failed to parse authoritative state file'')
             | Inr s \<Rightarrow>
                 bindE (liftE (validate_manager_state (en_semver env) s)) (\<lambda>_.
                   modify (\<lambda>h. h\<lparr>hs_mem := s\<rparr>)))))"

text \<open>
  The generation and the time stamp change in memory first; the JSON encoder does not fail on
  these records.
\<close>

definition save_manager_state :: "env \<Rightarrow> layout \<Rightarrow> unit command" where
  "save_manager_state env ly =
     bindE (timestamp env) (\<lambda>now.
     bindE (modify (\<lambda>h. h\<lparr>hs_mem := (hs_mem h)
       \<lparr>ms_generation := saturating_add (ms_generation (hs_mem h)) 1, ms_updated_at := now\<rparr>\<rparr>)) (\<lambda>_.
     bindE (gets hs_mem) (\<lambda>s.
     bindE (liftE (validate_manager_state (en_semver env) s)) (\<lambda>_.
     atomic_write env (manager_state_path ly)
       (\<lambda>h. h\<lparr>hs_state := StateFile (en_json_size env s) (Inr s)\<rparr>)))))"

definition update_state :: "(manager_state \<Rightarrow> manager_state) \<Rightarrow> unit command" where
  "update_state f = modify (\<lambda>h. h\<lparr>hs_mem := f (hs_mem h)\<rparr>)"

section \<open>Services\<close>

text \<open>
  A \<open>systemctl\<close> command that exits with success has its effect; one that fails has none.
  Commands are recorded in \<open>hs_log\<close>. Whether a unit is running is up to the environment.
\<close>

definition execute_cmd :: "env \<Rightarrow> string \<Rightarrow> string \<Rightarrow> (host \<Rightarrow> host) \<Rightarrow> unit command" where
  "execute_cmd env verb u effect =
     syscall env (\<lambda>_. DeployError (SystemdCommandFailed (''systemctl '' @ verb)))
       (modify (\<lambda>h. effect (h\<lparr>hs_log := hs_log h @ [(verb, u)]\<rparr>)))"

definition systemctl_daemon_reload :: "env \<Rightarrow> unit command" where
  "systemctl_daemon_reload env = execute_cmd env ''daemon-reload'' '''' id"

definition systemctl_start :: "env \<Rightarrow> string \<Rightarrow> unit command" where
  "systemctl_start env u = execute_cmd env ''start'' u id"

definition systemctl_stop :: "env \<Rightarrow> string \<Rightarrow> unit command" where
  "systemctl_stop env u = execute_cmd env ''stop'' u id"

definition systemctl_enable :: "env \<Rightarrow> string \<Rightarrow> unit command" where
  "systemctl_enable env u = execute_cmd env ''enable'' u
     (\<lambda>h. h\<lparr>hs_enabled := List.insert u (hs_enabled h)\<rparr>)"

text \<open>
  \<open>systemctl_disable\<close> looks at the error output of a failed command: a unit file that does
  not exist counts as disabled, and so does a denied access for a caller that is not root.
\<close>

definition disable_tolerates :: "env \<Rightarrow> string \<Rightarrow> bool" where
  "disable_tolerates env stderr \<longleftrightarrow>
     contains_str ''does not exist'' stderr \<or> contains_str ''not loaded'' stderr
     \<or> contains_str ''No such file'' stderr
     \<or> (contains_str ''Access denied'' stderr \<or> contains_str ''interactive authentication'' stderr)
        \<and> en_euid env \<noteq> 0"

definition systemctl_disable :: "env \<Rightarrow> string \<Rightarrow> unit command" where
  "systemctl_disable env u h =
     (case en_fault env (hs_ticks h) of
        None \<Rightarrow> (Inr (), h\<lparr>hs_ticks := Suc (hs_ticks h), hs_log := hs_log h @ [(''disable'', u)],
                         hs_enabled := removeAll u (hs_enabled h)\<rparr>)
      | Some stderr \<Rightarrow>
          (if disable_tolerates env stderr then Inr ()
           else Inl (DeployError (SystemdCommandFailed ''systemctl disable'')),
           h\<lparr>hs_ticks := Suc (hs_ticks h)\<rparr>))"

definition systemctl_is_enabled :: "env \<Rightarrow> string \<Rightarrow> bool command" where
  "systemctl_is_enabled env u =
     syscall env (io ''execute systemctl is-enabled'') (gets (\<lambda>h. u \<in> set (hs_enabled h)))"

definition systemctl_is_active :: "env \<Rightarrow> string \<Rightarrow> bool command" where
  "systemctl_is_active env u =
     syscall env (io ''execute systemctl is-active'') (gets (\<lambda>h. en_flag env (hs_ticks h)))"

definition disable_if_enabled :: "env \<Rightarrow> string \<Rightarrow> unit command" where
  "disable_if_enabled env u =
     bindE (systemctl_is_enabled env u) (\<lambda>e. whenE e (systemctl_disable env u))"

section \<open>Unit files\<close>

definition backup_unit_file :: "env \<Rightarrow> string \<Rightarrow> string \<Rightarrow> string \<Rightarrow> unit command" where
  "backup_unit_file env systemd_dir backup_dir name =
     (let src = path_join systemd_dir name in
      bindE (symlink_metadata env ''inspect existing systemd unit'' src) (\<lambda>node.
        case node of
          None \<Rightarrow> retE ()
        | Some n \<Rightarrow>
            if is_regular n then copy_file_durable env src (path_join backup_dir name) 0x1A4
            else failE (not_regular src ''regular unit file'' ''symbolic link or non-regular file'')))"

definition private_directory_ok :: "string \<Rightarrow> file_node \<Rightarrow> release_error + unit" where
  "private_directory_ok path n =
     (case n of
        Directory m \<Rightarrow>
          ensure ((m AND 0x1FF) = 0x1C0)
            (not_regular path ''0700 transaction directory'' ''another mode'')
      | _ \<Rightarrow> Inl (not_regular path ''regular transaction directory''
                  ''symbolic link or non-directory''))"

definition ensure_private_directory :: "env \<Rightarrow> string \<Rightarrow> unit command" where
  "ensure_private_directory env path =
     bindE (symlink_metadata env ''inspect transaction directory'' path) (\<lambda>node.
       case node of
         Some n \<Rightarrow> liftE (private_directory_ok path n)
       | None \<Rightarrow> stepsE
           [create_dir_all env ''create transaction directory'' path,
            set_permissions env ''set transaction directory permissions'' path 0x1C0])"

definition backup_unit_files :: "env \<Rightarrow> string list \<Rightarrow> string \<Rightarrow> string \<Rightarrow> unit command" where
  "backup_unit_files env unit_names systemd_dir backup_dir =
     bindE (symlink_metadata env ''inspect unit backup directory'' backup_dir) (\<lambda>node.
     bindE (case node of
              Some n \<Rightarrow> liftE (private_directory_ok backup_dir n)
            | None \<Rightarrow> stepsE
                [create_dir_all env ''create unit backup directory'' backup_dir,
                 set_permissions env ''set unit backup directory permissions'' backup_dir 0x1C0,
                 sync_dir env backup_dir]) (\<lambda>_.
     bindE (stepsE (map (backup_unit_file env systemd_dir backup_dir) unit_names)) (\<lambda>_.
     sync_dir env backup_dir)))"

definition install_unit_file :: "env \<Rightarrow> string \<Rightarrow> string \<Rightarrow> unit command" where
  "install_unit_file env candidate_unit_path systemd_dir =
     (case path_file_name candidate_unit_path of
        None \<Rightarrow> failE (io ''get candidate unit filename'' ''invalid path'')
      | Some file_name \<Rightarrow>
          copy_file_durable env candidate_unit_path (path_join systemd_dir file_name) 0x1A4)"

definition restore_entry ::
  "env \<Rightarrow> string \<Rightarrow> string \<Rightarrow> string \<times> file_node \<Rightarrow> unit command" where
  "restore_entry env backup_dir systemd_dir entry =
     (case entry of (name, n) \<Rightarrow>
        if is_regular n
        then copy_file_durable env (path_join backup_dir name) (path_join systemd_dir name) 0x1A4
        else failE (not_regular (path_join backup_dir name) ''regular backup unit file''
               ''symbolic link or non-regular file''))"

definition restore_unit_files :: "env \<Rightarrow> string \<Rightarrow> string \<Rightarrow> unit command" where
  "restore_unit_files env backup_dir systemd_dir =
     bindE (symlink_metadata env ''inspect unit backup directory'' backup_dir) (\<lambda>node.
       case node of
         None \<Rightarrow> retE ()
       | Some n \<Rightarrow>
           if \<not> is_dir n
           then failE (not_regular backup_dir ''regular backup directory''
                  ''symbolic link or non-directory'')
           else
             bindE (read_dir env ''read unit backup directory'' backup_dir) (\<lambda>entries.
             bindE (stepsE (map (restore_entry env backup_dir systemd_dir) entries)) (\<lambda>_.
             sync_dir env systemd_dir)))"

definition remove_unit_file :: "env \<Rightarrow> string \<Rightarrow> string \<Rightarrow> unit command" where
  "remove_unit_file env unit_name systemd_dir =
     (let path = path_join systemd_dir unit_name in
      bindE (symlink_metadata env ''inspect systemd unit file before removal'' path) (\<lambda>node.
        case node of
          None \<Rightarrow> retE ()
        | Some n \<Rightarrow>
            if is_regular n
            then stepsE [remove_file env ''remove systemd unit file'' path, sync_dir env systemd_dir]
            else failE (not_regular path ''regular systemd unit file''
                   ''symbolic link or non-regular file'')))"

end
