(* ===== verification/Release_Retention.thy ===== *)
theory Release_Retention
  imports Release_Host
begin

text \<open>
  Garbage collection of releases after a commit: \<open>linux_release/retention.rs\<close> and the
  ownership walk of \<open>ownership.rs\<close>.
\<close>

section \<open>Canonical paths\<close>

definition abs_path :: "string list \<Rightarrow> string" where
  "abs_path cs = concat (map (\<lambda>c. CHR ''/'' # c) cs)"

text \<open>
  \<open>fs::canonicalize\<close>: components are resolved from the left, symbolic links are followed, at
  most \<open>n\<close> of them (the kernel's limit is 40).
\<close>

function realpath ::
  "(string \<Rightarrow> file_node option) \<Rightarrow> nat \<Rightarrow> string list \<Rightarrow> string list \<Rightarrow> string list option" where
  "realpath look n acc [] = Some acc"
| "realpath look n acc (c # cs) =
     (if c = [] \<or> c = ''.'' then realpath look n acc cs
      else if c = ''..'' then realpath look n (butlast acc) cs
      else case look (abs_path (acc @ [c])) of
        None \<Rightarrow> None
      | Some (RegularFile _ _) \<Rightarrow> if cs = [] then Some (acc @ [c]) else None
      | Some (Directory _) \<Rightarrow> realpath look n (acc @ [c]) cs
      | Some (Symlink t) \<Rightarrow>
          (case n of
             0 \<Rightarrow> None
           | Suc m \<Rightarrow> realpath look m (if starts_with ''/'' t then [] else acc)
                        (split_on (CHR ''/'') t @ cs)))"
  by pat_completeness auto
termination
  by (relation "measures [\<lambda>(_, n, _, _). n, \<lambda>(_, _, _, cs). length cs]") auto

definition resolve :: "string \<Rightarrow> host \<Rightarrow> string list option" where
  "resolve p h = realpath (\<lambda>q. get_file q h) 40 [] (split_on (CHR ''/'') p)"

definition canonicalize :: "env \<Rightarrow> string \<Rightarrow> string \<Rightarrow> string list command" where
  "canonicalize env action p = syscall env (io action) (\<lambda>h.
     case resolve p h of Some cs \<Rightarrow> (Inr cs, h) | None \<Rightarrow> (Inl (io action ''not found''), h))"

text \<open>\<open>fs::read\<close>, which follows links.\<close>

definition read_file :: "env \<Rightarrow> string \<Rightarrow> string \<Rightarrow> string command" where
  "read_file env action p = syscall env (io action) (\<lambda>h.
     case resolve p h of
       None \<Rightarrow> (Inl (io action ''not found''), h)
     | Some cs \<Rightarrow>
         (case get_file (abs_path cs) h of
            Some (RegularFile content _) \<Rightarrow> (Inr content, h)
          | _ \<Rightarrow> (Inl (io action ''is a directory''), h)))"

definition str_bytes :: "string \<Rightarrow> bytes" where
  "str_bytes s = map (\<lambda>c. of_nat (of_char c)) s"

definition parse_manifest :: "env \<Rightarrow> string \<Rightarrow> release_error + release_manifest" where
  "parse_manifest env content = parse_and_validate (en_semver env) (en_manifest_json env) (str_bytes content)"

section \<open>Deleting trees\<close>

definition below :: "string \<Rightarrow> string \<Rightarrow> bool" where
  "below dir p \<longleftrightarrow> p = dir \<or> starts_with (dir @ ''/'') p"

definition delete_tree :: "string \<Rightarrow> host \<Rightarrow> host" where
  "delete_tree dir h = h\<lparr>hs_files := filter (\<lambda>(p, _). \<not> below dir p) (hs_files h)\<rparr>"

definition remove_dir_all :: "env \<Rightarrow> string \<Rightarrow> string \<Rightarrow> unit command" where
  "remove_dir_all env action dir = syscall env (io action) (\<lambda>h.
     case get_file dir h of
       Some (Directory _) \<Rightarrow> (Inr (), delete_tree dir h)
     | Some (Symlink _) \<Rightarrow> (Inr (), delete_file dir h)
     | Some (RegularFile _ _) \<Rightarrow> (Inl (io action ''not a directory''), h)
     | None \<Rightarrow> (Inl (io action ''not found''), h))"

section \<open>Ownership\<close>

text \<open>
  The mode checks of \<open>verify_path_permissions\<close>; owners are not represented, and the only
  caller in this theory does not require root.
\<close>

definition verify_path_permissions :: "string \<Rightarrow> file_node option \<Rightarrow> u32 \<Rightarrow> release_error + unit" where
  "verify_path_permissions path node expected_mode =
     (case node of
        None \<Rightarrow> Inl (io ''read metadata for permissions check'' ''not found'')
      | Some (Symlink _) \<Rightarrow>
          Inl (not_regular path ''regular file or directory'' ''symbolic link'')
      | Some (RegularFile _ m) \<Rightarrow>
          ensure ((m AND 0x1FF) = expected_mode) (not_regular path ''mode'' ''mode'')
      | Some (Directory m) \<Rightarrow>
          ensure ((m AND 0x1FF) = expected_mode) (not_regular path ''mode'' ''mode''))"

type_synonym file_table = "(string \<times> file_node) list"

definition table_entries :: "file_table \<Rightarrow> string \<Rightarrow> (string \<times> file_node) list" where
  "table_entries files dir =
     concat (map (\<lambda>(p, n). case child_name dir p of Some name \<Rightarrow> [(name, n)] | None \<Rightarrow> []) files)"

definition longest_path :: "file_table \<Rightarrow> nat" where
  "longest_path files = foldr (\<lambda>(p, _) n. max (length p) n) files 0"

lemma longest_path_ge: "(p, n) \<in> set files \<Longrightarrow> length p \<le> longest_path files"
  by (induction files) (auto simp: longest_path_def)

lemma child_name_Some: "child_name dir p = Some name \<Longrightarrow> p = dir @ ''/'' @ name \<and> name \<noteq> []"
  by (auto simp: child_name_def strip_prefix_str_Some split: option.splits if_splits)

lemma table_entries_longer:
  "(name, n) \<in> set (table_entries files dir) \<Longrightarrow> length dir + 1 + length name \<le> longest_path files"
  by (auto simp: table_entries_def split: option.splits
      dest!: child_name_Some [OF sym] longest_path_ge)

fun first_failure :: "('e + unit) list \<Rightarrow> 'e + unit" where
  "first_failure [] = Inr ()"
| "first_failure (Inl e # _) = Inl e"
| "first_failure (Inr _ # rs) = first_failure rs"

text \<open>
  The recursion goes to a longer path of the file table, so it ends.
\<close>

function visit_dir_recursive :: "file_table \<Rightarrow> string \<Rightarrow> release_error + unit" where
  "visit_dir_recursive files dir =
     first_failure (map (\<lambda>(name, n).
       let path = dir @ ''/'' @ name in
       case n of
         Directory _ \<Rightarrow>
           and_then (verify_path_permissions path (Some n) 0x1ED)
             (\<lambda>_. visit_dir_recursive files path)
       | RegularFile _ _ \<Rightarrow>
           verify_path_permissions path (Some n)
             (if path_file_name dir = Some ''bin'' then 0x1ED else 0x1A4)
       | Symlink _ \<Rightarrow>
           Inl (not_regular path ''regular file or directory'' ''special file or link''))
       (table_entries files dir))"
  by pat_completeness auto
termination
  by (relation "measure (\<lambda>(files, dir). Suc (longest_path files) - length dir)")
    (auto dest!: table_entries_longer)

declare visit_dir_recursive.simps [simp del]

definition verify_release_ownership :: "file_table \<Rightarrow> string \<Rightarrow> release_error + unit" where
  "verify_release_ownership files dir =
     (case map_of files dir of
        None \<Rightarrow> Inl (not_regular dir ''directory to exist'' ''path does not exist'')
      | Some n \<Rightarrow>
          if \<not> is_dir n
          then Inl (not_regular dir ''regular release directory'' ''symbolic link or non-directory'')
          else and_then (verify_path_permissions dir (Some n) 0x1ED)
                 (\<lambda>_. visit_dir_recursive files dir))"

section \<open>Integrity of a release to delete\<close>

definition is_file_at :: "string \<Rightarrow> host \<Rightarrow> bool" where
  "is_file_at p h =
     (case resolve p h of
        Some cs \<Rightarrow> (case get_file (abs_path cs) h of Some n \<Rightarrow> is_regular n | None \<Rightarrow> False)
      | None \<Rightarrow> False)"

definition find_manifest :: "string \<Rightarrow> host \<Rightarrow> string option" where
  "find_manifest path h =
     (if resolve (path @ ''/release-manifest.json'') h \<noteq> None
      then Some (path @ ''/release-manifest.json'')
      else find (\<lambda>m. resolve m h \<noteq> None)
             (map (\<lambda>(sub, _). path @ ''/'' @ sub @ ''/release-manifest.json'') (dir_entries path h)))"

definition verify_candidate_integrity ::
  "env \<Rightarrow> string \<Rightarrow> unit command" where
  "verify_candidate_integrity env path =
     (if path_file_name path = Some ''imported-format-2'' then
        bindE (gets (is_file_at (path @ ''/server/bin/dam-hopper-server''))) (\<lambda>bin.
        bindE (gets (is_file_at (path @ ''/server/systemd/dam-hopper.service''))) (\<lambda>unit_file.
          if \<not> bin \<or> \<not> unit_file
          then failE (DeployError (InvalidBundle path
                 ''imported legacy release missing expected server binary or unit''))
          else
            bindE (syscall env (io ''inspect release directory'') (gets hs_files)) (\<lambda>files.
            liftE (verify_release_ownership files path))))
      else
        bindE (gets (find_manifest path)) (\<lambda>found.
          case found of
            None \<Rightarrow> failE (DeployError (InvalidBundle path
                     ''unreferenced release tree missing release-manifest.json''))
          | Some manifest_path \<Rightarrow>
              bindE (read_file env ''read candidate manifest for retention'' manifest_path) (\<lambda>content.
              bindE (liftE (parse_manifest env content)) (\<lambda>_.
              bindE (syscall env (io ''inspect release directory'') (gets hs_files)) (\<lambda>files.
              liftE (verify_release_ownership files path))))))"

section \<open>Retention\<close>

definition referenced_tags :: "manager_state \<Rightarrow> string list" where
  "referenced_tags s =
     (case ms_active s of Some a \<Rightarrow> [rr_tag a] | None \<Rightarrow> [])
     @ (case ms_previous s of Some p \<Rightarrow> [rr_tag p] | None \<Rightarrow> [])
     @ (case ms_pending s of
          Some c \<Rightarrow> [pc_tag c]
        | None \<Rightarrow>
            (case ms_latest_failure s of
               Some f \<Rightarrow> (case fr_target_tag f of Some tag \<Rightarrow> [tag] | None \<Rightarrow> [])
             | None \<Rightarrow> []))
     @ (case ms_transaction s of
          Some tx \<Rightarrow> tr_target_tag tx # (case tr_previous_tag tx of Some p \<Rightarrow> [p] | None \<Rightarrow> [])
        | None \<Rightarrow> [])"

text \<open>What the first pass decides for one entry: keep it, or delete it.\<close>

definition judge_entry ::
  "env \<Rightarrow> string \<Rightarrow> string list \<Rightarrow> string list
    \<Rightarrow> string list option \<Rightarrow> string \<times> file_node \<Rightarrow> bool command" where
  "judge_entry env dir refs canonical_releases canonical_current entry =
     (case entry of (name, n) \<Rightarrow>
        if \<not> is_dir n then retE False
        else if name \<noteq> ''imported-format-2'' \<and> \<not> is_ok (validate_tag_format (en_semver env) name)
        then failE (cfg ''invalid directory name in releases dir'')
        else if name \<in> set refs then retE False
        else
          bindE (canonicalize env ''canonicalize candidate release directory'' (path_join dir name)) (\<lambda>canonical.
          if \<not> prefix canonical_releases canonical
          then failE (cfg ''candidate path escapes releases directory'')
          else if (case canonical_current of Some cur \<Rightarrow> prefix canonical cur | None \<Rightarrow> False)
          then retE False
          else
            bindE (verify_candidate_integrity env (abs_path canonical)) (\<lambda>_.
            retE True)))"

fun gather_candidates ::
  "env \<Rightarrow> string \<Rightarrow> string list \<Rightarrow> string list
    \<Rightarrow> string list option \<Rightarrow> (string \<times> file_node) list \<Rightarrow> string list command" where
  "gather_candidates env dir refs cr cc [] = retE []"
| "gather_candidates env dir refs cr cc (e # es) =
     bindE (judge_entry env dir refs cr cc e) (\<lambda>doomed.
     bindE (gather_candidates env dir refs cr cc es) (\<lambda>paths.
     retE (if doomed then path_join dir (fst e) # paths else paths)))"

definition clean_staging :: "env \<Rightarrow> layout \<Rightarrow> string option \<Rightarrow> unit command" where
  "clean_staging env ly current_tx_id =
     bindE (gets (\<lambda>h. resolve (staging_dir ly) h \<noteq> None)) (\<lambda>e. whenE e
       (bindE (read_dir env ''read staging directory'' (staging_dir ly)) (\<lambda>entries.
          stepsE (map (\<lambda>(name, _). whenE (current_tx_id \<noteq> Some name)
            (remove_dir_all env ''clean staging entry'' (path_join (staging_dir ly) name))) entries))))"

definition apply_retention ::
  "env \<Rightarrow> layout \<Rightarrow> manager_state \<Rightarrow> nat command" where
  "apply_retention env ly s =
     bindE (gets (\<lambda>h. resolve (releases_dir ly) h \<noteq> None)) (\<lambda>e.
     if \<not> e then retE 0
     else
       bindE (canonicalize env ''canonicalize releases directory'' (releases_dir ly)) (\<lambda>canonical_releases.
       bindE (gets (\<lambda>h. resolve (current_link ly) h \<noteq> None)) (\<lambda>has_current.
       bindE (if has_current
              then bindE (canonicalize env ''canonicalize current symlink'' (current_link ly))
                     (\<lambda>c. retE (Some c))
              else retE None) (\<lambda>canonical_current.
       bindE (read_dir env ''read releases directory for retention'' (releases_dir ly)) (\<lambda>entries.
       bindE (gather_candidates env (releases_dir ly) (referenced_tags s)
                canonical_releases canonical_current entries) (\<lambda>candidates_to_delete.
       bindE (stepsE (map (remove_dir_all env ''remove unreferenced release tree'')
                candidates_to_delete)) (\<lambda>_.
       bindE (clean_staging env ly (map_option tr_tx_id (ms_transaction s))) (\<lambda>_.
       retE (length candidates_to_delete)))))))))"

end
