(* ===== verification/Release_Migration.thy ===== *)
theory Release_Migration
  imports Release_Retention
begin

text \<open>
  The directory exchange of a format-2 migration, its rollback and the cleanup after the
  commit: \<open>linux_release/migration.rs\<close> and \<open>atomic_exchange_directories\<close> of \<open>durable_fs.rs\<close>.
\<close>

definition LEGACY_FORMAT2_UNIT :: string where
  "LEGACY_FORMAT2_UNIT = ''dam-hopper.service''"

definition rejected :: "string \<Rightarrow> release_error" where
  "rejected reason = DeployError (LegacyMigrationRejected reason)"

section \<open>Exchanging two directories\<close>

definition exchange_path :: "string \<Rightarrow> string \<Rightarrow> string \<Rightarrow> string" where
  "exchange_path a b p =
     (if below a p then b @ drop (length a) p
      else if below b p then a @ drop (length b) p
      else p)"

definition exchange_trees :: "string \<Rightarrow> string \<Rightarrow> host \<Rightarrow> host" where
  "exchange_trees a b h = h\<lparr>hs_files := map (\<lambda>(p, n). (exchange_path a b p, n)) (hs_files h)\<rparr>"

text \<open>\<open>renameat2\<close> with \<open>RENAME_EXCHANGE\<close>: both paths exist and neither contains the other.\<close>

definition rename_exchange :: "string \<Rightarrow> string \<Rightarrow> unit command" where
  "rename_exchange a b h =
     (let failed = (\<lambda>details. (Inl (DeployError (ExchangeFailed ''renameat2(RENAME_EXCHANGE)'' details)), h)) in
      if get_file a h = None \<or> get_file b h = None then failed ''No such file or directory''
      else if below a b \<or> below b a then failed ''Invalid argument''
      else (Inr (), exchange_trees a b h))"

definition atomic_exchange_directories :: "env \<Rightarrow> string \<Rightarrow> string \<Rightarrow> unit command" where
  "atomic_exchange_directories env path_a path_b = stepsE
     [syscall env (\<lambda>d. DeployError (ExchangeFailed ''renameat2(RENAME_EXCHANGE)'' d))
        (rename_exchange path_a path_b),
      sync_dir env (path_parent path_a),
      sync_dir env (path_parent path_b)]"

definition execute_migration_exchange ::
  "env \<Rightarrow> layout \<Rightarrow> migration_record \<Rightarrow> migration_record command" where
  "execute_migration_exchange env ly mig =
     bindE (set_permissions env ''set migration root permissions to 0755 before exchange''
       (mr_migration_root mig) 0x1ED) (\<lambda>_.
     bindE (atomic_exchange_directories env (ly_opt_dir ly) (mr_migration_root mig)) (\<lambda>_.
     retE (mig\<lparr>mr_exchanged := True\<rparr>)))"

section \<open>Rollback\<close>

text \<open>A file that may be missing but must be regular when it is there.\<close>

definition regular_if_present :: "env \<Rightarrow> string \<Rightarrow> string \<Rightarrow> string \<Rightarrow> bool command" where
  "regular_if_present env action expected path =
     bindE (symlink_metadata env action path) (\<lambda>node.
       case node of
         None \<Rightarrow> retE False
       | Some n \<Rightarrow>
           if is_regular n then retE True
           else failE (not_regular path expected ''symbolic link or non-regular file''))"

definition exchange_back :: "env \<Rightarrow> layout \<Rightarrow> migration_record \<Rightarrow> unit command" where
  "exchange_back env ly mig =
     bindE (attempt (symlink_metadata env ''inspect migration workspace'' (mr_migration_root mig))) (\<lambda>r.
       case r of
         Inr (Some n) \<Rightarrow>
           if is_dir n then atomic_exchange_directories env (ly_opt_dir ly) (mr_migration_root mig)
           else failE (not_regular (mr_migration_root mig) ''regular migration rollback workspace''
                  ''symbolic link or non-directory'')
       | _ \<Rightarrow> failE (rejected ''migration rollback workspace is missing''))"

definition imported_legacy_dir :: "layout \<Rightarrow> string" where
  "imported_legacy_dir ly = path_join (path_join (releases_dir ly) LEGACY_FORMAT2_TAG) ''server''"

definition legacy_unit_backup :: "env \<Rightarrow> layout \<Rightarrow> migration_record \<Rightarrow> string command" where
  "legacy_unit_backup env ly mig =
     (let backup_unit = mr_old_unit_backup_path mig;
          fallback = path_join (path_join (imported_legacy_dir ly) ''systemd'') LEGACY_FORMAT2_UNIT in
      bindE (regular_if_present env ''inspect legacy unit backup'' ''regular legacy unit backup''
        backup_unit) (\<lambda>found.
      if found then retE backup_unit
      else
        bindE (attempt (symlink_metadata env ''inspect legacy unit backup'' fallback)) (\<lambda>r.
          case r of
            Inr (Some n) \<Rightarrow>
              if is_regular n then retE fallback
              else failE (not_regular fallback ''regular legacy unit backup''
                     ''symbolic link or non-regular file'')
          | _ \<Rightarrow> failE (rejected ''legacy unit backup is missing''))))"

text \<open>A link that must point to the legacy unit, created when it is missing.\<close>

definition restore_wants_link :: "env \<Rightarrow> string \<Rightarrow> string \<Rightarrow> unit command" where
  "restore_wants_link env target_unit target_wants =
     bindE (symlink_metadata env ''inspect legacy wants link'' target_wants) (\<lambda>node.
       case node of
         Some (Symlink target) \<Rightarrow>
           bindE (syscall env (io ''read legacy wants link target'') (retE ())) (\<lambda>_.
             if ends_with LEGACY_FORMAT2_UNIT target then retE ()
             else failE (rejected ''legacy wants link does not target the legacy unit''))
       | Some _ \<Rightarrow> failE (rejected ''legacy wants path is not a symbolic link'')
       | None \<Rightarrow> stepsE
           [create_dir_all env ''create legacy wants directory'' (path_parent target_wants),
            syscall env (io ''restore legacy wants link'')
              (modify (put_file target_wants (Symlink target_unit)))])"

definition rollback_migration_exchange :: "env \<Rightarrow> layout \<Rightarrow> migration_record \<Rightarrow> unit command" where
  "rollback_migration_exchange env ly mig =
     bindE (regular_if_present env ''inspect migration marker'' ''regular migration marker''
       (path_join (ly_opt_dir ly) ''.migration-transaction'')) (\<lambda>canonical_has_marker.
     bindE (whenE (mr_exchanged mig \<or> canonical_has_marker) (exchange_back env ly mig)) (\<lambda>_.
     bindE (legacy_unit_backup env ly mig) (\<lambda>source_unit.
     bindE (read_file env ''read legacy unit backup'' source_unit) (\<lambda>content.
     if en_sha256 env content \<noteq> mr_legacy_unit_sha256 mig
     then failE (rejected ''legacy unit backup hash mismatch'')
     else
       let target_unit = path_join (ly_systemd_unit_dir ly) LEGACY_FORMAT2_UNIT in stepsE
         [copy_file_durable env source_unit target_unit 0x1A4,
          restore_wants_link env target_unit (mr_old_wants_link_path mig),
          systemctl_daemon_reload env,
          systemctl_enable env LEGACY_FORMAT2_UNIT,
          systemctl_start env LEGACY_FORMAT2_UNIT]))))"

section \<open>Cleanup after the commit\<close>

definition check_imported_binary :: "env \<Rightarrow> layout \<Rightarrow> migration_record \<Rightarrow> unit command" where
  "check_imported_binary env ly mig =
     (let imported_bin = path_join (path_join (imported_legacy_dir ly) ''bin'') ''dam-hopper-server'' in
      bindE (attempt (symlink_metadata env ''inspect imported binary'' imported_bin)) (\<lambda>r.
        case r of
          Inr (Some n) \<Rightarrow>
            if \<not> is_regular n
            then failE (not_regular imported_bin ''regular imported legacy binary''
                   ''symbolic link or non-regular file'')
            else
              bindE (read_file env ''read imported legacy binary for commit check'' imported_bin) (\<lambda>bytes.
                if en_sha256 env bytes \<noteq> mr_legacy_binary_sha256 mig
                then failE (rejected ''imported binary hash did not match recorded legacy hash at commit'')
                else retE ())
        | _ \<Rightarrow> failE (rejected ''imported legacy binary is missing or inaccessible'')))"

definition remove_old_root :: "env \<Rightarrow> string \<Rightarrow> unit command" where
  "remove_old_root env old_root =
     bindE (symlink_metadata env ''inspect exchanged legacy root'' old_root) (\<lambda>node.
       case node of
         None \<Rightarrow> retE ()
       | Some n \<Rightarrow>
           if is_dir n then stepsE
             [remove_dir_all env ''remove exchanged legacy root after commit verification'' old_root,
              sync_dir env (path_parent old_root)]
           else failE (not_regular old_root ''regular exchanged legacy root''
                  ''symbolic link or non-directory''))"

definition commit_migration_cleanup :: "env \<Rightarrow> layout \<Rightarrow> migration_record \<Rightarrow> unit command" where
  "commit_migration_cleanup env ly mig =
     (let marker_path = path_join (ly_opt_dir ly) ''.migration-transaction'' in
      bindE (check_imported_binary env ly mig) (\<lambda>_.
      bindE (regular_if_present env ''inspect migration transaction marker''
        ''regular migration transaction marker'' marker_path) (\<lambda>present.
      bindE (whenE present (stepsE
        [remove_file env ''remove migration transaction marker'' marker_path,
         sync_dir env (ly_opt_dir ly)])) (\<lambda>_.
      remove_old_root env (mr_migration_root mig)))))"

end
