(* ===== verification/Release_Activation.thy ===== *)
theory Release_Activation
  imports Release_Migration
begin

text \<open>
  Activation, rollback and recovery of releases: the transaction of
  \<open>linux_release/transaction.rs\<close>, the health loop of \<open>health.rs\<close>, the host configuration of
  \<open>host_config.rs\<close>, the pipeline of \<open>activate.rs\<close>, the restoration of \<open>rollback.rs\<close> and the boot
  reconciliation of \<open>recovery.rs\<close>.

  Inspections that change nothing the model represents (preflight validation, account
  lookups, the format-2 inspections, the termination of stray listeners) are \<open>check\<close>: the
  environment decides whether they succeed.
\<close>

section \<open>Small helpers\<close>

definition check :: "env \<Rightarrow> string \<Rightarrow> unit command" where
  "check env what = syscall env (\<lambda>details. cfg (what @ details)) (retE ())"

definition inspection_failed :: "string \<Rightarrow> release_error" where
  "inspection_failed reason = DeployError (ProcessInspectionFailed reason)"

definition err_of :: "release_error + 'a \<Rightarrow> release_error option" where
  "err_of r = (case r of Inl e \<Rightarrow> Some e | Inr _ \<Rightarrow> None)"

definition path_exists :: "env \<Rightarrow> string \<Rightarrow> bool command" where
  "path_exists env p =
     bindE (attempt (symlink_metadata env ''exists'' p)) (\<lambda>r.
       retE (case r of Inr (Some _) \<Rightarrow> True | _ \<Rightarrow> False))"

section \<open>Transactions\<close>

record activation_transaction =
  at_tx_id :: string
  at_tx_dir :: string
  at_units_backup_dir :: string
  at_config_backup_path :: string
  at_public_config_backup_path :: string

definition transaction_paths :: "layout \<Rightarrow> string \<Rightarrow> activation_transaction" where
  "transaction_paths ly tx_id = \<lparr> at_tx_id = tx_id, at_tx_dir = transaction_staging_dir ly tx_id,
     at_units_backup_dir = path_join (backups_root ly tx_id) ''units'',
     at_config_backup_path = path_join (backups_root ly tx_id) ''host.toml'',
     at_public_config_backup_path = path_join (backups_root ly tx_id) ''host-config.json'' \<rparr>"

definition transaction_from_id :: "env \<Rightarrow> layout \<Rightarrow> string \<Rightarrow> activation_transaction command" where
  "transaction_from_id env ly tx_id =
     bindE (ensure_private_directory env (backups_root ly tx_id)) (\<lambda>_.
     bindE (ensure_private_directory env (path_join (backups_root ly tx_id) ''units'')) (\<lambda>_.
     retE (transaction_paths ly tx_id)))"

definition transaction_new :: "env \<Rightarrow> layout \<Rightarrow> activation_transaction command" where
  "transaction_new env ly =
     bindE (gets (\<lambda>h. en_uuid env (hs_ticks h))) (\<lambda>tx_id. transaction_from_id env ly tx_id)"

definition start_transaction ::
  "activation_transaction \<Rightarrow> transaction_phase \<Rightarrow> string \<Rightarrow> manager_state
    \<Rightarrow> pending_candidate_record \<Rightarrow> transaction_record" where
  "start_transaction tx phase now s pending = \<lparr> tr_tx_id = at_tx_id tx, tr_phase = phase,
     tr_started_at = now, tr_target_tag = pc_tag pending, tr_target_role = pc_role pending,
     tr_previous_tag = map_option rr_tag (ms_active s),
     tr_previous_role = map_option rr_role (ms_active s),
     tr_units_backup_dir = Some (at_units_backup_dir tx),
     tr_config_backup_path = Some (at_config_backup_path tx),
     tr_public_config_backup_path = Some (at_public_config_backup_path tx),
     tr_migration = None \<rparr>"

definition record_phase ::
  "env \<Rightarrow> layout \<Rightarrow> activation_transaction \<Rightarrow> deployment_state \<Rightarrow> transaction_phase \<Rightarrow> unit command" where
  "record_phase env ly tx to_state phase =
     bindE (gets hs_mem) (\<lambda>s.
     bindE (liftE (validate_transition (current_deployment_state s) to_state)) (\<lambda>_.
     bindE (case ms_transaction s of
              Some existing \<Rightarrow>
                if tr_tx_id existing \<noteq> at_tx_id tx
                then failE (cfg ''transaction ownership violation'')
                else update_state (\<lambda>s. s\<lparr>ms_transaction := Some (existing\<lparr>tr_phase := phase\<rparr>)\<rparr>)
            | None \<Rightarrow>
                (case ms_pending s of
                   None \<Rightarrow> failE (cfg ''cannot start transaction without pending candidate'')
                 | Some pending \<Rightarrow>
                     bindE (timestamp env) (\<lambda>now.
                       update_state (\<lambda>s. s\<lparr>ms_transaction :=
                         Some (start_transaction tx phase now s pending)\<rparr>)))) (\<lambda>_.
     save_manager_state env ly)))"

definition failure_of ::
  "string \<Rightarrow> string option \<Rightarrow> string option \<Rightarrow> string \<Rightarrow> string \<Rightarrow> failure_record" where
  "failure_of now tx_id tag phase msg = \<lparr> fr_failed_at = now, fr_tx_id = tx_id,
     fr_target_tag = tag, fr_phase = phase, fr_sanitized_error = msg \<rparr>"

definition pending_tag :: "manager_state \<Rightarrow> string option" where
  "pending_tag s = map_option pc_tag (ms_pending s)"

definition record_failure ::
  "env \<Rightarrow> layout \<Rightarrow> activation_transaction \<Rightarrow> string \<Rightarrow> string \<Rightarrow> unit command" where
  "record_failure env ly tx phase error_msg =
     bindE (timestamp env) (\<lambda>now.
     bindE (update_state (\<lambda>s. s\<lparr>ms_latest_failure :=
       Some (failure_of now (Some (at_tx_id tx)) (pending_tag s) phase error_msg)\<rparr>)) (\<lambda>_.
     save_manager_state env ly))"

section \<open>Health stability\<close>

record health_params =
  hp_startup_deadline :: nat
  hp_required_consecutive :: nat
  hp_interval :: nat

text \<open>The defaults, in milliseconds: 20 s to the first success, then 20 probes 500 ms apart.\<close>

definition default_health :: health_params where
  "default_health = \<lparr> hp_startup_deadline = 20000, hp_required_consecutive = 20, hp_interval = 500 \<rparr>"

definition overall_deadline :: "health_params \<Rightarrow> nat" where
  "overall_deadline ps = hp_startup_deadline ps + hp_interval ps * hp_required_consecutive ps"

text \<open>A probe is a numbered call; its verdict on the unit is recorded.\<close>

definition probe_target :: "env \<Rightarrow> health_probe_target \<Rightarrow> probe_outcome command" where
  "probe_target env t h =
     (let outcome = judge_target (en_health_json env) t (en_observe env (hs_ticks h) (ht_unit_name t));
          verdict = (if outcome = Success then ''healthy'' else ''unhealthy'')
      in (Inr outcome, h\<lparr>hs_ticks := Suc (hs_ticks h),
                         hs_log := hs_log h @ [(verdict, ht_unit_name t)]\<rparr>))"

fun probe_round :: "env \<Rightarrow> health_probe_target list \<Rightarrow> bool command" where
  "probe_round env [] = retE True"
| "probe_round env (t # ts) =
     bindE (probe_target env t) (\<lambda>outcome.
       case outcome of
         Success \<Rightarrow> probe_round env ts
       | Transient reason \<Rightarrow> retE False
       | Fatal reason \<Rightarrow> failE (inspection_failed (''fatal health mismatch on '' @ ht_unit_name t)))"

text \<open>
  The loop, with fuel for its iterations; running out of fuel is \<open>None\<close>.
\<close>

fun health_loop ::
  "env \<Rightarrow> health_params \<Rightarrow> health_probe_target list \<Rightarrow> nat \<Rightarrow> nat \<Rightarrow> nat \<Rightarrow> bool
    \<Rightarrow> unit option command" where
  "health_loop env ps targets 0 start consecutive ready = retE None"
| "health_loop env ps targets (Suc fuel) start consecutive ready =
     bindE (read_clock env) (\<lambda>now.
     if overall_deadline ps < now - start
     then failE (inspection_failed ''overall health stability deadline exceeded'')
     else
     bindE (read_clock env) (\<lambda>now'.
     if \<not> ready \<and> hp_startup_deadline ps < now' - start
     then failE (inspection_failed ''startup deadline exceeded before initial readiness'')
     else
     bindE (probe_round env targets) (\<lambda>all_ok.
     if all_ok \<and> hp_required_consecutive ps \<le> Suc consecutive then retE (Some ())
     else
       bindE (sleep_ms (hp_interval ps)) (\<lambda>_.
       if all_ok then health_loop env ps targets fuel start (Suc consecutive) True
       else health_loop env ps targets fuel start 0 ready))))"

definition health_fuel :: "health_params \<Rightarrow> nat" where
  "health_fuel ps = overall_deadline ps div hp_interval ps + 2"

definition wait_for_health_stability ::
  "env \<Rightarrow> health_params \<Rightarrow> health_probe_target list \<Rightarrow> unit command" where
  "wait_for_health_stability env ps targets =
     (if targets = [] then retE ()
      else
        bindE (syscall env (\<lambda>details. cfg (''failed to build HTTP client: '' @ details)) (retE ())) (\<lambda>_.
        bindE (read_clock env) (\<lambda>start.
        bindE (health_loop env ps targets (health_fuel ps) start 0 False) (\<lambda>r.
          case r of
            Some _ \<Rightarrow> retE ()
          | None \<Rightarrow> failE (inspection_failed ''health loop still running'')))))"

definition version_of_tag :: "string \<Rightarrow> string" where
  "version_of_tag tag = dropWhile (\<lambda>c. c = CHR ''v'') tag"

text \<open>
  \<open>build_candidate_health_targets\<close>; the numeric identities come from the account database.
\<close>

definition build_candidate_health_targets ::
  "env \<Rightarrow> pending_candidate_record \<Rightarrow> health_probe_target list command" where
  "build_candidate_health_targets env c =
     bindE (gets (\<lambda>h. en_ids env (hs_ticks h))) (\<lambda>api_ids.
     bindE (whenE (includes_web (pc_role c)) (check env ''verify web system user: '')) (\<lambda>_.
     bindE (gets (\<lambda>h. en_ids env (hs_ticks h))) (\<lambda>web_ids.
     retE ((if includes_server (pc_role c)
            then [\<lparr> ht_unit_name = API_SERVICE_UNIT, ht_role = ''api'', ht_port = API_SERVICE_PORT,
                    ht_path = API_SERVICE_HEALTH_PATH,
                    ht_expected_version = version_of_tag (pc_tag c),
                    ht_expected_uid = fst api_ids, ht_expected_gid = snd api_ids,
                    ht_expected_exe_prefix =
                      path_join (pc_release_path c) ''bin/dam-hopper-server'' \<rparr>]
            else []) @
           (if includes_web (pc_role c)
            then [\<lparr> ht_unit_name = WEB_SERVICE_UNIT, ht_role = ''web'', ht_port = WEB_SERVICE_PORT,
                    ht_path = WEB_SERVICE_HEALTH_PATH,
                    ht_expected_version = version_of_tag (pc_tag c),
                    ht_expected_uid = fst web_ids, ht_expected_gid = snd web_ids,
                    ht_expected_exe_prefix =
                      path_join (pc_release_path c) ''bin/dam-hopper-web'' \<rparr>]
            else [])))))"

definition probe_candidate :: "env \<Rightarrow> pending_candidate_record \<Rightarrow> unit command" where
  "probe_candidate env c =
     bindE (build_candidate_health_targets env c) (\<lambda>targets.
       wait_for_health_stability env default_health targets)"

section \<open>The activation pipeline\<close>

definition stop_services :: "env \<Rightarrow> string list \<Rightarrow> unit command" where
  "stop_services env us =
     stepsE (map (\<lambda>u. bindE (attempt (systemctl_stop env u)) (\<lambda>_. retE ())) us)"

definition stop_stray_listeners :: "env \<Rightarrow> unit command" where
  "stop_stray_listeners env =
     bindE (attempt (check env ''terminate stray listeners: '')) (\<lambda>_. retE ())"

definition pipeline_quiesce :: "env \<Rightarrow> unit command" where
  "pipeline_quiesce env = stepsE
     [stop_services env ALL_SERVICE_UNITS, stop_services env [LEGACY_FORMAT2_UNIT],
      stop_stray_listeners env]"

definition pipeline_backup :: "env \<Rightarrow> layout \<Rightarrow> activation_transaction \<Rightarrow> unit command" where
  "pipeline_backup env ly tx =
     (let legacy_unit_path = path_join (ly_systemd_unit_dir ly) LEGACY_FORMAT2_UNIT in
      bindE (backup_unit_files env ALL_SERVICE_UNITS (ly_systemd_unit_dir ly)
               (at_units_backup_dir tx)) (\<lambda>_.
      bindE (symlink_metadata env ''inspect legacy systemd unit before backup'' legacy_unit_path) (\<lambda>node.
        case node of
          Some _ \<Rightarrow> copy_file_durable env legacy_unit_path
                      (path_join (at_units_backup_dir tx) LEGACY_FORMAT2_UNIT) 0x1A4
        | None \<Rightarrow> retE ())))"

definition remove_if_present :: "env \<Rightarrow> string \<Rightarrow> string \<Rightarrow> string \<Rightarrow> unit command" where
  "remove_if_present env inspect_action remove_action path =
     bindE (symlink_metadata env inspect_action path) (\<lambda>node.
       case node of Some _ \<Rightarrow> remove_file env remove_action path | None \<Rightarrow> retE ())"

definition pipeline_migrate ::
  "env \<Rightarrow> layout \<Rightarrow> pending_candidate_record \<Rightarrow> pending_candidate_record command" where
  "pipeline_migrate env ly candidate =
     bindE (gets (\<lambda>h. ms_transaction (hs_mem h))) (\<lambda>t.
     bindE (case t of
              Some transaction \<Rightarrow>
                (case tr_migration transaction of
                   Some migration \<Rightarrow>
                     bindE (execute_migration_exchange env ly migration) (\<lambda>migration'.
                     bindE (update_state (\<lambda>s. s\<lparr>ms_transaction :=
                       Some (transaction\<lparr>tr_migration := Some migration'\<rparr>)\<rparr>)) (\<lambda>_.
                     let candidate' = candidate\<lparr>pc_release_path :=
                           release_role_dir ly (pc_tag candidate) (role_str (pc_role candidate))\<rparr> in
                     bindE (update_state (\<lambda>s. s\<lparr>ms_pending := Some candidate'\<rparr>)) (\<lambda>_.
                     bindE (save_manager_state env ly) (\<lambda>_. retE candidate'))))
                 | None \<Rightarrow> retE candidate)
            | None \<Rightarrow> retE candidate) (\<lambda>runtime_candidate.
     bindE (remove_if_present env ''inspect legacy systemd unit before removal''
       ''remove legacy systemd unit''
       (path_join (ly_systemd_unit_dir ly) LEGACY_FORMAT2_UNIT)) (\<lambda>_.
     bindE (remove_if_present env ''inspect legacy systemd wants link before removal''
       ''remove legacy systemd wants link''
       (path_join (path_join (ly_systemd_unit_dir ly) ''multi-user.target.wants'')
         LEGACY_FORMAT2_UNIT)) (\<lambda>_.
     retE runtime_candidate))))"

definition install_pending_entry ::
  "env \<Rightarrow> layout \<Rightarrow> pending_candidate_record \<Rightarrow> string \<Rightarrow> string \<times> file_node \<Rightarrow> unit command" where
  "install_pending_entry env ly candidate units_path entry =
     (case entry of (name, n) \<Rightarrow>
        let path = path_join units_path name in
        if \<not> is_regular n
        then failE (DeployError (InvalidBundle path ''pending unit entry must be a regular file''))
        else if name = API_SERVICE_UNIT \<or> name = WEB_SERVICE_UNIT \<or> name = RECOVERY_SERVICE_UNIT
        then install_unit_file env path (ly_systemd_unit_dir ly)
        else if name = ''dam-hopper-web.conf'' \<and> includes_web (pc_role candidate)
        then copy_file_durable env path (sysusers_conf_path ly) 0x1A4
        else failE (DeployError (InvalidBundle path ''unexpected pending unit entry'')))"

definition pipeline_install_units ::
  "env \<Rightarrow> layout \<Rightarrow> pending_candidate_record \<Rightarrow> unit command" where
  "pipeline_install_units env ly candidate =
     (case pc_pending_units_path candidate of
        None \<Rightarrow> failE (cfg ''pending candidate has no rendered unit directory'')
      | Some units_path \<Rightarrow>
          bindE (read_dir env ''read pending units dir'' units_path) (\<lambda>entries.
          bindE (stepsE (map (install_pending_entry env ly candidate units_path) entries)) (\<lambda>_.
          whenE (includes_web (pc_role candidate)) (stepsE
            [check env ''systemd-sysusers: '', check env ''verify web system user: '']))))"

definition pipeline_public_config ::
  "env \<Rightarrow> layout \<Rightarrow> activation_transaction \<Rightarrow> pending_candidate_record \<Rightarrow> unit command" where
  "pipeline_public_config env ly tx candidate =
     bindE (symlink_metadata env ''inspect active public host config'' (host_config_json_path ly)) (\<lambda>node.
     bindE (case node of
              Some _ \<Rightarrow> copy_file_durable env (host_config_json_path ly)
                          (at_public_config_backup_path tx) 0x1A4
            | None \<Rightarrow> retE ()) (\<lambda>_.
       case pc_pending_host_config_path candidate of
         None \<Rightarrow> failE (cfg ''pending candidate has no public host configuration'')
       | Some config_path \<Rightarrow>
           bindE (symlink_metadata env ''inspect pending public host configuration'' config_path) (\<lambda>node'.
             case node' of
               None \<Rightarrow> failE (DeployError (InvalidBundle config_path
                        ''pending public host configuration is missing''))
             | Some _ \<Rightarrow>
                 copy_file_durable env config_path (host_config_json_path ly) 0x1A4)))"

definition chmod_if_exists :: "env \<Rightarrow> string \<Rightarrow> u32 \<Rightarrow> unit command" where
  "chmod_if_exists env p m =
     bindE (path_exists env p) (\<lambda>e.
       whenE e (bindE (attempt (set_permissions env ''set permissions'' p m)) (\<lambda>_. retE ())))"

definition ensure_etc_config_permissions :: "env \<Rightarrow> layout \<Rightarrow> unit command" where
  "ensure_etc_config_permissions env ly = stepsE
     [bindE (attempt (create_dir_all env ''create etc dir'' (ly_etc_dir ly))) (\<lambda>_. retE ()),
      bindE (attempt (set_permissions env ''set permissions'' (ly_etc_dir ly) 0x1ED)) (\<lambda>_. retE ()),
      chmod_if_exists env (path_join (ly_etc_dir ly) ''dam-hopper.toml'') 0x1A4,
      chmod_if_exists env (host_config_path ly) 0x1A4,
      chmod_if_exists env (host_config_json_path ly) 0x1A4]"

definition start_role :: "env \<Rightarrow> target_role \<Rightarrow> unit command" where
  "start_role env role = stepsE
     [whenE (includes_server role) (systemctl_start env API_SERVICE_UNIT),
      whenE (includes_web role) (systemctl_start env WEB_SERVICE_UNIT)]"

definition pipeline_switch ::
  "env \<Rightarrow> layout \<Rightarrow> activation_transaction \<Rightarrow> pending_candidate_record \<Rightarrow> unit command" where
  "pipeline_switch env ly tx candidate = stepsE
     [systemctl_daemon_reload env,
      record_phase env ly tx DepSwitched PhaseSwitched,
      ensure_etc_config_permissions env ly,
      start_role env (pc_role candidate),
      record_phase env ly tx DepProbing PhaseProbing,
      probe_candidate env candidate]"

definition set_enablement :: "env \<Rightarrow> bool \<Rightarrow> string \<Rightarrow> unit command" where
  "set_enablement env wanted u =
     (if wanted then systemctl_enable env u else disable_if_enabled env u)"

definition pipeline_enable :: "env \<Rightarrow> target_role \<Rightarrow> unit command" where
  "pipeline_enable env role = stepsE
     [set_enablement env (includes_server role) API_SERVICE_UNIT,
      systemctl_enable env RECOVERY_SERVICE_UNIT,
      set_enablement env (includes_web role) WEB_SERVICE_UNIT]"

definition legacy_release ::
  "layout \<Rightarrow> pending_candidate_record \<Rightarrow> string \<Rightarrow> migration_record \<Rightarrow> release_record" where
  "legacy_release ly candidate now mig = \<lparr> rr_tag = LEGACY_FORMAT2_TAG,
     rr_version = (case mr_legacy_api_version mig of Some v \<Rightarrow> v | None \<Rightarrow> ''format-2-imported''),
     rr_role = TargetServer,
     rr_release_path = path_join (path_join (releases_dir ly) LEGACY_FORMAT2_TAG) ''server'',
     rr_manifest_sha256 = mr_legacy_binary_sha256 mig,
     rr_archive_sha256 = mr_legacy_binary_sha256 mig,
     rr_installed_at = pc_staged_at candidate, rr_committed_at = now,
     rr_api_unit_sha256 = Some (mr_legacy_unit_sha256 mig), rr_web_unit_sha256 = None,
     rr_host_config_sha256 = None \<rparr>"

definition release_of_candidate ::
  "layout \<Rightarrow> string \<Rightarrow> pending_candidate_record \<Rightarrow> release_record" where
  "release_of_candidate ly now c = \<lparr> rr_tag = pc_tag c, rr_version = version_of_tag (pc_tag c),
     rr_role = pc_role c,
     rr_release_path = path_join (path_join (releases_dir ly) (pc_tag c)) (role_str (pc_role c)),
     rr_manifest_sha256 = pc_manifest_sha256 c, rr_archive_sha256 = pc_archive_sha256 c,
     rr_installed_at = pc_staged_at c, rr_committed_at = now,
     rr_api_unit_sha256 = pc_api_unit_sha256 c, rr_web_unit_sha256 = pc_web_unit_sha256 c,
     rr_host_config_sha256 = pc_host_config_sha256 c \<rparr>"

definition transaction_migration :: "manager_state \<Rightarrow> migration_record option" where
  "transaction_migration s =
     (case ms_transaction s of None \<Rightarrow> None | Some t \<Rightarrow> tr_migration t)"

definition committed_state ::
  "layout \<Rightarrow> string \<Rightarrow> string \<Rightarrow> pending_candidate_record \<Rightarrow> manager_state \<Rightarrow> manager_state" where
  "committed_state ly now now' candidate s = s\<lparr>
     ms_previous := (case transaction_migration s of
                       Some mig \<Rightarrow> Some (legacy_release ly candidate now mig)
                     | None \<Rightarrow> ms_active s),
     ms_active := Some (release_of_candidate ly now' candidate),
     ms_pending := None, ms_transaction := None\<rparr>"

definition pipeline_commit :: "env \<Rightarrow> layout \<Rightarrow> pending_candidate_record \<Rightarrow> unit command" where
  "pipeline_commit env ly candidate =
     bindE (timestamp env) (\<lambda>now.
     bindE (timestamp env) (\<lambda>now'.
     bindE (update_state (committed_state ly now now' candidate)) (\<lambda>_.
     save_manager_state env ly)))"

definition execute_activation_pipeline ::
  "env \<Rightarrow> layout \<Rightarrow> activation_transaction \<Rightarrow> pending_candidate_record \<Rightarrow> unit command" where
  "execute_activation_pipeline env ly tx candidate =
     bindE (gets (\<lambda>h. transaction_migration (hs_mem h) \<noteq> None)) (\<lambda>is_migration.
     bindE (whenE is_migration (check env ''inspect format-2 installation: '')) (\<lambda>_.
     bindE (pipeline_quiesce env) (\<lambda>_.
     bindE (pipeline_backup env ly tx) (\<lambda>_.
     bindE (if is_migration then pipeline_migrate env ly candidate else retE candidate) (\<lambda>candidate.
     bindE (pipeline_install_units env ly candidate) (\<lambda>_.
     bindE (pipeline_public_config env ly tx candidate) (\<lambda>_.
     bindE (pipeline_switch env ly tx candidate) (\<lambda>_.
     bindE (pipeline_enable env (pc_role candidate)) (\<lambda>_.
     pipeline_commit env ly candidate)))))))))"

section \<open>Rollback\<close>

definition release_to_candidate :: "release_record \<Rightarrow> pending_candidate_record" where
  "release_to_candidate r = \<lparr> pc_tag = rr_tag r, pc_role = rr_role r,
     pc_staged_at = rr_installed_at r, pc_release_path = rr_release_path r,
     pc_manifest_sha256 = rr_manifest_sha256 r, pc_archive_sha256 = rr_archive_sha256 r,
     pc_pending_units_path = None, pc_pending_host_config_path = None,
     pc_api_unit_sha256 = rr_api_unit_sha256 r, pc_web_unit_sha256 = rr_web_unit_sha256 r,
     pc_host_config_sha256 = rr_host_config_sha256 r \<rparr>"

definition stop_and_disable_unit :: "env \<Rightarrow> string \<Rightarrow> string \<Rightarrow> unit command" where
  "stop_and_disable_unit env systemd_dir u =
     bindE (systemctl_is_active env u) (\<lambda>a.
     bindE (whenE a (systemctl_stop env u)) (\<lambda>_.
     bindE (systemctl_is_enabled env u) (\<lambda>e.
     bindE (whenE e (systemctl_disable env u)) (\<lambda>_.
     remove_unit_file env u systemd_dir))))"

definition stop_and_disable_units :: "env \<Rightarrow> string list \<Rightarrow> string \<Rightarrow> unit command" where
  "stop_and_disable_units env us systemd_dir =
     bindE (stepsE (map (stop_and_disable_unit env systemd_dir) us)) (\<lambda>_.
     systemctl_daemon_reload env)"

text \<open>Clears the transaction, notes the failure and saves.\<close>

definition close_transaction ::
  "env \<Rightarrow> layout \<Rightarrow> string option \<Rightarrow> string \<Rightarrow> string \<Rightarrow> unit command" where
  "close_transaction env ly tx_id phase reason =
     bindE (timestamp env) (\<lambda>now.
     bindE (update_state (\<lambda>s. s\<lparr>ms_transaction := None,
       ms_latest_failure := Some (failure_of now tx_id (pending_tag s) phase reason)\<rparr>)) (\<lambda>_.
     save_manager_state env ly))"

definition rollback_first_install ::
  "env \<Rightarrow> layout \<Rightarrow> string \<Rightarrow> manager_state \<Rightarrow> unit command" where
  "rollback_first_install env ly reason s =
     bindE (stepsE (map (\<lambda>u.
       bindE (attempt (systemctl_stop env u)) (\<lambda>_.
       bindE (attempt (disable_if_enabled env u)) (\<lambda>_. retE ()))) ALL_SERVICE_UNITS)) (\<lambda>_.
     bindE (stop_stray_listeners env) (\<lambda>_.
       case (ms_transaction s, transaction_migration s) of
         (Some tx, Some mig) \<Rightarrow>
           bindE (stop_and_disable_units env ALL_SERVICE_UNITS (ly_systemd_unit_dir ly)) (\<lambda>_.
           bindE (rollback_migration_exchange env ly mig) (\<lambda>_.
           close_transaction env ly (Some (tr_tx_id tx)) ''ROLLED_BACK_MIGRATION'' reason))
       | _ \<Rightarrow>
           bindE (remove_if_present env ''inspect current release symlink''
             ''remove current release symlink'' (current_link ly)) (\<lambda>_.
           bindE (remove_if_present env ''inspect public host configuration''
             ''remove public host configuration'' (host_config_json_path ly)) (\<lambda>_.
           close_transaction env ly None ''ROLLBACK_FIRST_INSTALL_BASELINE'' reason))))"

definition restore_units_backup :: "env \<Rightarrow> layout \<Rightarrow> string \<Rightarrow> unit command" where
  "restore_units_backup env ly bkp =
     bindE (symlink_metadata env ''inspect unit backup directory'' bkp) (\<lambda>node.
       case node of
         None \<Rightarrow> retE ()
       | Some n \<Rightarrow>
           if is_dir n then restore_unit_files env bkp (ly_systemd_unit_dir ly)
           else failE (not_regular bkp ''regular unit backup directory''
                  ''symbolic link or non-directory''))"

definition restore_public_config :: "env \<Rightarrow> layout \<Rightarrow> string \<Rightarrow> unit command" where
  "restore_public_config env ly bkp =
     bindE (symlink_metadata env ''inspect public configuration backup'' bkp) (\<lambda>node.
       case node of
         None \<Rightarrow> retE ()
       | Some n \<Rightarrow>
           if is_regular n then copy_file_durable env bkp (host_config_json_path ly) 0x1A4
           else failE (not_regular bkp ''regular public configuration backup''
                  ''symbolic link or non-regular file''))"

definition when_someE :: "('a \<Rightarrow> unit command) \<Rightarrow> 'a option \<Rightarrow> unit command" where
  "when_someE f v = (case v of None \<Rightarrow> retE () | Some x \<Rightarrow> f x)"

definition restore_backups :: "env \<Rightarrow> layout \<Rightarrow> transaction_record option \<Rightarrow> unit command" where
  "restore_backups env ly t = when_someE (\<lambda>tx. stepsE
     [when_someE (restore_units_backup env ly) (tr_units_backup_dir tx),
      when_someE (restore_public_config env ly) (tr_public_config_backup_path tx)]) t"

definition mark_recovery_required ::
  "env \<Rightarrow> layout \<Rightarrow> release_record \<Rightarrow> release_error \<Rightarrow> unit command" where
  "mark_recovery_required env ly active e =
     bindE (update_state (\<lambda>s. s\<lparr>ms_transaction :=
       map_option (\<lambda>t. t\<lparr>tr_phase := PhaseFailed\<rparr>) (ms_transaction s)\<rparr>)) (\<lambda>_.
     bindE (timestamp env) (\<lambda>now.
     bindE (update_state (\<lambda>s. s\<lparr>ms_latest_failure := Some (failure_of now
       (map_option tr_tx_id (ms_transaction s)) (Some (rr_tag active)) ''RECOVERY_REQUIRED''
       (''restoration of active release failed: '' @ en_error_text env e))\<rparr>)) (\<lambda>_.
     bindE (save_manager_state env ly) (\<lambda>_.
     failE (inspection_failed (''restoration of active release failed (RECOVERY_REQUIRED): ''
       @ en_error_text env e))))))"

definition rollback_restore_active ::
  "env \<Rightarrow> layout \<Rightarrow> string \<Rightarrow> manager_state \<Rightarrow> release_record \<Rightarrow> unit command" where
  "rollback_restore_active env ly reason s active =
     bindE (stop_services env ALL_SERVICE_UNITS) (\<lambda>_.
     bindE (stop_stray_listeners env) (\<lambda>_.
     bindE (restore_backups env ly (ms_transaction s)) (\<lambda>_.
     bindE (systemctl_daemon_reload env) (\<lambda>_.
     bindE (systemctl_enable env RECOVERY_SERVICE_UNIT) (\<lambda>_.
     bindE (start_role env (rr_role active)) (\<lambda>_.
     bindE (build_candidate_health_targets env (release_to_candidate active)) (\<lambda>targets.
     bindE (attempt (wait_for_health_stability env default_health targets)) (\<lambda>stable.
       case stable of
         Inl e \<Rightarrow> mark_recovery_required env ly active e
       | Inr _ \<Rightarrow>
           bindE (close_transaction env ly None ''ROLLED_BACK_TO_ACTIVE'' reason) (\<lambda>_.
           atomic_symlink env (rr_release_path active) (current_link ly))))))))))"

definition rollback_activation_failure ::
  "env \<Rightarrow> layout \<Rightarrow> string \<Rightarrow> unit command" where
  "rollback_activation_failure env ly reason =
     bindE (load_or_init_manager_state env ly) (\<lambda>_.
     bindE (gets hs_mem) (\<lambda>s.
       case ms_active s of
         None \<Rightarrow> rollback_first_install env ly reason s
       | Some active \<Rightarrow> rollback_restore_active env ly reason s active))"

section \<open>Activation\<close>

definition MAX_HOST_CONFIG_BYTES :: nat where "MAX_HOST_CONFIG_BYTES = 64 * 1024"

definition read_config_file :: "env \<Rightarrow> string \<Rightarrow> string option command" where
  "read_config_file env path =
     bindE (symlink_metadata env ''inspect host configuration'' path) (\<lambda>node.
       case node of
         None \<Rightarrow> retE None
       | Some (RegularFile content _) \<Rightarrow>
           bindE (syscall env (io ''open host configuration with no-follow'') (retE ())) (\<lambda>_.
           bindE (syscall env (io ''read host configuration'') (retE ())) (\<lambda>_.
             if MAX_HOST_CONFIG_BYTES < length content
             then failE (cfg ''host configuration exceeds maximum size'')
             else retE (Some content)))
       | Some _ \<Rightarrow> failE (not_regular path ''regular host configuration file''
                            ''symbolic link or non-regular file''))"

definition load_host_config :: "env \<Rightarrow> string \<Rightarrow> host_config option command" where
  "load_host_config env path =
     bindE (read_config_file env path) (\<lambda>content.
       case content of
         None \<Rightarrow> retE None
       | Some text \<Rightarrow>
           (case en_toml_parse env text of
              Inl _ \<Rightarrow> failE (cfg ''failed to parse host config'')
            | Inr config \<Rightarrow>
                bindE (liftE (validate_web_origins (hc_allowed_web_origins config))) (\<lambda>_.
                retE (Some config))))"

definition save_host_config :: "env \<Rightarrow> string \<Rightarrow> host_config \<Rightarrow> unit command" where
  "save_host_config env path config =
     bindE (liftE (validate_web_origins (hc_allowed_web_origins config))) (\<lambda>_.
     atomic_write_file env path (en_toml_render env config) 0x1A4)"

text \<open>
  The service account: \<open>resolve_service_user\<close>, \<open>verify_api_service_account\<close> and the group of
  the account, answered by the environment.
\<close>

definition resolve_identity :: "env \<Rightarrow> string option \<Rightarrow> (string \<times> string \<times> string) command" where
  "resolve_identity env explicit =
     bindE (check env ''resolve service user: '') (\<lambda>_.
     bindE (check env ''verify API service account: '') (\<lambda>_.
     gets (\<lambda>h. (en_user env (hs_ticks h), en_group env (hs_ticks h), en_home env (hs_ticks h)))))"

definition user_config_targets :: "string \<Rightarrow> string list" where
  "user_config_targets user_home =
     (if user_home = API_SERVICE_HOME then [API_SERVICE_HOME] else [API_SERVICE_HOME, user_home])"

definition ignored :: "'a command \<Rightarrow> unit command" where
  "ignored m = bindE (attempt m) (\<lambda>_. retE ())"

definition copy_or_write_user_toml :: "env \<Rightarrow> string \<Rightarrow> unit command" where
  "copy_or_write_user_toml env user_toml =
     bindE (path_exists env ''/etc/dam-hopper/dam-hopper.toml'') (\<lambda>e.
       if e then ignored (syscall env (io ''copy'') (\<lambda>h.
              case get_file ''/etc/dam-hopper/dam-hopper.toml'' h of
                Some (RegularFile c m) \<Rightarrow> (Inr (), put_file user_toml (RegularFile c m) h)
              | _ \<Rightarrow> (Inl (io ''copy'' ''not a file''), h)))
       else ignored (syscall env (io ''write'') (modify (put_file user_toml
              (RegularFile (''[workspace]'' @ [NL] @ ''name = '' @ [CHR 0x22] @ ''default''
                 @ [CHR 0x22, NL]) 0x1A4)))))"

text \<open>Ownership (\<open>chown\<close>) is not represented.\<close>

definition ensure_user_config_base :: "env \<Rightarrow> string \<Rightarrow> unit command" where
  "ensure_user_config_base env base =
     (let user_config_dir = path_join (path_join base ''.config'') ''dam-hopper'';
          user_toml = path_join user_config_dir ''dam-hopper.toml'' in stepsE
      [ignored (create_dir_all env ''create'' base),
       ignored (create_dir_all env ''create'' user_config_dir),
       bindE (path_exists env user_toml) (\<lambda>e. whenE (\<not> e) (copy_or_write_user_toml env user_toml)),
       ignored (set_permissions env ''set permissions'' user_config_dir 0x1C0),
       chmod_if_exists env user_toml 0x180])"

definition ensure_user_config_ownership :: "env \<Rightarrow> string \<Rightarrow> unit command" where
  "ensure_user_config_ownership env user_home =
     stepsE (map (ensure_user_config_base env) (user_config_targets user_home))"

definition hash_optional_file :: "env \<Rightarrow> string \<Rightarrow> string option command" where
  "hash_optional_file env path =
     bindE (symlink_metadata env ''inspect staged unit file'' path) (\<lambda>node.
       case node of
         None \<Rightarrow> retE None
       | Some (RegularFile content _) \<Rightarrow>
           bindE (syscall env (io ''read file for hash'') (retE ())) (\<lambda>_.
           retE (Some (en_sha256 env content)))
       | Some _ \<Rightarrow> failE (DeployError (InvalidBundle path ''staged unit path is not a regular file'')))"

text \<open>
  Rewriting the pending API unit for the service account: the new text, its digest in the
  candidate, and the candidate in the saved state.
\<close>

definition rewrite_pending_unit ::
  "env \<Rightarrow> layout \<Rightarrow> string \<Rightarrow> string \<Rightarrow> pending_candidate_record \<Rightarrow> string
    \<Rightarrow> pending_candidate_record command" where
  "rewrite_pending_unit env ly user grp candidate units_path =
     (let api_unit_path = path_join units_path API_SERVICE_UNIT in
      bindE (path_exists env api_unit_path) (\<lambda>e.
        if \<not> e then retE candidate
        else
          bindE (syscall env (io ''read pending api unit'') (gets (get_file api_unit_path))) (\<lambda>node.
            case node of
              Some (RegularFile content m) \<Rightarrow>
                bindE (syscall env (io ''write updated pending api unit'') (modify
                  (put_file api_unit_path (RegularFile
                    (update_unit_service_identity content user grp API_SERVICE_HOME) m)))) (\<lambda>_.
                bindE (hash_optional_file env api_unit_path) (\<lambda>new_hash.
                let candidate' = candidate\<lparr>pc_api_unit_sha256 := new_hash\<rparr> in
                bindE (update_state (\<lambda>s. s\<lparr>ms_pending := Some candidate'\<rparr>)) (\<lambda>_.
                bindE (save_manager_state env ly) (\<lambda>_.
                retE candidate'))))
            | _ \<Rightarrow> failE (io ''read pending api unit'' ''not a regular file''))))"

definition prepare_service_identity ::
  "env \<Rightarrow> layout \<Rightarrow> string option \<Rightarrow> pending_candidate_record \<Rightarrow> pending_candidate_record command" where
  "prepare_service_identity env ly service_user candidate =
     bindE (load_host_config env (host_config_path ly)) (\<lambda>host_config.
     let user_candidate = (case service_user of
           Some u \<Rightarrow> Some u
         | None \<Rightarrow> (case host_config of None \<Rightarrow> None | Some c \<Rightarrow> hc_service_user c)) in
     bindE (resolve_identity env user_candidate) (\<lambda>(user_name, group_name, home).
     let config_to_save = (case host_config of
           Some c \<Rightarrow> c
         | None \<Rightarrow> \<lparr> hc_role = pc_role candidate, hc_allowed_web_origins = [],
                     hc_service_user = None \<rparr>) in
     bindE (whenE (hc_service_user config_to_save \<noteq> Some user_name)
       (save_host_config env (host_config_path ly)
         (config_to_save\<lparr>hc_service_user := Some user_name\<rparr>))) (\<lambda>_.
     bindE (ensure_user_config_ownership env home) (\<lambda>_.
     bindE (ensure_etc_config_permissions env ly) (\<lambda>_.
       case pc_pending_units_path candidate of
         None \<Rightarrow> retE candidate
       | Some units_path \<Rightarrow>
           rewrite_pending_unit env ly user_name group_name candidate units_path)))))"

text \<open>Starting the committed release when nothing is pending.\<close>

definition start_installed_identity :: "env \<Rightarrow> layout \<Rightarrow> string option \<Rightarrow> unit command" where
  "start_installed_identity env ly user_candidate =
     bindE (resolve_identity env user_candidate) (\<lambda>(user_name, group_name, home).
     let installed = path_join (ly_systemd_unit_dir ly) API_SERVICE_UNIT in
     bindE (path_exists env installed) (\<lambda>e.
     bindE (whenE e (ignored
       (bindE (syscall env (io ''read'') (gets (get_file installed))) (\<lambda>node.
          case node of
            Some (RegularFile content m) \<Rightarrow> stepsE
              [ignored (syscall env (io ''write'') (modify (put_file installed (RegularFile
                 (update_unit_service_identity content user_name group_name API_SERVICE_HOME) m)))),
               ignored (systemctl_daemon_reload env)]
          | _ \<Rightarrow> retE ())))) (\<lambda>_.
     ensure_user_config_ownership env home)))"

definition start_server :: "env \<Rightarrow> layout \<Rightarrow> string option \<Rightarrow> unit command" where
  "start_server env ly service_user =
     bindE (load_host_config env (host_config_path ly)) (\<lambda>host_config.
     let user_candidate = (case service_user of
           Some u \<Rightarrow> Some u
         | None \<Rightarrow> (case host_config of None \<Rightarrow> None | Some c \<Rightarrow> hc_service_user c)) in
     bindE (gets (\<lambda>h. en_flag env (hs_ticks h))) (\<lambda>is_terminal. stepsE
       [whenE (user_candidate \<noteq> None \<or> service_user \<noteq> None \<or> is_terminal)
          (start_installed_identity env ly user_candidate),
        ensure_etc_config_permissions env ly,
        systemctl_start env API_SERVICE_UNIT]))"

definition start_active :: "env \<Rightarrow> layout \<Rightarrow> string option \<Rightarrow> release_record \<Rightarrow> unit command" where
  "start_active env ly service_user active =
     (if rr_tag active = LEGACY_FORMAT2_TAG then stepsE
        [check env ''inspect imported legacy installation: '',
         systemctl_start env LEGACY_FORMAT2_UNIT,
         check env ''inspect imported legacy installation: '']
      else stepsE
        [check env ''active preflight: '',
         whenE (includes_server (rr_role active)) (start_server env ly service_user),
         whenE (includes_web (rr_role active)) (stepsE
           [check env ''systemd-sysusers: '', check env ''verify web system user: '',
            systemctl_start env WEB_SERVICE_UNIT]),
         probe_candidate env (release_to_candidate active)])"

text \<open>What happens after the pipeline failed, and after it committed.\<close>

definition activation_failed ::
  "env \<Rightarrow> layout \<Rightarrow> activation_transaction \<Rightarrow> release_error \<Rightarrow> unit command" where
  "activation_failed env ly tx err =
     (let err_msg = en_error_text env err in
      bindE (attempt (record_failure env ly tx ''ACTIVATION_FAILED'' err_msg)) (\<lambda>recorded.
      bindE (attempt (rollback_activation_failure env ly err_msg)) (\<lambda>rolled_back.
        case rolled_back of
          Inr _ \<Rightarrow>
            (case recorded of
               Inl record_error \<Rightarrow> failE (cfg (''activation failed ('' @ err_msg @
                 ''); successfully rolled back, but failure state persistence failed ('' @
                 en_error_text env record_error @ '')''))
             | Inr _ \<Rightarrow> failE (inspection_failed (''activation failed ('' @ err_msg @
                 ''); successfully rolled back'')))
        | Inl rollback_err \<Rightarrow> failE (cfg (''CRITICAL: activation failed ('' @ err_msg @
            '') AND rollback failed ('' @ en_error_text env rollback_err @ '')'' @
            (case recorded of
               Inl record_error \<Rightarrow> ''; failure state persistence also failed ('' @
                 en_error_text env record_error @ '')''
             | Inr _ \<Rightarrow> []) @ '': RECOVERY_REQUIRED'')))))"

definition migration_cleanup ::
  "env \<Rightarrow> layout \<Rightarrow> migration_record \<Rightarrow> unit command" where
  "migration_cleanup env ly migration =
     bindE (attempt (commit_migration_cleanup env ly migration)) (\<lambda>r.
       case r of
         Inr _ \<Rightarrow> retE ()
       | Inl error \<Rightarrow>
           bindE (timestamp env) (\<lambda>now.
           bindE (update_state (\<lambda>s. s\<lparr>ms_latest_failure := Some (failure_of now None
             (map_option rr_tag (ms_active s)) ''COMMITTED_MIGRATION_CLEANUP''
             (en_error_text env error))\<rparr>)) (\<lambda>_.
           bindE (attempt (save_manager_state env ly)) (\<lambda>saved.
           failE (cfg (''activation committed but migration cleanup failed ('' @
             en_error_text env error @ '')'' @
             (case saved of
                Inl save_error \<Rightarrow> ''; failure state persistence also failed ('' @
                  en_error_text env save_error @ '')''
              | Inr _ \<Rightarrow> []) @ '': RECOVERY_REQUIRED''))))))"

definition activation_committed ::
  "env \<Rightarrow> layout \<Rightarrow> migration_record option \<Rightarrow> unit command" where
  "activation_committed env ly migration =
     bindE (when_someE (migration_cleanup env ly) migration) (\<lambda>_.
     bindE (gets hs_mem) (\<lambda>s.
       case ms_active s of
         None \<Rightarrow> failE (cfg ''activation committed without an active release'')
       | Some active \<Rightarrow>
           bindE (atomic_symlink env (rr_release_path active) (current_link ly)) (\<lambda>_.
           bindE (apply_retention env ly s) (\<lambda>_. retE ()))))"

definition open_transaction :: "env \<Rightarrow> layout \<Rightarrow> activation_transaction command" where
  "open_transaction env ly =
     bindE (gets (\<lambda>h. ms_transaction (hs_mem h))) (\<lambda>t.
       case t of
         Some existing \<Rightarrow> transaction_from_id env ly (tr_tx_id existing)
       | None \<Rightarrow> transaction_new env ly)"

definition activate_candidate ::
  "env \<Rightarrow> layout \<Rightarrow> string option \<Rightarrow> pending_candidate_record \<Rightarrow> unit command" where
  "activate_candidate env ly service_user candidate =
     bindE (if includes_server (pc_role candidate)
            then prepare_service_identity env ly service_user candidate
            else retE candidate) (\<lambda>candidate.
     bindE (check env ''candidate preflight: '') (\<lambda>_.
     bindE (open_transaction env ly) (\<lambda>tx.
     bindE (record_phase env ly tx DepQuiesced PhaseQuiesced) (\<lambda>_.
     bindE (gets (\<lambda>h. transaction_migration (hs_mem h))) (\<lambda>migration.
     bindE (attempt (execute_activation_pipeline env ly tx candidate)) (\<lambda>pipeline_res.
       case pipeline_res of
         Inl err \<Rightarrow> activation_failed env ly tx err
       | Inr _ \<Rightarrow> activation_committed env ly migration))))))"

definition execute_activation_locked ::
  "env \<Rightarrow> layout \<Rightarrow> string option \<Rightarrow> unit command" where
  "execute_activation_locked env ly service_user =
     bindE (load_or_init_manager_state env ly) (\<lambda>_.
     bindE (check env ''inspect API service process: '') (\<lambda>_.
     bindE (gets hs_mem) (\<lambda>s.
       case ms_pending s of
         Some candidate \<Rightarrow> activate_candidate env ly service_user candidate
       | None \<Rightarrow>
           (case ms_active s of
              None \<Rightarrow> failE (cfg ''no active release or pending candidate to start'')
            | Some active \<Rightarrow> start_active env ly service_user active))))"

text \<open>The deployment lock: busy, unavailable, or held until the command returns.\<close>

definition acquire_lock :: "env \<Rightarrow> unit command" where
  "acquire_lock env =
     bindE (syscall env (io ''create lock directory'') (retE ())) (\<lambda>_.
     bindE (syscall env (\<lambda>d. DeployError (DeploymentLockError d)) (retE ())) (\<lambda>_.
     bindE (gets (\<lambda>h. en_flag env (hs_ticks h))) (\<lambda>would_block.
       if would_block then failE (DeployError DeploymentLockBusy)
       else syscall env (\<lambda>d. DeployError (DeploymentLockError d)) (retE ()))))"

definition execute_activation :: "env \<Rightarrow> layout \<Rightarrow> string option \<Rightarrow> unit command" where
  "execute_activation env ly service_user =
     bindE (acquire_lock env) (\<lambda>_. execute_activation_locked env ly service_user)"

section \<open>Recovery\<close>

definition repair_active_pointers :: "env \<Rightarrow> layout \<Rightarrow> release_record \<Rightarrow> unit command" where
  "repair_active_pointers env ly active =
     bindE (if rr_tag active = LEGACY_FORMAT2_TAG then stepsE
              [disable_if_enabled env API_SERVICE_UNIT, disable_if_enabled env WEB_SERVICE_UNIT,
               systemctl_enable env LEGACY_FORMAT2_UNIT]
            else stepsE
              [set_enablement env (includes_server (rr_role active)) API_SERVICE_UNIT,
               set_enablement env (includes_web (rr_role active)) WEB_SERVICE_UNIT]) (\<lambda>_.
     bindE (systemctl_enable env RECOVERY_SERVICE_UNIT) (\<lambda>_.
     bindE (attempt (symlink_metadata env ''active release'' (rr_release_path active))) (\<lambda>r.
       case r of
         Inr (Some n) \<Rightarrow>
           if is_dir n then atomic_symlink env (rr_release_path active) (current_link ly)
           else failE (not_regular (rr_release_path active) ''regular active release directory''
                  ''symbolic link or non-directory'')
       | _ \<Rightarrow> failE (cfg ''active release path is missing or inaccessible''))))"

definition repair_active :: "env \<Rightarrow> layout \<Rightarrow> manager_state \<Rightarrow> unit command" where
  "repair_active env ly s = when_someE (\<lambda>active. stepsE
     [whenE (rr_tag active = LEGACY_FORMAT2_TAG)
        (check env ''inspect imported legacy installation: ''),
      repair_active_pointers env ly active]) (ms_active s)"

definition stop_and_disable_services :: "env \<Rightarrow> string list \<Rightarrow> unit command" where
  "stop_and_disable_services env us = stepsE (map (\<lambda>u.
     bindE (systemctl_is_active env u) (\<lambda>a.
     bindE (whenE a (systemctl_stop env u)) (\<lambda>_.
     disable_if_enabled env u))) us)"

definition recover ::
  "env \<Rightarrow> layout \<Rightarrow> bool \<Rightarrow> manager_state \<Rightarrow> recovery_action \<Rightarrow> unit command" where
  "recover env ly is_boot s action =
     (case action of
        NoAction \<Rightarrow> repair_active env ly s
      | ResumePending \<Rightarrow> whenE is_boot (stepsE
          [disable_if_enabled env API_SERVICE_UNIT, disable_if_enabled env WEB_SERVICE_UNIT,
           repair_active env ly s])
      | RestorePrevious \<Rightarrow>
          rollback_activation_failure env ly ''crash recovery restoring pre-transaction state''
      | RepairCommitted \<Rightarrow> stepsE
          [repair_active env ly s,
           update_state (\<lambda>s. s\<lparr>ms_transaction := None\<rparr>),
           save_manager_state env ly]
      | RecoveryRequired reason \<Rightarrow>
          bindE (stop_and_disable_services env ALL_SERVICE_UNITS) (\<lambda>_.
          failE (cfg (''RECOVERY_REQUIRED: '' @ reason
            @ ''; app units disabled to prevent unsafe start''))))"

definition execute_recovery :: "env \<Rightarrow> layout \<Rightarrow> bool \<Rightarrow> unit command" where
  "execute_recovery env ly is_boot =
     bindE (acquire_lock env) (\<lambda>_.
     bindE (load_or_init_manager_state env ly) (\<lambda>_.
     bindE (gets hs_mem) (\<lambda>s.
     recover env ly is_boot s (classify_recovery (en_semver env) s))))"

end
