(* ===== verification/Release_Frame.thy ===== *)
theory Release_Frame
  imports Release_Retention
begin

text \<open>
  Framing: which part of the host a command leaves alone. \<open>keeps view m\<close> says that the command
  changes nothing that \<open>view\<close> shows, whatever the environment does. The combinators keep every
  view; a numbered call keeps a view that does not show the call counter, which is the
  interface \<open>clock_view\<close>. It is interpreted on the node of a file here and on the state
  envelope in \<open>Release_Envelope\<close>.
\<close>

definition keeps :: "(host \<Rightarrow> 'v) \<Rightarrow> 'a command \<Rightarrow> bool" where
  "keeps view m \<longleftrightarrow> (\<forall>h. view (snd (m h)) = view h)"

named_theorems file_rules \<open>commands that leave the node of a file alone\<close>

lemma keepsI: "(\<And>h. view (snd (m h)) = view h) \<Longrightarrow> keeps view m"
  by (simp add: keeps_def)

lemma keepsD: "keeps view m \<Longrightarrow> m h = (r, h') \<Longrightarrow> view h' = view h"
  unfolding keeps_def by (metis snd_conv)

lemma keeps_basic: "keeps view (retE x)" "keeps view (failE e)" "keeps view (liftE r)" "keeps view (gets g)"
  by (simp_all add: keeps_def retE_def failE_def liftE_def gets_def)

lemma keeps_bind:
  assumes "keeps view m" "\<And>x. keeps view (f x)"
  shows "keeps view (bindE m f)"
proof (rule keepsI)
  fix h
  obtain r h' where m: "m h = (r, h')" by (cases "m h")
  have "view h' = view h" by (rule keepsD [OF assms(1) m])
  with m assms(2) show "view (snd (bindE m f h)) = view h"
    by (cases r) (simp_all add: bindE_def keeps_def)
qed

lemma keeps_attempt: "keeps view m \<Longrightarrow> keeps view (attempt m)"
  by (simp add: keeps_def attempt_def case_prod_beta)

lemma keeps_when: "keeps view m \<Longrightarrow> keeps view (whenE b m)"
  by (simp add: whenE_def keeps_basic)

lemma keeps_steps:
  "keeps view (stepsE [])" "keeps view m \<Longrightarrow> keeps view (stepsE ms) \<Longrightarrow> keeps view (stepsE (m # ms))"
  by (simp_all add: keeps_basic keeps_bind)

lemma keeps_steps_map: "(\<And>x. x \<in> set xs \<Longrightarrow> keeps view (f x)) \<Longrightarrow> keeps view (stepsE (map f xs))"
  by (induction xs) (simp_all add: keeps_basic keeps_bind)

lemma keeps_if: "keeps view m \<Longrightarrow> keeps view m' \<Longrightarrow> keeps view (if b then m else m')"
  by simp

lemma keeps_option:
  "keeps view a \<Longrightarrow> (\<And>x. keeps view (f x)) \<Longrightarrow> keeps view (case v of None \<Rightarrow> a | Some x \<Rightarrow> f x)"
  by (cases v) auto

lemma keeps_sum:
  "(\<And>e. keeps view (g e)) \<Longrightarrow> (\<And>x. keeps view (f x)) \<Longrightarrow>
     keeps view (case r of Inl e \<Rightarrow> g e | Inr x \<Rightarrow> f x)"
  by (cases r) auto

lemma keeps_node:
  "(\<And>c m. keeps view (p c m)) \<Longrightarrow> (\<And>m. keeps view (d m)) \<Longrightarrow> (\<And>t. keeps view (l t)) \<Longrightarrow>
     keeps view (case n of RegularFile c m \<Rightarrow> p c m | Directory m \<Rightarrow> d m | Symlink t \<Rightarrow> l t)"
  by (cases n) auto

lemma keeps_prod: "(\<And>a b. keeps view (k a b)) \<Longrightarrow> keeps view (case pr of (a, b) \<Rightarrow> k a b)"
  by (cases pr) auto

lemma keeps_let: "(\<And>x. x = v \<Longrightarrow> keeps view (f x)) \<Longrightarrow> keeps view (Let v f)"
  by simp

lemmas frame_combinators = keeps_basic keeps_bind keeps_attempt keeps_when keeps_steps keeps_steps_map
  keeps_if keeps_option keeps_sum keeps_node keeps_prod keeps_let

section \<open>Interface: a view that does not show the clock\<close>

locale clock_view =
  fixes view :: "host \<Rightarrow> 'v"
  assumes ticks: "view (h\<lparr>hs_ticks := n\<rparr>) = view h"
    and slept: "view (h\<lparr>hs_slept := d\<rparr>) = view h"
begin

lemma keeps_syscall: "keeps view m \<Longrightarrow> keeps view (syscall env err m)"
  by (simp add: keeps_def syscall_def Let_def ticks split: option.splits)

lemma keeps_clock: "keeps view (timestamp env)" "keeps view (read_clock env)" "keeps view (sleep_ms d)"
  by (simp_all add: keeps_def timestamp_def read_clock_def sleep_ms_def modify_def ticks slept)

end

section \<open>The node of a file\<close>

interpretation file_view: clock_view "get_file p" for p
  by unfold_locales (simp_all add: get_file_def)

declare frame_combinators [file_rules] file_view.keeps_syscall [file_rules] file_view.keeps_clock [file_rules]

lemma get_put_file [simp]: "get_file q (put_file p n h) = (if q = p then Some n else get_file q h)"
  by (simp add: get_file_def put_file_def update_conv')

lemma get_delete_file [simp]: "get_file q (delete_file p h) = (if q = p then None else get_file q h)"
  by (simp add: get_file_def delete_file_def delete_conv')

lemma map_of_filter_keys: "map_of (filter (\<lambda>(p, _). P p) xs) q = (if P q then map_of xs q else None)"
  by (induction xs) auto

lemma get_delete_tree [simp]: "get_file q (delete_tree d h) = (if below d q then None else get_file q h)"
  using map_of_filter_keys [of "\<lambda>p. \<not> below d p" "hs_files h" q] by (simp add: get_file_def delete_tree_def)

lemma get_make_dirs:
  "get_file q (make_dirs p h) =
     (if get_file q h = None \<and> q \<in> set (path_prefixes p) then Some (Directory 0x1ED) else get_file q h)"
proof -
  have "get_file q (foldl (\<lambda>h d. if get_file d h = None then put_file d n h else h) h ds) =
      (if get_file q h = None \<and> q \<in> set ds then Some n else get_file q h)" for h ds n
    by (induction ds arbitrary: h) auto
  then show ?thesis by (simp add: make_dirs_def)
qed

lemma file_writes [file_rules]:
  "q \<noteq> p \<Longrightarrow> keeps (get_file q) (modify (put_file p n))"
  "q \<noteq> p \<Longrightarrow> keeps (get_file q) (modify (delete_file p))"
  "q \<notin> set (path_prefixes p) \<Longrightarrow> keeps (get_file q) (create_dir_all env a p)"
  "q \<noteq> p \<Longrightarrow> keeps (get_file q) (set_permissions env a p m)"
  "\<not> below p q \<Longrightarrow> keeps (get_file q) (remove_dir_all env a p)"
  by (auto simp: keeps_def modify_def create_dir_all_def set_permissions_def remove_dir_all_def syscall_def
      Let_def get_make_dirs below_def file_view.ticks split: option.splits file_node.splits)

lemma file_reads [file_rules]:
  "keeps (get_file q) (symlink_metadata env a p)" "keeps (get_file q) (read_dir env a p)"
  unfolding symlink_metadata_def read_dir_def by (intro file_rules)+

lemma file_resolving [file_rules]:
  "keeps (get_file q) (canonicalize env a p)" "keeps (get_file q) (read_file env a p)"
  by (auto simp: keeps_def canonicalize_def read_file_def syscall_def Let_def file_view.ticks
      split: option.splits file_node.splits)

lemma file_remove [file_rules]: "q \<noteq> p \<Longrightarrow> keeps (get_file q) (remove_file env a p)"
  unfolding remove_file_def by (intro file_rules)

lemma sync_dir_files [file_rules]: "keeps (get_file q) (sync_dir env d)"
  unfolding sync_dir_def by (intro file_rules)


section \<open>Paths above and below each other\<close>

lemma below_iff: "below d p \<longleftrightarrow> p = d \<or> (\<exists>r. p = d @ CHR ''/'' # r)"
  by (auto simp: below_def starts_with_iff)

lemma below_refl [simp]: "below p p"
  by (simp add: below_def)

lemma below_trans: "below a b \<Longrightarrow> below b c \<Longrightarrow> below a c"
  by (auto simp: below_iff)

lemma below_linear: "below q p \<Longrightarrow> below d p \<Longrightarrow> below d q \<or> below q d"
  by (auto simp: below_iff append_eq_append_conv2 append_eq_Cons_conv Cons_eq_append_conv)

lemma below_antisym: "below a b \<Longrightarrow> below b a \<Longrightarrow> a = b"
  by (auto simp: below_iff)

lemma prefix_below: 
  assumes "q \<in> set (path_prefixes p)"
  shows "below q p"
proof -
  let ?ss = "split_on (CHR ''/'') p"
  from assms obtain n where n: "2 \<le> n" "n \<le> length ?ss" and q: "q = join_with (CHR ''/'') (take n ?ss)"
    by (auto simp: path_prefixes_def)
  have p: "p = join_with (CHR ''/'') (take n ?ss @ drop n ?ss)" by simp
  show ?thesis
  proof (cases "n = length ?ss")
    case True
    with q show ?thesis by simp
  next
    case False
    have "p = q @ CHR ''/'' # join_with (CHR ''/'') (drop n ?ss)"
      using p n False q join_with_append [of "take n ?ss" "drop n ?ss" "CHR ''/''"] 
      by (metis drop_eq_Nil2 le_antisym not_numeral_le_zero split_on_nonempty take_eq_Nil)
    then show ?thesis by (auto simp: below_iff)
  qed
qed

lemma parent_below: "CHR ''/'' \<in> set p \<Longrightarrow> below (path_parent p) p \<and> path_parent p \<noteq> p"
proof -
  assume "CHR ''/'' \<in> set p"
  then obtain a b where ab: "split_once (CHR ''/'') (rev p) = Some (a, b)"
    by (metis not_None_eq prod.exhaust set_rev split_once_None)
  then have "rev p = a @ CHR ''/'' # b" by (simp add: split_once_Some)
  then have "p = rev b @ CHR ''/'' # rev a" by (metis rev.simps(2) rev_append rev_rev_ident append.assoc append_Cons append_Nil)
  with ab show ?thesis by (auto simp: path_parent_def rsplit_once_def below_iff)
qed


lemma self_prefix: "CHR ''/'' \<in> set p \<Longrightarrow> p \<in> set (path_prefixes p)"
proof -
  let ?ss = "split_on (CHR ''/'') p"
  assume "CHR ''/'' \<in> set p"
  then obtain a b where "p = a @ CHR ''/'' # b" "CHR ''/'' \<notin> set a"
    by (metis split_list_first)
  then have "?ss = a # split_on (CHR ''/'') b" by (simp add: split_on_append_sep)
  then have "2 \<le> length ?ss" by (cases "split_on (CHR ''/'') b") auto
  then have "length ?ss \<in> set [2 ..< length ?ss + 1]" by simp
  then have "join_with (CHR ''/'') (take (length ?ss) ?ss) \<in> set (path_prefixes p)"
    unfolding path_prefixes_def set_map by (rule imageI)
  then show ?thesis by simp
qed

section \<open>Successful commands\<close>

lemma bindE_Inr: "bindE m f h = (Inr y, h'') \<longleftrightarrow> (\<exists>x h'. m h = (Inr x, h') \<and> f x h' = (Inr y, h''))"
  by (auto simp: bindE_def split: prod.splits sum.splits)

lemma syscall_Inr: "syscall env err body h = (Inr x, h') \<longleftrightarrow>
    en_fault env (hs_ticks h) = None \<and> body (h\<lparr>hs_ticks := Suc (hs_ticks h)\<rparr>) = (Inr x, h')"
  by (auto simp: syscall_def Let_def split: option.splits)

lemma create_dir_all_Inr:
  assumes "create_dir_all env a p h = (Inr u, h')"
  shows "get_file q h' = (if get_file q h = None \<and> q \<in> set (path_prefixes p) then Some (Directory 0x1ED) else get_file q h)"
    "q \<in> set (path_prefixes p) \<Longrightarrow> get_file q h \<noteq> Some (RegularFile c m)"
  using assms by (auto simp: create_dir_all_def syscall_Inr get_make_dirs list_ex_iff file_view.ticks
      split: if_splits option.splits file_node.splits)

lemma set_permissions_Inr:
  assumes "set_permissions env a p m h = (Inr u, h')"
  shows "get_file q h' = (if q = p then map_option (chmod m) (get_file p h) else get_file q h)"
  using assms by (auto simp: set_permissions_def syscall_Inr file_view.ticks split: option.splits)

end
