(* ===== verification/Release_Envelope.thy ===== *)
theory Release_Envelope
  imports Release_Activation Release_Frame
begin

text \<open>
  What the commands of the release manager do to the state envelope, for every environment:
  whichever calls fail and wherever the machine stops. A first group of lemmas shows that
  every command outside \<open>state.rs\<close> leaves the envelope alone; the interface
  \<open>envelope_invariant\<close> says what an invariant of the envelope has to be closed under to
  survive rollback, recovery and the phases of an activation; \<open>commit_invariant\<close> adds the
  one step that changes the active release.
\<close>

section \<open>Commands that leave the state envelope alone\<close>

text \<open>
  A command is quiet when it changes neither the state file nor the state in memory.
\<close>

definition envelope_view :: "host \<Rightarrow> state_file \<times> manager_state" where
  "envelope_view h = (hs_state h, hs_mem h)"

abbreviation quiet :: "'a command \<Rightarrow> bool" where
  "quiet m \<equiv> keeps envelope_view m"

named_theorems quiet_rules \<open>commands that leave the state envelope alone\<close>

interpretation envelope_clock: clock_view envelope_view
  by unfold_locales (simp_all add: envelope_view_def)

lemmas quiet_combinators = keeps_basic envelope_clock.keeps_clock
lemmas quiet_def = keeps_def envelope_view_def

declare frame_combinators [quiet_rules] envelope_clock.keeps_syscall [quiet_rules]
  envelope_clock.keeps_clock [quiet_rules]

lemma quiet_when_some [quiet_rules]: "(\<And>x. quiet (f x)) \<Longrightarrow> quiet (when_someE f v)"
  by (cases v) (simp_all add: when_someE_def quiet_combinators)

lemma quiet_modify [quiet_rules]:
  "quiet (modify (put_file p n))" "quiet (modify (delete_file p))" "quiet (create_dir_all env a p)"
proof -
  have "hs_state (foldl (\<lambda>h d. if get_file d h = None then put_file d n h else h) h ds) = hs_state h
      \<and> hs_mem (foldl (\<lambda>h d. if get_file d h = None then put_file d n h else h) h ds) = hs_mem h" for h ds n
    by (induction ds arbitrary: h) (simp_all add: put_file_def)
  then show "quiet (create_dir_all env a p)"
    by (simp add: quiet_def create_dir_all_def make_dirs_def syscall_def Let_def split: option.splits)
qed (simp_all add: quiet_def modify_def put_file_def delete_file_def)

lemma quiet_file_leaves [quiet_rules]:
  "quiet (set_permissions env a p m)" "quiet (remove_dir_all env a p)" "quiet (canonicalize env a p)"
  "quiet (systemctl_disable env u)"
  by (auto simp: quiet_def set_permissions_def remove_dir_all_def canonicalize_def syscall_def Let_def
      systemctl_disable_def put_file_def delete_file_def delete_tree_def
      split: option.splits file_node.splits)

lemma quiet_cmd [quiet_rules]:
  "(\<And>h. hs_state (effect h) = hs_state h \<and> hs_mem (effect h) = hs_mem h) \<Longrightarrow>
     quiet (execute_cmd env verb u effect)"
  by (simp add: quiet_def execute_cmd_def syscall_def Let_def modify_def split: option.splits)

lemma quiet_outcome [quiet_rules]:
  "quiet s \<Longrightarrow> (\<And>x. quiet (f x)) \<Longrightarrow> (\<And>x. quiet (g x)) \<Longrightarrow>
     quiet (case oc of Success \<Rightarrow> s | Transient x \<Rightarrow> f x | Fatal x \<Rightarrow> g x)"
  by (cases oc) auto

lemma quiet_host [quiet_rules]:
  "quiet (symlink_metadata env a p)" "quiet (remove_file env a p)" "quiet (read_dir env a p)"
  unfolding symlink_metadata_def remove_file_def read_dir_def
  by (intro quiet_rules)+

lemma quiet_durable [quiet_rules]:
  "quiet (sync_dir env d)" "quiet (ensure_directory env p a)"
  unfolding sync_dir_def ensure_directory_def by (intro quiet_rules)+

lemma quiet_writes [quiet_rules]:
  "quiet (atomic_write_file env p c m)" "quiet (atomic_symlink env t l)"
  unfolding atomic_write_file_def atomic_write_def atomic_symlink_def by (intro quiet_rules)+

lemma quiet_copy [quiet_rules]: "quiet (copy_file_durable env src dst m)"
  unfolding copy_file_durable_def by (intro quiet_rules)

lemma quiet_systemctl [quiet_rules]:
  "quiet (systemctl_daemon_reload env)" "quiet (systemctl_start env u)" "quiet (systemctl_stop env u)"
  "quiet (systemctl_enable env u)" "quiet (systemctl_is_enabled env u)"
  "quiet (systemctl_is_active env u)"
  unfolding systemctl_daemon_reload_def systemctl_start_def systemctl_stop_def systemctl_enable_def
    systemctl_is_enabled_def systemctl_is_active_def
  by (intro quiet_rules; simp)+

lemma quiet_disable [quiet_rules]: "quiet (disable_if_enabled env u)"
  unfolding disable_if_enabled_def by (intro quiet_rules)

lemma quiet_units [quiet_rules]:
  "quiet (backup_unit_file env sd bd n)" "quiet (ensure_private_directory env p)"
  "quiet (install_unit_file env p sd)" "quiet (restore_entry env bd sd e)"
  "quiet (remove_unit_file env n sd)"
  unfolding backup_unit_file_def ensure_private_directory_def install_unit_file_def
    restore_entry_def remove_unit_file_def
  by (intro quiet_rules)+

lemma quiet_unit_sets [quiet_rules]:
  "quiet (backup_unit_files env ns sd bd)" "quiet (restore_unit_files env bd sd)"
  unfolding backup_unit_files_def restore_unit_files_def by (intro quiet_rules)+

lemma quiet_probe [quiet_rules]: "quiet (probe_target env t)"
  by (simp add: quiet_def probe_target_def Let_def)

lemma quiet_probe_round [quiet_rules]: "quiet (probe_round env ts)"
  by (induction env ts rule: probe_round.induct) (simp_all, (intro quiet_rules; simp)+)

lemma quiet_health_loop [quiet_rules]: "quiet (health_loop env ps ts fuel start c r)"
proof (induction fuel arbitrary: c r)
  case 0
  show ?case by (simp add: quiet_combinators)
next
  case (Suc fuel)
  show ?case unfolding health_loop.simps by (intro quiet_rules Suc)
qed

lemma quiet_check [quiet_rules]: "quiet (check env w)" "quiet (path_exists env p)"
  unfolding check_def path_exists_def by (intro quiet_rules)+

lemma quiet_health [quiet_rules]:
  "quiet (wait_for_health_stability env ps ts)" "quiet (build_candidate_health_targets env c)"
  unfolding wait_for_health_stability_def build_candidate_health_targets_def by (intro quiet_rules)+

lemma quiet_probe_candidate [quiet_rules]: "quiet (probe_candidate env c)"
  unfolding probe_candidate_def by (intro quiet_rules)

lemma quiet_pipeline_parts [quiet_rules]:
  "quiet (stop_services env us)" "quiet (stop_stray_listeners env)"
  "quiet (remove_if_present env a b p)" "quiet (install_pending_entry env ly c p e)"
  "quiet (chmod_if_exists env p m)" "quiet (start_role env r)" "quiet (set_enablement env w u)"
  unfolding stop_services_def stop_stray_listeners_def remove_if_present_def
    install_pending_entry_def chmod_if_exists_def start_role_def set_enablement_def
  by (intro quiet_rules)+

lemma quiet_pipeline [quiet_rules]:
  "quiet (pipeline_quiesce env)" "quiet (pipeline_backup env ly tx)"
  "quiet (pipeline_install_units env ly c)" "quiet (pipeline_public_config env ly tx c)"
  "quiet (ensure_etc_config_permissions env ly)" "quiet (pipeline_enable env r)"
  unfolding pipeline_quiesce_def pipeline_backup_def pipeline_install_units_def
    pipeline_public_config_def ensure_etc_config_permissions_def pipeline_enable_def
  by (intro quiet_rules)+

lemma quiet_read_file [quiet_rules]: "quiet (read_file env a p)"
  by (auto simp: quiet_def read_file_def syscall_def Let_def split: option.splits file_node.splits)

lemma quiet_exchange [quiet_rules]: "quiet (atomic_exchange_directories env a b)"
proof -
  have "quiet (rename_exchange a b)"
    by (auto simp: quiet_def rename_exchange_def exchange_trees_def Let_def)
  then show ?thesis unfolding atomic_exchange_directories_def by (intro quiet_rules)
qed

lemma quiet_migration_parts [quiet_rules]:
  "quiet (regular_if_present env a x p)" "quiet (exchange_back env ly m)"
  "quiet (restore_wants_link env u w)" "quiet (check_imported_binary env ly m)"
  "quiet (remove_old_root env p)"
  unfolding regular_if_present_def exchange_back_def restore_wants_link_def check_imported_binary_def
    remove_old_root_def
  by (intro quiet_rules)+

lemma quiet_unit_source [quiet_rules]: "quiet (legacy_unit_backup env ly m)"
  unfolding legacy_unit_backup_def by (intro quiet_rules)

lemma quiet_migration [quiet_rules]:
  "quiet (execute_migration_exchange env ly m)" "quiet (rollback_migration_exchange env ly m)"
  "quiet (commit_migration_cleanup env ly m)"
  unfolding execute_migration_exchange_def rollback_migration_exchange_def commit_migration_cleanup_def
  by (intro quiet_rules)+

lemma quiet_transactions [quiet_rules]:
  "quiet (transaction_from_id env ly i)" "quiet (transaction_new env ly)"
  "quiet (open_transaction env ly)"
proof -
  show q: "quiet (transaction_from_id env ly i)" for i
    unfolding transaction_from_id_def by (intro quiet_rules)
  show n: "quiet (transaction_new env ly)"
    unfolding transaction_new_def by (intro quiet_rules q)
  show "quiet (open_transaction env ly)"
    unfolding open_transaction_def by (intro quiet_rules q n)
qed

lemma quiet_rollback_parts [quiet_rules]:
  "quiet (stop_and_disable_unit env sd u)" "quiet (restore_units_backup env ly b)"
  "quiet (restore_public_config env ly b)"
  unfolding stop_and_disable_unit_def restore_units_backup_def restore_public_config_def
  by (intro quiet_rules)+

lemma quiet_rollback [quiet_rules]:
  "quiet (stop_and_disable_units env us sd)" "quiet (restore_backups env ly t)"
  unfolding stop_and_disable_units_def restore_backups_def by (intro quiet_rules)+

lemma quiet_ignored [quiet_rules]: "quiet m \<Longrightarrow> quiet (ignored m)"
  unfolding ignored_def by (intro quiet_rules)

lemma quiet_config [quiet_rules]:
  "quiet (read_config_file env p)" "quiet (save_host_config env p c)" "quiet (resolve_identity env e)"
  "quiet (hash_optional_file env p)"
  unfolding read_config_file_def save_host_config_def resolve_identity_def hash_optional_file_def
  by (intro quiet_rules)+

lemma quiet_load_config [quiet_rules]: "quiet (load_host_config env p)"
  unfolding load_host_config_def by (intro quiet_rules)

lemma quiet_user_toml [quiet_rules]: "quiet (copy_or_write_user_toml env p)"
proof -
  have "quiet (\<lambda>h.
      case get_file ''/etc/dam-hopper/dam-hopper.toml'' h of
        Some (RegularFile c m) \<Rightarrow> (Inr (), put_file p (RegularFile c m) h)
      | _ \<Rightarrow> (Inl (io ''copy'' ''not a file''), h))"
    by (auto simp: quiet_def put_file_def split: option.splits file_node.splits)
  then show ?thesis unfolding copy_or_write_user_toml_def by (intro quiet_rules)
qed

lemma quiet_user_config [quiet_rules]: "quiet (ensure_user_config_ownership env home)"
  unfolding ensure_user_config_ownership_def ensure_user_config_base_def by (intro quiet_rules)

lemma quiet_start [quiet_rules]: "quiet (start_active env ly su a)"
  unfolding start_active_def start_server_def start_installed_identity_def by (intro quiet_rules)

lemma quiet_retention_parts [quiet_rules]:
  "quiet (verify_candidate_integrity env p)" "quiet (clean_staging env ly t)"
  unfolding verify_candidate_integrity_def clean_staging_def by (intro quiet_rules)+

lemma quiet_gather [quiet_rules]: "quiet (gather_candidates env d refs cr cc es)"
  by (induction env d refs cr cc es rule: gather_candidates.induct)
    (simp_all add: judge_entry_def, (intro quiet_rules; simp?)+)

lemma quiet_retention [quiet_rules]: "quiet (apply_retention env ly s)"
  unfolding apply_retention_def by (intro quiet_rules)

lemma quiet_lock [quiet_rules]: "quiet (acquire_lock env)"
  unfolding acquire_lock_def by (intro quiet_rules)

lemma quiet_repair_pointers [quiet_rules]: "quiet (repair_active_pointers env ly a)"
  unfolding repair_active_pointers_def by (intro quiet_rules)

lemma quiet_recovery [quiet_rules]:
  "quiet (repair_active env ly s)" "quiet (stop_and_disable_services env us)"
  unfolding repair_active_def stop_and_disable_services_def by (intro quiet_rules)+

section \<open>Interface: what an invariant of the state envelope has to be closed under\<close>

definition holds :: "(state_file \<Rightarrow> manager_state \<Rightarrow> bool) \<Rightarrow> host \<Rightarrow> bool" where
  "holds I h \<longleftrightarrow> I (hs_state h) (hs_mem h)"

text \<open>\<open>leads I m J\<close>: from a host where \<open>I\<close> holds the command leaves one where \<open>J\<close> holds.\<close>

definition leads ::
  "(state_file \<Rightarrow> manager_state \<Rightarrow> bool) \<Rightarrow> 'a command \<Rightarrow> (state_file \<Rightarrow> manager_state \<Rightarrow> bool) \<Rightarrow> bool" where
  "leads I m J \<longleftrightarrow> (\<forall>h. holds I h \<longrightarrow> holds J (snd (m h)))"

definition yields :: "('a \<Rightarrow> bool) \<Rightarrow> 'a command \<Rightarrow> bool" where
  "yields P m \<longleftrightarrow> (\<forall>h x h'. m h = (Inr x, h') \<longrightarrow> P x)"

lemma leads_quiet: "quiet m \<Longrightarrow> leads I m I"
  by (simp add: leads_def holds_def quiet_def)

text \<open>
  A command that fails keeps the first invariant; the rule needs it to imply the second.
\<close>

lemma leads_bind:
  assumes "leads I m I" "yields P m" "\<And>x. P x \<Longrightarrow> leads I (f x) J" "\<And>g s. I g s \<Longrightarrow> J g s"
  shows "leads I (bindE m f) J"
  unfolding leads_def
proof (intro allI impI)
  fix h assume "holds I h"
  obtain r h' where m: "m h = (r, h')" by (cases "m h")
  with assms(1) \<open>holds I h\<close> have h': "holds I h'" unfolding leads_def by (metis snd_conv)
  show "holds J (snd (bindE m f h))"
  proof (cases r)
    case (Inl e)
    with m h' assms(4) show ?thesis by (simp add: bindE_def holds_def)
  next
    case (Inr x)
    with m assms(2) have "P x" unfolding yields_def by blast
    with h' assms(3) m Inr show ?thesis by (simp add: bindE_def leads_def)
  qed
qed

lemma yields_any: "yields (\<lambda>_. True) m"
  by (simp add: yields_def)

lemma leads_bind_any:
  "leads I m I \<Longrightarrow> (\<And>x. leads I (f x) I) \<Longrightarrow> leads I (bindE m f) I"
  by (rule leads_bind [OF _ yields_any]) auto

lemma leads_attempt: "leads I m J \<Longrightarrow> leads I (attempt m) J"
  by (simp add: leads_def attempt_def case_prod_beta)

lemma leads_when: "leads I m I \<Longrightarrow> leads I (whenE b m) I"
  by (simp add: whenE_def leads_quiet quiet_combinators)

lemma leads_when_some: "(\<And>x. leads I (f x) I) \<Longrightarrow> leads I (when_someE f v) I"
  by (cases v) (simp_all add: when_someE_def leads_quiet quiet_combinators)

lemma leads_option:
  "leads I a J \<Longrightarrow> (\<And>x. leads I (f x) J) \<Longrightarrow> leads I (case v of None \<Rightarrow> a | Some x \<Rightarrow> f x) J"
  by (cases v) auto

lemma leads_sum:
  "(\<And>e. leads I (g e) J) \<Longrightarrow> (\<And>x. leads I (f x) J) \<Longrightarrow>
     leads I (case r of Inl e \<Rightarrow> g e | Inr x \<Rightarrow> f x) J"
  by (cases r) auto

lemma leads_steps:
  "leads I (stepsE []) I" "leads I m I \<Longrightarrow> leads I (stepsE ms) I \<Longrightarrow> leads I (stepsE (m # ms)) I"
  by (simp_all add: leads_quiet quiet_combinators leads_bind_any)

lemma leads_node:
  "(\<And>c m. leads I (p c m) J) \<Longrightarrow> (\<And>m. leads I (d m) J) \<Longrightarrow> (\<And>t. leads I (l t) J) \<Longrightarrow>
     leads I (case n of RegularFile c m \<Rightarrow> p c m | Directory m \<Rightarrow> d m | Symlink t \<Rightarrow> l t) J"
  by (cases n) auto

lemma leads_prod: "(\<And>a b. leads I (k a b) J) \<Longrightarrow> leads I (case pr of (a, b) \<Rightarrow> k a b) J"
  by (cases pr) auto

lemma leads_if: "leads I m J \<Longrightarrow> leads I m' J \<Longrightarrow> leads I (if b then m else m') J"
  by simp

lemma leads_let: "(\<And>x. leads I (f x) J) \<Longrightarrow> leads I (Let v f) J"
  by simp

lemma leads_syscall:
  assumes "leads I m I"
  shows "leads I (syscall env err m) I"
  unfolding leads_def
proof (intro allI impI)
  fix h assume "holds I h"
  then have "holds I (h\<lparr>hs_ticks := Suc (hs_ticks h)\<rparr>)" by (simp add: holds_def)
  with assms show "holds I (snd (syscall env err m h))"
    by (simp add: leads_def syscall_def Let_def split: option.splits)
qed

lemmas leads_rules = leads_quiet leads_bind_any leads_attempt leads_when leads_when_some
  leads_option leads_sum leads_steps leads_node leads_prod leads_if leads_let

definition bumped :: "string \<Rightarrow> manager_state \<Rightarrow> manager_state" where
  "bumped now s = s\<lparr>ms_generation := saturating_add (ms_generation s) 1, ms_updated_at := now\<rparr>"

lemma save_run: "save_manager_state env ly h =
      (case validate_manager_state (en_semver env) (bumped (en_now env (hs_ticks h)) (hs_mem h)) of
       Inl e \<Rightarrow> (Inl e, h\<lparr>hs_ticks := Suc (hs_ticks h), hs_mem := bumped (en_now env (hs_ticks h)) (hs_mem h)\<rparr>)
     | Inr _ \<Rightarrow> atomic_write env (manager_state_path ly)
           (\<lambda>h'. h'\<lparr>hs_state := StateFile (en_json_size env (bumped (en_now env (hs_ticks h)) (hs_mem h)))
              (Inr (bumped (en_now env (hs_ticks h)) (hs_mem h)))\<rparr>)
           (h\<lparr>hs_ticks := Suc (hs_ticks h), hs_mem := bumped (en_now env (hs_ticks h)) (hs_mem h)\<rparr>))"
  by (simp add: save_manager_state_def bindE_def timestamp_def modify_def gets_def liftE_def bumped_def
      split: sum.splits)

text \<open>
  First the laws that a command needs which only stores candidates and saves.
\<close>

locale saving_invariant =
  fixes env :: env
    and I :: "state_file \<Rightarrow> manager_state \<Rightarrow> bool"
  assumes bump: "I f s \<Longrightarrow> I f (bumped now s)"
    and persist: "I f s \<Longrightarrow> validate_manager_state (en_semver env) s = Inr u \<Longrightarrow>
      I (StateFile (en_json_size env s) (Inr s)) s"
    and edit_pending: "I f s \<Longrightarrow> I f (s\<lparr>ms_pending := p\<rparr>)"
begin

lemma leads_update: "(\<And>f s. I f s \<Longrightarrow> I f (g s)) \<Longrightarrow> leads I (update_state g) I"
  by (simp add: leads_def holds_def update_state_def modify_def)

lemma leads_save: "leads I (save_manager_state env ly) I"
  unfolding leads_def
proof (intro allI impI)
  fix h assume "holds I h"
  define now where "now = en_now env (hs_ticks h)"
  define s where "s = bumped now (hs_mem h)"
  define h1 where "h1 = h\<lparr>hs_ticks := Suc (hs_ticks h), hs_mem := s\<rparr>"
  let ?w = "\<lambda>h. h\<lparr>hs_state := StateFile (en_json_size env s) (Inr s)\<rparr>"
  have I1: "I (hs_state h) s" using \<open>holds I h\<close> by (simp add: s_def holds_def bump)
  have run: "save_manager_state env ly h =
      (case validate_manager_state (en_semver env) s of
         Inl e \<Rightarrow> (Inl e, h1) | Inr _ \<Rightarrow> atomic_write env (manager_state_path ly) ?w h1)"
    by (simp add: save_run s_def now_def h1_def split: sum.splits)
  show "holds I (snd (save_manager_state env ly h))"
  proof (cases "validate_manager_state (en_semver env) s")
    case (Inl e)
    with run I1 show ?thesis by (simp add: holds_def h1_def)
  next
    case (Inr u)
    let ?K = "\<lambda>f m. I f m \<and> m = s"
    have persisted: "leads ?K (modify ?w) ?K"
      using persist [OF _ Inr] by (auto simp: leads_def holds_def modify_def)
    have "leads ?K (atomic_write env (manager_state_path ly) ?w) ?K"
      unfolding atomic_write_def
      by (intro leads_steps leads_quiet quiet_rules leads_syscall [OF persisted])
    moreover have "holds ?K h1" using I1 by (simp add: holds_def h1_def)
    ultimately have "holds ?K (snd (atomic_write env (manager_state_path ly) ?w h1))"
      unfolding leads_def by blast
    then have "holds I (snd (atomic_write env (manager_state_path ly) ?w h1))"
      unfolding holds_def by blast
    then show ?thesis using run Inr by simp
  qed
qed

lemma leads_rewrite: "leads I (rewrite_pending_unit env ly u g c p) I"
  unfolding rewrite_pending_unit_def
  by (intro leads_rules quiet_rules leads_save leads_update edit_pending; assumption?)

lemma leads_prepare: "leads I (prepare_service_identity env ly su c) I"
  unfolding prepare_service_identity_def by (intro leads_rules quiet_rules leads_rewrite)

end

text \<open>Then those of a command that also loads, journals phases and records failures.\<close>

locale envelope_invariant = saving_invariant +
  assumes load: "I (StateFile n (Inr s)) m \<Longrightarrow> validate_manager_state (en_semver env) s = Inr u \<Longrightarrow>
      I (StateFile n (Inr s)) s"
    and init: "I StateMissing m \<Longrightarrow> I StateMissing (manager_state_default now)"
    and edit_transaction: "I f s \<Longrightarrow> I f (s\<lparr>ms_transaction := t\<rparr>)"
    and edit_failure: "I f s \<Longrightarrow> I f (s\<lparr>ms_latest_failure := x\<rparr>)"
begin

lemma leads_load: "leads I (load_or_init_manager_state env ly) I"
  unfolding leads_def
proof (intro allI impI)
  fix h assume "holds I h"
  then show "holds I (snd (load_or_init_manager_state env ly h))"
    by (auto simp: load_or_init_manager_state_def bindE_def syscall_def gets_def Let_def timestamp_def
        modify_def failE_def retE_def liftE_def holds_def init dest: load
        split: option.splits state_file.splits sum.splits)
qed

lemma leads_record_phase: "leads I (record_phase env ly tx d p) I"
  unfolding record_phase_def
  by (intro leads_rules quiet_rules leads_save leads_update edit_transaction) auto

lemma leads_record_failure: "leads I (record_failure env ly tx p msg) I"
  unfolding record_failure_def
  by (intro leads_rules quiet_rules leads_save leads_update edit_failure) auto

lemma leads_close: "leads I (close_transaction env ly t p r) I"
  unfolding close_transaction_def
  by (intro leads_rules quiet_rules leads_save leads_update) (auto intro: edit_transaction edit_failure)

lemma leads_mark: "leads I (mark_recovery_required env ly a e) I"
  unfolding mark_recovery_required_def
  by (intro leads_rules quiet_rules leads_save leads_update) (auto intro: edit_transaction edit_failure)

lemma leads_rollback:
  "leads I (rollback_activation_failure env ly reason) I"
  unfolding rollback_activation_failure_def rollback_first_install_def rollback_restore_active_def
  by (intro leads_rules quiet_rules leads_load leads_close leads_mark)

lemma leads_recover:
  "leads I (recover env ly is_boot s a) I"
  unfolding recover_def
  by (cases a) (simp_all del: stepsE.simps, (intro leads_rules quiet_rules leads_rollback
      leads_save leads_update edit_transaction; assumption?)+)

lemma leads_switch: "leads I (pipeline_switch env ly tx c) I"
  unfolding pipeline_switch_def by (intro leads_rules quiet_rules leads_record_phase)

lemma leads_migrate:
  "leads I (pipeline_migrate env ly c) I"
  unfolding pipeline_migrate_def
  by (intro leads_rules quiet_rules leads_save leads_update edit_transaction edit_pending
     ; assumption?)

lemma leads_cleanup:
  "leads I (migration_cleanup env ly m) I"
  unfolding migration_cleanup_def
  by (intro leads_rules quiet_rules leads_save leads_update edit_failure;
      assumption?)

lemma leads_committed:
  "leads I (activation_committed env ly m) I"
  unfolding activation_committed_def by (intro leads_rules quiet_rules leads_cleanup)

lemma leads_failed:
  "leads I (activation_failed env ly tx e) I"
  unfolding activation_failed_def
  by (intro leads_rules quiet_rules leads_record_failure leads_rollback)

end

section \<open>Candidates keep their tag and role\<close>

lemma yields_bind: "(\<And>x. yields P (f x)) \<Longrightarrow> yields P (bindE m f)"
  by (auto simp: yields_def bindE_def split: prod.splits sum.splits)

lemma yields_through:
  assumes "yields P m" "\<And>x. P x \<Longrightarrow> yields Q (f x)"
  shows "yields Q (bindE m f)"
  unfolding yields_def
proof (intro allI impI)
  fix h y h' assume "bindE m f h = (Inr y, h')"
  then obtain x h1 where "m h = (Inr x, h1)" "f x h1 = (Inr y, h')"
    by (auto simp: bindE_def split: prod.splits sum.splits)
  with assms show "Q y" unfolding yields_def by blast
qed

lemma yields_ret: "P x \<Longrightarrow> yields P (retE x)"
  by (simp add: yields_def retE_def)

lemma yields_fail: "yields P (failE e)"
  by (simp add: yields_def failE_def)

lemma yields_option:
  "yields P a \<Longrightarrow> (\<And>x. yields P (f x)) \<Longrightarrow> yields P (case v of None \<Rightarrow> a | Some x \<Rightarrow> f x)"
  by (cases v) auto

lemma yields_node:
  "(\<And>c m. yields P (p c m)) \<Longrightarrow> (\<And>m. yields P (d m)) \<Longrightarrow> (\<And>t. yields P (l t)) \<Longrightarrow>
     yields P (case n of RegularFile c m \<Rightarrow> p c m | Directory m \<Rightarrow> d m | Symlink t \<Rightarrow> l t)"
  by (cases n) auto

lemma yields_if: "yields P a \<Longrightarrow> yields P b \<Longrightarrow> yields P (if c then a else b)"
  by simp

lemma yields_let: "(\<And>x. x = v \<Longrightarrow> yields P (f x)) \<Longrightarrow> yields P (Let v f)"
  by simp

lemma yields_prod: "(\<And>a b. yields P (k a b)) \<Longrightarrow> yields P (case pr of (a, b) \<Rightarrow> k a b)"
  by (cases pr) auto

lemmas yields_rules = yields_bind yields_ret yields_fail yields_option yields_node yields_if
  yields_let yields_prod

definition same_candidate :: "pending_candidate_record \<Rightarrow> pending_candidate_record \<Rightarrow> bool" where
  "same_candidate c c' \<longleftrightarrow> pc_tag c' = pc_tag c \<and> pc_role c' = pc_role c"

lemma yields_rewrite: "same_candidate c0 c \<Longrightarrow> yields (same_candidate c0) (rewrite_pending_unit env ly u g c p)"
  unfolding rewrite_pending_unit_def by (intro yields_rules) (simp_all add: same_candidate_def)

lemma yields_prepare: "yields (same_candidate c) (prepare_service_identity env ly su c)"
  unfolding prepare_service_identity_def
  by (intro yields_rules yields_rewrite) (simp_all add: same_candidate_def)

lemma yields_migrate: "same_candidate c0 c \<Longrightarrow> yields (same_candidate c0) (pipeline_migrate env ly c)"
  unfolding pipeline_migrate_def
  by (rule yields_bind, rule yields_through [where P = "same_candidate c0"])
    (auto intro!: yields_rules simp: same_candidate_def)

section \<open>Interface: an invariant across the commit\<close>

text \<open>
  \<open>I\<close> holds up to the commit of a candidate like \<open>c0\<close>, \<open>J\<close> from then on.
\<close>

locale commit_invariant =
  pre: envelope_invariant env I + post: envelope_invariant env J
  for env :: env and I J :: "state_file \<Rightarrow> manager_state \<Rightarrow> bool" +
  fixes ly :: layout and c0 :: pending_candidate_record
  assumes weaken: "I f s \<Longrightarrow> J f s"
    and commit: "I f s \<Longrightarrow> same_candidate c0 c \<Longrightarrow> J f (committed_state ly now now' c s)"
begin

lemma leads_commit: "same_candidate c0 c \<Longrightarrow> leads I (pipeline_commit env ly c) J"
proof -
  assume c: "same_candidate c0 c"
  have upd: "leads I (update_state (committed_state ly now now' c)) J" for now now'
    using commit [OF _ c] by (simp add: leads_def holds_def update_state_def modify_def)
  note step = leads_bind [where P = "\<lambda>_. True", OF _ yields_any _ weaken]
  have both: "leads I (bindE (update_state (committed_state ly now now' c))
      (\<lambda>_. save_manager_state env ly)) J" for now now'
    unfolding leads_def
  proof (intro allI impI)
    fix h assume "holds I h"
    with upd have "holds J (snd (update_state (committed_state ly now now' c) h))"
      unfolding leads_def by blast
    with post.leads_save show "holds J (snd (bindE (update_state (committed_state ly now now' c))
        (\<lambda>_. save_manager_state env ly) h))"
      by (simp add: bindE_def update_state_def modify_def leads_def)
  qed
  show ?thesis
    unfolding pipeline_commit_def
    by (rule step, intro leads_quiet quiet_rules, rule step, intro leads_quiet quiet_rules, rule both)
qed

lemma leads_pipeline:
  assumes c: "same_candidate c0 c"
  shows "leads I (execute_activation_pipeline env ly tx c) J"
proof -
  note step = leads_bind [where P = "\<lambda>_. True", OF _ yields_any _ weaken]
  have rest: "leads I (bindE (pipeline_install_units env ly c') (\<lambda>_.
      bindE (pipeline_public_config env ly tx c') (\<lambda>_.
      bindE (pipeline_switch env ly tx c') (\<lambda>_.
      bindE (pipeline_enable env (pc_role c')) (\<lambda>_. pipeline_commit env ly c'))))) J"
    if "same_candidate c0 c'" for c'
    by (intro step leads_commit that) (intro leads_quiet quiet_rules pre.leads_switch)+
  have mig: "leads I (if b then pipeline_migrate env ly c else retE c) I"
      "yields (same_candidate c0) (if b then pipeline_migrate env ly c else retE c)" for b
    using pre.leads_migrate yields_migrate [OF c] yields_ret [of "same_candidate c0" c] c
    by (auto intro: leads_quiet quiet_combinators)
  show ?thesis
    unfolding execute_activation_pipeline_def
    by (intro step leads_bind [OF mig rest weaken]) (intro leads_quiet quiet_rules)+
qed

lemma leads_activate:
  "leads I (activate_candidate env ly su c0) J"
proof -
  note step = leads_bind [where P = "\<lambda>_. True", OF _ yields_any _ weaken]
  have fin: "leads I (bindE (attempt (execute_activation_pipeline env ly tx c)) (\<lambda>r.
      case r of Inl err \<Rightarrow> activation_failed env ly tx err
      | Inr _ \<Rightarrow> activation_committed env ly m)) J"
    if "same_candidate c0 c" for tx c m
  proof -
    have a: "leads I (attempt (execute_activation_pipeline env ly tx c)) J"
      by (intro leads_attempt leads_pipeline that)
    have b: "leads J (case r of Inl err \<Rightarrow> activation_failed env ly tx err
        | Inr _ \<Rightarrow> activation_committed env ly m) J" for r
      by (intro leads_sum post.leads_failed post.leads_committed)
    show ?thesis
      unfolding leads_def
    proof (intro allI impI)
      fix h assume "holds I h"
      with a have h': "holds J (snd (attempt (execute_activation_pipeline env ly tx c) h))"
        unfolding leads_def by blast
      obtain r h1 where r: "execute_activation_pipeline env ly tx c h = (r, h1)"
        by (cases "execute_activation_pipeline env ly tx c h")
      with h' have "holds J h1" by (simp add: attempt_def)
      with b [of r] show "holds J (snd (bindE (attempt (execute_activation_pipeline env ly tx c))
          (\<lambda>r. case r of Inl err \<Rightarrow> activation_failed env ly tx err
           | Inr _ \<Rightarrow> activation_committed env ly m) h))"
        unfolding leads_def by (simp add: bindE_def attempt_def r)
    qed
  qed
  have prep: "leads I (if b then prepare_service_identity env ly su c0 else retE c0) I"
      "yields (same_candidate c0) (if b then prepare_service_identity env ly su c0 else retE c0)" for b
    using pre.leads_prepare yields_prepare
    by (auto intro: leads_quiet quiet_combinators yields_ret simp: same_candidate_def)
  show ?thesis
    unfolding activate_candidate_def
    by (intro leads_bind [OF prep _ weaken] step fin)
      (intro leads_quiet quiet_rules pre.leads_record_phase)+
qed

end

end
