(* ===== verification/Release_Health.thy ===== *)
theory Release_Health
  imports Release_Activation
begin

text \<open>
  The health loop of \<open>linux_release/health.rs\<close>: it ends, and it only reports stability after
  the required number of healthy rounds in a row, the last of which is its last probe.
\<close>

section \<open>Termination\<close>

text \<open>
  The loop sleeps for the interval in every round, so after \<open>health_fuel\<close> rounds the overall
  deadline has passed on any clock that does not go back.
\<close>

definition clock_at :: "env \<Rightarrow> host \<Rightarrow> nat" where
  "clock_at env h = en_clock env (hs_ticks h) + hs_slept h"

lemma probe_target_time: "probe_target env t h = (r, h') \<Longrightarrow> hs_slept h' = hs_slept h \<and> hs_ticks h \<le> hs_ticks h'"
  by (auto simp: probe_target_def Let_def)

lemma probe_round_time:
  "probe_round env ts h = (r, h') \<Longrightarrow> hs_slept h' = hs_slept h \<and> hs_ticks h \<le> hs_ticks h'"
proof (induction ts arbitrary: h)
  case Nil
  then show ?case by (simp add: retE_def)
next
  case (Cons t ts)
  obtain oc h1 where p: "probe_target env t h = (Inr oc, h1)"
    by (simp add: probe_target_def Let_def)
  note time = probe_target_time [OF p]
  show ?case
  proof (cases oc)
    case Success
    with Cons.prems p have "probe_round env ts h1 = (r, h')" by (simp add: bindE_def)
    from Cons.IH [OF this] time show ?thesis by simp
  next
    case (Transient x)
    with Cons.prems p time show ?thesis by (simp add: bindE_def retE_def)
  next
    case (Fatal x)
    with Cons.prems p time show ?thesis by (simp add: bindE_def failE_def)
  qed
qed

text \<open>One round: an error, stability, or one more round after the interval.\<close>

lemma health_loop_round:
  assumes "health_loop env ps ts (Suc fuel) start c ready h = (res, h')"
  obtains e where "res = Inl e"
  | h1 where "hs_log h1 = hs_log h" "probe_round env ts h1 = (Inr True, h')"
      "hp_required_consecutive ps \<le> Suc c" "res = Inr (Some ())"
  | ok h1 h2 where "hs_log h1 = hs_log h" "hs_slept h1 = hs_slept h" "hs_ticks h \<le> hs_ticks h1"
      "clock_at env h - start \<le> overall_deadline ps"
      "probe_round env ts h1 = (Inr ok, h2)" "ok \<longrightarrow> Suc c < hp_required_consecutive ps"
      "health_loop env ps ts fuel start (if ok then Suc c else 0) (ok \<or> ready)
         (h2\<lparr>hs_slept := hs_slept h2 + hp_interval ps\<rparr>) = (res, h')"
proof -
  define h1 where "h1 = h\<lparr>hs_ticks := Suc (Suc (hs_ticks h))\<rparr>"
  obtain r h2 where r: "probe_round env ts h1 = (r, h2)" by fastforce
  consider (late) "overall_deadline ps < clock_at env h - start"
    | (startup) "\<not> overall_deadline ps < clock_at env h - start"
        "\<not> ready \<and> hp_startup_deadline ps < en_clock env (Suc (hs_ticks h)) + hs_slept h - start"
    | (probe) "\<not> overall_deadline ps < clock_at env h - start"
        "\<not> (\<not> ready \<and> hp_startup_deadline ps < en_clock env (Suc (hs_ticks h)) + hs_slept h - start)"
    by blast
  then show thesis
  proof cases
    case late
    with assms that(1) show thesis by (auto simp: bindE_def read_clock_def clock_at_def failE_def)
  next
    case startup
    with assms that(1) show thesis by (auto simp: bindE_def read_clock_def clock_at_def failE_def)
  next
    case probe
    have run: "(case r of Inl e \<Rightarrow> (Inl e, h2)
        | Inr ok \<Rightarrow> (if ok \<and> hp_required_consecutive ps \<le> Suc c then (Inr (Some ()), h2)
           else health_loop env ps ts fuel start (if ok then Suc c else 0) (ok \<or> ready)
                  (h2\<lparr>hs_slept := hs_slept h2 + hp_interval ps\<rparr>))) = (res, h')"
      using assms probe r
      by (simp add: bindE_def read_clock_def clock_at_def retE_def sleep_ms_def modify_def h1_def
          split: sum.splits if_splits)
    show thesis
    proof (cases r)
      case (Inl e)
      with run that(1) show thesis by auto
    next
      case (Inr ok)
      show thesis
      proof (cases "ok \<and> hp_required_consecutive ps \<le> Suc c")
        case True
        with run r Inr that(2) [of h1] show thesis by (auto simp: h1_def)
      next
        case False
        with run r Inr probe that(3) [of h1 ok h2] show thesis by (auto simp: h1_def)
      qed
    qed
  qed
qed

lemma health_loop_returns:
  assumes clock: "mono (en_clock env)" and fuel: "0 < fuel"
    and elapsed: "start + e \<le> clock_at env h"
    and enough: "overall_deadline ps < e + (fuel - 1) * hp_interval ps"
    and run: "health_loop env ps ts fuel start c ready h = (res, h')"
  shows "res \<noteq> Inr None"
  using fuel elapsed enough run
proof (induction fuel arbitrary: e c ready h)
  case 0
  then show ?case by simp
next
  case (Suc fuel)
  from Suc.prems(4) show ?case
  proof (cases rule: health_loop_round)
    case (3 ok h1 h2)
    let ?h = "h2\<lparr>hs_slept := hs_slept h2 + hp_interval ps\<rparr>"
    have time: "hs_slept h2 = hs_slept h" "hs_ticks h \<le> hs_ticks h2"
      using probe_round_time [OF 3(5)] 3(2,3) by auto
    have "e \<le> overall_deadline ps" using 3(4) Suc.prems(2) by linarith
    then have "0 < fuel" using Suc.prems(3) by (cases fuel) auto
    moreover have "start + (e + hp_interval ps) \<le> clock_at env ?h"
      using Suc.prems(2) time monoD [OF clock time(2)] by (simp add: clock_at_def)
    moreover have "overall_deadline ps < e + hp_interval ps + (fuel - 1) * hp_interval ps"
      using Suc.prems(3) \<open>0 < fuel\<close> by (cases fuel) auto
    ultimately show ?thesis using Suc.IH 3(7) by blast
  qed auto
qed

lemma health_fuel_enough:
  "0 < hp_interval ps \<Longrightarrow> overall_deadline ps < (health_fuel ps - 1) * hp_interval ps"
  using dividend_less_div_times [of "hp_interval ps" "overall_deadline ps"]
  by (simp add: health_fuel_def)

section \<open>Stability\<close>

definition healthy_round :: "health_probe_target list \<Rightarrow> (string \<times> string) list" where
  "healthy_round ts = map (\<lambda>t. (''healthy'', ht_unit_name t)) ts"

lemma probe_round_healthy:
  "probe_round env ts h = (Inr True, h') \<Longrightarrow> hs_log h' = hs_log h @ healthy_round ts"
proof (induction ts arbitrary: h)
  case Nil
  then show ?case by (simp add: retE_def healthy_round_def)
next
  case (Cons t ts)
  then show ?case
    by (auto simp: bindE_def probe_target_def Let_def retE_def failE_def healthy_round_def
        split: probe_outcome.splits)
qed

lemma health_loop_stable:
  assumes "health_loop env ps ts fuel start c ready h = (Inr (Some u), h')"
    and "suffix (concat (replicate c (healthy_round ts))) (hs_log h)"
  shows "\<exists>k. hp_required_consecutive ps \<le> k \<and> 0 < k
    \<and> suffix (concat (replicate k (healthy_round ts))) (hs_log h')"
  using assms
proof (induction fuel arbitrary: c ready h)
  case 0
  then show ?case by (simp add: retE_def)
next
  case (Suc fuel)
  have grow: "suffix (concat (replicate (Suc c) (healthy_round ts))) (l @ healthy_round ts)"
    if "suffix (concat (replicate c (healthy_round ts))) l" for l
  proof -
    have "concat (replicate (Suc c) (healthy_round ts)) =
        concat (replicate c (healthy_round ts)) @ healthy_round ts"
      using replicate_append_same [of c "healthy_round ts"] by (metis concat.simps concat_append
          append_Nil2 replicate_Suc)
    with that show ?thesis by simp
  qed
  from Suc.prems(1) show ?case
  proof (cases rule: health_loop_round)
    case (2 h1)
    then show ?thesis using grow Suc.prems(2) probe_round_healthy [of env ts h1 h'] by (metis zero_less_Suc)
  next
    case (3 ok h1 h2)
    let ?h = "h2\<lparr>hs_slept := hs_slept h2 + hp_interval ps\<rparr>"
    have "suffix (concat (replicate (if ok then Suc c else 0) (healthy_round ts))) (hs_log ?h)"
      using 3 grow Suc.prems(2) probe_round_healthy [of env ts h1 h2] by (cases ok) auto
    with Suc.IH 3(7) show ?thesis by blast
  qed auto
qed

section \<open>Properties\<close>

text \<open>
  C31: the health loop ends. On a clock that does not go back and with a positive interval,
  \<open>health_fuel\<close> rounds (and any larger number) are enough for it to return an error or
  stability.
\<close>

theorem health_loop_terminates:
  assumes "mono (en_clock env)" "0 < hp_interval ps" "health_fuel ps \<le> fuel"
  shows "fst (health_loop env ps targets fuel (clock_at env h) 0 False h) \<noteq> Inr None"
proof -
  obtain res h' where run: "health_loop env ps targets fuel (clock_at env h) 0 False h = (res, h')"
    by fastforce
  have "(health_fuel ps - 1) * hp_interval ps \<le> (fuel - 1) * hp_interval ps"
    using assms(3) by (intro mult_right_mono) simp_all
  then have "overall_deadline ps < 0 + (fuel - 1) * hp_interval ps"
    using health_fuel_enough [OF assms(2)] by linarith
  moreover have "0 < fuel" using assms(3) by (simp add: health_fuel_def)
  ultimately have "res \<noteq> Inr None"
    using health_loop_returns [OF assms(1) _ _ _ run, of 0] by simp
  then show ?thesis by (simp add: run)
qed

text \<open>
  C10: \<open>wait_for_health_stability\<close> reports stability only when the last probes it made are at
  least the required number of complete healthy rounds in a row, over every target.
\<close>

theorem stability_is_consecutive:
  assumes "wait_for_health_stability env ps targets h = (Inr (), h')" "targets \<noteq> []"
  shows "\<exists>k. hp_required_consecutive ps \<le> k \<and> 0 < k
    \<and> suffix (concat (replicate k (healthy_round targets))) (hs_log h')"
proof -
  from assms obtain u h1 start h2 where
    "health_loop env ps targets (health_fuel ps) start 0 False h2 = (Inr (Some u), h')"
    by (auto simp: wait_for_health_stability_def bindE_def failE_def retE_def
        split: prod.splits sum.splits option.splits)
  then show ?thesis by (rule health_loop_stable) simp
qed

definition demo_env :: env where
  "demo_env = \<lparr> en_fault = \<lambda>_. None, en_flag = \<lambda>_. False, en_now = \<lambda>_. ''2026-01-01'',
     en_uuid = \<lambda>_. ''tx'', en_clock = \<lambda>_. 0, en_observe = \<lambda>_ _. demo_observation,
     en_health_json = \<lambda>_. Inr demo_payload, en_semver = demo_semver, en_json_size = \<lambda>_. 100,
     en_euid = 0, en_error_text = \<lambda>_. ''error'', en_sha256 = \<lambda>_. replicate 64 (CHR ''a''),
     en_toml_parse = \<lambda>_. Inl [], en_toml_render = \<lambda>_. [], en_user = \<lambda>_. ''dam'',
     en_group = \<lambda>_. ''dam'', en_home = \<lambda>_. ''/home/dam'', en_ids = \<lambda>_. (990, 991),
     en_manifest_json = \<lambda>_. Inl [], en_public_json = \<lambda>_. Inl [], en_public_render = \<lambda>_. [],
     en_uuid_parse = \<lambda>_. Some True, en_account = \<lambda>_. None, en_sudo_user = None \<rparr>"

definition demo_host :: "state_file \<Rightarrow> manager_state \<Rightarrow> host" where
  "demo_host f m = \<lparr> hs_files = [(''/var/lib/dam-hopper-manager'', Directory 0x1ED)], hs_state = f,
     hs_mem = m, hs_enabled = [], hs_log = [], hs_slept = 0, hs_ticks = 0 \<rparr>"

definition demo_params :: health_params where
  "demo_params = \<lparr> hp_startup_deadline = 1000, hp_required_consecutive = 2, hp_interval = 500 \<rparr>"

lemma demo_env_simps [simp]:
  "en_fault demo_env n = None" "en_flag demo_env n = False" "en_now demo_env n = ''2026-01-01''"
  "en_clock demo_env n = 0" "en_observe demo_env n u = demo_observation"
  "en_health_json demo_env = (\<lambda>_. Inr demo_payload)" "en_semver demo_env = demo_semver"
  "en_json_size demo_env s = 100" "en_error_text demo_env e = ''error''"
  by (simp_all add: demo_env_def)

lemma demo_params_simps [simp]:
  "hp_startup_deadline demo_params = 1000" "hp_required_consecutive demo_params = 2"
  "hp_interval demo_params = 500" "overall_deadline demo_params = 2000"
  "health_fuel demo_params = Suc (Suc (Suc (Suc (Suc (Suc 0)))))"
  by (simp_all add: demo_params_def overall_deadline_def health_fuel_def)

theorem health_loop_terminates_witness:
  "fst (health_loop demo_env default_health [demo_target] 62
     (clock_at demo_env (demo_host StateMissing (manager_state_default []))) 0 False
     (demo_host StateMissing (manager_state_default []))) \<noteq> Inr None"
proof (rule health_loop_terminates)
  show "mono (en_clock demo_env)" by (simp add: demo_env_def mono_def)
qed (simp_all add: default_health_def health_fuel_def overall_deadline_def)

theorem stability_is_consecutive_witness:
  "\<exists>h' k. wait_for_health_stability demo_env demo_params [demo_target]
       (demo_host StateMissing (manager_state_default [])) = (Inr (), h') \<and> 2 \<le> k
     \<and> suffix (concat (replicate k [(''healthy'', API_SERVICE_UNIT)])) (hs_log h')"
proof -
  let ?h = "demo_host StateMissing (manager_state_default [])"
  have "fst (wait_for_health_stability demo_env demo_params [demo_target] ?h) = Inr ()"
    by (simp add: wait_for_health_stability_def bindE_def syscall_def retE_def read_clock_def
        demo_probe probe_target_def Let_def sleep_ms_def modify_def demo_host_def)
  then obtain h' where run: "wait_for_health_stability demo_env demo_params [demo_target] ?h = (Inr (), h')"
    by (metis prod.collapse)
  have "healthy_round [demo_target] = [(''healthy'', API_SERVICE_UNIT)]"
    by (simp add: healthy_round_def demo_target_def)
  then show ?thesis using stability_is_consecutive [OF run] run by auto
qed

end
