(* ===== verification/Release_Safety.thy ===== *)
theory Release_Safety
  imports Release_Envelope Release_Health
begin

text \<open>
  The state envelope across activation and recovery, for every environment: the invariants
  that the interfaces of \<open>Release_Envelope\<close> are interpreted on, what is on disk after an
  activation that was cut off anywhere, what an activation that reports success has
  committed, the generation counter along any sequence of commands, and the places where a
  failure leaves the manager in a state its own documentation excludes.
\<close>

section \<open>The invariants of an activation\<close>

text \<open>
  \<open>keeps_releases s0\<close>: the active and previous release are those of \<open>s0\<close>, and the generation
  has not gone back. \<open>deploys s0 c\<close>: the releases are those of \<open>s0\<close>, or the candidate is active
  and the release it replaced is the previous one (the imported legacy installation when the
  activation migrated one).
\<close>

definition keeps_releases :: "manager_state \<Rightarrow> manager_state \<Rightarrow> bool" where
  "keeps_releases s0 s \<longleftrightarrow> ms_generation s0 \<le> ms_generation s
     \<and> ms_active s = ms_active s0 \<and> ms_previous s = ms_previous s0"

definition replaces_active :: "manager_state \<Rightarrow> pending_candidate_record \<Rightarrow> manager_state \<Rightarrow> bool" where
  "replaces_active s0 c s \<longleftrightarrow>
     (case ms_active s of
        None \<Rightarrow> False
      | Some r \<Rightarrow> rr_tag r = pc_tag c \<and> rr_role r = pc_role c)
     \<and> (ms_previous s = ms_active s0
        \<or> map_option rr_tag (ms_previous s) = Some LEGACY_FORMAT2_TAG)"

definition deploys :: "manager_state \<Rightarrow> pending_candidate_record \<Rightarrow> manager_state \<Rightarrow> bool" where
  "deploys s0 c s \<longleftrightarrow> ms_generation s0 \<le> ms_generation s
     \<and> (ms_active s = ms_active s0 \<and> ms_previous s = ms_previous s0 \<or> replaces_active s0 c s)"

text \<open>
  The envelope on disk is \<open>s0\<close> or a state that validates, and both it and the state in memory
  satisfy \<open>P\<close>.
\<close>

definition envelope :: "env \<Rightarrow> manager_state \<Rightarrow> (manager_state \<Rightarrow> bool) \<Rightarrow> state_file \<Rightarrow> manager_state \<Rightarrow> bool" where
  "envelope env s0 P f m \<longleftrightarrow> P m \<and>
     (case f of
        StateFile n (Inr s) \<Rightarrow> P s \<and> (s = s0 \<or> is_ok (validate_manager_state (en_semver env) s))
      | _ \<Rightarrow> False)"

lemma envelope_closed:
  assumes bump: "\<And>now s. P s \<Longrightarrow> P (bumped now s)"
    and tx: "\<And>t s. P s \<Longrightarrow> P (s\<lparr>ms_transaction := t\<rparr>)"
    and fl: "\<And>x s. P s \<Longrightarrow> P (s\<lparr>ms_latest_failure := x\<rparr>)"
    and pn: "\<And>p s. P s \<Longrightarrow> P (s\<lparr>ms_pending := p\<rparr>)"
  shows "envelope_invariant env (envelope env s0 P)"
  by unfold_locales
    (auto simp: envelope_def is_ok_iff intro: assms split: state_file.splits sum.splits)

lemma bumped_generation: "g \<le> ms_generation s \<Longrightarrow> g \<le> ms_generation (bumped now s)"
  using saturating_add_mono [of "ms_generation s" 1] by (simp add: bumped_def)

lemma bumped_releases [simp]:
  "ms_active (bumped now s) = ms_active s" "ms_previous (bumped now s) = ms_previous s"
  "ms_pending (bumped now s) = ms_pending s" "ms_transaction (bumped now s) = ms_transaction s"
  by (simp_all add: bumped_def)

interpretation keeping: envelope_invariant env "envelope env s0 (keeps_releases s0)" for env s0
  by (rule envelope_closed) (auto simp: keeps_releases_def bumped_generation)

interpretation deploying: envelope_invariant env "envelope env s0 (deploys s0 c)" for env s0 c
  by (rule envelope_closed) (auto simp: deploys_def replaces_active_def bumped_generation)

interpretation activating: commit_invariant env "envelope env s0 (keeps_releases s0)"
    "envelope env s0 (deploys s0 c)" ly c for env s0 c ly
proof unfold_locales
  fix f s assume "envelope env s0 (keeps_releases s0) f s"
  then show "envelope env s0 (deploys s0 c) f s"
    by (auto simp: envelope_def keeps_releases_def deploys_def split: state_file.splits sum.splits)
next
  fix f s c' now now'
  assume "envelope env s0 (keeps_releases s0) f s" "same_candidate c c'"
  then show "envelope env s0 (deploys s0 c) f (committed_state ly now now' c' s)"
    by (auto simp: envelope_def keeps_releases_def deploys_def replaces_active_def committed_state_def
        same_candidate_def release_of_candidate_def legacy_release_def
        split: state_file.splits sum.splits option.splits)
qed

lemma load_result:
  assumes "hs_state h = StateFile n (Inr s)" "load_or_init_manager_state env ly h = (Inr u, h')"
  shows "hs_state h' = hs_state h \<and> hs_mem h' = s \<and> validate_manager_state (en_semver env) s = Inr ()"
  using assms
  by (auto simp: load_or_init_manager_state_def bindE_def syscall_def gets_def Let_def timestamp_def
        modify_def failE_def retE_def liftE_def split: option.splits if_splits sum.splits)

lemma load_state: "hs_state (snd (load_or_init_manager_state env ly h)) = hs_state h"
  by (auto simp: load_or_init_manager_state_def bindE_def syscall_def gets_def Let_def timestamp_def
        modify_def failE_def retE_def liftE_def split: option.splits if_splits sum.splits state_file.splits)

lemma quietD: "quiet m \<Longrightarrow> m h = (r, h') \<Longrightarrow> hs_state h' = hs_state h \<and> hs_mem h' = hs_mem h"
  using keepsD [of envelope_view m h r h'] by (simp add: envelope_view_def)

text \<open>
  A command that begins with loading the state: until the load has succeeded the file is
  untouched, after it the invariant holds with the loaded state in memory.
\<close>

lemma loading_command:
  assumes disk: "hs_state h = StateFile n (Inr s)"
    and start: "envelope env s P (StateFile n (Inr s)) s"
    and next_step: "leads (\<lambda>f m. envelope env s P f m \<and> f = StateFile n (Inr s) \<and> m = s) k (envelope env s Q)"
    and weaken: "\<And>m. P m \<Longrightarrow> Q m"
    and run: "bindE (load_or_init_manager_state env ly) (\<lambda>_. k) h = (r, h')"
  shows "\<exists>n' s'. hs_state h' = StateFile n' (Inr s') \<and> Q s' \<and>
           (s' = s \<or> is_ok (validate_manager_state (en_semver env) s'))"
proof (cases "fst (load_or_init_manager_state env ly h)")
  case (Inl e)
  then have "hs_state h' = hs_state h"
    using run load_state [of env ly h] by (auto simp: bindE_def split: prod.splits)
  then show ?thesis using disk start weaken by (auto simp: envelope_def)
next
  case (Inr u)
  then obtain h1 where h1: "load_or_init_manager_state env ly h = (Inr u, h1)" by (metis prod.collapse)
  from load_result [OF disk h1] have st: "hs_state h1 = StateFile n (Inr s)" "hs_mem h1 = s"
    using disk by auto
  have "k h1 = (r, h')" using run h1 by (simp add: bindE_def)
  with next_step st start have "envelope env s Q (hs_state h') (hs_mem h')"
    unfolding leads_def holds_def by (metis snd_conv)
  then show ?thesis by (auto simp: envelope_def split: state_file.splits sum.splits)
qed

lemma leads_pre: "(\<And>f m. I f m \<Longrightarrow> I' f m) \<Longrightarrow> leads I' k J \<Longrightarrow> leads I k J"
  by (auto simp: leads_def holds_def)

lemma leads_gets:
  "(\<And>f m. I f m \<Longrightarrow> m = s) \<Longrightarrow> leads I (k s) J \<Longrightarrow> leads I (bindE (gets hs_mem) k) J"
  by (auto simp: leads_def holds_def bindE_def gets_def)

definition after_load :: "env \<Rightarrow> layout \<Rightarrow> string option \<Rightarrow> unit command" where
  "after_load env ly service_user =
     bindE (check env ''inspect API service process: '') (\<lambda>_.
     bindE (gets hs_mem) (\<lambda>s.
       case ms_pending s of
         Some candidate \<Rightarrow> activate_candidate env ly service_user candidate
       | None \<Rightarrow>
           (case ms_active s of
              None \<Rightarrow> failE (cfg ''no active release or pending candidate to start'')
            | Some active \<Rightarrow> start_active env ly service_user active)))"

lemma activation_locked_steps: "execute_activation_locked env ly service_user =
    bindE (load_or_init_manager_state env ly) (\<lambda>_. after_load env ly service_user)"
  by (simp add: execute_activation_locked_def after_load_def)

lemma keeps_releases_refl [simp]: "keeps_releases s s"
  by (simp add: keeps_releases_def)

lemma after_load_leads:
  assumes pending: "ms_pending s = Some c"
  shows "leads (\<lambda>f m. envelope env s (keeps_releases s) f m \<and> f = StateFile n (Inr s) \<and> m = s)
      (after_load env ly su) (envelope env s (deploys s c))" (is "leads ?K _ ?J")
proof -
  have weaken: "\<And>f m. ?K f m \<Longrightarrow> ?J f m" using activating.weaken by blast
  have act: "leads ?K (activate_candidate env ly su c) ?J"
    by (rule leads_pre [OF _ activating.leads_activate]) blast
  show ?thesis
    unfolding after_load_def
    by (rule leads_bind [where P = "\<lambda>_. True", OF leads_quiet yields_any leads_gets [where s = s] weaken],
        intro quiet_rules) (simp_all add: pending act)
qed

lemma after_load_idle:
  assumes pending: "ms_pending s = None"
  shows "leads (\<lambda>f m. envelope env s (keeps_releases s) f m \<and> f = StateFile n (Inr s) \<and> m = s)
      (after_load env ly su) (envelope env s (keeps_releases s))" (is "leads ?K _ ?J")
proof -
  have act: "leads ?K (case ms_active s of
              None \<Rightarrow> failE (cfg ''no active release or pending candidate to start'')
            | Some active \<Rightarrow> start_active env ly su active) ?J"
    by (rule leads_pre [where I' = ?J]) (intro leads_rules quiet_rules | blast)+
  show ?thesis
    unfolding after_load_def
    by (rule leads_bind [where P = "\<lambda>_. True", OF leads_quiet yields_any leads_gets [where s = s]],
        intro quiet_rules) (simp_all add: pending act)
qed

lemma locked_command:
  assumes disk: "hs_state h = StateFile n (Inr s)"
    and run: "bindE (acquire_lock env) (\<lambda>_. bindE (load_or_init_manager_state env ly) (\<lambda>_. k)) h = (r, h')"
    and next_step: "leads (\<lambda>f m. envelope env s (keeps_releases s) f m \<and> f = StateFile n (Inr s) \<and> m = s)
      k (envelope env s Q)"
    and weaken: "\<And>m. keeps_releases s m \<Longrightarrow> Q m"
  shows "\<exists>n' s'. hs_state h' = StateFile n' (Inr s') \<and> Q s' \<and>
           (s' = s \<or> is_ok (validate_manager_state (en_semver env) s'))"
proof (cases "acquire_lock env h")
  case (Pair l h1)
  have q: "hs_state h1 = StateFile n (Inr s)" using quietD [OF quiet_lock Pair] disk by simp
  have start: "envelope env s (keeps_releases s) (StateFile n (Inr s)) s"
    by (simp add: envelope_def)
  show ?thesis
  proof (cases l)
    case (Inl e)
    with Pair q run weaken [of s] show ?thesis by (simp add: bindE_def)
  next
    case (Inr u)
    with Pair run have "bindE (load_or_init_manager_state env ly) (\<lambda>_. k) h1 = (r, h')"
      by (simp add: bindE_def)
    from loading_command [OF q start next_step weaken this] show ?thesis .
  qed
qed

lemma recovery_keeps_releases:
  assumes disk: "hs_state h = StateFile n (Inr s)"
    and run: "execute_recovery env ly is_boot h = (r, h')"
  shows "\<exists>n' s'. hs_state h' = StateFile n' (Inr s') \<and> keeps_releases s s' \<and>
           (s' = s \<or> is_ok (validate_manager_state (en_semver env) s'))"
  by (rule locked_command [OF disk run [unfolded execute_recovery_def]], rule leads_pre,
      erule conjunct1, intro leads_rules quiet_rules keeping.leads_recover)

lemma activation_envelope:
  assumes disk: "hs_state h = StateFile n (Inr s)"
    and run: "execute_activation env ly su h = (r, h')"
  shows "\<exists>n' s'. hs_state h' = StateFile n' (Inr s')
      \<and> (case ms_pending s of None \<Rightarrow> keeps_releases s s' | Some c \<Rightarrow> deploys s c s')
      \<and> (s' = s \<or> is_ok (validate_manager_state (en_semver env) s'))"
proof -
  have run': "bindE (acquire_lock env) (\<lambda>_. bindE (load_or_init_manager_state env ly)
      (\<lambda>_. after_load env ly su)) h = (r, h')"
    using run by (simp add: execute_activation_def activation_locked_steps)
  show ?thesis
  proof (cases "ms_pending s")
    case None
    with locked_command [OF disk run' after_load_idle] show ?thesis by simp
  next
    case (Some c)
    have weaken: "\<And>m. keeps_releases s m \<Longrightarrow> deploys s c m" by (simp add: keeps_releases_def deploys_def)
    from locked_command [OF disk run' after_load_leads [OF Some] weaken] Some
    show ?thesis by simp
  qed
qed

section \<open>Sequences of commands\<close>

datatype manager_command =
    Activate env "string option"
  | Recover env bool

fun manager_step :: "layout \<Rightarrow> host \<Rightarrow> manager_command \<Rightarrow> host" where
  "manager_step ly h (Activate env service_user) = snd (execute_activation env ly service_user h)"
| "manager_step ly h (Recover env is_boot) = snd (execute_recovery env ly is_boot h)"

definition disk_generation :: "host \<Rightarrow> u64" where
  "disk_generation h = (case hs_state h of StateFile _ (Inr s) \<Rightarrow> ms_generation s | _ \<Rightarrow> 0)"

lemma step_generation:
  "disk_generation h \<le> disk_generation (manager_step ly h c)"
proof (cases "\<exists>n s. hs_state h = StateFile n (Inr s)")
  case False
  then have "disk_generation h = 0"
    by (auto simp: disk_generation_def split: state_file.splits sum.splits)
  then show ?thesis by simp
next
  case True
  then obtain n s where disk: "hs_state h = StateFile n (Inr s)" by blast
  show ?thesis
  proof (cases c)
    case (Activate env su)
    obtain r h' where run: "execute_activation env ly su h = (r, h')" by fastforce
    from activation_envelope [OF disk run] Activate run disk show ?thesis
      by (auto simp: disk_generation_def keeps_releases_def deploys_def split: option.splits)
  next
    case (Recover env b)
    obtain r h' where run: "execute_recovery env ly b h = (r, h')" by fastforce
    from recovery_keeps_releases [OF disk run] Recover run disk show ?thesis
      by (auto simp: disk_generation_def keeps_releases_def)
  qed
qed

interpretation generations: monotone_system "manager_step ly" disk_generation for ly
  by unfold_locales (rule step_generation)

section \<open>What success means\<close>

text \<open>\<open>ensures I m Q\<close>: a run that starts in \<open>I\<close> and succeeds ends in \<open>Q\<close>.\<close>

definition ensures ::
  "(state_file \<Rightarrow> manager_state \<Rightarrow> bool) \<Rightarrow> 'a command \<Rightarrow> ('a \<Rightarrow> host \<Rightarrow> bool) \<Rightarrow> bool" where
  "ensures I m Q \<longleftrightarrow> (\<forall>h x h'. holds I h \<longrightarrow> m h = (Inr x, h') \<longrightarrow> Q x h')"

lemma ensuresI: "(\<And>h x h'. holds I h \<Longrightarrow> m h = (Inr x, h') \<Longrightarrow> Q x h') \<Longrightarrow> ensures I m Q"
  by (simp add: ensures_def)

lemma bindE_InrE:
  assumes "bindE m f h = (Inr y, h')"
  obtains x h1 where "m h = (Inr x, h1)" "f x h1 = (Inr y, h')"
  using assms by (auto simp: bindE_def split: prod.splits sum.splits)

lemma ensures_bind:
  assumes "leads I m I" "yields P m" "\<And>x. P x \<Longrightarrow> ensures I (f x) Q"
  shows "ensures I (bindE m f) Q"
proof (rule ensuresI)
  fix h y h' assume h: "holds I h" and "bindE m f h = (Inr y, h')"
  then obtain x h1 where m: "m h = (Inr x, h1)" and f: "f x h1 = (Inr y, h')"
    by (elim bindE_InrE)
  have "holds I h1" using assms(1) h m unfolding leads_def by (metis snd_conv)
  moreover have "P x" using assms(2) m unfolding yields_def by blast
  ultimately show "Q y h'" using assms(3) f unfolding ensures_def by blast
qed

lemma save_success:
  assumes "save_manager_state env ly h = (Inr u, h')"
  shows "\<exists>now. hs_mem h' = bumped now (hs_mem h)
    \<and> hs_state h' = StateFile (en_json_size env (hs_mem h')) (Inr (hs_mem h'))
    \<and> validate_manager_state (en_semver env) (hs_mem h') = Inr ()"
proof -
  define s where "s = bumped (en_now env (hs_ticks h)) (hs_mem h)"
  define h1 where "h1 = h\<lparr>hs_ticks := Suc (hs_ticks h), hs_mem := s\<rparr>"
  let ?w = "\<lambda>h. h\<lparr>hs_state := StateFile (en_json_size env s) (Inr s)\<rparr>"
  from assms have valid: "validate_manager_state (en_semver env) s = Inr ()"
    and wr: "atomic_write env (manager_state_path ly) ?w h1 = (Inr u, h')"
    by (auto simp: save_manager_state_def bindE_def timestamp_def modify_def gets_def liftE_def
        s_def h1_def bumped_def split: sum.splits)
  let ?prepare = "stepsE [ensure_directory env (path_parent (manager_state_path ly)) ''create parent directory'',
        syscall env (io ''create tempfile in parent directory'') (retE ()),
        syscall env (io ''set tempfile permissions'') (retE ()),
        syscall env (io ''write data to tempfile'') (retE ()),
        syscall env (io ''fsync tempfile'') (retE ())]"
  have quiet: "quiet ?prepare" by (intro quiet_rules)
  obtain h2 h3 where q: "?prepare h1 = (Inr (), h2)"
    and p: "syscall env (io ''atomic persist tempfile over destination'') (modify ?w) h2 = (Inr (), h3)"
    and y: "sync_dir env (path_parent (manager_state_path ly)) h3 = (Inr (), h')"
    using wr by (auto simp: atomic_write_def elim!: bindE_InrE) (auto simp: bindE_def retE_def)
  have "hs_mem h2 = s" using quietD [OF quiet q] by (simp add: h1_def)
  moreover have "hs_mem h3 = hs_mem h2 \<and> hs_state h3 = StateFile (en_json_size env s) (Inr s)"
    using p by (auto simp: syscall_def Let_def modify_def split: option.splits)
  moreover have "hs_mem h' = hs_mem h3 \<and> hs_state h' = hs_state h3"
    using quietD [OF quiet_durable(1) y] by simp
  ultimately show ?thesis using valid by (auto simp: s_def)
qed

lemma commit_success:
  assumes "pipeline_commit env ly c h = (Inr u, h')"
  shows "\<exists>now now' t. hs_mem h' = bumped t (committed_state ly now now' c (hs_mem h))
    \<and> hs_state h' = StateFile (en_json_size env (hs_mem h')) (Inr (hs_mem h'))
    \<and> validate_manager_state (en_semver env) (hs_mem h') = Inr ()"
  using assms unfolding pipeline_commit_def
  by (elim bindE_InrE) (auto simp: timestamp_def update_state_def modify_def dest!: save_success, blast)

text \<open>The state on disk after a commit of a candidate like \<open>c\<close> over the releases of \<open>s0\<close>.\<close>

definition committed :: "env \<Rightarrow> layout \<Rightarrow> manager_state \<Rightarrow> pending_candidate_record \<Rightarrow> host \<Rightarrow> bool" where
  "committed env ly s0 c h \<longleftrightarrow>
     (case hs_state h of
        StateFile _ (Inr s) \<Rightarrow>
          is_ok (validate_manager_state (en_semver env) s) \<and> replaces_active s0 c s
          \<and> map_option rr_release_path (ms_active s) =
              Some (release_role_dir ly (pc_tag c) (role_str (pc_role c)))
          \<and> ms_pending s = None \<and> ms_transaction s = None
      | _ \<Rightarrow> False)"

lemma ensures_commit:
  assumes "same_candidate c c'"
  shows "ensures (envelope env s0 (keeps_releases s0)) (pipeline_commit env ly c') (\<lambda>_. committed env ly s0 c)"
proof (rule ensuresI)
  fix h u h' assume h: "holds (envelope env s0 (keeps_releases s0)) h"
    and run: "pipeline_commit env ly c' h = (Inr u, h')"
  from commit_success [OF run] obtain now now' t where
      m: "hs_mem h' = bumped t (committed_state ly now now' c' (hs_mem h))"
    and d: "hs_state h' = StateFile (en_json_size env (hs_mem h')) (Inr (hs_mem h'))"
    and v: "validate_manager_state (en_semver env) (hs_mem h') = Inr ()" by blast
  have "ms_active (hs_mem h) = ms_active s0"
    using h by (simp add: holds_def envelope_def keeps_releases_def)
  then have "replaces_active s0 c (hs_mem h')"
    using assms unfolding m
    by (simp add: replaces_active_def committed_state_def release_of_candidate_def same_candidate_def
        legacy_release_def split: option.splits)
  with d v m assms show "committed env ly s0 c h'"
    by (simp add: committed_def is_ok_iff committed_state_def release_of_candidate_def
        same_candidate_def release_role_dir_def)
qed

lemma ensures_pipeline:
  assumes c: "same_candidate c0 c"
  shows "ensures (envelope env s0 (keeps_releases s0)) (execute_activation_pipeline env ly tx c)
    (\<lambda>_. committed env ly s0 c0)" (is "ensures ?I _ _")
proof -
  note step = ensures_bind [where P = "\<lambda>_. True", OF _ yields_any]
  have mig: "leads ?I (if b then pipeline_migrate env ly c else retE c) ?I"
      "yields (same_candidate c0) (if b then pipeline_migrate env ly c else retE c)" for b
    using keeping.leads_migrate yields_migrate [OF c] yields_ret [of "same_candidate c0" c] c
    by (auto intro: leads_quiet quiet_combinators)
  have rest: "ensures ?I (bindE (pipeline_install_units env ly c') (\<lambda>_.
      bindE (pipeline_public_config env ly tx c') (\<lambda>_.
      bindE (pipeline_switch env ly tx c') (\<lambda>_.
      bindE (pipeline_enable env (pc_role c')) (\<lambda>_. pipeline_commit env ly c'))))) (\<lambda>_. committed env ly s0 c0)"
    if "same_candidate c0 c'" for c'
    by (intro step ensures_commit that) (intro leads_quiet quiet_rules keeping.leads_switch)+
  show ?thesis
    unfolding execute_activation_pipeline_def
    by (intro step ensures_bind [OF mig rest]) (intro leads_quiet quiet_rules)+
qed

lemma committed_quiet: "quiet m \<Longrightarrow> m h = (r, h') \<Longrightarrow> committed env ly s c h \<Longrightarrow> committed env ly s c h'"
  using quietD [of m h r h'] by (simp add: committed_def)

lemma cleanup_success:
  assumes run: "activation_committed env ly m h = (Inr u, h')"
  shows "hs_state h' = hs_state h"
proof -
  let ?publish = "bindE (gets hs_mem) (\<lambda>s.
       case ms_active s of
         None \<Rightarrow> failE (cfg ''activation committed without an active release'')
       | Some active \<Rightarrow>
           bindE (atomic_symlink env (rr_release_path active) (current_link ly)) (\<lambda>_.
           bindE (apply_retention env ly s) (\<lambda>_. retE ())))"
  obtain v h1 where a: "when_someE (migration_cleanup env ly) m h = (Inr v, h1)"
    and b: "?publish h1 = (Inr u, h')"
    by (rule bindE_InrE [OF run [unfolded activation_committed_def]])
  have "quiet ?publish" by (intro quiet_rules)
  from quietD [OF this b] have "hs_state h' = hs_state h1" by blast
  moreover have "hs_state h1 = hs_state h"
  proof (cases m)
    case None
    with a show ?thesis by (simp add: when_someE_def retE_def)
  next
    case (Some mig)
    with a have "migration_cleanup env ly mig h = (Inr v, h1)" by (simp add: when_someE_def)
    then obtain r h2 where r: "commit_migration_cleanup env ly mig h = (r, h2)" and "r = Inr () \<and> h1 = h2"
      by (cases "commit_migration_cleanup env ly mig h")
        (auto simp: migration_cleanup_def attempt_def bindE_def retE_def failE_def
          split: sum.splits prod.splits)
    with quietD [OF quiet_migration(3) r] show ?thesis by simp
  qed
  ultimately show ?thesis by simp
qed

lemma failed_never_succeeds: "activation_failed env ly tx e h \<noteq> (Inr u, h')"
  by (auto simp: activation_failed_def Let_def failE_def elim!: bindE_InrE split: sum.splits)

lemma ensures_activate:
  shows "ensures (envelope env s0 (keeps_releases s0)) (activate_candidate env ly su c)
    (\<lambda>_. committed env ly s0 c)" (is "ensures ?I _ _")
proof -
  note step = ensures_bind [where P = "\<lambda>_. True", OF _ yields_any]
  have prep: "leads ?I (if b then prepare_service_identity env ly su c else retE c) ?I"
      "yields (same_candidate c) (if b then prepare_service_identity env ly su c else retE c)" for b
    using keeping.leads_prepare yields_prepare
    by (auto intro: leads_quiet quiet_combinators yields_ret simp: same_candidate_def)
  have fin: "ensures ?I (bindE (attempt (execute_activation_pipeline env ly tx c')) (\<lambda>r.
      case r of Inl err \<Rightarrow> activation_failed env ly tx err
      | Inr _ \<Rightarrow> activation_committed env ly m)) (\<lambda>_. committed env ly s0 c)"
    if c': "same_candidate c c'" for tx c' m
  proof (rule ensuresI)
    fix h u h' assume h: "holds ?I h"
      and run: "bindE (attempt (execute_activation_pipeline env ly tx c')) (\<lambda>r.
        case r of Inl err \<Rightarrow> activation_failed env ly tx err
        | Inr _ \<Rightarrow> activation_committed env ly m) h = (Inr u, h')"
    obtain r h1 where r: "execute_activation_pipeline env ly tx c' h = (r, h1)" by fastforce
    with run have rest: "(case r of Inl err \<Rightarrow> activation_failed env ly tx err
        | Inr _ \<Rightarrow> activation_committed env ly m) h1 = (Inr u, h')"
      by (simp add: bindE_def attempt_def)
    then obtain v where v: "r = Inr v" by (cases r) (simp_all add: failed_never_succeeds)
    have "committed env ly s0 c h1"
      using ensures_pipeline [OF c'] h r v unfolding ensures_def by blast
    with cleanup_success rest v show "committed env ly s0 c h'"
      by (auto simp: committed_def)
  qed
  show ?thesis
    unfolding activate_candidate_def
    by (intro ensures_bind [OF prep] step fin) (intro leads_quiet quiet_rules keeping.leads_record_phase)+
qed

lemma activation_reaches_candidate:
  assumes disk: "hs_state h = StateFile n (Inr s)" and pending: "ms_pending s = Some c"
    and run: "execute_activation env ly su h = (Inr u, h')"
  shows "\<exists>h1. hs_state h1 = StateFile n (Inr s) \<and> hs_mem h1 = s \<and>
           activate_candidate env ly su c h1 = (Inr u, h')"
proof -
  obtain l h1 v h2 w h3 where
      a: "acquire_lock env h = (Inr l, h1)"
    and b: "load_or_init_manager_state env ly h1 = (Inr v, h2)"
    and k: "check env ''inspect API service process: '' h2 = (Inr w, h3)"
    and d: "(case ms_pending (hs_mem h3) of
         Some candidate \<Rightarrow> activate_candidate env ly su candidate
       | None \<Rightarrow>
           (case ms_active (hs_mem h3) of
              None \<Rightarrow> failE (cfg ''no active release or pending candidate to start'')
            | Some active \<Rightarrow> start_active env ly su active)) h3 = (Inr u, h')"
    using run unfolding execute_activation_def execute_activation_locked_def
    by (elim bindE_InrE) (auto simp: gets_def)
  have h1: "hs_state h1 = StateFile n (Inr s)" using quietD [OF quiet_lock a] disk by simp
  have "hs_state h3 = StateFile n (Inr s) \<and> hs_mem h3 = s"
    using load_result [OF h1 b] quietD [OF quiet_check(1) k] h1 by simp
  with d pending show ?thesis by auto
qed

lemma activation_success:
  assumes disk: "hs_state h = StateFile n (Inr s)" and pending: "ms_pending s = Some c"
    and run: "execute_activation env ly su h = (Inr u, h')"
  shows "committed env ly s c h'"
proof -
  from activation_reaches_candidate [OF disk pending run]
  obtain h1 where h1: "hs_state h1 = StateFile n (Inr s)" "hs_mem h1 = s"
    and act: "activate_candidate env ly su c h1 = (Inr u, h')" by blast
  have "holds (envelope env s (keeps_releases s)) h1"
    using h1 by (simp add: holds_def envelope_def)
  with act show ?thesis using ensures_activate unfolding ensures_def by blast
qed

section \<open>An activation needs a state without a transaction\<close>

interpretation transaction_kept: saving_invariant env "\<lambda>f m. ms_transaction m = t" for env t
  by unfold_locales (simp_all add: bumped_def)

lemma quiesce_needs_pending:
  assumes "record_phase env ly tx DepQuiesced p h = (Inr u, h')"
  shows "ms_transaction (hs_mem h) = None"
proof -
  have "transition_allowed (current_deployment_state (hs_mem h)) DepQuiesced"
    using assms by (auto simp: record_phase_def gets_def liftE_def validate_transition_def elim!: bindE_InrE)
  then have "current_deployment_state (hs_mem h) = DepPending"
    by (cases "current_deployment_state (hs_mem h)") (simp_all add: transition_from)
  moreover have "phase_deployment_state p' \<noteq> DepPending" for p' by (cases p') simp_all
  ultimately show ?thesis by (auto simp: current_deployment_state_def split: option.splits)
qed

lemma activate_needs_no_transaction:
  "ensures (\<lambda>f m. ms_transaction m = t) (activate_candidate env ly su c) (\<lambda>_ _. t = None)"
proof -
  note step = ensures_bind [where P = "\<lambda>_. True", OF _ yields_any]
  have last: "ensures (\<lambda>f m. ms_transaction m = t)
      (bindE (record_phase env ly tx DepQuiesced PhaseQuiesced) k) (\<lambda>_ _. t = None)" for tx k
    by (rule ensuresI) (auto simp: holds_def dest: quiesce_needs_pending elim!: bindE_InrE)
  show ?thesis
    unfolding activate_candidate_def
    by (intro step last) (intro leads_if leads_quiet quiet_rules transaction_kept.leads_prepare)+
qed

lemma activation_needs_no_transaction:
  assumes disk: "hs_state h = StateFile n (Inr s)" and pending: "ms_pending s = Some c"
    and run: "execute_activation env ly su h = (Inr u, h')"
  shows "ms_transaction s = None"
proof -
  from activation_reaches_candidate [OF disk pending run]
  obtain h1 where "hs_mem h1 = s" "activate_candidate env ly su c h1 = (Inr u, h')" by blast
  then show ?thesis
    using activate_needs_no_transaction [of "ms_transaction s" env ly su c]
    unfolding ensures_def holds_def by auto
qed

section \<open>Failures that the manager does not recover from\<close>

interpretation active_kept: saving_invariant env
    "\<lambda>f m. ms_active m = a \<and> ms_transaction m = t" for env a t
  by unfold_locales (simp_all add: bumped_def)

lemma commit_memory:
  assumes "pipeline_commit env ly c h = (r, h')"
  shows "\<exists>now'. ms_active (hs_mem h') = Some (release_of_candidate ly now' c)
    \<and> ms_transaction (hs_mem h') = None"
proof -
  define now' where "now' = en_now env (Suc (hs_ticks h))"
  define h1 where "h1 = h\<lparr>hs_ticks := Suc (Suc (hs_ticks h)),
    hs_mem := committed_state ly (en_now env (hs_ticks h)) now' c (hs_mem h)\<rparr>"
  let ?K = "\<lambda>f m. ms_active m = Some (release_of_candidate ly now' c) \<and> ms_transaction m = None"
  have run: "save_manager_state env ly h1 = (r, h')"
    using assms by (simp add: pipeline_commit_def bindE_def timestamp_def update_state_def modify_def
        h1_def now'_def)
  have "holds ?K h1" by (simp add: holds_def h1_def committed_state_def)
  then have "holds ?K (snd (save_manager_state env ly h1))"
    using active_kept.leads_save unfolding leads_def by blast
  then have "holds ?K h'" by (simp add: run)
  then show ?thesis by (auto simp: holds_def)
qed

lemma recovery_needs_readable_state:
  assumes "case hs_state h of
      StateMissing \<Rightarrow> False
    | StateNotRegular \<Rightarrow> True
    | StateFile n (Inl _) \<Rightarrow> True
    | StateFile n (Inr s) \<Rightarrow> \<not> is_ok (validate_manager_state (en_semver env) s)"
  shows "\<exists>e h'. execute_recovery env ly is_boot h = (Inl e, h')
    \<and> hs_log h' = hs_log h \<and> hs_enabled h' = hs_enabled h"
proof -
  have lock: "hs_state (snd (acquire_lock env h)) = hs_state h
      \<and> hs_log (snd (acquire_lock env h)) = hs_log h \<and> hs_enabled (snd (acquire_lock env h)) = hs_enabled h"
    by (auto simp: acquire_lock_def bindE_def syscall_def Let_def retE_def gets_def failE_def
        split: option.splits)
  have load: "\<exists>e h'. load_or_init_manager_state env ly h = (Inl e, h')
      \<and> hs_log h' = hs_log h \<and> hs_enabled h' = hs_enabled h"
    if "case hs_state h of
        StateMissing \<Rightarrow> False
      | StateNotRegular \<Rightarrow> True
      | StateFile n (Inl _) \<Rightarrow> True
      | StateFile n (Inr s) \<Rightarrow> \<not> is_ok (validate_manager_state (en_semver env) s)" for h
    using that
    by (auto simp: load_or_init_manager_state_def bindE_def syscall_def gets_def Let_def
        failE_def retE_def liftE_def is_ok_def split: option.splits state_file.splits sum.splits)
  obtain r h1 where h1: "acquire_lock env h = (r, h1)" by fastforce
  show ?thesis
  proof (cases r)
    case (Inl e)
    with h1 lock show ?thesis by (simp add: execute_recovery_def bindE_def)
  next
    case (Inr u)
    with h1 lock load [of h1] assms show ?thesis by (auto simp: execute_recovery_def bindE_def)
  qed
qed

section \<open>Properties\<close>

text \<open>
  C1: activating a pending candidate, whichever calls fail on the way. The state file is
  decodable afterwards, it is the old one or one that validates, its generation has not gone
  back, and the releases in it are the old ones, or the candidate is active with the release it
  replaced (or the imported legacy installation) as the previous one.
\<close>

theorem activation_crash_safe:
  assumes disk: "hs_state h = StateFile n (Inr s)"
    and pending: "ms_pending s = Some c"
   
    and run: "execute_activation env ly service_user h = (r, h')"
  shows "\<exists>n' s'. hs_state h' = StateFile n' (Inr s')
      \<and> (s' = s \<or> is_ok (validate_manager_state (en_semver env) s'))
      \<and> ms_generation s \<le> ms_generation s'
      \<and> (ms_active s' = ms_active s \<and> ms_previous s' = ms_previous s \<or> replaces_active s c s')"
  using activation_envelope [OF disk run] pending by (auto simp: deploys_def)


definition demo_candidate :: pending_candidate_record where
  "demo_candidate = \<lparr> pc_tag = ''v1.2.3'', pc_role = TargetServer, pc_staged_at = ''t'',
     pc_release_path = ''/opt/dam-hopper/releases/v1.2.3/server'',
     pc_manifest_sha256 = replicate 64 (CHR ''a''), pc_archive_sha256 = replicate 64 (CHR ''b''),
     pc_pending_units_path = None, pc_pending_host_config_path = None, pc_api_unit_sha256 = None,
     pc_web_unit_sha256 = None, pc_host_config_sha256 = None \<rparr>"

definition demo_state :: manager_state where
  "demo_state = (manager_state_default ''t'')\<lparr>ms_pending := Some demo_candidate\<rparr>"

theorem activation_crash_safe_witness:
  "\<exists>n' s'. hs_state (snd (execute_activation demo_env layout_new None
        (demo_host (StateFile 100 (Inr demo_state)) demo_state))) = StateFile n' (Inr s')
     \<and> 1 \<le> ms_generation s'"
proof -
  let ?h = "demo_host (StateFile 100 (Inr demo_state)) demo_state"
  obtain r h' where run: "execute_activation demo_env layout_new None ?h = (r, h')"
    by fastforce
  have disk: "hs_state ?h = StateFile 100 (Inr demo_state)" by (simp add: demo_host_def)
  have pending: "ms_pending demo_state = Some demo_candidate" by (simp add: demo_state_def)
  have "ms_generation demo_state = 1" by (simp add: demo_state_def manager_state_default_def)
  then show ?thesis
    using activation_crash_safe [OF disk pending run] run by auto
qed

text \<open>
  C7: what the result of activating a pending candidate means. Success is reported only when
  the state on disk is valid, has the candidate active under its release directory, the
  replaced release as the previous one, and neither a pending candidate nor a transaction;
  every error leaves a decodable state whose active release is the old one or the candidate.
\<close>

theorem activation_outcome:
  assumes disk: "hs_state h = StateFile n (Inr s)"
    and pending: "ms_pending s = Some c"
   
  shows "case execute_activation env ly service_user h of
      (Inr _, h') \<Rightarrow> \<exists>n' s' a. hs_state h' = StateFile n' (Inr s')
        \<and> is_ok (validate_manager_state (en_semver env) s')
        \<and> ms_active s' = Some a \<and> rr_tag a = pc_tag c \<and> rr_role a = pc_role c
        \<and> rr_release_path a = release_role_dir ly (pc_tag c) (role_str (pc_role c))
        \<and> (ms_previous s' = ms_active s
            \<or> map_option rr_tag (ms_previous s') = Some LEGACY_FORMAT2_TAG)
        \<and> ms_pending s' = None \<and> ms_transaction s' = None
    | (Inl _, h') \<Rightarrow> \<exists>n' s'. hs_state h' = StateFile n' (Inr s')
        \<and> (ms_active s' = ms_active s \<or> map_option rr_tag (ms_active s') = Some (pc_tag c))"
proof (cases "execute_activation env ly service_user h")
  case (Pair r h')
  show ?thesis
  proof (cases r)
    case (Inl e)
    with Pair activation_envelope [OF disk Pair] pending show ?thesis
      by (auto simp: deploys_def replaces_active_def split: option.splits)
  next
    case (Inr u)
    have "committed env ly s c h'"
      using activation_success [OF disk pending] Pair Inr by blast
    with Pair Inr show ?thesis
      by (auto simp: committed_def replaces_active_def split: state_file.splits sum.splits option.splits)
  qed
qed

theorem activation_outcome_witness:
  "case execute_activation demo_env layout_new None
       (demo_host (StateFile 100 (Inr demo_state)) demo_state) of
     (Inr _, h') \<Rightarrow> \<exists>n' s' a. hs_state h' = StateFile n' (Inr s') \<and> ms_active s' = Some a
       \<and> rr_tag a = ''v1.2.3'' \<and> ms_pending s' = None
   | (Inl _, h') \<Rightarrow> \<exists>n' s'. hs_state h' = StateFile n' (Inr s')"
proof -
  let ?h = "demo_host (StateFile 100 (Inr demo_state)) demo_state"
  have "hs_state ?h = StateFile 100 (Inr demo_state)" "ms_pending demo_state = Some demo_candidate"
    "pc_tag demo_candidate = ''v1.2.3''"
    by (simp_all add: demo_host_def demo_state_def demo_candidate_def)
  then show ?thesis
    using activation_outcome [of ?h 100 demo_state demo_candidate demo_env layout_new None]
    by (fastforce split: prod.splits sum.splits)
qed

text \<open>
  C25: the generation of the state on disk never goes back, along any sequence of activations
  and recoveries in any environments.
\<close>

theorem generation_never_decreases:
  "disk_generation h \<le> disk_generation (foldl (manager_step ly) h cs)"
  by (rule generations.run_mono)

text \<open>
  A state that carries a transaction is never activated. Staging a format-2 migration
  writes such a state (a pending candidate with a transaction in phase STAGED), and the
  transition graph has no edge from STAGED to QUIESCED.
\<close>

lemma staged_transaction_never_activates:
  assumes "hs_state h = StateFile n (Inr s)" "ms_pending s = Some c" "ms_transaction s = Some t"
  shows "fst (execute_activation env ly service_user h) \<noteq> Inr ()"
proof
  assume "fst (execute_activation env ly service_user h) = Inr ()"
  then obtain h' where "execute_activation env ly service_user h = (Inr (), h')"
    by (metis prod.collapse)
  from activation_needs_no_transaction [OF assms(1,2) this] assms(3) show False by simp
qed

definition demo_transaction :: transaction_record where
  "demo_transaction = \<lparr> tr_tx_id = ''tx'', tr_phase = PhaseStaged, tr_started_at = ''t'',
     tr_target_tag = ''v1.2.3'', tr_target_role = TargetServer,
     tr_previous_tag = Some LEGACY_FORMAT2_TAG, tr_previous_role = Some TargetServer,
     tr_units_backup_dir = None, tr_config_backup_path = None, tr_public_config_backup_path = None,
     tr_migration = None \<rparr>"

text \<open>
  A commit whose save fails has already changed the state in memory, and recording the
  failure persists it: the failed activation leaves the candidate as the active release, so
  the rollback that follows restores the candidate.
\<close>

lemma failed_commit_is_persisted:
  assumes "pipeline_commit env ly c h = (Inl e, h1)"
    and "record_failure env ly tx phase msg h1 = (Inr (), h2)"
  shows "\<exists>n s a. hs_state h2 = StateFile n (Inr s) \<and> ms_active s = Some a \<and> rr_tag a = pc_tag c
    \<and> ms_transaction s = None"
proof -
  from commit_memory [OF assms(1)] obtain now' where
    m: "ms_active (hs_mem h1) = Some (release_of_candidate ly now' c)" "ms_transaction (hs_mem h1) = None"
    by blast
  from assms(2) obtain x h' where
      u: "x = failure_of (en_now env (hs_ticks h1)) (Some (at_tx_id tx)) (pending_tag (hs_mem h1)) phase msg"
    and sv: "save_manager_state env ly (h1\<lparr>hs_ticks := Suc (hs_ticks h1),
        hs_mem := (hs_mem h1)\<lparr>ms_latest_failure := Some x\<rparr>\<rparr>) = (Inr (), h2)"
    by (auto simp: record_failure_def bindE_def timestamp_def update_state_def modify_def)
  from save_success [OF sv] m show ?thesis by (auto simp: release_of_candidate_def)
qed

definition faulty_env :: env where
  "faulty_env = demo_env\<lparr>en_fault := \<lambda>n. if n = 3 then Some ''disk full'' else None\<rparr>"

lemma faulty_env_simps [simp]:
  "en_fault faulty_env n = (if n = 3 then Some ''disk full'' else None)"
  "en_now faulty_env n = ''2026-01-01''" "en_semver faulty_env = demo_semver"
  "en_json_size faulty_env s = 100"
  by (simp_all add: faulty_env_def demo_env_def)

lemma demo_commit_valid:
  "validate_manager_state demo_semver (bumped t' (bumped t
     ((committed_state layout_new now now' demo_candidate demo_state)\<lparr>ms_latest_failure := x\<rparr>))) = Inr ()"
  "validate_manager_state demo_semver (bumped t
     (committed_state layout_new now now' demo_candidate demo_state)) = Inr ()"
  by (simp_all add: validate_manager_state_def bumped_def committed_state_def demo_state_def
      manager_state_default_def transaction_migration_def release_of_candidate_def demo_candidate_def
      validate_release_record_def when_some_def validate_release_tag_def version_of_tag_def
      ensure_def saturating_add_def validate_sha256_hex_def demo_digests)

text \<open>
  Recovery on a state file that cannot be read or does not validate returns an error
  before any service is stopped or disabled, also at boot.
\<close>

lemma recovery_ignores_unreadable_state:
  assumes "case hs_state h of
      StateMissing \<Rightarrow> False
    | StateNotRegular \<Rightarrow> True
    | StateFile n (Inl _) \<Rightarrow> True
    | StateFile n (Inr s) \<Rightarrow> \<not> is_ok (validate_manager_state (en_semver env) s)"
  shows "\<exists>e h'. execute_recovery env ly is_boot h = (Inl e, h')
    \<and> hs_log h' = hs_log h \<and> hs_enabled h' = hs_enabled h"
  using assms by (rule recovery_needs_readable_state)

end
