(* ===== verification/Release_Archive.thy ===== *)
theory Release_Archive
  imports Release_Retention
begin

text \<open>
  Release archives: the bounded reader, the inspection of every entry against the manifest
  (\<open>linux_release/archive.rs\<close>) and the extraction of the entries of a role
  (\<open>archive_extract.rs\<close>). Decompression and the tar format come from libraries: an archive is
  the sequence of entries and read errors they deliver.
\<close>

section \<open>The bounded reader\<close>

definition MAX_ARCHIVE_UNCOMPRESSED_BYTES :: u64 where
  "MAX_ARCHIVE_UNCOMPRESSED_BYTES = 512 * 1024 * 1024"

definition MAX_ARCHIVE_ENTRY_BYTES :: u64 where
  "MAX_ARCHIVE_ENTRY_BYTES = 128 * 1024 * 1024"

definition ARCHIVE_LIMIT_MARKER :: string where
  "ARCHIVE_LIMIT_MARKER = ''dam-hopper archive expansion limit exceeded''"

text \<open>
  The inner reader is the rest of the decompressed stream; a read of \<open>n\<close> bytes delivers
  between one and \<open>n\<close> of them, \<open>short\<close> says how many, and none only at the end. A reader is the
  limit, the bytes delivered so far, and the rest.
\<close>

record bounded_reader =
  br_limit :: u64
  br_total :: u64
  br_rest :: string

definition inner_read :: "(nat \<Rightarrow> nat) \<Rightarrow> nat \<Rightarrow> string \<Rightarrow> string \<times> string" where
  "inner_read short n s =
     (let k = (if n = 0 then 0 else max 1 (min n (short n))) in (take k s, drop k s))"

definition bounded_read ::
  "(nat \<Rightarrow> nat) \<Rightarrow> bounded_reader \<Rightarrow> nat \<Rightarrow> (string + string) \<times> bounded_reader" where
  "bounded_read short r n =
     (if n = 0 then (Inr [], r)
      else if br_limit r \<le> br_total r then
        (case inner_read short 1 (br_rest r) of (probe, rest) \<Rightarrow>
           (if probe = [] then Inr [] else Inl ARCHIVE_LIMIT_MARKER, r\<lparr>br_rest := rest\<rparr>))
      else
        let remaining = br_limit r - br_total r in
        if of_nat n \<le> remaining \<and> n < 2 ^ 64 then
          (case inner_read short n (br_rest r) of (bytes, rest) \<Rightarrow>
             (Inr bytes, r\<lparr>br_total := saturating_add (br_total r) (of_nat (length bytes)), br_rest := rest\<rparr>))
        else
          let allowed = unat remaining in
          (case inner_read short allowed (br_rest r) of (bytes, rest) \<Rightarrow>
             let r' = r\<lparr>br_total := saturating_add (br_total r) (of_nat (length bytes)), br_rest := rest\<rparr> in
             if length bytes < allowed then (Inr bytes, r')
             else
               (case inner_read short 1 rest of (probe, rest') \<Rightarrow>
                  (if probe = [] then Inr bytes else Inl ARCHIVE_LIMIT_MARKER, r'\<lparr>br_rest := rest'\<rparr>))))"

section \<open>Inspection\<close>

datatype tar_kind = TarRegular | TarDirectory | TarOther

text \<open>
  An entry: its path (an error, or \<open>None\<close> when it is not UTF-8), the mode and size of its header
  if they can be decoded, and the reads of its content up to the end.
\<close>

record tar_entry =
  te_path :: "string + string option"
  te_kind :: tar_kind
  te_mode :: "u32 option"
  te_size :: "u64 option"
  te_reads :: "(string + string) list"

type_synonym tar_stream = "string + (string + tar_entry) list"

definition map_archive_read_error :: "string \<Rightarrow> string \<Rightarrow> release_error" where
  "map_archive_read_error action details =
     (if contains_str ARCHIVE_LIMIT_MARKER details
      then ArchiveError (ArchiveTooLarge MAX_ARCHIVE_UNCOMPRESSED_BYTES)
      else io action details)"

definition map_entry_error :: "string \<Rightarrow> string \<Rightarrow> release_error" where
  "map_entry_error path details =
     (if contains_str ARCHIVE_LIMIT_MARKER details
      then ArchiveError (ArchiveTooLarge MAX_ARCHIVE_UNCOMPRESSED_BYTES)
      else ArchiveError (ArchiveEntryInvalid path details))"

definition trim_slashes :: "string \<Rightarrow> string" where
  "trim_slashes s = rev (dropWhile (\<lambda>c. c = CHR ''/'') (rev s))"

text \<open>The path of an entry, checked like a path of the inventory.\<close>

definition entry_path :: "tar_entry \<Rightarrow> release_error + string" where
  "entry_path e =
     (case te_path e of
        Inl details \<Rightarrow> Inl (map_entry_error ''unknown'' details)
      | Inr None \<Rightarrow> Inl (ArchiveError (ArchiveEntryTraversal ''non-UTF-8 path''))
      | Inr (Some raw_path_str) \<Rightarrow>
          let path_str = trim_slashes raw_path_str in
          and_then (normalize_inventory_path path_str) (\<lambda>_.
          and_then (check_disallowed_files path_str) (\<lambda>_. Inr path_str)))"

definition inventory_find :: "release_manifest \<Rightarrow> string \<Rightarrow> inventory_entry option" where
  "inventory_find m path = find (\<lambda>e. ie_path e = path) (mf_inventory m)"

fun read_entry :: "string \<Rightarrow> (string + string) list \<Rightarrow> release_error + string" where
  "read_entry path [] = Inr []"
| "read_entry path (Inl details # _) = Inl (map_entry_error path details)"
| "read_entry path (Inr chunk # reads) =
     and_then (read_entry path reads) (\<lambda>rest. Inr (chunk @ rest))"

definition check_file_entry ::
  "(string \<Rightarrow> string) \<Rightarrow> string \<Rightarrow> tar_entry \<Rightarrow> inventory_entry \<Rightarrow> release_error + unit" where
  "check_file_entry sha path e item =
     (if ie_kind item \<noteq> EntryFile
      then Inl (ArchiveError (ArchiveEntryInvalid path ''expected directory, found regular file''))
      else case ie_size item of
        None \<Rightarrow> Inl (InventoryError (MissingFileMetadata path))
      | Some expected_size \<Rightarrow>
          if MAX_ARCHIVE_ENTRY_BYTES < expected_size
          then Inl (ArchiveError (ArchiveTooLarge MAX_ARCHIVE_ENTRY_BYTES))
          else if (case te_size e of Some n \<Rightarrow> n | None \<Rightarrow> 0) \<noteq> expected_size
          then Inl (ArchiveError (ArchiveEntryInvalid path ''size mismatch''))
          else
            and_then (read_entry path (te_reads e)) (\<lambda>content.
              if length content \<noteq> unat expected_size
              then Inl (ArchiveError (ArchiveEntryInvalid path ''actual read size differs''))
              else
                let expected_sha = (case ie_sha256 item of Some s \<Rightarrow> s | None \<Rightarrow> []) in
                if sha content \<noteq> expected_sha
                then Inl (DeployError (ArchiveDigestMismatch path expected_sha (sha content)))
                else Inr ()))"

definition inspect_entry ::
  "(string \<Rightarrow> string) \<Rightarrow> release_manifest \<Rightarrow> string list \<Rightarrow> tar_entry \<Rightarrow> release_error + string" where
  "inspect_entry sha m seen e =
     and_then (entry_path e) (\<lambda>path.
       if path \<in> set seen then Inl (InventoryError (DuplicateInventoryPath path))
       else case inventory_find m path of
         None \<Rightarrow> Inl (ArchiveError (ArchiveInventoryMismatch (''unexpected entry in archive: '' @ path)))
       | Some item \<Rightarrow>
           if ((case te_mode e of Some n \<Rightarrow> n | None \<Rightarrow> 0) AND 0x1FF) \<noteq> ie_mode item
           then Inl (ArchiveError (ArchiveEntryInvalid path ''mode mismatch''))
           else
             and_then
               (case te_kind e of
                  TarDirectory \<Rightarrow> ensure (ie_kind item = EntryDir)
                    (ArchiveError (ArchiveEntryInvalid path ''expected file, found directory''))
                | TarRegular \<Rightarrow> check_file_entry sha path e item
                | TarOther \<Rightarrow> Inl (ArchiveError (ArchiveEntryNotRegularFileOrDir path)))
               (\<lambda>_. Inr path))"

fun inspect_entries ::
  "(string \<Rightarrow> string) \<Rightarrow> release_manifest \<Rightarrow> string list \<Rightarrow> (string + tar_entry) list
    \<Rightarrow> release_error + string list" where
  "inspect_entries sha m seen [] = Inr seen"
| "inspect_entries sha m seen (Inl details # _) = Inl (map_entry_error ''unknown'' details)"
| "inspect_entries sha m seen (Inr e # es) =
     and_then (inspect_entry sha m seen e) (\<lambda>path. inspect_entries sha m (path # seen) es)"

definition inspect_and_validate_archive ::
  "(string \<Rightarrow> string) \<Rightarrow> tar_stream \<Rightarrow> release_manifest \<Rightarrow> release_error + unit" where
  "inspect_and_validate_archive sha stream m =
     (case stream of
        Inl details \<Rightarrow> Inl (map_archive_read_error ''read archive entries'' details)
      | Inr es \<Rightarrow>
          and_then (inspect_entries sha m [] es) (\<lambda>seen.
            case find (\<lambda>item. ie_path item \<notin> set seen) (mf_inventory m) of
              Some item \<Rightarrow> Inl (ArchiveError (ArchiveInventoryMismatch
                           (''manifest entry missing from archive: '' @ ie_path item)))
            | None \<Rightarrow> Inr ()))"

section \<open>Extraction\<close>

fun read_all :: "(string + string) list \<Rightarrow> string + string" where
  "read_all [] = Inr []"
| "read_all (Inl details # _) = Inl details"
| "read_all (Inr chunk # reads) = and_then (read_all reads) (\<lambda>rest. Inr (chunk @ rest))"

text \<open>The bytes that are copied before the content ends or a read of it fails.\<close>

fun readable :: "(string + string) list \<Rightarrow> string" where
  "readable (Inr chunk # reads) = chunk @ readable reads"
| "readable _ = []"

text \<open>\<open>create_new\<close>, the copy of the content, the sync and the permissions.\<close>

definition create_new :: "env \<Rightarrow> string \<Rightarrow> string \<Rightarrow> unit command" where
  "create_new env action p = syscall env (io action) (\<lambda>h.
     if get_file p h \<noteq> None then (Inl (io action ''File exists''), h)
     else (Inr (), put_file p (RegularFile [] 0x1A4) h))"

text \<open>What is written through the open file.\<close>

definition write_open :: "string \<Rightarrow> string \<Rightarrow> host \<Rightarrow> host" where
  "write_open p content h =
     (case get_file p h of
        Some (RegularFile _ m) \<Rightarrow> put_file p (RegularFile content m) h
      | _ \<Rightarrow> h)"

definition extract_file :: "env \<Rightarrow> string \<Rightarrow> tar_entry \<Rightarrow> inventory_entry \<Rightarrow> unit command" where
  "extract_file env target e item = stepsE
     [create_dir_all env ''create parent directory'' (path_parent target),
      create_new env ''create output file'' target,
      syscall env (map_archive_read_error ''extract regular file content'')
        (modify (write_open target (readable (te_reads e)))),
      (case read_all (te_reads e) of
         Inl details \<Rightarrow> failE (map_archive_read_error ''extract regular file content'' details)
       | Inr _ \<Rightarrow> retE ()),
      syscall env (io ''fsync extracted file'') (retE ()),
      set_permissions env ''set file permissions'' target (ie_mode item)]"

text \<open>The entry of an item of the manifest, when the role needs it.\<close>

definition extract_item ::
  "env \<Rightarrow> target_role \<Rightarrow> string \<Rightarrow> string \<Rightarrow> tar_entry \<Rightarrow> inventory_entry \<Rightarrow> unit command" where
  "extract_item env role dest_dir path e item =
     (if \<not> role_matches role (ie_roles item) then retE ()
      else
        let target = path_join dest_dir path in
        case te_kind e of
          TarDirectory \<Rightarrow> stepsE
            [create_dir_all env ''create target directory'' target,
             set_permissions env ''set directory permissions'' target (ie_mode item)]
        | TarRegular \<Rightarrow> extract_file env target e item
        | TarOther \<Rightarrow> failE (ArchiveError (ArchiveEntryNotRegularFileOrDir path)))"

definition extract_entry ::
  "env \<Rightarrow> release_manifest \<Rightarrow> target_role \<Rightarrow> string \<Rightarrow> tar_entry \<Rightarrow> unit command" where
  "extract_entry env m role dest_dir e =
     bindE (liftE (entry_path e)) (\<lambda>path.
     if MAX_ARCHIVE_ENTRY_BYTES < (case te_size e of Some n \<Rightarrow> n | None \<Rightarrow> 0)
     then failE (ArchiveError (ArchiveTooLarge MAX_ARCHIVE_ENTRY_BYTES))
     else case inventory_find m path of
       None \<Rightarrow> failE (ArchiveError (ArchiveInventoryMismatch (''unexpected entry during extraction: '' @ path)))
     | Some item \<Rightarrow> extract_item env role dest_dir path e item)"

fun extract_entries ::
  "env \<Rightarrow> release_manifest \<Rightarrow> target_role \<Rightarrow> string \<Rightarrow> (string + tar_entry) list \<Rightarrow> unit command" where
  "extract_entries env m role dest_dir [] = retE ()"
| "extract_entries env m role dest_dir (Inl details # _) = failE (map_entry_error ''unknown'' details)"
| "extract_entries env m role dest_dir (Inr e # es) =
     bindE (extract_entry env m role dest_dir e) (\<lambda>_. extract_entries env m role dest_dir es)"

definition extract_role_projection ::
  "env \<Rightarrow> tar_stream \<Rightarrow> release_manifest \<Rightarrow> target_role \<Rightarrow> string \<Rightarrow> unit command" where
  "extract_role_projection env stream m role dest_dir =
     (case stream of
        Inl details \<Rightarrow> failE (map_archive_read_error ''read archive entries for extraction'' details)
      | Inr es \<Rightarrow> extract_entries env m role dest_dir es)"

end
