(* ===== verification/Release_Archive_Safety.thy ===== *)
theory Release_Archive_Safety
  imports Release_Archive Release_Frame Release_Health
begin

text \<open>
  Release archives: the reader bounds what is expanded, the inspection accepts exactly the archives of the inventory, the
  extraction writes only inside its destination, and after both the destination holds the
  verified projection of the role and nothing else.
\<close>

section \<open>The bounded reader\<close>

text \<open>
  The bytes a caller has received from the reader and whether a read has failed; a read asks for a
  number of bytes, and the inner reader may deliver fewer.
\<close>

type_synonym reading = "bounded_reader \<times> string \<times> bool"

definition reading_init :: "u64 \<Rightarrow> string \<Rightarrow> reading" where
  "reading_init limit s = (\<lparr> br_limit = limit, br_total = 0, br_rest = s \<rparr>, [], False)"

definition read_step :: "reading \<Rightarrow> (nat \<Rightarrow> nat) \<times> nat \<Rightarrow> reading" where
  "read_step st call =
     (case st of (r, out, failed) \<Rightarrow>
        if failed then st
        else case bounded_read (fst call) r (snd call) of
          (Inr chunk, r') \<Rightarrow> (r', out @ chunk, False)
        | (Inl _, r') \<Rightarrow> (r', out, True))"

definition reading_ok :: "u64 \<Rightarrow> string \<Rightarrow> reading \<Rightarrow> bool" where
  "reading_ok limit s st \<longleftrightarrow>
     (case st of (r, out, failed) \<Rightarrow>
        br_limit r = limit \<and> length out \<le> unat limit \<and> prefix out s
        \<and> (failed \<longrightarrow> unat limit < length s)
        \<and> (\<not> failed \<longrightarrow> s = out @ br_rest r \<and> length out = unat (br_total r)))"

lemma inner_read_append: "inner_read short n s = (a, b) \<Longrightarrow> s = a @ b \<and> length a \<le> n"
  by (auto simp: inner_read_def Let_def)

lemma inner_read_Nil: "inner_read short n s = ([], b) \<Longrightarrow> 0 < n \<Longrightarrow> s = []"
  by (auto simp: inner_read_def Let_def split: if_splits)

lemma total_after:
  fixes limit :: u64
  assumes "t < limit" "k \<le> unat (limit - t)"
  shows "unat (saturating_add t (of_nat k)) = unat t + k" "unat t + k \<le> unat limit"
proof -
  have s: "unat (limit - t) = unat limit - unat t" using assms(1) by (simp add: unat_sub_le)
  have l: "unat t < unat limit" using assms(1) by (simp add: word_less_nat_alt)
  with s assms(2) show b: "unat t + k \<le> unat limit" by simp
  have u: "unat limit < 2 ^ LENGTH(64)" by (rule unsigned_less)
  with b have "unat (of_nat k :: u64) = k" by (intro unat_of_nat_small) simp
  with b u show "unat (saturating_add t (of_nat k)) = unat t + k" by (simp add: unat_saturating_add)
qed

text \<open>The outcomes of a read of a reader below its limit.\<close>

lemma bounded_read_below:
  assumes "br_total r < br_limit r" "0 < n" "bounded_read short r n = (res, r')"
  obtains k chunk rest where "inner_read short k (br_rest r) = (chunk, rest)" "0 < k"
      "k \<le> unat (br_limit r - br_total r)" "res = Inr chunk" "br_limit r' = br_limit r"
      "br_total r' = saturating_add (br_total r) (of_nat (length chunk))" "br_rest r' = rest"
    | chunk where "br_rest r = chunk @ br_rest r'" "length chunk = Suc (unat (br_limit r - br_total r))"
      "res = Inl ARCHIVE_LIMIT_MARKER" "br_limit r' = br_limit r"
proof (cases "of_nat n \<le> br_limit r - br_total r \<and> n < 2 ^ 64")
  case True
  obtain chunk rest where i: "inner_read short n (br_rest r) = (chunk, rest)" by (cases "inner_read short n (br_rest r)")
  have "n = unat (of_nat n :: u64)" using True by (simp add: unat_of_nat_small)
  also have "\<dots> \<le> unat (br_limit r - br_total r)" using True by (simp add: word_le_nat_alt [symmetric])
  finally have "n \<le> unat (br_limit r - br_total r)" .
  moreover have "bounded_read short r n =
      (Inr chunk, r\<lparr>br_total := saturating_add (br_total r) (of_nat (length chunk)), br_rest := rest\<rparr>)"
    using assms(1) [unfolded not_le [symmetric]] assms(2) True i by (simp add: bounded_read_def Let_def)
  ultimately show ?thesis using that(1) [OF i assms(2)] assms(3) by simp
next
  case False
  let ?a = "unat (br_limit r - br_total r)"
  obtain chunk rest where i: "inner_read short ?a (br_rest r) = (chunk, rest)" by (cases "inner_read short ?a (br_rest r)")
  obtain p rest' where j: "inner_read short 1 rest = (p, rest')" by (cases "inner_read short 1 rest")
  have a: "0 < ?a"
    using unat_sub_le [OF less_imp_le [OF assms(1)]] assms(1) by (simp add: word_less_nat_alt)
  have e: "bounded_read short r n =
      (let r' = r\<lparr>br_total := saturating_add (br_total r) (of_nat (length chunk)), br_rest := rest\<rparr> in
       if length chunk < ?a then (Inr chunk, r')
       else (if p = [] then Inr chunk else Inl ARCHIVE_LIMIT_MARKER, r'\<lparr>br_rest := rest'\<rparr>))"
    using assms(1) [unfolded not_le [symmetric]] assms(2) i j
    unfolding bounded_read_def Let_def if_not_P [OF False] by simp
  show ?thesis
  proof (cases "length chunk < ?a \<or> p = []")
    case True
    then have "r' = r\<lparr>br_total := saturating_add (br_total r) (of_nat (length chunk)), br_rest := rest\<rparr> \<and> res = Inr chunk"
      using e assms(3) inner_read_append [OF j] inner_read_Nil [of short 1 rest rest'] j
      by (cases "length chunk < ?a") (auto simp: Let_def)
    then show ?thesis using that(1) [OF i a] by simp
  next
    case False
    then have "r' = r\<lparr>br_total := saturating_add (br_total r) (of_nat (length chunk)), br_rest := rest'\<rparr> \<and> res = Inl ARCHIVE_LIMIT_MARKER"
      using e assms(3) by (auto simp: Let_def)
    moreover have "length p = 1" using False inner_read_append [OF j] by (cases p) auto
    ultimately show ?thesis using that(2) [of "chunk @ p"] False inner_read_append [OF i] inner_read_append [OF j]
      by simp
  qed
qed


lemma bounded_read_at_limit:
  assumes "br_limit r \<le> br_total r" "0 < n" "bounded_read short r n = (res, r')"
  shows "br_rest r = [] \<and> res = Inr [] \<and> r' = r \<or> br_rest r \<noteq> [] \<and> res = Inl ARCHIVE_LIMIT_MARKER \<and> br_limit r' = br_limit r"
  using assms by (cases "br_rest r") (auto simp: bounded_read_def inner_read_def split: if_splits)

lemma reading_ok_step:
  assumes "reading_ok limit s st"
  shows "reading_ok limit s (read_step st call)"
proof -
  obtain r out failed where st: "st = (r, out, failed)" by (cases st)
  obtain short n where call: "call = (short, n)" by (cases call)
  obtain res r' where rd: "bounded_read short r n = (res, r')" by (cases "bounded_read short r n")
  show ?thesis
  proof (cases "failed \<or> n = 0")
    case True
    then show ?thesis using assms rd by (auto simp: read_step_def st call bounded_read_def)
  next
    case False
    with assms have inv: "br_limit r = limit" "length out \<le> unat limit" "s = out @ br_rest r" "length out = unat (br_total r)"
      by (auto simp: reading_ok_def st)
    from False have n: "0 < n" and ok: "\<not> failed" by auto
    show ?thesis
    proof (cases "br_total r < br_limit r")
      case True
      from bounded_read_below [OF this n rd] show ?thesis
      proof cases
        case (1 k chunk rest)
        note c = inner_read_append [OF 1(1)]
        with 1(3) have "length chunk \<le> unat (br_limit r - br_total r)" by simp
        from total_after [OF True this] show ?thesis
          using 1 inv c ok rd by (simp add: read_step_def st call reading_ok_def)
      next
        case (2 chunk)
        moreover have "unat (br_limit r - br_total r) = unat (br_limit r) - unat (br_total r)"
          using True by (simp add: unat_sub_le)
        ultimately show ?thesis using inv ok rd by (simp add: read_step_def st call reading_ok_def)
      qed
    next
      case False
      then have "unat limit \<le> unat (br_total r)" using inv(1) by (simp add: word_le_nat_alt not_less)
      with bounded_read_at_limit [OF _ n rd] False show ?thesis
        using inv ok rd by (auto simp: read_step_def st call reading_ok_def not_less)
    qed
  qed
qed

interpretation archive_reader: transition_system "reading_init limit s" read_step "reading_ok limit s" for limit s
  by unfold_locales (simp add: reading_ok_def reading_init_def, rule reading_ok_step)

lemma end_of_stream:
  assumes "reading_ok limit s (r, out, False)" "0 < n" "fst (bounded_read short r n) = Inr []"
  shows "out = s"
proof -
  obtain r' where rd: "bounded_read short r n = (Inr [], r')" using assms(3) by (cases "bounded_read short r n") auto
  have "br_rest r = []"
  proof (cases "br_total r < br_limit r")
    case True
    show ?thesis by (rule bounded_read_below [OF True assms(2) rd]) (auto dest: inner_read_Nil)
  next
    case False
    with bounded_read_at_limit [OF _ assms(2) rd] show ?thesis by (simp add: not_less)
  qed
  with assms(1) show ?thesis by (simp add: reading_ok_def)
qed

text \<open>
  Whatever reads are made and however short the reads of the stream below are, the reader
  delivers a prefix of the decompressed stream of at most the limit; it fails only on a stream
  that exceeds the limit, and when it reports the end the whole stream has been delivered.
\<close>

lemma archive_expansion_bounded:
  assumes "foldl read_step (reading_init limit s) calls = (r, out, failed)"
  shows "length out \<le> unat limit \<and> prefix out s \<and> (failed \<longrightarrow> unat limit < length s)
    \<and> (\<not> failed \<and> fst (bounded_read short r (Suc n)) = Inr [] \<longrightarrow> out = s)"
proof -
  have ok: "reading_ok limit s (r, out, failed)" using archive_reader.inv_reachable [of limit s calls] assms by simp
  then have "length out \<le> unat limit \<and> prefix out s \<and> (failed \<longrightarrow> unat limit < length s)"
    by (simp add: reading_ok_def)
  moreover have "out = s" if "\<not> failed" "fst (bounded_read short r (Suc n)) = Inr []"
    using end_of_stream [of limit s r out "Suc n" short] ok that by simp
  ultimately show ?thesis by blast
qed

section \<open>Inspection\<close>

text \<open>The path, mode, kind, size and digest of an entry are those of the manifest's item for it.\<close>

definition content_of :: "tar_entry \<Rightarrow> string" where
  "content_of e = (case read_all (te_reads e) of Inr s \<Rightarrow> s | Inl _ \<Rightarrow> [])"

definition matches_item :: "(string \<Rightarrow> string) \<Rightarrow> tar_entry \<Rightarrow> inventory_entry \<Rightarrow> bool" where
  "matches_item sha e item \<longleftrightarrow>
     ((case te_mode e of Some n \<Rightarrow> n | None \<Rightarrow> 0) AND 0x1FF) = ie_mode item
     \<and> (case te_kind e of
          TarDirectory \<Rightarrow> ie_kind item = EntryDir
        | TarRegular \<Rightarrow> ie_kind item = EntryFile
            \<and> is_ok (read_all (te_reads e))
            \<and> (case ie_size item of
                 None \<Rightarrow> False
               | Some n \<Rightarrow> n \<le> MAX_ARCHIVE_ENTRY_BYTES \<and> unat n = length (content_of e)
                   \<and> n = (case te_size e of Some k \<Rightarrow> k | None \<Rightarrow> 0))
            \<and> sha (content_of e) = (case ie_sha256 item of Some d \<Rightarrow> d | None \<Rightarrow> [])
        | TarOther \<Rightarrow> False)"

definition conforms :: "(string \<Rightarrow> string) \<Rightarrow> release_manifest \<Rightarrow> tar_entry \<Rightarrow> string \<Rightarrow> bool" where
  "conforms sha m e path \<longleftrightarrow> entry_path e = Inr path \<and>
     (case inventory_find m path of None \<Rightarrow> False | Some item \<Rightarrow> matches_item sha e item)"

lemma read_entry_Inr: "read_entry p rs = Inr s \<longleftrightarrow> read_all rs = Inr s"
  by (induction p rs arbitrary: s rule: read_entry.induct) (auto simp: and_then_Inr_iff)

lemma check_file_entry_Inr:
  "check_file_entry sha p e item = Inr u \<longleftrightarrow> ie_kind item = EntryFile
     \<and> is_ok (read_all (te_reads e))
     \<and> (case ie_size item of
          None \<Rightarrow> False
        | Some n \<Rightarrow> n \<le> MAX_ARCHIVE_ENTRY_BYTES \<and> unat n = length (content_of e)
            \<and> n = (case te_size e of Some k \<Rightarrow> k | None \<Rightarrow> 0))
     \<and> sha (content_of e) = (case ie_sha256 item of Some d \<Rightarrow> d | None \<Rightarrow> [])"
  by (cases "read_all (te_reads e)") (auto simp: check_file_entry_def and_then_Inr_iff read_entry_Inr
      is_ok_def content_of_def Let_def not_less split: option.splits if_splits)

lemma inspect_entry_Inr:
  "inspect_entry sha m seen e = Inr p \<longleftrightarrow> conforms sha m e p \<and> p \<notin> set seen"
proof (cases "entry_path e")
  case (Inl d)
  then show ?thesis by (simp add: inspect_entry_def conforms_def)
next
  case (Inr path)
  show ?thesis
  proof (cases "inventory_find m path")
    case None
    with Inr show ?thesis by (auto simp: inspect_entry_def conforms_def)
  next
    case (Some item)
    then have c: "conforms sha m e p \<longleftrightarrow> p = path \<and> matches_item sha e item"
      by (auto simp: conforms_def Inr)
    have i: "inspect_entry sha m seen e = Inr p \<longleftrightarrow> p = path \<and> path \<notin> set seen \<and> matches_item sha e item"
      unfolding inspect_entry_def Inr and_then_simps Some option.case matches_item_def
      by (cases "te_kind e") (auto simp: and_then_Inr_iff check_file_entry_Inr)
    show ?thesis unfolding c i by auto
  qed
qed

lemma inspect_entries_Inr:
  "inspect_entries sha m seen es = Inr seen' \<longleftrightarrow>
     (\<exists>entries paths. es = map Inr entries \<and> list_all2 (conforms sha m) entries paths
        \<and> distinct paths \<and> set paths \<inter> set seen = {} \<and> seen' = rev paths @ seen)"
proof (induction es arbitrary: seen)
  case Nil
  show ?case by auto
next
  case (Cons x es)
  show ?case
  proof (cases x)
    case (Inl d)
    then show ?thesis by auto
  next
    case (Inr e)
    have "inspect_entries sha m seen (x # es) = Inr seen' \<longleftrightarrow>
        (\<exists>p. conforms sha m e p \<and> p \<notin> set seen \<and> (\<exists>entries paths. es = map Inr entries
           \<and> list_all2 (conforms sha m) entries paths \<and> distinct paths
           \<and> set paths \<inter> set (p # seen) = {} \<and> seen' = rev paths @ (p # seen)))"
      by (simp add: Inr and_then_Inr_iff inspect_entry_Inr Cons.IH)
    also have "\<dots> \<longleftrightarrow> (\<exists>entries paths. x # es = map Inr entries \<and> list_all2 (conforms sha m) entries paths
        \<and> distinct paths \<and> set paths \<inter> set seen = {} \<and> seen' = rev paths @ seen)" (is "?l \<longleftrightarrow> ?r")
    proof
      assume ?l
      then obtain p entries paths where "conforms sha m e p" "p \<notin> set seen" "es = map Inr entries"
        "list_all2 (conforms sha m) entries paths" "distinct paths" "set paths \<inter> set (p # seen) = {}"
        "seen' = rev paths @ (p # seen)" by auto
      then show ?r using Inr by (intro exI [of _ "e # entries"] exI [of _ "p # paths"]) auto
    next
      assume ?r
      then obtain entries paths where r: "x # es = map Inr entries" "list_all2 (conforms sha m) entries paths"
        "distinct paths" "set paths \<inter> set seen = {}" "seen' = rev paths @ seen" by (elim exE conjE)
      from r(1) Inr obtain entries' where e': "entries = e # entries'" by (cases entries) auto
      with r(2) obtain p paths' where p': "paths = p # paths'" by (cases paths) auto
      from r e' p' show ?l by auto
    qed
    finally show ?thesis .
  qed
qed

text \<open>
  C9: The archive is accepted exactly when it can be read to the end and its entries are,
  one for one, the entries of the inventory: no path is missing, unexpected or repeated, and each
  entry has the kind, the mode, the size and the digest the manifest records for its path.
\<close>

theorem archive_is_inventory:
  "inspect_and_validate_archive sha stream m = Inr () \<longleftrightarrow>
     (\<exists>entries paths. stream = Inr (map Inr entries) \<and> list_all2 (conforms sha m) entries paths
        \<and> distinct paths \<and> set paths = set (map ie_path (mf_inventory m)))"
proof (cases stream)
  case (Inl d)
  then show ?thesis by (simp add: inspect_and_validate_archive_def)
next
  case (Inr es)
  have sub: "set paths \<subseteq> set (map ie_path (mf_inventory m))"
    if "list_all2 (conforms sha m) entries paths" for entries paths
    using that by (induction rule: list_all2_induct)
      (auto simp: conforms_def inventory_find_def find_Some_iff split: option.splits)
  have "inspect_and_validate_archive sha stream m = Inr () \<longleftrightarrow>
      (\<exists>seen. inspect_entries sha m [] es = Inr seen \<and> ie_path ` set (mf_inventory m) \<subseteq> set seen)"
    by (auto simp: Inr inspect_and_validate_archive_def and_then_Inr_iff find_None_iff split: option.splits)
  also have "\<dots> \<longleftrightarrow> (\<exists>entries paths. es = map Inr entries \<and> list_all2 (conforms sha m) entries paths
        \<and> distinct paths \<and> ie_path ` set (mf_inventory m) \<subseteq> set paths)"
    unfolding inspect_entries_Inr by (auto; metis set_rev)
  finally show ?thesis using sub Inr by fastforce
qed

section \<open>Extraction stays inside the destination\<close>

lemma get_write_open:
  "get_file q (write_open p c h) =
     (case get_file p h of Some (RegularFile _ m) \<Rightarrow> if q = p then Some (RegularFile c m) else get_file q h
      | _ \<Rightarrow> get_file q h)"
  by (simp add: write_open_def split: option.splits file_node.splits)

lemma file_create_new [file_rules]:
  "q \<noteq> p \<Longrightarrow> keeps (get_file q) (create_new env a p)"
  "q \<noteq> p \<Longrightarrow> keeps (get_file q) (modify (write_open p c))"
  by (auto simp: keeps_def create_new_def syscall_def Let_def modify_def get_write_open file_view.ticks
      split: option.splits file_node.splits)

lemma file_parent_dirs [file_rules]:
  "\<not> below q p \<Longrightarrow> CHR ''/'' \<in> set p \<Longrightarrow> keeps (get_file q) (create_dir_all env a (path_parent p))"
  "\<not> below q p \<Longrightarrow> keeps (get_file q) (create_dir_all env a p)"
  using prefix_below parent_below below_trans by (blast intro: file_writes(3))+

lemma file_extract:
  assumes "\<not> below q target" "CHR ''/'' \<in> set target"
  shows "keeps (get_file q) (extract_file env target e item)"
proof -
  from assms have q: "q \<noteq> target" by auto
  show ?thesis unfolding extract_file_def by (intro file_rules assms q)
qed

text \<open>The links of the host, which the extraction never touches.\<close>

definition link_at :: "string \<Rightarrow> host \<Rightarrow> string option" where
  "link_at q h = (case get_file q h of Some (Symlink t) \<Rightarrow> Some t | _ \<Rightarrow> None)"

interpretation link_view: clock_view "link_at q" for q
  by unfold_locales (simp_all add: link_at_def get_file_def)

lemma link_leaves:
  "keeps (link_at q) (create_dir_all env a p)" "keeps (link_at q) (create_new env a p)"
  "keeps (link_at q) (modify (write_open p c))" "keeps (link_at q) (set_permissions env a p m)"
  by (auto simp: keeps_def link_at_def create_dir_all_def create_new_def set_permissions_def syscall_def Let_def
      modify_def get_make_dirs get_write_open chmod_def file_view.ticks split: option.splits file_node.splits)

lemmas link_rules = link_leaves link_view.keeps_syscall frame_combinators

lemma keeps_kind:
  "keeps view a \<Longrightarrow> keeps view b \<Longrightarrow> keeps view c \<Longrightarrow>
     keeps view (case k of TarRegular \<Rightarrow> a | TarDirectory \<Rightarrow> b | TarOther \<Rightarrow> c)"
  by (cases k) auto

lemma link_extract: "keeps (link_at q) (extract_entry env m role dest e)"
  unfolding extract_entry_def extract_item_def extract_file_def by (intro link_rules keeps_kind)

lemma keeps_extract_entries:
  "(\<And>e. keeps view (extract_entry env m role dest e)) \<Longrightarrow> keeps view (extract_entries env m role dest es)"
  by (induction es rule: extract_entries.induct) (simp_all add: frame_combinators)

lemma keeps_projection:
  "(\<And>e. keeps view (extract_entry env m role dest e)) \<Longrightarrow> keeps view (extract_role_projection env stream m role dest)"
  unfolding extract_role_projection_def by (intro frame_combinators keeps_extract_entries)

definition plain_dir :: "string \<Rightarrow> bool" where
  "plain_dir d \<longleftrightarrow> d \<noteq> [] \<and> \<not> ends_with ''/'' d"

lemma entry_path_ok: "entry_path e = Inr p \<Longrightarrow> path_ok p"
  by (auto simp: entry_path_def and_then_Inr_iff normalize_inventory_path_iff Let_def
      split: sum.splits option.splits)

lemma target_below:
  assumes "plain_dir dest" "path_ok p"
  shows "path_join dest p = dest @ CHR ''/'' # p"
  using assms path_ok_edges [of p] by (auto simp: path_join_def path_ok_def plain_dir_def)

lemma keeps_lift: "(\<And>x. r = Inr x \<Longrightarrow> keeps view (f x)) \<Longrightarrow> keeps view (bindE (liftE r) f)"
  by (cases r) (simp_all add: keeps_def bindE_def liftE_def)

lemma file_extract_item:
  assumes d: "plain_dir dest" and p: "path_ok p" and q: "\<not> below q (path_join dest p)"
  shows "keeps (get_file q) (extract_item env role dest p e item)"
proof -
  have s: "CHR ''/'' \<in> set (path_join dest p)" by (simp add: target_below [OF d p])
  from q have n: "q \<noteq> path_join dest p" by auto
  show ?thesis unfolding extract_item_def Let_def by (intro file_rules keeps_kind file_extract q s n)
qed

lemma file_extract_entry:
  assumes "plain_dir dest" "\<And>p. path_ok p \<Longrightarrow> \<not> below q (path_join dest p)"
  shows "keeps (get_file q) (extract_entry env m role dest e)"
  unfolding extract_entry_def
  by (intro keeps_lift keeps_if keeps_basic keeps_option file_extract_item assms entry_path_ok)

text \<open>
  Where a path leads. The file table knows paths as they are written; what the kernel makes of a written
  path without links is its \<open>location\<close>, where every \<open>..\<close> has gone up.
\<close>

definition location :: "string \<Rightarrow> string list" where
  "location p = walk [] (split_on (CHR ''/'') p)"

definition outside :: "string \<Rightarrow> string \<Rightarrow> bool" where
  "outside dest q \<longleftrightarrow> \<not> prefix (location dest) (location q) \<and> \<not> prefix (location q) (location dest)"

definition rooted_dir :: "string \<Rightarrow> bool" where
  "rooted_dir d \<longleftrightarrow> plain_dir d \<and> starts_with ''/'' d \<and> ''..'' \<notin> set (split_on (CHR ''/'') d)"

lemma walk_append: "walk d (xs @ ys) = walk (walk d xs) ys"
  by (induction d xs rule: walk.induct) auto

lemma walk_down: "''..'' \<notin> set cs \<Longrightarrow> walk d cs = d @ filter (\<lambda>c. c \<noteq> [] \<and> c \<noteq> ''.'') cs"
  by (induction d cs rule: walk.induct) auto

lemma split_on_joined: "split_on c (a @ c # b) = split_on c a @ split_on c b"
proof (induction a)
  case (Cons x a)
  obtain p ps where "split_on c a = p # ps" by (cases "split_on c a") auto
  with Cons show ?case by (cases "x = c") auto
qed simp

text \<open>What is written by way of a checked path leads into the destination or to a directory above it.\<close>

lemma checked_path_inside:
  assumes "rooted_dir dest" "path_ok p" "below q (path_join dest p)"
  shows "\<not> outside dest q"
proof -
  let ?cs = "split_on (CHR ''/'')"
  have t: "path_join dest p = dest @ CHR ''/'' # p"
    using assms(1,2) by (intro target_below) (auto simp: rooted_dir_def)
  obtain r where r: "?cs dest @ ?cs p = ?cs q @ r"
    using assms(3) unfolding t below_iff by (metis append_Nil2 split_on_joined)
  have down: "''..'' \<notin> set (?cs dest)" "''..'' \<notin> set (?cs p)"
    using assms(1,2) by (auto simp: rooted_dir_def path_ok_def)
  from r consider v where "?cs dest = ?cs q @ v" | v where "?cs q = ?cs dest @ v" "?cs p = v @ r"
    by (auto simp: append_eq_append_conv2) (metis that)
  then show ?thesis
  proof cases
    case 1
    with down(1) show ?thesis by (simp add: outside_def location_def walk_append walk_down)
  next
    case 2
    with down(2) show ?thesis by (simp add: outside_def location_def walk_append walk_down)
  qed
qed

text \<open>No symbolic link on the way to a directory or inside it.\<close>

definition unlinked :: "string \<Rightarrow> host \<Rightarrow> bool" where
  "unlinked d h \<longleftrightarrow> (\<forall>q. below d q \<or> below q d \<longrightarrow> link_at q h = None)"

text \<open>
  C11: Whatever archive is given and whichever calls fail, the extraction writes no path that leads outside the
  destination: a path whose resolution, with every \<open>..\<close> gone up, ends neither in the destination nor at a directory
  above it is as it was. The destination is an absolute path without \<open>..\<close> and without a slash at its
  end, and no symbolic link lies below or above it; the extraction creates none, so this stays so and the
  resolution of the paths is the kernel's.
\<close>

theorem extraction_confined:
  assumes "rooted_dir dest" "unlinked dest h" "outside dest q"
    "extract_role_projection env stream m role dest h = (r, h')"
  shows "get_file q h' = get_file q h \<and> unlinked dest h'"
proof
  have "plain_dir dest" using assms(1) by (simp add: rooted_dir_def)
  moreover have "\<not> below q (path_join dest p)" if "path_ok p" for p
    using checked_path_inside [OF assms(1) that] assms(3) by blast
  ultimately show "get_file q h' = get_file q h"
    using keepsD [OF keeps_projection [OF file_extract_entry] assms(4)] by blast
  have "link_at p h' = link_at p h" for p
    using keepsD [OF keeps_projection [OF link_extract] assms(4)] .
  with assms(2) show "unlinked dest h'" by (simp add: unlinked_def)
qed

section \<open>What a successful extraction leaves\<close>

lemma create_new_Inr:
  assumes "create_new env a p h = (Inr u, h')"
  shows "get_file p h = None" "get_file q h' = (if q = p then Some (RegularFile [] 0x1A4) else get_file q h)"
  using assms by (auto simp: create_new_def syscall_Inr file_view.ticks split: if_splits)

lemma readable_all: "read_all rs = Inr c \<Longrightarrow> readable rs = c"
  by (induction rs arbitrary: c rule: readable.induct) (auto simp: and_then_Inr_iff)

lemma extract_file_Inr:
  assumes "extract_file env target e item h = (Inr u, h')" "CHR ''/'' \<in> set target"
  shows "get_file target h' = Some (RegularFile (content_of e) (ie_mode item))"
    "q \<noteq> target \<Longrightarrow> get_file q h' = get_file q h
       \<or> get_file q h = None \<and> below q target \<and> get_file q h' = Some (Directory 0x1ED)"
proof -
  from assms(1) obtain h1 h2 n k c where s: "create_dir_all env ''create parent directory'' (path_parent target) h = (Inr (), h1)"
      "create_new env ''create output file'' target h1 = (Inr (), h2)"
      "read_all (te_reads e) = Inr c"
      "set_permissions env ''set file permissions'' target (ie_mode item)
         (write_open target c (h2\<lparr>hs_ticks := n\<rparr>)\<lparr>hs_ticks := k\<rparr>) = (Inr (), h')" (is "set_permissions _ _ _ _ ?h3 = _")
    by (auto simp: extract_file_def bindE_Inr syscall_Inr failE_def modify_def retE_def dest: readable_all split: sum.splits)
  from create_new_Inr [OF s(2)] have h3: "get_file q ?h3 = (if q = target then Some (RegularFile c 0x1A4) else get_file q h1)" for q
    by (simp add: file_view.ticks get_write_open)
  with s(3) show "get_file target h' = Some (RegularFile (content_of e) (ie_mode item))"
    by (simp add: set_permissions_Inr [OF s(4)] chmod_def content_of_def)
  assume "q \<noteq> target"
  then have "get_file q h' = get_file q h1" by (simp add: set_permissions_Inr [OF s(4)] h3)
  moreover have "q \<in> set (path_prefixes (path_parent target)) \<Longrightarrow> below q target"
    using prefix_below parent_below [OF assms(2)] below_trans by blast
  ultimately show "get_file q h' = get_file q h
       \<or> get_file q h = None \<and> below q target \<and> get_file q h' = Some (Directory 0x1ED)"
    by (auto simp: create_dir_all_Inr(1) [OF s(1)])
qed

definition node_for :: "tar_entry \<Rightarrow> inventory_entry \<Rightarrow> file_node" where
  "node_for e item =
     (if te_kind e = TarDirectory then Directory (ie_mode item) else RegularFile (content_of e) (ie_mode item))"

lemma extract_dir_Inr:
  assumes "stepsE [create_dir_all env a t, set_permissions env b t n] h = (Inr u, h')"
    "CHR ''/'' \<in> set t" "link_at t h = None"
  shows "get_file t h' = Some (Directory n)"
    "q \<noteq> t \<Longrightarrow> get_file q h' = get_file q h
       \<or> get_file q h = None \<and> below q t \<and> get_file q h' = Some (Directory 0x1ED)"
proof -
  from assms(1) obtain h1 where s: "create_dir_all env a t h = (Inr (), h1)" "set_permissions env b t n h1 = (Inr (), h')"
    by (auto simp: bindE_Inr retE_def)
  show "get_file t h' = Some (Directory n)"
    using create_dir_all_Inr [OF s(1), of t] set_permissions_Inr [OF s(2), of t] self_prefix [OF assms(2)] assms(3)
    by (cases "get_file t h") (auto simp: chmod_def link_at_def split: file_node.splits)
  show "get_file q h' = get_file q h \<or> get_file q h = None \<and> below q t \<and> get_file q h' = Some (Directory 0x1ED)"
    if "q \<noteq> t"
    using that create_dir_all_Inr(1) [OF s(1), of q] set_permissions_Inr [OF s(2), of q] prefix_below [of q t]
    by (auto split: if_splits)
qed

lemma extract_item_Inr:
  assumes "extract_item env role dest p e item h = (Inr u, h')" "role_matches role (ie_roles item)"
    "CHR ''/'' \<in> set (path_join dest p)" "link_at (path_join dest p) h = None"
  shows "get_file (path_join dest p) h' = Some (node_for e item)
    \<and> (\<forall>q. q \<noteq> path_join dest p \<longrightarrow> get_file q h' = get_file q h
         \<or> get_file q h = None \<and> below q (path_join dest p) \<and> get_file q h' = Some (Directory 0x1ED))"
proof (cases "te_kind e")
  case TarRegular
  with assms have "extract_file env (path_join dest p) e item h = (Inr u, h')" by (simp add: extract_item_def)
  from extract_file_Inr [OF this assms(3)] show ?thesis using TarRegular by (simp add: node_for_def)
next
  case TarDirectory
  with assms(1,2) have "stepsE [create_dir_all env ''create target directory'' (path_join dest p),
      set_permissions env ''set directory permissions'' (path_join dest p) (ie_mode item)] h = (Inr u, h')"
    by (simp add: extract_item_def Let_def)
  from extract_dir_Inr [OF this assms(3,4)] show ?thesis using TarDirectory by (simp add: node_for_def)
next
  case TarOther
  with assms(1,2) show ?thesis by (simp add: extract_item_def failE_def)
qed

text \<open>The items of the manifest a role needs, with the entries of the archive that hold them.\<close>

definition projected :: "release_manifest \<Rightarrow> target_role \<Rightarrow> tar_entry list \<Rightarrow> (string \<times> tar_entry \<times> inventory_entry) set" where
  "projected m role entries =
     {(p, e, item). e \<in> set entries \<and> entry_path e = Inr p \<and> inventory_find m p = Some item
        \<and> role_matches role (ie_roles item)}"

text \<open>
  After the entries are extracted the projected items are there; a node that was there before
  is unchanged; a new node is an item or a directory above one.
\<close>

definition delivered ::
  "release_manifest \<Rightarrow> target_role \<Rightarrow> string \<Rightarrow> tar_entry list \<Rightarrow> host \<Rightarrow> host \<Rightarrow> bool" where
  "delivered m role dest entries h h' \<longleftrightarrow>
     (\<forall>(p, e, item) \<in> projected m role entries. get_file (path_join dest p) h' = Some (node_for e item))
     \<and> (\<forall>q. q \<notin> (\<lambda>(p, _). path_join dest p) ` projected m role entries \<longrightarrow>
          get_file q h' = get_file q h
          \<or> get_file q h = None \<and> get_file q h' = Some (Directory 0x1ED)
            \<and> (\<exists>(p, _) \<in> projected m role entries. below q (path_join dest p)))"

lemma delivered_item:
  "delivered m role dest entries h h' \<Longrightarrow> (p, e, item) \<in> projected m role entries \<Longrightarrow>
     get_file (path_join dest p) h' = Some (node_for e item)"
  by (auto simp: delivered_def)

lemma delivered_other:
  assumes "delivered m role dest entries h h'" "q \<notin> (\<lambda>(p, _). path_join dest p) ` projected m role entries"
  shows "get_file q h' = get_file q h
     \<or> get_file q h = None \<and> get_file q h' = Some (Directory 0x1ED)
       \<and> (\<exists>(p, _) \<in> projected m role entries. below q (path_join dest p))"
  using assms(1) [unfolded delivered_def, THEN conjunct2, rule_format, OF assms(2)] .

lemma extract_entry_delivered:
  assumes "extract_entry env m role dest e h = (Inr u, h')" "plain_dir dest" "unlinked dest h"
  shows "delivered m role dest [e] h h'"
proof -
  from assms(1) obtain p item where p: "entry_path e = Inr p" "inventory_find m p = Some item"
    and x: "extract_item env role dest p e item h = (Inr u, h')"
    by (auto simp: extract_entry_def bindE_Inr liftE_def failE_def split: if_splits option.splits)
  have t: "path_join dest p = dest @ CHR ''/'' # p" by (rule target_below [OF assms(2) entry_path_ok [OF p(1)]])
  then have s: "CHR ''/'' \<in> set (path_join dest p)" and "below dest (path_join dest p)" by (auto simp: below_iff)
  with assms(3) have l: "link_at (path_join dest p) h = None" by (simp add: unlinked_def)
  show ?thesis
  proof (cases "role_matches role (ie_roles item)")
    case True
    with p have pr: "projected m role [e] = {(p, e, item)}" by (auto simp: projected_def)
    from extract_item_Inr [OF x True s l] show ?thesis unfolding delivered_def pr by auto
  next
    case False
    with p have pr: "projected m role [e] = {}" by (auto simp: projected_def)
    from False x have "h' = h" by (simp add: extract_item_def retE_def)
    then show ?thesis unfolding delivered_def pr by simp
  qed
qed

lemma projected_Cons: "projected m role (e # es) = projected m role [e] \<union> projected m role es"
  by (auto simp: projected_def)

lemma delivered_append:
  assumes "delivered m role dest [e] h h1" "delivered m role dest es h1 h2"
    and "\<And>p e' p' i i'. (p, e, i) \<in> projected m role [e] \<Longrightarrow> (p', e', i') \<in> projected m role es \<Longrightarrow> path_join dest p \<noteq> path_join dest p'"
  shows "delivered m role dest (e # es) h h2"
  unfolding delivered_def projected_Cons [of m role e es]
proof (intro conjI ballI allI impI)
  fix x
  assume x: "x \<in> projected m role [e] \<union> projected m role es"
  obtain p f i where pf: "x = (p, f, i)" by (cases x)
  show "case x of (p, e, item) \<Rightarrow> get_file (path_join dest p) h2 = Some (node_for e item)"
  proof (cases "x \<in> projected m role es")
    case True
    with assms(2) pf show ?thesis by (auto simp: delivered_def)
  next
    case False
    with x pf have x1: "(p, e, i) \<in> projected m role [e]" "f = e" by (auto simp: projected_def)
    then have "path_join dest p \<notin> (\<lambda>(p, _). path_join dest p) ` projected m role es"
      using assms(3) by fastforce
    from delivered_other [OF assms(2) this] delivered_item [OF assms(1) x1(1)]
    have "get_file (path_join dest p) h2 = Some (node_for e i)" by auto
    then show ?thesis by (simp add: pf x1(2))
  qed
next
  fix q
  assume q: "q \<notin> (\<lambda>(p, _). path_join dest p) ` (projected m role [e] \<union> projected m role es)"
  then have q1: "q \<notin> (\<lambda>(p, _). path_join dest p) ` projected m role [e]" and q2: "q \<notin> (\<lambda>(p, _). path_join dest p) ` projected m role es"
    by auto
  from delivered_other [OF assms(1) q1] delivered_other [OF assms(2) q2]
  show "get_file q h2 = get_file q h \<or> get_file q h = None \<and> get_file q h2 = Some (Directory 0x1ED)
        \<and> (\<exists>(p, _) \<in> projected m role [e] \<union> projected m role es. below q (path_join dest p))" by auto
qed

lemma extract_entries_delivered:
  assumes "extract_entries env m role dest (map Inr entries) h = (Inr u, h')" "plain_dir dest" "unlinked dest h"
    "distinct (map entry_path entries)"
  shows "delivered m role dest entries h h'"
  using assms(1,3,4)
proof (induction entries arbitrary: h)
  case Nil
  then show ?case by (simp add: delivered_def projected_def retE_def)
next
  case (Cons e es)
  then obtain h1 where h1: "extract_entry env m role dest e h = (Inr (), h1)"
      "extract_entries env m role dest (map Inr es) h1 = (Inr u, h')" by (auto simp: bindE_Inr)
  have "unlinked dest h1"
    using keepsD [OF link_extract h1(1)] Cons.prems(2) by (simp add: unlinked_def)
  with Cons.IH h1(2) Cons.prems(3) have r: "delivered m role dest es h1 h'" by simp
  show ?case
  proof (rule delivered_append [OF extract_entry_delivered [OF h1(1) assms(2) Cons.prems(2)] r])
    fix p e' p' i i'
    assume a: "(p, e, i) \<in> projected m role [e]" "(p', e', i') \<in> projected m role es"
    then have "entry_path e = Inr p" "entry_path e' = Inr p'" "e' \<in> set es" by (auto simp: projected_def)
    with Cons.prems(3) have "p \<noteq> p'" "path_ok p" "path_ok p'"
      by (auto dest: entry_path_ok) (metis image_eqI)
    then show "path_join dest p \<noteq> path_join dest p'" using target_below [OF assms(2)] by simp
  qed
qed

definition staged_as :: "(string \<Rightarrow> string) \<Rightarrow> inventory_entry \<Rightarrow> file_node \<Rightarrow> bool" where
  "staged_as sha item n \<longleftrightarrow>
     (case ie_kind item of
        EntryDir \<Rightarrow> n = Directory (ie_mode item)
      | EntryFile \<Rightarrow>
          (case n of
             RegularFile c k \<Rightarrow> k = ie_mode item \<and> map_option unat (ie_size item) = Some (length c)
               \<and> sha c = (case ie_sha256 item of Some d \<Rightarrow> d | None \<Rightarrow> [])
           | _ \<Rightarrow> False))"

lemma node_for_staged: "matches_item sha e item \<Longrightarrow> staged_as sha item (node_for e item)"
  by (auto simp: matches_item_def staged_as_def node_for_def split: tar_kind.splits option.splits)

lemma inventory_find_item:
  "distinct (map ie_path (mf_inventory m)) \<Longrightarrow> item \<in> set (mf_inventory m) \<Longrightarrow> inventory_find m (ie_path item) = Some item"
  unfolding inventory_find_def by (induction "mf_inventory m" arbitrary: m rule: list.induct)
   (auto simp: find_Some_iff distinct_conv_nth in_set_conv_nth)

lemma list_all2_paths: "list_all2 (conforms sha m) entries paths \<Longrightarrow> map entry_path entries = map Inr paths"
  by (induction rule: list_all2_induct) (simp_all add: conforms_def)

lemma distinct_map_Inr: "distinct (map Inr xs) = distinct xs"
  by (simp add: distinct_map)

text \<open>
  C12: When an archive passes the inspection and the same archive is then extracted for a role into
  a fresh directory, every item of the manifest that the role needs is there with the recorded
  mode and, for a file, the recorded size and digest; and there is nothing else but the
  directories above these items.
\<close>

theorem staged_tree_is_projection:
  assumes "inspect_and_validate_archive sha stream m = Inr ()" "distinct (map ie_path (mf_inventory m))"
    "extract_role_projection env stream m role dest h = (Inr (), h')"
    "plain_dir dest" "unlinked dest h" "\<forall>q. below dest q \<and> q \<noteq> dest \<longrightarrow> get_file q h = None"
  shows "(\<forall>item \<in> set (mf_inventory m). role_matches role (ie_roles item) \<longrightarrow>
            (\<exists>n. get_file (path_join dest (ie_path item)) h' = Some n \<and> staged_as sha item n))
    \<and> (\<forall>q n. below dest q \<and> q \<noteq> dest \<and> get_file q h' = Some n \<longrightarrow>
         (\<exists>item \<in> set (mf_inventory m). role_matches role (ie_roles item)
            \<and> (q = path_join dest (ie_path item)
               \<or> n = Directory 0x1ED \<and> below q (path_join dest (ie_path item)))))"
proof -
  from assms(1) obtain entries paths where s: "stream = Inr (map Inr entries)"
    and c: "list_all2 (conforms sha m) entries paths" and "distinct paths"
    and paths: "set paths = ie_path ` set (mf_inventory m)"
    unfolding archive_is_inventory by auto
  then have "distinct (map entry_path entries)" by (simp add: list_all2_paths [OF c] distinct_map_Inr)
  with s assms(3-5) have d: "delivered m role dest entries h h'"
    by (intro extract_entries_delivered) (simp_all add: extract_role_projection_def)
  show ?thesis
  proof (intro conjI ballI allI impI)
    fix item
    assume item: "item \<in> set (mf_inventory m)" "role_matches role (ie_roles item)"
    then have "ie_path item \<in> set paths" by (simp add: paths)
    then obtain e where e: "e \<in> set entries" "conforms sha m e (ie_path item)"
      using c by (metis in_set_conv_nth list_all2_conv_all_nth)
    then have "entry_path e = Inr (ie_path item)" "matches_item sha e item"
      by (simp_all add: conforms_def inventory_find_item [OF assms(2) item(1)])
    with e item have "(ie_path item, e, item) \<in> projected m role entries"
      by (simp add: projected_def inventory_find_item [OF assms(2) item(1)])
    from delivered_item [OF d this] show "\<exists>n. get_file (path_join dest (ie_path item)) h' = Some n \<and> staged_as sha item n"
      using node_for_staged [OF \<open>matches_item sha e item\<close>] by blast
  next
    fix q n
    assume q: "below dest q \<and> q \<noteq> dest \<and> get_file q h' = Some n"
    with assms(6) have fresh: "get_file q h = None" by simp
    have proj: "\<exists>item \<in> set (mf_inventory m). role_matches role (ie_roles item) \<and> p = ie_path item"
      if "(p, x) \<in> projected m role entries" for p x
      using that by (auto simp: projected_def inventory_find_def find_Some_iff intro!: bexI [OF _ nth_mem])
    show "\<exists>item \<in> set (mf_inventory m). role_matches role (ie_roles item)
            \<and> (q = path_join dest (ie_path item) \<or> n = Directory 0x1ED \<and> below q (path_join dest (ie_path item)))"
    proof (cases "q \<in> (\<lambda>(p, _). path_join dest p) ` projected m role entries")
      case True
      then obtain p x where px: "(p, x) \<in> projected m role entries" "q = path_join dest p" by auto
      with proj [OF px(1)] show ?thesis by auto
    next
      case False
      from delivered_other [OF d False] fresh q obtain p x where
        px: "(p, x) \<in> projected m role entries" "n = Directory 0x1ED" "below q (path_join dest p)" by auto
      with proj [OF px(1)] show ?thesis by auto
    qed
  qed
qed


section \<open>Witnesses\<close>

text \<open>An archive of one directory and one file, whose digest is taken to be the content.\<close>

definition demo_page :: tar_entry where
  "demo_page = \<lparr> te_path = Inr (Some ''web/index''), te_kind = TarRegular, te_mode = Some 0x1A4,
     te_size = Some 5, te_reads = [Inr ''hel'', Inr ''lo''] \<rparr>"

definition demo_folder :: tar_entry where
  "demo_folder = \<lparr> te_path = Inr (Some ''web/''), te_kind = TarDirectory, te_mode = Some 0x1ED,
     te_size = Some 0, te_reads = [] \<rparr>"

definition demo_page_item :: inventory_entry where
  "demo_page_item = \<lparr> ie_path = ''web/index'', ie_kind = EntryFile, ie_roles = [RoleWeb], ie_mode = 0x1A4,
     ie_size = Some 5, ie_sha256 = Some ''hello'' \<rparr>"

definition demo_tree_manifest :: release_manifest where
  "demo_tree_manifest = demo_manifest\<lparr>mf_inventory :=
     [\<lparr> ie_path = ''web'', ie_kind = EntryDir, ie_roles = [RoleWeb], ie_mode = 0x1ED,
        ie_size = None, ie_sha256 = None \<rparr>, demo_page_item]\<rparr>"

definition demo_staging_host :: host where
  "demo_staging_host = (demo_host StateMissing (manager_state_default []))\<lparr>hs_files := [(''/s'', Directory 0x1ED)]\<rparr>"

lemma demo_entry_fields:
  "te_path demo_page = Inr (Some ''web/index'')" "te_kind demo_page = TarRegular" "te_mode demo_page = Some 0x1A4"
  "te_size demo_page = Some 5" "te_reads demo_page = [Inr ''hel'', Inr ''lo'']"
  "te_path demo_folder = Inr (Some ''web/'')" "te_kind demo_folder = TarDirectory" "te_mode demo_folder = Some 0x1ED"
  "te_size demo_folder = Some 0"
  by (simp_all add: demo_page_def demo_folder_def)

lemma demo_entry_paths: "entry_path demo_page = Inr ''web/index''" "entry_path demo_folder = Inr ''web''"
  by (simp_all add: entry_path_def demo_entry_fields trim_slashes_def normalize_inventory_path_def
      MAX_PATH_LENGTH_def starts_with_def ends_with_def check_disallowed_files_def to_ascii_lower_def ascii_class_defs
      Let_def char_of_def)

lemma demo_tree_inventory:
  "mf_inventory demo_tree_manifest = [\<lparr> ie_path = ''web'', ie_kind = EntryDir, ie_roles = [RoleWeb],
     ie_mode = 0x1ED, ie_size = None, ie_sha256 = None \<rparr>, demo_page_item]"
  by (simp add: demo_tree_manifest_def)

lemma demo_archive_inspected:
  "inspect_and_validate_archive (\<lambda>s. s) (Inr [Inr demo_folder, Inr demo_page]) demo_tree_manifest = Inr ()"
  by (simp add: inspect_and_validate_archive_def inspect_entry_def demo_entry_paths demo_tree_inventory
      inventory_find_def demo_page_item_def check_file_entry_def demo_entry_fields MAX_ARCHIVE_ENTRY_BYTES_def ensure_def)

lemma demo_extracted:
  "fst (extract_role_projection demo_env (Inr [Inr demo_folder, Inr demo_page]) demo_tree_manifest TargetWeb ''/s''
     demo_staging_host) = Inr ()"
  by (simp add: extract_role_projection_def extract_entry_def bindE_def liftE_def retE_def demo_entry_paths
      demo_entry_fields demo_tree_inventory inventory_find_def demo_page_item_def MAX_ARCHIVE_ENTRY_BYTES_def
      extract_item_def extract_file_def path_join_def starts_with_def ends_with_def create_dir_all_def
      syscall_def Let_def path_prefixes_def upt_rec demo_staging_host_def demo_host_def get_file_def make_dirs_def put_file_def
      set_permissions_def chmod_def path_parent_def rsplit_once_def create_new_def modify_def write_open_def)

lemma demo_staging_unlinked: "unlinked ''/s'' demo_staging_host"
  by (simp add: unlinked_def link_at_def get_file_def demo_staging_host_def demo_host_def)

theorem staged_tree_is_projection_witness:
  "\<exists>c. get_file ''/s/web/index'' (snd (extract_role_projection demo_env (Inr [Inr demo_folder, Inr demo_page])
       demo_tree_manifest TargetWeb ''/s'' demo_staging_host)) = Some (RegularFile c 0x1A4) \<and> c = ''hello''"
proof -
  let ?x = "extract_role_projection demo_env (Inr [Inr demo_folder, Inr demo_page])
       demo_tree_manifest TargetWeb ''/s'' demo_staging_host"
  have x: "?x = (Inr (), snd ?x)" using demo_extracted by (simp add: prod_eq_iff)
  have "\<exists>n. get_file (path_join ''/s'' (ie_path demo_page_item)) (snd ?x) = Some n \<and> staged_as (\<lambda>s. s) demo_page_item n"
    using staged_tree_is_projection [OF demo_archive_inspected _ x _ demo_staging_unlinked]
    by (simp add: demo_tree_inventory demo_page_item_def plain_dir_def ends_with_def demo_staging_host_def
        demo_host_def get_file_def)
  then obtain n where "get_file ''/s/web/index'' (snd ?x) = Some n" "staged_as (\<lambda>s. s) demo_page_item n"
    by (auto simp: demo_page_item_def path_join_def starts_with_def ends_with_def)
  then show ?thesis by (cases n) (simp_all add: demo_page_item_def staged_as_def)
qed

theorem extraction_confined_witness:
  "get_file ''/s/../etc/passwd'' (snd (extract_role_projection demo_env (Inr [Inr demo_folder, Inr demo_page])
       demo_tree_manifest TargetWeb ''/s'' demo_staging_host)) = None"
proof -
  have "rooted_dir ''/s''" by (simp add: rooted_dir_def plain_dir_def ends_with_def starts_with_def)
  moreover have "outside ''/s'' ''/s/../etc/passwd''" by (simp add: outside_def location_def)
  ultimately show ?thesis
    using extraction_confined [OF _ demo_staging_unlinked _ surjective_pairing]
    by (simp add: demo_staging_host_def demo_host_def get_file_def)
qed

end
