(* ===== verification/Release_Migration_Safety.thy ===== *)
theory Release_Migration_Safety
  imports Release_Migration Release_Frame Release_Health
begin

text \<open>
  The directory exchange of a format-2 migration and its rollback are inverse to each other.
\<close>

section \<open>Exchanging two directories\<close>

lemma below_exchange:
  assumes "\<not> below a b" "\<not> below b a" "below a p"
  shows "below b (b @ drop (length a) p)" "\<not> below a (b @ drop (length a) p)"
proof -
  show *: "below b (b @ drop (length a) p)" using assms(3) by (auto simp: below_iff)
  show "\<not> below a (b @ drop (length a) p)" using * below_linear assms(1,2) by blast
qed

lemma exchange_path_involutive:
  assumes "\<not> below a b" "\<not> below b a"
  shows "exchange_path a b (exchange_path a b p) = p"
proof (cases "below a p")
  case True
  with below_exchange [OF assms True] show ?thesis by (auto simp: exchange_path_def below_iff)
next
  case False
  show ?thesis
  proof (cases "below b p")
    case True
    with below_exchange [OF assms(2,1) True] False show ?thesis by (auto simp: exchange_path_def below_iff)
  next
    case F: False
    with False show ?thesis by (simp add: exchange_path_def)
  qed
qed

lemma map_of_rename:
  assumes "\<And>x. f (f x) = x"
  shows "map_of (map (\<lambda>(p, n). (f p, n)) xs) q = map_of xs (f q)"
proof -
  have f: "(q = f p) = (f q = p)" "f (f p) = p" for p using assms by metis+
  show ?thesis by (induction xs) (auto simp: f)
qed

lemma get_exchanged:
  "\<not> below a b \<Longrightarrow> \<not> below b a \<Longrightarrow> get_file q (exchange_trees a b h) = get_file (exchange_path a b q) h"
  by (simp add: get_file_def exchange_trees_def map_of_rename exchange_path_involutive)

lemma exchange_Inr:
  assumes "atomic_exchange_directories env a b h = (Inr u, h')"
  shows "\<not> below a b \<and> \<not> below b a \<and> get_file q h' = get_file (exchange_path a b q) h"
proof -
  from assms obtain h1 h2 where s: "syscall env (\<lambda>d. DeployError (ExchangeFailed ''renameat2(RENAME_EXCHANGE)'' d)) (rename_exchange a b) h = (Inr (), h1)"
      "sync_dir env (path_parent a) h1 = (Inr (), h2)" "sync_dir env (path_parent b) h2 = (Inr (), h')"
    by (auto simp: atomic_exchange_directories_def bindE_Inr retE_def)
  from s(1) have "\<not> below a b" "\<not> below b a" "h1 = exchange_trees a b (h\<lparr>hs_ticks := Suc (hs_ticks h)\<rparr>)"
    by (auto simp: syscall_Inr rename_exchange_def Let_def split: if_splits)
  then show ?thesis
    using keepsD [OF sync_dir_files s(2)] keepsD [OF sync_dir_files s(3)]
    by (simp add: get_exchanged file_view.ticks)
qed

lemma exchange_back_Inr:
  assumes "exchange_back env ly mig h = (Inr u, h')"
  shows "atomic_exchange_directories env (ly_opt_dir ly) (mr_migration_root mig) (h\<lparr>hs_ticks := Suc (hs_ticks h)\<rparr>) = (Inr u, h')"
  using assms by (cases "en_fault env (hs_ticks h)"; cases "get_file (mr_migration_root mig) h")
    (auto simp: exchange_back_def bindE_def attempt_def failE_def symlink_metadata_def syscall_def
      gets_def file_view.ticks split: if_splits)

text \<open>
  When the directories of a migration have been exchanged and the rollback exchanges them
  back, every path holds what it held before, but for the permissions of the workspace root, which
  the migration sets to 0755; the exchange is recorded in between.
\<close>

lemma migration_exchange_undone:
  assumes "execute_migration_exchange env ly mig h = (Inr mig', h1)" "exchange_back env' ly mig' h1 = (Inr (), h2)"
  shows "mr_exchanged mig' \<and> get_file q h2 =
    (if q = mr_migration_root mig then map_option (chmod 0x1ED) (get_file q h) else get_file q h)"
proof -
  from assms(1) obtain h0 where s: "set_permissions env ''set migration root permissions to 0755 before exchange''
       (mr_migration_root mig) 0x1ED h = (Inr (), h0)"
      "atomic_exchange_directories env (ly_opt_dir ly) (mr_migration_root mig) h0 = (Inr (), h1)"
    and mig': "mig' = mig\<lparr>mr_exchanged := True\<rparr>"
    by (auto simp: execute_migration_exchange_def bindE_Inr retE_def)
  from exchange_back_Inr [OF assms(2)] have b: "atomic_exchange_directories env' (ly_opt_dir ly) (mr_migration_root mig)
      (h1\<lparr>hs_ticks := Suc (hs_ticks h1)\<rparr>) = (Inr (), h2)" by (simp add: mig')
  from exchange_Inr [OF s(2)] exchange_Inr [OF b] set_permissions_Inr [OF s(1)] show ?thesis
    by (simp add: mig' exchange_path_involutive file_view.ticks)
qed


text \<open>A machine with a format-2 release at the canonical root and a prepared workspace next to it.\<close>

definition demo_migration :: migration_record where
  "demo_migration = \<lparr> mr_legacy_root = ''/o'', mr_migration_root = ''/m'', mr_legacy_binary_sha256 = [],
     mr_legacy_unit_sha256 = [], mr_legacy_api_version = None, mr_exchanged = False,
     mr_old_unit_backup_path = ''/b'', mr_old_wants_link_path = ''/w'' \<rparr>"

definition demo_exchange_host :: host where
  "demo_exchange_host = (demo_host StateMissing (manager_state_default []))\<lparr>hs_files :=
     [(''/o'', Directory 0x1ED), (''/o/a'', RegularFile ''old'' 0x1A4), (''/m'', Directory 0x1C0),
      (''/m/b'', RegularFile ''new'' 0x1A4)]\<rparr>"

definition demo_exchange_layout :: layout where
  "demo_exchange_layout = layout_new\<lparr>ly_opt_dir := ''/o''\<rparr>"

lemmas exchange_eval = execute_migration_exchange_def exchange_back_def atomic_exchange_directories_def sync_dir_def
  bindE_def retE_def attempt_def syscall_def symlink_metadata_def gets_def set_permissions_def chmod_def rename_exchange_def
  exchange_trees_def exchange_path_def get_file_def put_file_def below_def starts_with_def path_parent_def rsplit_once_def
  is_dir_def demo_migration_def demo_exchange_host_def demo_exchange_layout_def demo_host_def

lemma demo_exchange_done:
  "fst (execute_migration_exchange demo_env demo_exchange_layout demo_migration demo_exchange_host)
     = Inr (demo_migration\<lparr>mr_exchanged := True\<rparr>)"
  by (simp add: exchange_eval)

lemma demo_exchange_back:
  "fst (exchange_back demo_env demo_exchange_layout (demo_migration\<lparr>mr_exchanged := True\<rparr>)
     (snd (execute_migration_exchange demo_env demo_exchange_layout demo_migration demo_exchange_host))) = Inr ()"
  by (simp add: exchange_eval)

end
