(* ===== verification/Alert_Engine.thy ===== *)
theory Alert_Engine
  imports Complex_Main Text
begin

text \<open>
  The memory alert of the host monitor: \<open>system/alerts.rs\<close> (first half) and the clamping of its
  configuration in \<open>system/config.rs\<close>. The engine is a pure function from the previous state and a
  sample to the next state, a summary, and the change and incident to report.

  A double is a rational number, an infinity or NaN. Thresholds are whole percentages (a \<open>u8\<close> of
  the configuration, or a literal), on which the arithmetic of the code is exact; a percentage of a
  sample is a quotient of two counters, where \<open>rnd\<close> is the rounding of one operation.
\<close>

section \<open>Doubles\<close>

datatype f64 = Finite rat | PosInf | NegInf | NotANumber

definition f64_less :: "f64 \<Rightarrow> rat \<Rightarrow> bool" where
  "f64_less v t = (case v of Finite x \<Rightarrow> x < t | PosInf \<Rightarrow> False | NegInf \<Rightarrow> True | NotANumber \<Rightarrow> False)"

definition f64_ge :: "f64 \<Rightarrow> rat \<Rightarrow> bool" where
  "f64_ge v t = (case v of Finite x \<Rightarrow> t \<le> x | PosInf \<Rightarrow> True | NegInf \<Rightarrow> False | NotANumber \<Rightarrow> False)"

definition is_some_and :: "('a \<Rightarrow> bool) \<Rightarrow> 'a option \<Rightarrow> bool" where
  "is_some_and p v = (case v of Some x \<Rightarrow> p x | None \<Rightarrow> False)"

definition is_none_or :: "('a \<Rightarrow> bool) \<Rightarrow> 'a option \<Rightarrow> bool" where
  "is_none_or p v = (case v of Some x \<Rightarrow> p x | None \<Rightarrow> True)"

definition percent_of :: "(rat \<Rightarrow> rat) \<Rightarrow> u64 \<Rightarrow> u64 \<Rightarrow> f64" where
  "percent_of rnd part whole =
     Finite (rnd (rnd (rnd (of_nat (unat part)) * 100) / rnd (of_nat (unat whole))))"

section \<open>Configuration\<close>

record host_resource_monitor_config =
  mc_light_sample_seconds :: u64
  mc_process_sample_seconds :: u64
  mc_pss_sample_seconds :: u64
  mc_jitter_millis :: u64
  mc_process_deadline_millis :: u64
  mc_snapshot_deadline_millis :: u64
  mc_ring_capacity :: u64
  mc_max_alert_incidents :: u64
  mc_reclaimable_cache_percent :: u8
  mc_available_warning_percent :: u8
  mc_available_critical_percent :: u8
  mc_available_oom_percent :: u8
  mc_psi_some_percent :: u8
  mc_psi_full_percent :: u8

definition monitor_config_default :: host_resource_monitor_config where
  "monitor_config_default = \<lparr> mc_light_sample_seconds = 5, mc_process_sample_seconds = 15,
     mc_pss_sample_seconds = 60, mc_jitter_millis = 250, mc_process_deadline_millis = 150,
     mc_snapshot_deadline_millis = 500, mc_ring_capacity = 144, mc_max_alert_incidents = 50,
     mc_reclaimable_cache_percent = 25, mc_available_warning_percent = 15,
     mc_available_critical_percent = 10, mc_available_oom_percent = 5,
     mc_psi_some_percent = 10, mc_psi_full_percent = 1 \<rparr>"

definition clamp :: "'a::linorder \<Rightarrow> 'a \<Rightarrow> 'a \<Rightarrow> 'a" where
  "clamp v lo hi = (if v < lo then lo else if hi < v then hi else v)"

definition clamped :: "host_resource_monitor_config \<Rightarrow> host_resource_monitor_config" where
  "clamped c =
     (let oom = clamp (mc_available_oom_percent c) 1 70;
          critical = max (clamp (mc_available_critical_percent c) 1 80) (saturating_add oom 1);
          warning = max (clamp (mc_available_warning_percent c) 1 90) (saturating_add critical 1)
      in \<lparr> mc_light_sample_seconds = clamp (mc_light_sample_seconds c) 1 60,
           mc_process_sample_seconds = clamp (mc_process_sample_seconds c) 5 300,
           mc_pss_sample_seconds = clamp (mc_pss_sample_seconds c) 15 600,
           mc_jitter_millis = min (mc_jitter_millis c) 1000,
           mc_process_deadline_millis = clamp (mc_process_deadline_millis c) 10 1000,
           mc_snapshot_deadline_millis = clamp (mc_snapshot_deadline_millis c) 50 2000,
           mc_ring_capacity = clamp (mc_ring_capacity c) 12 144,
           mc_max_alert_incidents = clamp (mc_max_alert_incidents c) 1 50,
           mc_reclaimable_cache_percent = clamp (mc_reclaimable_cache_percent c) 1 90,
           mc_available_warning_percent = warning,
           mc_available_critical_percent = critical,
           mc_available_oom_percent = oom,
           mc_psi_some_percent = clamp (mc_psi_some_percent c) 1 100,
           mc_psi_full_percent = clamp (mc_psi_full_percent c) 1 100 \<rparr>)"

section \<open>Data\<close>

datatype alert_state =
    Healthy | ReclaimableCacheHigh | ElevatedNoPressure | MemoryPressure | OomRisk | LimitedData

datatype alert_severity = Info | Warning | Critical

datatype confidence_level = LowConfidence | MediumConfidence | HighConfidence

record alert_evidence =
  ev_available_percent :: "f64 option"
  ev_reclaimable_percent :: "f64 option"
  ev_psi_some_avg10 :: "f64 option"
  ev_psi_full_avg10 :: "f64 option"
  ev_cgroup_oom_delta :: bool

record alert_summary =
  as_state :: alert_state
  as_severity :: alert_severity
  as_incident_id :: "string option"
  as_opened_at :: "u64 option"
  as_updated_at :: u64
  as_duration_seconds :: u64
  as_scope :: string
  as_confidence :: confidence_level
  as_threshold :: string
  as_evidence :: alert_evidence
  as_next_action :: string

record alert_incident =
  ai_incident_id :: string
  ai_state :: alert_state
  ai_severity :: alert_severity
  ai_opened_at :: u64
  ai_updated_at :: u64
  ai_resolved_at :: "u64 option"
  ai_duration_seconds :: u64
  ai_scope :: string
  ai_threshold :: string
  ai_confidence :: confidence_level
  ai_evidence :: alert_evidence
  ai_next_action :: string

record alert_sample =
  sa_observed_at_ms :: u64
  sa_reported_at_ms :: u64
  sa_available_percent :: "f64 option"
  sa_reclaimable_percent :: "f64 option"
  sa_psi_some_avg10 :: "f64 option"
  sa_psi_full_avg10 :: "f64 option"
  sa_primary_memory_available :: bool
  sa_primary_psi_available :: bool
  sa_oom_events_total :: "u64 option"

record alert_thresholds =
  th_reclaimable_cache_percent :: nat
  th_available_warning_percent :: nat
  th_available_critical_percent :: nat
  th_available_oom_percent :: nat
  th_psi_some_percent :: nat
  th_psi_full_percent :: nat

definition thresholds_default :: alert_thresholds where
  "thresholds_default = \<lparr> th_reclaimable_cache_percent = 25, th_available_warning_percent = 15,
     th_available_critical_percent = 10, th_available_oom_percent = 5, th_psi_some_percent = 10,
     th_psi_full_percent = 1 \<rparr>"

definition thresholds_from_config :: "host_resource_monitor_config \<Rightarrow> alert_thresholds" where
  "thresholds_from_config c = \<lparr> th_reclaimable_cache_percent = unat (mc_reclaimable_cache_percent c),
     th_available_warning_percent = unat (mc_available_warning_percent c),
     th_available_critical_percent = unat (mc_available_critical_percent c),
     th_available_oom_percent = unat (mc_available_oom_percent c),
     th_psi_some_percent = unat (mc_psi_some_percent c),
     th_psi_full_percent = unat (mc_psi_full_percent c) \<rparr>"

section \<open>Samples\<close>

text \<open>The parts of a snapshot that a sample is made of.\<close>

record alert_snapshot =
  sn_sampled_at :: u64
  sn_total_bytes :: "u64 option"
  sn_available_bytes :: "u64 option"
  sn_file_cache_bytes :: "u64 option"
  sn_reclaimable_slab_bytes :: "u64 option"
  sn_memory_available :: bool
  sn_pressure_some :: "f64 option"
  sn_pressure_full :: "f64 option"
  sn_pressure_available :: bool
  sn_cgroups :: "(string \<times> u64) list list"

definition unwrap_or :: "'a \<Rightarrow> 'a option \<Rightarrow> 'a" where
  "unwrap_or d v = (case v of Some x \<Rightarrow> x | None \<Rightarrow> d)"

definition share_of :: "(rat \<Rightarrow> rat) \<Rightarrow> u64 option \<Rightarrow> u64 option \<Rightarrow> f64 option" where
  "share_of rnd part whole =
     (case (part, whole) of
        (Some p, Some t) \<Rightarrow> if 0 < t then Some (percent_of rnd p t) else None
      | _ \<Rightarrow> None)"

definition from_snapshot_with_monotonic :: "(rat \<Rightarrow> rat) \<Rightarrow> alert_snapshot \<Rightarrow> u64 \<Rightarrow> alert_sample" where
  "from_snapshot_with_monotonic rnd sn observed_at_ms =
     \<lparr> sa_observed_at_ms = observed_at_ms,
       sa_reported_at_ms = sn_sampled_at sn,
       sa_available_percent = share_of rnd (sn_available_bytes sn) (sn_total_bytes sn),
       sa_reclaimable_percent = share_of rnd
         (checked_add (unwrap_or 0 (sn_file_cache_bytes sn)) (unwrap_or 0 (sn_reclaimable_slab_bytes sn)))
         (sn_total_bytes sn),
       sa_psi_some_avg10 = sn_pressure_some sn,
       sa_psi_full_avg10 = sn_pressure_full sn,
       sa_primary_memory_available = (sn_memory_available sn \<and> sn_available_bytes sn \<noteq> None),
       sa_primary_psi_available =
         (sn_pressure_available sn \<and> (sn_pressure_some sn \<noteq> None \<or> sn_pressure_full sn \<noteq> None)),
       sa_oom_events_total =
         (if sn_cgroups sn = [] then None
          else Some (sum_list (map snd (filter (\<lambda>(name, _). name = ''oom'' \<or> name = ''oom_kill'')
                 (concat (sn_cgroups sn)))))) \<rparr>"

section \<open>The engine\<close>

definition COOLDOWN_MS :: u64 where
  "COOLDOWN_MS = 5 * 60 * 1000"

record alert_engine_state =
  ae_current :: alert_state
  ae_current_since_ms :: u64
  ae_candidate :: "(alert_state \<times> u64) option"
  ae_recovery_since_ms :: "u64 option"
  ae_recovery_samples :: u8
  ae_incident_id :: "string option"
  ae_next_incident :: u64
  ae_opened_at :: "u64 option"
  ae_incident_since_ms :: "u64 option"
  ae_last_observed_at_ms :: u64
  ae_cooldown_until_ms :: "u64 option"
  ae_last_oom_total :: "u64 option"

datatype alert_change = Opened | Escalated | Updated | Resolved

record alert_transition =
  at_next :: alert_engine_state
  at_summary :: alert_summary
  at_incident :: "alert_incident option"
  at_change :: "alert_change option"

record transition_input =
  ti_now :: u64
  ti_sample :: alert_sample
  ti_oom_delta :: bool
  ti_thresholds :: alert_thresholds

definition engine_healthy :: "u64 \<Rightarrow> alert_engine_state" where
  "engine_healthy now_ms = \<lparr> ae_current = Healthy, ae_current_since_ms = now_ms, ae_candidate = None,
     ae_recovery_since_ms = None, ae_recovery_samples = 0, ae_incident_id = None, ae_next_incident = 1,
     ae_opened_at = None, ae_incident_since_ms = None, ae_last_observed_at_ms = now_ms,
     ae_cooldown_until_ms = None, ae_last_oom_total = None \<rparr>"

definition classify :: "alert_sample \<Rightarrow> bool \<Rightarrow> alert_thresholds \<Rightarrow> alert_state" where
  "classify sample oom_delta th =
     (let available_below = (\<lambda>t. is_some_and (\<lambda>v. f64_less v (of_nat t)) (sa_available_percent sample));
          some_at_least = (\<lambda>t. is_some_and (\<lambda>v. f64_ge v (of_nat t)) (sa_psi_some_avg10 sample));
          full_at_least = (\<lambda>t. is_some_and (\<lambda>v. f64_ge v (of_nat t)) (sa_psi_full_avg10 sample))
      in
      if \<not> sa_primary_memory_available sample \<and> \<not> sa_primary_psi_available sample then LimitedData
      else if oom_delta \<or> available_below (th_available_oom_percent th) \<and> (some_at_least 20 \<or> full_at_least 5)
      then OomRisk
      else if available_below (th_available_critical_percent th) \<or> some_at_least (th_psi_some_percent th)
              \<or> full_at_least (th_psi_full_percent th)
      then MemoryPressure
      else if available_below (th_available_warning_percent th) then ElevatedNoPressure
      else if is_some_and (\<lambda>v. f64_ge v (of_nat (th_reclaimable_cache_percent th))) (sa_reclaimable_percent sample)
              \<and> is_some_and (\<lambda>v. f64_ge v (of_nat (th_available_warning_percent th))) (sa_available_percent sample)
              \<and> sa_primary_psi_available sample
              \<and> f64_less (unwrap_or (Finite 0) (sa_psi_some_avg10 sample)) (of_nat (th_psi_some_percent th))
              \<and> f64_less (unwrap_or (Finite 0) (sa_psi_full_avg10 sample)) (of_nat (th_psi_full_percent th))
      then ReclaimableCacheHigh
      else Healthy)"

fun severity :: "alert_state \<Rightarrow> alert_severity" where
  "severity Healthy = Info"
| "severity ReclaimableCacheHigh = Warning"
| "severity ElevatedNoPressure = Warning"
| "severity LimitedData = Warning"
| "severity MemoryPressure = Critical"
| "severity OomRisk = Critical"

fun state_rank :: "alert_state \<Rightarrow> nat" where
  "state_rank Healthy = 0"
| "state_rank ReclaimableCacheHigh = 1"
| "state_rank ElevatedNoPressure = 2"
| "state_rank MemoryPressure = 3"
| "state_rank OomRisk = 4"
| "state_rank LimitedData = 1"

definition entry_duration_ms :: "alert_state \<Rightarrow> alert_sample \<Rightarrow> bool \<Rightarrow> alert_thresholds \<Rightarrow> u64" where
  "entry_duration_ms state sample oom_delta th =
     (if oom_delta then 0
      else case state of
        OomRisk \<Rightarrow> 15000
      | MemoryPressure \<Rightarrow>
          if is_some_and (\<lambda>v. f64_ge v (of_nat (th_psi_full_percent th))) (sa_psi_full_avg10 sample)
          then 15000 else 30000
      | LimitedData \<Rightarrow> 0
      | ReclaimableCacheHigh \<Rightarrow> 30000
      | ElevatedNoPressure \<Rightarrow> 30000
      | Healthy \<Rightarrow> 0)"

definition pressure_recovered :: "alert_sample \<Rightarrow> alert_thresholds \<Rightarrow> bool" where
  "pressure_recovered sample th \<longleftrightarrow>
     is_some_and (\<lambda>v. f64_ge v (of_nat (th_available_warning_percent th))) (sa_available_percent sample)
     \<and> is_none_or (\<lambda>v. f64_less v (of_nat (th_psi_some_percent th) / 2)) (sa_psi_some_avg10 sample)
     \<and> is_none_or (\<lambda>v. f64_less v (of_nat (th_psi_full_percent th) / 2)) (sa_psi_full_avg10 sample)"

definition recovery_met :: "alert_state \<Rightarrow> alert_sample \<Rightarrow> alert_thresholds \<Rightarrow> bool" where
  "recovery_met state sample th =
     (case state of
        ReclaimableCacheHigh \<Rightarrow>
          is_none_or (\<lambda>v. f64_less v (max (of_nat (th_reclaimable_cache_percent th) - 5) 0))
            (sa_reclaimable_percent sample)
      | ElevatedNoPressure \<Rightarrow>
          is_some_and (\<lambda>v. f64_ge v (min (of_nat (th_available_warning_percent th) + 5) 100))
            (sa_available_percent sample)
      | MemoryPressure \<Rightarrow> pressure_recovered sample th
      | OomRisk \<Rightarrow> sa_oom_events_total sample \<noteq> None \<and> pressure_recovered sample th
      | Healthy \<Rightarrow> False
      | LimitedData \<Rightarrow> False)"

fun recovery_duration_ms :: "alert_state \<Rightarrow> u64" where
  "recovery_duration_ms OomRisk = 120000"
| "recovery_duration_ms ReclaimableCacheHigh = 60000"
| "recovery_duration_ms ElevatedNoPressure = 60000"
| "recovery_duration_ms MemoryPressure = 60000"
| "recovery_duration_ms Healthy = 0"
| "recovery_duration_ms LimitedData = 0"

section \<open>Summaries\<close>

definition confidence :: "alert_state \<Rightarrow> alert_sample \<Rightarrow> confidence_level" where
  "confidence state sample =
     (if state = LimitedData then LowConfidence
      else if sa_available_percent sample \<noteq> None \<and> sa_psi_some_avg10 sample \<noteq> None then HighConfidence
      else MediumConfidence)"

fun threshold :: "alert_state \<Rightarrow> alert_thresholds \<Rightarrow> string" where
  "threshold Healthy th = ''none''"
| "threshold ReclaimableCacheHigh th =
     ''reclaimable>='' @ dec (th_reclaimable_cache_percent th) @ ''%,available>='' @ dec (th_available_warning_percent th)
     @ ''%,psi_some<'' @ dec (th_psi_some_percent th) @ ''%,psi_full<'' @ dec (th_psi_full_percent th) @ ''%''"
| "threshold ElevatedNoPressure th = ''available<'' @ dec (th_available_warning_percent th) @ ''%''"
| "threshold MemoryPressure th =
     ''available<'' @ dec (th_available_critical_percent th) @ ''% or psi_some>='' @ dec (th_psi_some_percent th)
     @ ''%,psi_full>='' @ dec (th_psi_full_percent th) @ ''%''"
| "threshold OomRisk th =
     ''oom_delta or available<'' @ dec (th_available_oom_percent th) @ ''% correlated with pressure''"
| "threshold LimitedData th = ''MemAvailable and PSI unavailable''"

fun next_action :: "alert_state \<Rightarrow> string" where
  "next_action Healthy = ''No action required''"
| "next_action ReclaimableCacheHigh = ''Inspect cache consumers; no mutation is suggested''"
| "next_action ElevatedNoPressure = ''Inspect top memory consumers and workload trend''"
| "next_action MemoryPressure = ''Inspect top consumers, PSI, swap, and cgroup limits''"
| "next_action OomRisk = ''Stop starting memory-heavy work and inspect cgroup OOM evidence''"
| "next_action LimitedData = ''Restore readable MemAvailable and PSI sources''"

definition evidence :: "alert_sample \<Rightarrow> bool \<Rightarrow> alert_evidence" where
  "evidence sample oom_delta = \<lparr> ev_available_percent = sa_available_percent sample,
     ev_reclaimable_percent = sa_reclaimable_percent sample, ev_psi_some_avg10 = sa_psi_some_avg10 sample,
     ev_psi_full_avg10 = sa_psi_full_avg10 sample, ev_cgroup_oom_delta = oom_delta \<rparr>"

definition summary ::
  "alert_engine_state \<Rightarrow> u64 \<Rightarrow> alert_sample \<Rightarrow> bool \<Rightarrow> alert_thresholds \<Rightarrow> alert_summary" where
  "summary state now sample oom_delta th = \<lparr> as_state = ae_current state,
     as_severity = severity (ae_current state), as_incident_id = ae_incident_id state,
     as_opened_at = ae_opened_at state, as_updated_at = sa_reported_at_ms sample,
     as_duration_seconds = (case ae_incident_since_ms state of
        Some started \<Rightarrow> saturating_sub now started div 1000 | None \<Rightarrow> 0),
     as_scope = ''host'', as_confidence = confidence (ae_current state) sample,
     as_threshold = threshold (ae_current state) th, as_evidence = evidence sample oom_delta,
     as_next_action = next_action (ae_current state) \<rparr>"

definition incident_from :: "alert_engine_state \<Rightarrow> transition_input \<Rightarrow> u64 option \<Rightarrow> alert_incident" where
  "incident_from state input resolved_at =
     (let s = summary state (ti_now input) (ti_sample input) (ti_oom_delta input) (ti_thresholds input) in
      \<lparr> ai_incident_id = unwrap_or ''unknown'' (ae_incident_id state), ai_state = as_state s,
        ai_severity = as_severity s,
        ai_opened_at = unwrap_or (sa_reported_at_ms (ti_sample input)) (ae_opened_at state),
        ai_updated_at = sa_reported_at_ms (ti_sample input), ai_resolved_at = resolved_at,
        ai_duration_seconds = as_duration_seconds s, ai_scope = as_scope s, ai_threshold = as_threshold s,
        ai_confidence = as_confidence s, ai_evidence = as_evidence s, ai_next_action = as_next_action s \<rparr>)"

section \<open>Transitions\<close>

text \<open>\<open>transition\<close> gives the new state with the change and the incident it reports.\<close>

definition transition ::
  "alert_engine_state \<Rightarrow> alert_state \<Rightarrow> transition_input
    \<Rightarrow> alert_engine_state \<times> alert_change option \<times> alert_incident option" where
  "transition next0 state input =
     (let old = ae_current next0;
          next = next0\<lparr>ae_current := state, ae_current_since_ms := ti_now input, ae_candidate := None,
                    ae_recovery_since_ms := None, ae_recovery_samples := 0\<rparr>
      in
      if old = Healthy \<and> state \<noteq> Healthy then
        (let next' = next\<lparr>ae_incident_id := Some (''host-incident-'' @ dec (unat (ae_next_incident next))),
                       ae_next_incident := saturating_add (ae_next_incident next) 1,
                       ae_opened_at := Some (sa_reported_at_ms (ti_sample input)),
                       ae_incident_since_ms := Some (ti_now input)\<rparr>
         in (next',
             if is_some_and (\<lambda>until. ti_now input < until) (ae_cooldown_until_ms next') then None else Some Opened,
             Some (incident_from next' input None)))
      else if old \<noteq> Healthy \<and> state = Healthy then
        (let reported = (case ae_incident_id next of
               Some _ \<Rightarrow> (next\<lparr>ae_cooldown_until_ms := Some (saturating_add (ti_now input) COOLDOWN_MS)\<rparr>,
                          Some Resolved,
                          Some (incident_from next input (Some (sa_reported_at_ms (ti_sample input)))))
             | None \<Rightarrow> (next, None, None))
         in case reported of (next', change, incident) \<Rightarrow>
              (next'\<lparr>ae_incident_id := None, ae_opened_at := None, ae_incident_since_ms := None\<rparr>, change, incident))
      else if old \<noteq> state \<and> ae_incident_id next \<noteq> None then
        (next, Some (if state_rank old < state_rank state then Escalated else Updated),
         Some (incident_from next input None))
      else (next, None, None))"

definition oom_delta :: "alert_engine_state \<Rightarrow> alert_sample \<Rightarrow> bool" where
  "oom_delta previous sample =
     (case (sa_oom_events_total sample, ae_last_oom_total previous) of
        (Some current, Some old) \<Rightarrow> old < current
      | _ \<Rightarrow> False)"

definition observe :: "alert_engine_state \<Rightarrow> alert_sample \<Rightarrow> alert_engine_state" where
  "observe previous sample = previous\<lparr>
     ae_last_observed_at_ms := max (sa_observed_at_ms sample) (ae_last_observed_at_ms previous),
     ae_last_oom_total := sa_oom_events_total sample\<rparr>"

definition candidate_since :: "alert_engine_state \<Rightarrow> alert_state \<Rightarrow> u64 \<Rightarrow> u64" where
  "candidate_since previous target now =
     (case ae_candidate previous of
        Some (candidate, started) \<Rightarrow> if candidate = target then started else now
      | None \<Rightarrow> now)"

text \<open>The choice of \<open>advance_with_thresholds\<close> between its branches.\<close>

definition advance_state ::
  "alert_engine_state \<Rightarrow> alert_state \<Rightarrow> transition_input
    \<Rightarrow> alert_engine_state \<times> alert_change option \<times> alert_incident option" where
  "advance_state previous target input =
     (let now = ti_now input; sample = ti_sample input; th = ti_thresholds input;
          next = observe previous sample in
      if target = ae_current previous then
        (next\<lparr>ae_candidate := None, ae_recovery_since_ms := None,
              ae_recovery_samples := (if target = LimitedData then 0 else ae_recovery_samples next)\<rparr>, None, None)
      else if target = LimitedData then transition next target input
      else if ae_current previous = LimitedData then
        (let next' = next\<lparr>ae_recovery_samples := saturating_add (ae_recovery_samples previous) 1\<rparr> in
         if 2 \<le> ae_recovery_samples next' then transition next' target input else (next', None, None))
      else if state_rank (ae_current previous) < state_rank target \<or> ae_current previous = Healthy then
        (let since = candidate_since previous target now;
             next' = next\<lparr>ae_recovery_since_ms := None, ae_candidate := Some (target, since)\<rparr> in
         if entry_duration_ms target sample (ti_oom_delta input) th \<le> saturating_sub now since
         then transition next' target input else (next', None, None))
      else if recovery_met (ae_current previous) sample th then
        (let since = unwrap_or now (ae_recovery_since_ms previous);
             next' = next\<lparr>ae_recovery_since_ms := Some since\<rparr> in
         if recovery_duration_ms (ae_current previous) \<le> saturating_sub now since
         then transition next' Healthy input else (next', None, None))
      else (next\<lparr>ae_recovery_since_ms := None\<rparr>, None, None))"

definition advance_with_thresholds ::
  "alert_engine_state \<Rightarrow> alert_sample \<Rightarrow> alert_thresholds \<Rightarrow> alert_transition" where
  "advance_with_thresholds previous sample th =
     (let now = max (sa_observed_at_ms sample) (ae_last_observed_at_ms previous);
          delta = oom_delta previous sample;
          target = classify sample delta th;
          input = \<lparr> ti_now = now, ti_sample = sample, ti_oom_delta = delta, ti_thresholds = th \<rparr>
      in case advance_state previous target input of (next, change, incident) \<Rightarrow>
           \<lparr> at_next = next, at_summary = summary next now sample delta th, at_incident = incident,
             at_change = change \<rparr>)"

definition advance :: "alert_engine_state \<Rightarrow> alert_sample \<Rightarrow> alert_transition" where
  "advance previous sample = advance_with_thresholds previous sample thresholds_default"

end
