(* ===== verification/Alert_Safety.thy ===== *)
theory Alert_Safety
  imports Alert_Engine
begin

text \<open>
  The memory alert over arbitrary sequences of samples: its invariant and what it reports, the
  hysteresis of opening and resolving an incident, and a gap in the hysteresis of an escalation.
\<close>

section \<open>Runs of the engine\<close>

type_synonym observation = "alert_sample \<times> alert_thresholds"

definition engine_step :: "alert_engine_state \<Rightarrow> observation \<Rightarrow> alert_engine_state" where
  "engine_step s x = at_next (advance_with_thresholds s (fst x) (snd x))"

definition verdict :: "alert_engine_state \<Rightarrow> observation \<Rightarrow> alert_state" where
  "verdict s x = classify (fst x) (oom_delta s (fst x)) (snd x)"

definition input_of :: "alert_engine_state \<Rightarrow> observation \<Rightarrow> transition_input" where
  "input_of s x = \<lparr> ti_now = max (sa_observed_at_ms (fst x)) (ae_last_observed_at_ms s), ti_sample = fst x,
     ti_oom_delta = oom_delta s (fst x), ti_thresholds = snd x \<rparr>"

lemma advance_parts:
  "at_next (advance_with_thresholds s sample th) = fst (advance_state s (verdict s (sample, th)) (input_of s (sample, th)))"
  "at_change (advance_with_thresholds s sample th) = fst (snd (advance_state s (verdict s (sample, th)) (input_of s (sample, th))))"
  "at_incident (advance_with_thresholds s sample th) = snd (snd (advance_state s (verdict s (sample, th)) (input_of s (sample, th))))"
  by (simp_all add: advance_with_thresholds_def verdict_def input_of_def Let_def split: prod.splits)

lemma engine_step_eq: "engine_step s x = fst (advance_state s (verdict s x) (input_of s x))"
  by (cases x) (simp add: engine_step_def advance_parts)

lemma transition_fields [simp]:
  "ae_current (fst (transition s c i)) = c" "ae_candidate (fst (transition s c i)) = None"
  "ae_recovery_since_ms (fst (transition s c i)) = None" "ae_recovery_samples (fst (transition s c i)) = 0"
  "ae_current_since_ms (fst (transition s c i)) = ti_now i"
  "ae_last_observed_at_ms (fst (transition s c i)) = ae_last_observed_at_ms s"
  "ae_last_oom_total (fst (transition s c i)) = ae_last_oom_total s"
  by (simp_all add: transition_def Let_def split: option.splits)

lemma observe_fields [simp]:
  "ae_current (observe s x) = ae_current s" "ae_candidate (observe s x) = ae_candidate s"
  "ae_recovery_since_ms (observe s x) = ae_recovery_since_ms s"
  "ae_recovery_samples (observe s x) = ae_recovery_samples s"
  "ae_current_since_ms (observe s x) = ae_current_since_ms s"
  "ae_last_observed_at_ms (observe s x) = max (sa_observed_at_ms x) (ae_last_observed_at_ms s)"
  "ae_incident_id (observe s x) = ae_incident_id s" "ae_opened_at (observe s x) = ae_opened_at s"
  "ae_incident_since_ms (observe s x) = ae_incident_since_ms s"
  "ae_next_incident (observe s x) = ae_next_incident s"
  by (simp_all add: observe_def)

lemma input_of_fields [simp]:
  "ti_now (input_of s x) = max (sa_observed_at_ms (fst x)) (ae_last_observed_at_ms s)" "ti_sample (input_of s x) = fst x"
  "ti_oom_delta (input_of s x) = oom_delta s (fst x)" "ti_thresholds (input_of s x) = snd x"
  by (simp_all add: input_of_def)

lemma clock_step: "ae_last_observed_at_ms (engine_step s x) = max (sa_observed_at_ms (fst x)) (ae_last_observed_at_ms s)"
  by (simp add: engine_step_eq advance_state_def Let_def)

definition pending_since :: "alert_state \<Rightarrow> alert_engine_state \<Rightarrow> u64 option" where
  "pending_since c s =
     (case ae_candidate s of
        Some (c', t) \<Rightarrow> if ae_current s = Healthy \<and> c' = c then Some t else None
      | None \<Rightarrow> None)"

definition recovering_since :: "alert_state \<Rightarrow> alert_engine_state \<Rightarrow> u64 option" where
  "recovering_since c s = (if ae_current s = c \<and> c \<noteq> LimitedData then ae_recovery_since_ms s else None)"

lemma pending_remembers:
  assumes "pending_since c (engine_step s x) = Some t"
  shows "verdict s x = c \<and> (pending_since c s = Some t \<or> t = ae_last_observed_at_ms (engine_step s x))"
  using assms unfolding engine_step_eq advance_state_def Let_def pending_since_def
  by (auto simp: candidate_since_def split: if_splits option.splits prod.splits)

interpretation pending: streak engine_step "pending_since c" "\<lambda>s x. verdict s x = c" ae_last_observed_at_ms for c
  by unfold_locales (rule pending_remembers)

lemma recovering_remembers:
  assumes "recovering_since c (engine_step s x) = Some t"
  shows "(ae_current s = c \<and> recovery_met c (fst x) (snd x))
    \<and> (recovering_since c s = Some t \<or> t = ae_last_observed_at_ms (engine_step s x))"
  using assms unfolding engine_step_eq advance_state_def Let_def recovering_since_def
  by (auto simp: unwrap_or_def split: if_splits option.splits)

interpretation recovering: streak engine_step "recovering_since c"
  "\<lambda>s x. ae_current s = c \<and> recovery_met c (fst x) (snd x)" ae_last_observed_at_ms for c
  by unfold_locales (rule recovering_remembers)


section \<open>Incidents\<close>

definition engine_ok :: "alert_engine_state \<Rightarrow> bool" where
  "engine_ok s \<longleftrightarrow>
     (ae_incident_id s = None \<longleftrightarrow> ae_current s = Healthy)
     \<and> (ae_opened_at s = None \<longleftrightarrow> ae_current s = Healthy)
     \<and> (ae_incident_since_ms s = None \<longleftrightarrow> ae_current s = Healthy)
     \<and> (ae_current s = LimitedData \<longrightarrow> ae_candidate s = None \<and> ae_recovery_samples s < 2)
     \<and> ae_current_since_ms s \<le> ae_last_observed_at_ms s
     \<and> is_none_or (\<lambda>(c, t). c \<noteq> ae_current s \<and> c \<noteq> LimitedData \<and> t \<le> ae_last_observed_at_ms s) (ae_candidate s)
     \<and> is_none_or (\<lambda>t. t \<le> ae_last_observed_at_ms s) (ae_recovery_since_ms s)
     \<and> is_none_or (\<lambda>t. t \<le> ae_last_observed_at_ms s) (ae_incident_since_ms s)"

lemma transition_incident:
  assumes "ae_incident_id s = None \<longleftrightarrow> ae_current s = Healthy" "ae_opened_at s = None \<longleftrightarrow> ae_current s = Healthy"
    "ae_incident_since_ms s = None \<longleftrightarrow> ae_current s = Healthy"
  shows "ae_incident_id (fst (transition s c i)) = None \<longleftrightarrow> c = Healthy"
    "ae_opened_at (fst (transition s c i)) = None \<longleftrightarrow> c = Healthy"
    "ae_incident_since_ms (fst (transition s c i)) = None \<longleftrightarrow> c = Healthy"
  using assms by (auto simp: transition_def Let_def split: option.splits)

lemma transition_times:
  assumes "is_none_or (\<lambda>t. t \<le> m) (ae_incident_since_ms s)" "ti_now i \<le> m"
  shows "is_none_or (\<lambda>t. t \<le> m) (ae_incident_since_ms (fst (transition s c i)))"
  using assms by (auto simp: transition_def Let_def is_none_or_def split: option.splits)

lemma transition_ok:
  assumes "ae_incident_id s = None \<longleftrightarrow> ae_current s = Healthy" "ae_opened_at s = None \<longleftrightarrow> ae_current s = Healthy"
    "ae_incident_since_ms s = None \<longleftrightarrow> ae_current s = Healthy"
    "is_none_or (\<lambda>t. t \<le> ae_last_observed_at_ms s) (ae_incident_since_ms s)" "ti_now i = ae_last_observed_at_ms s"
  shows "engine_ok (fst (transition s c i))"
  using transition_incident [OF assms(1-3)] transition_times [OF assms(4)] assms(5)
  by (simp add: engine_ok_def is_none_or_def)

lemma is_none_or_mono: "is_none_or P v \<Longrightarrow> (\<And>x. P x \<Longrightarrow> Q x) \<Longrightarrow> is_none_or Q v"
  by (auto simp: is_none_or_def split: option.splits)

lemma engine_ok_step:
  assumes "engine_ok s"
  shows "engine_ok (engine_step s x)"
proof -
  let ?m = "max (sa_observed_at_ms (fst x)) (ae_last_observed_at_ms s)"
  note ok = assms [unfolded engine_ok_def]
  have m: "ae_last_observed_at_ms s \<le> ?m" by simp
  have times: "is_none_or (\<lambda>t. t \<le> ?m) (ae_recovery_since_ms s)" "is_none_or (\<lambda>t. t \<le> ?m) (ae_incident_since_ms s)"
    "ae_current_since_ms s \<le> ?m"
    "is_none_or (\<lambda>(c, t). c \<noteq> ae_current s \<and> c \<noteq> LimitedData \<and> t \<le> ?m) (ae_candidate s)"
    using ok by (auto elim!: is_none_or_mono intro: order_trans [OF _ m])
  have since: "candidate_since s c ?m \<le> ?m" for c
    using times(4) by (auto simp: candidate_since_def is_none_or_def split: option.splits)
  have rec: "unwrap_or ?m (ae_recovery_since_ms s) \<le> ?m"
    using times(1) by (auto simp: unwrap_or_def is_none_or_def split: option.splits)
  have tr: "engine_ok (fst (transition n c (input_of s x)))"
    if "ae_incident_id n = ae_incident_id s" "ae_opened_at n = ae_opened_at s" "ae_incident_since_ms n = ae_incident_since_ms s"
      "ae_current n = ae_current s" "ae_last_observed_at_ms n = ?m" for n c
    using ok that times(2) by (intro transition_ok) auto
  let ?n = "observe s (fst x)"
  have stay: "engine_ok (?n\<lparr>ae_candidate := None, ae_recovery_since_ms := None, ae_recovery_samples := k\<rparr>)"
    if "ae_current s = LimitedData \<Longrightarrow> k < 2" for k
    using ok times that by (simp add: engine_ok_def is_none_or_def)
  have count: "engine_ok (?n\<lparr>ae_recovery_samples := k\<rparr>)" if "k < 2" for k
    using ok times that by (simp add: engine_ok_def)
  have cand: "engine_ok (?n\<lparr>ae_recovery_since_ms := None, ae_candidate := Some (c, candidate_since s c ?m)\<rparr>)"
    if "c \<noteq> ae_current s" "c \<noteq> LimitedData" "ae_current s \<noteq> LimitedData" for c
    using ok times since that by (simp add: engine_ok_def is_none_or_def)
  have recov: "engine_ok (?n\<lparr>ae_recovery_since_ms := v\<rparr>)"
    if "is_none_or (\<lambda>t. t \<le> ?m) v" for v
    using ok times that by (simp add: engine_ok_def)
  have none: "is_none_or (\<lambda>t. t \<le> ?m) None" "is_none_or (\<lambda>t. t \<le> ?m) (Some (unwrap_or ?m (ae_recovery_since_ms s)))"
    using rec by (simp_all add: is_none_or_def)
  show ?thesis
    unfolding engine_step_eq advance_state_def Let_def
    by (simp add: tr stay count cand recov none not_le)
qed

interpretation alert_engine: transition_system "engine_healthy t" engine_step engine_ok for t
  by unfold_locales (simp add: engine_ok_def engine_healthy_def is_none_or_def, rule engine_ok_step)

lemma transition_reports:
  assumes "ae_incident_id s = None \<longleftrightarrow> ae_current s = Healthy"
  shows "snd (snd (transition s c i)) = None \<longleftrightarrow> c = ae_current s"
    "fst (snd (transition s c i)) = Some Resolved \<longleftrightarrow> ae_current s \<noteq> Healthy \<and> c = Healthy"
    "fst (snd (transition s c i)) = Some Opened \<longleftrightarrow> ae_current s = Healthy \<and> c \<noteq> Healthy
       \<and> \<not> is_some_and (\<lambda>until. ti_now i < until) (ae_cooldown_until_ms s)"
  using assms by (auto simp: transition_def Let_def split: option.splits)

text \<open>A step either keeps the state and reports nothing, or is one transition.\<close>

definition step_shape ::
  "alert_engine_state \<Rightarrow> transition_input \<Rightarrow> alert_engine_state \<times> alert_change option \<times> alert_incident option \<Rightarrow> bool" where
  "step_shape s i r \<longleftrightarrow> (\<exists>n. r = (n, None, None) \<and> ae_current n = ae_current s)
     \<or> (\<exists>n c. r = transition n c i \<and> c \<noteq> ae_current s \<and> ae_current n = ae_current s
          \<and> ae_incident_id n = ae_incident_id s \<and> ae_cooldown_until_ms n = ae_cooldown_until_ms s)"

lemma step_shapeI:
  "ae_current n = ae_current s \<Longrightarrow> step_shape s i (n, None, None)"
  "c \<noteq> ae_current s \<Longrightarrow> ae_current n = ae_current s \<Longrightarrow> ae_incident_id n = ae_incident_id s \<Longrightarrow>
     ae_cooldown_until_ms n = ae_cooldown_until_ms s \<Longrightarrow> step_shape s i (transition n c i)"
  by (auto simp: step_shape_def)

lemma step_shape_if: "(b \<Longrightarrow> step_shape s i x) \<Longrightarrow> (\<not> b \<Longrightarrow> step_shape s i y) \<Longrightarrow> step_shape s i (if b then x else y)"
  by simp

lemma advance_shape: "step_shape s i (advance_state s c i)"
proof -
  have o: "ae_cooldown_until_ms (observe s y) = ae_cooldown_until_ms s" for y by (simp add: observe_def)
  show ?thesis
    unfolding advance_state_def Let_def by (intro step_shape_if step_shapeI) (auto simp: o)
qed

text \<open>
  C32: After any samples the engine has an incident exactly when it is not healthy, with the
  times of its records in the past; a step reports an incident exactly when the state changes,
  \<open>Resolved\<close> exactly on the return to health, and \<open>Opened\<close> exactly on leaving it outside the cooldown.
\<close>

theorem alert_incident_lifecycle:
  "let s = foldl engine_step (engine_healthy t) xs; r = advance_with_thresholds s sample th in
     engine_ok (at_next r)
     \<and> (at_incident r \<noteq> None \<longleftrightarrow> ae_current (at_next r) \<noteq> ae_current s)
     \<and> (at_change r = Some Resolved \<longleftrightarrow> ae_current s \<noteq> Healthy \<and> ae_current (at_next r) = Healthy)
     \<and> (at_change r = Some Opened \<longleftrightarrow> ae_current s = Healthy \<and> ae_current (at_next r) \<noteq> Healthy
          \<and> \<not> is_some_and (\<lambda>until. ae_last_observed_at_ms (at_next r) < until) (ae_cooldown_until_ms s))"
proof -
  let ?s = "foldl engine_step (engine_healthy t) xs"
  let ?x = "(sample, th)"
  have ok: "engine_ok ?s" by (rule alert_engine.inv_reachable)
  then have iff: "ae_incident_id ?s = None \<longleftrightarrow> ae_current ?s = Healthy" by (simp add: engine_ok_def)
  have next': "at_next (advance_with_thresholds ?s sample th) = engine_step ?s ?x" by (simp add: engine_step_def)
  have clock: "ae_last_observed_at_ms (engine_step ?s ?x) = ti_now (input_of ?s ?x)" by (simp add: clock_step)
  from advance_shape [of ?s "input_of ?s ?x" "verdict ?s ?x"] show ?thesis
    unfolding Let_def advance_parts(2,3) next' clock step_shape_def
    using engine_ok_step [OF ok, of ?x] iff
    by (auto simp: engine_step_eq transition_reports simp del: input_of_fields not_None_eq)
qed

lemma opening_step:
  assumes "ae_current s = Healthy" "ae_current (engine_step s x) = c" "c \<noteq> Healthy" "c \<noteq> LimitedData"
  shows "verdict s x = c \<and> entry_duration_ms c (fst x) (oom_delta s (fst x)) (snd x)
    \<le> saturating_sub (ae_last_observed_at_ms (engine_step s x)) (candidate_since s c (ae_last_observed_at_ms (engine_step s x)))"
  using assms unfolding clock_step unfolding engine_step_eq advance_state_def Let_def
  by (auto split: if_splits)

text \<open>Every sample of a sequence is classified as the given state.\<close>

primrec classified_as :: "alert_state \<Rightarrow> alert_engine_state \<Rightarrow> observation list \<Rightarrow> bool" where
  "classified_as c s [] = True"
| "classified_as c s (x # xs) = (verdict s x = c \<and> classified_as c (engine_step s x) xs)"

lemma pending_holds_along: "pending.holds_along c s xs = classified_as c s xs"
  by (induction xs arbitrary: s) simp_all

text \<open>
  C19: An incident is opened from the healthy state (other than for missing data) only when
  every sample of a stretch up to now was classified as the reported state, and the stretch is at least
  as long as the entry duration of that state.
\<close>

theorem incident_needs_sustained_condition:
  assumes "ae_current (foldl engine_step (engine_healthy t) xs) = Healthy"
    "ae_current (foldl engine_step (engine_healthy t) (xs @ [x])) = c" "c \<noteq> Healthy" "c \<noteq> LimitedData"
  shows "\<exists>ys y zs. xs @ [x] = ys @ y # zs \<and> classified_as c (foldl engine_step (engine_healthy t) ys) (y # zs)
    \<and> entry_duration_ms c (fst x) (oom_delta (foldl engine_step (engine_healthy t) xs) (fst x)) (snd x)
        \<le> saturating_sub (ae_last_observed_at_ms (foldl engine_step (engine_healthy t) (xs @ [x])))
            (ae_last_observed_at_ms (foldl engine_step (engine_healthy t) (ys @ [y])))"
proof -
  let ?s = "foldl engine_step (engine_healthy t) xs"
  let ?now = "ae_last_observed_at_ms (engine_step ?s x)"
  have o: "verdict ?s x = c" "entry_duration_ms c (fst x) (oom_delta ?s (fst x)) (snd x)
      \<le> saturating_sub ?now (candidate_since ?s c ?now)"
    using opening_step [OF assms(1) _ assms(3,4), of x] assms(2) by auto
  show ?thesis
  proof (cases "pending_since c ?s")
    case None
    with assms(1) have "candidate_since ?s c ?now = ?now"
      by (auto simp: pending_since_def candidate_since_def split: option.splits if_splits)
    with o show ?thesis by (intro exI [of _ xs] exI [of _ x] exI [of _ "[]"]) simp
  next
    case (Some u)
    have "pending_since c (engine_healthy t) = None" by (simp add: pending_since_def engine_healthy_def)
    from pending.since_run [OF this Some] obtain ys y zs where s: "xs = ys @ y # zs"
        "ae_last_observed_at_ms (foldl engine_step (engine_healthy t) (ys @ [y])) = u"
        "pending.holds_along c (foldl engine_step (engine_healthy t) ys) (y # zs)" by blast
    have "candidate_since ?s c ?now = u"
      using Some by (auto simp: pending_since_def candidate_since_def split: option.splits if_splits)
    moreover have "classified_as c (foldl engine_step (engine_healthy t) ys) (y # (zs @ [x]))"
      using s o(1) pending.holds_along_append [of c "foldl engine_step (engine_healthy t) ys" "y # zs" "[x]"]
      by (simp add: pending_holds_along [symmetric])
    ultimately show ?thesis using o(2) s(1,2)
      by (intro exI [of _ ys] exI [of _ y] exI [of _ "zs @ [x]"]) simp
  qed
qed

lemma resolving_step:
  assumes "ae_current s = c" "c \<noteq> Healthy" "c \<noteq> LimitedData" "ae_current (engine_step s x) = Healthy"
  shows "recovery_met c (fst x) (snd x) \<and> recovery_duration_ms c
    \<le> saturating_sub (ae_last_observed_at_ms (engine_step s x))
         (unwrap_or (ae_last_observed_at_ms (engine_step s x)) (ae_recovery_since_ms s))"
  using assms unfolding clock_step unfolding engine_step_eq advance_state_def Let_def
  by (auto split: if_splits)

primrec recovers_from :: "alert_state \<Rightarrow> alert_engine_state \<Rightarrow> observation list \<Rightarrow> bool" where
  "recovers_from c s [] = True"
| "recovers_from c s (x # xs) =
     (ae_current s = c \<and> recovery_met c (fst x) (snd x) \<and> recovers_from c (engine_step s x) xs)"

lemma recovering_holds_along: "recovering.holds_along c s xs = recovers_from c s xs"
  by (induction xs arbitrary: s) auto

text \<open>
  An incident (other than for missing data) is resolved only when the recovery
  condition of its state held for every sample of a stretch up to now that is at least as long
  as the recovery duration.
\<close>

lemma resolution_needs_sustained_recovery:
  assumes "ae_current (foldl engine_step (engine_healthy t) xs) = c" "c \<noteq> Healthy" "c \<noteq> LimitedData"
    "ae_current (foldl engine_step (engine_healthy t) (xs @ [x])) = Healthy"
  shows "\<exists>ys y zs. xs @ [x] = ys @ y # zs \<and> recovers_from c (foldl engine_step (engine_healthy t) ys) (y # zs)
    \<and> recovery_duration_ms c
        \<le> saturating_sub (ae_last_observed_at_ms (foldl engine_step (engine_healthy t) (xs @ [x])))
            (ae_last_observed_at_ms (foldl engine_step (engine_healthy t) (ys @ [y])))"
proof -
  let ?s = "foldl engine_step (engine_healthy t) xs"
  let ?now = "ae_last_observed_at_ms (engine_step ?s x)"
  have o: "recovery_met c (fst x) (snd x)" "recovery_duration_ms c \<le> saturating_sub ?now (unwrap_or ?now (ae_recovery_since_ms ?s))"
    using resolving_step [OF assms(1-3), of x] assms(4) by auto
  show ?thesis
  proof (cases "recovering_since c ?s")
    case None
    with assms(1,3) have "ae_recovery_since_ms ?s = None" by (simp add: recovering_since_def)
    with o assms(1) show ?thesis by (intro exI [of _ xs] exI [of _ x] exI [of _ "[]"]) (simp add: unwrap_or_def)
  next
    case (Some u)
    have "recovering_since c (engine_healthy t) = None" by (simp add: recovering_since_def engine_healthy_def)
    from recovering.since_run [OF this Some] obtain ys y zs where s: "xs = ys @ y # zs"
        "ae_last_observed_at_ms (foldl engine_step (engine_healthy t) (ys @ [y])) = u"
        "recovering.holds_along c (foldl engine_step (engine_healthy t) ys) (y # zs)" by blast
    have "ae_recovery_since_ms ?s = Some u"
      using Some by (simp add: recovering_since_def split: if_splits)
    moreover have "recovers_from c (foldl engine_step (engine_healthy t) ys) (y # (zs @ [x]))"
      using s o(1) assms(1) recovering.holds_along_append [of c "foldl engine_step (engine_healthy t) ys" "y # zs" "[x]"]
      by (simp add: recovering_holds_along [symmetric])
    ultimately show ?thesis using o(2) s(1,2)
      by (intro exI [of _ ys] exI [of _ y] exI [of _ "zs @ [x]"]) (simp add: unwrap_or_def)
  qed
qed

lemma clamp_bounds: "(lo :: 'a::linorder) \<le> hi \<Longrightarrow> lo \<le> clamp v lo hi \<and> clamp v lo hi \<le> hi"
  by (auto simp: clamp_def)

text \<open>A clamped configuration has ordered severity bands, whatever was configured.\<close>

lemma clamped_bands_ordered:
  "let th = thresholds_from_config (clamped c) in
     0 < th_available_oom_percent th
     \<and> th_available_oom_percent th < th_available_critical_percent th
     \<and> th_available_critical_percent th < th_available_warning_percent th
     \<and> th_available_warning_percent th \<le> 90
     \<and> 1 \<le> mc_light_sample_seconds (clamped c) \<and> mc_ring_capacity (clamped c) \<le> 144
     \<and> 1 \<le> mc_max_alert_incidents (clamped c) \<and> mc_max_alert_incidents (clamped c) \<le> 50"
proof -
  have o: "1 \<le> clamp (mc_available_oom_percent c) 1 70" "clamp (mc_available_oom_percent c) 1 70 \<le> 70"
    and k: "clamp (mc_available_critical_percent c) 1 80 \<le> 80"
    and w: "clamp (mc_available_warning_percent c) 1 90 \<le> 90"
    using clamp_bounds [of "1 :: u8"] by auto
  have "unat (clamp (mc_available_oom_percent c) 1 70) \<le> 70" "1 \<le> unat (clamp (mc_available_oom_percent c) 1 70)"
    "unat (clamp (mc_available_critical_percent c) 1 80) \<le> 80" "unat (clamp (mc_available_warning_percent c) 1 90) \<le> 90"
    using o k w by (simp_all add: word_le_nat_alt)
  then show ?thesis
    using clamp_bounds [of "1 :: u64" 60 "mc_light_sample_seconds c"] clamp_bounds [of "12 :: u64" 144 "mc_ring_capacity c"]
      clamp_bounds [of "1 :: u64" 50 "mc_max_alert_incidents c"]
    by (auto simp: clamped_def Let_def thresholds_from_config_def unat_saturating_add max_def word_le_nat_alt)
qed

section \<open>Concrete runs\<close>

text \<open>A sample with the given available memory and pressure, in percent.\<close>

definition demo_sample :: "u64 \<Rightarrow> rat \<Rightarrow> rat \<Rightarrow> observation" where
  "demo_sample now available some = (\<lparr> sa_observed_at_ms = now, sa_reported_at_ms = now,
     sa_available_percent = Some (Finite available), sa_reclaimable_percent = None,
     sa_psi_some_avg10 = Some (Finite some), sa_psi_full_avg10 = Some (Finite 0),
     sa_primary_memory_available = True, sa_primary_psi_available = True, sa_oom_events_total = None \<rparr>,
     thresholds_default)"

lemmas engine_eval = engine_step_def advance_with_thresholds_def advance_state_def observe_def oom_delta_def
  classify_def candidate_since_def transition_def entry_duration_ms_def recovery_met_def saturating_sub_def
  is_some_and_def is_none_or_def f64_less_def f64_ge_def demo_sample_def thresholds_default_def engine_healthy_def
  unwrap_or_def Let_def saturating_add_def incident_from_def

lemma demo_verdicts:
  "verdict s (demo_sample t 12 0) = ElevatedNoPressure" "verdict s (demo_sample t 12 15) = MemoryPressure"
  "verdict s (demo_sample t 16 0) = Healthy"
  by (simp_all add: verdict_def demo_sample_def classify_def oom_delta_def thresholds_default_def is_some_and_def
      f64_less_def f64_ge_def Let_def unwrap_or_def)

lemma demo_run:
  "ae_current (foldl engine_step (engine_healthy 0) [demo_sample 0 12 0]) = Healthy"
  "ae_current (foldl engine_step (engine_healthy 0) [demo_sample 0 12 0, demo_sample 30000 12 0]) = ElevatedNoPressure"
  by (simp_all add: engine_eval)

theorem incident_needs_sustained_condition_witness:
  "\<exists>ys y zs. [demo_sample 0 12 0, demo_sample 30000 12 0] = ys @ y # zs
    \<and> classified_as ElevatedNoPressure (foldl engine_step (engine_healthy 0) ys) (y # zs)
    \<and> 30000 \<le> saturating_sub
        (ae_last_observed_at_ms (foldl engine_step (engine_healthy 0) [demo_sample 0 12 0, demo_sample 30000 12 0]))
        (ae_last_observed_at_ms (foldl engine_step (engine_healthy 0) (ys @ [y])))"
  using incident_needs_sustained_condition [of 0 "[demo_sample 0 12 0]" "demo_sample 30000 12 0" ElevatedNoPressure]
    demo_run by (simp add: entry_duration_ms_def oom_delta_def demo_sample_def)

text \<open>
  An escalation does not need a sustained condition: the candidate of an escalation is not
  dropped when a later sample is classified as a lower state, so one sample of pressure, a healthy
  sample and one more sample of pressure 30 seconds after the first escalate at once.
\<close>

lemma stale_candidate_escalates:
  "let run = foldl engine_step (engine_healthy 0)
         [demo_sample 0 12 0, demo_sample 30000 12 0, demo_sample 35000 12 15, demo_sample 40000 16 0] in
     ae_current run = ElevatedNoPressure
     \<and> verdict (foldl engine_step (engine_healthy 0)
          [demo_sample 0 12 0, demo_sample 30000 12 0, demo_sample 35000 12 15]) (demo_sample 40000 16 0) = Healthy
     \<and> at_change (advance run (fst (demo_sample 65000 12 15))) = Some Escalated
     \<and> ae_current (at_next (advance run (fst (demo_sample 65000 12 15)))) = MemoryPressure
     \<and> entry_duration_ms MemoryPressure (fst (demo_sample 65000 12 15)) False thresholds_default = 30000"
  by (simp add: engine_eval advance_def verdict_def)

lemma demo_recovery_run:
  "ae_current (foldl engine_step (engine_healthy 0)
     [demo_sample 0 12 0, demo_sample 30000 12 0, demo_sample 40000 25 0]) = ElevatedNoPressure"
  "ae_current (foldl engine_step (engine_healthy 0)
     [demo_sample 0 12 0, demo_sample 30000 12 0, demo_sample 40000 25 0, demo_sample 100000 25 0]) = Healthy"
  by (simp_all add: engine_eval)

end
