(* ===== verification/Resource_Alerts.thy ===== *)
theory Resource_Alerts
  imports Alert_Engine "HOL-Library.List_Lexorder" "HOL-Library.Char_ord"
begin

text \<open>
  Temperature and disk alerts of the host monitor: \<open>system/alerts.rs\<close> (second half), the disk filter
  of \<open>system.rs\<close> and the histories of \<open>system/monitor.rs\<close>. A \<open>BTreeMap<String, V>\<close> is an association list in
  the order of its keys, which is the order of their bytes.
\<close>

section \<open>Ordered maps\<close>

type_synonym 'v btree = "(string \<times> 'v) list"

definition bt_ok :: "'v btree \<Rightarrow> bool" where
  "bt_ok m \<longleftrightarrow> sorted_wrt (<) (map fst m)"

fun bt_insert :: "string \<Rightarrow> 'v \<Rightarrow> 'v btree \<Rightarrow> 'v btree" where
  "bt_insert k v [] = [(k, v)]"
| "bt_insert k v ((k', v') # m) =
     (if k < k' then (k, v) # (k', v') # m
      else if k = k' then (k, v) # m
      else (k', v') # bt_insert k v m)"

definition bt_remove :: "string \<Rightarrow> 'v btree \<Rightarrow> 'v btree" where
  "bt_remove k m = filter (\<lambda>(k', _). k' \<noteq> k) m"

section \<open>Disks\<close>

datatype disk_source_kind = BlockDevice | VirtualDevice | UnknownDevice

record disk_metrics =
  dk_name :: string
  dk_mount_point :: string
  dk_total_bytes :: u64
  dk_available_bytes :: u64
  dk_usage_percent :: f64
  dk_file_system :: "string option"
  dk_source :: "string option"
  dk_source_kind :: disk_source_kind

record temperature_metrics =
  tp_label :: string
  tp_celsius :: f64
  tp_source :: string

text \<open>The fields of \<open>HostMetrics\<close> that resource alerts use.\<close>

record host_metrics =
  hm_sampled_at :: u64
  hm_disks :: "disk_metrics list"
  hm_temperatures :: "temperature_metrics list"

definition is_virtual_device_source :: "string \<Rightarrow> bool" where
  "is_virtual_device_source source \<longleftrightarrow>
     source \<in> {''/dev/loop'', ''/dev/zram'', ''/dev/ram'', ''/dev/fd'', ''/dev/mapper/control''}
     \<or> list_ex (\<lambda>p. starts_with p source) [''/dev/loop'', ''/dev/zram'', ''/dev/ram'', ''/dev/fd'']"

definition is_block_device_source :: "string \<Rightarrow> bool" where
  "is_block_device_source source \<longleftrightarrow> starts_with ''/dev/'' source \<and> \<not> is_virtual_device_source source"

definition PERSISTENT_FILE_SYSTEMS :: "string list" where
  "PERSISTENT_FILE_SYSTEMS =
     [''apfs'', ''btrfs'', ''ext2'', ''ext3'', ''ext4'', ''exfat'', ''f2fs'', ''hfs'', ''hfsplus'', ''jfs'',
      ''ntfs'', ''ntfs3'', ''reiserfs'', ''ufs'', ''vfat'', ''xfs'', ''zfs'']"

definition is_real_persistent_disk :: "disk_metrics \<Rightarrow> bool" where
  "is_real_persistent_disk disk =
     (if trim_str (dk_name disk) = [] \<or> \<not> starts_with ''/'' (dk_mount_point disk) \<or> dk_total_bytes disk = 0
         \<or> dk_total_bytes disk < dk_available_bytes disk \<or> dk_source_kind disk \<noteq> BlockDevice
      then False
      else case dk_source disk of
        None \<Rightarrow> False
      | Some source \<Rightarrow>
          if \<not> is_block_device_source (trim_str source) then False
          else case dk_file_system disk of
            None \<Rightarrow> False
          | Some file_system \<Rightarrow> to_ascii_lowercase (trim_str file_system) \<in> set PERSISTENT_FILE_SYSTEMS)"

section \<open>Samples\<close>

definition THERMAL_ALERT_CELSIUS :: rat where "THERMAL_ALERT_CELSIUS = 60"
definition THERMAL_ALERT_DURATION_MS :: u64 where "THERMAL_ALERT_DURATION_MS = 300000"
definition MAX_RESOURCE_TARGETS :: nat where "MAX_RESOURCE_TARGETS = 50"
definition MAX_RESOURCE_TEXT_BYTES :: nat where "MAX_RESOURCE_TEXT_BYTES = 128"

datatype resource_alert_state = TemperatureHigh | DiskFull

datatype resource_alert_kind = TemperatureAlert | DiskAlert

record resource_alert_evidence =
  re_temperature_source :: "string option"
  re_temperature_label :: "string option"
  re_temperature_celsius :: "f64 option"
  re_disk_mount_point :: "string option"
  re_disk_name :: "string option"
  re_disk_usage_percent :: "f64 option"

record resource_alert_summary =
  rs_kind :: resource_alert_kind
  rs_key :: string
  rs_state :: resource_alert_state
  rs_severity :: alert_severity
  rs_incident_id :: string
  rs_opened_at :: u64
  rs_updated_at :: u64
  rs_duration_seconds :: u64
  rs_scope :: string
  rs_evidence :: resource_alert_evidence
  rs_threshold :: string
  rs_next_action :: string

record resource_alert_incident =
  ri_summary :: resource_alert_summary
  ri_resolved_at :: "u64 option"

record resource_alert_target =
  rt_state :: resource_alert_state
  rt_condition :: bool
  rt_evidence :: resource_alert_evidence

record resource_alert_sample =
  rp_observed_at_ms :: u64
  rp_reported_at_ms :: u64
  rp_targets :: "resource_alert_target btree"

definition f64_is_finite :: "f64 \<Rightarrow> bool" where
  "f64_is_finite v = (case v of Finite _ \<Rightarrow> True | _ \<Rightarrow> False)"

definition f64_greater :: "f64 \<Rightarrow> rat \<Rightarrow> bool" where
  "f64_greater v t = (case v of Finite x \<Rightarrow> t < x | PosInf \<Rightarrow> True | NegInf \<Rightarrow> False | NotANumber \<Rightarrow> False)"

definition bounded_text :: "string \<Rightarrow> string option" where
  "bounded_text s =
     (let t = trim_str s in if t \<noteq> [] \<and> length t \<le> MAX_RESOURCE_TEXT_BYTES then Some t else None)"

definition insert_target ::
  "resource_alert_target btree \<Rightarrow> string \<Rightarrow> resource_alert_target \<Rightarrow> resource_alert_target btree" where
  "insert_target targets key target =
     (case map_of targets key of
        Some existing \<Rightarrow> bt_insert key (existing\<lparr>rt_condition := False\<rparr>) targets
      | None \<Rightarrow>
          if targets \<noteq> [] \<and> MAX_RESOURCE_TARGETS \<le> length targets then
            (if fst (last targets) \<le> key then targets
             else bt_insert key target (butlast targets))
          else bt_insert key target targets)"

definition temperature_target :: "temperature_metrics \<Rightarrow> (string \<times> resource_alert_target) option" where
  "temperature_target t =
     (case bounded_text (tp_source t) of
        None \<Rightarrow> None
      | Some source \<Rightarrow>
          let celsius = (if f64_is_finite (tp_celsius t) then Some (tp_celsius t) else None) in
          Some (''temperature:'' @ source,
            \<lparr> rt_state = TemperatureHigh,
              rt_condition = is_some_and (\<lambda>v. f64_greater v THERMAL_ALERT_CELSIUS) celsius,
              rt_evidence = \<lparr> re_temperature_source = Some source,
                re_temperature_label = bounded_text (tp_label t), re_temperature_celsius = celsius,
                re_disk_mount_point = None, re_disk_name = None, re_disk_usage_percent = None \<rparr> \<rparr>))"

definition disk_target :: "disk_metrics \<Rightarrow> (string \<times> resource_alert_target) option" where
  "disk_target d =
     (case bounded_text (dk_mount_point d) of
        None \<Rightarrow> None
      | Some mount_point \<Rightarrow>
          let usage = (if f64_is_finite (dk_usage_percent d) then Some (dk_usage_percent d) else None) in
          Some (''disk:'' @ mount_point,
            \<lparr> rt_state = DiskFull,
              rt_condition = (is_real_persistent_disk d \<and> is_some_and (\<lambda>v. f64_ge v 95) usage),
              rt_evidence = \<lparr> re_temperature_source = None, re_temperature_label = None,
                re_temperature_celsius = None, re_disk_mount_point = Some mount_point,
                re_disk_name = bounded_text (dk_name d), re_disk_usage_percent = usage \<rparr> \<rparr>))"

definition insert_all ::
  "resource_alert_target btree \<Rightarrow> (string \<times> resource_alert_target) list \<Rightarrow> resource_alert_target btree" where
  "insert_all = foldl (\<lambda>m (key, target). insert_target m key target)"

definition from_legacy :: "host_metrics \<Rightarrow> u64 \<Rightarrow> resource_alert_sample" where
  "from_legacy metrics observed_at_ms =
     \<lparr> rp_observed_at_ms = observed_at_ms, rp_reported_at_ms = hm_sampled_at metrics,
       rp_targets = insert_all (insert_all [] (List.map_filter temperature_target (hm_temperatures metrics)))
         (List.map_filter disk_target (hm_disks metrics)) \<rparr>"

section \<open>The engine\<close>

record resource_alert_lifecycle =
  rl_candidate_since_ms :: u64
  rl_active :: "resource_alert_summary option"
  rl_opened_at_ms :: "u64 option"

record resource_alert_engine_state =
  rg_targets :: "resource_alert_lifecycle btree"
  rg_last_observed_at_ms :: u64
  rg_next_incident :: u64

record resource_alert_transition =
  rx_next :: resource_alert_engine_state
  rx_active :: "resource_alert_summary list"
  rx_incidents :: "resource_alert_incident list"

definition resource_healthy :: "u64 \<Rightarrow> resource_alert_engine_state" where
  "resource_healthy now_ms = \<lparr> rg_targets = [], rg_last_observed_at_ms = now_ms, rg_next_incident = 1 \<rparr>"

definition retain_targets :: "nat \<Rightarrow> resource_alert_engine_state \<Rightarrow> resource_alert_engine_state" where
  "retain_targets max_targets s =
     s\<lparr>rg_targets := foldl (\<lambda>m k. bt_remove k m) (rg_targets s)
         (drop (clamp max_targets 1 MAX_RESOURCE_TARGETS) (map fst (rg_targets s)))\<rparr>"

definition has_complete_resource_evidence :: "resource_alert_evidence \<Rightarrow> bool" where
  "has_complete_resource_evidence e =
     (case (re_temperature_source e, re_temperature_celsius e, re_disk_mount_point e, re_disk_usage_percent e) of
        (Some _, Some celsius, None, None) \<Rightarrow> f64_is_finite celsius
      | (None, None, Some _, Some usage) \<Rightarrow>
          f64_is_finite usage \<and> f64_ge usage 0 \<and> \<not> f64_greater usage 100
      | _ \<Rightarrow> False)"

fun resource_entry_duration :: "resource_alert_state \<Rightarrow> u64" where
  "resource_entry_duration TemperatureHigh = THERMAL_ALERT_DURATION_MS"
| "resource_entry_duration DiskFull = 0"

fun resource_alert_metadata :: "resource_alert_state \<Rightarrow> resource_alert_kind \<times> string \<times> string" where
  "resource_alert_metadata TemperatureHigh =
     (TemperatureAlert, ''celsius>60C for 5 minutes'', ''Inspect cooling and the affected workload.'')"
| "resource_alert_metadata DiskFull =
     (DiskAlert, ''usage>=95%'', ''Free space or expand the affected persistent disk.'')"

definition elapsed_seconds :: "u64 \<Rightarrow> u64 option \<Rightarrow> u64" where
  "elapsed_seconds now opened_at_ms =
     (case opened_at_ms of Some opened \<Rightarrow> saturating_sub now opened div 1000 | None \<Rightarrow> 0)"

definition target_holds :: "resource_alert_sample \<Rightarrow> string \<Rightarrow> bool" where
  "target_holds sample key = (case map_of (rp_targets sample) key of Some t \<Rightarrow> rt_condition t | None \<Rightarrow> False)"

text \<open>The lifecycle of a target whose condition no longer holds ends, with an incident if it was active.\<close>

definition reset_target ::
  "resource_alert_sample \<Rightarrow> u64 \<Rightarrow> resource_alert_engine_state \<times> resource_alert_incident list \<Rightarrow> string
    \<Rightarrow> resource_alert_engine_state \<times> resource_alert_incident list" where
  "reset_target sample now st key =
     (case st of (next, incidents) \<Rightarrow>
        case map_of (rg_targets next) key of
          None \<Rightarrow> (next, incidents)
        | Some lifecycle \<Rightarrow>
            let next' = next\<lparr>rg_targets := bt_remove key (rg_targets next)\<rparr> in
            (case rl_active lifecycle of
               None \<Rightarrow> (next', incidents)
             | Some summary0 \<Rightarrow>
                 let summary1 = (case map_of (rp_targets sample) key of
                       Some target \<Rightarrow>
                         if has_complete_resource_evidence (rt_evidence target)
                         then summary0\<lparr>rs_evidence := rt_evidence target\<rparr> else summary0
                     | None \<Rightarrow> summary0);
                     summary2 = summary1\<lparr>rs_updated_at := rp_reported_at_ms sample,
                       rs_duration_seconds := elapsed_seconds now (rl_opened_at_ms lifecycle)\<rparr>
                 in (next', incidents @ [\<lparr> ri_summary = summary2,
                       ri_resolved_at = Some (rp_reported_at_ms sample) \<rparr>])))"

definition opened_summary ::
  "resource_alert_sample \<Rightarrow> u64 \<Rightarrow> string \<Rightarrow> resource_alert_target \<Rightarrow> resource_alert_summary" where
  "opened_summary sample number key target =
     (case resource_alert_metadata (rt_state target) of (kind, limit_text, action_text) \<Rightarrow>
        \<lparr> rs_kind = kind, rs_key = key, rs_state = rt_state target, rs_severity = Critical,
          rs_incident_id = ''host-resource-incident-'' @ dec (unat number),
          rs_opened_at = rp_reported_at_ms sample, rs_updated_at = rp_reported_at_ms sample,
          rs_duration_seconds = 0, rs_scope = key, rs_evidence = rt_evidence target,
          rs_threshold = limit_text, rs_next_action = action_text \<rparr>)"

text \<open>One target of the sample: its lifecycle starts, goes on, or opens an incident.\<close>

definition advance_target ::
  "resource_alert_sample \<Rightarrow> u64 \<Rightarrow> nat \<Rightarrow> resource_alert_engine_state \<times> resource_alert_incident list
    \<Rightarrow> string \<times> resource_alert_target \<Rightarrow> resource_alert_engine_state \<times> resource_alert_incident list" where
  "advance_target sample now max_targets st kt =
     (case (st, kt) of ((next, incidents), (key, target)) \<Rightarrow>
        if \<not> rt_condition target then (next, incidents)
        else if map_of (rg_targets next) key = None \<and> max_targets \<le> length (rg_targets next) then (next, incidents)
        else
          let lifecycle = unwrap_or \<lparr> rl_candidate_since_ms = now, rl_active = None, rl_opened_at_ms = None \<rparr>
                (map_of (rg_targets next) key) in
          (case rl_active lifecycle of
             Some summary0 \<Rightarrow>
               (next\<lparr>rg_targets := bt_insert key (lifecycle\<lparr>rl_active := Some (summary0\<lparr>
                    rs_updated_at := rp_reported_at_ms sample,
                    rs_duration_seconds := elapsed_seconds now (rl_opened_at_ms lifecycle),
                    rs_evidence := rt_evidence target\<rparr>)\<rparr>) (rg_targets next)\<rparr>, incidents)
           | None \<Rightarrow>
               if saturating_sub now (rl_candidate_since_ms lifecycle) < resource_entry_duration (rt_state target)
               then (next\<lparr>rg_targets := bt_insert key lifecycle (rg_targets next)\<rparr>, incidents)
               else
                 let summary = opened_summary sample (rg_next_incident next) key target in
                 (next\<lparr>rg_targets := bt_insert key (lifecycle\<lparr>rl_active := Some summary,
                      rl_opened_at_ms := Some now\<rparr>) (rg_targets next),
                    rg_next_incident := saturating_add (rg_next_incident next) 1\<rparr>,
                  incidents @ [\<lparr> ri_summary = summary, ri_resolved_at = None \<rparr>])))"

definition resource_advance ::
  "resource_alert_engine_state \<Rightarrow> resource_alert_sample \<Rightarrow> nat \<Rightarrow> resource_alert_transition" where
  "resource_advance previous sample max_targets =
     (let now = max (rp_observed_at_ms sample) (rg_last_observed_at_ms previous);
          limit = clamp max_targets 1 MAX_RESOURCE_TARGETS;
          next0 = previous\<lparr>rg_last_observed_at_ms := now\<rparr>;
          reset_keys = filter (\<lambda>key. \<not> target_holds sample key) (map fst (rg_targets next0));
          after_reset = foldl (reset_target sample now) (next0, []) reset_keys
      in case foldl (advance_target sample now limit) after_reset (rp_targets sample) of (next, incidents) \<Rightarrow>
           \<lparr> rx_next = next, rx_active = List.map_filter rl_active (map snd (rg_targets next)),
             rx_incidents = incidents \<rparr>)"

section \<open>Histories of the monitor\<close>

text \<open>An incident replaces the one with its id, or is appended; the oldest are dropped beyond a bound.\<close>

fun replace_or_push :: "('a \<Rightarrow> bool) \<Rightarrow> 'a \<Rightarrow> 'a list \<Rightarrow> 'a list" where
  "replace_or_push p v [] = [v]"
| "replace_or_push p v (x # xs) = (if p x then v # xs else x # replace_or_push p v xs)"

definition update_incident :: "alert_incident list \<Rightarrow> alert_incident \<Rightarrow> alert_incident list" where
  "update_incident incidents updated =
     replace_or_push (\<lambda>i. ai_incident_id i = ai_incident_id updated) updated incidents"

record aggregate_sample =
  ag_sampled_at :: u64
  ag_available_bytes :: "u64 option"
  ag_total_bytes :: "u64 option"
  ag_psi_some_avg10 :: "f64 option"
  ag_psi_full_avg10 :: "f64 option"

record monitor_cache =
  ca_aggregate :: "aggregate_sample list"
  ca_incidents :: "alert_incident list"
  ca_alert :: alert_summary
  ca_resource_alerts :: "resource_alert_summary list"
  ca_resource_incidents :: "resource_alert_incident list"
  ca_engine :: alert_engine_state
  ca_resource_engine :: resource_alert_engine_state

definition healthy_summary :: "u64 \<Rightarrow> alert_summary" where
  "healthy_summary now = \<lparr> as_state = Healthy, as_severity = Info, as_incident_id = None, as_opened_at = None,
     as_updated_at = now, as_duration_seconds = 0, as_scope = ''host'', as_confidence = LowConfidence,
     as_threshold = ''none'', as_evidence = \<lparr> ev_available_percent = None, ev_reclaimable_percent = None,
       ev_psi_some_avg10 = None, ev_psi_full_avg10 = None, ev_cgroup_oom_delta = False \<rparr>,
     as_next_action = ''No action required'' \<rparr>"

definition monitor_cache_new :: "u64 \<Rightarrow> monitor_cache" where
  "monitor_cache_new now = \<lparr> ca_aggregate = [], ca_incidents = [], ca_alert = healthy_summary now, ca_resource_alerts = [],
     ca_resource_incidents = [], ca_engine = engine_healthy 0, ca_resource_engine = resource_healthy 0 \<rparr>"

definition trim_resource_alert_retention :: "nat \<Rightarrow> monitor_cache \<Rightarrow> monitor_cache" where
  "trim_resource_alert_retention maximum_history c = c\<lparr>
     ca_resource_engine := retain_targets maximum_history (ca_resource_engine c),
     ca_resource_alerts := take maximum_history (ca_resource_alerts c),
     ca_resource_incidents := last_n maximum_history (ca_resource_incidents c)\<rparr>"

definition update_resource_alerts :: "resource_alert_transition \<Rightarrow> nat \<Rightarrow> monitor_cache \<Rightarrow> monitor_cache" where
  "update_resource_alerts tr maximum_history c =
     trim_resource_alert_retention maximum_history (c\<lparr>
       ca_resource_engine := rx_next tr, ca_resource_alerts := rx_active tr,
       ca_resource_incidents := foldl (\<lambda>is i. replace_or_push
           (\<lambda>item. rs_incident_id (ri_summary item) = rs_incident_id (ri_summary i)) i is)
         (ca_resource_incidents c) (rx_incidents tr)\<rparr>)"

text \<open>
  The part of \<open>publish\<close> that deals with alerts and the aggregate ring: \<open>observed\<close> is the deep snapshot
  with its elapsed time when it was taken before its deadline; the legacy sample is always there. The result has
  the events to send.
\<close>

definition publish_alerts ::
  "(rat \<Rightarrow> rat) \<Rightarrow> host_resource_monitor_config \<Rightarrow> (alert_snapshot \<times> u64) option \<Rightarrow> host_metrics \<Rightarrow> u64
    \<Rightarrow> monitor_cache \<Rightarrow> monitor_cache \<times> alert_summary option \<times> resource_alert_incident list" where
  "publish_alerts rnd config observed legacy legacy_observed_at_ms cache =
     (let limit = unat (mc_max_alert_incidents config);
          tr = resource_advance (ca_resource_engine cache) (from_legacy legacy legacy_observed_at_ms) limit;
          cache1 = update_resource_alerts tr limit cache
      in case observed of
           Some (snapshot, observed_at_ms) \<Rightarrow>
             (let sample = from_snapshot_with_monotonic rnd snapshot observed_at_ms;
                  memory = advance_with_thresholds (ca_engine cache) sample (thresholds_from_config config);
                  aggregate = \<lparr> ag_sampled_at = sn_sampled_at snapshot, ag_available_bytes = sn_available_bytes snapshot,
                    ag_total_bytes = sn_total_bytes snapshot, ag_psi_some_avg10 = sa_psi_some_avg10 sample,
                    ag_psi_full_avg10 = sa_psi_full_avg10 sample \<rparr>;
                  incidents = (case at_incident memory of
                       Some incident \<Rightarrow> update_incident (ca_incidents cache1) incident
                     | None \<Rightarrow> ca_incidents cache1)
              in (cache1\<lparr>ca_engine := at_next memory,
                          ca_aggregate := last_n (unat (mc_ring_capacity config)) (ca_aggregate cache1 @ [aggregate]),
                          ca_incidents := last_n limit incidents, ca_alert := at_summary memory\<rparr>,
                  if at_change memory \<noteq> None then Some (at_summary memory) else None,
                  rx_incidents tr))
         | None \<Rightarrow> (cache1\<lparr>ca_incidents := last_n limit (ca_incidents cache1)\<rparr>, None, rx_incidents tr))"

text \<open>\<open>reconfigure\<close> clamps the configuration and trims the histories at once.\<close>

record host_resource_monitor =
  mo_config :: host_resource_monitor_config
  mo_cache :: monitor_cache

definition monitor_new :: "host_resource_monitor_config \<Rightarrow> u64 \<Rightarrow> host_resource_monitor" where
  "monitor_new config now = \<lparr> mo_config = clamped config, mo_cache = monitor_cache_new now \<rparr>"

definition reconfigure :: "host_resource_monitor_config \<Rightarrow> host_resource_monitor \<Rightarrow> host_resource_monitor" where
  "reconfigure config0 m =
     (let config = clamped config0; limit = unat (mc_max_alert_incidents config); cache = mo_cache m in
      m\<lparr>mo_config := config,
        mo_cache := trim_resource_alert_retention limit (cache\<lparr>
          ca_aggregate := last_n (unat (mc_ring_capacity config)) (ca_aggregate cache),
          ca_incidents := last_n limit (ca_incidents cache)\<rparr>)\<rparr>)"

end
