(* ===== verification/Resource_Alert_Safety.thy ===== *)
theory Resource_Alert_Safety
  imports Resource_Alerts
begin

text \<open>
  Resource alerts: the bounded map of observed targets against its specification, and the duration
  a temperature must last before an incident is opened.
\<close>

section \<open>Ordered maps\<close>

lemma map_of_bt_insert [simp]: "map_of (bt_insert k v m) = (map_of m)(k \<mapsto> v)"
  by (induction k v m rule: bt_insert.induct) (auto simp: fun_eq_iff)

lemma map_of_bt_remove [simp]: "map_of (bt_remove k m) = (map_of m)(k := None)"
  by (induction m) (auto simp: bt_remove_def fun_eq_iff)

lemma keys_bt_insert: "fst ` set (bt_insert k v m) = insert k (fst ` set m)"
  by (induction k v m rule: bt_insert.induct) auto

lemma bt_ok_insert: "bt_ok m \<Longrightarrow> bt_ok (bt_insert k v m)"
proof (induction k v m rule: bt_insert.induct)
  case (2 k v k' v' m)
  then show ?case using keys_bt_insert [of k v m] by (auto simp: bt_ok_def)
qed (simp add: bt_ok_def)

lemma bt_ok_distinct: "bt_ok m \<Longrightarrow> distinct (map fst m)"
  by (simp add: bt_ok_def strict_sorted_iff)

section \<open>The targets of a sample\<close>

text \<open>The first entry of a key, whose condition is dropped when the key occurs again.\<close>

definition merged :: "(string \<times> resource_alert_target) list \<Rightarrow> string \<Rightarrow> resource_alert_target" where
  "merged kts k =
     (let t = the (map_of kts k) in
      if 1 < length (filter (\<lambda>(k', _). k' = k) kts) then t\<lparr>rt_condition := False\<rparr> else t)"

definition smallest_targets :: "(string \<times> resource_alert_target) list \<Rightarrow> resource_alert_target btree" where
  "smallest_targets kts =
     map (\<lambda>k. (k, merged kts k)) (take MAX_RESOURCE_TARGETS (sorted_list_of_set (fst ` set kts)))"

lemma take_insort_small:
  fixes xs :: "'a::linorder list"
  assumes "sorted xs" "k \<notin> set xs" "0 < n" "n \<le> length xs"
  shows "xs ! (n - 1) < k \<Longrightarrow> take n (insort k xs) = take n xs"
    "k < xs ! (n - 1) \<Longrightarrow> take n (insort k xs) = insort k (take (n - 1) xs)"
  using assms
proof (induction xs arbitrary: n)
  case (Cons x xs)
  {
    case 1
    then show ?case by (cases n; cases "n - 1")
      (auto simp: Cons.IH(1) Suc_le_eq, metis leD nth_mem order_less_le_trans order_less_imp_le)
  next
    case 2
    then show ?case by (cases n; cases "n - 1") (auto simp: Cons.IH(2))
  }
qed simp_all

lemma bt_insert_new:
  "sorted ks \<Longrightarrow> distinct ks \<Longrightarrow> k \<notin> set ks \<Longrightarrow>
     bt_insert k v (map (\<lambda>k. (k, f k)) ks) = map (\<lambda>k'. (k', (f(k := v)) k')) (insort k ks)"
  by (induction ks) auto

lemma bt_insert_old:
  "sorted ks \<Longrightarrow> distinct ks \<Longrightarrow> k \<in> set ks \<Longrightarrow>
     bt_insert k v (map (\<lambda>k. (k, f k)) ks) = map (\<lambda>k'. (k', (f(k := v)) k')) ks"
  by (induction ks) auto


lemma merged_snoc:
  "k' \<noteq> k \<Longrightarrow> merged (kts @ [(k, t)]) k' = merged kts k'"
  "k \<in> fst ` set kts \<Longrightarrow> merged (kts @ [(k, t)]) k = (merged kts k)\<lparr>rt_condition := False\<rparr>"
  "k \<notin> fst ` set kts \<Longrightarrow> merged (kts @ [(k, t)]) k = t"
proof -
  show "merged (kts @ [(k, t)]) k' = merged kts k'" if "k' \<noteq> k"
    using that by (simp add: merged_def map_of_append map_add_def split: option.splits)
  show "merged (kts @ [(k, t)]) k = (merged kts k)\<lparr>rt_condition := False\<rparr>" if "k \<in> fst ` set kts"
  proof -
    from that obtain u where "map_of kts k = Some u" by (metis map_of_eq_None_iff not_Some_eq)
    moreover have "filter (\<lambda>(k', _). k' = k) kts \<noteq> []" using that by (auto simp: filter_empty_conv)
    ultimately show ?thesis by (auto simp: merged_def map_of_append map_add_def Suc_lessI)
  qed
  show "merged (kts @ [(k, t)]) k = t" if "k \<notin> fst ` set kts"
  proof -
    have "filter (\<lambda>(k', _). k' = k) kts = []" using that by (force simp: filter_empty_conv)
    moreover have "map_of kts k = None" using that by (simp add: map_of_eq_None_iff)
    ultimately show ?thesis by (simp add: merged_def map_of_append map_add_def)
  qed
qed


lemma map_of_tabulate: "map_of (map (\<lambda>k. (k, f k)) ks) k = (if k \<in> set ks then Some (f k) else None)"
  by (induction ks) auto

lemma sorted_take_drop: "sorted xs \<Longrightarrow> x \<in> set (take n xs) \<Longrightarrow> y \<in> set (drop n xs) \<Longrightarrow> x \<le> y"
  by (metis append_take_drop_id sorted_append)

lemma last_take_nth: "0 < n \<Longrightarrow> n \<le> length xs \<Longrightarrow> last (take n xs) = xs ! (n - 1)"
  by (cases xs) (simp_all add: last_conv_nth min_def)

lemma smallest_insert_new:
  assumes "k \<notin> fst ` set kts"
  shows "insert_target (smallest_targets kts) k t = smallest_targets (kts @ [(k, t)])"
proof -
  let ?S = "sorted_list_of_set (fst ` set kts)"
  let ?n = "MAX_RESOURCE_TARGETS"
  have S: "sorted ?S" "distinct ?S" "k \<notin> set ?S" using assms by simp_all
  have n: "0 < ?n" by (simp add: MAX_RESOURCE_TARGETS_def)
  have m: "smallest_targets kts = map (\<lambda>k. (k, merged kts k)) (take ?n ?S)" by (simp add: smallest_targets_def)
  have "merged (kts @ [(k, t)]) = (merged kts)(k := t)"
    using merged_snoc(1) merged_snoc(3) [OF assms] by (auto simp: fun_eq_iff)
  then have rhs: "smallest_targets (kts @ [(k, t)]) = map (\<lambda>k'. (k', ((merged kts)(k := t)) k')) (take ?n (insort k ?S))"
    using assms by (simp add: smallest_targets_def insert_commute sorted_list_of_set_insert)
  have "k \<notin> set (take ?n ?S)" using S(3) in_set_takeD by fast
  then have look: "map_of (smallest_targets kts) k = None" by (simp add: m map_of_tabulate)
  show ?thesis
  proof (cases "?n \<le> length ?S")
    case False
    then have all: "take ?n ?S = ?S" "take ?n (insort k ?S) = insort k ?S" by simp_all
    have "insert_target (smallest_targets kts) k t = bt_insert k t (smallest_targets kts)"
      using False look unfolding insert_target_def m by simp
    also have "\<dots> = smallest_targets (kts @ [(k, t)])"
      unfolding rhs m all by (rule bt_insert_new [OF S])
    finally show ?thesis .
  next
    case True
    then have ne: "smallest_targets kts \<noteq> []" and len: "length (smallest_targets kts) = ?n" using n by (auto simp: m)
    have "last (take ?n ?S) = ?S ! (?n - 1)" by (rule last_take_nth [OF n True])
    then have last: "fst (last (smallest_targets kts)) = ?S ! (?n - 1)" using ne by (simp add: m last_map)
    have neq: "?S ! (?n - 1) \<noteq> k" using S(3) True n by (metis Suc_pred' less_eq_Suc_le nth_mem)
    show ?thesis
    proof (cases "?S ! (?n - 1) \<le> k")
      case le: True
      with neq have "take ?n (insort k ?S) = take ?n ?S" by (intro take_insort_small(1) S(1,3) n True) auto
      then show ?thesis using le \<open>k \<notin> set (take ?n ?S)\<close>
        by (simp add: insert_target_def look ne len last rhs) (auto simp: m)
    next
      case gt: False
      then have "take ?n (insort k ?S) = insort k (take (?n - 1) ?S)" by (intro take_insort_small(2) S(1,3) n True) auto
      moreover have "butlast (smallest_targets kts) = map (\<lambda>k. (k, merged kts k)) (take (?n - 1) ?S)"
        using True n by (simp add: m map_butlast [symmetric] butlast_take)
      moreover have "k \<notin> set (take (?n - 1) ?S)" using S(3) in_set_takeD by fast
      ultimately show ?thesis using gt bt_insert_new [of "take (?n - 1) ?S" k t "merged kts"] S
        by (simp add: insert_target_def look ne len last rhs sorted_wrt_take)
    qed
  qed
qed

lemma smallest_insert_old:
  assumes "k \<in> fst ` set kts"
  shows "insert_target (smallest_targets kts) k t = smallest_targets (kts @ [(k, t)])"
proof -
  let ?S = "sorted_list_of_set (fst ` set kts)"
  let ?n = "MAX_RESOURCE_TARGETS"
  have S: "sorted ?S" "distinct ?S" "k \<in> set ?S" using assms by simp_all
  have T: "sorted (take ?n ?S)" "distinct (take ?n ?S)" using S by (simp_all add: sorted_wrt_take)
  have m: "smallest_targets kts = map (\<lambda>k. (k, merged kts k)) (take ?n ?S)" by (simp add: smallest_targets_def)
  have "merged (kts @ [(k, t)]) = (merged kts)(k := (merged kts k)\<lparr>rt_condition := False\<rparr>)"
    using merged_snoc(1) merged_snoc(2) [OF assms] by (auto simp: fun_eq_iff)
  moreover have "fst ` set (kts @ [(k, t)]) = fst ` set kts" using assms by auto
  ultimately have rhs: "smallest_targets (kts @ [(k, t)]) =
      map (\<lambda>k'. (k', ((merged kts)(k := (merged kts k)\<lparr>rt_condition := False\<rparr>)) k')) (take ?n ?S)"
    by (simp only: smallest_targets_def)
  show ?thesis
  proof (cases "k \<in> set (take ?n ?S)")
    case True
    then have "map_of (smallest_targets kts) k = Some (merged kts k)" by (simp add: m map_of_tabulate)
    then show ?thesis using bt_insert_old [OF T True] by (simp add: insert_target_def) (simp add: m rhs)
  next
    case False
    with S(3) have d: "k \<in> set (drop ?n ?S)" by (metis append_take_drop_id set_append UnE)
    then have len: "?n < length ?S" by (metis drop_all empty_iff list.set(1) not_less)
    then have ne: "take ?n ?S \<noteq> []" by (auto simp: MAX_RESOURCE_TARGETS_def)
    then have "fst (last (smallest_targets kts)) \<in> set (take ?n ?S)" by (simp add: m last_map)
    from sorted_take_drop [OF S(1) this d] have "fst (last (smallest_targets kts)) \<le> k" .
    moreover have "map_of (smallest_targets kts) k = None" using False by (simp add: m map_of_tabulate)
    ultimately show ?thesis using len ne False
      by (simp add: insert_target_def) (auto simp: m rhs)
  qed
qed

lemma insert_all_smallest: "insert_all [] kts = smallest_targets kts"
proof (induction kts rule: rev_induct)
  case Nil
  show ?case by (simp add: insert_all_def smallest_targets_def)
next
  case (snoc x kts)
  then show ?case
    using smallest_insert_new [of "fst x" kts "snd x"] smallest_insert_old [of "fst x" kts "snd x"]
    by (cases "fst x \<in> fst ` set kts") (auto simp: insert_all_def split: prod.splits)
qed

text \<open>
  The one-pass insertion with eviction keeps exactly the 50 smallest keys of all observed
  temperatures and disks, each with the entry observed first, whose condition is dropped when the
  key is ambiguous.
\<close>

lemma sample_targets_are_smallest:
  "rp_targets (from_legacy metrics t) = smallest_targets
     (List.map_filter temperature_target (hm_temperatures metrics) @ List.map_filter disk_target (hm_disks metrics))"
  by (simp add: from_legacy_def insert_all_smallest [symmetric]) (simp add: insert_all_def)

section \<open>Runs of the resource engine\<close>

text \<open>One round of the monitor: the sampled metrics, the elapsed time and the configured bound.\<close>

type_synonym legacy_observation = "host_metrics \<times> u64 \<times> nat"

definition resource_transition :: "resource_alert_engine_state \<Rightarrow> legacy_observation \<Rightarrow> resource_alert_transition" where
  "resource_transition s x = (case x of (metrics, elapsed, bound) \<Rightarrow> resource_advance s (from_legacy metrics elapsed) bound)"

definition resource_step :: "resource_alert_engine_state \<Rightarrow> legacy_observation \<Rightarrow> resource_alert_engine_state" where
  "resource_step s x = retain_targets (snd (snd x)) (rx_next (resource_transition s x))"

definition observed_targets :: "legacy_observation \<Rightarrow> resource_alert_target btree" where
  "observed_targets x = rp_targets (from_legacy (fst x) (fst (snd x)))"

definition target_condition :: "string \<Rightarrow> legacy_observation \<Rightarrow> bool" where
  "target_condition key x = (case map_of (observed_targets x) key of Some t \<Rightarrow> rt_condition t | None \<Rightarrow> False)"

definition tracked_since :: "string \<Rightarrow> resource_alert_engine_state \<Rightarrow> u64 option" where
  "tracked_since key s = map_option rl_candidate_since_ms (map_of (rg_targets s) key)"

lemma smallest_distinct: "distinct (map fst (smallest_targets kts))"
  by (simp add: smallest_targets_def comp_def)

lemma observed_distinct: "distinct (map fst (observed_targets x))"
  by (simp add: observed_targets_def sample_targets_are_smallest smallest_distinct)

lemma reset_target_lookup:
  "map_of (rg_targets (fst (reset_target sample now st k))) key = (if key = k then None else map_of (rg_targets (fst st)) key)"
  "rg_last_observed_at_ms (fst (reset_target sample now st k)) = rg_last_observed_at_ms (fst st)"
  by (auto simp: reset_target_def Let_def split: prod.splits option.splits)

lemma reset_lookup:
  "map_of (rg_targets (fst (foldl (reset_target sample now) st ks))) key =
     (if key \<in> set ks then None else map_of (rg_targets (fst st)) key)"
  "rg_last_observed_at_ms (fst (foldl (reset_target sample now) st ks)) = rg_last_observed_at_ms (fst st)"
  by (induction ks arbitrary: st) (auto simp: reset_target_lookup)

lemma reset_resolved:
  "i \<in> set (snd (foldl (reset_target sample now) st ks)) \<Longrightarrow> ri_resolved_at i = None \<Longrightarrow> i \<in> set (snd st)"
proof (induction ks arbitrary: st)
  case (Cons k ks)
  from Cons.IH [of "reset_target sample now st k"] Cons.prems have "i \<in> set (snd (reset_target sample now st k))" by simp
  with Cons.prems(2) show ?case by (auto simp: reset_target_def Let_def split: prod.splits option.splits)
qed simp

lemma advance_target_other:
  assumes "fst kt \<noteq> key"
  shows "map_of (rg_targets (fst (advance_target sample now n st kt))) key = map_of (rg_targets (fst st)) key"
  using assms by (auto simp: advance_target_def Let_def split: prod.splits option.splits if_splits)

lemma advance_target_clock:
  "rg_last_observed_at_ms (fst (advance_target sample now n st kt)) = rg_last_observed_at_ms (fst st)"
  by (auto simp: advance_target_def Let_def split: prod.splits option.splits if_splits)

lemma advance_target_since:
  assumes "map_option rl_candidate_since_ms (map_of (rg_targets (fst (advance_target sample now n st (k, t)))) k) = Some u"
  shows "map_option rl_candidate_since_ms (map_of (rg_targets (fst st)) k) = Some u \<or> rt_condition t \<and> u = now"
  using assms by (cases st) (auto simp: advance_target_def Let_def unwrap_or_def split: option.splits if_splits)

lemma advance_other:
  "key \<notin> fst ` set kts \<Longrightarrow>
     map_of (rg_targets (fst (foldl (advance_target sample now n) st kts))) key = map_of (rg_targets (fst st)) key"
  by (induction kts arbitrary: st) (auto simp: advance_target_other)

lemma advance_clock:
  "rg_last_observed_at_ms (fst (foldl (advance_target sample now n) st kts)) = rg_last_observed_at_ms (fst st)"
  by (induction kts arbitrary: st) (simp_all add: advance_target_clock)

lemma advance_since:
  assumes "distinct (map fst kts)"
    "map_option rl_candidate_since_ms (map_of (rg_targets (fst (foldl (advance_target sample now n) st kts))) key) = Some u"
  shows "map_option rl_candidate_since_ms (map_of (rg_targets (fst st)) key) = Some u
    \<or> (\<exists>t. map_of kts key = Some t \<and> rt_condition t) \<and> u = now"
  using assms
proof (induction kts arbitrary: st)
  case (Cons kt kts)
  obtain k t where kt: "kt = (k, t)" by (cases kt)
  show ?case
  proof (cases "k = key")
    case True
    with Cons.prems(1) kt have "key \<notin> fst ` set kts" by auto
    with Cons.prems(2) have "map_option rl_candidate_since_ms (map_of (rg_targets (fst (advance_target sample now n st (k, t)))) k) = Some u"
      by (simp add: kt advance_other True)
    from advance_target_since [OF this] True kt show ?thesis by auto
  next
    case False
    with Cons.IH [of "advance_target sample now n st kt"] Cons.prems kt show ?thesis
      by (auto simp: advance_target_other)
  qed
qed simp

lemma retain_lookup:
  "map_of (rg_targets (retain_targets n s)) key = None \<or> map_of (rg_targets (retain_targets n s)) key = map_of (rg_targets s) key"
proof -
  have "map_of (foldl (\<lambda>m k. bt_remove k m) m ks) key = (if key \<in> set ks then None else map_of m key)"
    for m :: "resource_alert_lifecycle btree" and ks
    by (induction ks arbitrary: m) (auto simp del: fun_upd_apply simp add: fun_upd_def)
  then show ?thesis by (simp add: retain_targets_def del: not_None_eq)
qed

text \<open>The two passes of a round.\<close>

definition round_now :: "resource_alert_engine_state \<Rightarrow> legacy_observation \<Rightarrow> u64" where
  "round_now s x = max (fst (snd x)) (rg_last_observed_at_ms s)"

definition round_reset ::
  "resource_alert_engine_state \<Rightarrow> legacy_observation \<Rightarrow> resource_alert_engine_state \<times> resource_alert_incident list" where
  "round_reset s x =
     (let sample = from_legacy (fst x) (fst (snd x)) in
      foldl (reset_target sample (round_now s x)) (s\<lparr>rg_last_observed_at_ms := round_now s x\<rparr>, [])
        (filter (\<lambda>key. \<not> target_holds sample key) (map fst (rg_targets s))))"

definition round_result ::
  "resource_alert_engine_state \<Rightarrow> legacy_observation \<Rightarrow> resource_alert_engine_state \<times> resource_alert_incident list" where
  "round_result s x =
     foldl (advance_target (from_legacy (fst x) (fst (snd x))) (round_now s x) (clamp (snd (snd x)) 1 MAX_RESOURCE_TARGETS))
       (round_reset s x) (observed_targets x)"

lemma transition_round:
  "rx_next (resource_transition s x) = fst (round_result s x)"
  "rx_incidents (resource_transition s x) = snd (round_result s x)"
proof -
  obtain metrics elapsed bound where x: "x = (metrics, elapsed, bound)" by (cases x)
  have o: "rp_observed_at_ms (from_legacy metrics elapsed) = elapsed" by (simp add: from_legacy_def)
  show "rx_next (resource_transition s x) = fst (round_result s x)"
    "rx_incidents (resource_transition s x) = snd (round_result s x)"
    by (simp_all add: x resource_transition_def resource_advance_def round_result_def round_reset_def round_now_def
        observed_targets_def o Let_def case_prod_beta)
qed

lemma round_reset_lookup:
  "map_of (rg_targets (fst (round_reset s x))) key = (if target_condition key x then map_of (rg_targets s) key else None)"
  by (auto simp: round_reset_def Let_def reset_lookup target_condition_def target_holds_def observed_targets_def
      map_of_eq_None_iff)

lemma round_reset_resolved: "i \<in> set (snd (round_reset s x)) \<Longrightarrow> ri_resolved_at i \<noteq> None"
  using reset_resolved unfolding round_reset_def Let_def by fastforce

lemma round_clock: "rg_last_observed_at_ms (resource_step s x) = round_now s x"
  by (simp add: resource_step_def retain_targets_def transition_round round_result_def advance_clock round_reset_def
      Let_def reset_lookup)

lemma tracking_remembers:
  assumes "tracked_since key (resource_step s x) = Some u"
  shows "target_condition key x \<and> (tracked_since key s = Some u \<or> u = rg_last_observed_at_ms (resource_step s x))"
proof -
  from assms have "map_option rl_candidate_since_ms (map_of (rg_targets (fst (round_result s x))) key) = Some u"
    using retain_lookup [of "snd (snd x)" "rx_next (resource_transition s x)" key]
    by (auto simp: tracked_since_def resource_step_def transition_round)
  from advance_since [OF observed_distinct this [unfolded round_result_def]] show ?thesis
    unfolding round_clock by (auto simp: round_reset_lookup tracked_since_def target_condition_def split: if_splits)
qed

interpretation tracking: streak resource_step "tracked_since key" "\<lambda>s. target_condition key" rg_last_observed_at_ms for key
  by unfold_locales (rule tracking_remembers)

text \<open>An incident is opened for a target that has been tracked long enough.\<close>

lemma advance_target_opens:
  assumes "i \<in> set (snd (advance_target sample now n st (k, t)))" "i \<notin> set (snd st)"
  shows "rt_condition t \<and> rs_key (ri_summary i) = k \<and> rs_state (ri_summary i) = rt_state t
    \<and> resource_entry_duration (rt_state t)
        \<le> saturating_sub now (unwrap_or now (map_option rl_candidate_since_ms (map_of (rg_targets (fst st)) k)))"
  using assms
  by (cases st) (auto simp: advance_target_def Let_def unwrap_or_def opened_summary_def not_less
      split: option.splits if_splits prod.splits)

lemma advance_opens:
  assumes "distinct (map fst kts)" "i \<in> set (snd (foldl (advance_target sample now n) st kts))" "i \<notin> set (snd st)"
  shows "\<exists>t. map_of kts (rs_key (ri_summary i)) = Some t \<and> rt_condition t \<and> rs_state (ri_summary i) = rt_state t
    \<and> resource_entry_duration (rt_state t)
        \<le> saturating_sub now (unwrap_or now (map_option rl_candidate_since_ms (map_of (rg_targets (fst st)) (rs_key (ri_summary i)))))"
  using assms
proof (induction kts arbitrary: st)
  case (Cons kt kts)
  obtain k t where kt: "kt = (k, t)" by (cases kt)
  show ?case
  proof (cases "i \<in> set (snd (advance_target sample now n st kt))")
    case True
    from advance_target_opens [OF this [unfolded kt] Cons.prems(3)] show ?thesis by (auto simp: kt)
  next
    case False
    with Cons.IH [of "advance_target sample now n st kt"] Cons.prems obtain u where
      u: "map_of kts (rs_key (ri_summary i)) = Some u" "rt_condition u" "rs_state (ri_summary i) = rt_state u"
        "resource_entry_duration (rt_state u) \<le> saturating_sub now (unwrap_or now (map_option rl_candidate_since_ms
           (map_of (rg_targets (fst (advance_target sample now n st kt))) (rs_key (ri_summary i)))))" by auto
    then have "rs_key (ri_summary i) \<in> fst ` set kts" by (metis map_of_eq_None_iff option.distinct(1))
    with Cons.prems(1) kt have "k \<noteq> rs_key (ri_summary i)" by auto
    with u show ?thesis by (auto simp: kt advance_target_other)
  qed
qed simp

text \<open>
  A temperature incident is opened only when the condition of its sensor held for every
  sample of a stretch of at least five minutes up to now.
\<close>

lemma temperature_alert_needs_five_minutes:
  assumes "i \<in> set (rx_incidents (resource_transition (foldl resource_step (resource_healthy t) xs) x))"
    "ri_resolved_at i = None" "rs_state (ri_summary i) = TemperatureHigh"
  shows "\<exists>ys y zs. xs @ [x] = ys @ y # zs \<and> list_all (target_condition (rs_key (ri_summary i))) (y # zs)
    \<and> 300000 \<le> saturating_sub (rg_last_observed_at_ms (foldl resource_step (resource_healthy t) (xs @ [x])))
        (rg_last_observed_at_ms (foldl resource_step (resource_healthy t) (ys @ [y])))"
proof -
  let ?s = "foldl resource_step (resource_healthy t) xs"
  let ?k = "rs_key (ri_summary i)"
  have along: "tracking.holds_along key s zs = list_all (target_condition key) zs" for key s zs
    by (induction zs arbitrary: s) simp_all
  from assms(1,2) round_reset_resolved [of i ?s x] have "i \<in> set (snd (round_result ?s x))" "i \<notin> set (snd (round_reset ?s x))"
    by (auto simp: transition_round)
  from advance_opens [OF observed_distinct this(1) [unfolded round_result_def] this(2)] obtain u where
    u: "map_of (observed_targets x) ?k = Some u" "rt_condition u" "rt_state u = TemperatureHigh"
      "resource_entry_duration (rt_state u) \<le> saturating_sub (round_now ?s x)
         (unwrap_or (round_now ?s x) (map_option rl_candidate_since_ms (map_of (rg_targets (fst (round_reset ?s x))) ?k)))"
    using assms(3) by auto
  then have cond: "target_condition ?k x" by (simp add: target_condition_def)
  have d: "300000 \<le> saturating_sub (round_now ?s x) (unwrap_or (round_now ?s x) (tracked_since ?k ?s))"
    using u(3,4) cond by (simp add: round_reset_lookup tracked_since_def THERMAL_ALERT_DURATION_MS_def)
  show ?thesis
  proof (cases "tracked_since ?k ?s")
    case None
    with d cond show ?thesis
      by (intro exI [of _ xs] exI [of _ x] exI [of _ "[]"]) (simp add: unwrap_or_def round_clock)
  next
    case (Some v)
    have "tracked_since ?k (resource_healthy t) = None" by (simp add: tracked_since_def resource_healthy_def)
    from tracking.since_run [OF this Some] obtain ys y zs where s: "xs = ys @ y # zs"
        "rg_last_observed_at_ms (foldl resource_step (resource_healthy t) (ys @ [y])) = v"
        "tracking.holds_along ?k (foldl resource_step (resource_healthy t) ys) (y # zs)" by blast
    with d cond Some show ?thesis
      by (intro exI [of _ ys] exI [of _ y] exI [of _ "zs @ [x]"]) (simp add: along unwrap_or_def round_clock)
  qed
qed

section \<open>Bounded histories\<close>

datatype monitor_call =
    Publish "(alert_snapshot \<times> u64) option" host_metrics u64
  | Reconfigure host_resource_monitor_config

fun monitor_step :: "(rat \<Rightarrow> rat) \<Rightarrow> host_resource_monitor \<Rightarrow> monitor_call \<Rightarrow> host_resource_monitor" where
  "monitor_step rnd m (Publish observed legacy elapsed) =
     m\<lparr>mo_cache := fst (publish_alerts rnd (mo_config m) observed legacy elapsed (mo_cache m))\<rparr>"
| "monitor_step rnd m (Reconfigure config) = reconfigure config m"

definition within_bounds :: "host_resource_monitor \<Rightarrow> bool" where
  "within_bounds m \<longleftrightarrow>
     (let limit = unat (mc_max_alert_incidents (mo_config m)); c = mo_cache m in
      1 \<le> limit \<and> limit \<le> 50
      \<and> length (ca_aggregate c) \<le> unat (mc_ring_capacity (mo_config m))
      \<and> length (ca_incidents c) \<le> limit \<and> length (ca_resource_alerts c) \<le> limit
      \<and> length (ca_resource_incidents c) \<le> limit \<and> length (rg_targets (ca_resource_engine c)) \<le> limit)"

lemma length_retain:
  assumes "1 \<le> n" "n \<le> MAX_RESOURCE_TARGETS"
  shows "length (rg_targets (retain_targets n s)) \<le> n"
proof -
  have rem: "foldl (\<lambda>m k. bt_remove k m) m ks = filter (\<lambda>(k, _). k \<notin> set ks) m" for m :: "resource_alert_lifecycle btree" and ks
    by (induction ks arbitrary: m) (auto simp: bt_remove_def intro!: filter_cong)
  let ?m = "rg_targets s"
  have "filter (\<lambda>(k, _). k \<notin> set (drop n (map fst ?m))) ?m
      = filter (\<lambda>(k, _). k \<notin> set (drop n (map fst ?m))) (take n ?m)"
  proof -
    have "filter (\<lambda>(k, _). k \<notin> set (drop n (map fst ?m))) (drop n ?m) = []"
      by (force simp: filter_empty_conv drop_map)
    then show ?thesis by (metis append_Nil2 append_take_drop_id filter_append)
  qed
  then have "length (filter (\<lambda>(k, _). k \<notin> set (drop n (map fst ?m))) ?m) \<le> n"
    by (metis (no_types, lifting) length_filter_le length_take min.bounded_iff)
  then show ?thesis using assms by (simp add: retain_targets_def rem clamp_def)
qed

lemma clamped_limits:
  "1 \<le> unat (mc_max_alert_incidents (clamped c))" "unat (mc_max_alert_incidents (clamped c)) \<le> 50"
  by (auto simp: clamped_def Let_def clamp_def word_le_nat_alt word_less_nat_alt)

lemma within_step: "within_bounds m \<Longrightarrow> within_bounds (monitor_step rnd m c)"
proof (cases c)
  case (Publish observed legacy elapsed)
  assume "within_bounds m"
  with Publish length_retain [of "unat (mc_max_alert_incidents (mo_config m))"] show ?thesis
    by (auto simp: within_bounds_def Let_def publish_alerts_def update_resource_alerts_def trim_resource_alert_retention_def
        MAX_RESOURCE_TARGETS_def split: option.splits)
next
  case (Reconfigure config)
  with clamped_limits [of config] length_retain [of "unat (mc_max_alert_incidents (clamped config))"] show ?thesis
    by (auto simp: within_bounds_def Let_def reconfigure_def trim_resource_alert_retention_def MAX_RESOURCE_TARGETS_def)
qed

interpretation monitor: transition_system "monitor_new config now" "monitor_step rnd" within_bounds for config now rnd
proof unfold_locales
  show "within_bounds (monitor_new config now)"
    using clamped_limits [of config]
    by (simp add: within_bounds_def Let_def monitor_new_def monitor_cache_new_def resource_healthy_def)
qed (rule within_step)

text \<open>
  After any samples and reconfigurations every history of the monitor is within the bounds of its
  current configuration, which are at most 50 incidents.
\<close>

lemma histories_bounded: "within_bounds (foldl (monitor_step rnd) (monitor_new config now) calls)"
  by (rule monitor.inv_reachable)

section \<open>A concrete run\<close>

definition demo_heat :: "u64 \<Rightarrow> legacy_observation" where
  "demo_heat elapsed = (\<lparr> hm_sampled_at = elapsed, hm_disks = [],
     hm_temperatures = [\<lparr> tp_label = ''cpu'', tp_celsius = Finite 71, tp_source = ''z'' \<rparr>] \<rparr>, elapsed, 50)"

definition demo_heat_target :: resource_alert_target where
  "demo_heat_target = \<lparr> rt_state = TemperatureHigh, rt_condition = True,
     rt_evidence = \<lparr> re_temperature_source = Some ''z'', re_temperature_label = Some ''cpu'',
       re_temperature_celsius = Some (Finite 71), re_disk_mount_point = None, re_disk_name = None,
       re_disk_usage_percent = None \<rparr> \<rparr>"

lemma demo_texts: "bounded_text ''z'' = Some ''z''" "bounded_text ''cpu'' = Some ''cpu''"
  by (simp_all add: bounded_text_def trim_str_id graphic_def MAX_RESOURCE_TEXT_BYTES_def)

lemma demo_heat_sample:
  "from_legacy (fst (demo_heat e)) e = \<lparr> rp_observed_at_ms = e, rp_reported_at_ms = e,
     rp_targets = [(''temperature:z'', demo_heat_target)] \<rparr>"
  by (simp add: from_legacy_def demo_heat_def temperature_target_def demo_texts insert_all_def
      insert_target_def List.map_filter_def f64_is_finite_def is_some_and_def f64_greater_def
      THERMAL_ALERT_CELSIUS_def demo_heat_target_def)

lemma demo_heat_round:
  "resource_transition s (demo_heat e) = resource_advance s \<lparr> rp_observed_at_ms = e, rp_reported_at_ms = e,
     rp_targets = [(''temperature:z'', demo_heat_target)] \<rparr> 50"
  using demo_heat_sample [of e] by (simp add: resource_transition_def demo_heat_def)

lemma demo_heat_bound: "snd (snd (demo_heat e)) = 50"
  by (simp add: demo_heat_def)

lemma demo_heat_incident:
  "rx_incidents (resource_transition (foldl resource_step (resource_healthy 0) [demo_heat 0]) (demo_heat 300000))
     = [\<lparr> ri_summary = opened_summary \<lparr> rp_observed_at_ms = 300000, rp_reported_at_ms = 300000,
            rp_targets = [(''temperature:z'', demo_heat_target)] \<rparr> 1 ''temperature:z'' demo_heat_target,
          ri_resolved_at = None \<rparr>]"
  by (simp add: resource_step_def demo_heat_round resource_healthy_def resource_advance_def clamp_def MAX_RESOURCE_TARGETS_def
      Let_def advance_target_def demo_heat_target_def unwrap_or_def saturating_sub_def THERMAL_ALERT_DURATION_MS_def
      retain_targets_def target_holds_def demo_heat_bound)

end
