(* ===== verification/Utf8.thy ===== *)
theory Utf8
  imports Text
begin

text \<open>
  Validity of UTF-8 text, as \<open>str::from_utf8\<close> and \<open>fs::read_to_string\<close> check it, and how it behaves under
  concatenation: valid texts join to a valid text, and a text torn inside a character is not repaired by
  any text that follows it.
\<close>

section \<open>UTF-8\<close>

definition byte_in :: "char \<Rightarrow> nat \<Rightarrow> nat \<Rightarrow> bool" where
  "byte_in c lo hi \<longleftrightarrow> lo \<le> (of_char c :: nat) \<and> (of_char c :: nat) \<le> hi"

definition continuation :: "char \<Rightarrow> bool" where
  "continuation c \<longleftrightarrow> byte_in c 0x80 0xBF"

text \<open>The second byte a multi-byte sequence allows after its first byte.\<close>

definition second_ok :: "char \<Rightarrow> char \<Rightarrow> bool" where
  "second_ok a b =
     (if byte_in a 0xE0 0xE0 then byte_in b 0xA0 0xBF
      else if byte_in a 0xED 0xED then byte_in b 0x80 0x9F
      else if byte_in a 0xF0 0xF0 then byte_in b 0x90 0xBF
      else if byte_in a 0xF4 0xF4 then byte_in b 0x80 0x8F
      else continuation b)"

fun is_utf8 :: "string \<Rightarrow> bool" where
  "is_utf8 [] = True"
| "is_utf8 (a # s) =
     (if byte_in a 0 0x7F then is_utf8 s
      else if byte_in a 0xC2 0xDF then
        (case s of b # t \<Rightarrow> continuation b \<and> is_utf8 t | _ \<Rightarrow> False)
      else if byte_in a 0xE0 0xEF then
        (case s of b # c # t \<Rightarrow> second_ok a b \<and> continuation c \<and> is_utf8 t | _ \<Rightarrow> False)
      else if byte_in a 0xF0 0xF4 then
        (case s of b # c # d # t \<Rightarrow> second_ok a b \<and> continuation c \<and> continuation d \<and> is_utf8 t | _ \<Rightarrow> False)
      else False)"

section \<open>Joining and tearing\<close>

declare is_utf8.simps(2) [simp del]

lemma byte_ranges:
  "continuation c \<Longrightarrow> \<not> byte_in c 0 0x7F \<and> \<not> byte_in c 0xC2 0xDF \<and> \<not> byte_in c 0xE0 0xEF \<and> \<not> byte_in c 0xF0 0xF4"
  "second_ok a c \<Longrightarrow> continuation c"
  by (auto simp: continuation_def byte_in_def second_ok_def split: if_splits)

lemma utf8_no_continuation: "is_utf8 (c # s) \<Longrightarrow> \<not> continuation c"
  using byte_ranges(1) [of c] by (auto simp: is_utf8.simps(2))

text \<open>A valid text starts with a whole character: a byte and the continuation bytes it asks for.\<close>

lemma utf8_first_char:
  assumes "is_utf8 (x # s)"
  obtains k r where "s = k @ r" and "\<forall>c \<in> set k. continuation c" and "is_utf8 r"
    and "\<And>r'. is_utf8 (x # k @ r') \<longleftrightarrow> is_utf8 r'"
proof -
  consider "byte_in x 0 0x7F" | "\<not> byte_in x 0 0x7F" "byte_in x 0xC2 0xDF"
    | "\<not> byte_in x 0 0x7F" "\<not> byte_in x 0xC2 0xDF" "byte_in x 0xE0 0xEF"
    | "\<not> byte_in x 0 0x7F" "\<not> byte_in x 0xC2 0xDF" "\<not> byte_in x 0xE0 0xEF" "byte_in x 0xF0 0xF4"
    using assms by (auto simp: is_utf8.simps(2) split: if_splits)
  then show ?thesis
  proof cases
    case 1
    with assms show ?thesis by (intro that [of "[]" s]) (simp_all add: is_utf8.simps(2))
  next
    case 2
    with assms obtain b t where "s = b # t" "continuation b" "is_utf8 t"
      by (auto simp: is_utf8.simps(2) split: list.splits)
    with 2 show ?thesis by (intro that [of "[b]" t]) (simp_all add: is_utf8.simps(2))
  next
    case 3
    with assms obtain b c t where "s = b # c # t" "second_ok x b" "continuation c" "is_utf8 t"
      by (auto simp: is_utf8.simps(2) split: list.splits)
    with 3 byte_ranges(2) show ?thesis by (intro that [of "[b, c]" t]) (auto simp: is_utf8.simps(2))
  next
    case 4
    with assms obtain b c d t where
      "s = b # c # d # t" "second_ok x b" "continuation c" "continuation d" "is_utf8 t"
      by (auto simp: is_utf8.simps(2) split: list.splits)
    with 4 byte_ranges(2) show ?thesis by (intro that [of "[b, c, d]" t]) (auto simp: is_utf8.simps(2))
  qed
qed

lemma utf8_append: "is_utf8 a \<Longrightarrow> is_utf8 (a @ b) \<longleftrightarrow> is_utf8 b"
proof (induction a rule: length_induct)
  case (1 a)
  show ?case
  proof (cases a)
    case (Cons x s)
    with 1(2) obtain k r where s: "s = k @ r" "is_utf8 r" and first: "is_utf8 (x # k @ r') \<longleftrightarrow> is_utf8 r'" for r'
      by (metis utf8_first_char)
    have "is_utf8 (r @ b) \<longleftrightarrow> is_utf8 b" using 1(1) Cons s by simp
    with Cons s first [of "r @ b"] show ?thesis by simp
  qed simp
qed

text \<open>What stands before a byte that continues no character has to be valid by itself.\<close>

lemma utf8_before: "is_utf8 (a @ y # t) \<Longrightarrow> \<not> continuation y \<Longrightarrow> is_utf8 a"
proof (induction a rule: length_induct)
  case (1 a)
  show ?case
  proof (cases a)
    case (Cons x s)
    with 1(2) have "is_utf8 (x # (s @ y # t))" by simp
    then obtain k r where kr: "s @ y # t = k @ r" "\<forall>c \<in> set k. continuation c" "is_utf8 r"
      and first: "is_utf8 (x # k @ r') \<longleftrightarrow> is_utf8 r'" for r'
      by (metis utf8_first_char)
    from kr(1) consider s' where "s = k @ s'" "r = s' @ y # t" | k' where "k = s @ y # k'"
      by (auto simp: append_eq_append_conv2 Cons_eq_append_conv)
    then show ?thesis
    proof cases
      case 1
      with kr(3) \<open>\<not> continuation y\<close> "1.IH" Cons have "is_utf8 s'" by simp
      with first [of s'] Cons 1 show ?thesis by simp
    next
      case 2
      with kr(2) \<open>\<not> continuation y\<close> show ?thesis by simp
    qed
  qed simp
qed

lemma utf8_append_iff: "is_utf8 b \<Longrightarrow> is_utf8 (a @ b) \<longleftrightarrow> is_utf8 a"
  by (metis append_Nil2 list.exhaust utf8_append utf8_before utf8_no_continuation)

declare is_utf8.simps(2) [simp]

end
