(* ===== verification/Shell_Lifecycle.thy ===== *)
theory Shell_Lifecycle
  imports Utf8
begin

text \<open>
  The observer of shell lifecycle markers in the output of a terminal: \<open>pty/shell_lifecycle.rs\<close>. It
  recognises \<open>ESC ] 633 ; ... BEL\<close> (or \<open>ESC \\<close> at the end), hides markers that carry the nonce of the
  session and follow the lifecycle, and passes everything else on. The base64 decoder is a
  parameter. Bytes are characters.
\<close>

section \<open>Data\<close>

definition BEL :: char where "BEL = CHR 0x07"
definition ESC :: char where "ESC = CHR 0x1B"
definition BACKSLASH :: char where "BACKSLASH = CHR 0x5C"

definition MARKER_PREFIX :: string where
  "MARKER_PREFIX = ESC # '']633;''"

definition MARKER_MAX :: nat where
  "MARKER_MAX = 8 * 1024"

definition MAX_EXIT_STATUS :: int where
  "MAX_EXIT_STATUS = 255"

definition ALT_BUFFER_ENTER :: string where
  "ALT_BUFFER_ENTER = ESC # ''[?1049h''"

datatype lifecycle_state = Unverified | Prompt | Editing | Submitted | Opaque | Finished

record lifecycle_event =
  le_state :: lifecycle_state
  le_command :: "string option"
  le_exit_code :: "int option"

record shell_lifecycle =
  sl_nonce :: string
  sl_generation :: u64
  sl_adapter_version :: string
  sl_supports_exit_status :: bool
  sl_state :: lifecycle_state
  sl_marker :: "string option"
  sl_pending_prefix :: string

definition new_with_capabilities :: "string \<Rightarrow> u64 \<Rightarrow> string \<Rightarrow> bool \<Rightarrow> shell_lifecycle" where
  "new_with_capabilities nonce generation adapter_version supports_exit_status =
     \<lparr> sl_nonce = nonce, sl_generation = generation, sl_adapter_version = adapter_version,
       sl_supports_exit_status = supports_exit_status, sl_state = Unverified, sl_marker = None,
       sl_pending_prefix = [] \<rparr>"

definition lifecycle_new :: "string \<Rightarrow> u64 \<Rightarrow> shell_lifecycle" where
  "lifecycle_new nonce generation = new_with_capabilities nonce generation ''unknown'' False"

definition is_editing :: "shell_lifecycle \<Rightarrow> bool" where
  "is_editing s \<longleftrightarrow> sl_state s = Editing"

definition state_event :: "lifecycle_state \<Rightarrow> lifecycle_event" where
  "state_event st = \<lparr> le_state = st, le_command = None, le_exit_code = None \<rparr>"

definition lifecycle_reset :: "shell_lifecycle \<Rightarrow> shell_lifecycle \<times> lifecycle_event" where
  "lifecycle_reset s =
     (s\<lparr>sl_marker := None, sl_pending_prefix := [], sl_state := Unverified\<rparr>, state_event Unverified)"

section \<open>Markers\<close>

definition parse_i32 :: "string \<Rightarrow> int option" where
  "parse_i32 s =
     (let (neg, ds) = (case s of
          c # cs \<Rightarrow> if c = CHR ''-'' then (True, cs) else if c = CHR ''+'' then (False, cs) else (False, s)
        | [] \<Rightarrow> (False, []))
      in if ds = [] \<or> \<not> list_all is_ascii_digit ds then None
         else let v = (if neg then - int (digits_value ds) else int (digits_value ds)) in
           if - (2 ^ 31) \<le> v \<and> v < 2 ^ 31 then Some v else None)"

definition parse_exit_status :: "string \<Rightarrow> int option" where
  "parse_exit_status value =
     (case parse_i32 value of
        None \<Rightarrow> None
      | Some status \<Rightarrow> if - MAX_EXIT_STATUS \<le> status \<and> status \<le> MAX_EXIT_STATUS then Some status else None)"

definition nonce_valid :: "shell_lifecycle \<Rightarrow> string option \<Rightarrow> bool" where
  "nonce_valid s candidate = (case candidate of Some value \<Rightarrow> sl_nonce s = value | None \<Rightarrow> False)"

type_synonym base64 = "string \<Rightarrow> string option"

definition rejected_marker :: "shell_lifecycle \<Rightarrow> bool \<times> lifecycle_event list \<times> shell_lifecycle" where
  "rejected_marker s = (case lifecycle_reset s of (s', e) \<Rightarrow> (False, [e], s'))"

text \<open>The command of an \<open>E\<close> marker: base64 of UTF-8 text of a bounded length.\<close>

definition decode_command :: "base64 \<Rightarrow> string \<Rightarrow> string option" where
  "decode_command b64 field =
     (case b64 field of
        Some text \<Rightarrow> if is_utf8 text \<and> length text \<le> MARKER_MAX then Some text else None
      | None \<Rightarrow> None)"

definition handle_command :: "base64 \<Rightarrow> shell_lifecycle \<Rightarrow> string list \<Rightarrow> bool \<times> lifecycle_event list \<times> shell_lifecycle" where
  "handle_command b64 s parts =
     (case parts of
        [field, nonce] \<Rightarrow>
          (case decode_command b64 field of
             Some command \<Rightarrow>
               if nonce_valid s (Some nonce)
               then (True, [\<lparr> le_state = Submitted, le_command = Some command, le_exit_code = None \<rparr>],
                     s\<lparr>sl_state := Submitted\<rparr>)
               else rejected_marker s
           | None \<Rightarrow> rejected_marker s)
      | _ \<Rightarrow> rejected_marker s)"

text \<open>The guards of a \<open>D\<close> marker after its fields are read; \<open>n\<close> is the number of fields.\<close>

definition finish_command ::
  "shell_lifecycle \<Rightarrow> nat \<Rightarrow> int option \<Rightarrow> string \<Rightarrow> bool \<times> lifecycle_event list \<times> shell_lifecycle" where
  "finish_command s n exit_code nonce =
     (if \<not> nonce_valid s (Some nonce) \<or> (n = 2 \<and> (\<not> sl_supports_exit_status s \<or> exit_code = None))
      then rejected_marker s
      else if sl_state s \<notin> {Prompt, Editing, Submitted, Opaque} then rejected_marker s
      else if sl_state s \<noteq> Opaque then (case lifecycle_reset s of (s', e) \<Rightarrow> (True, [e], s'))
      else (True, [\<lparr> le_state = Finished, le_command = None, le_exit_code = exit_code \<rparr>],
            s\<lparr>sl_state := Finished\<rparr>))"

definition handle_done :: "shell_lifecycle \<Rightarrow> string list \<Rightarrow> bool \<times> lifecycle_event list \<times> shell_lifecycle" where
  "handle_done s parts =
     (case parts of
        [nonce] \<Rightarrow> finish_command s 1 None nonce
      | [status, nonce] \<Rightarrow> finish_command s 2 (parse_exit_status status) nonce
      | _ \<Rightarrow> rejected_marker s)"

text \<open>
  \<open>handle\<close>: whether the marker is accepted, the events it gives and the new state. A marker with
  one field beside its kind is accepted when the field is the nonce and the state is right.
\<close>

definition handle :: "base64 \<Rightarrow> shell_lifecycle \<Rightarrow> string \<Rightarrow> bool \<times> lifecycle_event list \<times> shell_lifecycle" where
  "handle b64 s marker =
     (if \<not> is_utf8 marker then rejected_marker s
      else case split_on (CHR '';'') marker of
        [] \<Rightarrow> rejected_marker s
      | kind # parts \<Rightarrow>
          let trusted = (length parts = 1 \<and> nonce_valid s (Some (hd parts))) in
          if kind = ''A'' \<and> trusted \<and> sl_state s \<in> {Unverified, Finished}
          then (True, [], s\<lparr>sl_state := Prompt\<rparr>)
          else if kind = ''B'' \<and> trusted \<and> sl_state s = Prompt
          then (True, [state_event Editing], s\<lparr>sl_state := Editing\<rparr>)
          else if kind = ''E'' \<and> sl_state s = Editing then handle_command b64 s parts
          else if kind = ''C'' \<and> trusted \<and> sl_state s = Submitted
          then (True, [state_event Opaque], s\<lparr>sl_state := Opaque\<rparr>)
          else if kind = ''D'' then handle_done s parts
          else rejected_marker s)"

section \<open>The stream\<close>

text \<open>
  The inner loop on the bytes that may start a marker: bytes that cannot are passed on. The
  result has the visible bytes, what remains pending, and whether a marker starts.
\<close>

fun drain_prefix :: "string \<Rightarrow> string \<times> string \<times> bool" where
  "drain_prefix p =
     (if starts_with p MARKER_PREFIX then
        (if length p = length MARKER_PREFIX then ([], [], True) else ([], p, False))
      else case p of
        [] \<Rightarrow> ([], [], False)
      | b # p' \<Rightarrow>
          if p' = [] then ([b], [], False)
          else case drain_prefix p' of (visible, rest, starts) \<Rightarrow> (b # visible, rest, starts))"

declare drain_prefix.simps [simp del]

text \<open>What a finished marker shows: nothing when it is accepted, all its bytes otherwise.\<close>

definition finish_marker ::
  "base64 \<Rightarrow> shell_lifecycle \<Rightarrow> string \<Rightarrow> string \<Rightarrow> string \<times> lifecycle_event list \<times> shell_lifecycle" where
  "finish_marker b64 s marker terminator =
     (case handle b64 (s\<lparr>sl_marker := None\<rparr>) marker of (valid, events, s') \<Rightarrow>
        (if valid then [] else MARKER_PREFIX @ marker @ terminator, events, s'))"

definition push_marker :: "shell_lifecycle \<Rightarrow> string \<Rightarrow> char \<Rightarrow> string \<times> lifecycle_event list \<times> shell_lifecycle" where
  "push_marker s marker byte =
     (let marker' = marker @ [byte] in
      if MARKER_MAX < length marker' then
        (case lifecycle_reset s of (s', e) \<Rightarrow> (MARKER_PREFIX @ marker', [e], s'))
      else ([], [], s\<lparr>sl_marker := Some marker'\<rparr>))"

definition push_prefix :: "shell_lifecycle \<Rightarrow> char \<Rightarrow> string \<times> lifecycle_event list \<times> shell_lifecycle" where
  "push_prefix s byte =
     (case drain_prefix (sl_pending_prefix s @ [byte]) of (visible, rest, starts) \<Rightarrow>
        (visible, [], s\<lparr>sl_pending_prefix := rest, sl_marker := (if starts then Some [] else sl_marker s)\<rparr>))"

text \<open>One iteration of the loop; the flag says that a second byte, the backslash, is consumed.\<close>

definition feed_byte ::
  "base64 \<Rightarrow> shell_lifecycle \<Rightarrow> char \<Rightarrow> string \<Rightarrow> (string \<times> lifecycle_event list \<times> shell_lifecycle) \<times> bool" where
  "feed_byte b64 s byte input =
     (case sl_marker s of
        Some marker \<Rightarrow>
          if byte = BEL then (finish_marker b64 s marker [byte], False)
          else if byte = ESC \<and> starts_with [BACKSLASH] input
          then (finish_marker b64 s marker [ESC, BACKSLASH], True)
          else (push_marker s marker byte, False)
      | None \<Rightarrow> (push_prefix s byte, False))"

function feed_visible :: "base64 \<Rightarrow> shell_lifecycle \<Rightarrow> string \<Rightarrow> string \<times> lifecycle_event list \<times> shell_lifecycle" where
  "feed_visible b64 s [] = ([], [], s)"
| "feed_visible b64 s (byte # input) =
     (case feed_byte b64 s byte input of ((visible, events, s'), second) \<Rightarrow>
        case feed_visible b64 s' (if second then drop 1 input else input) of (visible', events', s'') \<Rightarrow>
          (visible @ visible', events @ events', s''))"
  by pat_completeness auto
termination
  by (relation "measure (\<lambda>(_, _, input). length input)") auto

definition feed :: "base64 \<Rightarrow> shell_lifecycle \<Rightarrow> string \<Rightarrow> lifecycle_event list \<times> shell_lifecycle" where
  "feed b64 s input = snd (feed_visible b64 s input)"

definition observe_alternate_buffer :: "shell_lifecycle \<Rightarrow> string \<Rightarrow> lifecycle_event option \<times> shell_lifecycle" where
  "observe_alternate_buffer s input =
     (if contains_str ALT_BUFFER_ENTER input
      then (case lifecycle_reset s of (s', e) \<Rightarrow> (Some e, s'))
      else (None, s))"

text \<open>What the reader thread does with a chunk (\<open>pty/manager.rs\<close>).\<close>

definition observe_chunk :: "base64 \<Rightarrow> shell_lifecycle \<Rightarrow> string \<Rightarrow> string \<times> lifecycle_event list \<times> shell_lifecycle" where
  "observe_chunk b64 s data =
     (case observe_alternate_buffer s data of (alternate, s1) \<Rightarrow>
        case feed_visible b64 s1 data of (visible, events, s2) \<Rightarrow>
          (visible, (case alternate of Some e \<Rightarrow> e # events | None \<Rightarrow> events), s2))"

end
