(* ===== verification/Shell_Lifecycle_Safety.thy ===== *)
theory Shell_Lifecycle_Safety
  imports Shell_Lifecycle
begin

text \<open>
  What the lifecycle observer guarantees of the output of a terminal. The interface
  \<open>stream_law\<close> lifts a law of one iteration of the loop to whole inputs; it is interpreted on the
  conservation of the bytes and on the order of the events.
\<close>

section \<open>The invariant\<close>

definition held :: "shell_lifecycle \<Rightarrow> string" where
  "held s = (case sl_marker s of Some m \<Rightarrow> MARKER_PREFIX @ m | None \<Rightarrow> sl_pending_prefix s)"

definition observer_wf :: "shell_lifecycle \<Rightarrow> bool" where
  "observer_wf s \<longleftrightarrow>
     (case sl_marker s of
        Some m \<Rightarrow> sl_pending_prefix s = [] \<and> length m \<le> MARKER_MAX
      | None \<Rightarrow> starts_with (sl_pending_prefix s) MARKER_PREFIX
               \<and> length (sl_pending_prefix s) < length MARKER_PREFIX)"

lemma length_MARKER_PREFIX [simp]: "length MARKER_PREFIX = 6"
  by (simp add: MARKER_PREFIX_def)

lemma starts_with_Nil [simp]: "starts_with [] p"
  by (simp add: starts_with_def)

lemma observer_wf_idle: "sl_marker s = None \<Longrightarrow> sl_pending_prefix s = [] \<Longrightarrow> observer_wf s"
  by (simp add: observer_wf_def)

lemma lifecycle_reset_simps [simp]:
  "sl_nonce (fst (lifecycle_reset s)) = sl_nonce s"
  "sl_state (fst (lifecycle_reset s)) = Unverified"
  "sl_marker (fst (lifecycle_reset s)) = None"
  "sl_pending_prefix (fst (lifecycle_reset s)) = []"
  "snd (lifecycle_reset s) = state_event Unverified"
  by (simp_all add: lifecycle_reset_def)

section \<open>Laws of the stream\<close>

locale stream_law =
  fixes b64 :: base64
    and law :: "shell_lifecycle \<Rightarrow> string \<Rightarrow> string \<Rightarrow> lifecycle_event list \<Rightarrow> shell_lifecycle \<Rightarrow> bool"
  assumes law_nil: "observer_wf s \<Longrightarrow> law s [] [] [] s"
    and law_append: "law s a v e s1 \<Longrightarrow> law s1 b w f s2 \<Longrightarrow> law s (a @ b) (v @ w) (e @ f) s2"
    and law_byte: "observer_wf s \<Longrightarrow> feed_byte b64 s byte input = ((v, e, s'), second) \<Longrightarrow>
      law s (byte # (if second then [BACKSLASH] else [])) v e s'"

section \<open>One iteration\<close>

lemma drain_prefix_spec:
  assumes "drain_prefix p = (visible, rest, starts)"
  shows "p = visible @ (if starts then MARKER_PREFIX else rest)
    \<and> (starts \<longrightarrow> rest = []) \<and> starts_with rest MARKER_PREFIX \<and> length rest < 6"
  using assms
proof (induction p arbitrary: visible rest starts rule: drain_prefix.induct)
  case (1 p)
  show ?case
  proof (cases "starts_with p MARKER_PREFIX")
    case True
    then have "length p = 6 \<Longrightarrow> p = MARKER_PREFIX" "length p \<le> 6"
      by (auto simp: starts_with_iff) (metis length_MARKER_PREFIX append.right_neutral append_eq_append_conv
        length_append add_cancel_left_right length_0_conv, metis length_MARKER_PREFIX length_append le_add1)
    with True 1(2) show ?thesis
      by (subst (asm) drain_prefix.simps) (auto split: if_splits)
  next
    case False
    then obtain b p' where p: "p = b # p'" by (cases p) auto
    show ?thesis
    proof (cases "p' = []")
      case True
      with 1(2) False p show ?thesis by (subst (asm) drain_prefix.simps) (simp split: if_splits)
    next
      case p': False
      obtain v r t where d: "drain_prefix p' = (v, r, t)" by (cases "drain_prefix p'")
      from False p p' d have "drain_prefix p = (b # v, r, t)" by (subst drain_prefix.simps) simp
      with 1(1) [OF False p p' d] 1(2) p show ?thesis by auto
    qed
  qed
qed

lemma handle_frame:
  assumes "handle b64 s m = (valid, e, s')"
  shows "sl_nonce s' = sl_nonce s"
    and "sl_marker s = None \<Longrightarrow> sl_marker s' = None"
    and "sl_pending_prefix s = [] \<Longrightarrow> sl_pending_prefix s' = []"
  using assms
  by (auto simp: handle_def handle_command_def handle_done_def finish_command_def rejected_marker_def
      lifecycle_reset_def Let_def
      split: if_splits list.splits option.splits)

text \<open>An accepted marker ends with the nonce; a rejected one resets the observer.\<close>

lemma handle_accepted:
  assumes "handle b64 s m = (True, e, s')"
  shows "last (split_on (CHR '';'') m) = sl_nonce s \<and> 2 \<le> length (split_on (CHR '';'') m)"
  using assms
  by (auto simp: handle_def handle_command_def handle_done_def finish_command_def rejected_marker_def
      lifecycle_reset_def Let_def
      nonce_valid_def length_Suc_conv split: if_splits list.splits option.splits)

lemma handle_rejected:
  assumes "handle b64 s m = (False, e, s')"
  shows "e = [state_event Unverified] \<and> sl_state s' = Unverified"
  using assms
  by (auto simp: handle_def handle_command_def handle_done_def finish_command_def rejected_marker_def
      lifecycle_reset_def Let_def
      split: if_splits list.splits option.splits)


lemma push_prefix_spec:
  assumes wf: "observer_wf s" and idle: "sl_marker s = None"
    and step: "push_prefix s byte = (v, e, s')"
  shows "observer_wf s' \<and> held s @ [byte] = v @ held s' \<and> e = []
    \<and> sl_nonce s' = sl_nonce s \<and> sl_state s' = sl_state s"
proof -
  obtain visible rest starts where d: "drain_prefix (sl_pending_prefix s @ [byte]) = (visible, rest, starts)"
    by (cases "drain_prefix (sl_pending_prefix s @ [byte])")
  from drain_prefix_spec [OF d] d step idle show ?thesis
    by (auto simp: push_prefix_def observer_wf_def held_def split: if_splits)
qed

lemma push_marker_spec:
  assumes wf: "observer_wf s" and open_marker: "sl_marker s = Some m"
    and step: "push_marker s m byte = (v, e, s')"
  shows "observer_wf s' \<and> held s @ [byte] = v @ held s' \<and> list_all (\<lambda>x. x = state_event Unverified) e
    \<and> sl_nonce s' = sl_nonce s
    \<and> (sl_state s' = sl_state s \<and> e = [] \<or> sl_state s' = Unverified \<and> e = [state_event Unverified])"
  using assms
  by (auto simp: push_marker_def Let_def lifecycle_reset_def observer_wf_def held_def split: if_splits)

lemma finish_marker_spec:
  assumes wf: "observer_wf s" and open_marker: "sl_marker s = Some m"
    and step: "finish_marker b64 s m t = (v, e, s')"
  obtains valid where "handle b64 (s\<lparr>sl_marker := None\<rparr>) m = (valid, e, s')"
    and "v = (if valid then [] else held s @ t)" and "observer_wf s'" and "held s' = []"
    and "sl_nonce s' = sl_nonce s"
proof -
  obtain valid ev sv where h: "handle b64 (s\<lparr>sl_marker := None\<rparr>) m = (valid, ev, sv)"
    by (cases "handle b64 (s\<lparr>sl_marker := None\<rparr>) m")
  with step have "ev = e" "sv = s'" "v = (if valid then [] else held s @ t)"
    by (auto simp: finish_marker_def held_def open_marker)
  moreover have "sl_marker s' = None" "sl_pending_prefix s' = []" "sl_nonce s' = sl_nonce s"
    using handle_frame [OF h] wf open_marker \<open>sv = s'\<close> by (auto simp: observer_wf_def)
  ultimately show thesis using that h by (simp add: observer_wf_idle held_def)
qed

text \<open>The three things an iteration can do.\<close>

lemma feed_byte_cases:
  assumes wf: "observer_wf s" and step: "feed_byte b64 s byte input = ((v, e, s'), second)"
  obtains (Idle) "sl_marker s = None" "push_prefix s byte = (v, e, s')" "\<not> second"
  | (Inside) m where "sl_marker s = Some m" "push_marker s m byte = (v, e, s')" "\<not> second"
  | (Bel) m where "sl_marker s = Some m" "finish_marker b64 s m [byte] = (v, e, s')" "\<not> second" "byte = BEL"
  | (St) m where "sl_marker s = Some m" "finish_marker b64 s m [ESC, BACKSLASH] = (v, e, s')" "second"
      "byte = ESC" "starts_with [BACKSLASH] input"
  using step by (auto simp: feed_byte_def split: option.splits if_splits)

lemma feed_byte_wf:
  assumes wf: "observer_wf s" and step: "feed_byte b64 s byte input = ((v, e, s'), second)"
  shows "observer_wf s'"
  using wf step
proof (cases rule: feed_byte_cases)
  case Idle
  then show ?thesis using push_prefix_spec [OF wf] by blast
next
  case (Inside m)
  then show ?thesis using push_marker_spec [OF wf] by blast
next
  case (Bel m)
  then show ?thesis using finish_marker_spec [OF wf] by blast
next
  case (St m)
  then show ?thesis using finish_marker_spec [OF wf] by blast
qed

context stream_law
begin

lemma law_feed:
  assumes "observer_wf s" and "feed_visible b64 s input = (v, e, s')"
  shows "law s input v e s'"
  using assms
proof (induction input arbitrary: s v e s' rule: length_induct)
  case (1 input)
  show ?case
  proof (cases input)
    case Nil
    with 1 law_nil show ?thesis by simp
  next
    case (Cons byte rest)
    obtain v1 e1 s1 second where step: "feed_byte b64 s byte rest = ((v1, e1, s1), second)"
      by (metis prod_cases3 prod.exhaust)
    obtain v2 e2 s2 where more: "feed_visible b64 s1 (if second then drop 1 rest else rest) = (v2, e2, s2)"
      by (metis prod_cases3)
    have out: "v = v1 @ v2" "e = e1 @ e2" "s' = s2"
      using 1(3) Cons step more by auto
    have "rest = (if second then [BACKSLASH] else []) @ (if second then drop 1 rest else rest)"
      by (cases rule: feed_byte_cases [OF 1(2) step]) (auto simp: starts_with_iff)
    then have split: "input = (byte # (if second then [BACKSLASH] else [])) @ (if second then drop 1 rest else rest)"
      using Cons by simp
    have "length (if second then drop 1 rest else rest) < length input" using Cons by auto
    with 1(1) feed_byte_wf [OF 1(2) step] more
    have "law s1 (if second then drop 1 rest else rest) v2 e2 s2" by blast
    from law_append [OF law_byte [OF 1(2) step] this] show ?thesis unfolding out split by blast
  qed
qed

end


section \<open>Conservation of the output\<close>

text \<open>A stretch of the output: shown as it is, or a marker that was taken out.\<close>

datatype segment = Shown string | Taken string string

fun segment_bytes :: "segment \<Rightarrow> string" where
  "segment_bytes (Shown b) = b"
| "segment_bytes (Taken m t) = MARKER_PREFIX @ m @ t"

fun segment_visible :: "segment \<Rightarrow> string" where
  "segment_visible (Shown b) = b"
| "segment_visible (Taken m t) = []"

fun is_shown :: "segment \<Rightarrow> bool" where
  "is_shown (Shown b) = True"
| "is_shown (Taken m t) = False"

text \<open>Only a marker that ends with the nonce of the session is taken out.\<close>

fun segment_trusted :: "string \<Rightarrow> segment \<Rightarrow> bool" where
  "segment_trusted nonce (Shown b) = True"
| "segment_trusted nonce (Taken m t) =
     (last (split_on (CHR '';'') m) = nonce \<and> 2 \<le> length (split_on (CHR '';'') m)
      \<and> t \<in> {[BEL], [ESC, BACKSLASH]})"

definition explains :: "segment list \<Rightarrow> shell_lifecycle \<Rightarrow> string \<Rightarrow> string \<Rightarrow> lifecycle_event list \<Rightarrow> shell_lifecycle \<Rightarrow> bool" where
  "explains segs s input v e s' \<longleftrightarrow>
     held s @ input = concat (map segment_bytes segs) @ held s' \<and> v = concat (map segment_visible segs)
     \<and> list_all (segment_trusted (sl_nonce s)) segs \<and> sl_nonce s' = sl_nonce s
     \<and> (list_all is_shown segs \<longrightarrow>
          list_all (\<lambda>x. x = state_event Unverified) e \<and> sl_state s' \<in> {sl_state s, Unverified})"

definition conserved :: "shell_lifecycle \<Rightarrow> string \<Rightarrow> string \<Rightarrow> lifecycle_event list \<Rightarrow> shell_lifecycle \<Rightarrow> bool" where
  "conserved s input v e s' \<longleftrightarrow> observer_wf s' \<and> (\<exists>segs. explains segs s input v e s')"

lemma explains_append:
  "explains xs s a v e s1 \<Longrightarrow> explains ys s1 b w f s2 \<Longrightarrow> explains (xs @ ys) s (a @ b) (v @ w) (e @ f) s2"
proof -
  assume x: "explains xs s a v e s1" and y: "explains ys s1 b w f s2"
  then have "held s @ a @ b = (concat (map segment_bytes xs) @ concat (map segment_bytes ys)) @ held s2"
    unfolding explains_def by (metis append_assoc)
  with x y show ?thesis by (auto simp: explains_def)
qed

lemma explains_finish:
  assumes wf: "observer_wf s" and m: "sl_marker s = Some m" and t: "t \<in> {[BEL], [ESC, BACKSLASH]}"
    and step: "finish_marker b64 s m t = (v, e, s')"
  shows "conserved s t v e s'"
proof -
  obtain valid where h: "handle b64 (s\<lparr>sl_marker := None\<rparr>) m = (valid, e, s')"
    and v: "v = (if valid then [] else held s @ t)" and s': "observer_wf s'" "held s' = []" "sl_nonce s' = sl_nonce s"
    using finish_marker_spec [OF wf m step] by blast
  have "explains [if valid then Taken m t else Shown (held s @ t)] s t v e s'"
  proof (cases valid)
    case True
    with h handle_accepted have "segment_trusted (sl_nonce s) (Taken m t)" using t by fastforce
    with True v s' m show ?thesis by (simp add: explains_def held_def [of s])
  next
    case False
    with h have "e = [state_event Unverified] \<and> sl_state s' = Unverified" using handle_rejected by simp
    with False v s' show ?thesis by (simp add: explains_def)
  qed
  with s' show ?thesis unfolding conserved_def by blast
qed

interpretation conservation: stream_law b64 conserved for b64
proof
  show "conserved s [] [] [] s" if "observer_wf s" for s
    using that by (auto simp: conserved_def explains_def intro: exI [of _ "[]"])
  show "conserved s (a @ b) (v @ w) (e @ f) s2" if "conserved s a v e s1" "conserved s1 b w f s2" for s a v e s1 b w f s2
    using that explains_append unfolding conserved_def by blast
  show "conserved s (byte # (if second then [BACKSLASH] else [])) v e s'"
    if wf: "observer_wf s" and step: "feed_byte b64 s byte input = ((v, e, s'), second)" for s byte input v e s' second
    using wf step
  proof (cases rule: feed_byte_cases)
    case Idle
    with push_prefix_spec [OF wf, of byte v e s'] have "observer_wf s'" "explains [Shown v] s [byte] v e s'"
      by (simp_all add: explains_def)
    with Idle show ?thesis by (auto simp: conserved_def)
  next
    case (Inside m)
    with push_marker_spec [OF wf, of m byte v e s'] have "observer_wf s'" "explains [Shown v] s [byte] v e s'"
      by (auto simp: explains_def)
    with Inside show ?thesis by (auto simp: conserved_def)
  next
    case (Bel m)
    then show ?thesis using explains_finish [OF wf] by auto
  next
    case (St m)
    then show ?thesis using explains_finish [OF wf] by auto
  qed
qed


section \<open>Order of the events\<close>

text \<open>
  The state an event may announce after the last announced one. A prompt is not announced, so
  editing follows a reset or the end of a command; the other steps of a command follow one another.
\<close>

fun event_follows :: "lifecycle_state \<Rightarrow> lifecycle_state \<Rightarrow> bool" where
  "event_follows p Unverified = True"
| "event_follows p Prompt = False"
| "event_follows p Editing = (p \<in> {Unverified, Finished})"
| "event_follows p Submitted = (p = Editing)"
| "event_follows p Opaque = (p = Submitted)"
| "event_follows p Finished = (p = Opaque)"

definition event_wf :: "lifecycle_event \<Rightarrow> bool" where
  "event_wf x \<longleftrightarrow>
     (le_command x \<noteq> None \<longleftrightarrow> le_state x = Submitted)
     \<and> (\<forall>c. le_command x = Some c \<longrightarrow> is_utf8 c \<and> length c \<le> MARKER_MAX)
     \<and> (\<forall>status. le_exit_code x = Some status \<longrightarrow> le_state x = Finished \<and> \<bar>status\<bar> \<le> MAX_EXIT_STATUS)"

fun events_ordered :: "lifecycle_state \<Rightarrow> lifecycle_event list \<Rightarrow> bool" where
  "events_ordered p [] = True"
| "events_ordered p (x # xs) = (event_follows p (le_state x) \<and> event_wf x \<and> events_ordered (le_state x) xs)"

definition announced :: "lifecycle_state \<Rightarrow> lifecycle_event list \<Rightarrow> lifecycle_state" where
  "announced p e = last (p # map le_state e)"

text \<open>The state of the observer is the announced one, or a prompt after it.\<close>

definition agrees :: "lifecycle_state \<Rightarrow> lifecycle_state \<Rightarrow> bool" where
  "agrees p st \<longleftrightarrow> (if st = Prompt then p \<in> {Unverified, Finished} else p = st)"

definition in_order :: "shell_lifecycle \<Rightarrow> string \<Rightarrow> string \<Rightarrow> lifecycle_event list \<Rightarrow> shell_lifecycle \<Rightarrow> bool" where
  "in_order s input v e s' \<longleftrightarrow>
     (\<forall>p. agrees p (sl_state s) \<longrightarrow> events_ordered p e \<and> agrees (announced p e) (sl_state s'))"

lemma announced_simps [simp]:
  "announced p [] = p" "announced p (x # xs) = announced (le_state x) xs"
  "announced p (a @ b) = announced (announced p a) b"
  by (auto simp: announced_def)

lemma events_ordered_append:
  "events_ordered p (a @ b) \<longleftrightarrow> events_ordered p a \<and> events_ordered (announced p a) b"
  by (induction a arbitrary: p) auto

lemma state_event_sel [simp]:
  "le_state (state_event st) = st" "event_wf (state_event st) \<longleftrightarrow> st \<noteq> Submitted"
  by (auto simp: state_event_def event_wf_def)

lemma in_order_reset: "sl_state s' = Unverified \<Longrightarrow> in_order s i v [state_event Unverified] s'"
  by (simp add: in_order_def agrees_def)

lemma in_order_same: "sl_state s' = sl_state s \<Longrightarrow> in_order s i v [] s'"
  by (simp add: in_order_def)

lemma parse_exit_status_bounds: "parse_exit_status t = Some n \<Longrightarrow> \<bar>n\<bar> \<le> MAX_EXIT_STATUS"
  by (auto simp: parse_exit_status_def split: option.splits if_splits)

lemma decode_command_spec: "decode_command b64 f = Some c \<Longrightarrow> is_utf8 c \<and> length c \<le> MARKER_MAX"
  by (auto simp: decode_command_def split: option.splits if_splits)

lemma handle_command_in_order:
  "sl_state s = Editing \<Longrightarrow> handle_command b64 s parts = (valid, e, s') \<Longrightarrow> in_order s i v e s'"
  by (auto simp: handle_command_def rejected_marker_def lifecycle_reset_def in_order_def agrees_def event_wf_def
      state_event_def dest: decode_command_spec split: list.splits option.splits if_splits)

lemma finish_command_in_order:
  assumes "finish_command s n code nonce = (valid, e, s')" "\<And>c. code = Some c \<Longrightarrow> \<bar>c\<bar> \<le> MAX_EXIT_STATUS"
  shows "in_order s i v e s'"
  using assms
  by (auto simp: finish_command_def rejected_marker_def lifecycle_reset_def in_order_def agrees_def event_wf_def
      state_event_def split: if_splits)

lemma handle_done_in_order: "handle_done s parts = (valid, e, s') \<Longrightarrow> in_order s i v e s'"
  by (auto simp: handle_done_def rejected_marker_def lifecycle_reset_def
      intro: finish_command_in_order in_order_reset dest: parse_exit_status_bounds split: list.splits)

lemma handle_in_order:
  assumes "handle b64 s m = (valid, e, s')"
  shows "in_order s i v e s'"
proof -
  obtain kind parts where ps: "split_on (CHR '';'') m = kind # parts"
    using split_on_nonempty by (metis list.exhaust)
  show ?thesis
    using assms unfolding handle_def ps
    by (auto simp: Let_def rejected_marker_def lifecycle_reset_def
        intro: handle_command_in_order handle_done_in_order split: if_splits)
      (auto simp: in_order_def agrees_def)
qed

interpretation order: stream_law b64 in_order for b64
proof
  show "in_order s [] [] [] s" for s by (simp add: in_order_same)
  show "in_order s (a @ b) (v @ w) (e @ f) s2" if "in_order s a v e s1" "in_order s1 b w f s2" for s a v e s1 b w f s2
    using that by (simp add: in_order_def events_ordered_append)
  show "in_order s (byte # (if second then [BACKSLASH] else [])) v e s'"
    if wf: "observer_wf s" and step: "feed_byte b64 s byte input = ((v, e, s'), second)" for s byte input v e s' second
    using wf step
  proof (cases rule: feed_byte_cases)
    case Idle
    with push_prefix_spec [OF wf, of byte v e s'] show ?thesis by (simp add: in_order_same)
  next
    case (Inside m)
    with push_marker_spec [OF wf, of m byte v e s'] show ?thesis by (auto intro: in_order_same in_order_reset)
  next
    case (Bel m)
    with wf obtain valid where "handle b64 (s\<lparr>sl_marker := None\<rparr>) m = (valid, e, s')"
      using finish_marker_spec by blast
    from handle_in_order [OF this] show ?thesis by (simp add: in_order_def)
  next
    case (St m)
    with wf obtain valid where "handle b64 (s\<lparr>sl_marker := None\<rparr>) m = (valid, e, s')"
      using finish_marker_spec by blast
    from handle_in_order [OF this] show ?thesis by (simp add: in_order_def)
  qed
qed


section \<open>Chunks\<close>

text \<open>The reader thread passes the output on in chunks.\<close>

fun feed_chunks :: "base64 \<Rightarrow> shell_lifecycle \<Rightarrow> string list \<Rightarrow> string \<times> lifecycle_event list \<times> shell_lifecycle" where
  "feed_chunks b64 s [] = ([], [], s)"
| "feed_chunks b64 s (c # cs) =
     (case feed_visible b64 s c of (v, e, s') \<Rightarrow>
        case feed_chunks b64 s' cs of (w, f, s'') \<Rightarrow> (v @ w, e @ f, s''))"








section \<open>A trusted marker\<close>

definition plain_byte :: "char \<Rightarrow> bool" where
  "plain_byte c \<longleftrightarrow> c \<noteq> ESC \<and> c \<noteq> BEL"

lemma feed_body:
  assumes "sl_marker s = Some m" "list_all plain_byte body" "length m + length body \<le> MARKER_MAX"
  shows "feed_visible b64 s (body @ rest) = feed_visible b64 (s\<lparr>sl_marker := Some (m @ body)\<rparr>) rest"
  using assms
proof (induction body arbitrary: s m)
  case Nil
  then show ?case by (cases s) simp
next
  case (Cons c body)
  from Cons.prems have "feed_byte b64 s c (body @ rest) = (([], [], s\<lparr>sl_marker := Some (m @ [c])\<rparr>), False)"
    by (simp add: feed_byte_def push_marker_def plain_byte_def)
  with Cons.IH [of "s\<lparr>sl_marker := Some (m @ [c])\<rparr>" "m @ [c]"] Cons.prems show ?case
    by (simp split: prod.splits)
qed

lemma feed_prefix:
  assumes "sl_marker s = None" "sl_pending_prefix s = []"
  shows "feed_visible b64 s (MARKER_PREFIX @ rest) = feed_visible b64 (s\<lparr>sl_marker := Some []\<rparr>) rest"
proof -
  obtain v e s' where r: "feed_visible b64 (s\<lparr>sl_marker := Some []\<rparr>) rest = (v, e, s')"
    by (metis prod_cases3)
  have p: "drain_prefix (take n MARKER_PREFIX) = (if n = 6 then ([], [], True) else ([], take n MARKER_PREFIX, False))"
    if "n \<le> 6" for n
    using that by (subst drain_prefix.simps) (auto simp: starts_with_def)
  note p1 = p [of 1, simplified MARKER_PREFIX_def, simplified]
    and p2 = p [of 2, simplified MARKER_PREFIX_def, simplified]
    and p3 = p [of 3, simplified MARKER_PREFIX_def, simplified]
    and p4 = p [of 4, simplified MARKER_PREFIX_def, simplified]
    and p5 = p [of 5, simplified MARKER_PREFIX_def, simplified]
    and p6 = p [of 6, simplified MARKER_PREFIX_def, simplified]
  from r assms show ?thesis
    by (cases s) (simp add: MARKER_PREFIX_def feed_byte_def push_prefix_def p1 p2 p3 p4 p5 p6)
qed

lemma feed_terminator:
  assumes "sl_marker s = Some m" "t \<in> {[BEL], [ESC, BACKSLASH]}"
  shows "feed_visible b64 s t = finish_marker b64 s m t"
  using assms by (auto simp: feed_byte_def starts_with_def BEL_def ESC_def split: prod.splits)

text \<open>The nonces of the sessions are text without separators or control bytes.\<close>

definition nonce_wf :: "string \<Rightarrow> bool" where
  "nonce_wf n \<longleftrightarrow> list_all (\<lambda>c. is_ascii_alphanumeric c \<or> c = CHR ''-'' \<or> c = CHR ''_'') n
     \<and> length n \<le> 128"

section \<open>Properties\<close>






lemma contains_str_iff: "contains_str p s \<longleftrightarrow> (\<exists>a b. s = a @ p @ b)"
proof
  assume "contains_str p s"
  then obtain n where "starts_with p (drop n s)" unfolding contains_str_def list_ex_iff by blast
  then show "\<exists>a b. s = a @ p @ b" by (metis append_take_drop_id starts_with_iff)
next
  assume "\<exists>a b. s = a @ p @ b"
  then obtain a b where "s = a @ p @ b" by blast
  then show "contains_str p s"
    by (auto simp: contains_str_def list_ex_iff starts_with_iff intro!: bexI [of _ "length a"])
qed

lemma join_with_last: "xs \<noteq> [] \<Longrightarrow> \<exists>a. join_with c xs = a @ last xs"
proof (induction xs)
  case Nil
  then show ?case by simp
next
  case (Cons x xs)
  show ?case
  proof (cases "xs = []")
    case False
    with Cons.IH obtain a where "join_with c xs = a @ last xs" by blast
    with False show ?thesis by (intro exI [of _ "x @ c # a"]) (simp add: join_with_Cons)
  qed simp
qed

lemma taken_contains_nonce: "segment_trusted nonce (Taken m t) \<Longrightarrow> contains_str nonce (segment_bytes (Taken m t))"
  using join_with_last [of "split_on (CHR '';'') m" "CHR '';''"] by (auto simp: contains_str_iff) (metis append.assoc)+

lemma untrusted_segments:
  assumes "list_all (segment_trusted nonce) segs" "\<not> contains_str nonce (concat (map segment_bytes segs) @ r)"
  shows "list_all is_shown segs \<and> concat (map segment_visible segs) = concat (map segment_bytes segs)"
  using assms
proof (induction segs)
  case Nil
  then show ?case by simp
next
  case (Cons x xs)
  have "\<not> contains_str nonce (segment_bytes x)" "\<not> contains_str nonce (concat (map segment_bytes xs) @ r)"
    using Cons.prems(2) by (auto simp: contains_str_iff) (metis append.assoc)+
  with Cons taken_contains_nonce [of nonce] show ?case by (cases x) auto
qed



text \<open>
  The events of a session: the reader thread observes the chunks one after another
  (\<open>observe_chunk\<close>), each in the state the last one left.
\<close>

fun session_events :: "base64 \<Rightarrow> shell_lifecycle \<Rightarrow> string list \<Rightarrow> lifecycle_event list" where
  "session_events b64 s [] = []"
| "session_events b64 s (c # cs) =
     (case observe_chunk b64 s c of (visible, events, s') \<Rightarrow> events @ session_events b64 s' cs)"

lemma observe_chunk_in_order:
  assumes "observer_wf s" and "observe_chunk b64 s c = (v, e, s')"
  shows "observer_wf s' \<and> in_order s c v e s'"
proof -
  obtain alternate s1 where alt: "observe_alternate_buffer s c = (alternate, s1)" by fastforce
  obtain v2 e2 s2 where fed: "feed_visible b64 s1 c = (v2, e2, s2)" by (metis prod_cases3)
  have wf1: "observer_wf s1" using alt assms(1)
    by (auto simp: observe_alternate_buffer_def lifecycle_reset_def observer_wf_def split: if_splits)
  then have wf2: "observer_wf s2" using conservation.law_feed [OF _ fed] by (simp add: conserved_def)
  have "in_order s1 c v2 e2 s2" using order.law_feed [OF wf1 fed] .
  moreover have "alternate = None \<and> s1 = s \<or>
      alternate = Some (state_event Unverified) \<and> sl_state s1 = Unverified"
    using alt by (auto simp: observe_alternate_buffer_def lifecycle_reset_def split: if_splits)
  moreover have "s' = s2" "e = (case alternate of Some x \<Rightarrow> x # e2 | None \<Rightarrow> e2)"
    using assms(2) alt fed by (simp_all add: observe_chunk_def)
  ultimately show ?thesis using wf2 by (auto simp: in_order_def agrees_def)
qed

lemma session_events_ordered:
  assumes "observer_wf s" and "agrees p (sl_state s)"
  shows "events_ordered p (session_events b64 s cs)"
  using assms
proof (induction cs arbitrary: s p)
  case (Cons c cs)
  obtain v e s' where obs: "observe_chunk b64 s c = (v, e, s')" by (metis prod_cases3)
  from observe_chunk_in_order [OF Cons.prems(1) obs] Cons.prems(2)
  have "observer_wf s'" "events_ordered p e" "agrees (announced p e) (sl_state s')"
    by (simp_all add: in_order_def)
  with Cons.IH [of s' "announced p e"] obs show ?case by (simp add: events_ordered_append)
qed simp

text \<open>
  C33: The events of a session come in the order of the lifecycle, whatever bytes the terminal shows
  and however many chunks the reader thread cuts them into: over all chunks together,
  editing comes after a reset or a finished command, a submission with its command right after editing,
  its execution right after the submission, its end right after the execution, and a reset at any
  time, also when the output enters the alternate screen. Commands are UTF-8 text of bounded length,
  exit codes lie between -255 and 255.
\<close>

theorem lifecycle_events_ordered:
  "events_ordered Unverified
     (session_events b64
        (new_with_capabilities nonce generation adapter_version supports_exit_status) chunks)"
  by (rule session_events_ordered)
    (simp_all add: new_with_capabilities_def observer_wf_def agrees_def)



section \<open>Two losses\<close>

lemma prompt_marker_utf8: "list_all (\<lambda>c. byte_in c 0 0x7F) m \<Longrightarrow> is_utf8 m"
  by (induction m) auto

lemma ascii_ranges: "is_ascii_alphanumeric c \<or> c = CHR ''-'' \<or> c = CHR ''_'' \<Longrightarrow>
    byte_in c 0 0x7F \<and> plain_byte c \<and> c \<noteq> CHR '';''"
  by (auto simp: byte_in_def plain_byte_def ESC_def BEL_def is_ascii_alphanumeric_def is_ascii_alphabetic_def
      is_ascii_digit_def is_ascii_lowercase_def is_ascii_uppercase_def)

lemma nonce_wf_facts:
  assumes "nonce_wf n"
  shows "is_utf8 (''A;'' @ n)" "list_all plain_byte (''A;'' @ n)" "split_on (CHR '';'') (''A;'' @ n) = [''A'', n]"
    "length (''A;'' @ n) + 2 \<le> MARKER_MAX"
proof -
  have all: "byte_in c 0 0x7F \<and> plain_byte c \<and> c \<noteq> CHR '';''" if "c \<in> set n" for c
    using assms that ascii_ranges unfolding nonce_wf_def list_all_iff by blast
  then show "is_utf8 (''A;'' @ n)"
    by (intro prompt_marker_utf8) (auto simp: list_all_iff byte_in_def)
  show "list_all plain_byte (''A;'' @ n)"
    using all by (auto simp: list_all_iff plain_byte_def ESC_def BEL_def)
  have "split_on (CHR '';'') n = [n]" using all by (induction n) auto
  then show "split_on (CHR '';'') (''A;'' @ n) = [''A'', n]" by simp
  show "length (''A;'' @ n) + 2 \<le> MARKER_MAX" using assms by (simp add: nonce_wf_def MARKER_MAX_def)
qed

lemma prompt_accepted:
  assumes "nonce_wf (sl_nonce s)" "sl_state s = Unverified"
  shows "handle b64 s (''A;'' @ sl_nonce s) = (True, [], s\<lparr>sl_state := Prompt\<rparr>)"
  unfolding handle_def nonce_wf_facts(3) [OF assms(1)] using nonce_wf_facts(1) [OF assms(1)] assms(2)
  by (simp add: nonce_valid_def del: is_utf8.simps append.simps)

text \<open>
  A prompt marker that ends with \<open>ESC \\<close> is accepted when it arrives at once, and missed when
  the two bytes arrive in different chunks: the marker stays open with the terminator in it, and
  what follows is held instead of shown.
\<close>

lemma split_terminator_missed:
  fixes nonce version :: string and generation :: u64 and status :: bool
  assumes "nonce_wf nonce"
  defines "s \<equiv> new_with_capabilities nonce generation version status"
    and "marker \<equiv> ''A;'' @ nonce"
  shows "feed_visible b64 s (MARKER_PREFIX @ marker @ [ESC, BACKSLASH]) = ([], [], s\<lparr>sl_state := Prompt\<rparr>)
    \<and> feed_chunks b64 s [MARKER_PREFIX @ marker @ [ESC], [BACKSLASH]]
        = ([], [], s\<lparr>sl_marker := Some (marker @ [ESC, BACKSLASH])\<rparr>)"
proof -
  have s: "sl_marker s = None" "sl_pending_prefix s = []" "sl_nonce s = nonce" "sl_state s = Unverified"
    by (simp_all add: s_def new_with_capabilities_def)
  note m = nonce_wf_facts [OF assms(1), folded marker_def]
  have to_marker: "feed_visible b64 s (MARKER_PREFIX @ marker @ rest)
      = feed_visible b64 (s\<lparr>sl_marker := Some marker\<rparr>) rest" for rest
    using feed_prefix [of s b64 "marker @ rest"] s m
      feed_body [of "s\<lparr>sl_marker := Some []\<rparr>" "[]" marker b64 rest] by simp
  have idle: "s\<lparr>sl_marker := None\<rparr> = s" using s by (cases s) simp
  have "finish_marker b64 (s\<lparr>sl_marker := Some marker\<rparr>) marker [ESC, BACKSLASH] = ([], [], s\<lparr>sl_state := Prompt\<rparr>)"
    using prompt_accepted [of s b64] assms(1) s by (simp add: finish_marker_def idle marker_def)
  then have "feed_visible b64 s (MARKER_PREFIX @ marker @ [ESC, BACKSLASH]) = ([], [], s\<lparr>sl_state := Prompt\<rparr>)"
    using feed_terminator [of "s\<lparr>sl_marker := Some marker\<rparr>" marker "[ESC, BACKSLASH]" b64] to_marker by simp
  moreover have "feed_visible b64 s (MARKER_PREFIX @ marker @ [ESC])
      = ([], [], s\<lparr>sl_marker := Some (marker @ [ESC])\<rparr>)"
    using m by (simp add: to_marker feed_byte_def push_marker_def starts_with_def ESC_def BEL_def)
  moreover have "feed_visible b64 (s\<lparr>sl_marker := Some (marker @ [ESC])\<rparr>) [BACKSLASH]
      = ([], [], s\<lparr>sl_marker := Some (marker @ [ESC, BACKSLASH])\<rparr>)"
    using m by (simp add: feed_byte_def push_marker_def BACKSLASH_def ESC_def BEL_def)
  ultimately show ?thesis by simp
qed

text \<open>
  The reader thread resets the observer before it feeds a chunk that enters the alternate
  buffer. The bytes held at that moment are lost: what is shown or held afterwards does not depend
  on them, and when the chunk does not contain the nonce it is exactly the chunk.
\<close>

lemma alternate_buffer_drops_held_bytes:
  assumes "contains_str ALT_BUFFER_ENTER data" and "observe_chunk b64 s data = (visible, events, s')"
    and "\<not> contains_str (sl_nonce s) data"
  shows "visible @ held s' = data"
proof -
  let ?r = "fst (lifecycle_reset s)"
  obtain v e s2 where r: "feed_visible b64 ?r data = (v, e, s2)" by (metis prod_cases3)
  have wf: "observer_wf ?r" and held: "held ?r = []" by (simp_all add: observer_wf_idle held_def)
  obtain segs where x: "explains segs ?r data v e s2"
    using conservation.law_feed [OF wf r] by (auto simp: conserved_def)
  have "v = visible" "s2 = s'"
    using assms(1,2) r by (auto simp: observe_chunk_def observe_alternate_buffer_def split: prod.splits)
  with x held assms(3) untrusted_segments [of "sl_nonce s" segs "held s2"] show ?thesis
    by (auto simp: explains_def)
qed

end
