(* ===== verification/Tunnel_Manager.thy ===== *)
theory Tunnel_Manager
  imports Text
begin

text \<open>
  The tunnels of the server: \<open>tunnel/manager.rs\<close> with \<open>tunnel/session.rs\<close>, \<open>tunnel/error.rs\<close> and
  \<open>tunnel/driver.rs\<close>. Every definition is a stretch of code that runs under its locks without
  releasing them; \<open>Tunnel_System\<close> interleaves them. What the manager tells its clients and its drivers
  is recorded: the broadcasts in order, and the tunnels whose driver handle has been taken out with
  its stop sender used or dropped, which is what ends a driver.
\<close>

section \<open>Data\<close>

type_synonym uuid = "128 word"

datatype tunnel_status = TunnelStarting | TunnelReady | TunnelFailed | TunnelStopped

record tunnel_session =
  ts_id :: uuid
  ts_port :: u16
  ts_session_id :: "string option"
  ts_incarnation :: "u64 option"
  ts_label :: string
  ts_driver :: string
  ts_status :: tunnel_status
  ts_url :: "string option"
  ts_error :: "string option"
  ts_started_at :: int
  ts_pid :: "u32 option"

datatype tunnel_error =
    BinaryMissingHint string
  | BinaryMissing
  | TunnelNotFound uuid
  | DuplicatePort u16
  | CreationCancelled
  | SpawnFailed string
  | InstallFailed string
  | InstallInProgress
  | TunnelIo string

record driver_handle =
  dh_pid :: "u32 option"
  dh_stop_tx :: bool

datatype driver_event = UrlReady string | Failed string | Exited

datatype tunnel_broadcast =
    BCreated tunnel_session
  | BStopped uuid
  | BReady uuid string
  | BFailed uuid string

record tunnel_manager =
  tm_sessions :: "uuid \<rightharpoonup> tunnel_session"
  tm_handles :: "uuid \<rightharpoonup> driver_handle"
  tm_pending_stops :: "uuid set"
  tm_in_flight_starts :: nat
  tm_disposing :: bool
  tm_installing :: bool
  tm_broadcasts :: "tunnel_broadcast list"
  tm_released :: "uuid set"

definition tunnel_manager_new :: tunnel_manager where
  "tunnel_manager_new =
     \<lparr> tm_sessions = Map.empty, tm_handles = Map.empty, tm_pending_stops = {}, tm_in_flight_starts = 0,
       tm_disposing = False, tm_installing = False, tm_broadcasts = [], tm_released = {} \<rparr>"

definition broadcast :: "tunnel_broadcast \<Rightarrow> tunnel_manager \<Rightarrow> tunnel_manager" where
  "broadcast b m = m\<lparr>tm_broadcasts := tm_broadcasts m @ [b]\<rparr>"

definition release :: "uuid set \<Rightarrow> tunnel_manager \<Rightarrow> tunnel_manager" where
  "release ids m = m\<lparr>tm_released := tm_released m \<union> ids\<rparr>"

section \<open>Installation of the driver\<close>

definition start_install :: "tunnel_manager \<Rightarrow> (tunnel_error + unit) \<times> tunnel_manager" where
  "start_install m =
     (if tm_installing m then (Inl InstallInProgress, m) else (Inr (), m\<lparr>tm_installing := True\<rparr>))"

text \<open>The guard of the installation task is dropped at its end, also when it panics.\<close>

definition install_finished :: "tunnel_manager \<Rightarrow> tunnel_manager" where
  "install_finished m = m\<lparr>tm_installing := False\<rparr>"

section \<open>Creation\<close>

definition new_session ::
  "uuid \<Rightarrow> u16 \<Rightarrow> string \<Rightarrow> (string \<times> u64) option \<Rightarrow> string \<Rightarrow> int \<Rightarrow> tunnel_session" where
  "new_session tid port label owner driver now =
     \<lparr> ts_id = tid, ts_port = port, ts_session_id = map_option fst owner, ts_incarnation = map_option snd owner,
       ts_label = label, ts_driver = driver, ts_status = TunnelStarting, ts_url = None, ts_error = None,
       ts_started_at = now, ts_pid = None \<rparr>"

definition is_active :: "tunnel_session \<Rightarrow> bool" where
  "is_active s \<longleftrightarrow> ts_status s \<in> {TunnelStarting, TunnelReady}"

definition port_taken :: "u16 \<Rightarrow> (uuid \<rightharpoonup> tunnel_session) \<Rightarrow> bool" where
  "port_taken port sessions \<longleftrightarrow> (\<exists>s \<in> ran sessions. ts_port s = port \<and> is_active s)"

text \<open>
  Admission under the lifecycle gate. The guard that counts the start is dropped when the port is
  taken.
\<close>

definition admit :: "tunnel_session \<Rightarrow> tunnel_manager \<Rightarrow> (tunnel_error + unit) \<times> tunnel_manager" where
  "admit s m =
     (if tm_disposing m then (Inl CreationCancelled, m)
      else if port_taken (ts_port s) (tm_sessions m) then (Inl (DuplicatePort (ts_port s)), m)
      else (Inr (), m\<lparr>tm_sessions := (tm_sessions m)(ts_id s \<mapsto> s),
                      tm_in_flight_starts := tm_in_flight_starts m + 1\<rparr>))"

definition finish_start :: "tunnel_manager \<Rightarrow> tunnel_manager" where
  "finish_start m = m\<lparr>tm_in_flight_starts := tm_in_flight_starts m - 1\<rparr>"

text \<open>The driver did not start.\<close>

definition start_failed :: "uuid \<Rightarrow> tunnel_manager \<Rightarrow> tunnel_manager" where
  "start_failed tid m =
     finish_start (m\<lparr>tm_pending_stops := tm_pending_stops m - {tid}, tm_sessions := (tm_sessions m)(tid := None)\<rparr>)"

text \<open>
  The driver started: a stop request that came first is honoured, otherwise the handle is installed.
  The result says whether the tunnel is published.
\<close>

definition start_returned :: "uuid \<Rightarrow> driver_handle \<Rightarrow> tunnel_manager \<Rightarrow> bool \<times> tunnel_manager" where
  "start_returned tid handle m =
     (if tid \<in> tm_pending_stops m then
        (False, finish_start (release {tid}
           (m\<lparr>tm_pending_stops := tm_pending_stops m - {tid}, tm_sessions := (tm_sessions m)(tid := None)\<rparr>)))
      else
        (True, m\<lparr>tm_handles := (tm_handles m)(tid \<mapsto> handle),
                 tm_sessions := (case (dh_pid handle, tm_sessions m tid) of
                     (Some p, Some s) \<Rightarrow> (tm_sessions m)(tid \<mapsto> s\<lparr>ts_pid := Some p\<rparr>)
                   | _ \<Rightarrow> tm_sessions m)\<rparr>))"

text \<open>The rest of \<open>create_for_owner\<close> after the locks are released.\<close>

definition announce_created :: "tunnel_session \<Rightarrow> u32 option \<Rightarrow> tunnel_manager \<Rightarrow> tunnel_manager" where
  "announce_created session pid m = finish_start (broadcast (BCreated (session\<lparr>ts_pid := pid\<rparr>)) m)"

section \<open>Stopping\<close>

definition tunnel_stop :: "uuid \<Rightarrow> tunnel_manager \<Rightarrow> (tunnel_error + unit) \<times> tunnel_manager" where
  "tunnel_stop tid m =
     (let had_handle = tm_handles m tid \<noteq> None; removed_session = tm_sessions m tid \<noteq> None in
      if \<not> removed_session \<and> \<not> had_handle then
        (if tid \<in> tm_pending_stops m then Inr () else Inl (TunnelNotFound tid), m)
      else
        (Inr (), broadcast (BStopped tid)
           (release (if had_handle then {tid} else {})
             (m\<lparr>tm_handles := (tm_handles m)(tid := None), tm_sessions := (tm_sessions m)(tid := None),
                tm_pending_stops := (if \<not> had_handle \<and> removed_session then insert tid (tm_pending_stops m)
                                     else tm_pending_stops m - {tid})\<rparr>))))"

definition ids_by_port :: "u16 \<Rightarrow> tunnel_manager \<Rightarrow> uuid set" where
  "ids_by_port port m =
     ts_id ` {s \<in> ran (tm_sessions m). ts_port s = port \<and> ts_session_id s = None}"

definition ids_by_port_for_owner :: "u16 \<Rightarrow> string \<Rightarrow> u64 \<Rightarrow> tunnel_manager \<Rightarrow> uuid set" where
  "ids_by_port_for_owner port session_id incarnation m =
     ts_id ` {s \<in> ran (tm_sessions m). ts_port s = port \<and> ts_session_id s = Some session_id
                                     \<and> ts_incarnation s = Some incarnation}"

section \<open>Shutdown\<close>

definition dispose_begin :: "tunnel_manager \<Rightarrow> tunnel_manager" where
  "dispose_begin m = m\<lparr>tm_disposing := True\<rparr>"

definition dispose_collect :: "tunnel_manager \<Rightarrow> tunnel_manager" where
  "dispose_collect m =
     release (dom (tm_handles m))
       (m\<lparr>tm_pending_stops := tm_pending_stops m \<union> (dom (tm_sessions m) - dom (tm_handles m)),
          tm_sessions := Map.empty, tm_handles := Map.empty\<rparr>)"

definition dispose_finish :: "tunnel_manager \<Rightarrow> tunnel_manager" where
  "dispose_finish m = m\<lparr>tm_pending_stops := {}\<rparr>"

definition dispose_clear :: "tunnel_manager \<Rightarrow> tunnel_manager" where
  "dispose_clear m = m\<lparr>tm_sessions := Map.empty\<rparr>"

section \<open>Events of a driver\<close>

definition update_session :: "uuid \<Rightarrow> (tunnel_session \<Rightarrow> tunnel_session) \<Rightarrow> tunnel_manager \<Rightarrow> tunnel_manager" where
  "update_session tid f m =
     (case tm_sessions m tid of
        Some s \<Rightarrow> m\<lparr>tm_sessions := (tm_sessions m)(tid \<mapsto> f s)\<rparr>
      | None \<Rightarrow> m)"

text \<open>One event; the flag says whether the loop of \<open>watch_events\<close> goes on.\<close>

definition watch_event :: "uuid \<Rightarrow> driver_event \<Rightarrow> tunnel_manager \<Rightarrow> bool \<times> tunnel_manager" where
  "watch_event tid ev m =
     (case ev of
        UrlReady url \<Rightarrow>
          (True, broadcast (BReady tid url)
             (update_session tid (\<lambda>s. s\<lparr>ts_status := TunnelReady, ts_url := Some url\<rparr>) m))
      | Failed msg \<Rightarrow>
          (False, broadcast (BFailed tid msg)
             (update_session tid (\<lambda>s. s\<lparr>ts_status := TunnelFailed, ts_error := Some msg\<rparr>) m))
      | Exited \<Rightarrow>
          (False, case tm_sessions m tid of
                    Some s \<Rightarrow> if is_active s
                              then broadcast (BStopped tid) (update_session tid (\<lambda>s. s\<lparr>ts_status := TunnelStopped\<rparr>) m)
                              else m
                  | None \<Rightarrow> m))"

text \<open>The end of \<open>watch_events\<close>: the two removals take their locks one after the other.\<close>

definition drop_handle :: "uuid \<Rightarrow> tunnel_manager \<Rightarrow> tunnel_manager" where
  "drop_handle tid m =
     release (if tm_handles m tid \<noteq> None then {tid} else {}) (m\<lparr>tm_handles := (tm_handles m)(tid := None)\<rparr>)"

definition drop_tunnel_session :: "uuid \<Rightarrow> tunnel_manager \<Rightarrow> tunnel_manager" where
  "drop_tunnel_session tid m = m\<lparr>tm_sessions := (tm_sessions m)(tid := None)\<rparr>"

text \<open>The whole task on the events of its channel, when no other task runs in between.\<close>

fun watch_events :: "uuid \<Rightarrow> driver_event list \<Rightarrow> tunnel_manager \<Rightarrow> tunnel_manager" where
  "watch_events tid [] m = drop_tunnel_session tid (drop_handle tid m)"
| "watch_events tid (ev # evs) m =
     (case watch_event tid ev m of (goes_on, m') \<Rightarrow>
        if goes_on then watch_events tid evs m' else drop_tunnel_session tid (drop_handle tid m'))"

text \<open>
  What the cloudflared driver sends before it closes the channel (\<open>tunnel/cloudflared.rs\<close>): the search for the
  URL in the output of the child ends with the URL, with the end of the output or with the timeout.
\<close>

datatype url_search = UrlFound string | OutputEnded | SearchTimedOut

fun cloudflared_events :: "url_search \<Rightarrow> driver_event list" where
  "cloudflared_events (UrlFound url) = [UrlReady url]"
| "cloudflared_events OutputEnded = [Exited]"
| "cloudflared_events SearchTimedOut = [Failed ''cloudflared URL not found within 30s'']"

lemmas manager_defs = broadcast_def release_def finish_start_def start_failed_def start_returned_def
  announce_created_def tunnel_stop_def dispose_begin_def dispose_collect_def dispose_finish_def dispose_clear_def
  update_session_def watch_event_def drop_handle_def drop_tunnel_session_def Let_def

end
