(* ===== verification/Port_Forward.thy ===== *)
theory Port_Forward
  imports Tunnel_Manager
begin

text \<open>
  Ports found in the output of terminals: \<open>port_forward/detector.rs\<close>, \<open>port_forward/session.rs\<close>,
  \<open>port_forward/manager.rs\<close> and the table of detected ports of \<open>persistence/mod.rs\<close>. The regular
  expressions are a parameter (for a text, what each of them captures), as are the clock and whether a
  statement of the database succeeds. An operation runs under its locks without releasing them; what
  its task does afterwards to the tunnels is in \<open>Port_Tunnels\<close>.
\<close>

section \<open>Detection\<close>

definition DANGER_PORTS :: "u16 list" where
  "DANGER_PORTS = [22, 25, 110, 143, 3306, 5432, 6379, 27017]"

definition port_is_safe :: "u16 \<Rightarrow> bool" where
  "port_is_safe port = (if port < 1024 then False else port \<notin> set DANGER_PORTS)"

text \<open>The text after the first character that satisfies \<open>p\<close>.\<close>

fun skip_past :: "(char \<Rightarrow> bool) \<Rightarrow> string \<Rightarrow> string" where
  "skip_past p [] = []"
| "skip_past p (c # cs) = (if p c then cs else skip_past p cs)"

lemma length_skip_past: "length (skip_past p cs) \<le> length cs"
  by (induction cs) auto

function strip_ansi :: "string \<Rightarrow> string" where
  "strip_ansi [] = []"
| "strip_ansi (c # cs) =
     (if c = CHR 0x1B then
        (case cs of
           d # ds \<Rightarrow>
             if d = CHR ''['' then strip_ansi (skip_past is_ascii_alphabetic ds)
             else if d = CHR '']'' then strip_ansi (skip_past (\<lambda>x. x = CHR 0x07) ds)
             else strip_ansi cs
         | [] \<Rightarrow> [])
      else c # strip_ansi cs)"
  by pat_completeness auto
termination
  by (relation "measure length") (auto simp: length_skip_past less_Suc_eq_le le_SucI)

definition parse_u16 :: "string \<Rightarrow> u16 option" where
  "parse_u16 s = map_option of_nat (parse_unsigned 16 s)"

text \<open>
  The first safe port of a chunk; \<open>captures\<close> gives for every expression, in order, the text of its
  group in a given text.
\<close>

fun first_safe :: "string option list \<Rightarrow> u16 option" where
  "first_safe [] = None"
| "first_safe (c # cs) =
     (case c of
        None \<Rightarrow> first_safe cs
      | Some t \<Rightarrow>
          (case parse_u16 t of
             None \<Rightarrow> first_safe cs
           | Some port \<Rightarrow> if port_is_safe port then Some port else first_safe cs))"

definition scan_chunk :: "(string \<Rightarrow> string) \<Rightarrow> (string \<Rightarrow> string option list) \<Rightarrow> string \<Rightarrow> u16 option" where
  "scan_chunk from_utf8_lossy captures data = first_safe (captures (strip_ansi (from_utf8_lossy data)))"

section \<open>Detected ports\<close>

datatype detected_via = StdoutRegex | ProcNet

datatype port_state = Provisional | Listening | Lost

record detected_port =
  dp_port :: u16
  dp_session_id :: string
  dp_incarnation :: u64
  dp_project :: "string option"
  dp_detected_via :: detected_via
  dp_state :: port_state
  dp_provisional_until :: "nat option"

definition new_provisional :: "u16 \<Rightarrow> string \<Rightarrow> u64 \<Rightarrow> string option \<Rightarrow> detected_port" where
  "new_provisional port session_id incarnation project =
     \<lparr> dp_port = port, dp_session_id = session_id, dp_incarnation = incarnation, dp_project = project,
       dp_detected_via = StdoutRegex, dp_state = Provisional, dp_provisional_until = None \<rparr>"

definition new_seeded_provisional :: "u16 \<Rightarrow> string \<Rightarrow> u64 \<Rightarrow> string option \<Rightarrow> nat \<Rightarrow> nat \<Rightarrow> detected_port" where
  "new_seeded_provisional port session_id incarnation project now grace =
     (new_provisional port session_id incarnation project)\<lparr>dp_provisional_until := Some (now + grace)\<rparr>"

definition is_in_grace :: "nat \<Rightarrow> detected_port \<Rightarrow> bool" where
  "is_in_grace now e = (case dp_provisional_until e of Some until \<Rightarrow> now < until | None \<Rightarrow> False)"

definition owner :: "detected_port \<Rightarrow> string \<times> u64" where
  "owner e = (dp_session_id e, dp_incarnation e)"

section \<open>The persisted ports\<close>

text \<open>
  The tables of SQLite: a row for a session and a port, and for a removed session the highest
  incarnation that was removed. Incarnations are stored as signed 64-bit integers.
\<close>

record port_row =
  pr_project :: "string option"
  pr_incarnation :: int
  pr_updated_at :: u64

record port_store =
  st_rows :: "string \<times> u16 \<rightharpoonup> port_row"
  st_removals :: "string \<rightharpoonup> int"

definition as_i64 :: "u64 \<Rightarrow> int" where
  "as_i64 w = sint w"

definition save_detected_port ::
  "bool \<Rightarrow> u64 \<Rightarrow> string \<Rightarrow> u64 \<Rightarrow> u16 \<Rightarrow> string option \<Rightarrow> port_store \<Rightarrow> port_store" where
  "save_detected_port ok now session_id incarnation port project st =
     (if \<not> ok then st
      else if (case st_removals st session_id of Some watermark \<Rightarrow> as_i64 incarnation \<le> watermark | None \<Rightarrow> False) then st
      else let row = \<lparr> pr_project = project, pr_incarnation = as_i64 incarnation, pr_updated_at = now \<rparr> in
        case st_rows st (session_id, port) of
          Some old \<Rightarrow> if pr_incarnation old \<le> pr_incarnation row
                      then st\<lparr>st_rows := (st_rows st)((session_id, port) \<mapsto> row)\<rparr> else st
        | None \<Rightarrow> st\<lparr>st_rows := (st_rows st)((session_id, port) \<mapsto> row)\<rparr>)"

definition delete_detected_port :: "bool \<Rightarrow> string \<Rightarrow> u64 \<Rightarrow> u16 \<Rightarrow> port_store \<Rightarrow> port_store" where
  "delete_detected_port ok session_id incarnation port st =
     (if \<not> ok then st
      else st\<lparr>st_rows := map_retain (\<lambda>(s, p) row. \<not> (s = session_id \<and> pr_incarnation row = as_i64 incarnation \<and> p = port))
                           (st_rows st)\<rparr>)"

definition delete_detected_ports_for_session :: "bool \<Rightarrow> string \<Rightarrow> u64 \<Rightarrow> port_store \<Rightarrow> port_store" where
  "delete_detected_ports_for_session ok session_id incarnation st =
     (if \<not> ok then st
      else st\<lparr>st_rows := map_retain (\<lambda>(s, p) row. \<not> (s = session_id \<and> pr_incarnation row = as_i64 incarnation))
                           (st_rows st)\<rparr>)"

record persisted_port =
  pp_session_id :: string
  pp_port :: u16
  pp_project :: "string option"
  pp_incarnation :: u64

definition persisted_of :: "string \<times> u16 \<Rightarrow> port_row \<Rightarrow> persisted_port" where
  "persisted_of key row =
     \<lparr> pp_session_id = fst key, pp_port = snd key, pp_project = pr_project row,
       pp_incarnation = of_int (max (pr_incarnation row) 0) \<rparr>"

text \<open>A result of \<open>load_detected_ports\<close>: the rows, the newest first.\<close>

definition load_detected_ports :: "port_store \<Rightarrow> persisted_port list \<Rightarrow> bool" where
  "load_detected_ports st ps \<longleftrightarrow>
     (\<exists>ks. distinct ks \<and> set ks = dom (st_rows st) \<and> ps = map (\<lambda>k. persisted_of k (the (st_rows st k))) ks
       \<and> sorted_wrt (\<ge>) (map (\<lambda>k. pr_updated_at (the (st_rows st k))) ks))"

section \<open>The manager\<close>

definition MAX_TRACKED_PORTS :: nat where "MAX_TRACKED_PORTS = 100"

definition SEEDED_PORT_GRACE :: nat where "SEEDED_PORT_GRACE = 10000"

record ownerless_tunnel_port =
  ow_port :: u16
  ow_observed_listen :: bool

datatype port_broadcast =
    PDiscovered detected_port
  | PLost u16 string u64

record port_manager =
  pf_ports :: "u16 \<rightharpoonup> detected_port"
  pf_ownerless :: "uuid \<rightharpoonup> ownerless_tunnel_port"
  pf_active_sessions :: "string \<rightharpoonup> u64"
  pf_validation :: bool
  pf_store :: "port_store option"
  pf_broadcasts :: "port_broadcast list"

definition port_manager_new :: "port_store option \<Rightarrow> port_manager" where
  "port_manager_new st =
     \<lparr> pf_ports = Map.empty, pf_ownerless = Map.empty, pf_active_sessions = Map.empty, pf_validation = False,
       pf_store = st, pf_broadcasts = [] \<rparr>"

definition enable_session_validation :: "port_manager \<Rightarrow> port_manager" where
  "enable_session_validation m = m\<lparr>pf_validation := True\<rparr>"

definition with_store :: "(port_store \<Rightarrow> port_store) \<Rightarrow> port_manager \<Rightarrow> port_manager" where
  "with_store f m = m\<lparr>pf_store := map_option f (pf_store m)\<rparr>"

definition announce :: "port_broadcast list \<Rightarrow> port_manager \<Rightarrow> port_manager" where
  "announce bs m = m\<lparr>pf_broadcasts := pf_broadcasts m @ bs\<rparr>"

definition register_session :: "string \<Rightarrow> u64 \<Rightarrow> port_manager \<Rightarrow> port_manager" where
  "register_session session_id incarnation m =
     (if (case pf_active_sessions m session_id of Some current \<Rightarrow> current \<le> incarnation | None \<Rightarrow> True)
      then m\<lparr>pf_active_sessions := (pf_active_sessions m)(session_id \<mapsto> incarnation)\<rparr> else m)"

text \<open>\<open>report_stdout_hit\<close>: the owner that was replaced, if any, and the new state.\<close>

definition report_stdout_hit ::
  "bool \<Rightarrow> bool \<Rightarrow> u64 \<Rightarrow> u16 \<Rightarrow> string \<Rightarrow> u64 \<Rightarrow> string option \<Rightarrow> port_manager
    \<Rightarrow> (string \<times> u64) option \<times> port_manager" where
  "report_stdout_hit delete_ok save_ok now port session_id incarnation project m =
     (if pf_validation m \<and> pf_active_sessions m session_id \<noteq> Some incarnation then (None, m)
      else if (case pf_ports m port of Some e \<Rightarrow> owner e = (session_id, incarnation) | None \<Rightarrow> False) then (None, m)
      else if MAX_TRACKED_PORTS \<le> card (dom (pf_ports m)) \<and> pf_ports m port = None then (None, m)
      else let entry = new_provisional port session_id incarnation project;
               replaced = map_option owner (pf_ports m port);
               m1 = m\<lparr>pf_ports := (pf_ports m)(port \<mapsto> entry)\<rparr>;
               m2 = (case replaced of
                       Some (s, i) \<Rightarrow> with_store (delete_detected_port delete_ok s i port) m1
                     | None \<Rightarrow> m1);
               m3 = with_store (save_detected_port save_ok now session_id incarnation port project) m2
           in (replaced, announce [PDiscovered entry] m3))"

definition confirm_listen :: "u16 \<Rightarrow> u64 \<Rightarrow> port_manager \<Rightarrow> port_manager" where
  "confirm_listen port incarnation m =
     (case pf_ports m port of
        Some e \<Rightarrow>
          if dp_incarnation e \<noteq> incarnation then m
          else if dp_state e = Provisional then
            (let e' = e\<lparr>dp_state := Listening, dp_detected_via := ProcNet, dp_provisional_until := None\<rparr>
             in announce [PDiscovered e'] (m\<lparr>pf_ports := (pf_ports m)(port \<mapsto> e')\<rparr>))
          else m
      | None \<Rightarrow> m)"

text \<open>\<open>report_lost\<close>: the owner of the port that was removed, if any.\<close>

definition report_lost :: "bool \<Rightarrow> nat \<Rightarrow> u16 \<Rightarrow> u64 \<Rightarrow> port_manager \<Rightarrow> (string \<times> u64) option \<times> port_manager" where
  "report_lost delete_ok now port incarnation m =
     (case pf_ports m port of
        None \<Rightarrow> (None, m)
      | Some e \<Rightarrow>
          if dp_incarnation e \<noteq> incarnation then (None, m)
          else if dp_state e = Provisional \<and> is_in_grace now e then (None, m)
          else (Some (owner e),
                announce [PLost (dp_port e) (dp_session_id e) (dp_incarnation e)]
                  (with_store (delete_detected_port delete_ok (dp_session_id e) (dp_incarnation e) (dp_port e))
                    (m\<lparr>pf_ports := (pf_ports m)(port := None)\<rparr>))))"

definition is_listening :: "u16 \<Rightarrow> port_manager \<Rightarrow> bool" where
  "is_listening port m = (case pf_ports m port of Some e \<Rightarrow> dp_state e = Listening | None \<Rightarrow> False)"

definition owner_for_port :: "u16 \<Rightarrow> port_manager \<Rightarrow> (string \<times> u64) option" where
  "owner_for_port port m = map_option owner (pf_ports m port)"

section \<open>Sessions that end\<close>

definition session_ports :: "string \<Rightarrow> u64 \<Rightarrow> port_manager \<Rightarrow> u16 set" where
  "session_ports session_id incarnation m =
     {port. case pf_ports m port of Some e \<Rightarrow> owner e = (session_id, incarnation) | None \<Rightarrow> False}"

text \<open>The ports are announced in ascending order here, in the order of the hash map in the code.\<close>

definition remove_session_ports_sync :: "bool \<Rightarrow> string \<Rightarrow> u64 \<Rightarrow> port_manager \<Rightarrow> u16 set \<times> port_manager" where
  "remove_session_ports_sync delete_ok session_id incarnation m =
     (let removed = session_ports session_id incarnation m in
      (removed, announce (map (\<lambda>port. PLost port session_id incarnation) (sorted_list_of_set removed))
         (with_store (delete_detected_ports_for_session delete_ok session_id incarnation)
           (m\<lparr>pf_ports := pf_ports m |` (- removed)\<rparr>))))"

definition unregister_session :: "bool \<Rightarrow> string \<Rightarrow> u64 \<Rightarrow> port_manager \<Rightarrow> u16 set \<times> port_manager" where
  "unregister_session delete_ok session_id incarnation m =
     remove_session_ports_sync delete_ok session_id incarnation
       (if pf_active_sessions m session_id = Some incarnation
        then m\<lparr>pf_active_sessions := (pf_active_sessions m)(session_id := None)\<rparr> else m)"

section \<open>Restored sessions\<close>

text \<open>One entry of the loop of \<open>seed_persisted_candidates\<close>; the loop stops when enough ports are tracked.\<close>

definition seed_entry :: "bool \<Rightarrow> nat \<Rightarrow> (string \<times> u64) set \<Rightarrow> persisted_port \<Rightarrow> nat \<times> port_manager \<Rightarrow> nat \<times> port_manager" where
  "seed_entry delete_ok now live p = (\<lambda>(seeded, m).
     if (pp_session_id p, pp_incarnation p) \<notin> live \<or> \<not> port_is_safe (pp_port p) then
       (seeded, with_store (delete_detected_port delete_ok (pp_session_id p) (pp_incarnation p) (pp_port p)) m)
     else if pf_ports m (pp_port p) = None then
       (seeded + 1, m\<lparr>pf_ports := (pf_ports m)(pp_port p \<mapsto>
          new_seeded_provisional (pp_port p) (pp_session_id p) (pp_incarnation p) (pp_project p) now SEEDED_PORT_GRACE)\<rparr>)
     else (seeded, m))"

fun seed_loop :: "bool \<Rightarrow> nat \<Rightarrow> (string \<times> u64) set \<Rightarrow> persisted_port list \<Rightarrow> nat \<times> port_manager \<Rightarrow> nat \<times> port_manager" where
  "seed_loop delete_ok now live [] (seeded, m) = (seeded, m)"
| "seed_loop delete_ok now live (p # ps) (seeded, m) =
     (if MAX_TRACKED_PORTS \<le> seeded \<or> MAX_TRACKED_PORTS \<le> card (dom (pf_ports m)) then (seeded, m)
      else seed_loop delete_ok now live ps (seed_entry delete_ok now live p (seeded, m)))"

text \<open>\<open>loaded\<close> is the result of the query, or nothing when it failed.\<close>

definition seed_persisted_candidates ::
  "bool \<Rightarrow> nat \<Rightarrow> (string \<times> u64) list \<Rightarrow> persisted_port list option \<Rightarrow> port_manager \<Rightarrow> nat \<times> port_manager" where
  "seed_persisted_candidates delete_ok now live_sessions loaded m =
     (case (pf_store m, loaded) of
        (Some _, Some ps) \<Rightarrow> seed_loop delete_ok now (set live_sessions) ps (0, m)
      | _ \<Rightarrow> (0, m))"

section \<open>Incarnations\<close>

text \<open>
  The allocator of incarnations of the terminal manager (\<open>pty/manager.rs\<close>), which starts past everything
  that is persisted.
\<close>

definition allocate_incarnation :: "u64 \<Rightarrow> u64 \<times> u64" where
  "allocate_incarnation next_incarnation = (next_incarnation, saturating_add next_incarnation 1)"

definition advance_past :: "u64 option \<Rightarrow> u64 \<Rightarrow> u64" where
  "advance_past persisted_max next_incarnation =
     (case persisted_max of
        Some maximum \<Rightarrow> max next_incarnation (min (saturating_add maximum 1) (2 ^ 63 - 1))
      | None \<Rightarrow> next_incarnation)"

section \<open>Tunnels without an owner\<close>

definition sync_ownerless_tunnel_ports :: "(uuid \<rightharpoonup> u16) \<Rightarrow> port_manager \<Rightarrow> port_manager" where
  "sync_ownerless_tunnel_ports active m =
     m\<lparr>pf_ownerless := (\<lambda>tid. case active tid of
         None \<Rightarrow> None
       | Some port \<Rightarrow>
           (case pf_ownerless m tid of Some e \<Rightarrow> Some e | None \<Rightarrow> Some \<lparr> ow_port = port, ow_observed_listen = False \<rparr>))\<rparr>"

definition confirm_ownerless_tunnel_listen :: "uuid \<Rightarrow> u16 \<Rightarrow> port_manager \<Rightarrow> port_manager" where
  "confirm_ownerless_tunnel_listen tid port m =
     (case pf_ownerless m tid of
        Some e \<Rightarrow> if ow_port e = port then m\<lparr>pf_ownerless := (pf_ownerless m)(tid \<mapsto> e\<lparr>ow_observed_listen := True\<rparr>)\<rparr> else m
      | None \<Rightarrow> m)"

text \<open>Whether the tunnel is to be stopped.\<close>

definition report_ownerless_tunnel_lost :: "uuid \<Rightarrow> u16 \<Rightarrow> port_manager \<Rightarrow> bool \<times> port_manager" where
  "report_ownerless_tunnel_lost tid port m =
     (if (case pf_ownerless m tid of Some e \<Rightarrow> ow_port e = port | None \<Rightarrow> False)
      then (True, m\<lparr>pf_ownerless := (pf_ownerless m)(tid := None)\<rparr>) else (False, m))"

section \<open>The poller\<close>

text \<open>
  One round of the poller, when no other task runs in between. \<open>listening\<close> is what the tables of the kernel
  say; \<open>known\<close> and \<open>ownerless\<close> are the snapshots in the order of the hash maps.
\<close>

definition poll_port :: "u16 set \<Rightarrow> bool \<Rightarrow> nat \<Rightarrow> port_manager \<Rightarrow> u16 \<times> u64 \<Rightarrow> port_manager" where
  "poll_port listening delete_ok now m = (\<lambda>(port, incarnation).
     if port \<in> listening then confirm_listen port incarnation m
     else snd (report_lost delete_ok now port incarnation m))"

definition poll_ownerless :: "u16 set \<Rightarrow> uuid set \<times> port_manager \<Rightarrow> uuid \<times> u16 \<times> bool \<Rightarrow> uuid set \<times> port_manager" where
  "poll_ownerless listening = (\<lambda>(stopped, m) (tid, port, observed_listen).
     if port \<in> listening then (stopped, confirm_ownerless_tunnel_listen tid port m)
     else if observed_listen then
       (case report_ownerless_tunnel_lost tid port m of (lost, m') \<Rightarrow> (if lost then insert tid stopped else stopped, m'))
     else (stopped, m))"

definition is_snapshot :: "port_manager \<Rightarrow> (u16 \<times> u64) list \<Rightarrow> bool" where
  "is_snapshot m known \<longleftrightarrow>
     distinct (map fst known) \<and> set known = {(port, dp_incarnation e) | port e. pf_ports m port = Some e}"

definition ownerless_snapshot :: "port_manager \<Rightarrow> (uuid \<times> u16 \<times> bool) list \<Rightarrow> bool" where
  "ownerless_snapshot m os \<longleftrightarrow>
     distinct (map fst os) \<and> set os = {(tid, ow_port e, ow_observed_listen e) | tid e. pf_ownerless m tid = Some e}"

definition linux_poll_round ::
  "u16 set \<Rightarrow> bool \<Rightarrow> nat \<Rightarrow> (u16 \<times> u64) list \<Rightarrow> (uuid \<rightharpoonup> u16) \<Rightarrow> (uuid \<times> u16 \<times> bool) list \<Rightarrow> port_manager
    \<Rightarrow> uuid set \<times> port_manager" where
  "linux_poll_round listening delete_ok now known active ownerless m =
     foldl (poll_ownerless listening)
       ({}, sync_ownerless_tunnel_ports active (foldl (poll_port listening delete_ok now) m known)) ownerless"

end
