(* ===== verification/Port_Forward_Safety.thy ===== *)
theory Port_Forward_Safety
  imports Port_Forward
begin

text \<open>
  What the registry of ports guarantees after any sequence of reports: bounded, only safe ports, only
  ports of terminals that are registered, and a database that agrees with the registry.
\<close>

section \<open>Sequences of reports\<close>

text \<open>
  The calls of the reader threads, the poller and the lifecycle of terminals. A chunk of output is
  scanned first; the report of its port may run later, which makes no difference to the scan.
\<close>

datatype port_call =
    Register string u64
  | Unregister bool string u64
  | RemovePorts bool string u64
  | Chunk bool bool u64 string string u64 "string option"
  | Confirm u16 u64
  | ReportLost bool nat u16 u64
  | Seed bool nat "(string \<times> u64) list" "persisted_port list option"
  | SyncOwnerless "uuid \<rightharpoonup> u16"
  | ConfirmOwnerless uuid u16
  | LostOwnerless uuid u16

definition report_chunk ::
  "(string \<Rightarrow> u16 option) \<Rightarrow> bool \<Rightarrow> bool \<Rightarrow> u64 \<Rightarrow> string \<Rightarrow> string \<Rightarrow> u64 \<Rightarrow> string option \<Rightarrow> port_manager \<Rightarrow> port_manager" where
  "report_chunk scan delete_ok save_ok now data session_id incarnation project m =
     (case scan data of
        Some port \<Rightarrow> snd (report_stdout_hit delete_ok save_ok now port session_id incarnation project m)
      | None \<Rightarrow> m)"

fun port_step :: "(string \<Rightarrow> u16 option) \<Rightarrow> port_manager \<Rightarrow> port_call \<Rightarrow> port_manager" where
  "port_step scan m (Register s i) = register_session s i m"
| "port_step scan m (Unregister ok s i) = snd (unregister_session ok s i m)"
| "port_step scan m (RemovePorts ok s i) = snd (remove_session_ports_sync ok s i m)"
| "port_step scan m (Chunk dok sok now data s i project) = report_chunk scan dok sok now data s i project m"
| "port_step scan m (Confirm port i) = confirm_listen port i m"
| "port_step scan m (ReportLost ok now port i) = snd (report_lost ok now port i m)"
| "port_step scan m (Seed ok now live loaded) = snd (seed_persisted_candidates ok now live loaded m)"
| "port_step scan m (SyncOwnerless active) = sync_ownerless_tunnel_ports active m"
| "port_step scan m (ConfirmOwnerless tid port) = confirm_ownerless_tunnel_listen tid port m"
| "port_step scan m (LostOwnerless tid port) = snd (report_ownerless_tunnel_lost tid port m)"

text \<open>The terminals that may own ports: registered, or listed as live when ports are restored.\<close>

fun open_step :: "(string \<times> u64) set \<Rightarrow> port_call \<Rightarrow> (string \<times> u64) set" where
  "open_step os (Register s i) = insert (s, i) os"
| "open_step os (Unregister ok s i) = os - {(s, i)}"
| "open_step os (Seed ok now live loaded) = os \<union> set live"
| "open_step os c = os"

definition registry_ok :: "(string \<times> u64) set \<Rightarrow> port_manager \<Rightarrow> bool" where
  "registry_ok os m \<longleftrightarrow>
     pf_validation m \<and> card (dom (pf_ports m)) \<le> MAX_TRACKED_PORTS
     \<and> (\<forall>p e. pf_ports m p = Some e \<longrightarrow> dp_port e = p \<and> port_is_safe p \<and> owner e \<in> os)
     \<and> (\<forall>s i. pf_active_sessions m s = Some i \<longrightarrow> (s, i) \<in> os)"

section \<open>Effects on the fields\<close>

lemma with_store_sel [simp]:
  "pf_ports (with_store f m) = pf_ports m" "pf_active_sessions (with_store f m) = pf_active_sessions m"
  "pf_validation (with_store f m) = pf_validation m" "pf_ownerless (with_store f m) = pf_ownerless m"
  "pf_store (with_store f m) = map_option f (pf_store m)"
  by (simp_all add: with_store_def)

lemma announce_sel [simp]:
  "pf_ports (announce bs m) = pf_ports m" "pf_active_sessions (announce bs m) = pf_active_sessions m"
  "pf_validation (announce bs m) = pf_validation m" "pf_ownerless (announce bs m) = pf_ownerless m"
  "pf_store (announce bs m) = pf_store m"
  by (simp_all add: announce_def)

lemma new_provisional_sel [simp]:
  "dp_port (new_provisional p s i pr) = p" "owner (new_provisional p s i pr) = (s, i)"
  "dp_session_id (new_provisional p s i pr) = s" "dp_incarnation (new_provisional p s i pr) = i"
  "dp_port (new_seeded_provisional p s i pr now g) = p" "owner (new_seeded_provisional p s i pr now g) = (s, i)"
  by (simp_all add: new_provisional_def new_seeded_provisional_def owner_def)

text \<open>A report that changes something.\<close>

lemma report_stdout_hit_cases:
  assumes "report_stdout_hit dok sok now port s i project m = (replaced, m')"
  obtains (Ignored) "replaced = None" "m' = m"
  | (Taken) "pf_validation m \<longrightarrow> pf_active_sessions m s = Some i" "owner_for_port port m \<noteq> Some (s, i)"
      "pf_ports m port \<noteq> None \<or> card (dom (pf_ports m)) < MAX_TRACKED_PORTS" "replaced = owner_for_port port m"
      "pf_ports m' = (pf_ports m)(port \<mapsto> new_provisional port s i project)"
      "pf_active_sessions m' = pf_active_sessions m" "pf_validation m' = pf_validation m" "pf_ownerless m' = pf_ownerless m"
      "pf_store m' = map_option (\<lambda>st. save_detected_port sok now s i port project
         (case owner_for_port port m of Some (s', i') \<Rightarrow> delete_detected_port dok s' i' port st | None \<Rightarrow> st)) (pf_store m)"
proof (cases "(pf_validation m \<and> pf_active_sessions m s \<noteq> Some i) \<or> owner_for_port port m = Some (s, i)
    \<or> MAX_TRACKED_PORTS \<le> card (dom (pf_ports m)) \<and> pf_ports m port = None")
  case True
  with assms have "replaced = None \<and> m' = m"
    by (auto simp: report_stdout_hit_def owner_for_port_def split: if_splits)
  then show thesis using Ignored by blast
next
  case False
  let ?m2 = "case owner_for_port port m of
      Some (s', i') \<Rightarrow> with_store (delete_detected_port dok s' i' port) (m\<lparr>pf_ports := (pf_ports m)(port \<mapsto> new_provisional port s i project)\<rparr>)
    | None \<Rightarrow> m\<lparr>pf_ports := (pf_ports m)(port \<mapsto> new_provisional port s i project)\<rparr>"
  from False have "\<not> (case pf_ports m port of Some e \<Rightarrow> owner e = (s, i) | None \<Rightarrow> False)"
    by (auto simp: owner_for_port_def split: option.splits)
  with False assms have r: "replaced = owner_for_port port m"
    "m' = announce [PDiscovered (new_provisional port s i project)] (with_store (save_detected_port sok now s i port project) ?m2)"
    by (auto simp: report_stdout_hit_def Let_def owner_for_port_def)
  have "pf_ports ?m2 = (pf_ports m)(port \<mapsto> new_provisional port s i project)"
    "pf_active_sessions ?m2 = pf_active_sessions m" "pf_validation ?m2 = pf_validation m" "pf_ownerless ?m2 = pf_ownerless m"
    "pf_store ?m2 = map_option (\<lambda>st. case owner_for_port port m of
       Some (s', i') \<Rightarrow> delete_detected_port dok s' i' port st | None \<Rightarrow> st) (pf_store m)"
    by (auto simp: option.map_ident split: option.splits)
  with False show thesis by (intro Taken) (auto simp: r option.map_comp comp_def)
qed

section \<open>The registry\<close>

lemma first_safe_safe: "first_safe cs = Some port \<Longrightarrow> port_is_safe port"
  by (induction cs) (auto split: option.splits if_splits)

lemma scan_chunk_safe: "scan_chunk lossy captures data = Some port \<Longrightarrow> port_is_safe port"
  by (simp add: scan_chunk_def first_safe_safe)

lemma registry_okI:
  assumes "registry_ok os m" and "pf_validation m' = pf_validation m"
    and "\<And>p e. pf_ports m' p = Some e \<Longrightarrow> \<exists>e'. pf_ports m p = Some e' \<and> dp_port e = dp_port e' \<and> owner e = owner e'"
    and "\<And>s i. pf_active_sessions m' s = Some i \<Longrightarrow> pf_active_sessions m s = Some i \<or> (s, i) \<in> os'"
    and "\<And>p e. pf_ports m' p = Some e \<Longrightarrow> owner e \<in> os \<Longrightarrow> owner e \<in> os'"
    and "\<And>s i. pf_active_sessions m' s = Some i \<Longrightarrow> (s, i) \<in> os \<Longrightarrow> (s, i) \<in> os'"
  shows "registry_ok os' m'"
proof -
  have "dom (pf_ports m') \<subseteq> dom (pf_ports m)" using assms(3) by blast
  then have "card (dom (pf_ports m')) \<le> card (dom (pf_ports m))" by (intro card_mono) auto
  moreover have "dp_port e = p \<and> port_is_safe p \<and> owner e \<in> os'" if "pf_ports m' p = Some e" for p e
    using assms(1) assms(3) [OF that] assms(5) [OF that] by (auto simp: registry_ok_def)
  moreover have "(s, i) \<in> os'" if "pf_active_sessions m' s = Some i" for s i
    using assms(1) assms(4) [OF that] assms(6) [OF that] by (auto simp: registry_ok_def)
  ultimately show ?thesis using assms(1,2) by (simp add: registry_ok_def)
qed

lemma registry_ok_hit:
  assumes ok: "registry_ok os m" and safe: "port_is_safe port"
  shows "registry_ok os (snd (report_stdout_hit dok sok now port s i project m))"
proof -
  obtain replaced m' where r: "report_stdout_hit dok sok now port s i project m = (replaced, m')" by fastforce
  then show ?thesis
  proof (cases rule: report_stdout_hit_cases)
    case Ignored
    with r ok show ?thesis by simp
  next
    case Taken
    have "card (insert port (dom (pf_ports m))) \<le> MAX_TRACKED_PORTS"
      using Taken(3) ok by (auto simp: registry_ok_def card_insert_if domI)
    with Taken ok safe r show ?thesis by (auto simp: registry_ok_def)
  qed
qed

lemma seed_loop_ok:
  "registry_ok os m \<Longrightarrow> live \<subseteq> os \<Longrightarrow> registry_ok os (snd (seed_loop ok now live ps (n, m)))"
proof (induction ps arbitrary: n m)
  case Nil
  then show ?case by simp
next
  case (Cons p ps)
  show ?case
  proof (cases "MAX_TRACKED_PORTS \<le> n \<or> MAX_TRACKED_PORTS \<le> card (dom (pf_ports m))")
    case True
    with Cons.prems show ?thesis by simp
  next
    case False
    obtain n' m' where e: "seed_entry ok now live p (n, m) = (n', m')" by fastforce
    have "registry_ok os m'"
      using e False Cons.prems subsetD [OF Cons.prems(2)] by (auto simp: seed_entry_def registry_ok_def card_insert_if split: if_splits)
    with Cons e False show ?thesis by simp
  qed
qed

lemma registry_ok_mono: "registry_ok os m \<Longrightarrow> os \<subseteq> os' \<Longrightarrow> registry_ok os' m"
  unfolding registry_ok_def by blast

lemma session_ports_owner: "p \<in> session_ports s i m \<longleftrightarrow> owner_for_port p m = Some (s, i)"
  by (auto simp: session_ports_def owner_for_port_def split: option.splits)

lemma registry_ok_remove:
  assumes "registry_ok os m"
  shows "registry_ok os (snd (remove_session_ports_sync ok s i m))"
    and "pf_active_sessions m s \<noteq> Some i \<Longrightarrow> registry_ok (os - {(s, i)}) (snd (remove_session_ports_sync ok s i m))"
  using assms
  by (auto simp: remove_session_ports_sync_def Let_def restrict_map_def session_ports_owner owner_for_port_def
      intro!: registry_okI [OF assms] split: if_splits)

lemma registry_ok_step:
  assumes "registry_ok os m"
  shows "registry_ok (open_step os c) (port_step (scan_chunk lossy captures) m c)"
proof (cases c)
  case (Register s i)
  with assms show ?thesis
    by (auto simp: register_session_def intro!: registry_okI [OF assms] split: if_splits)
next
  case (Unregister ok s i)
  have "registry_ok os (if pf_active_sessions m s = Some i
      then m\<lparr>pf_active_sessions := (pf_active_sessions m)(s := None)\<rparr> else m)"
    using assms by (auto intro!: registry_okI [OF assms] split: if_splits)
  from registry_ok_remove(2) [OF this, of s i ok] Unregister show ?thesis by (simp add: unregister_session_def)
next
  case (RemovePorts ok s i)
  with registry_ok_remove(1) [OF assms] show ?thesis by simp
next
  case (Chunk dok sok now data s i project)
  with assms show ?thesis
    by (auto simp: report_chunk_def intro: registry_ok_hit scan_chunk_safe split: option.splits)
next
  case (Confirm port i)
  with assms show ?thesis
    by (auto simp: confirm_listen_def Let_def owner_def intro!: registry_okI [OF assms] split: option.splits if_splits)
next
  case (ReportLost ok now port i)
  with assms show ?thesis
    by (auto simp: report_lost_def intro!: registry_okI [OF assms] split: option.splits if_splits)
next
  case (Seed ok now live loaded)
  have "registry_ok (os \<union> set live) m" using assms by (rule registry_ok_mono) simp
  with Seed show ?thesis
    by (auto simp: seed_persisted_candidates_def intro: seed_loop_ok split: option.splits)
next
  case (SyncOwnerless active)
  with assms show ?thesis by (simp add: sync_ownerless_tunnel_ports_def registry_ok_def)
next
  case (ConfirmOwnerless tid port)
  with assms show ?thesis by (auto simp: confirm_ownerless_tunnel_listen_def registry_ok_def split: option.splits)
next
  case (LostOwnerless tid port)
  with assms show ?thesis by (auto simp: report_ownerless_tunnel_lost_def registry_ok_def)
qed

definition port_init :: "port_store option \<Rightarrow> port_manager" where
  "port_init st = enable_session_validation (port_manager_new st)"

interpretation registry: transition_system "({}, port_init st)"
    "\<lambda>(os, m) c. (open_step os c, port_step (scan_chunk lossy captures) m c)" "\<lambda>(os, m). registry_ok os m"
  for st lossy captures
  by unfold_locales
    (auto simp: registry_ok_step,
     simp add: registry_ok_def port_init_def enable_session_validation_def port_manager_new_def)

lemma registry_ok_owner: "registry_ok os m \<Longrightarrow> owner_for_port p m = Some x \<Longrightarrow> x \<in> os"
  by (auto simp: registry_ok_def owner_for_port_def)

lemma foldl_pair:
  "foldl (\<lambda>(os, m) c. (open_step os c, f m c)) (os, m) cs = (foldl open_step os cs, foldl f m cs)"
  by (induction cs arbitrary: os m) auto

lemma registry_run:
  "registry_ok (foldl open_step {} cs) (foldl (port_step (scan_chunk lossy captures)) (port_init st) cs)"
  using registry.inv_reachable [of lossy captures st cs] by (simp add: foldl_pair)

fun reopens :: "string \<Rightarrow> u64 \<Rightarrow> port_call \<Rightarrow> bool" where
  "reopens s i (Register s' i') = (s' = s \<and> i' = i)"
| "reopens s i (Seed ok now live loaded) = ((s, i) \<in> set live)"
| "reopens s i _ = False"

lemma closed_stays_closed: "(s, i) \<notin> os \<Longrightarrow> list_all (\<lambda>c. \<not> reopens s i c) cs \<Longrightarrow> (s, i) \<notin> foldl open_step os cs"
proof (induction cs arbitrary: os)
  case Nil
  then show ?case by simp
next
  case (Cons c cs)
  then have "(s, i) \<notin> open_step os c" by (cases c) auto
  with Cons show ?case by simp
qed

section \<open>The database\<close>

definition row_incs :: "port_store \<Rightarrow> string \<times> u16 \<Rightarrow> int option" where
  "row_incs st k = map_option pr_incarnation (st_rows st k)"

definition rows_of :: "port_manager \<Rightarrow> string \<times> u16 \<Rightarrow> int option" where
  "rows_of m = (\<lambda>(s, p). case pf_ports m p of
      Some e \<Rightarrow> if dp_session_id e = s then Some (as_i64 (dp_incarnation e)) else None
    | None \<Rightarrow> None)"

definition store_agrees :: "port_manager \<Rightarrow> bool" where
  "store_agrees m \<longleftrightarrow> (\<exists>st. pf_store m = Some st \<and> st_removals st = Map.empty
     \<and> (\<forall>k. row_incs st k = rows_of m k))
     \<and> (\<forall>p e. pf_ports m p = Some e \<longrightarrow> dp_port e = p)"

lemma as_i64_eq [simp]: "as_i64 a = as_i64 b \<longleftrightarrow> a = b"
  by (auto simp: as_i64_def intro: signed_word_eqI)

fun store_call_ok :: "port_call \<Rightarrow> bool" where
  "store_call_ok (Unregister ok s i) = ok"
| "store_call_ok (RemovePorts ok s i) = ok"
| "store_call_ok (Chunk dok sok now data s i project) = (dok \<and> sok)"
| "store_call_ok (ReportLost ok now port i) = ok"
| "store_call_ok (Seed ok now live loaded) = False"
| "store_call_ok _ = True"

lemma map_retain_rows:
  "map_option f (map_retain p m k) = (case m k of Some v \<Rightarrow> if p k v then Some (f v) else None | None \<Rightarrow> None)"
  by (auto simp: map_retain_def split: option.splits)

lemma store_agrees_same:
  "store_agrees m \<Longrightarrow> pf_store m' = pf_store m \<Longrightarrow> rows_of m' = rows_of m \<Longrightarrow>
   (\<And>p e. pf_ports m' p = Some e \<Longrightarrow> dp_port e = p) \<Longrightarrow> store_agrees m'"
  by (simp add: store_agrees_def)

lemma delete_rows:
  "st_removals (delete_detected_port True s i p st) = st_removals st"
  "row_incs (delete_detected_port True s i p st) k =
     (if k = (s, p) \<and> row_incs st k = Some (as_i64 i) then None
      else row_incs st k)"
  by (cases k; auto simp: delete_detected_port_def row_incs_def map_retain_rows split: option.splits)+

lemma delete_session_rows:
  "st_removals (delete_detected_ports_for_session True s i st) = st_removals st"
  "row_incs (delete_detected_ports_for_session True s i st) k =
     (if fst k = s \<and> row_incs st k = Some (as_i64 i) then None
      else row_incs st k)"
  by (cases k; auto simp: delete_detected_ports_for_session_def row_incs_def map_retain_rows split: option.splits)+

lemma save_rows:
  assumes "st_removals st = Map.empty" and "row_incs st (s, p) = None"
  shows "st_removals (save_detected_port True now s i p project st) = Map.empty"
    and "row_incs (save_detected_port True now s i p project st) k =
      (if k = (s, p) then Some (as_i64 i) else row_incs st k)"
  using assms by (auto simp: save_detected_port_def row_incs_def Let_def)

lemma store_agrees_hit:
  assumes "store_agrees m"
  shows "store_agrees (snd (report_stdout_hit True True now port s i project m))"
proof -
  obtain replaced m' where r: "report_stdout_hit True True now port s i project m = (replaced, m')" by fastforce
  then show ?thesis
  proof (cases rule: report_stdout_hit_cases)
    case Ignored
    with r assms show ?thesis by simp
  next
    case Taken
    obtain st where st: "pf_store m = Some st" "st_removals st = Map.empty"
      "\<And>k. row_incs st k = rows_of m k"
      and ports: "\<And>p e. pf_ports m p = Some e \<Longrightarrow> dp_port e = p"
      using assms by (auto simp: store_agrees_def)
    define st1 where "st1 = (case owner_for_port port m of
        Some (s', i') \<Rightarrow> delete_detected_port True s' i' port st | None \<Rightarrow> st)"
    have rows1: "row_incs st1 k = (if snd k = port then None else rows_of m k)" for k
      by (cases k) (auto simp: st1_def delete_rows st(3) owner_for_port_def owner_def rows_of_def split: option.splits)
    have rem1: "st_removals st1 = Map.empty"
      using st(2) by (auto simp: st1_def delete_rows split: option.splits)
    have "row_incs (save_detected_port True now s i port project st1) k = rows_of m' k" for k
      using save_rows(2) [OF rem1, of s port] rows1
      by (cases k) (auto simp: rows_of_def Taken(5) split: option.splits)
    then have "store_agrees m'"
      using Taken(9) st(1) save_rows(1) [OF rem1, of s port] rows1 ports
      by (auto simp: store_agrees_def st1_def [symmetric] Taken(5))
    with r show ?thesis by simp
  qed
qed

lemma store_agreesE:
  assumes "store_agrees m"
  obtains st where "pf_store m = Some st" "st_removals st = Map.empty" "\<And>k. row_incs st k = rows_of m k"
    "\<And>p e. pf_ports m p = Some e \<Longrightarrow> dp_port e = p"
  using assms by (auto simp: store_agrees_def)

lemma store_agreesI:
  "pf_store m = Some st \<Longrightarrow> st_removals st = Map.empty \<Longrightarrow> (\<And>k. row_incs st k = rows_of m k) \<Longrightarrow>
   (\<And>p e. pf_ports m p = Some e \<Longrightarrow> dp_port e = p) \<Longrightarrow> store_agrees m"
  by (simp add: store_agrees_def)

lemma store_agrees_remove:
  assumes "store_agrees m"
  shows "store_agrees (snd (remove_session_ports_sync True s i m))"
proof -
  from assms obtain st where st: "pf_store m = Some st" "st_removals st = Map.empty" "\<And>k. row_incs st k = rows_of m k"
    and ports: "\<And>p e. pf_ports m p = Some e \<Longrightarrow> dp_port e = p" by (rule store_agreesE) (rule that)
  show ?thesis
  proof (rule store_agreesI)
    show "pf_store (snd (remove_session_ports_sync True s i m)) = Some (delete_detected_ports_for_session True s i st)"
      by (simp add: remove_session_ports_sync_def Let_def st(1))
    show "row_incs (delete_detected_ports_for_session True s i st) k
        = rows_of (snd (remove_session_ports_sync True s i m)) k" for k
      by (cases k)
        (auto simp: delete_session_rows st(3) rows_of_def remove_session_ports_sync_def Let_def restrict_map_def
          session_ports_def owner_def split: option.splits if_splits)
  qed (auto simp: delete_session_rows st(2) remove_session_ports_sync_def Let_def restrict_map_def ports split: if_splits)
qed

lemma store_agrees_lost:
  assumes "store_agrees m"
  shows "store_agrees (snd (report_lost True now port i m))"
proof -
  from assms obtain st where st: "pf_store m = Some st" "st_removals st = Map.empty" "\<And>k. row_incs st k = rows_of m k"
    and ports: "\<And>p e. pf_ports m p = Some e \<Longrightarrow> dp_port e = p" by (rule store_agreesE) (rule that)
  show ?thesis
  proof (cases "snd (report_lost True now port i m) = m")
    case True
    with assms show ?thesis by simp
  next
    case False
    then obtain e where e: "pf_ports m port = Some e"
      and m': "snd (report_lost True now port i m) =
        announce [PLost (dp_port e) (dp_session_id e) (dp_incarnation e)]
          (with_store (delete_detected_port True (dp_session_id e) (dp_incarnation e) (dp_port e))
            (m\<lparr>pf_ports := (pf_ports m)(port := None)\<rparr>))"
      by (auto simp: report_lost_def split: option.splits if_splits)
    show ?thesis unfolding m'
      by (rule store_agreesI [of _ "delete_detected_port True (dp_session_id e) (dp_incarnation e) (dp_port e) st"])
        (auto simp: st delete_rows rows_of_def ports e ports [OF e] split: option.splits if_splits)
  qed
qed

lemma store_agrees_step:
  assumes "store_agrees m" and "store_call_ok c"
  shows "store_agrees (port_step scan m c)"
proof (cases c)
  case (Unregister ok s i)
  have "store_agrees (if pf_active_sessions m s = Some i
      then m\<lparr>pf_active_sessions := (pf_active_sessions m)(s := None)\<rparr> else m)"
    using assms(1) by (auto simp: store_agrees_def rows_of_def)
  from store_agrees_remove [OF this, of s i] Unregister assms(2) show ?thesis by (simp add: unregister_session_def)
next
  case (RemovePorts ok s i)
  with assms store_agrees_remove show ?thesis by simp
next
  case (Chunk dok sok now data s i project)
  with assms show ?thesis by (auto simp: report_chunk_def store_agrees_hit split: option.splits)
next
  case (Confirm port i)
  have "pf_store (confirm_listen port i m) = pf_store m" "rows_of (confirm_listen port i m) = rows_of m"
    by (auto simp: confirm_listen_def Let_def rows_of_def fun_eq_iff split: option.splits)
  moreover have "dp_port e = p" if "pf_ports (confirm_listen port i m) p = Some e" for p e
    using that assms(1) by (auto simp: confirm_listen_def Let_def store_agrees_def split: option.splits if_splits)
  ultimately show ?thesis using Confirm store_agrees_same [OF assms(1)] by simp
next
  case (ReportLost ok now port i)
  with assms store_agrees_lost show ?thesis by simp
qed (use assms in \<open>auto simp: register_session_def sync_ownerless_tunnel_ports_def confirm_ownerless_tunnel_listen_def
      report_ownerless_tunnel_lost_def store_agrees_def rows_of_def split: option.splits\<close>)

section \<open>Properties\<close>

text \<open>
  C22: Whatever the terminals print and the poller sees, the registry tracks at most a hundred ports, none
  of them privileged or on the list of dangerous ports, and each belongs to an incarnation of a
  terminal that is registered or was restored and has not ended.
\<close>

theorem tracked_ports_are_owned:
  "card (dom (pf_ports (foldl (port_step (scan_chunk lossy captures)) (port_init st) cs))) \<le> MAX_TRACKED_PORTS
   \<and> (\<forall>p e. pf_ports (foldl (port_step (scan_chunk lossy captures)) (port_init st) cs) p = Some e \<longrightarrow>
        1024 \<le> p \<and> p \<notin> set DANGER_PORTS \<and> owner e \<in> foldl open_step {} cs)"
  using registry_run [of cs lossy captures st]
  by (auto simp: registry_ok_def port_is_safe_def not_less split: if_splits)

text \<open>A terminal that prints a port.\<close>

definition demo_scan :: "string \<Rightarrow> u16 option" where
  "demo_scan = scan_chunk (\<lambda>x. x) (\<lambda>_. [Some ''5173''])"

definition demo_chunk :: port_call where
  "demo_chunk = Chunk True True 0 ''http://localhost:5173'' ''a'' 1 None"

definition demo_ports :: port_manager where
  "demo_ports = foldl (port_step demo_scan) (port_init None) [Register ''a'' 1, demo_chunk]"

lemma demo_scan_eq: "demo_scan data = Some 5173"
  by (simp add: demo_scan_def scan_chunk_def parse_u16_def parse_unsigned_def is_ascii_digit_def digits_value_def port_is_safe_def
      DANGER_PORTS_def)

lemma demo_owner: "owner_for_port 5173 demo_ports = Some (''a'', 1)"
  by (simp add: demo_ports_def demo_chunk_def report_chunk_def demo_scan_eq report_stdout_hit_def register_session_def
      port_init_def port_manager_new_def enable_session_validation_def owner_for_port_def MAX_TRACKED_PORTS_def Let_def)

theorem tracked_ports_are_owned_witness:
  "owner_for_port 5173 demo_ports = Some (''a'', 1)
   \<and> (''a'', 1) \<in> foldl open_step {} [Register ''a'' 1, demo_chunk] \<and> card (dom (pf_ports demo_ports)) \<le> 100"
proof -
  obtain e where e: "pf_ports demo_ports 5173 = Some e" "owner e = (''a'', 1)"
    using demo_owner by (auto simp: owner_for_port_def)
  show ?thesis
    using tracked_ports_are_owned [of "\<lambda>x. x" "\<lambda>_. [Some ''5173'']" None "[Register ''a'' 1, demo_chunk]"] e demo_owner
    unfolding demo_ports_def demo_scan_def MAX_TRACKED_PORTS_def by metis
qed

text \<open>
  C23: When an incarnation of a terminal ends, its ports go and never come back: late reports of its
  reader are rejected, whatever else happens, until the same incarnation is registered or restored.
\<close>

theorem ended_session_owns_nothing:
  assumes "list_all (\<lambda>c. \<not> reopens s i c) cs'"
  shows "owner_for_port p (foldl (port_step (scan_chunk lossy captures)) (port_init st) (cs @ Unregister ok s i # cs'))
    \<noteq> Some (s, i)"
proof -
  let ?os = "foldl open_step {} (cs @ Unregister ok s i # cs')"
  have "(s, i) \<notin> ?os" using closed_stays_closed [OF _ assms] by simp
  then show ?thesis using registry_ok_owner [OF registry_run] by blast
qed

theorem ended_session_owns_nothing_witness:
  "owner_for_port 5173 demo_ports = Some (''a'', 1)
   \<and> owner_for_port 5173 (port_step demo_scan (port_step demo_scan demo_ports (Unregister True ''a'' 1)) demo_chunk)
     \<noteq> Some (''a'', 1)"
proof -
  have "owner_for_port 5173 demo_ports = Some (''a'', 1)" by (rule demo_owner)
  moreover have "list_all (\<lambda>c. \<not> reopens ''a'' 1 c) [demo_chunk]" by (simp add: demo_chunk_def)
  from ended_session_owns_nothing [OF this, of 5173 "\<lambda>x. x" "\<lambda>_. [Some ''5173'']" None "[Register ''a'' 1, demo_chunk]" True]
  have "owner_for_port 5173 (port_step demo_scan (port_step demo_scan demo_ports (Unregister True ''a'' 1)) demo_chunk)
     \<noteq> Some (''a'', 1)"
    by (simp add: demo_ports_def demo_scan_def)
  ultimately show ?thesis by blast
qed

text \<open>
  The table of detected ports in the database is the registry: as long as its statements succeed
  and no session was removed, it has a row for a session and a port exactly when the session owns the
  port, with the incarnation of the owner.
\<close>

lemma persisted_ports_are_tracked:
  assumes "list_all store_call_ok cs"
    and "st_rows st = Map.empty" and "st_removals st = Map.empty"
  shows "\<exists>st'. pf_store (foldl (port_step (scan_chunk lossy captures)) (port_init (Some st)) cs) = Some st'
    \<and> (\<forall>k. row_incs st' k = rows_of (foldl (port_step (scan_chunk lossy captures)) (port_init (Some st)) cs) k)"
proof -
  have "store_agrees (port_init (Some st))"
    using assms(2,3) by (simp add: store_agrees_def port_init_def enable_session_validation_def port_manager_new_def
        row_incs_def rows_of_def split_def)
  then have "store_agrees (foldl (port_step (scan_chunk lossy captures)) (port_init (Some st)) cs)"
    using assms(1) by (induction cs rule: rev_induct) (auto intro: store_agrees_step)
  then show ?thesis by (auto simp: store_agrees_def)
qed

section \<open>A round of the poller\<close>

text \<open>What the round makes of an entry.\<close>

definition polled :: "u16 set \<Rightarrow> nat \<Rightarrow> u16 \<Rightarrow> detected_port \<Rightarrow> detected_port option" where
  "polled listening now port e =
     (if port \<in> listening then
        Some (if dp_state e = Provisional
              then e\<lparr>dp_state := Listening, dp_detected_via := ProcNet, dp_provisional_until := None\<rparr> else e)
      else if dp_state e = Provisional \<and> is_in_grace now e then Some e else None)"

lemma poll_port_ports:
  "pf_ports (poll_port listening ok now m (port, i)) =
     (case pf_ports m port of
        Some e \<Rightarrow> if dp_incarnation e = i then (pf_ports m)(port := polled listening now port e) else pf_ports m
      | None \<Rightarrow> pf_ports m)"
  by (auto simp: poll_port_def confirm_listen_def report_lost_def polled_def Let_def fun_upd_idem split: option.splits)

lemma poll_ports_known:
  assumes "distinct (map fst known)"
  shows "pf_ports (foldl (poll_port listening ok now) m known) port =
     (case map_of known port of
        Some i \<Rightarrow> (case pf_ports m port of
            Some e \<Rightarrow> if dp_incarnation e = i then polled listening now port e else Some e
          | None \<Rightarrow> None)
      | None \<Rightarrow> pf_ports m port)"
  using assms
proof (induction known arbitrary: m)
  case (Cons k ks)
  obtain p i where k: "k = (p, i)" by (cases k)
  have "map_of ks p = None" using Cons.prems by (simp add: k map_of_eq_None_iff)
  with Cons show ?case by (auto simp: k poll_port_ports split: option.splits)
qed simp

lemma poll_ownerless_ports [simp]:
  "pf_ports (snd (foldl (poll_ownerless listening) x os)) = pf_ports (snd x)"
proof (induction os arbitrary: x)
  case (Cons k ks)
  have "pf_ports (snd (poll_ownerless listening x k)) = pf_ports (snd x)"
    by (auto simp: poll_ownerless_def confirm_ownerless_tunnel_listen_def report_ownerless_tunnel_lost_def split: prod.splits option.splits)
  then show ?case by (simp add: Cons)
qed simp

lemma sync_ownerless_ports [simp]: "pf_ports (sync_ownerless_tunnel_ports active m) = pf_ports m"
  by (simp add: sync_ownerless_tunnel_ports_def)

text \<open>
  A round of the poller that nothing interrupts brings every entry of the registry up to date in one
  step: a port that listens is confirmed, and any other is removed unless it was restored and its grace
  period runs; no entry is overlooked, whatever the order of the hash map.
\<close>

lemma poll_round_updates_ports:
  assumes "is_snapshot m known"
  shows "pf_ports (snd (linux_poll_round listening ok now known active ownerless m)) port =
     Option.bind (pf_ports m port) (polled listening now port)"
proof (cases "pf_ports m port")
  case None
  then have "map_of known port = None" using assms by (force simp: is_snapshot_def map_of_eq_None_iff)
  with None assms show ?thesis by (simp add: linux_poll_round_def poll_ports_known is_snapshot_def)
next
  case (Some e)
  then have "(port, dp_incarnation e) \<in> set known" using assms by (auto simp: is_snapshot_def)
  then have "map_of known port = Some (dp_incarnation e)" using assms by (simp add: is_snapshot_def)
  with Some assms show ?thesis by (simp add: linux_poll_round_def poll_ports_known is_snapshot_def)
qed

text \<open>A tunnel without an owner is stopped by the poller only after its port was seen listening.\<close>

lemma poll_ownerless_stops:
  assumes "tid \<in> fst (foldl (poll_ownerless listening) (S, m) os)" and "tid \<notin> S"
  shows "\<exists>port. (tid, port, True) \<in> set os \<and> port \<notin> listening"
  using assms
proof (induction os arbitrary: S m)
  case (Cons k ks)
  obtain t p b where k: "k = (t, p, b)" by (cases k)
  obtain S' m' where st: "poll_ownerless listening (S, m) k = (S', m')" by fastforce
  show ?case
  proof (cases "tid \<in> S'")
    case True
    with st Cons.prems(2) show ?thesis by (auto simp: k poll_ownerless_def split: if_splits prod.splits)
  next
    case False
    with Cons st show ?thesis by fastforce
  qed
qed simp

lemma poll_ports_ownerless: "pf_ownerless (foldl (poll_port listening ok now) m known) = pf_ownerless m"
proof (induction known arbitrary: m)
  case (Cons k ks)
  have "pf_ownerless (poll_port listening ok now m k) = pf_ownerless m"
    by (auto simp: poll_port_def confirm_listen_def report_lost_def Let_def split: prod.splits option.splits)
  then show ?case by (simp add: Cons)
qed simp

lemma ownerless_stop_was_observed:
  assumes "tid \<in> fst (linux_poll_round listening ok now known active ownerless m)"
    and "ownerless_snapshot (sync_ownerless_tunnel_ports active (foldl (poll_port listening ok now) m known)) ownerless"
  shows "\<exists>e. pf_ownerless m tid = Some e \<and> ow_observed_listen e \<and> ow_port e \<notin> listening"
proof -
  obtain port where port: "(tid, port, True) \<in> set ownerless" "port \<notin> listening"
    using poll_ownerless_stops assms(1) unfolding linux_poll_round_def by blast
  with assms(2) obtain e where e: "pf_ownerless (sync_ownerless_tunnel_ports active (foldl (poll_port listening ok now) m known)) tid = Some e"
    "ow_port e = port" "ow_observed_listen e" by (auto simp: ownerless_snapshot_def)
  then have "pf_ownerless m tid = Some e"
    by (auto simp: sync_ownerless_tunnel_ports_def poll_ports_ownerless split: option.splits)
  with e port show ?thesis by blast
qed

section \<open>Restored ports\<close>

lemma seed_loop_prunes:
  assumes "list_all (\<lambda>p. (pp_session_id p, pp_incarnation p) \<notin> live) ps"
  shows "fst (seed_loop ok now live ps (n, m)) = n \<and> pf_ports (snd (seed_loop ok now live ps (n, m))) = pf_ports m"
  using assms by (induction ps arbitrary: m) (auto simp: seed_entry_def)

lemma unat_advance_past:
  assumes "unat maximum < 2 ^ 63 - 1"
  shows "maximum < advance_past (Some maximum) next_incarnation"
proof -
  have "unat (saturating_add maximum 1) = unat maximum + 1"
    using assms by (simp add: unat_saturating_add)
  moreover have "unat ((2 :: u64) ^ 63 - 1) = 2 ^ 63 - 1" by simp
  ultimately have "maximum < min (saturating_add maximum 1) (2 ^ 63 - 1)"
    using assms by (simp add: word_less_nat_alt min_def)
  then show ?thesis by (simp add: advance_past_def less_max_iff_disj)
qed

text \<open>
  The restoring of ports restores none: a terminal that is relaunched after a restart has an
  incarnation beyond every persisted one, so no row of the database belongs to a live terminal.
\<close>

lemma restored_ports_never_seeded:
  assumes "unat maximum < 2 ^ 63 - 1"
    and "\<And>p. p \<in> set ps \<Longrightarrow> pp_incarnation p \<le> maximum"
    and "\<And>s i. (s, i) \<in> set live \<Longrightarrow> advance_past (Some maximum) next_incarnation \<le> i"
  shows "fst (seed_persisted_candidates ok now live (Some ps) m) = 0
    \<and> pf_ports (snd (seed_persisted_candidates ok now live (Some ps) m)) = pf_ports m"
proof -
  have "(pp_session_id p, pp_incarnation p) \<notin> set live" if "p \<in> set ps" for p
    using assms(2) [OF that] assms(3) unat_advance_past [OF assms(1), of next_incarnation] by (meson leD order.trans)
  then have "list_all (\<lambda>p. (pp_session_id p, pp_incarnation p) \<notin> set live) ps" by (simp add: list_all_iff)
  from seed_loop_prunes [OF this, of ok now 0 m] show ?thesis
    by (auto simp: seed_persisted_candidates_def split: option.splits)
qed

end
