(* ===== verification/Tunnel_System.thy ===== *)
theory Tunnel_System
  imports Tunnel_Manager
begin

text \<open>
  All interleavings of the tasks of the tunnel manager: creators that wait for their driver, watchers of
  drivers, stop requests and the shutdown. A rule of \<open>tunnel_step\<close> is one stretch of \<open>Tunnel_Manager\<close>;
  its premises say which task can run it. A UUID is never generated twice.
\<close>

section \<open>Tasks\<close>

text \<open>
  A creator is in \<open>driver.start\<close> or has installed its handle; a watcher receives events, has left its
  loop, or has dropped the handle.
\<close>

datatype creator = InDriver tunnel_session | Installed tunnel_session "u32 option"

datatype watcher = Receiving | Leaving | HandleDropped

datatype dispose_phase = Serving | Begun | Collected | Finished | Disposed

record tunnel_system =
  sy_manager :: tunnel_manager
  sy_creators :: "uuid \<rightharpoonup> creator"
  sy_watchers :: "uuid \<rightharpoonup> watcher"
  sy_used :: "uuid set"
  sy_started :: "uuid set"
  sy_dispose :: dispose_phase

definition tunnel_system_init :: tunnel_system where
  "tunnel_system_init =
     \<lparr> sy_manager = tunnel_manager_new, sy_creators = Map.empty, sy_watchers = Map.empty, sy_used = {},
       sy_started = {}, sy_dispose = Serving \<rparr>"

inductive tunnel_step :: "tunnel_system \<Rightarrow> tunnel_system \<Rightarrow> bool" where
  Admit: "tid \<notin> sy_used y \<Longrightarrow> s = new_session tid port label owner driver now \<Longrightarrow>
    admit s (sy_manager y) = (Inr (), m) \<Longrightarrow>
    tunnel_step y (y\<lparr>sy_manager := m, sy_creators := (sy_creators y)(tid \<mapsto> InDriver s),
                     sy_used := insert tid (sy_used y)\<rparr>)"
| StartFailed: "sy_creators y tid = Some (InDriver s) \<Longrightarrow>
    tunnel_step y (y\<lparr>sy_manager := start_failed tid (sy_manager y), sy_creators := (sy_creators y)(tid := None)\<rparr>)"
| StartCancelled: "sy_creators y tid = Some (InDriver s) \<Longrightarrow>
    start_returned tid handle (sy_manager y) = (False, m) \<Longrightarrow>
    tunnel_step y (y\<lparr>sy_manager := m, sy_creators := (sy_creators y)(tid := None),
                     sy_started := insert tid (sy_started y)\<rparr>)"
| StartInstalled: "sy_creators y tid = Some (InDriver s) \<Longrightarrow>
    start_returned tid handle (sy_manager y) = (True, m) \<Longrightarrow>
    tunnel_step y (y\<lparr>sy_manager := m, sy_creators := (sy_creators y)(tid \<mapsto> Installed s (dh_pid handle)),
                     sy_started := insert tid (sy_started y)\<rparr>)"
| Announce: "sy_creators y tid = Some (Installed s pid) \<Longrightarrow>
    tunnel_step y (y\<lparr>sy_manager := announce_created s pid (sy_manager y),
                     sy_creators := (sy_creators y)(tid := None), sy_watchers := (sy_watchers y)(tid \<mapsto> Receiving)\<rparr>)"
| Stop: "tunnel_step y (y\<lparr>sy_manager := snd (tunnel_stop tid (sy_manager y))\<rparr>)"
| WatchEvent: "sy_watchers y tid = Some Receiving \<Longrightarrow> watch_event tid ev (sy_manager y) = (goes_on, m) \<Longrightarrow>
    tunnel_step y (y\<lparr>sy_manager := m,
                     sy_watchers := (sy_watchers y)(tid \<mapsto> (if goes_on then Receiving else Leaving))\<rparr>)"
| ChannelClosed: "sy_watchers y tid = Some Receiving \<Longrightarrow>
    tunnel_step y (y\<lparr>sy_watchers := (sy_watchers y)(tid \<mapsto> Leaving)\<rparr>)"
| DropHandle: "sy_watchers y tid = Some Leaving \<Longrightarrow>
    tunnel_step y (y\<lparr>sy_manager := drop_handle tid (sy_manager y),
                     sy_watchers := (sy_watchers y)(tid \<mapsto> HandleDropped)\<rparr>)"
| DropSession: "sy_watchers y tid = Some HandleDropped \<Longrightarrow>
    tunnel_step y (y\<lparr>sy_manager := drop_tunnel_session tid (sy_manager y),
                     sy_watchers := (sy_watchers y)(tid := None)\<rparr>)"
| DisposeBegin: "sy_dispose y = Serving \<Longrightarrow>
    tunnel_step y (y\<lparr>sy_manager := dispose_begin (sy_manager y), sy_dispose := Begun\<rparr>)"
| DisposeCollect: "sy_dispose y = Begun \<Longrightarrow>
    tunnel_step y (y\<lparr>sy_manager := dispose_collect (sy_manager y), sy_dispose := Collected\<rparr>)"
| DisposeFinish: "sy_dispose y = Collected \<Longrightarrow> tm_in_flight_starts (sy_manager y) = 0 \<Longrightarrow>
    tunnel_step y (y\<lparr>sy_manager := dispose_finish (sy_manager y), sy_dispose := Finished\<rparr>)"
| DisposeClear: "sy_dispose y = Finished \<Longrightarrow>
    tunnel_step y (y\<lparr>sy_manager := dispose_clear (sy_manager y), sy_dispose := Disposed\<rparr>)"

section \<open>Invariants\<close>

definition keyed :: "(uuid \<rightharpoonup> tunnel_session) \<Rightarrow> bool" where
  "keyed m \<longleftrightarrow> (\<forall>tid s. m tid = Some s \<longrightarrow> ts_id s = tid)"

definition ports_unique :: "(uuid \<rightharpoonup> tunnel_session) \<Rightarrow> bool" where
  "ports_unique m \<longleftrightarrow>
     (\<forall>a b s t. m a = Some s \<longrightarrow> m b = Some t \<longrightarrow> is_active s \<longrightarrow> is_active t \<longrightarrow> ts_port s = ts_port t \<longrightarrow> a = b)"

text \<open>A task that can still make its session active has an active session, or none.\<close>

definition may_activate :: "tunnel_system \<Rightarrow> uuid \<Rightarrow> bool" where
  "may_activate y tid \<longleftrightarrow> sy_creators y tid \<noteq> None \<or> sy_watchers y tid = Some Receiving"

definition tasks_active :: "tunnel_system \<Rightarrow> bool" where
  "tasks_active y \<longleftrightarrow>
     (\<forall>tid s. may_activate y tid \<longrightarrow> tm_sessions (sy_manager y) tid = Some s \<longrightarrow> is_active s)"

text \<open>An identifier that was not generated is nowhere, and a tunnel has one task.\<close>

definition unknown :: "tunnel_system \<Rightarrow> uuid \<Rightarrow> bool" where
  "unknown y tid \<longleftrightarrow>
     tm_sessions (sy_manager y) tid = None \<and> tm_handles (sy_manager y) tid = None
     \<and> tid \<notin> tm_pending_stops (sy_manager y) \<and> sy_creators y tid = None \<and> sy_watchers y tid = None
     \<and> tid \<notin> sy_started y"

definition ids_ok :: "tunnel_system \<Rightarrow> bool" where
  "ids_ok y \<longleftrightarrow>
     (\<forall>tid. tid \<notin> sy_used y \<longrightarrow> unknown y tid) \<and> (\<forall>tid. sy_creators y tid \<noteq> None \<longrightarrow> sy_watchers y tid = None)"

definition counted :: "tunnel_system \<Rightarrow> bool" where
  "counted y \<longleftrightarrow> finite (dom (sy_creators y)) \<and> tm_in_flight_starts (sy_manager y) = card (dom (sy_creators y))"

text \<open>A starting tunnel is in the table or marked to be stopped; it has no handle yet.\<close>

definition starting_ok :: "tunnel_system \<Rightarrow> bool" where
  "starting_ok y \<longleftrightarrow>
     (\<forall>tid s. sy_creators y tid = Some (InDriver s) \<longrightarrow>
        (tm_sessions (sy_manager y) tid \<noteq> None \<or> tid \<in> tm_pending_stops (sy_manager y))
        \<and> tm_handles (sy_manager y) tid = None \<and> tid \<notin> sy_started y)"

text \<open>A driver that was started can be reached through its handle, or has been told to stop.\<close>

definition no_orphan :: "tunnel_system \<Rightarrow> bool" where
  "no_orphan y \<longleftrightarrow> sy_started y \<subseteq> dom (tm_handles (sy_manager y)) \<union> tm_released (sy_manager y)"

definition shutdown_ok :: "tunnel_system \<Rightarrow> bool" where
  "shutdown_ok y \<longleftrightarrow>
     (tm_disposing (sy_manager y) \<longleftrightarrow> sy_dispose y \<noteq> Serving)
     \<and> (sy_dispose y \<in> {Collected, Finished, Disposed} \<longrightarrow>
          tm_sessions (sy_manager y) = Map.empty \<and> tm_handles (sy_manager y) = Map.empty)
     \<and> (sy_dispose y \<in> {Finished, Disposed} \<longrightarrow> sy_creators y = Map.empty)"

definition tunnel_inv :: "tunnel_system \<Rightarrow> bool" where
  "tunnel_inv y \<longleftrightarrow>
     keyed (tm_sessions (sy_manager y)) \<and> ports_unique (tm_sessions (sy_manager y)) \<and> tasks_active y \<and> ids_ok y
     \<and> counted y \<and> starting_ok y \<and> no_orphan y \<and> shutdown_ok y"

section \<open>Effects on the tables\<close>

lemma admit_iff:
  "admit s m = (Inr (), m') \<longleftrightarrow> \<not> tm_disposing m \<and> \<not> port_taken (ts_port s) (tm_sessions m) \<and>
     m' = m\<lparr>tm_sessions := (tm_sessions m)(ts_id s \<mapsto> s), tm_in_flight_starts := tm_in_flight_starts m + 1\<rparr>"
  by (auto simp: admit_def)

lemma start_returned_cancelled:
  "start_returned tid handle m = (False, m') \<longleftrightarrow> tid \<in> tm_pending_stops m \<and>
     m' = m\<lparr>tm_pending_stops := tm_pending_stops m - {tid}, tm_sessions := (tm_sessions m)(tid := None),
            tm_released := insert tid (tm_released m), tm_in_flight_starts := tm_in_flight_starts m - 1\<rparr>"
  by (auto simp: start_returned_def release_def finish_start_def)

lemma start_returned_installed:
  assumes "start_returned tid handle m = (True, m')"
  obtains f where "tid \<notin> tm_pending_stops m" "\<And>s. ts_id (f s) = ts_id s" "\<And>s. ts_status (f s) = ts_status s"
    "\<And>s. ts_port (f s) = ts_port s"
    "m' = m\<lparr>tm_handles := (tm_handles m)(tid \<mapsto> handle),
            tm_sessions := (tm_sessions m)(tid := map_option f (tm_sessions m tid))\<rparr>"
proof -
  have "m' = m\<lparr>tm_handles := (tm_handles m)(tid \<mapsto> handle), tm_sessions := (tm_sessions m)(tid :=
      map_option (\<lambda>s. if dh_pid handle = None then s else s\<lparr>ts_pid := dh_pid handle\<rparr>) (tm_sessions m tid))\<rparr>"
    "tid \<notin> tm_pending_stops m"
    using assms
    by (cases m, auto simp: start_returned_def fun_upd_idem option.map_ident split: if_splits option.splits)
  then show thesis by (intro that) auto
qed

lemma watch_event_effect:
  assumes "watch_event tid ev m = (goes_on, m')"
  obtains f bs where "\<And>s. ts_id (f s) = ts_id s" "\<And>s. ts_port (f s) = ts_port s"
    "\<And>s. is_active s \<Longrightarrow> goes_on \<Longrightarrow> is_active (f s)" "\<And>s. is_active (f s) \<Longrightarrow> goes_on \<or> is_active s"
    "m' = m\<lparr>tm_sessions := (tm_sessions m)(tid := map_option f (tm_sessions m tid)),
            tm_broadcasts := tm_broadcasts m @ bs\<rparr>"
proof (cases ev)
  case (UrlReady url)
  with assms show thesis
    by (intro that [of "\<lambda>s. s\<lparr>ts_status := TunnelReady, ts_url := Some url\<rparr>" "[BReady tid url]"])
      (auto simp: watch_event_def broadcast_def update_session_def is_active_def fun_upd_idem split: option.splits)
next
  case (Failed msg)
  with assms show thesis
    by (intro that [of "\<lambda>s. s\<lparr>ts_status := TunnelFailed, ts_error := Some msg\<rparr>" "[BFailed tid msg]"])
      (auto simp: watch_event_def broadcast_def update_session_def is_active_def fun_upd_idem split: option.splits)
next
  case Exited
  with assms show thesis
    by (intro that [of "\<lambda>s. if is_active s then s\<lparr>ts_status := TunnelStopped\<rparr> else s"
          "if \<exists>s. tm_sessions m tid = Some s \<and> is_active s then [BStopped tid] else []"])
      (auto simp: watch_event_def broadcast_def update_session_def is_active_def fun_upd_idem split: option.splits if_splits)
qed

lemma new_session_sel [simp]:
  "ts_id (new_session tid port label owner driver now) = tid"
  "ts_port (new_session tid port label owner driver now) = port"
  "is_active (new_session tid port label owner driver now)"
  "ts_session_id (new_session tid port label owner driver now) = map_option fst owner"
  "ts_incarnation (new_session tid port label owner driver now) = map_option snd owner"
  by (simp_all add: new_session_def is_active_def)


lemmas task_defs = start_failed_def announce_created_def finish_start_def broadcast_def release_def tunnel_stop_def
  drop_handle_def drop_tunnel_session_def dispose_begin_def dispose_collect_def dispose_finish_def dispose_clear_def
  Let_def admit_iff start_returned_cancelled

section \<open>Preservation\<close>

lemma keyed_step: "tunnel_step y z \<Longrightarrow> keyed (tm_sessions (sy_manager y)) \<Longrightarrow> keyed (tm_sessions (sy_manager z))"
  unfolding keyed_def
  by (induction rule: tunnel_step.induct)
    (auto simp: task_defs elim!: start_returned_installed watch_event_effect split: if_splits)

lemma ids_ok_step: "tunnel_step y z \<Longrightarrow> ids_ok y \<Longrightarrow> ids_ok z"
  unfolding ids_ok_def unknown_def
  by (induction rule: tunnel_step.induct)
    (auto simp: task_defs elim!: start_returned_installed watch_event_effect split: if_splits)

lemma card_dom_update:
  fixes m :: "uuid \<rightharpoonup> 'b"
  shows "m k = Some v \<Longrightarrow> card (insert k (dom m)) = card (dom m)"
    "m k = Some v \<Longrightarrow> card (dom m - {k}) = card (dom m) - Suc 0"
    "m k = None \<Longrightarrow> card (insert k (dom m)) = Suc (card (dom m))"
  by (auto simp: card_Diff_singleton card_insert_if domI domIff)

lemma counted_step: "tunnel_step y z \<Longrightarrow> counted y \<Longrightarrow> ids_ok y \<Longrightarrow> counted z"
  unfolding counted_def
  by (induction rule: tunnel_step.induct)
    (auto simp: task_defs card_dom_update ids_ok_def unknown_def
      elim!: start_returned_installed watch_event_effect split: if_splits)

lemma starting_ok_step:
  "tunnel_step y z \<Longrightarrow> starting_ok y \<Longrightarrow> ids_ok y \<Longrightarrow> counted y \<Longrightarrow> shutdown_ok y \<Longrightarrow> starting_ok z"
proof (induction rule: tunnel_step.induct)
  case (Admit tid y)
  then show ?case by (auto simp: starting_ok_def ids_ok_def unknown_def task_defs)
next
  case (StartInstalled y tid s handle m)
  then show ?case by (auto simp: starting_ok_def elim!: start_returned_installed)
next
  case (WatchEvent y tid ev goes_on m)
  then show ?case by (auto simp: starting_ok_def simp del: not_None_eq elim!: watch_event_effect split: if_splits)
next
  case (DropSession y tid)
  then show ?case by (auto simp: starting_ok_def ids_ok_def task_defs)
next
  case (DisposeFinish y)
  then show ?case by (auto simp: starting_ok_def counted_def)
next
  case (DisposeClear y)
  then show ?case by (auto simp: starting_ok_def shutdown_ok_def)
qed (auto simp: starting_ok_def task_defs)

lemma no_orphan_step: "tunnel_step y z \<Longrightarrow> no_orphan y \<Longrightarrow> no_orphan z"
  unfolding no_orphan_def
  by (induction rule: tunnel_step.induct)
    (auto simp: task_defs elim!: start_returned_installed watch_event_effect split: if_splits)

lemma shutdown_ok_step:
  "tunnel_step y z \<Longrightarrow> shutdown_ok y \<Longrightarrow> starting_ok y \<Longrightarrow> counted y \<Longrightarrow> shutdown_ok z"
  unfolding shutdown_ok_def
  by (induction rule: tunnel_step.induct)
    (auto simp: task_defs starting_ok_def counted_def elim!: start_returned_installed watch_event_effect split: if_splits)

lemma is_active_status: "ts_status (f s) = ts_status s \<Longrightarrow> is_active (f s) = is_active s"
  by (simp add: is_active_def)

lemma tasks_activeD:
  "tasks_active y \<Longrightarrow> tm_sessions (sy_manager y) k = Some t \<Longrightarrow> sy_creators y k \<noteq> None \<or> sy_watchers y k = Some Receiving
    \<Longrightarrow> is_active t"
  unfolding tasks_active_def may_activate_def by blast

lemma tasks_active_step: "tunnel_step y z \<Longrightarrow> tasks_active y \<Longrightarrow> ids_ok y \<Longrightarrow> tasks_active z"
proof (induction rule: tunnel_step.induct)
  case (StartInstalled y tid s handle m)
  from StartInstalled(2) obtain f where "tid \<notin> tm_pending_stops (sy_manager y)" "\<And>s. ts_id (f s) = ts_id s"
    and f: "\<And>s. ts_status (f s) = ts_status s" and "\<And>s. ts_port (f s) = ts_port s"
    and m: "m = (sy_manager y)\<lparr>tm_handles := (tm_handles (sy_manager y))(tid \<mapsto> handle),
      tm_sessions := (tm_sessions (sy_manager y))(tid := map_option f (tm_sessions (sy_manager y) tid))\<rparr>"
    by (rule start_returned_installed) (rule that)
  from StartInstalled(1) f tasks_activeD [OF StartInstalled(3)] show ?case
    by (auto simp: tasks_active_def may_activate_def m is_active_status split: if_splits)
next
  case (WatchEvent y tid ev goes_on m)
  then have "sy_creators y tid = None" by (auto simp: ids_ok_def)
  with WatchEvent(1,2) tasks_activeD [OF WatchEvent(3)] show ?case
    by (auto simp: tasks_active_def may_activate_def elim!: watch_event_effect split: if_splits)
qed (auto simp: tasks_active_def may_activate_def task_defs split: if_splits)

lemma ports_unique_subset:
  "ports_unique m \<Longrightarrow> (\<And>k s. m' k = Some s \<Longrightarrow> is_active s \<Longrightarrow>
     \<exists>t. m k = Some t \<and> is_active t \<and> ts_port t = ts_port s) \<Longrightarrow> ports_unique m'"
  unfolding ports_unique_def by metis

lemma ports_unique_insert:
  assumes "ports_unique m" "\<not> port_taken (ts_port s) m"
  shows "ports_unique (m(k \<mapsto> s))"
  using assms unfolding ports_unique_def port_taken_def ran_def by (auto split: if_splits)

lemma ports_unique_step:
  "tunnel_step y z \<Longrightarrow> ports_unique (tm_sessions (sy_manager y)) \<Longrightarrow> tasks_active y
    \<Longrightarrow> ports_unique (tm_sessions (sy_manager z))"
proof (induction rule: tunnel_step.induct)
  case (Admit tid y s)
  then show ?case using ports_unique_insert [of "tm_sessions (sy_manager y)" s tid] by (simp add: task_defs fun_upd_def)
next
  case (StartInstalled y tid s handle m)
  from StartInstalled(2,3) show ?case
    by (auto simp: is_active_status elim!: start_returned_installed ports_unique_subset split: if_splits)
next
  case (WatchEvent y tid ev goes_on m)
  from WatchEvent show ?case
    by (auto simp: tasks_active_def may_activate_def elim!: watch_event_effect elim!: ports_unique_subset split: if_splits)
qed (auto simp: task_defs elim!: ports_unique_subset split: if_splits)

lemmas tunnel_inv_parts = keyed_step ports_unique_step tasks_active_step ids_ok_step counted_step starting_ok_step
  no_orphan_step shutdown_ok_step

lemma tunnel_inv_init: "tunnel_inv tunnel_system_init"
  by (simp add: tunnel_inv_def tunnel_system_init_def tunnel_manager_new_def keyed_def ports_unique_def tasks_active_def
      ids_ok_def unknown_def counted_def starting_ok_def no_orphan_def shutdown_ok_def)

interpretation tunnels: step_relation tunnel_step tunnel_inv
  by unfold_locales (auto simp: tunnel_inv_def intro: tunnel_inv_parts)

lemma reachable_inv: "tunnel_step\<^sup>*\<^sup>* tunnel_system_init y \<Longrightarrow> tunnel_inv y"
  using tunnel_inv_init by (rule tunnels.safe_reachable [rotated])

section \<open>Properties\<close>

text \<open>
  C17: In every state the tasks of the server can reach, at most one tunnel that is starting or ready
  exposes a port, and every driver that was started either has its handle in the table, so that it
  can be stopped, or has been told to stop.
\<close>

theorem tunnels_never_orphaned:
  assumes "tunnel_step\<^sup>*\<^sup>* tunnel_system_init y"
  shows "ports_unique (tm_sessions (sy_manager y))
    \<and> sy_started y \<subseteq> dom (tm_handles (sy_manager y)) \<union> tm_released (sy_manager y)"
  using reachable_inv [OF assms] by (simp add: tunnel_inv_def no_orphan_def)

text \<open>
  C20: When the shutdown is over no creation is in progress, no tunnel and no handle is left, every
  driver that was ever started has been told to stop, and this stays so whatever is requested later.
\<close>

theorem shutdown_leaves_no_tunnel:
  assumes "tunnel_step\<^sup>*\<^sup>* tunnel_system_init y" and "sy_dispose y = Disposed" and "tunnel_step\<^sup>*\<^sup>* y z"
  shows "sy_creators z = Map.empty \<and> tm_sessions (sy_manager z) = Map.empty \<and> tm_handles (sy_manager z) = Map.empty
    \<and> sy_started z \<subseteq> tm_released (sy_manager z)"
proof -
  have "sy_dispose z = Disposed"
    using assms(3,2) by (induction rule: rtranclp_induct) (auto elim: tunnel_step.cases)
  moreover have "tunnel_inv z" using reachable_inv assms(1,3) by (metis rtranclp_trans)
  ultimately show ?thesis by (auto simp: tunnel_inv_def no_orphan_def shutdown_ok_def)
qed

text \<open>A creation that was cancelled, until its task is gone.\<close>

definition cancelled :: "uuid \<Rightarrow> tunnel_system \<Rightarrow> bool" where
  "cancelled tid y \<longleftrightarrow> tunnel_inv y \<and> tid \<in> sy_used y \<and> tm_handles (sy_manager y) tid = None \<and> sy_watchers y tid = None
     \<and> tm_sessions (sy_manager y) tid = None
     \<and> (case sy_creators y tid of None \<Rightarrow> True | Some (InDriver s) \<Rightarrow> tid \<in> tm_pending_stops (sy_manager y)
        | Some (Installed s p) \<Rightarrow> False)"

lemma cancelled_step: "cancelled tid y \<Longrightarrow> tunnel_step y z \<Longrightarrow> cancelled tid z"
proof -
  assume c: "cancelled tid y" and st: "tunnel_step y z"
  then have "tunnel_inv z" "tunnel_inv y" using tunnels.safe_step by (auto simp: cancelled_def)
  moreover from st c have "tid \<in> sy_used z \<and> tm_handles (sy_manager z) tid = None \<and> sy_watchers z tid = None
     \<and> tm_sessions (sy_manager z) tid = None
     \<and> (case sy_creators z tid of None \<Rightarrow> True | Some (InDriver s) \<Rightarrow> tid \<in> tm_pending_stops (sy_manager z)
        | Some (Installed s p) \<Rightarrow> False)"
  proof (induction rule: tunnel_step.induct)
    case (StartInstalled y t s handle m)
    then show ?case
      by (auto simp: cancelled_def elim!: start_returned_installed split: option.splits creator.splits)
  next
    case (WatchEvent y t ev goes_on m)
    then show ?case
      by (auto simp: cancelled_def elim!: watch_event_effect split: option.splits creator.splits)
  next
    case (DisposeFinish y)
    then show ?case
      by (auto simp: cancelled_def tunnel_inv_def counted_def task_defs split: option.splits creator.splits)
  qed (auto simp: cancelled_def task_defs split: option.splits creator.splits)
  ultimately show ?thesis by (simp add: cancelled_def)
qed

interpretation cancelled_tunnel: step_relation tunnel_step "cancelled tid" for tid
  by unfold_locales (rule cancelled_step)

text \<open>
  C21: Stopping a tunnel whose driver is still starting is never lost: whatever runs afterwards, the
  tunnel does not come back, and a driver that does start is told to stop.
\<close>

theorem stop_while_starting_wins:
  assumes "tunnel_step\<^sup>*\<^sup>* tunnel_system_init y" and "sy_creators y tid = Some (InDriver s)"
    and "tunnel_step\<^sup>*\<^sup>* (y\<lparr>sy_manager := snd (tunnel_stop tid (sy_manager y))\<rparr>) z"
  shows "tm_sessions (sy_manager z) tid = None \<and> tm_handles (sy_manager z) tid = None
    \<and> (tid \<in> sy_started z \<longrightarrow> tid \<in> tm_released (sy_manager z))"
proof -
  have inv: "tunnel_inv y" by (rule reachable_inv [OF assms(1)])
  then have st: "tm_handles (sy_manager y) tid = None" "sy_watchers y tid = None" "tid \<in> sy_used y"
    "tm_sessions (sy_manager y) tid \<noteq> None \<or> tid \<in> tm_pending_stops (sy_manager y)"
    using assms(2) unfolding tunnel_inv_def starting_ok_def ids_ok_def unknown_def by fastforce+
  moreover have "tunnel_inv (y\<lparr>sy_manager := snd (tunnel_stop tid (sy_manager y))\<rparr>)"
    using inv tunnels.safe_step tunnel_step.Stop by blast
  ultimately have "cancelled tid (y\<lparr>sy_manager := snd (tunnel_stop tid (sy_manager y))\<rparr>)"
    using assms(2) by (auto simp: cancelled_def task_defs)
  with assms(3) have "cancelled tid z" by (rule cancelled_tunnel.safe_reachable)
  then show ?thesis by (auto simp: cancelled_def tunnel_inv_def no_orphan_def)
qed

text \<open>A run: a tunnel is admitted, its driver starts.\<close>

definition demo_tunnel :: tunnel_session where
  "demo_tunnel = new_session 1 8080 ''dev'' None ''cloudflared'' 0"

definition demo_starting :: tunnel_system where
  "demo_starting = tunnel_system_init\<lparr>sy_manager := snd (admit demo_tunnel tunnel_manager_new),
     sy_creators := [1 \<mapsto> InDriver demo_tunnel], sy_used := {1}\<rparr>"

definition demo_handle :: driver_handle where
  "demo_handle = \<lparr> dh_pid = None, dh_stop_tx = True \<rparr>"

definition demo_installed :: tunnel_system where
  "demo_installed = demo_starting\<lparr>sy_manager := snd (start_returned 1 demo_handle (sy_manager demo_starting)),
     sy_creators := [1 \<mapsto> Installed demo_tunnel None], sy_started := {1}\<rparr>"

lemma demo_starting_reachable: "tunnel_step\<^sup>*\<^sup>* tunnel_system_init demo_starting"
proof -
  have "admit demo_tunnel tunnel_manager_new = (Inr (), snd (admit demo_tunnel tunnel_manager_new))"
    by (simp add: admit_def port_taken_def tunnel_manager_new_def)
  then have "tunnel_step tunnel_system_init demo_starting"
    using tunnel_step.Admit [of 1 tunnel_system_init demo_tunnel 8080 "''dev''" None "''cloudflared''" 0]
    by (simp add: demo_starting_def demo_tunnel_def tunnel_system_init_def)
  then show ?thesis by blast
qed

lemma demo_starting_sel:
  "sy_creators demo_starting = [1 \<mapsto> InDriver demo_tunnel]" "sy_started demo_starting = {}"
  "tm_pending_stops (sy_manager demo_starting) = {}" "tm_handles (sy_manager demo_starting) = Map.empty"
  "tm_sessions (sy_manager demo_starting) = [1 \<mapsto> demo_tunnel]" "tm_broadcasts (sy_manager demo_starting) = []"
  by (simp_all add: demo_starting_def tunnel_system_init_def admit_def port_taken_def tunnel_manager_new_def demo_tunnel_def)

lemma demo_installed_reachable: "tunnel_step\<^sup>*\<^sup>* tunnel_system_init demo_installed"
proof -
  have "start_returned 1 demo_handle (sy_manager demo_starting)
      = (True, snd (start_returned 1 demo_handle (sy_manager demo_starting)))"
    by (simp add: start_returned_def demo_starting_sel)
  with demo_starting_sel have "tunnel_step demo_starting demo_installed"
    using tunnel_step.StartInstalled [of demo_starting 1 demo_tunnel demo_handle]
    by (simp add: demo_installed_def demo_handle_def)
  with demo_starting_reachable show ?thesis by (rule rtranclp.rtrancl_into_rtrancl)
qed

lemma demo_installed_sel:
  "sy_creators demo_installed = [1 \<mapsto> Installed demo_tunnel None]" "sy_started demo_installed = {1}"
  "tm_handles (sy_manager demo_installed) = [1 \<mapsto> demo_handle]"
  "tm_sessions (sy_manager demo_installed) = [1 \<mapsto> demo_tunnel]" "tm_broadcasts (sy_manager demo_installed) = []"
  by (simp_all add: demo_installed_def start_returned_def demo_starting_sel demo_handle_def)

theorem tunnels_never_orphaned_witness:
  "ports_unique (tm_sessions (sy_manager demo_installed)) \<and> sy_started demo_installed = {1}
   \<and> sy_started demo_installed \<subseteq> dom (tm_handles (sy_manager demo_installed)) \<union> tm_released (sy_manager demo_installed)"
  using tunnels_never_orphaned [OF demo_installed_reachable] by (simp add: demo_installed_sel)

theorem stop_while_starting_wins_witness:
  "tm_sessions (snd (tunnel_stop 1 (sy_manager demo_starting))) 1 = None"
proof -
  have "sy_creators demo_starting 1 = Some (InDriver demo_tunnel)" by (simp add: demo_starting_sel)
  from stop_while_starting_wins [OF demo_starting_reachable this rtranclp.rtrancl_refl] show ?thesis by simp
qed

text \<open>The shutdown of a server with one running tunnel.\<close>

definition demo_disposed :: tunnel_system where
  "demo_disposed = (let y = demo_installed\<lparr>sy_manager := announce_created demo_tunnel None (sy_manager demo_installed),
       sy_creators := Map.empty, sy_watchers := [1 \<mapsto> Receiving]\<rparr> in
     y\<lparr>sy_manager := dispose_clear (dispose_finish (dispose_collect (dispose_begin (sy_manager y)))), sy_dispose := Disposed\<rparr>)"

lemma demo_disposed_reachable: "tunnel_step\<^sup>*\<^sup>* tunnel_system_init demo_disposed"
proof -
  let ?y = "demo_installed\<lparr>sy_manager := announce_created demo_tunnel None (sy_manager demo_installed),
       sy_creators := Map.empty, sy_watchers := [1 \<mapsto> Receiving]\<rparr>"
  have serving: "sy_dispose ?y = Serving" "sy_watchers demo_installed = Map.empty"
    by (simp_all add: demo_installed_def demo_starting_def tunnel_system_init_def)
  have none: "tm_in_flight_starts (sy_manager ?y) = 0"
    using reachable_inv [OF demo_installed_reachable]
    by (simp add: tunnel_inv_def counted_def demo_installed_sel announce_created_def finish_start_def broadcast_def)
  have "tunnel_step demo_installed ?y"
    using tunnel_step.Announce [of demo_installed 1 demo_tunnel None] serving by (simp add: demo_installed_sel)
  moreover have "tunnel_step ?y (?y\<lparr>sy_manager := dispose_begin (sy_manager ?y), sy_dispose := Begun\<rparr>)" (is "tunnel_step _ ?a")
    using serving by (intro tunnel_step.DisposeBegin) simp
  moreover have "tunnel_step ?a (?a\<lparr>sy_manager := dispose_collect (sy_manager ?a), sy_dispose := Collected\<rparr>)" (is "tunnel_step _ ?b")
    by (intro tunnel_step.DisposeCollect) simp
  moreover have "tunnel_step ?b (?b\<lparr>sy_manager := dispose_finish (sy_manager ?b), sy_dispose := Finished\<rparr>)" (is "tunnel_step _ ?c")
    using none by (intro tunnel_step.DisposeFinish) (simp_all add: dispose_collect_def dispose_begin_def release_def)
  moreover have "tunnel_step ?c demo_disposed"
    using tunnel_step.DisposeClear [of ?c] by (simp add: demo_disposed_def)
  ultimately show ?thesis
    using demo_installed_reachable by (meson rtranclp.rtrancl_into_rtrancl)
qed

theorem shutdown_leaves_no_tunnel_witness:
  "1 \<in> sy_started demo_disposed \<and> sy_started demo_disposed \<subseteq> tm_released (sy_manager demo_disposed)"
proof -
  have "sy_dispose demo_disposed = Disposed" "sy_started demo_disposed = {1}"
    by (simp_all add: demo_disposed_def demo_installed_sel)
  with shutdown_leaves_no_tunnel [OF demo_disposed_reachable _ rtranclp.rtrancl_refl] show ?thesis by simp
qed

text \<open>
  A stop request that comes after the handle is installed and before the creator announces the
  tunnel is broadcast first: the clients see the tunnel created after it was stopped, although it is
  gone, and the creator reports success.
\<close>

lemma created_after_stopped:
  assumes "tunnel_step\<^sup>*\<^sup>* tunnel_system_init y" and "sy_creators y tid = Some (Installed s pid)"
    and "tm_sessions (sy_manager y) tid \<noteq> None"
  shows "\<exists>z. tunnel_step\<^sup>*\<^sup>* y z \<and> tm_sessions (sy_manager z) tid = None \<and> tm_handles (sy_manager z) tid = None
    \<and> tm_broadcasts (sy_manager z) = tm_broadcasts (sy_manager y) @ [BStopped tid, BCreated (s\<lparr>ts_pid := pid\<rparr>)]"
proof -
  let ?a = "y\<lparr>sy_manager := snd (tunnel_stop tid (sy_manager y))\<rparr>"
  let ?b = "?a\<lparr>sy_manager := announce_created s pid (sy_manager ?a), sy_creators := (sy_creators ?a)(tid := None),
      sy_watchers := (sy_watchers ?a)(tid \<mapsto> Receiving)\<rparr>"
  have "tunnel_step y ?a" by (rule tunnel_step.Stop)
  moreover have "tunnel_step ?a ?b" using assms(2) by (intro tunnel_step.Announce) simp
  moreover have "tm_sessions (sy_manager ?b) tid = None" "tm_handles (sy_manager ?b) tid = None"
    "tm_broadcasts (sy_manager ?b) = tm_broadcasts (sy_manager y) @ [BStopped tid, BCreated (s\<lparr>ts_pid := pid\<rparr>)]"
    using assms(3) by (auto simp: task_defs)
  ultimately show ?thesis by (meson rtranclp.rtrancl_into_rtrancl rtranclp.rtrancl_refl)
qed

text \<open>
  A tunnel whose URL was found disappears without a word when its child exits: the driver sends no
  exit event after the URL, so the session and the handle are removed and the clients are only ever
  told that it is ready.
\<close>

lemma exit_after_ready_is_silent:
  "tm_sessions (watch_events tid (cloudflared_events (UrlFound url)) m) tid = None
   \<and> tm_handles (watch_events tid (cloudflared_events (UrlFound url)) m) tid = None
   \<and> tm_broadcasts (watch_events tid (cloudflared_events (UrlFound url)) m) = tm_broadcasts m @ [BReady tid url]"
  by (auto simp: manager_defs split: option.splits)

end
