(* ===== verification/Port_Tunnels.thy ===== *)
theory Port_Tunnels
  imports Port_Forward_Safety Tunnel_System
begin

text \<open>
  Ports and tunnels together: the handler that creates a tunnel for a port (\<open>api/tunnel.rs\<close>), the reports
  of \<open>port_forward/manager.rs\<close> that take a port from its owner, and the tasks that stop the tunnels of the
  old owner. A task first collects the tunnels and then stops them one by one, and every other task may
  run in between.
\<close>

section \<open>Tasks\<close>

text \<open>
  \<open>handlers\<close>: the port and the owner a creating handler has read. \<open>waiting\<close>: for which port and owner a
  task still has to collect the tunnels. \<open>ownerless\<close>: for which port it has to collect the tunnels without
  owner. \<open>stopping\<close>: tunnels that some task has decided to stop. Clean-up is
  scheduled for a terminal that ends, which needs a handle of the runtime; the readers have one.
\<close>

record port_system =
  ps_ports :: port_manager
  ps_tunnels :: tunnel_system
  ps_handlers :: "uuid \<rightharpoonup> u16 \<times> (string \<times> u64) option"
  ps_waiting :: "(u16 \<times> string \<times> u64) set"
  ps_ownerless :: "u16 set"
  ps_stopping :: "uuid set"

definition port_system_init :: "port_store option \<Rightarrow> port_system" where
  "port_system_init st =
     \<lparr> ps_ports = port_init st, ps_tunnels = tunnel_system_init, ps_handlers = Map.empty, ps_waiting = {},
       ps_ownerless = {}, ps_stopping = {} \<rparr>"

definition owner_changed :: "(string \<times> u64) option \<Rightarrow> (string \<times> u64) option \<Rightarrow> bool" where
  "owner_changed captured current \<longleftrightarrow> captured \<noteq> None \<and> captured \<noteq> current"

text \<open>The tasks a report leaves behind.\<close>

definition cleanup_of :: "u16 \<Rightarrow> (string \<times> u64) option \<Rightarrow> (u16 \<times> string \<times> u64) set" where
  "cleanup_of port old = (case old of Some (s, i) \<Rightarrow> {(port, s, i)} | None \<Rightarrow> {})"

definition keeps_owners :: "port_call \<Rightarrow> bool" where
  "keeps_owners c = (case c of
     Register _ _ \<Rightarrow> True | Confirm _ _ \<Rightarrow> True | Seed _ _ _ _ \<Rightarrow> True | SyncOwnerless _ \<Rightarrow> True
   | ConfirmOwnerless _ _ \<Rightarrow> True | _ \<Rightarrow> False)"

inductive port_tunnel_step :: "port_system \<Rightarrow> port_system \<Rightarrow> bool" where
  HandlerAdmits: "tid \<notin> sy_used (ps_tunnels y) \<Longrightarrow> s = new_session tid port label ow driver now \<Longrightarrow>
    admit s (sy_manager (ps_tunnels y)) = (Inr (), m) \<Longrightarrow>
    port_tunnel_step y (y\<lparr>ps_tunnels := (ps_tunnels y)\<lparr>sy_manager := m,
        sy_creators := (sy_creators (ps_tunnels y))(tid \<mapsto> InDriver s), sy_used := insert tid (sy_used (ps_tunnels y))\<rparr>,
      ps_handlers := (ps_handlers y)(tid \<mapsto> (port, ow))\<rparr>)"
| TunnelTask: "tunnel_step (ps_tunnels y) t \<Longrightarrow> sy_used t = sy_used (ps_tunnels y) \<Longrightarrow>
    port_tunnel_step y (y\<lparr>ps_tunnels := t\<rparr>)"
| HandlerFails: "ps_handlers y tid = Some (port, ow) \<Longrightarrow> tm_sessions (sy_manager (ps_tunnels y)) tid = None \<Longrightarrow>
    port_tunnel_step y (y\<lparr>ps_handlers := (ps_handlers y)(tid := None)\<rparr>)"
| HandlerKeeps: "ps_handlers y tid = Some (port, ow) \<Longrightarrow> sy_creators (ps_tunnels y) tid = None \<Longrightarrow>
    \<not> owner_changed ow (owner_for_port port (ps_ports y)) \<Longrightarrow>
    port_tunnel_step y (y\<lparr>ps_handlers := (ps_handlers y)(tid := None)\<rparr>)"
| HandlerRejects: "ps_handlers y tid = Some (port, ow) \<Longrightarrow> sy_creators (ps_tunnels y) tid = None \<Longrightarrow>
    owner_changed ow (owner_for_port port (ps_ports y)) \<Longrightarrow>
    port_tunnel_step y (y\<lparr>ps_handlers := (ps_handlers y)(tid := None), ps_stopping := insert tid (ps_stopping y)\<rparr>)"
| StopCollected: "tid \<in> ps_stopping y \<Longrightarrow>
    port_tunnel_step y (y\<lparr>ps_tunnels := (ps_tunnels y)\<lparr>sy_manager := snd (tunnel_stop tid (sy_manager (ps_tunnels y)))\<rparr>,
      ps_stopping := ps_stopping y - {tid}\<rparr>)"
| Collect: "(port, s, i) \<in> ps_waiting y \<Longrightarrow>
    port_tunnel_step y (y\<lparr>ps_waiting := ps_waiting y - {(port, s, i)},
      ps_stopping := ps_stopping y \<union> ids_by_port_for_owner port s i (sy_manager (ps_tunnels y))\<rparr>)"
| CollectOwnerless: "port \<in> ps_ownerless y \<Longrightarrow>
    port_tunnel_step y (y\<lparr>ps_ownerless := ps_ownerless y - {port},
      ps_stopping := ps_stopping y \<union> ids_by_port port (sy_manager (ps_tunnels y))\<rparr>)"
| Hit: "report_stdout_hit dok sok now port s i project (ps_ports y) = (replaced, m) \<Longrightarrow>
    port_tunnel_step y (y\<lparr>ps_ports := m, ps_waiting := ps_waiting y \<union> cleanup_of port replaced\<rparr>)"
| Loss: "report_lost ok now port i (ps_ports y) = (removed, m) \<Longrightarrow>
    port_tunnel_step y (y\<lparr>ps_ports := m, ps_waiting := ps_waiting y \<union> cleanup_of port removed,
      ps_ownerless := ps_ownerless y \<union> (if removed = None then {} else {port})\<rparr>)"
| Removal: "remove_session_ports_sync ok s i (ps_ports y) = (removed, m) \<Longrightarrow>
    port_tunnel_step y (y\<lparr>ps_ports := m, ps_waiting := ps_waiting y \<union> (\<lambda>p. (p, s, i)) ` removed,
      ps_ownerless := ps_ownerless y \<union> removed\<rparr>)"
| SessionEnd: "unregister_session ok s i (ps_ports y) = (removed, m) \<Longrightarrow>
    port_tunnel_step y (y\<lparr>ps_ports := m, ps_waiting := ps_waiting y \<union> (\<lambda>p. (p, s, i)) ` removed,
      ps_ownerless := ps_ownerless y \<union> removed\<rparr>)"
| OwnerlessLoss: "report_ownerless_tunnel_lost tid port (ps_ports y) = (True, m) \<Longrightarrow>
    port_tunnel_step y (y\<lparr>ps_ports := m, ps_stopping := insert tid (ps_stopping y)\<rparr>)"
| OtherReport: "keeps_owners c \<Longrightarrow> port_tunnel_step y (y\<lparr>ps_ports := port_step scan (ps_ports y) c\<rparr>)"

section \<open>The invariant\<close>

definition session_owner :: "tunnel_session \<Rightarrow> (string \<times> u64) option" where
  "session_owner t = (case (ts_session_id t, ts_incarnation t) of (Some s, Some i) \<Rightarrow> Some (s, i) | _ \<Rightarrow> None)"

text \<open>A tunnel whose owner lost the port is about to be stopped, or its handler still has to look.\<close>

definition attended :: "port_system \<Rightarrow> uuid \<Rightarrow> tunnel_session \<Rightarrow> bool" where
  "attended y tid t \<longleftrightarrow>
     session_owner t = None \<or> owner_for_port (ts_port t) (ps_ports y) = session_owner t
     \<or> tid \<in> ps_stopping y \<or> (\<exists>s i. session_owner t = Some (s, i) \<and> (ts_port t, s, i) \<in> ps_waiting y)
     \<or> ps_handlers y tid = Some (ts_port t, session_owner t)"

definition port_tunnel_inv :: "port_system \<Rightarrow> bool" where
  "port_tunnel_inv y \<longleftrightarrow>
     tunnel_inv (ps_tunnels y)
     \<and> (\<forall>tid t. tm_sessions (sy_manager (ps_tunnels y)) tid = Some t \<longrightarrow> attended y tid t)
     \<and> (\<forall>tid t port ow. tm_sessions (sy_manager (ps_tunnels y)) tid = Some t \<longrightarrow> ps_handlers y tid = Some (port, ow)
          \<longrightarrow> port = ts_port t \<and> ow = session_owner t)"

section \<open>Preservation\<close>

lemma session_owner_new [simp]: "session_owner (new_session tid port label ow driver now) = ow"
  by (auto simp: session_owner_def split: option.splits)

lemma session_owner_update [simp]:
  "session_owner (t\<lparr>ts_pid := p\<rparr>) = session_owner t" "session_owner (t\<lparr>ts_status := st\<rparr>) = session_owner t"
  "session_owner (t\<lparr>ts_url := u\<rparr>) = session_owner t" "session_owner (t\<lparr>ts_error := e\<rparr>) = session_owner t"
  by (simp_all add: session_owner_def)

text \<open>A task of the tunnels that admits none changes no port and no owner.\<close>

lemma tunnel_step_sessions:
  assumes "tunnel_step y z" "sy_used z = sy_used y" "tm_sessions (sy_manager z) tid = Some t"
  shows "\<exists>t'. tm_sessions (sy_manager y) tid = Some t' \<and> ts_port t = ts_port t' \<and> session_owner t = session_owner t'"
  using assms
proof (induction rule: tunnel_step.induct)
  case (StartInstalled y k s handle m)
  then show ?case
    by (auto simp: start_returned_def split: if_splits option.splits)
next
  case (WatchEvent y k ev goes_on m)
  then show ?case
    by (auto simp: watch_event_def broadcast_def update_session_def
        split: driver_event.splits option.splits if_splits)
qed (auto simp: task_defs split: if_splits)

lemma attended_mono:
  assumes "attended y tid t" and "ts_port t' = ts_port t" "session_owner t' = session_owner t"
    and "\<And>s i. session_owner t = Some (s, i) \<Longrightarrow> owner_for_port (ts_port t) (ps_ports y) = Some (s, i) \<Longrightarrow>
      owner_for_port (ts_port t) (ps_ports z) = Some (s, i) \<or> (ts_port t, s, i) \<in> ps_waiting z"
    and "ps_stopping y \<subseteq> ps_stopping z" "ps_waiting y \<subseteq> ps_waiting z"
    and "ps_handlers y tid = Some (ts_port t, session_owner t) \<Longrightarrow> ps_handlers z tid = Some (ts_port t, session_owner t)"
  shows "attended z tid t'"
  using assms unfolding attended_def by (cases "session_owner t") (auto simp: subset_iff)

lemma seed_loop_keeps:
  "pf_ports m p = Some e \<Longrightarrow> pf_ports (snd (seed_loop ok now live ps (n, m))) p = Some e"
proof (induction ps arbitrary: n m)
  case (Cons q ps)
  obtain n' m' where e: "seed_entry ok now live q (n, m) = (n', m')" by fastforce
  then have "pf_ports m' p = Some e"
    using Cons.prems by (auto simp: seed_entry_def split: if_splits)
  with Cons e show ?case by simp
qed simp

lemma keeps_owners_step:
  "keeps_owners c \<Longrightarrow> owner_for_port p m = Some x \<Longrightarrow> owner_for_port p (port_step scan m c) = Some x"
  by (cases c)
    (auto simp: keeps_owners_def owner_for_port_def register_session_def confirm_listen_def Let_def owner_def
      seed_persisted_candidates_def seed_loop_keeps sync_ownerless_tunnel_ports_def confirm_ownerless_tunnel_listen_def
      split: option.splits)

lemma remove_owner:
  "remove_session_ports_sync ok s i m = (removed, m') \<Longrightarrow> owner_for_port p m = Some x \<Longrightarrow>
   owner_for_port p m' = Some x \<or> x = (s, i) \<and> p \<in> removed"
  by (auto simp: remove_session_ports_sync_def Let_def owner_for_port_def restrict_map_def session_ports_def
      split: option.splits)

lemma report_owner:
  "report_stdout_hit dok sok now port s i project m = (replaced, m') \<Longrightarrow> owner_for_port p m = Some x \<Longrightarrow>
   owner_for_port p m' = Some x \<or> p = port \<and> replaced = Some x"
  by (erule report_stdout_hit_cases) (auto simp: owner_for_port_def)

lemma lost_owner:
  "report_lost ok now port i m = (removed, m') \<Longrightarrow> owner_for_port p m = Some x \<Longrightarrow>
   owner_for_port p m' = Some x \<or> p = port \<and> removed = Some x"
  by (auto simp: report_lost_def owner_for_port_def split: option.splits if_splits)

lemma unregister_owner:
  "unregister_session ok s i m = (removed, m') \<Longrightarrow> owner_for_port p m = Some x \<Longrightarrow>
   owner_for_port p m' = Some x \<or> x = (s, i) \<and> p \<in> removed"
  unfolding unregister_session_def
  by (erule remove_owner) (auto simp: owner_for_port_def)

lemma attendedI:
  assumes inv: "port_tunnel_inv y"
    and t': "tm_sessions (sy_manager (ps_tunnels y)) tid = Some t'" "ts_port t = ts_port t'" "session_owner t = session_owner t'"
    and ports: "\<And>p x. owner_for_port p (ps_ports y) = Some x \<Longrightarrow>
      owner_for_port p (ps_ports z) = Some x \<or> (p, fst x, snd x) \<in> ps_waiting z"
    and "ps_stopping y \<subseteq> ps_stopping z" "ps_waiting y \<subseteq> ps_waiting z" "ps_handlers y \<subseteq>\<^sub>m ps_handlers z"
  shows "attended z tid t"
proof (rule attended_mono)
  show "attended y tid t'" using inv t'(1) by (auto simp: port_tunnel_inv_def)
  show "owner_for_port (ts_port t') (ps_ports z) = Some (s, i) \<or> (ts_port t', s, i) \<in> ps_waiting z"
    if "owner_for_port (ts_port t') (ps_ports y) = Some (s, i)" for s i
    using ports [OF that] by simp
  show "ps_handlers z tid = Some (ts_port t', session_owner t')" if "ps_handlers y tid = Some (ts_port t', session_owner t')"
    using assms(8) that by (auto simp: map_le_def dom_def)
qed (use assms in auto)

lemma port_report_inv:
  assumes "port_tunnel_inv y"
    and "\<And>p x. owner_for_port p (ps_ports y) = Some x \<Longrightarrow> owner_for_port p m = Some x \<or> (p, fst x, snd x) \<in> w"
  shows "port_tunnel_inv (y\<lparr>ps_ports := m, ps_waiting := ps_waiting y \<union> w, ps_ownerless := o', ps_stopping := ps_stopping y \<union> st\<rparr>)"
proof -
  let ?z = "y\<lparr>ps_ports := m, ps_waiting := ps_waiting y \<union> w, ps_ownerless := o', ps_stopping := ps_stopping y \<union> st\<rparr>"
  have "attended ?z tid t" if "tm_sessions (sy_manager (ps_tunnels y)) tid = Some t" for tid t
    using assms(2) by (intro attendedI [OF assms(1) that]) auto
  then show ?thesis using assms(1) by (simp add: port_tunnel_inv_def)
qed

lemma ids_for_owner:
  "keyed (tm_sessions m) \<Longrightarrow> tm_sessions m tid = Some t \<Longrightarrow> session_owner t = Some (s, i) \<Longrightarrow> ts_port t = port \<Longrightarrow>
   tid \<in> ids_by_port_for_owner port s i m"
  unfolding ids_by_port_for_owner_def keyed_def session_owner_def
  by (force simp: ran_def split: option.splits)

lemma port_tunnel_inv_step:
  assumes "port_tunnel_inv y" and "port_tunnel_step y z"
  shows "port_tunnel_inv z"
  using assms(2,1)
proof (induction rule: port_tunnel_step.induct)
  case (HandlerAdmits tid y s port label ow driver now m)
  let ?t = "(ps_tunnels y)\<lparr>sy_manager := m, sy_creators := (sy_creators (ps_tunnels y))(tid \<mapsto> InDriver s),
      sy_used := insert tid (sy_used (ps_tunnels y))\<rparr>"
  have "tunnel_step (ps_tunnels y) ?t" by (rule tunnel_step.Admit [OF HandlerAdmits(1-3)])
  then have inv: "tunnel_inv ?t" using HandlerAdmits(4) tunnels.safe_step by (auto simp: port_tunnel_inv_def)
  have m: "tm_sessions m = (tm_sessions (sy_manager (ps_tunnels y)))(tid \<mapsto> s)"
    using HandlerAdmits(2,3) by (simp add: admit_iff)
  have "attended (y\<lparr>ps_tunnels := ?t, ps_handlers := (ps_handlers y)(tid \<mapsto> (port, ow))\<rparr>) k t"
    if "tm_sessions m k = Some t" for k t
    using HandlerAdmits(2,4) that m unfolding port_tunnel_inv_def attended_def by (cases "k = tid") auto
  with HandlerAdmits(2,4) inv m show ?case by (auto simp: port_tunnel_inv_def)
next
  case (TunnelTask y t)
  have "tunnel_inv t" using TunnelTask tunnels.safe_step by (auto simp: port_tunnel_inv_def)
  moreover have "attended (y\<lparr>ps_tunnels := t\<rparr>) tid u \<and> (\<forall>port ow. ps_handlers y tid = Some (port, ow) \<longrightarrow>
      port = ts_port u \<and> ow = session_owner u)" if u: "tm_sessions (sy_manager t) tid = Some u" for tid u
  proof -
    obtain u' where u': "tm_sessions (sy_manager (ps_tunnels y)) tid = Some u'" "ts_port u = ts_port u'"
      "session_owner u = session_owner u'" using tunnel_step_sessions [OF TunnelTask(1,2) u] by blast
    have "attended (y\<lparr>ps_tunnels := t\<rparr>) tid u" by (rule attendedI [OF TunnelTask(3) u']) auto
    with TunnelTask(3) u' show ?thesis by (auto simp: port_tunnel_inv_def)
  qed
  ultimately show ?case by (simp add: port_tunnel_inv_def)
next
  case (StopCollected tid y)
  let ?t = "(ps_tunnels y)\<lparr>sy_manager := snd (tunnel_stop tid (sy_manager (ps_tunnels y)))\<rparr>"
  have "tunnel_inv ?t" using StopCollected(2) tunnels.safe_step tunnel_step.Stop by (auto simp: port_tunnel_inv_def)
  moreover have "tm_sessions (snd (tunnel_stop tid (sy_manager (ps_tunnels y)))) = (tm_sessions (sy_manager (ps_tunnels y)))(tid := None)"
    by (auto simp: task_defs fun_upd_idem)
  ultimately show ?case using StopCollected(2) by (auto simp: port_tunnel_inv_def attended_def)
next
  case (Collect port s i y)
  then have "keyed (tm_sessions (sy_manager (ps_tunnels y)))" by (simp add: port_tunnel_inv_def tunnel_inv_def)
  note ids = ids_for_owner [OF this]
  have "attended (y\<lparr>ps_waiting := ps_waiting y - {(port, s, i)},
      ps_stopping := ps_stopping y \<union> ids_by_port_for_owner port s i (sy_manager (ps_tunnels y))\<rparr>) k t"
    if t: "tm_sessions (sy_manager (ps_tunnels y)) k = Some t" for k t
  proof -
    have "attended y k t" using Collect(2) t by (simp add: port_tunnel_inv_def)
    with ids [OF t] show ?thesis by (auto simp: attended_def)
  qed
  with Collect(2) show ?case by (simp add: port_tunnel_inv_def)
next
  case (Hit dok sok now port s i project y replaced m)
  have "owner_for_port p m = Some x \<or> (p, fst x, snd x) \<in> cleanup_of port replaced"
    if "owner_for_port p (ps_ports y) = Some x" for p x
    using report_owner [OF Hit(1) that] by (cases x) (auto simp: cleanup_of_def)
  from port_report_inv [OF Hit(2) this, where o' = "ps_ownerless y" and st = "{}"] show ?case by simp
next
  case (Loss ok now port i y removed m)
  have "owner_for_port p m = Some x \<or> (p, fst x, snd x) \<in> cleanup_of port removed"
    if "owner_for_port p (ps_ports y) = Some x" for p x
    using lost_owner [OF Loss(1) that] by (cases x) (auto simp: cleanup_of_def)
  from port_report_inv [OF Loss(2) this, where st = "{}"] show ?case by simp
next
  case (Removal ok s i y removed m)
  have "owner_for_port p m = Some x \<or> (p, fst x, snd x) \<in> (\<lambda>p. (p, s, i)) ` removed"
    if "owner_for_port p (ps_ports y) = Some x" for p x
    using remove_owner [OF Removal(1) that] by auto
  from port_report_inv [OF Removal(2) this, where st = "{}"] show ?case by simp
next
  case (SessionEnd ok s i y removed m)
  have "owner_for_port p m = Some x \<or> (p, fst x, snd x) \<in> (\<lambda>p. (p, s, i)) ` removed"
    if "owner_for_port p (ps_ports y) = Some x" for p x
    using unregister_owner [OF SessionEnd(1) that] by auto
  from port_report_inv [OF SessionEnd(2) this, where st = "{}"] show ?case by simp
next
  case (OwnerlessLoss tid port y m)
  then have "owner_for_port p m = owner_for_port p (ps_ports y)" for p
    by (auto simp: report_ownerless_tunnel_lost_def owner_for_port_def split: if_splits)
  with port_report_inv [OF OwnerlessLoss(2), where m = m and w = "{}" and o' = "ps_ownerless y" and st = "{tid}"] show ?case by simp
next
  case (OtherReport c y scan)
  from port_report_inv [OF OtherReport(2), where m = "port_step scan (ps_ports y) c" and w = "{}"
      and o' = "ps_ownerless y" and st = "{}"]
    keeps_owners_step [OF OtherReport(1)] show ?case by simp
next
  case (CollectOwnerless port y)
  from port_report_inv [OF CollectOwnerless(2), where m = "ps_ports y" and w = "{}" and o' = "ps_ownerless y - {port}"
      and st = "ids_by_port port (sy_manager (ps_tunnels y))"]
  show ?case by simp
qed (auto simp: port_tunnel_inv_def attended_def owner_changed_def split: if_splits)

interpretation port_tunnels: step_relation port_tunnel_step port_tunnel_inv
  by unfold_locales (rule port_tunnel_inv_step)

lemma port_tunnel_inv_init: "port_tunnel_inv (port_system_init st)"
  using tunnel_inv_init
  by (simp add: port_tunnel_inv_def port_system_init_def tunnel_system_init_def tunnel_manager_new_def)

text \<open>
  C18: A tunnel never outlives the claim of its owner to the port. In every reachable state a tunnel that
  was created for an incarnation of a terminal exposes a port which that incarnation owns, or a task
  has already decided to stop it, or a task will collect it, or the handler that creates it has yet to
  compare the owners. When no task is left, every owned tunnel belongs to the owner of its port.
\<close>

theorem owned_tunnels_follow_ports:
  assumes "port_tunnel_step\<^sup>*\<^sup>* (port_system_init st) y"
    and "ps_stopping y = {}" and "ps_waiting y = {}" and "ps_handlers y = Map.empty"
    and "tm_sessions (sy_manager (ps_tunnels y)) tid = Some t" and "session_owner t = Some x"
  shows "owner_for_port (ts_port t) (ps_ports y) = Some x"
proof -
  have "port_tunnel_inv y" using assms(1) port_tunnel_inv_init by (rule port_tunnels.safe_reachable)
  then have "attended y tid t" using assms(5) by (simp add: port_tunnel_inv_def)
  with assms(2-4,6) show ?thesis by (simp add: attended_def)
qed

text \<open>A terminal prints a port, and a tunnel is created for it.\<close>

definition demo_owned :: tunnel_session where
  "demo_owned = new_session 1 5173 ''dev'' (Some (''a'', 1)) ''cloudflared'' 0"

definition demo_t0 :: tunnel_system where
  "demo_t0 = tunnel_system_init\<lparr>sy_manager := snd (admit demo_owned tunnel_manager_new),
     sy_creators := [1 \<mapsto> InDriver demo_owned], sy_used := {1}\<rparr>"

definition demo_t1 :: tunnel_system where
  "demo_t1 = demo_t0\<lparr>sy_manager := snd (start_returned 1 demo_handle (sy_manager demo_t0)),
     sy_creators := [1 \<mapsto> Installed demo_owned None], sy_started := {1}\<rparr>"

definition demo_t2 :: tunnel_system where
  "demo_t2 = demo_t1\<lparr>sy_manager := announce_created demo_owned None (sy_manager demo_t1), sy_creators := Map.empty,
     sy_watchers := [1 \<mapsto> Receiving]\<rparr>"

definition demo_system :: port_system where
  "demo_system = (port_system_init None)\<lparr>ps_ports := demo_ports, ps_tunnels := demo_t2\<rparr>"

lemma demo_admit: "admit demo_owned tunnel_manager_new = (Inr (), snd (admit demo_owned tunnel_manager_new))"
  by (simp add: admit_def tunnel_manager_new_def port_taken_def)

lemma demo_t0_sel:
  "sy_creators demo_t0 = [1 \<mapsto> InDriver demo_owned]" "sy_watchers demo_t0 = Map.empty" "sy_started demo_t0 = {}"
  "tm_pending_stops (sy_manager demo_t0) = {}" "tm_sessions (sy_manager demo_t0) = [1 \<mapsto> demo_owned]"
  by (simp_all add: demo_t0_def admit_def tunnel_manager_new_def tunnel_system_init_def port_taken_def demo_owned_def)

lemma demo_tasks_steps:
  "tunnel_step demo_t0 demo_t1" "tunnel_step demo_t1 demo_t2"
  "sy_used demo_t1 = sy_used demo_t0" "sy_used demo_t2 = sy_used demo_t1"
  "tm_sessions (sy_manager demo_t2) = [1 \<mapsto> demo_owned]" "sy_creators demo_t2 = Map.empty"
proof -
  have "start_returned 1 demo_handle (sy_manager demo_t0) = (True, snd (start_returned 1 demo_handle (sy_manager demo_t0)))"
    by (simp add: start_returned_def demo_t0_sel)
  then show "tunnel_step demo_t0 demo_t1"
    using tunnel_step.StartInstalled [of demo_t0 1 demo_owned demo_handle]
    by (simp add: demo_t1_def demo_t0_sel demo_handle_def)
  have "sy_creators demo_t1 = [1 \<mapsto> Installed demo_owned None]" "sy_watchers demo_t1 = Map.empty"
    by (simp_all add: demo_t1_def demo_t0_sel)
  then show "tunnel_step demo_t1 demo_t2"
    using tunnel_step.Announce [of demo_t1 1 demo_owned None] by (simp add: demo_t2_def)
  show "tm_sessions (sy_manager demo_t2) = [1 \<mapsto> demo_owned]"
    by (simp add: demo_t2_def demo_t1_def demo_t0_sel announce_created_def finish_start_def broadcast_def start_returned_def
        demo_handle_def)
qed (simp_all add: demo_t1_def demo_t2_def)

lemma demo_system_reachable: "port_tunnel_step\<^sup>*\<^sup>* (port_system_init None) demo_system"
proof -
  let ?i = "port_system_init None"
  let ?a = "?i\<lparr>ps_ports := port_step demo_scan (ps_ports ?i) (Register ''a'' 1)\<rparr>"
  let ?b = "?a\<lparr>ps_ports := demo_ports\<rparr>"
  let ?c = "?b\<lparr>ps_tunnels := demo_t0, ps_handlers := [1 \<mapsto> (5173, Some (''a'', 1))]\<rparr>"
  have "port_tunnel_step ?i ?a" by (rule port_tunnel_step.OtherReport) (simp add: keeps_owners_def)
  moreover have "report_stdout_hit True True 0 5173 ''a'' 1 None (ps_ports ?a) = (None, demo_ports)"
    by (simp add: demo_ports_def demo_chunk_def report_chunk_def demo_scan_eq report_stdout_hit_def register_session_def
        port_system_init_def port_init_def port_manager_new_def enable_session_validation_def MAX_TRACKED_PORTS_def Let_def)
  from port_tunnel_step.Hit [OF this] have "port_tunnel_step ?a ?b" by (simp add: cleanup_of_def)
  moreover have "port_tunnel_step ?b ?c"
    using port_tunnel_step.HandlerAdmits [of 1 ?b demo_owned 5173 "''dev''" "Some (''a'', 1)" "''cloudflared''" 0] demo_admit
    by (simp add: demo_t0_def demo_owned_def port_system_init_def tunnel_system_init_def)
  moreover have "port_tunnel_step ?c (?c\<lparr>ps_tunnels := demo_t1\<rparr>)"
    using demo_tasks_steps by (intro port_tunnel_step.TunnelTask) simp_all
  moreover have "port_tunnel_step (?c\<lparr>ps_tunnels := demo_t1\<rparr>) (?c\<lparr>ps_tunnels := demo_t2\<rparr>)"
    using demo_tasks_steps port_tunnel_step.TunnelTask [of "?c\<lparr>ps_tunnels := demo_t1\<rparr>" demo_t2] by simp
  moreover have "port_tunnel_step (?c\<lparr>ps_tunnels := demo_t2\<rparr>) demo_system"
    using port_tunnel_step.HandlerKeeps [of "?c\<lparr>ps_tunnels := demo_t2\<rparr>" 1 5173 "Some (''a'', 1)"] demo_tasks_steps demo_owner
    by (simp add: demo_system_def owner_changed_def port_system_init_def)
  ultimately show ?thesis by (meson rtranclp.rtrancl_into_rtrancl rtranclp.rtrancl_refl)
qed

theorem owned_tunnels_follow_ports_witness:
  "tm_sessions (sy_manager (ps_tunnels demo_system)) 1 = Some demo_owned
   \<and> owner_for_port 5173 (ps_ports demo_system) = Some (''a'', 1)"
proof -
  have q: "ps_stopping demo_system = {}" "ps_waiting demo_system = {}" "ps_handlers demo_system = Map.empty"
    "tm_sessions (sy_manager (ps_tunnels demo_system)) 1 = Some demo_owned" "session_owner demo_owned = Some (''a'', 1)"
    by (simp_all add: demo_system_def port_system_init_def demo_tasks_steps demo_owned_def)
  from owned_tunnels_follow_ports [OF demo_system_reachable q] q(4) show ?thesis by (simp add: demo_owned_def)
qed

end
