(* ===== verification/Host_Approval.thy ===== *)
theory Host_Approval
  imports Text
begin

text \<open>
  Approval of host actions: the requests and errors of \<open>host_actions/types.rs\<close> and the store of pending
  intents of \<open>host_actions/approval.rs\<close>. An actor creates an intent and receives a challenge, approves it
  with a fresh authentication and receives a token, and spends the token to have the action executed.
  Identifiers, nonces and tokens are drawn from the random source and given to the operations; the clock
  does not move during one operation; SHA-256 and the JSON form of an action are parameters.
\<close>

section \<open>Requests\<close>

record process_target =
  pt_boot_id :: string
  pt_pid :: u32
  pt_start_time_ticks :: u64
  pt_uid :: u32
  pt_name :: string

datatype host_action = DropCleanCaches | TerminateSameUserProcess process_target

fun action_kind :: "host_action \<Rightarrow> string" where
  "action_kind DropCleanCaches = ''dropCleanCaches''"
| "action_kind (TerminateSameUserProcess target) = ''terminateSameUserProcess''"

fun action_target :: "host_action \<Rightarrow> process_target option" where
  "action_target DropCleanCaches = None"
| "action_target (TerminateSameUserProcess target) = Some target"

record action_intent_request =
  ar_action :: host_action
  ar_sample_id :: string
  ar_alert_id :: "string option"
  ar_reason :: "string option"

datatype host_action_error =
    InvalidIntent
  | StaleTarget
  | CapabilityUnavailable
  | IntentLimit
  | IntentExpired
  | InvalidApproval
  | QueueFull
  | Cooldown
  | AuditUnavailable
  | ActionUnavailable
  | RateLimited

definition longer_than :: "nat \<Rightarrow> string option \<Rightarrow> bool" where
  "longer_than n v = (case v of Some s \<Rightarrow> n < length s | None \<Rightarrow> False)"

definition validate_request :: "action_intent_request \<Rightarrow> host_action_error + unit" where
  "validate_request r =
     (if ar_sample_id r = [] \<or> 128 < length (ar_sample_id r) then Inl InvalidIntent
      else if longer_than 128 (ar_alert_id r) \<or> longer_than 512 (ar_reason r)
        \<or> (case action_target (ar_action r) of
              Some target \<Rightarrow> pt_name target = [] \<or> 128 < length (pt_name target)
            | None \<Rightarrow> False)
      then Inl InvalidIntent else Inr ())"

section \<open>Intents\<close>

definition CHALLENGE_TTL :: nat where "CHALLENGE_TTL = 120000"

definition APPROVAL_TTL :: nat where "APPROVAL_TTL = 60000"

record approved_intent =
  ai_id :: string
  ai_actor :: string
  ai_action :: host_action
  ai_sample_id :: string
  ai_alert_id :: "string option"

record pending_intent =
  pi_approved :: approved_intent
  pi_challenge_nonce :: string
  pi_challenge_expires :: nat
  pi_canonical_digest :: string
  pi_approval_hash :: "string option"
  pi_approval_expires :: "nat option"

type_synonym approval_store = "string \<rightharpoonup> pending_intent"

record action_preview =
  ap_action :: host_action
  ap_warning :: "string option"

record intent_challenge =
  ic_intent_id :: string
  ic_challenge_nonce :: string
  ic_expires_at :: u64
  ic_preview :: action_preview

section \<open>Digests\<close>

definition to_le_bytes :: "u64 \<Rightarrow> string" where
  "to_le_bytes w = map (\<lambda>i. char_of (unat (drop_bit (8 * i) w))) [0 ..< 8]"

definition canonical_parts :: "(host_action \<Rightarrow> string) \<Rightarrow> approved_intent \<Rightarrow> string \<Rightarrow> u64 \<Rightarrow> string list" where
  "canonical_parts json intent nonce expires_at =
     [ai_actor intent, json (ai_action intent), ai_sample_id intent,
      (case ai_alert_id intent of Some a \<Rightarrow> a | None \<Rightarrow> []), ai_id intent, nonce, to_le_bytes expires_at]"

definition framed :: "string list \<Rightarrow> string" where
  "framed parts = concat (map (\<lambda>part. to_le_bytes (of_nat (length part)) @ part) parts)"

definition canonical_digest ::
  "(string \<Rightarrow> string) \<Rightarrow> (host_action \<Rightarrow> string) \<Rightarrow> approved_intent \<Rightarrow> string \<Rightarrow> u64 \<Rightarrow> string" where
  "canonical_digest sha json intent nonce expires_at = sha (framed (canonical_parts json intent nonce expires_at))"

definition token_hash :: "(string \<Rightarrow> string) \<Rightarrow> string \<Rightarrow> string \<Rightarrow> string" where
  "token_hash sha token digest = sha (token @ digest)"

section \<open>Operations\<close>

definition intent_live :: "nat \<Rightarrow> pending_intent \<Rightarrow> bool" where
  "intent_live now item \<longleftrightarrow>
     now < pi_challenge_expires item \<and> (case pi_approval_expires item of Some expiry \<Rightarrow> now < expiry | None \<Rightarrow> True)"

definition reap_expired :: "nat \<Rightarrow> approval_store \<Rightarrow> approval_store" where
  "reap_expired now intents = map_retain (\<lambda>_. intent_live now) intents"

definition intents_of :: "string \<Rightarrow> approval_store \<Rightarrow> string set" where
  "intents_of actor intents = {k. \<exists>item. intents k = Some item \<and> ai_actor (pi_approved item) = actor}"

definition new_intent :: "string \<Rightarrow> string \<Rightarrow> action_intent_request \<Rightarrow> approved_intent" where
  "new_intent iid actor request =
     \<lparr> ai_id = iid, ai_actor = actor, ai_action = ar_action request, ai_sample_id = ar_sample_id request,
       ai_alert_id = ar_alert_id request \<rparr>"

definition approvals_create ::
  "(string \<Rightarrow> string) \<Rightarrow> (host_action \<Rightarrow> string) \<Rightarrow> nat \<Rightarrow> string \<Rightarrow> string \<Rightarrow> string \<Rightarrow> action_intent_request \<Rightarrow> u64
    \<Rightarrow> approval_store \<Rightarrow> (host_action_error + intent_challenge) \<times> approval_store" where
  "approvals_create sha json now iid nonce actor request now_ms intents =
     (let intents = reap_expired now intents in
      if 256 \<le> card (dom intents) \<or> 32 \<le> card (intents_of actor intents) then (Inl IntentLimit, intents)
      else
        let expires_at = saturating_add now_ms (of_nat CHALLENGE_TTL);
            approved = new_intent iid actor request in
        (Inr \<lparr> ic_intent_id = iid, ic_challenge_nonce = nonce, ic_expires_at = expires_at,
               ic_preview = \<lparr> ap_action = ar_action request,
                 ap_warning = (if ar_action request = DropCleanCaches
                   then Some ''Drops clean caches globally after helper-side sync; cooldown applies.'' else None) \<rparr> \<rparr>,
         intents(iid \<mapsto> \<lparr> pi_approved = approved, pi_challenge_nonce = nonce, pi_challenge_expires = now + CHALLENGE_TTL,
                         pi_canonical_digest = canonical_digest sha json approved nonce expires_at,
                         pi_approval_hash = None, pi_approval_expires = None \<rparr>)))"

definition approvals_approve ::
  "(string \<Rightarrow> string) \<Rightarrow> nat \<Rightarrow> string \<Rightarrow> string \<Rightarrow> string \<Rightarrow> string \<Rightarrow> u64
    \<Rightarrow> approval_store \<Rightarrow> (host_action_error + (string \<times> u64)) \<times> approval_store" where
  "approvals_approve sha now token actor iid nonce now_ms intents =
     (let intents = reap_expired now intents in
      case intents iid of
        None \<Rightarrow> (Inl IntentExpired, intents)
      | Some intent \<Rightarrow>
          if ai_actor (pi_approved intent) \<noteq> actor \<or> pi_challenge_expires intent \<le> now
             \<or> pi_challenge_nonce intent \<noteq> nonce
          then (Inl InvalidApproval, intents)
          else (Inr (token, saturating_add now_ms (of_nat APPROVAL_TTL)),
                intents(iid \<mapsto> intent\<lparr>pi_approval_hash := Some (token_hash sha token (pi_canonical_digest intent)),
                                     pi_approval_expires := Some (now + APPROVAL_TTL)\<rparr>)))"

definition accepts :: "(string \<Rightarrow> string) \<Rightarrow> nat \<Rightarrow> string \<Rightarrow> string \<Rightarrow> pending_intent \<Rightarrow> bool" where
  "accepts sha now actor token intent \<longleftrightarrow>
     ai_actor (pi_approved intent) = actor
     \<and> (case pi_approval_expires intent of Some expiry \<Rightarrow> now < expiry | None \<Rightarrow> False)
     \<and> (case pi_approval_hash intent of
          Some h \<Rightarrow> h = token_hash sha token (pi_canonical_digest intent)
        | None \<Rightarrow> False)"

definition approvals_consume ::
  "(string \<Rightarrow> string) \<Rightarrow> nat \<Rightarrow> string \<Rightarrow> string \<Rightarrow> string \<Rightarrow> approval_store
    \<Rightarrow> (host_action_error + approved_intent) \<times> approval_store" where
  "approvals_consume sha now actor iid token intents =
     (let intents = reap_expired now intents in
      case intents iid of
        None \<Rightarrow> (Inl IntentExpired, intents)
      | Some intent \<Rightarrow>
          if \<not> accepts sha now actor token intent then (Inl InvalidApproval, intents)
          else (Inr (pi_approved intent), intents(iid := None)))"

section \<open>Facts about the operations\<close>

lemma reap_Some [simp]: "reap_expired now st k = Some item \<longleftrightarrow> st k = Some item \<and> intent_live now item"
  by (simp add: reap_expired_def)

lemma dom_reap: "dom (reap_expired now st) \<subseteq> dom st"
  by (simp add: reap_expired_def dom_map_retain)

lemma create_Inr:
  assumes "approvals_create sha json now iid nonce actor request now_ms st = (Inr ch, st')"
  shows "card (dom (reap_expired now st)) < 256" "card (intents_of actor (reap_expired now st)) < 32"
    "\<exists>d. st' = (reap_expired now st)(iid \<mapsto> \<lparr> pi_approved = new_intent iid actor request, pi_challenge_nonce = nonce,
        pi_challenge_expires = now + CHALLENGE_TTL, pi_canonical_digest = d, pi_approval_hash = None,
        pi_approval_expires = None \<rparr>)"
  using assms by (auto simp: approvals_create_def Let_def split: if_splits)

lemma create_Inl:
  "approvals_create sha json now iid nonce actor request now_ms st = (Inl e, st') \<Longrightarrow> st' = reap_expired now st"
  by (auto simp: approvals_create_def Let_def split: if_splits)

lemma approve_Inr:
  assumes "approvals_approve sha now token actor iid nonce now_ms st = (Inr r, st')"
  obtains item where "st iid = Some item" "intent_live now item" "ai_actor (pi_approved item) = actor"
    "pi_challenge_nonce item = nonce" "now < pi_challenge_expires item"
    "st' = (reap_expired now st)(iid \<mapsto> item\<lparr>pi_approval_hash := Some (token_hash sha token (pi_canonical_digest item)),
       pi_approval_expires := Some (now + APPROVAL_TTL)\<rparr>)"
  using assms by (auto simp: approvals_approve_def Let_def split: option.splits if_splits)

lemma approve_Inl:
  "approvals_approve sha now token actor iid nonce now_ms st = (Inl e, st') \<Longrightarrow> st' = reap_expired now st"
  by (auto simp: approvals_approve_def Let_def split: option.splits if_splits)

lemma consume_Inr_iff:
  "approvals_consume sha now actor iid token st = (Inr intent, st') \<longleftrightarrow>
     (\<exists>item. st iid = Some item \<and> intent_live now item \<and> accepts sha now actor token item
       \<and> intent = pi_approved item \<and> st' = (reap_expired now st)(iid := None))"
proof (cases "reap_expired now st iid")
  case None
  then have "\<not> (\<exists>item. st iid = Some item \<and> intent_live now item)" by (metis option.distinct(1) reap_Some)
  with None show ?thesis by (auto simp: approvals_consume_def)
next
  case (Some item)
  then have "st iid = Some item \<and> intent_live now item" by simp
  with Some show ?thesis by (auto simp: approvals_consume_def Let_def simp del: reap_Some split: if_splits)
qed

lemma consume_Inl:
  "approvals_consume sha now actor iid token st = (Inl e, st') \<Longrightarrow> st' = reap_expired now st"
  by (auto simp: approvals_consume_def Let_def split: option.splits if_splits)

section \<open>The canonical form\<close>

lemma length_to_le_bytes [simp]: "length (to_le_bytes w) = 8"
  by (simp add: to_le_bytes_def)

lemma to_le_bytes_inj:
  assumes "to_le_bytes v = to_le_bytes w"
  shows "v = w"
proof (rule bit_word_eqI)
  fix n
  assume n: "n < LENGTH(64)"
  let ?i = "n div 8"
  have "?i < 8" using n by simp
  then have "char_of (unat (drop_bit (8 * ?i) v)) = (char_of (unat (drop_bit (8 * ?i) w)) :: char)"
    using arg_cong [OF assms, of "\<lambda>l. l ! ?i"] by (simp add: to_le_bytes_def)
  then have "take_bit 8 (unat (drop_bit (8 * ?i) v)) = take_bit 8 (unat (drop_bit (8 * ?i) w))"
    by (simp add: char_of_eq_iff take_bit_eq_mod)
  then have "bit (take_bit 8 (unat (drop_bit (8 * ?i) v))) (n mod 8) = bit (take_bit 8 (unat (drop_bit (8 * ?i) w))) (n mod 8)"
    by simp
  then have "bit (drop_bit (8 * ?i) v) (n mod 8) = bit (drop_bit (8 * ?i) w) (n mod 8)"
    by (simp add: bit_simps)
  then show "bit v n = bit w n" by (simp add: bit_simps)
qed

lemma framed_inj:
  assumes "framed ps @ r = framed qs @ s" and "length ps = length qs"
    and "\<forall>p \<in> set ps. length p < 2 ^ 64" and "\<forall>q \<in> set qs. length q < 2 ^ 64"
  shows "ps = qs"
  using assms(2,1,3,4)
proof (induction ps qs rule: list_induct2)
  case (Cons p ps q qs)
  from Cons.prems(1) have eq: "to_le_bytes (of_nat (length p)) = to_le_bytes (of_nat (length q))"
    and rest: "p @ framed ps @ r = q @ framed qs @ s"
    by (auto simp: framed_def dest: append_eq_append_conv [THEN iffD1, rotated])
  from to_le_bytes_inj [OF eq] have "unat (of_nat (length p) :: u64) = unat (of_nat (length q) :: u64)" by simp
  then have "length p = length q" using Cons.prems(2,3) by (simp add: unat_of_nat_small)
  with rest have "p = q" "framed ps @ r = framed qs @ s" by auto
  with Cons show ?case by simp
qed simp

text \<open>
  The digest of an intent is taken over a form that cannot be confused: two intents with the same
  canonical form have the same actor, action, sample, identifier, challenge and expiry, and the same alert
  up to the difference between an absent and an empty one. No text can be moved from one field to another.
\<close>

lemma canonical_form_binds:
  assumes "framed (canonical_parts json i nonce ex) = framed (canonical_parts json i' nonce' ex')"
    and "\<forall>p \<in> set (canonical_parts json i nonce ex). length p < 2 ^ 64"
    and "\<forall>p \<in> set (canonical_parts json i' nonce' ex'). length p < 2 ^ 64"
  shows "ai_actor i = ai_actor i' \<and> json (ai_action i) = json (ai_action i') \<and> ai_sample_id i = ai_sample_id i'
    \<and> case_option [] (\<lambda>a. a) (ai_alert_id i) = case_option [] (\<lambda>a. a) (ai_alert_id i')
    \<and> ai_id i = ai_id i' \<and> nonce = nonce' \<and> ex = ex'"
proof -
  have "canonical_parts json i nonce ex = canonical_parts json i' nonce' ex'"
    by (rule framed_inj [of _ "[]" _ "[]"]) (use assms in \<open>simp_all add: canonical_parts_def\<close>)
  then show ?thesis using to_le_bytes_inj by (simp add: canonical_parts_def)
qed

end
