(* ===== verification/Host_Actions.thy ===== *)
theory Host_Actions
  imports Host_Approval
begin

text \<open>
  The service of host actions, \<open>host_actions/service.rs\<close>: creation of intents against a current sample, the
  submission of an approved intent, the queue and the tasks that execute, the cooldown of cache drops,
  the table of executions and the limit on failed authentications; and the guards of
  \<open>api/host_actions.rs\<close>. The definitions are the stretches of code between two suspension points;
  \<open>Host_Action_System\<close> interleaves them.
\<close>

section \<open>Samples\<close>

text \<open>Of a sample of the host, the fields that the validation of a request reads.\<close>

datatype availability_state = Available | Unsupported | PermissionDenied | TemporarilyUnavailable | Stale

record process_memory =
  pm_pid :: u32
  pm_start_ticks :: "u64 option"
  pm_uid :: "u32 option"
  pm_name :: string
  pm_availability :: availability_state

record resource_snapshot =
  rs_sample_id :: string
  rs_sampled_at :: u64
  rs_boot_id :: "string option"
  rs_processes :: "process_memory list"
  rs_action_availability :: availability_state

definition MAX_SAMPLE_AGE :: u64 where "MAX_SAMPLE_AGE = 30000"

definition names_process :: "process_target \<Rightarrow> process_memory \<Rightarrow> bool" where
  "names_process target p \<longleftrightarrow>
     pm_pid p = pt_pid target \<and> pm_start_ticks p = Some (pt_start_time_ticks target)
     \<and> pm_uid p = Some (pt_uid target) \<and> pm_name p = pt_name target \<and> pm_availability p = Available"

definition validate_snapshot :: "u64 \<Rightarrow> resource_snapshot \<Rightarrow> action_intent_request \<Rightarrow> host_action_error + unit" where
  "validate_snapshot now_ms snapshot request =
     (if rs_sample_id snapshot \<noteq> ar_sample_id request \<or> rs_sampled_at snapshot = 0
         \<or> MAX_SAMPLE_AGE < saturating_sub now_ms (rs_sampled_at snapshot)
      then Inl StaleTarget
      else if rs_action_availability snapshot \<noteq> Available then Inl CapabilityUnavailable
      else if (case ar_action request of
                 DropCleanCaches \<Rightarrow> True
               | TerminateSameUserProcess target \<Rightarrow>
                   rs_boot_id snapshot = Some (pt_boot_id target) \<and> list_ex (names_process target) (rs_processes snapshot))
      then Inr () else Inl StaleTarget)"

definition create_intent ::
  "(string \<Rightarrow> string) \<Rightarrow> (host_action \<Rightarrow> string) \<Rightarrow> nat \<Rightarrow> string \<Rightarrow> string \<Rightarrow> string \<Rightarrow> action_intent_request
    \<Rightarrow> resource_snapshot \<Rightarrow> u64 \<Rightarrow> approval_store \<Rightarrow> (host_action_error + intent_challenge) \<times> approval_store" where
  "create_intent sha json now iid nonce actor request snapshot now_ms intents =
     (case and_then (validate_request request) (\<lambda>_. validate_snapshot now_ms snapshot request) of
        Inl e \<Rightarrow> (Inl e, intents)
      | Inr _ \<Rightarrow> approvals_create sha json now iid nonce actor request now_ms intents)"

section \<open>Executions\<close>

datatype execution_state = Queued | Executing | Succeeded | ActionFailed | Denied | Unknown

fun state_name :: "execution_state \<Rightarrow> string" where
  "state_name Queued = ''queued''"
| "state_name Executing = ''executing''"
| "state_name Succeeded = ''succeeded''"
| "state_name ActionFailed = ''failed''"
| "state_name Denied = ''denied''"
| "state_name Unknown = ''unknown''"

record action_execution =
  ae_execution_id :: string
  ae_state :: execution_state
  ae_code :: "string option"
  ae_created_at :: u64
  ae_updated_at :: u64

record stored_execution =
  se_actor :: string
  se_execution :: action_execution

type_synonym executions = "string \<rightharpoonup> stored_execution"

definition EXECUTION_RETENTION_MS :: u64 where "EXECUTION_RETENTION_MS = 30 * 24 * 60 * 60 * 1000"

definition MAX_EXECUTIONS :: nat where "MAX_EXECUTIONS = 1024"

definition new_execution :: "string \<Rightarrow> u64 \<Rightarrow> action_execution" where
  "new_execution eid now_ms =
     \<lparr> ae_execution_id = eid, ae_state = Queued, ae_code = None, ae_created_at = now_ms, ae_updated_at = now_ms \<rparr>"

definition update_execution :: "string \<Rightarrow> execution_state \<Rightarrow> string option \<Rightarrow> u64 \<Rightarrow> executions \<Rightarrow> executions" where
  "update_execution eid state code now_ms m =
     (case m eid of
        Some s \<Rightarrow> m(eid \<mapsto> s\<lparr>se_execution := (se_execution s)\<lparr>ae_state := state, ae_code := code, ae_updated_at := now_ms\<rparr>\<rparr>)
      | None \<Rightarrow> m)"

definition prune_executions :: "u64 \<Rightarrow> executions \<Rightarrow> executions" where
  "prune_executions now_ms m =
     map_retain (\<lambda>_ s. saturating_sub now_ms EXECUTION_RETENTION_MS \<le> ae_updated_at (se_execution s)) m"

text \<open>\<open>oldest\<close> is the first minimum of the iteration over the hash map.\<close>

fun evict_oldest :: "(executions \<Rightarrow> string) \<Rightarrow> nat \<Rightarrow> executions \<Rightarrow> executions" where
  "evict_oldest oldest 0 m = m"
| "evict_oldest oldest (Suc n) m =
     (if MAX_EXECUTIONS \<le> card (dom m) then evict_oldest oldest n (m(oldest m := None)) else m)"

definition insert_execution :: "(executions \<Rightarrow> string) \<Rightarrow> u64 \<Rightarrow> string \<Rightarrow> action_execution \<Rightarrow> executions \<Rightarrow> executions" where
  "insert_execution oldest now_ms actor e m =
     (let pruned = prune_executions now_ms m in
      (evict_oldest oldest (card (dom pruned)) pruned)(ae_execution_id e \<mapsto> \<lparr> se_actor = actor, se_execution = e \<rparr>))"

definition execution_copy :: "string \<Rightarrow> executions \<Rightarrow> action_execution option" where
  "execution_copy eid m = map_option se_execution (m eid)"

definition execution_for_actor :: "u64 \<Rightarrow> string \<Rightarrow> string \<Rightarrow> executions \<Rightarrow> action_execution option \<times> executions" where
  "execution_for_actor now_ms actor eid m =
     (let m = prune_executions now_ms m in
      (case m eid of Some s \<Rightarrow> if se_actor s = actor then Some (se_execution s) else None | None \<Rightarrow> None, m))"

section \<open>Audit records\<close>

record audit_record =
  rc_timestamp :: u64
  rc_actor :: string
  rc_action :: string
  rc_target :: "process_target option"
  rc_intent_id :: string
  rc_execution_id :: "string option"
  rc_helper_receipt_id :: "string option"
  rc_state :: string
  rc_code :: "string option"
  rc_before_sample_id :: "string option"
  rc_after_sample_id :: "string option"
  rc_alert_id :: "string option"

definition audit_record_of ::
  "u64 \<Rightarrow> approved_intent \<Rightarrow> action_execution option \<Rightarrow> execution_state \<Rightarrow> string option \<Rightarrow> string option \<Rightarrow> audit_record" where
  "audit_record_of now_ms intent execution state code receipt =
     \<lparr> rc_timestamp = now_ms, rc_actor = ai_actor intent, rc_action = action_kind (ai_action intent),
       rc_target = action_target (ai_action intent), rc_intent_id = ai_id intent,
       rc_execution_id = map_option ae_execution_id execution, rc_helper_receipt_id = receipt, rc_state = state_name state,
       rc_code = code, rc_before_sample_id = Some (ai_sample_id intent), rc_after_sample_id = None,
       rc_alert_id = ai_alert_id intent \<rparr>"

section \<open>The helper\<close>

record helper_receipt =
  hr_receipt_id :: "string option"
  hr_code :: "string option"

datatype helper_outcome = HelperSucceeded helper_receipt | HelperDenied string | HelperUnknown string

text \<open>What the blocking task that calls the helper returns; \<open>JoinFailed\<close> when it panicked.\<close>

datatype helper_result = HelperReplied helper_outcome | HelperError host_action_error | JoinFailed

definition error_code :: "host_action_error \<Rightarrow> string" where
  "error_code e =
     (case e of ActionUnavailable \<Rightarrow> ''helperUnavailable'' | AuditUnavailable \<Rightarrow> ''auditUnavailable'' | _ \<Rightarrow> ''actionFailed'')"

fun settled :: "helper_result \<Rightarrow> execution_state \<times> string option \<times> string option" where
  "settled (HelperReplied (HelperSucceeded receipt)) = (Succeeded, hr_code receipt, hr_receipt_id receipt)"
| "settled (HelperReplied (HelperDenied code)) = (Denied, Some code, None)"
| "settled (HelperReplied (HelperUnknown code)) = (Unknown, Some code, None)"
| "settled (HelperError e) = (ActionFailed, Some (error_code e), None)"
| "settled JoinFailed = (Unknown, Some ''executionJoinFailed'', None)"

section \<open>Cooldown\<close>

definition CACHE_COOLDOWN :: nat where "CACHE_COOLDOWN = 15 * 60 * 1000"

definition reserve_cache_cooldown :: "nat \<Rightarrow> nat option \<Rightarrow> (host_action_error + unit) \<times> nat option" where
  "reserve_cache_cooldown now cooldown =
     (if (case cooldown of Some until \<Rightarrow> now < until | None \<Rightarrow> False) then (Inl Cooldown, cooldown)
      else (Inr (), Some (now + CACHE_COOLDOWN)))"

section \<open>Failed authentications\<close>

definition REAUTH_WINDOW :: nat where "REAUTH_WINDOW = 5 * 60 * 1000"

type_synonym failures = "string \<rightharpoonup> nat list"

definition prune_attempts :: "nat \<Rightarrow> nat list \<Rightarrow> nat list" where
  "prune_attempts now attempts = dropWhile (\<lambda>t. REAUTH_WINDOW < now - t) attempts"

definition reauth_keys :: "string \<Rightarrow> string option \<Rightarrow> string list" where
  "reauth_keys actor ip = [''actor:'' @ actor, ''ip:'' @ (case ip of Some a \<Rightarrow> a | None \<Rightarrow> ''unknown'')]"

definition attempts_of :: "string \<Rightarrow> failures \<Rightarrow> nat list" where
  "attempts_of key failures = (case failures key of Some attempts \<Rightarrow> attempts | None \<Rightarrow> [])"

definition prune_key :: "nat \<Rightarrow> failures \<Rightarrow> string \<Rightarrow> failures" where
  "prune_key now failures key = failures(key \<mapsto> prune_attempts now (attempts_of key failures))"

definition check_reauth_allowed ::
  "nat \<Rightarrow> string \<Rightarrow> string option \<Rightarrow> failures \<Rightarrow> (host_action_error + unit) \<times> failures" where
  "check_reauth_allowed now actor ip failures =
     (let failures = foldl (prune_key now) failures (reauth_keys actor ip) in
      (if list_ex (\<lambda>key. 5 \<le> length (attempts_of key failures)) (reauth_keys actor ip)
       then Inl RateLimited else Inr (), failures))"

definition record_key :: "nat \<Rightarrow> failures \<Rightarrow> string \<Rightarrow> failures" where
  "record_key now failures key = failures(key \<mapsto> prune_attempts now (attempts_of key failures) @ [now])"

definition record_reauth_failure :: "nat \<Rightarrow> string \<Rightarrow> string option \<Rightarrow> failures \<Rightarrow> failures" where
  "record_reauth_failure now actor ip failures = foldl (record_key now) failures (reauth_keys actor ip)"

section \<open>The interface\<close>

record action_capabilities =
  ca_available :: bool
  ca_reason :: string
  ca_actions :: "string list"

definition capabilities :: "bool \<Rightarrow> bool \<Rightarrow> action_capabilities" where
  "capabilities no_auth has_database =
     \<lparr> ca_available = False,
       ca_reason = (if no_auth then ''noAuth'' else if \<not> has_database then ''reauthUnavailable'' else ''helperNotEnrolled''),
       ca_actions = [''dropCleanCaches'', ''terminateSameUserProcess''] \<rparr>"

text \<open>A response is its status and its code.\<close>

type_synonym action_response = "nat \<times> string"

definition enabled_actor ::
  "bool \<Rightarrow> bool \<Rightarrow> (string \<Rightarrow> bool) \<Rightarrow> string option \<Rightarrow> action_response + string" where
  "enabled_actor no_auth has_database is_enabled_user actor =
     (if no_auth then Inl (403, ''actionsDisabledNoAuth'')
      else if \<not> has_database then Inl (503, ''reauthUnavailable'')
      else (case actor of
              None \<Rightarrow> Inl (401, ''unauthorized'')
            | Some a \<Rightarrow> if is_enabled_user a then Inr a else Inl (403, ''actorDisabled'')))"

definition helper_available :: "bool \<Rightarrow> bool \<Rightarrow> action_response + unit" where
  "helper_available no_auth has_database =
     (if ca_available (capabilities no_auth has_database) then Inr () else Inl (503, ''helperNotEnrolled''))"

fun action_error :: "host_action_error \<Rightarrow> action_response" where
  "action_error InvalidIntent = (400, ''invalidIntent'')"
| "action_error StaleTarget = (409, ''staleTarget'')"
| "action_error CapabilityUnavailable = (503, ''capabilityUnavailable'')"
| "action_error IntentLimit = (429, ''queueFull'')"
| "action_error QueueFull = (429, ''queueFull'')"
| "action_error Cooldown = (429, ''cacheCooldown'')"
| "action_error IntentExpired = (409, ''invalidApproval'')"
| "action_error InvalidApproval = (409, ''invalidApproval'')"
| "action_error AuditUnavailable = (503, ''helperUnavailable'')"
| "action_error ActionUnavailable = (503, ''helperUnavailable'')"
| "action_error RateLimited = (429, ''reauthRateLimited'')"

text \<open>Cookies prove nothing about the origin of a request, so the origin header must name this host.\<close>

definition same_origin :: "string option \<Rightarrow> string option \<Rightarrow> bool" where
  "same_origin origin host =
     (case (origin, host) of
        (Some o', Some h) \<Rightarrow> o' = ''http://'' @ h \<or> o' = ''https://'' @ h
      | _ \<Rightarrow> False)"

definition require_action_request ::
  "string option \<Rightarrow> bool \<Rightarrow> string option \<Rightarrow> string option \<Rightarrow> action_response + unit" where
  "require_action_request content_type uses_cookie origin host =
     (if \<not> (case content_type of Some t \<Rightarrow> starts_with ''application/json'' t | None \<Rightarrow> False)
      then Inl (415, ''invalidContentType'')
      else if uses_cookie \<and> \<not> same_origin origin host then Inl (403, ''invalidOrigin'')
      else Inr ())"

section \<open>Bounded tables\<close>

lemma evict_oldest_bound:
  assumes "finite (dom m)" and "card (dom m) \<le> n" and "\<And>m. dom m \<noteq> {} \<Longrightarrow> oldest m \<in> dom m"
  shows "card (dom (evict_oldest oldest n m)) < MAX_EXECUTIONS \<and> finite (dom (evict_oldest oldest n m))
    \<and> evict_oldest oldest n m \<subseteq>\<^sub>m m"
  using assms(1,2)
proof (induction n arbitrary: m)
  case (Suc n)
  show ?case
  proof (cases "MAX_EXECUTIONS \<le> card (dom m)")
    case True
    then have "dom m \<noteq> {}" by (auto simp: MAX_EXECUTIONS_def)
    then have mem: "oldest m \<in> dom m" by (rule assms(3))
    have "card (dom m - {oldest m}) < card (dom m)" using Suc.prems(1) mem by (rule card_Diff1_less)
    with Suc.prems have "finite (dom (m(oldest m := None)))" "card (dom (m(oldest m := None))) \<le> n" by simp_all
    note IH = Suc.IH [of "m(oldest m := None)", OF this]
    have "evict_oldest oldest n (m(oldest m := None)) \<subseteq>\<^sub>m m"
      by (rule map_le_trans [OF IH [THEN conjunct2, THEN conjunct2] upd_None_map_le])
    with IH True show ?thesis by (simp del: fun_upd_apply)
  next
    case False
    with Suc.prems show ?thesis by simp
  qed
qed (simp add: MAX_EXECUTIONS_def)

lemma insert_execution_bound:
  assumes "finite (dom m)" and "\<And>m. dom m \<noteq> {} \<Longrightarrow> oldest m \<in> dom m"
  shows "card (dom (insert_execution oldest now_ms actor e m)) \<le> MAX_EXECUTIONS"
    "finite (dom (insert_execution oldest now_ms actor e m))"
proof -
  let ?p = "prune_executions now_ms m"
  have "finite (dom ?p)"
    using assms(1) dom_map_retain unfolding prune_executions_def by (rule finite_subset [rotated])
  from evict_oldest_bound [OF this order_refl assms(2)]
  have "card (dom (evict_oldest oldest (card (dom ?p)) ?p)) < MAX_EXECUTIONS"
    "finite (dom (evict_oldest oldest (card (dom ?p)) ?p))" by blast+
  then show "card (dom (insert_execution oldest now_ms actor e m)) \<le> MAX_EXECUTIONS"
    "finite (dom (insert_execution oldest now_ms actor e m))"
    by (simp_all add: insert_execution_def Let_def card_insert_if)
qed

text \<open>As the service stands, no request reaches it: the helper is not enrolled.\<close>

lemma helper_never_available: "helper_available no_auth has_database = Inl (503, ''helperNotEnrolled'')"
  by (simp add: helper_available_def capabilities_def)

end
