(* ===== verification/Host_Action_System.thy ===== *)
theory Host_Action_System
  imports Host_Actions
begin

text \<open>
  The tasks of the host-action service interleaved: requests that create, approve and submit intents, the
  submissions between their suspension points, and the tasks that execute. A trace, newest event first,
  records what happened: intents that were created, approved and spent, audit records whose append
  reported success, and calls of the helper.
\<close>

section \<open>Tasks\<close>

text \<open>
  The task of an execution, \<open>run_execution\<close>; the flag of the last two phases says whether the helper has been
  called.
\<close>

datatype runner =
    Spawned
  | Active
  | Marked
  | Recorded
  | Returned helper_result
  | Settled helper_result
  | Unaudited bool
  | Doubted bool

text \<open>What happens to an intent after it is consumed: its submission and then its execution.\<close>

datatype action_task =
    Taken approved_intent
  | Cooling approved_intent
  | Admitted approved_intent
  | Crowded approved_intent
  | Permitted approved_intent action_execution
  | Accepted approved_intent action_execution
  | Undoing approved_intent bool
  | Running approved_intent string runner

fun task_intent :: "action_task \<Rightarrow> approved_intent" where
  "task_intent (Taken i) = i"
| "task_intent (Cooling i) = i"
| "task_intent (Admitted i) = i"
| "task_intent (Crowded i) = i"
| "task_intent (Permitted i e) = i"
| "task_intent (Accepted i e) = i"
| "task_intent (Undoing i b) = i"
| "task_intent (Running i eid ph) = i"

text \<open>Tasks that hold one of the permits of the queue, tasks inside the gate, tasks that have called the helper.\<close>

fun has_permit :: "action_task \<Rightarrow> bool" where
  "has_permit (Permitted i e) = True"
| "has_permit (Accepted i e) = True"
| "has_permit (Undoing i b) = b"
| "has_permit (Running i eid ph) = True"
| "has_permit t = False"

fun in_gate :: "action_task \<Rightarrow> bool" where
  "in_gate (Running i eid ph) = (ph \<noteq> Spawned)"
| "in_gate t = False"

fun called :: "action_task \<Rightarrow> bool" where
  "called (Running i eid (Returned r)) = True"
| "called (Running i eid (Settled r)) = True"
| "called (Running i eid (Unaudited b)) = b"
| "called (Running i eid (Doubted b)) = b"
| "called t = False"

datatype event =
    Created approved_intent string u64 nat
  | Approved string string string nat
  | Spent approved_intent string nat
  | Audited audit_record
  | Dispatched approved_intent string

record host_service =
  sv_now :: nat
  sv_approvals :: approval_store
  sv_executions :: executions
  sv_permits :: nat
  sv_gate :: "string option"
  sv_cooldown :: "nat option"
  sv_tasks :: "string \<rightharpoonup> action_task"
  sv_used :: "string set"
  sv_execs :: "string set"
  sv_trace :: "event list"

definition host_service_new :: host_service where
  "host_service_new =
     \<lparr> sv_now = 0, sv_approvals = Map.empty, sv_executions = Map.empty, sv_permits = 8, sv_gate = None, sv_cooldown = None,
       sv_tasks = Map.empty, sv_used = {}, sv_execs = {}, sv_trace = [] \<rparr>"

definition emit :: "event \<Rightarrow> host_service \<Rightarrow> host_service" where
  "emit ev y = y\<lparr>sv_trace := ev # sv_trace y\<rparr>"

definition audit_try :: "bool \<Rightarrow> audit_record \<Rightarrow> host_service \<Rightarrow> host_service" where
  "audit_try ok rec y = (if ok then emit (Audited rec) y else y)"

definition set_task :: "string \<Rightarrow> action_task option \<Rightarrow> host_service \<Rightarrow> host_service" where
  "set_task iid t y = y\<lparr>sv_tasks := (sv_tasks y)(iid := t)\<rparr>"

text \<open>The end of \<open>run_execution\<close> drops the gate and the permit.\<close>

definition end_run :: "string \<Rightarrow> host_service \<Rightarrow> host_service" where
  "end_run iid y = (set_task iid None y)\<lparr>sv_gate := None, sv_permits := sv_permits y + 1\<rparr>"

inductive host_step :: "(string \<Rightarrow> string) \<Rightarrow> (host_action \<Rightarrow> string) \<Rightarrow> host_service \<Rightarrow> host_service \<Rightarrow> bool"
  for sha :: "string \<Rightarrow> string" and json :: "host_action \<Rightarrow> string" where
  Tick: "sv_now y \<le> t \<Longrightarrow> host_step sha json y (y\<lparr>sv_now := t\<rparr>)"
| Create: "iid \<notin> sv_used y \<Longrightarrow>
    create_intent sha json (sv_now y) iid nonce actor request snapshot now_ms (sv_approvals y) = (Inr ch, st) \<Longrightarrow>
    host_step sha json y (emit (Created (new_intent iid actor request) nonce (ic_expires_at ch) (sv_now y))
      (y\<lparr>sv_approvals := st, sv_used := insert iid (sv_used y)\<rparr>))"
| CreateFails:
    "create_intent sha json (sv_now y) iid nonce actor request snapshot now_ms (sv_approvals y) = (Inl e, st) \<Longrightarrow>
    host_step sha json y (y\<lparr>sv_approvals := st\<rparr>)"
| Approve: "approvals_approve sha (sv_now y) token actor iid nonce now_ms (sv_approvals y) = (Inr r, st) \<Longrightarrow>
    host_step sha json y (emit (Approved iid actor token (sv_now y)) (y\<lparr>sv_approvals := st\<rparr>))"
| ApproveFails: "approvals_approve sha (sv_now y) token actor iid nonce now_ms (sv_approvals y) = (Inl e, st) \<Longrightarrow>
    host_step sha json y (y\<lparr>sv_approvals := st\<rparr>)"
| Submit: "approvals_consume sha (sv_now y) actor iid token (sv_approvals y) = (Inr intent, st) \<Longrightarrow>
    host_step sha json y (emit (Spent intent token (sv_now y)) (set_task iid (Some (Taken intent)) (y\<lparr>sv_approvals := st\<rparr>)))"
| SubmitFails: "approvals_consume sha (sv_now y) actor iid token (sv_approvals y) = (Inl e, st) \<Longrightarrow>
    host_step sha json y (y\<lparr>sv_approvals := st\<rparr>)"
| NoReserve: "sv_tasks y iid = Some (Taken i) \<Longrightarrow> ai_action i \<noteq> DropCleanCaches \<Longrightarrow>
    host_step sha json y (set_task iid (Some (Admitted i)) y)"
| Reserve: "sv_tasks y iid = Some (Taken i) \<Longrightarrow> ai_action i = DropCleanCaches \<Longrightarrow>
    reserve_cache_cooldown (sv_now y) (sv_cooldown y) = (r, c) \<Longrightarrow>
    host_step sha json y ((set_task iid (Some (if r = Inr () then Admitted i else Cooling i)) y)\<lparr>sv_cooldown := c\<rparr>)"
| CoolingAudit: "sv_tasks y iid = Some (Cooling i) \<Longrightarrow>
    host_step sha json y (audit_try ok (audit_record_of now_ms i None Denied (Some ''cacheCooldown'') None) (set_task iid None y))"
| Permit: "sv_tasks y iid = Some (Admitted i) \<Longrightarrow> 0 < sv_permits y \<Longrightarrow> eid \<notin> sv_execs y \<Longrightarrow>
    host_step sha json y ((set_task iid (Some (Permitted i (new_execution eid now_ms))) y)
      \<lparr>sv_permits := sv_permits y - 1, sv_execs := insert eid (sv_execs y)\<rparr>)"
| Crowd: "sv_tasks y iid = Some (Admitted i) \<Longrightarrow> sv_permits y = 0 \<Longrightarrow>
    host_step sha json y (set_task iid (Some (Crowded i)) y)"
| CrowdAudit: "sv_tasks y iid = Some (Crowded i) \<Longrightarrow>
    host_step sha json y (audit_try ok (audit_record_of now_ms i None Denied (Some ''queueFull'') None)
      (set_task iid (Some (Undoing i False)) y))"
| QueuedAudit: "sv_tasks y iid = Some (Permitted i e) \<Longrightarrow>
    host_step sha json y (emit (Audited (audit_record_of now_ms i (Some e) Queued None None))
      (set_task iid (Some (Accepted i e)) y))"
| QueuedAuditFails: "sv_tasks y iid = Some (Permitted i e) \<Longrightarrow>
    host_step sha json y (set_task iid (Some (Undoing i True)) y)"
| Undo: "sv_tasks y iid = Some (Undoing i b) \<Longrightarrow>
    host_step sha json y ((set_task iid None y)
      \<lparr>sv_cooldown := if ai_action i = DropCleanCaches then None else sv_cooldown y,
       sv_permits := sv_permits y + (if b then 1 else 0)\<rparr>)"
| Spawn: "sv_tasks y iid = Some (Accepted i e) \<Longrightarrow>
    host_step sha json y ((set_task iid (Some (Running i (ae_execution_id e) Spawned)) y)
      \<lparr>sv_executions := insert_execution oldest now_ms (ai_actor i) e (sv_executions y)\<rparr>)"
| Enter: "sv_tasks y iid = Some (Running i eid Spawned) \<Longrightarrow> sv_gate y = None \<Longrightarrow>
    host_step sha json y ((set_task iid (Some (Running i eid Active)) y)\<lparr>sv_gate := Some iid\<rparr>)"
| Mark: "sv_tasks y iid = Some (Running i eid Active) \<Longrightarrow>
    host_step sha json y ((set_task iid (Some (Running i eid Marked)) y)
      \<lparr>sv_executions := update_execution eid Executing None now_ms (sv_executions y)\<rparr>)"
| ExecutingAudit: "sv_tasks y iid = Some (Running i eid Marked) \<Longrightarrow>
    host_step sha json y (emit (Audited (audit_record_of now_ms i (execution_copy eid (sv_executions y)) Executing None None))
      (set_task iid (Some (Running i eid Recorded)) y))"
| ExecutingAuditFails: "sv_tasks y iid = Some (Running i eid Marked) \<Longrightarrow>
    host_step sha json y (set_task iid (Some (Running i eid (Unaudited False))) y)"
| Dispatch: "sv_tasks y iid = Some (Running i eid Recorded) \<Longrightarrow>
    host_step sha json y (emit (Dispatched i eid) (set_task iid (Some (Running i eid (Returned res))) y))"
| Settle: "sv_tasks y iid = Some (Running i eid (Returned res)) \<Longrightarrow> settled res = (state, code, receipt) \<Longrightarrow>
    host_step sha json y ((set_task iid (Some (Running i eid (Settled res))) y)
      \<lparr>sv_executions := update_execution eid state code now_ms (sv_executions y)\<rparr>)"
| FinalAudit: "sv_tasks y iid = Some (Running i eid (Settled res)) \<Longrightarrow> settled res = (state, code, receipt) \<Longrightarrow>
    host_step sha json y (emit (Audited (audit_record_of now_ms i (execution_copy eid (sv_executions y)) state code receipt))
      (end_run iid y))"
| FinalAuditFails: "sv_tasks y iid = Some (Running i eid (Settled res)) \<Longrightarrow>
    host_step sha json y (set_task iid (Some (Running i eid (Unaudited True))) y)"
| Doubt: "sv_tasks y iid = Some (Running i eid (Unaudited b)) \<Longrightarrow>
    host_step sha json y ((set_task iid (Some (Running i eid (Doubted b))) y)
      \<lparr>sv_executions := update_execution eid Unknown (Some ''auditUnavailable'') now_ms (sv_executions y)\<rparr>)"
| LastAudit: "sv_tasks y iid = Some (Running i eid (Doubted b)) \<Longrightarrow>
    host_step sha json y (audit_try ok
      (audit_record_of now_ms i (execution_copy eid (sv_executions y)) Unknown (Some ''auditUnavailable'') None) (end_run iid y))"
| Look: "host_step sha json y (y\<lparr>sv_executions := snd (execution_for_actor now_ms actor eid (sv_executions y))\<rparr>)"

lemma emit_sel [simp]:
  "sv_now (emit ev y) = sv_now y" "sv_approvals (emit ev y) = sv_approvals y" "sv_executions (emit ev y) = sv_executions y"
  "sv_permits (emit ev y) = sv_permits y" "sv_gate (emit ev y) = sv_gate y" "sv_cooldown (emit ev y) = sv_cooldown y"
  "sv_tasks (emit ev y) = sv_tasks y" "sv_used (emit ev y) = sv_used y"
  "sv_execs (emit ev y) = sv_execs y" "sv_trace (emit ev y) = ev # sv_trace y"
  by (simp_all add: emit_def)

lemma audit_try_sel [simp]:
  "sv_now (audit_try ok r y) = sv_now y" "sv_approvals (audit_try ok r y) = sv_approvals y"
  "sv_permits (audit_try ok r y) = sv_permits y" "sv_gate (audit_try ok r y) = sv_gate y"
  "sv_tasks (audit_try ok r y) = sv_tasks y" "sv_used (audit_try ok r y) = sv_used y"
  "sv_trace (audit_try ok r y) = (if ok then [Audited r] else []) @ sv_trace y"
  by (simp_all add: audit_try_def)

lemma set_task_sel [simp]:
  "sv_now (set_task iid t y) = sv_now y" "sv_approvals (set_task iid t y) = sv_approvals y"
  "sv_permits (set_task iid t y) = sv_permits y" "sv_gate (set_task iid t y) = sv_gate y"
  "sv_tasks (set_task iid t y) = (sv_tasks y)(iid := t)" "sv_used (set_task iid t y) = sv_used y"
  "sv_trace (set_task iid t y) = sv_trace y" "sv_cooldown (set_task iid t y) = sv_cooldown y"
  "sv_executions (set_task iid t y) = sv_executions y" "sv_execs (set_task iid t y) = sv_execs y"
  by (simp_all add: set_task_def)

lemma end_run_sel [simp]:
  "sv_now (end_run iid y) = sv_now y" "sv_approvals (end_run iid y) = sv_approvals y"
  "sv_permits (end_run iid y) = sv_permits y + 1" "sv_gate (end_run iid y) = None"
  "sv_tasks (end_run iid y) = (sv_tasks y)(iid := None)" "sv_used (end_run iid y) = sv_used y"
  "sv_trace (end_run iid y) = sv_trace y"
  by (simp_all add: end_run_def)

lemma new_intent_id [simp]: "ai_id (new_intent iid actor request) = iid"
  by (simp add: new_intent_def)

end
