(* ===== verification/Host_Action_Safety.thy ===== *)
theory Host_Action_Safety
  imports Host_Action_System
begin

text \<open>
  What every interleaving of the tasks of the host-action service keeps: every intent is in one place, every
  call of the helper was approved and recorded before, the gate admits one execution and the queue eight.
\<close>

section \<open>Changes of the store\<close>

lemma consume_Inr:
  assumes "approvals_consume sha now actor iid token st = (Inr intent, st')"
  obtains item where "st iid = Some item" "intent_live now item" "accepts sha now actor token item"
    "intent = pi_approved item" "st' = (reap_expired now st)(iid := None)"
  using assms by (auto simp: consume_Inr_iff)

definition fresh_item :: "(string \<Rightarrow> string) \<Rightarrow> (host_action \<Rightarrow> string) \<Rightarrow> nat \<Rightarrow> approved_intent \<Rightarrow> string \<Rightarrow> u64 \<Rightarrow> pending_intent" where
  "fresh_item sha json now i nonce expires_at =
     \<lparr> pi_approved = i, pi_challenge_nonce = nonce, pi_challenge_expires = now + CHALLENGE_TTL,
       pi_canonical_digest = canonical_digest sha json i nonce expires_at, pi_approval_hash = None, pi_approval_expires = None \<rparr>"

lemma create_intent_Inr:
  assumes "create_intent sha json now iid nonce actor request snapshot now_ms st = (Inr ch, st')"
  shows "st' = (reap_expired now st)(iid \<mapsto> fresh_item sha json now (new_intent iid actor request) nonce (ic_expires_at ch))"
  using assms by (auto simp: create_intent_def approvals_create_def fresh_item_def Let_def split: sum.splits if_splits)

lemma reap_le: "reap_expired now st \<subseteq>\<^sub>m st"
  by (auto simp: map_le_def dom_def)

lemma create_intent_Inl:
  assumes "create_intent sha json now iid nonce actor request snapshot now_ms st = (Inl e, st')"
  shows "st' \<subseteq>\<^sub>m st"
  using assms reap_le by (auto simp: create_intent_def dest!: create_Inl split: sum.splits)

section \<open>Every intent is in one place\<close>

definition ids_ok :: "approval_store \<Rightarrow> (string \<rightharpoonup> action_task) \<Rightarrow> string set \<Rightarrow> bool" where
  "ids_ok A S U \<longleftrightarrow>
     (\<forall>k item. A k = Some item \<longrightarrow> ai_id (pi_approved item) = k \<and> k \<in> U \<and> S k = None)
     \<and> (\<forall>k t. S k = Some t \<longrightarrow> ai_id (task_intent t) = k \<and> k \<in> U)"

lemma ids_okD:
  assumes "ids_ok A S U"
  shows "A k = Some item \<Longrightarrow> ai_id (pi_approved item) = k \<and> k \<in> U \<and> S k = None"
    and "S k = Some t \<Longrightarrow> ai_id (task_intent t) = k \<and> k \<in> U \<and> A k = None"
  using assms unfolding ids_ok_def by (blast, metis option.distinct(1) option.exhaust)

lemma ids_ok_approvals:
  assumes "ids_ok A S U"
    and "\<And>k item. A' k = Some item \<Longrightarrow> \<exists>item'. A k = Some item' \<and> pi_approved item' = pi_approved item"
  shows "ids_ok A' S U"
proof -
  have "ai_id (pi_approved item) = k \<and> k \<in> U \<and> S k = None" if "A' k = Some item" for k item
    using assms(2) [OF that] ids_okD(1) [OF assms(1)] by metis
  with assms(1) show ?thesis by (simp add: ids_ok_def)
qed

lemma ids_ok_le: "ids_ok A S U \<Longrightarrow> A' \<subseteq>\<^sub>m A \<Longrightarrow> ids_ok A' S U"
  by (erule ids_ok_approvals) (metis domI map_le_def)

lemma ids_ok_create:
  assumes "ids_ok A S U" and "iid \<notin> U" and "ai_id (pi_approved item) = iid"
  shows "ids_ok (A(iid \<mapsto> item)) S (insert iid U)"
proof -
  have "S iid = None" using assms(2) ids_okD(2) [OF assms(1)] by (cases "S iid") auto
  with assms show ?thesis by (auto simp: ids_ok_def)
qed

lemma ids_ok_spend:
  assumes "ids_ok A S U" and "A iid = Some item" and "task_intent t = pi_approved item"
  shows "ids_ok (A(iid := None)) (S(iid \<mapsto> t)) U"
  using assms by (auto simp: ids_ok_def)

lemma ids_ok_task:
  assumes "ids_ok A S U" and "S k = Some t"
  shows "task_intent t' = task_intent t \<Longrightarrow> ids_ok A (S(k \<mapsto> t')) U" and "ids_ok A (S(k := None)) U"
  using assms ids_okD(2) [OF assms] by (auto simp: ids_ok_def)

abbreviation ids_inv :: "host_service \<Rightarrow> bool" where
  "ids_inv y \<equiv> ids_ok (sv_approvals y) (sv_tasks y) (sv_used y)"

lemma ids_inv_step:
  assumes "host_step sha json y z" and "ids_inv y"
  shows "ids_inv z"
  using assms
proof (induction rule: host_step.induct)
  case (Create iid y nonce actor request snapshot now_ms ch st)
  have "ids_ok st (sv_tasks y) (insert iid (sv_used y))"
    unfolding create_intent_Inr [OF Create(2)]
    by (rule ids_ok_create [OF ids_ok_le [OF Create(3) reap_le] Create(1)]) (simp add: fresh_item_def)
  then show ?case by simp
next
  case (CreateFails y iid nonce actor request snapshot now_ms e st)
  from ids_ok_le [OF CreateFails(2) create_intent_Inl [OF CreateFails(1)]] show ?case by simp
next
  case (Approve y token actor iid nonce now_ms r st)
  from approve_Inr [OF Approve(1)] obtain item where item: "sv_approvals y iid = Some item"
    "st = (reap_expired (sv_now y) (sv_approvals y))(iid \<mapsto> item\<lparr>pi_approval_hash := Some (token_hash sha token (pi_canonical_digest item)),
       pi_approval_expires := Some (sv_now y + APPROVAL_TTL)\<rparr>)" by metis
  have "ids_ok st (sv_tasks y) (sv_used y)"
    by (rule ids_ok_approvals [OF Approve(2)]) (auto simp: item split: if_splits)
  then show ?case by simp
next
  case (ApproveFails y token actor iid nonce now_ms e st)
  from ids_ok_le [OF ApproveFails(2) reap_le] approve_Inl [OF ApproveFails(1)] show ?case by simp
next
  case (Submit y actor iid token intent st)
  from consume_Inr [OF Submit(1)] obtain item where item: "sv_approvals y iid = Some item"
    "intent_live (sv_now y) item" "intent = pi_approved item" "st = (reap_expired (sv_now y) (sv_approvals y))(iid := None)"
    by metis
  have "ids_ok st ((sv_tasks y)(iid \<mapsto> Taken intent)) (sv_used y)"
    unfolding item(4) using item by (intro ids_ok_spend [OF ids_ok_le [OF Submit(2) reap_le]]) auto
  then show ?case by (simp del: fun_upd_apply)
next
  case (SubmitFails y actor iid token e st)
  from ids_ok_le [OF SubmitFails(2) reap_le] consume_Inl [OF SubmitFails(1)] show ?case by simp
qed (auto simp del: fun_upd_apply intro: ids_ok_task split: if_splits)

section \<open>One execution at a time, eight in the queue\<close>

definition gate_ok :: "string option \<Rightarrow> (string \<rightharpoonup> action_task) \<Rightarrow> bool" where
  "gate_ok G S \<longleftrightarrow> (\<forall>k t. S k = Some t \<longrightarrow> in_gate t = (G = Some k)) \<and> (\<forall>k. G = Some k \<longrightarrow> S k \<noteq> None)"

definition holders :: "(string \<rightharpoonup> action_task) \<Rightarrow> string set" where
  "holders S = {k. \<exists>t. S k = Some t \<and> has_permit t}"

definition permits_ok :: "nat \<Rightarrow> (string \<rightharpoonup> action_task) \<Rightarrow> bool" where
  "permits_ok P S \<longleftrightarrow> finite (holders S) \<and> P + card (holders S) = 8"

lemma holders_upd:
  "holders (S(k \<mapsto> t)) = (if has_permit t then insert k (holders S) else holders S - {k})"
  "holders (S(k := None)) = holders S - {k}"
  by (auto simp: holders_def)

lemma permits_same:
  "permits_ok P S \<Longrightarrow> S k = Some t \<Longrightarrow> has_permit t = has_permit t' \<Longrightarrow> permits_ok P (S(k \<mapsto> t'))"
  unfolding permits_ok_def holders_upd by (auto simp: holders_def insert_absorb)

lemma permits_new: "permits_ok P S \<Longrightarrow> S k = None \<Longrightarrow> \<not> has_permit t \<Longrightarrow> permits_ok P (S(k \<mapsto> t))"
  unfolding permits_ok_def holders_upd by (simp add: holders_def)

lemma permits_none: "permits_ok P S \<Longrightarrow> S k = Some t \<Longrightarrow> \<not> has_permit t \<Longrightarrow> permits_ok P (S(k := None))"
  unfolding permits_ok_def holders_upd by (simp add: holders_def)

lemma permits_take:
  assumes "permits_ok P S" and "S k = Some t" and "\<not> has_permit t" and "0 < P" and "has_permit t'"
  shows "permits_ok (P - 1) (S(k \<mapsto> t'))"
proof -
  have "k \<notin> holders S" using assms(2,3) by (simp add: holders_def)
  with assms show ?thesis by (simp add: permits_ok_def holders_upd)
qed

lemma permits_give:
  assumes "permits_ok P S" and "S k = Some t" and "has_permit t"
  shows "permits_ok (P + 1) (S(k := None))"
proof -
  have k: "k \<in> holders S" using assms(2,3) by (simp add: holders_def)
  then have "0 < card (holders S)" using assms(1) by (auto simp: permits_ok_def card_gt_0_iff)
  with k assms show ?thesis by (simp add: permits_ok_def holders_upd card_Diff_singleton)
qed

abbreviation queue_inv :: "host_service \<Rightarrow> bool" where
  "queue_inv y \<equiv> gate_ok (sv_gate y) (sv_tasks y) \<and> permits_ok (sv_permits y) (sv_tasks y)"

lemma gate_same:
  "gate_ok G S \<Longrightarrow> S k = Some t \<Longrightarrow> in_gate t = in_gate t' \<Longrightarrow> gate_ok G (S(k \<mapsto> t'))"
  "gate_ok G S \<Longrightarrow> S k = None \<Longrightarrow> \<not> in_gate t' \<Longrightarrow> gate_ok G (S(k \<mapsto> t'))"
  "gate_ok G S \<Longrightarrow> S k = Some t \<Longrightarrow> \<not> in_gate t \<Longrightarrow> gate_ok G (S(k := None))"
  by (auto simp: gate_ok_def)

lemma gate_enter: "gate_ok None S \<Longrightarrow> S k = Some t \<Longrightarrow> in_gate t' \<Longrightarrow> gate_ok (Some k) (S(k \<mapsto> t'))"
  by (auto simp: gate_ok_def)

lemma gate_leave: "gate_ok G S \<Longrightarrow> S k = Some t \<Longrightarrow> in_gate t \<Longrightarrow> gate_ok None (S(k := None))"
  by (auto simp: gate_ok_def)

lemma queue_inv_step:
  assumes "host_step sha json y z" and "ids_inv y" and "queue_inv y"
  shows "queue_inv z"
  using assms
proof (induction rule: host_step.induct)
  case (Submit y actor iid token intent st)
  from consume_Inr [OF Submit(1)] have "sv_tasks y iid = None" using ids_okD(1) [OF Submit(2)] by metis
  with Submit show ?case by (simp add: gate_same permits_new del: fun_upd_apply)
next
  case (Permit y iid i eid now_ms)
  then show ?case by (auto simp del: fun_upd_apply intro: gate_same permits_take [simplified])
next
  case (Undo y iid i b)
  then show ?case by (cases b) (auto simp del: fun_upd_apply intro: gate_same permits_none permits_give [simplified])
next
  case (Enter y iid i eid)
  then show ?case by (auto simp del: fun_upd_apply intro: gate_enter permits_same)
next
  case (FinalAudit y iid i eid res state code receipt now_ms)
  then show ?case by (auto simp del: fun_upd_apply intro: gate_leave permits_give [simplified])
next
  case (LastAudit y iid i eid b ok now_ms)
  then show ?case by (auto simp del: fun_upd_apply intro: gate_leave permits_give [simplified])
qed (auto simp del: fun_upd_apply intro: gate_same permits_same permits_none)

section \<open>Approved, recorded and called once\<close>

definition dispatched_ids :: "event list \<Rightarrow> string set" where
  "dispatched_ids T = {ai_id i | i eid. Dispatched i eid \<in> set T}"

text \<open>
  An intent is licensed when its actor created it, approved it, and spent a token with the hash of the
  token of the approval, within a minute of the approval and two of the creation.
\<close>

definition licensed :: "(string \<Rightarrow> string) \<Rightarrow> (host_action \<Rightarrow> string) \<Rightarrow> event list \<Rightarrow> approved_intent \<Rightarrow> bool" where
  "licensed sha json T i \<longleftrightarrow>
     (\<exists>nonce expires_at t token t' token' t''.
        Created i nonce expires_at t \<in> set T \<and> Approved (ai_id i) (ai_actor i) token t' \<in> set T
        \<and> Spent i token' t'' \<in> set T
        \<and> token_hash sha token' (canonical_digest sha json i nonce expires_at)
          = token_hash sha token (canonical_digest sha json i nonce expires_at)
        \<and> t'' < t + CHALLENGE_TTL \<and> t'' < t' + APPROVAL_TTL)"

definition audited :: "event list \<Rightarrow> approved_intent \<Rightarrow> execution_state \<Rightarrow> bool" where
  "audited T i state \<longleftrightarrow>
     (\<exists>rec. Audited rec \<in> set T \<and> rc_intent_id rec = ai_id i \<and> rc_actor rec = ai_actor i
        \<and> rc_action rec = action_kind (ai_action i) \<and> rc_target rec = action_target (ai_action i)
        \<and> rc_state rec = state_name state)"

definition well_founded_call :: "(string \<Rightarrow> string) \<Rightarrow> (host_action \<Rightarrow> string) \<Rightarrow> event list \<Rightarrow> approved_intent \<Rightarrow> bool" where
  "well_founded_call sha json T i \<longleftrightarrow>
     licensed sha json T i \<and> audited T i Queued \<and> audited T i Executing \<and> ai_id i \<notin> dispatched_ids T"

fun sound_trace :: "(string \<Rightarrow> string) \<Rightarrow> (host_action \<Rightarrow> string) \<Rightarrow> event list \<Rightarrow> bool" where
  "sound_trace sha json [] = True"
| "sound_trace sha json (ev # T) =
     ((case ev of Dispatched i eid \<Rightarrow> well_founded_call sha json T i | _ \<Rightarrow> True) \<and> sound_trace sha json T)"

definition item_ok :: "(string \<Rightarrow> string) \<Rightarrow> (host_action \<Rightarrow> string) \<Rightarrow> event list \<Rightarrow> string \<Rightarrow> pending_intent \<Rightarrow> bool" where
  "item_ok sha json T k item \<longleftrightarrow>
     k \<notin> dispatched_ids T
     \<and> (\<exists>nonce expires_at t. Created (pi_approved item) nonce expires_at t \<in> set T
          \<and> pi_canonical_digest item = canonical_digest sha json (pi_approved item) nonce expires_at
          \<and> pi_challenge_expires item = t + CHALLENGE_TTL)
     \<and> (\<forall>h. pi_approval_hash item = Some h \<longrightarrow>
          (\<exists>token t. Approved k (ai_actor (pi_approved item)) token t \<in> set T
             \<and> h = token_hash sha token (pi_canonical_digest item) \<and> pi_approval_expires item = Some (t + APPROVAL_TTL)))"

definition task_ok :: "(string \<Rightarrow> string) \<Rightarrow> (host_action \<Rightarrow> string) \<Rightarrow> event list \<Rightarrow> action_task \<Rightarrow> bool" where
  "task_ok sha json T t \<longleftrightarrow>
     licensed sha json T (task_intent t) \<and> (\<not> called t \<longrightarrow> ai_id (task_intent t) \<notin> dispatched_ids T)
     \<and> (case t of
          Accepted i e \<Rightarrow> audited T i Queued
        | Running i eid ph \<Rightarrow> audited T i Queued \<and> (ph = Recorded \<longrightarrow> audited T i Executing)
        | _ \<Rightarrow> True)"

definition trace_ok ::
  "(string \<Rightarrow> string) \<Rightarrow> (host_action \<Rightarrow> string) \<Rightarrow> event list \<Rightarrow> approval_store \<Rightarrow> (string \<rightharpoonup> action_task) \<Rightarrow> string set \<Rightarrow> bool" where
  "trace_ok sha json T A S U \<longleftrightarrow>
     (\<forall>k item. A k = Some item \<longrightarrow> item_ok sha json T k item) \<and> (\<forall>k t. S k = Some t \<longrightarrow> task_ok sha json T t)
     \<and> dispatched_ids T \<subseteq> U \<and> sound_trace sha json T"

lemma licensed_mono: "licensed sha json T i \<Longrightarrow> set T \<subseteq> set T' \<Longrightarrow> licensed sha json T' i"
  unfolding licensed_def by blast

lemma audited_mono: "audited T i st \<Longrightarrow> set T \<subseteq> set T' \<Longrightarrow> audited T' i st"
  unfolding audited_def by blast

lemma licensed_Cons: "licensed sha json T i \<Longrightarrow> licensed sha json (ev # T) i"
  by (erule licensed_mono) auto

lemma audited_Cons: "audited T i st \<Longrightarrow> audited (ev # T) i st"
  by (erule audited_mono) auto

lemma dispatched_Cons [simp]:
  "dispatched_ids (ev # T) = (case ev of Dispatched i eid \<Rightarrow> {ai_id i} | _ \<Rightarrow> {}) \<union> dispatched_ids T"
  by (cases ev) (auto simp: dispatched_ids_def)

lemma item_ok_mono:
  assumes "item_ok sha json T k item" and "set T \<subseteq> set T'" and "k \<notin> dispatched_ids T'"
  shows "item_ok sha json T' k item"
  using assms unfolding item_ok_def by blast

lemma task_ok_mono:
  assumes "task_ok sha json T t" and "set T \<subseteq> set T'"
    and "\<not> called t \<Longrightarrow> ai_id (task_intent t) \<notin> dispatched_ids T'"
  shows "task_ok sha json T' t"
  using assms licensed_mono [OF _ assms(2)] audited_mono [OF _ assms(2)] unfolding task_ok_def
  by (simp split: action_task.splits)

lemma ok_not_called:
  "item_ok sha json T k item \<Longrightarrow> k \<notin> dispatched_ids T"
  "task_ok sha json T t \<Longrightarrow> \<not> called t \<Longrightarrow> ai_id (task_intent t) \<notin> dispatched_ids T"
  by (simp_all add: item_ok_def task_ok_def)

text \<open>A change that calls nothing.\<close>

lemma trace_ok_step:
  assumes "trace_ok sha json T A S U" and "T' = evs @ T" and "dispatched_ids T' = dispatched_ids T"
    and "sound_trace sha json T'" and "U \<subseteq> U'"
    and "\<And>k item. A' k = Some item \<Longrightarrow> A k = Some item \<or> item_ok sha json T' k item"
    and "\<And>k t. S' k = Some t \<Longrightarrow> S k = Some t \<or> task_ok sha json T' t"
  shows "trace_ok sha json T' A' S' U'"
proof -
  have sub: "set T \<subseteq> set T'" using assms(2) by simp
  have "item_ok sha json T' k item" if "A' k = Some item" for k item
    using assms(6) [OF that]
  proof
    assume "A k = Some item"
    with assms(1) have "item_ok sha json T k item" by (simp add: trace_ok_def)
    with assms(3) show ?thesis using item_ok_mono [OF _ sub] ok_not_called(1) by metis
  qed
  moreover have "task_ok sha json T' t" if "S' k = Some t" for k t
    using assms(7) [OF that]
  proof
    assume "S k = Some t"
    with assms(1) have "task_ok sha json T t" by (simp add: trace_ok_def)
    with assms(3) show ?thesis using task_ok_mono [OF _ sub] ok_not_called(2) by metis
  qed
  ultimately show ?thesis using assms(1,3-5) unfolding trace_ok_def by auto
qed

abbreviation trace_inv :: "(string \<Rightarrow> string) \<Rightarrow> (host_action \<Rightarrow> string) \<Rightarrow> host_service \<Rightarrow> bool" where
  "trace_inv sha json y \<equiv> trace_ok sha json (sv_trace y) (sv_approvals y) (sv_tasks y) (sv_used y)"

lemma trace_okD:
  assumes "trace_ok sha json T A S U"
  shows "A k = Some item \<Longrightarrow> item_ok sha json T k item" "S k = Some t \<Longrightarrow> task_ok sha json T t"
    "dispatched_ids T \<subseteq> U" "sound_trace sha json T"
  using assms by (auto simp: trace_ok_def)

lemma trace_ok_le:
  assumes "trace_ok sha json T A S U" and "A' \<subseteq>\<^sub>m A"
  shows "trace_ok sha json T A' S U"
proof (rule trace_ok_step [OF assms(1), of _ "[]"])
  fix k item
  assume "A' k = Some item"
  with assms(2) show "A k = Some item \<or> item_ok sha json T k item" by (metis domI map_le_def)
qed (use trace_okD [OF assms(1)] in auto)

text \<open>A task moves on without an event.\<close>

lemma trace_ok_move:
  assumes "trace_ok sha json T A S U" and "S k = Some t" and "task_intent t' = task_intent t"
    and "called t \<longrightarrow> called t'" and "called t' \<longrightarrow> called t"
    and "\<And>i e. t' = Accepted i e \<Longrightarrow> False"
    and "\<And>i eid ph. t' = Running i eid ph \<Longrightarrow> ph \<noteq> Recorded \<and> ((\<exists>e. t = Accepted i e) \<or> (\<exists>ph'. t = Running i eid ph'))"
  shows "trace_ok sha json T A (S(k \<mapsto> t')) U"
proof (rule trace_ok_step [OF assms(1), of _ "[]"])
  fix k' u
  assume u: "(S(k \<mapsto> t')) k' = Some u"
  have t: "task_ok sha json T t" using trace_okD(2) [OF assms(1,2)] .
  have "task_ok sha json T t'"
    using t assms(3-7) by (cases t') (auto simp: task_ok_def split: action_task.splits)
  with u show "S k' = Some u \<or> task_ok sha json T u" by (auto split: if_splits)
qed (use trace_okD [OF assms(1)] in auto)

lemma trace_ok_end:
  "trace_ok sha json T A S U \<Longrightarrow> trace_ok sha json T A (S(k := None)) U"
  "trace_ok sha json T A S U \<Longrightarrow> trace_ok sha json (Audited rec # T) A (S(k := None)) U"
proof -
  assume ok: "trace_ok sha json T A S U"
  show "trace_ok sha json T A (S(k := None)) U"
    by (rule trace_ok_step [OF ok, of _ "[]"]) (use trace_okD [OF ok] in \<open>auto split: if_splits\<close>)
  show "trace_ok sha json (Audited rec # T) A (S(k := None)) U"
    by (rule trace_ok_step [OF ok, of _ "[Audited rec]"]) (use trace_okD [OF ok] in \<open>auto split: if_splits\<close>)
qed

text \<open>An append of the task that is about to be queued, or to call the helper.\<close>

lemma trace_ok_audit:
  assumes "trace_ok sha json T A S U" and "S k = Some t" and "task_ok sha json (Audited rec # T) t'"
  shows "trace_ok sha json (Audited rec # T) A (S(k \<mapsto> t')) U"
  by (rule trace_ok_step [OF assms(1), of _ "[Audited rec]"])
    (use trace_okD [OF assms(1)] assms(3) in \<open>auto split: if_splits\<close>)

lemma audited_of:
  "audited (Audited (audit_record_of now_ms i e state code receipt) # T) i state"
  unfolding audited_def by (force simp: audit_record_of_def)

lemma licensed_spend:
  assumes "item_ok sha json T k item" and "intent_live now item" and "accepts sha now actor token item"
    and "ai_id (pi_approved item) = k"
  shows "licensed sha json (Spent (pi_approved item) token now # T) (pi_approved item)"
proof -
  obtain nonce ex t where c: "Created (pi_approved item) nonce ex t \<in> set T"
    "pi_canonical_digest item = canonical_digest sha json (pi_approved item) nonce ex" "pi_challenge_expires item = t + CHALLENGE_TTL"
    using assms(1) by (auto simp: item_ok_def)
  obtain h expiry where h: "pi_approval_hash item = Some h" "h = token_hash sha token (pi_canonical_digest item)"
    "pi_approval_expires item = Some expiry" "now < expiry"
    using assms(3) by (auto simp: accepts_def split: option.splits)
  obtain token' t' where a: "Approved k (ai_actor (pi_approved item)) token' t' \<in> set T"
    "h = token_hash sha token' (pi_canonical_digest item)" "expiry = t' + APPROVAL_TTL"
    using assms(1) h(1,3) by (auto simp: item_ok_def)
  show ?thesis
    unfolding licensed_def
  proof (intro exI conjI)
    show "Created (pi_approved item) nonce ex t \<in> set (Spent (pi_approved item) token now # T)" using c(1) by simp
    show "Approved (ai_id (pi_approved item)) (ai_actor (pi_approved item)) token' t' \<in> set (Spent (pi_approved item) token now # T)"
      using a(1) assms(4) by simp
    show "Spent (pi_approved item) token now \<in> set (Spent (pi_approved item) token now # T)" by simp
    show "token_hash sha token (canonical_digest sha json (pi_approved item) nonce ex)
        = token_hash sha token' (canonical_digest sha json (pi_approved item) nonce ex)"
      using h(2) a(2) c(2) by simp
    show "now < t + CHALLENGE_TTL" using assms(2) c(3) by (simp add: intent_live_def)
    show "now < t' + APPROVAL_TTL" using h(4) a(3) by simp
  qed
qed

lemma trace_ok_dispatch:
  assumes "trace_ok sha json T A S U" and "ids_ok A S U" and "S k = Some (Running i eid Recorded)"
  shows "trace_ok sha json (Dispatched i eid # T) A (S(k \<mapsto> Running i eid (Returned res))) U"
proof -
  let ?T = "Dispatched i eid # T"
  have k: "ai_id i = k" "k \<in> U" "A k = None" using ids_okD(2) [OF assms(2,3)] by simp_all
  have t: "licensed sha json T i" "ai_id i \<notin> dispatched_ids T" "audited T i Queued" "audited T i Executing"
    using trace_okD(2) [OF assms(1,3)] by (auto simp: task_ok_def)
  have "item_ok sha json ?T k' item" if "A k' = Some item" for k' item
  proof (rule item_ok_mono [OF trace_okD(1) [OF assms(1) that]])
    have "k' \<noteq> k" using that k(3) by auto
    with k(1) ok_not_called(1) [OF trace_okD(1) [OF assms(1) that]] show "k' \<notin> dispatched_ids ?T" by simp
  qed auto
  moreover have "task_ok sha json ?T u" if u: "(S(k \<mapsto> Running i eid (Returned res))) k' = Some u" for k' u
  proof (cases "k' = k")
    case True
    with u t show ?thesis by (auto simp: task_ok_def intro: licensed_Cons audited_Cons)
  next
    case False
    with u have "S k' = Some u" by simp
    with trace_okD(2) [OF assms(1) this] ids_okD(2) [OF assms(2) this] False k
    show ?thesis using task_ok_mono [of sha json T u ?T] ok_not_called(2) by auto
  qed
  ultimately show ?thesis
    using trace_okD(3,4) [OF assms(1)] k t unfolding trace_ok_def by (auto simp: well_founded_call_def)
qed

lemma trace_inv_step:
  assumes "host_step sha json y z" and "ids_inv y" and "trace_inv sha json y"
  shows "trace_inv sha json z"
  using assms
proof (induction rule: host_step.induct)
  case (Create iid y nonce actor request snapshot now_ms ch st)
  let ?ev = "Created (new_intent iid actor request) nonce (ic_expires_at ch) (sv_now y)"
  have "iid \<notin> dispatched_ids (sv_trace y)" using trace_okD(3) [OF Create(4)] Create(1) by blast
  then have "item_ok sha json (?ev # sv_trace y) iid (fresh_item sha json (sv_now y) (new_intent iid actor request) nonce (ic_expires_at ch))"
    by (auto simp: item_ok_def fresh_item_def)
  then have "trace_ok sha json (?ev # sv_trace y) st (sv_tasks y) (insert iid (sv_used y))"
    by (intro trace_ok_step [OF Create(4), of _ "[?ev]"])
      (use trace_okD(4) [OF Create(4)] create_intent_Inr [OF Create(2)] in \<open>auto split: if_splits\<close>)
  then show ?case by simp
next
  case (CreateFails y iid nonce actor request snapshot now_ms e st)
  from trace_ok_le [OF CreateFails(3) create_intent_Inl [OF CreateFails(1)]] show ?case by simp
next
  case (Approve y token actor iid nonce now_ms r st)
  let ?ev = "Approved iid actor token (sv_now y)"
  from approve_Inr [OF Approve(1)] obtain item where item: "sv_approvals y iid = Some item" "ai_actor (pi_approved item) = actor"
    "st = (reap_expired (sv_now y) (sv_approvals y))(iid \<mapsto> item\<lparr>pi_approval_hash := Some (token_hash sha token (pi_canonical_digest item)),
       pi_approval_expires := Some (sv_now y + APPROVAL_TTL)\<rparr>)" by metis
  have "item_ok sha json (?ev # sv_trace y) iid (item\<lparr>pi_approval_hash := Some (token_hash sha token (pi_canonical_digest item)),
       pi_approval_expires := Some (sv_now y + APPROVAL_TTL)\<rparr>)"
    using trace_okD(1) [OF Approve(3) item(1)] item(2) by (auto simp: item_ok_def)
  then have "trace_ok sha json (?ev # sv_trace y) st (sv_tasks y) (sv_used y)"
    by (intro trace_ok_step [OF Approve(3), of _ "[?ev]"])
      (use trace_okD(4) [OF Approve(3)] item(3) in \<open>auto split: if_splits\<close>)
  then show ?case by simp
next
  case (ApproveFails y token actor iid nonce now_ms e st)
  from trace_ok_le [OF ApproveFails(3) reap_le] approve_Inl [OF ApproveFails(1)] show ?case by simp
next
  case (Submit y actor iid token intent st)
  let ?ev = "Spent intent token (sv_now y)"
  from consume_Inr [OF Submit(1)] obtain item where item: "sv_approvals y iid = Some item" "intent_live (sv_now y) item"
    "accepts sha (sv_now y) actor token item" "intent = pi_approved item"
    "st = (reap_expired (sv_now y) (sv_approvals y))(iid := None)" by metis
  have ok: "item_ok sha json (sv_trace y) iid item" by (rule trace_okD(1) [OF Submit(3) item(1)])
  have "ai_id (pi_approved item) = iid" using ids_okD(1) [OF Submit(2) item(1)] by simp
  then have "task_ok sha json (?ev # sv_trace y) (Taken intent)"
    using licensed_spend [OF ok item(2,3)] ok_not_called(1) [OF ok] item(4) by (simp add: task_ok_def)
  then have "trace_ok sha json (?ev # sv_trace y) st ((sv_tasks y)(iid \<mapsto> Taken intent)) (sv_used y)"
    by (intro trace_ok_step [OF Submit(3), of _ "[?ev]"])
      (use trace_okD(4) [OF Submit(3)] item(5) in \<open>auto split: if_splits\<close>)
  then show ?case by (simp del: fun_upd_apply)
next
  case (SubmitFails y actor iid token e st)
  from trace_ok_le [OF SubmitFails(3) reap_le] consume_Inl [OF SubmitFails(1)] show ?case by simp
next
  case (CrowdAudit y iid i ok now_ms)
  have "task_ok sha json (Audited rec # sv_trace y) (Undoing i False)" "trace_ok sha json (sv_trace y) (sv_approvals y)
      ((sv_tasks y)(iid \<mapsto> Undoing i False)) (sv_used y)" for rec
    using task_ok_mono [OF trace_okD(2) [OF CrowdAudit(3,1)], of "Audited rec # sv_trace y"] ok_not_called(2) [OF trace_okD(2) [OF CrowdAudit(3,1)]]
      trace_ok_move [OF CrowdAudit(3,1), of "Undoing i False"] by (auto simp: task_ok_def)
  then show ?case using trace_ok_audit [OF CrowdAudit(3,1)] by (cases ok) (auto simp del: fun_upd_apply)
next
  case (QueuedAudit y iid i e now_ms)
  have "task_ok sha json (Audited (audit_record_of now_ms i (Some e) Queued None None) # sv_trace y) (Accepted i e)"
    using trace_okD(2) [OF QueuedAudit(3,1)] by (auto simp: task_ok_def audited_of intro: licensed_Cons)
  then show ?case using trace_ok_audit [OF QueuedAudit(3,1)] by (simp del: fun_upd_apply)
next
  case (ExecutingAudit y iid i eid now_ms)
  have "task_ok sha json (Audited (audit_record_of now_ms i (execution_copy eid (sv_executions y)) Executing None None) # sv_trace y)
      (Running i eid Recorded)"
    using trace_okD(2) [OF ExecutingAudit(3,1)] by (auto simp: task_ok_def audited_of intro: licensed_Cons audited_Cons)
  then show ?case using trace_ok_audit [OF ExecutingAudit(3,1)] by (simp del: fun_upd_apply)
next
  case (Dispatch y iid i eid res)
  from trace_ok_dispatch [OF Dispatch(3,2,1)] show ?case by (simp del: fun_upd_apply)
next
  case (CoolingAudit y iid i ok now_ms)
  then show ?case using trace_ok_end [OF CoolingAudit(3)] by (cases ok) (simp_all del: fun_upd_apply)
next
  case (LastAudit y iid i eid b ok now_ms)
  then show ?case using trace_ok_end [OF LastAudit(3)] by (cases ok) (simp_all del: fun_upd_apply)
next
  case (FinalAudit y iid i eid res state code receipt now_ms)
  then show ?case using trace_ok_end [OF FinalAudit(4)] by (simp del: fun_upd_apply)
next
  case (Undo y iid i b)
  then show ?case using trace_ok_end [OF Undo(3)] by (simp del: fun_upd_apply)
next
  case (Reserve y iid i r c)
  have "trace_ok sha json (sv_trace y) (sv_approvals y) ((sv_tasks y)(iid \<mapsto> (if r = Inr () then Admitted i else Cooling i))) (sv_used y)"
    by (rule trace_ok_move [OF Reserve(5,1)]) (auto split: if_splits)
  then show ?case by (simp del: fun_upd_apply)
qed (auto simp del: fun_upd_apply intro: trace_ok_move)

section \<open>Reachable states\<close>

definition host_inv :: "(string \<Rightarrow> string) \<Rightarrow> (host_action \<Rightarrow> string) \<Rightarrow> host_service \<Rightarrow> bool" where
  "host_inv sha json y \<longleftrightarrow> ids_inv y \<and> queue_inv y \<and> trace_inv sha json y"

interpretation host_actions: step_relation "host_step sha json" "host_inv sha json" for sha json
proof
  fix y z
  assume "host_inv sha json y" and "host_step sha json y z"
  then show "host_inv sha json z"
    unfolding host_inv_def using ids_inv_step queue_inv_step trace_inv_step by blast
qed

lemma host_inv_new: "host_inv sha json host_service_new"
  by (simp add: host_inv_def host_service_new_def ids_ok_def gate_ok_def permits_ok_def holders_def trace_ok_def dispatched_ids_def)

lemma sound_trace_split: "sound_trace sha json (later @ Dispatched i eid # earlier) \<Longrightarrow> well_founded_call sha json earlier i"
  by (induction later) auto

text \<open>
  C8: No host action without approval and an audit append that reported success. In every interleaving, when the
  helper is called for an intent, its actor has created the intent and approved it after a fresh authentication,
  has spent a token with the hash of the token that the approval issued within a minute of the approval and two of
  the creation, the appends of the records of the queued and of the starting execution have both returned without an
  error before the call, and the helper has not been called for this intent before. What a successful append means
  for the file is the matter of \<open>Host_Audit\<close>: the record is in the log, unless an earlier write was torn.
\<close>

theorem host_action_approved_once:
  assumes "(host_step sha json)\<^sup>*\<^sup>* host_service_new y" and "sv_trace y = later @ Dispatched i eid # earlier"
  shows "licensed sha json earlier i \<and> audited earlier i Queued \<and> audited earlier i Executing
    \<and> (\<forall>i' eid'. Dispatched i' eid' \<in> set earlier \<longrightarrow> ai_id i' \<noteq> ai_id i)"
proof -
  have "trace_inv sha json y"
    using host_actions.safe_reachable [OF assms(1) host_inv_new] by (simp add: host_inv_def)
  then have "well_founded_call sha json earlier i"
    using trace_okD(4) sound_trace_split assms(2) by metis
  then show ?thesis by (auto simp: well_founded_call_def dispatched_ids_def)
qed

text \<open>
  C35: The helper is never entered twice at the same time: in every interleaving at most one execution is
  between its start and its end, and at most eight are queued or running.
\<close>

theorem host_actions_one_at_a_time:
  assumes "(host_step sha json)\<^sup>*\<^sup>* host_service_new y"
  shows "(\<forall>k k' t t'. sv_tasks y k = Some t \<longrightarrow> sv_tasks y k' = Some t' \<longrightarrow> in_gate t \<longrightarrow> in_gate t' \<longrightarrow> k = k')
    \<and> card {k. \<exists>i eid ph. sv_tasks y k = Some (Running i eid ph)} \<le> 8"
proof
  have inv: "gate_ok (sv_gate y) (sv_tasks y)" "permits_ok (sv_permits y) (sv_tasks y)"
    using host_actions.safe_reachable [OF assms host_inv_new] by (auto simp: host_inv_def)
  show "\<forall>k k' t t'. sv_tasks y k = Some t \<longrightarrow> sv_tasks y k' = Some t' \<longrightarrow> in_gate t \<longrightarrow> in_gate t' \<longrightarrow> k = k'"
    using inv(1) unfolding gate_ok_def by (metis option.inject)
  have "{k. \<exists>i eid ph. sv_tasks y k = Some (Running i eid ph)} \<subseteq> holders (sv_tasks y)" by (auto simp: holders_def)
  then have "card {k. \<exists>i eid ph. sv_tasks y k = Some (Running i eid ph)} \<le> card (holders (sv_tasks y))"
    using inv(2) by (intro card_mono) (auto simp: permits_ok_def)
  then show "card {k. \<exists>i eid ph. sv_tasks y k = Some (Running i eid ph)} \<le> 8" using inv(2) by (simp add: permits_ok_def)
qed

section \<open>A run\<close>

text \<open>The steps of one action up to the call of the helper, with the identity for the hash and the empty JSON.\<close>

definition demo_request :: action_intent_request where
  "demo_request = \<lparr> ar_action = DropCleanCaches, ar_sample_id = ''s'', ar_alert_id = None, ar_reason = None \<rparr>"

definition demo_snapshot :: resource_snapshot where
  "demo_snapshot = \<lparr> rs_sample_id = ''s'', rs_sampled_at = 1, rs_boot_id = None, rs_processes = [], rs_action_availability = Available \<rparr>"

definition demo_intent :: approved_intent where
  "demo_intent = new_intent ''i'' ''alice'' demo_request"

definition demo_store :: "bool \<Rightarrow> approval_store" where
  "demo_store approved =
     [''i'' \<mapsto> (fresh_item (\<lambda>x. x) (\<lambda>_. []) 0 demo_intent ''n'' 120001)
        \<lparr>pi_approval_hash := if approved then Some (token_hash (\<lambda>x. x) ''t'' (canonical_digest (\<lambda>x. x) (\<lambda>_. []) demo_intent ''n'' 120001)) else None,
         pi_approval_expires := if approved then Some 60000 else None\<rparr>]"

lemma demo_create:
  "create_intent (\<lambda>x. x) (\<lambda>_. []) 0 ''i'' ''n'' ''alice'' demo_request demo_snapshot 1 Map.empty =
     (Inr \<lparr> ic_intent_id = ''i'', ic_challenge_nonce = ''n'', ic_expires_at = 120001,
        ic_preview = \<lparr> ap_action = DropCleanCaches,
          ap_warning = Some ''Drops clean caches globally after helper-side sync; cooldown applies.'' \<rparr> \<rparr>, demo_store False)"
  by (simp add: create_intent_def demo_request_def demo_snapshot_def validate_request_def validate_snapshot_def longer_than_def
      MAX_SAMPLE_AGE_def saturating_sub_def approvals_create_def reap_expired_def map_retain_def intents_of_def Let_def
      saturating_add_def CHALLENGE_TTL_def demo_store_def fresh_item_def demo_intent_def)

abbreviation (input) demo_step :: "host_service \<Rightarrow> host_service \<Rightarrow> bool" where
  "demo_step \<equiv> host_step (\<lambda>x. x) (\<lambda>_. [])"

definition demo1 :: host_service where
  "demo1 = emit (Created demo_intent ''n'' 120001 0) (host_service_new\<lparr>sv_approvals := demo_store False, sv_used := {''i''}\<rparr>)"

definition demo2 :: host_service where
  "demo2 = emit (Approved ''i'' ''alice'' ''t'' 0) (demo1\<lparr>sv_approvals := demo_store True\<rparr>)"

definition demo3 :: host_service where
  "demo3 = emit (Spent demo_intent ''t'' 0) (set_task ''i'' (Some (Taken demo_intent)) (demo2\<lparr>sv_approvals := Map.empty\<rparr>))"

definition demo4 :: host_service where
  "demo4 = (set_task ''i'' (Some (Admitted demo_intent)) demo3)\<lparr>sv_cooldown := Some CACHE_COOLDOWN\<rparr>"

definition demo5 :: host_service where
  "demo5 = (set_task ''i'' (Some (Permitted demo_intent (new_execution ''e'' 1))) demo4)\<lparr>sv_permits := 7, sv_execs := {''e''}\<rparr>"

definition demo6 :: host_service where
  "demo6 = emit (Audited (audit_record_of 1 demo_intent (Some (new_execution ''e'' 1)) Queued None None))
     (set_task ''i'' (Some (Accepted demo_intent (new_execution ''e'' 1))) demo5)"

definition demo7 :: host_service where
  "demo7 = (set_task ''i'' (Some (Running demo_intent ''e'' Spawned)) demo6)
     \<lparr>sv_executions := insert_execution (\<lambda>_. []) 1 ''alice'' (new_execution ''e'' 1) Map.empty\<rparr>"

definition demo8 :: host_service where
  "demo8 = (set_task ''i'' (Some (Running demo_intent ''e'' Active)) demo7)\<lparr>sv_gate := Some ''i''\<rparr>"

definition demo9 :: host_service where
  "demo9 = (set_task ''i'' (Some (Running demo_intent ''e'' Marked)) demo8)
     \<lparr>sv_executions := update_execution ''e'' Executing None 2 (sv_executions demo8)\<rparr>"

definition demo10 :: host_service where
  "demo10 = emit (Audited (audit_record_of 2 demo_intent (execution_copy ''e'' (sv_executions demo9)) Executing None None))
     (set_task ''i'' (Some (Running demo_intent ''e'' Recorded)) demo9)"

definition demo11 :: host_service where
  "demo11 = emit (Dispatched demo_intent ''e'') (set_task ''i'' (Some (Running demo_intent ''e'' (Returned JoinFailed))) demo10)"

lemmas demo_defs = demo2_def demo3_def demo4_def demo5_def demo6_def demo7_def demo8_def demo9_def demo10_def demo11_def

lemma demo_approve:
  "approvals_approve (\<lambda>x. x) 0 ''t'' ''alice'' ''i'' ''n'' 1 (demo_store False) = (Inr (''t'', 60001), demo_store True)"
  by (simp add: approvals_approve_def reap_expired_def map_retain_def demo_store_def fresh_item_def Let_def intent_live_def
      CHALLENGE_TTL_def APPROVAL_TTL_def demo_intent_def new_intent_def saturating_add_def fun_eq_iff)

lemma demo_consume:
  "approvals_consume (\<lambda>x. x) 0 ''alice'' ''i'' ''t'' (demo_store True) = (Inr demo_intent, Map.empty)"
  by (simp add: approvals_consume_def reap_expired_def map_retain_def demo_store_def fresh_item_def Let_def intent_live_def
      accepts_def CHALLENGE_TTL_def APPROVAL_TTL_def demo_intent_def new_intent_def fun_eq_iff)

lemma host_demo_run: "demo_step\<^sup>*\<^sup>* host_service_new demo11"
proof -
  have "demo_step host_service_new demo1"
    using host_step.Create [of "''i''" host_service_new "\<lambda>x. x" "\<lambda>_. []" "''n''" "''alice''" demo_request demo_snapshot 1] demo_create
    by (simp add: demo1_def host_service_new_def demo_intent_def)
  moreover have "demo_step demo1 demo2"
    using host_step.Approve [of "\<lambda>x. x" demo1 "''t''" "''alice''" "''i''" "''n''" 1] demo_approve
    by (simp add: demo2_def demo1_def host_service_new_def)
  moreover have "demo_step demo2 demo3"
    using host_step.Submit [of "\<lambda>x. x" demo2 "''alice''" "''i''" "''t''"] demo_consume
    by (simp add: demo3_def demo2_def demo1_def host_service_new_def)
  moreover have act: "ai_action demo_intent = DropCleanCaches" "ai_actor demo_intent = ''alice''"
    by (simp_all add: demo_intent_def demo_request_def new_intent_def)
  have "demo_step demo3 demo4"
    using host_step.Reserve [of demo3 "''i''" demo_intent "Inr ()" "Some CACHE_COOLDOWN"] act
    by (simp add: demo_defs demo1_def host_service_new_def reserve_cache_cooldown_def)
  moreover have "demo_step demo4 demo5"
    using host_step.Permit [of demo4 "''i''" demo_intent "''e''"] by (simp add: demo_defs demo1_def host_service_new_def)
  moreover have "demo_step demo5 demo6"
    using host_step.QueuedAudit [of demo5 "''i''" demo_intent "new_execution ''e'' 1"] by (simp add: demo5_def demo6_def)
  moreover have "demo_step demo6 demo7"
    using host_step.Spawn [of demo6 "''i''" demo_intent "new_execution ''e'' 1" _ _ "\<lambda>_. []" 1] act
    by (simp add: demo_defs demo1_def host_service_new_def new_execution_def)
  moreover have "demo_step demo7 demo8"
    using host_step.Enter [of demo7 "''i''" demo_intent "''e''"] by (simp add: demo_defs demo1_def host_service_new_def)
  moreover have "demo_step demo8 demo9"
    using host_step.Mark [of demo8 "''i''" demo_intent "''e''"] by (simp add: demo8_def demo9_def)
  moreover have "demo_step demo9 demo10"
    using host_step.ExecutingAudit [of demo9 "''i''" demo_intent "''e''"] by (simp add: demo9_def demo10_def)
  moreover have "demo_step demo10 demo11"
    using host_step.Dispatch [of demo10 "''i''" demo_intent "''e''"] by (simp add: demo10_def demo11_def)
  ultimately show ?thesis by (meson converse_rtranclp_into_rtranclp rtranclp.rtrancl_refl)
qed

theorem host_action_approved_once_witness:
  "\<exists>earlier. sv_trace demo11 = Dispatched demo_intent ''e'' # earlier
     \<and> licensed (\<lambda>x. x) (\<lambda>_. []) earlier demo_intent \<and> audited earlier demo_intent Executing"
  using host_action_approved_once [OF host_demo_run, of "[]" demo_intent "''e''" "sv_trace demo10"] by (simp add: demo11_def)

theorem host_actions_one_at_a_time_witness:
  "card {k. \<exists>i eid ph. sv_tasks demo11 k = Some (Running i eid ph)} \<le> 8
   \<and> sv_tasks demo11 ''i'' = Some (Running demo_intent ''e'' (Returned JoinFailed))"
proof
  show "card {k. \<exists>i eid ph. sv_tasks demo11 k = Some (Running i eid ph)} \<le> 8"
    by (rule host_actions_one_at_a_time [OF host_demo_run, THEN conjunct2])
  show "sv_tasks demo11 ''i'' = Some (Running demo_intent ''e'' (Returned JoinFailed))" by (simp add: demo11_def)
qed

end
