(* ===== verification/Host_Audit.thy ===== *)
theory Host_Audit
  imports Utf8
begin

text \<open>
  The audit log of host actions, \<open>host_actions/audit.rs\<close>: a file of lines, one JSON record each, to which
  every record is appended durably and which is compacted after every append. \<open>decode\<close> is what the JSON
  decoder makes of a line, \<open>encode\<close> prints a decoded value again, and the line of a new record is its
  serialised text. The file is read with \<open>fs::read_to_string\<close>, so a file that is not UTF-8 is an error of every
  call that reads it. The temporary file of a compaction is truncated before every use and holds nothing
  between calls.
\<close>

section \<open>The file\<close>

definition MAX_RECORDS :: nat where "MAX_RECORDS = 10000"

definition RETENTION_MS :: u64 where "RETENTION_MS = 30 * 24 * 60 * 60 * 1000"

datatype audit_error = AuditIo | AuditInvalidData

text \<open>A missing file has no records; \<open>fails\<close> says that the system fails the read.\<close>

definition read_records :: "(string \<Rightarrow> 'r option) \<Rightarrow> bool \<Rightarrow> string option \<Rightarrow> audit_error + 'r list" where
  "read_records decode fails content =
     (if fails then Inl AuditIo
      else case content of
        None \<Rightarrow> Inr []
      | Some c \<Rightarrow>
          if is_utf8 c then Inr (List.map_filter decode (str_lines c)) else Inl AuditInvalidData)"

definition write_records :: "('r \<Rightarrow> string) \<Rightarrow> 'r list \<Rightarrow> string" where
  "write_records encode records = concat (map (\<lambda>r. encode r @ [NL]) records)"

text \<open>The records that a compaction keeps; a record without a timestamp is dropped.\<close>

definition retained :: "('r \<Rightarrow> u64 option) \<Rightarrow> u64 \<Rightarrow> 'r list \<Rightarrow> 'r list" where
  "retained timestamp now_ms records =
     last_n MAX_RECORDS
       (filter (\<lambda>r. case timestamp r of Some ts \<Rightarrow> saturating_sub now_ms RETENTION_MS \<le> ts | None \<Rightarrow> False) records)"

text \<open>
  What can go wrong in a compaction: the system fails the read, or the temporary file cannot be written or
  renamed. Until the rename the log is as it was.
\<close>

datatype compact_fault = FailsReading | FailsReplacing | Compacts

definition compact_locked ::
  "('r \<Rightarrow> string) \<Rightarrow> (string \<Rightarrow> 'r option) \<Rightarrow> ('r \<Rightarrow> u64 option) \<Rightarrow> compact_fault \<Rightarrow> u64 \<Rightarrow> string option
    \<Rightarrow> (audit_error + unit) \<times> string option" where
  "compact_locked encode decode timestamp fault now_ms content =
     (case read_records decode (fault = FailsReading) content of
        Inl e \<Rightarrow> (Inl e, content)
      | Inr records \<Rightarrow>
          if fault = FailsReplacing then (Inl AuditIo, content)
          else (Inr (), Some (write_records encode (retained timestamp now_ms records))))"

text \<open>
  What can go wrong in \<open>append\<close>: before the file is opened (opening creates a missing one), between
  that and the first byte, after some bytes of the record and its newline, at the sync, or in the compaction.
\<close>

datatype append_fault =
    FailsBefore | FailsOpened | FailsWriting nat | FailsSync | Written compact_fault

definition audit_append ::
  "('r \<Rightarrow> string) \<Rightarrow> (string \<Rightarrow> 'r option) \<Rightarrow> ('r \<Rightarrow> u64 option) \<Rightarrow> append_fault \<Rightarrow> u64 \<Rightarrow> string \<Rightarrow> string option
    \<Rightarrow> (audit_error + unit) \<times> string option" where
  "audit_append encode decode timestamp fault now_ms line content =
     (let old = (case content of Some c \<Rightarrow> c | None \<Rightarrow> []); text = line @ [NL] in
      case fault of
        FailsBefore \<Rightarrow> (Inl AuditIo, content)
      | FailsOpened \<Rightarrow> (Inl AuditIo, Some old)
      | FailsWriting n \<Rightarrow> (Inl AuditIo, Some (old @ take n text))
      | FailsSync \<Rightarrow> (Inl AuditIo, Some (old @ text))
      | Written f \<Rightarrow> compact_locked encode decode timestamp f now_ms (Some (old @ text)))"

section \<open>Pages\<close>

record 'r audit_page =
  au_records :: "'r list"
  au_next_cursor :: "string option"

definition list_for_actor ::
  "(string \<Rightarrow> 'r option) \<Rightarrow> ('r \<Rightarrow> string option) \<Rightarrow> string option \<Rightarrow> string option \<Rightarrow> nat \<Rightarrow> bool \<Rightarrow> string option
    \<Rightarrow> audit_error + 'r audit_page" where
  "list_for_actor decode actor_of actor cursor limit fails content =
     (let offset = (case Option.bind cursor (parse_unsigned 64) of Some n \<Rightarrow> n | None \<Rightarrow> 0)
      in and_then (read_records decode fails content) (\<lambda>all_records.
        let records = filter (\<lambda>r. case actor of None \<Rightarrow> True | Some a \<Rightarrow> actor_of r = Some a) all_records;
            limit = min limit 100;
            page = take limit (drop offset records)
        in Inr \<lparr> au_records = page,
           au_next_cursor = (if offset + length page < length records then Some (dec (offset + length page)) else None) \<rparr>))"

text \<open>A client that follows the cursors, at most \<open>fuel\<close> times, and gives up at an error.\<close>

fun follow_pages ::
  "(string option \<Rightarrow> audit_error + 'r audit_page) \<Rightarrow> nat \<Rightarrow> string option \<Rightarrow> 'r list option" where
  "follow_pages fetch 0 cursor = None"
| "follow_pages fetch (Suc fuel) cursor =
     (case fetch cursor of
        Inl _ \<Rightarrow> None
      | Inr page \<Rightarrow>
          (case au_next_cursor page of
             None \<Rightarrow> Some (au_records page)
           | Some next \<Rightarrow> map_option ((@) (au_records page)) (follow_pages fetch fuel (Some next))))"

section \<open>What the log keeps\<close>

text \<open>The text of a record is one line of UTF-8 that the decoder reads; printed values are such lines.\<close>

definition record_line :: "(string \<Rightarrow> 'r option) \<Rightarrow> 'r \<Rightarrow> string \<Rightarrow> bool" where
  "record_line decode r line \<longleftrightarrow>
     decode line = Some r \<and> is_utf8 line \<and> NL \<notin> set line \<and> CR \<notin> set line"

definition line_codec :: "('r \<Rightarrow> string) \<Rightarrow> (string \<Rightarrow> 'r option) \<Rightarrow> bool" where
  "line_codec encode decode \<longleftrightarrow> (\<forall>r. record_line decode r (encode r))"

definition complete_lines :: "string \<Rightarrow> bool" where
  "complete_lines c \<longleftrightarrow> c = [] \<or> last c = NL"

lemma record_lineD:
  assumes "record_line decode r line"
  shows "decode line = Some r" "is_utf8 line" "NL \<notin> set line" "CR \<notin> set line"
  using assms by (auto simp: record_line_def)

lemma split_after:
  assumes "complete_lines c"
  shows "split_on NL (c @ t) = butlast (split_on NL c) @ split_on NL t \<and> last (split_on NL c) = []"
  using assms
proof (induction c)
  case (Cons a c)
  show ?case
  proof (cases "a = NL")
    case True
    with Cons.prems have "complete_lines c" by (auto simp: complete_lines_def split: if_splits)
    with Cons.IH True show ?thesis by simp
  next
    case False
    then have c: "c \<noteq> []" "last c = NL" using Cons.prems by (auto simp: complete_lines_def split: if_splits)
    with Cons.IH have IH: "split_on NL (c @ t) = butlast (split_on NL c) @ split_on NL t"
      "last (split_on NL c) = []" by (auto simp: complete_lines_def)
    obtain p ps where ps: "split_on NL c = p # ps" by (cases "split_on NL c") auto
    have "ps \<noteq> []" using IH(2) ps c join_split [of NL c] by (cases ps) auto
    with False IH ps show ?thesis by simp
  qed
qed simp

lemma lines_after:
  assumes "complete_lines c" and "NL \<notin> set l" and "CR \<notin> set l"
  shows "str_lines (c @ l @ [NL]) = str_lines c @ [l]"
  using split_after [OF assms(1)] split_on_append_sep [OF assms(2), of "[]"] assms(3)
  by (simp add: str_lines_def Let_def butlast_append strip_cr_id)

lemma map_filter_append: "List.map_filter f (xs @ ys) = List.map_filter f xs @ List.map_filter f ys"
  by (simp add: map_filter_def)

lemma map_filter_Nil: "List.map_filter f [] = []"
  by (simp add: map_filter_def)

lemma newline_utf8: "is_utf8 [NL]" "\<not> continuation NL"
  by (simp_all add: NL_def byte_in_def continuation_def)

lemma utf8_line: "is_utf8 c \<Longrightarrow> is_utf8 (c @ l @ [NL]) \<longleftrightarrow> is_utf8 l"
  using newline_utf8(1) by (simp add: utf8_append utf8_append_iff)

text \<open>The records of a file of complete lines, and of the same file with one more line.\<close>

definition records_of :: "(string \<Rightarrow> 'r option) \<Rightarrow> string \<Rightarrow> 'r list" where
  "records_of decode c = List.map_filter decode (str_lines c)"

lemma read_records_utf8 [simp]: "is_utf8 c \<Longrightarrow> read_records decode False (Some c) = Inr (records_of decode c)"
  by (simp add: read_records_def records_of_def)

lemma records_after:
  assumes "complete_lines c" and "NL \<notin> set l" and "CR \<notin> set l"
  shows "records_of decode (c @ l @ [NL]) =
     records_of decode c @ (case decode l of Some r \<Rightarrow> [r] | None \<Rightarrow> [])"
  by (simp add: records_of_def lines_after [OF assms] map_filter_append map_filter_simps map_filter_Nil split: option.split)

lemma written_ends: "complete_lines (write_records encode rs)"
  by (induction rs rule: rev_induct) (auto simp: write_records_def complete_lines_def)

lemma records_written:
  assumes "line_codec encode decode"
  shows "is_utf8 (write_records encode rs) \<and> records_of decode (write_records encode rs) = rs"
proof (induction rs rule: rev_induct)
  case Nil
  show ?case by (simp add: write_records_def records_of_def str_lines_def map_filter_Nil)
next
  case (snoc r rs)
  have line: "record_line decode r (encode r)" using assms by (simp add: line_codec_def)
  have "write_records encode (rs @ [r]) = write_records encode rs @ encode r @ [NL]" by (simp add: write_records_def)
  with snoc show ?case
    using records_after [OF written_ends, of "encode r" decode encode rs] record_lineD [OF line]
    by (simp add: utf8_line)
qed

text \<open>What an append whose compaction is not failed by the system makes of a file with the given last line.\<close>

lemma append_glued:
  assumes "line_codec encode decode" and "complete_lines c" and "is_utf8 c"
    and "NL \<notin> set (junk @ line)" and "CR \<notin> set (junk @ line)"
    and "audit_append encode decode timestamp (Written Compacts) now_ms line (Some (c @ junk)) = (ok, content)"
  shows "if is_utf8 (junk @ line)
    then ok = Inr () \<and> (\<exists>c'. content = Some c' \<and> complete_lines c' \<and> is_utf8 c' \<and>
      records_of decode c' = retained timestamp now_ms
        (records_of decode c @ (case decode (junk @ line) of Some r \<Rightarrow> [r] | None \<Rightarrow> [])))
    else ok = Inl AuditInvalidData \<and> content = Some (c @ junk @ line @ [NL])"
  using assms(6) utf8_line [OF assms(3), of "junk @ line"] records_after [OF assms(2,4,5), of decode]
    written_ends records_written [OF assms(1)]
  by (auto simp: audit_append_def compact_locked_def read_records_def records_of_def)

text \<open>A line that is not UTF-8 stays in the file and fails every later append.\<close>

definition jammed :: "string option \<Rightarrow> bool" where
  "jammed content \<longleftrightarrow> (\<exists>bad rest. content = Some (bad @ NL # rest) \<and> \<not> is_utf8 bad)"

lemma unreadable_append:
  assumes "\<not> is_utf8 (c @ line @ [NL])"
    and "audit_append encode decode timestamp fault now_ms line (Some c) = (ok, content)"
  shows "ok \<noteq> Inr () \<and> (\<exists>t. content = Some (c @ t))"
proof (cases fault)
  case (Written f)
  with assms show ?thesis
    by (auto simp: audit_append_def compact_locked_def read_records_def Let_def simp del: is_utf8.simps split: if_splits)
qed (use assms(2) in \<open>auto simp: audit_append_def\<close>)

lemma jammed_append:
  assumes "jammed content"
    and "audit_append encode decode timestamp fault now_ms line content = (ok, content')"
  shows "ok \<noteq> Inr () \<and> jammed content'"
proof -
  from assms(1) obtain bad rest where content: "content = Some (bad @ NL # rest)" and bad: "\<not> is_utf8 bad"
    by (auto simp: jammed_def)
  have "\<not> is_utf8 ((bad @ NL # rest) @ line @ [NL])"
    using utf8_before [of bad NL "rest @ line @ [NL]"] bad newline_utf8(2) by auto
  from unreadable_append [OF this assms(2) [unfolded content]] bad show ?thesis
    by (auto simp: jammed_def)
qed

fun appends ::
  "('r \<Rightarrow> string) \<Rightarrow> (string \<Rightarrow> 'r option) \<Rightarrow> ('r \<Rightarrow> u64 option) \<Rightarrow> (append_fault \<times> u64 \<times> string) list \<Rightarrow> string option
    \<Rightarrow> (audit_error + unit) list" where
  "appends encode decode timestamp [] content = []"
| "appends encode decode timestamp ((fault, now_ms, line) # calls) content =
     (case audit_append encode decode timestamp fault now_ms line content of
        (ok, content') \<Rightarrow> ok # appends encode decode timestamp calls content')"

lemma jammed_forever:
  "jammed content \<Longrightarrow> Inr () \<notin> set (appends encode decode timestamp calls content)"
proof (induction calls arbitrary: content)
  case (Cons call calls)
  obtain fault now_ms line where call: "call = (fault, now_ms, line)" by (cases call)
  obtain ok content' where step: "audit_append encode decode timestamp fault now_ms line content = (ok, content')"
    by fastforce
  from jammed_append [OF Cons.prems step] Cons.IH [of content'] call step show ?case by auto
qed simp

section \<open>Properties\<close>

text \<open>
  A record whose append succeeds is in the log: an append without a fault to complete lines of UTF-8
  leaves the records that its retention keeps, in order, with the new one last, unless its own timestamp is
  too old; the file stays in that form.
\<close>

lemma audit_append_persists:
  assumes "line_codec encode decode" and "complete_lines c" and "is_utf8 c" and "record_line decode r line"
    and "audit_append encode decode timestamp (Written Compacts) now_ms line (Some c) = (ok, content)"
  shows "ok = Inr () \<and> (\<exists>c'. content = Some c' \<and> complete_lines c' \<and> is_utf8 c' \<and>
    records_of decode c' = retained timestamp now_ms (records_of decode c @ [r]))"
  using append_glued [OF assms(1,2,3), of "[]" line timestamp now_ms ok content] record_lineD [OF assms(4)] assms(5)
  by simp

text \<open>A printer of two records.\<close>

definition demo_encode :: "bool \<Rightarrow> string" where
  "demo_encode b = (if b then ''{t}'' else ''{f}'')"

definition demo_decode :: "string \<Rightarrow> bool option" where
  "demo_decode s = (if s = ''{t}'' then Some True else if s = ''{f}'' then Some False else None)"

lemma demo_codec: "line_codec demo_encode demo_decode"
  by (simp add: line_codec_def record_line_def demo_encode_def demo_decode_def NL_def CR_def byte_in_def)

text \<open>
  C36: A write that fails in the middle of a line spoils the log. If it failed between two characters, the
  next record disappears: its append reports success, but the record is glued to the rest of the
  failed one and the compaction of the same append drops the line, so the log claims nothing about an
  action that was executed. If it failed inside a character, the next append fails because the file is no
  longer UTF-8, and so does every append after it, whatever it writes: the line is never
  removed, and no later call reads a record again.
\<close>

theorem torn_line_swallows_record:
  assumes "line_codec encode decode" and "complete_lines c" and "is_utf8 c"
    and "record_line decode r line" and "record_line decode r' line'"
    and "n \<le> length line" and "decode (take n line @ line') = None"
    and "audit_append encode decode timestamp (FailsWriting n) now_ms line (Some c) = (ok, content)"
    and "audit_append encode decode timestamp (Written Compacts) now_ms' line' content = (ok', content')"
  shows "if is_utf8 (take n line)
    then ok' = Inr () \<and>
      read_records decode False content' = Inr (retained timestamp now_ms' (records_of decode c))
    else ok' = Inl AuditInvalidData \<and> read_records decode False content' = Inl AuditInvalidData \<and>
      Inr () \<notin> set (appends encode decode timestamp calls content')"
proof -
  have content: "content = Some (c @ take n line)"
    using assms(6,8) by (simp add: audit_append_def)
  have "NL \<notin> set (take n line @ line')" "CR \<notin> set (take n line @ line')"
    using record_lineD [OF assms(4)] record_lineD [OF assms(5)] by (auto dest: in_set_takeD)
  note glued = append_glued [OF assms(1-3) this assms(9) [unfolded content]]
  have whole: "is_utf8 (take n line @ line') \<longleftrightarrow> is_utf8 (take n line)"
    using record_lineD(2) [OF assms(5)] by (rule utf8_append_iff)
  show ?thesis
  proof (cases "is_utf8 (take n line)")
    case True
    with glued whole assms(7) show ?thesis by auto
  next
    case False
    then have bad: "\<not> is_utf8 (c @ take n line @ line')"
      using whole assms(3) by (simp add: utf8_append)
    from False glued whole have ok': "ok' = Inl AuditInvalidData"
      and content': "content' = Some ((c @ take n line @ line') @ NL # [])" by simp_all
    with bad have jam: "jammed content'" unfolding jammed_def by blast
    have "\<not> is_utf8 ((c @ take n line @ line') @ NL # [])" using bad utf8_before newline_utf8(2) by blast
    then have "read_records decode False content' = Inl AuditInvalidData"
      unfolding content' by (simp add: read_records_def)
    with jammed_forever [OF jam] False ok' show ?thesis by simp
  qed
qed

text \<open>The witnesses tear a record after one byte and inside a two-byte character.\<close>

definition wide_line :: string where
  "wide_line = ''{'' @ [CHR 0xC3, CHR 0xA9] @ ''}''"

definition wide_decode :: "string \<Rightarrow> bool option" where
  "wide_decode s = (if s = wide_line then Some False else demo_decode s)"

lemma wide_codec: "line_codec demo_encode wide_decode" "record_line wide_decode False wide_line"
  "record_line wide_decode True ''{t}''"
  by (simp_all add: line_codec_def record_line_def demo_encode_def wide_decode_def wide_line_def demo_decode_def
      NL_def CR_def byte_in_def continuation_def)

theorem torn_line_swallows_record_witness:
  "(let torn = snd (audit_append demo_encode wide_decode (\<lambda>_. Some 5) (FailsWriting 1) 7 wide_line (Some []));
        r = audit_append demo_encode wide_decode (\<lambda>_. Some 5) (Written Compacts) 7 ''{t}'' torn
    in fst r = Inr () \<and> read_records wide_decode False (snd r) = Inr []) \<and>
   (let torn = snd (audit_append demo_encode wide_decode (\<lambda>_. Some 5) (FailsWriting 2) 7 wide_line (Some []));
        r = audit_append demo_encode wide_decode (\<lambda>_. Some 5) (Written Compacts) 7 ''{t}'' torn
    in fst r = Inl AuditInvalidData \<and>
       Inr () \<notin> set (appends demo_encode wide_decode (\<lambda>_. Some 5) [(Written Compacts, 8, ''{t}'')] (snd r)))"
proof -
  have c: "complete_lines []" "is_utf8 []" by (simp_all add: complete_lines_def)
  note tear = torn_line_swallows_record [OF wide_codec(1) c wide_codec(2,3) _ _ prod.collapse [symmetric] prod.collapse [symmetric],
    where timestamp = "\<lambda>_. Some 5" and now_ms = 7 and now_ms' = 7 and calls = "[(Written Compacts, 8, ''{t}'')]"]
  have one: "1 \<le> length wide_line" "wide_decode (take 1 wide_line @ ''{t}'') = None" "is_utf8 (take 1 wide_line)"
    by (simp_all add: wide_line_def wide_decode_def demo_decode_def byte_in_def)
  have two: "2 \<le> length wide_line" "wide_decode (take 2 wide_line @ ''{t}'') = None" "\<not> is_utf8 (take 2 wide_line)"
    by (simp_all add: wide_line_def wide_decode_def demo_decode_def byte_in_def numeral_2_eq_2)
  have none: "records_of wide_decode [] = []" "retained (\<lambda>_. Some 5) 7 [] = []"
    by (simp_all add: records_of_def str_lines_def map_filter_Nil retained_def last_n_def)
  from tear [OF one(1,2)] show ?thesis unfolding Let_def if_P [OF one(3)] none
    using tear [OF two(1,2)] unfolding if_not_P [OF two(3)] by (intro conjI) blast+
qed

text \<open>One page.\<close>

lemma page_at:
  assumes "is_utf8 c" and "length records < 2 ^ 64" and "n \<le> length records"
    and "records = filter (\<lambda>r. case actor of None \<Rightarrow> True | Some a \<Rightarrow> actor_of r = Some a) (records_of decode c)"
  shows "list_for_actor decode actor_of actor (Some (dec n)) limit False (Some c) =
    Inr \<lparr> au_records = take (min limit 100) (drop n records),
      au_next_cursor = (if n + min limit 100 < length records then Some (dec (n + min limit 100)) else None) \<rparr>"
proof -
  have "parse_unsigned 64 (dec n) = Some n" using assms by (intro parse_dec) simp
  then show ?thesis using assms(1,3,4) by (auto simp: list_for_actor_def and_then_def Let_def min_def)
qed

lemma follow_from:
  assumes "is_utf8 c" and "length records < 2 ^ 64" and "n \<le> length records" and "0 < limit"
    and "records = filter (\<lambda>r. case actor of None \<Rightarrow> True | Some a \<Rightarrow> actor_of r = Some a) (records_of decode c)"
    and "length records - n < fuel"
  shows "follow_pages (\<lambda>cursor. list_for_actor decode actor_of actor cursor limit False (Some c)) fuel (Some (dec n))
    = Some (drop n records)"
  using assms(3,6)
proof (induction fuel arbitrary: n)
  case (Suc fuel)
  let ?k = "min limit 100"
  show ?case
  proof (cases "n + ?k < length records")
    case True
    have "follow_pages (\<lambda>cursor. list_for_actor decode actor_of actor cursor limit False (Some c)) fuel (Some (dec (n + ?k)))
      = Some (drop (n + ?k) records)"
      using True Suc.prems assms(4) by (intro Suc.IH) (auto simp: min_def)
    moreover have "take ?k (drop n records) @ drop (n + ?k) records = drop n records"
      by (metis add.commute append_take_drop_id drop_drop)
    ultimately show ?thesis
      using True by (simp add: page_at [OF assms(1,2) Suc.prems(1) assms(5)] Let_def)
  next
    case False
    then have "take ?k (drop n records) = drop n records" by simp linarith
    with False show ?thesis by (simp add: page_at [OF assms(1,2) Suc.prems(1) assms(5)] Let_def)
  qed
qed simp

text \<open>
  Following the cursors of the audit log visits every record of the actor exactly once and in order,
  and ends after at most one page more than there are records.
\<close>

lemma audit_pages_complete:
  assumes "is_utf8 c" and "length (records_of decode c) < 2 ^ 64" and "0 < limit" and "length (records_of decode c) < fuel"
  shows "follow_pages (\<lambda>cursor. list_for_actor decode actor_of (Some actor) cursor limit False (Some c)) fuel None
    = Some (filter (\<lambda>r. actor_of r = Some actor) (records_of decode c))"
proof -
  let ?records = "filter (\<lambda>r. actor_of r = Some actor) (records_of decode c)"
  let ?fetch = "\<lambda>cursor. list_for_actor decode actor_of (Some actor) cursor limit False (Some c)"
  have len: "length ?records \<le> length (records_of decode c)" by simp
  have first: "?fetch None = ?fetch (Some (dec 0))"
    by (simp add: list_for_actor_def parse_dec)
  obtain k where fuel: "fuel = Suc k" using assms(4) by (cases fuel) auto
  have "follow_pages ?fetch fuel None = follow_pages ?fetch fuel (Some (dec 0))" unfolding fuel using first by simp
  also have "\<dots> = Some (drop 0 ?records)"
    using assms le_less_trans [OF len] by (intro follow_from) auto
  finally show ?thesis by simp
qed

text \<open>With a limit of zero the cursor never advances.\<close>

lemma empty_pages_never_end:
  assumes "is_utf8 c" and "records_of decode c \<noteq> []" and "length (records_of decode c) < 2 ^ 64"
    and "\<forall>r \<in> set (records_of decode c). actor_of r = Some actor"
  shows "follow_pages (\<lambda>cursor. list_for_actor decode actor_of (Some actor) cursor 0 False (Some c)) fuel (Some (dec 0)) = None"
proof (induction fuel)
  case (Suc fuel)
  have "filter (\<lambda>r. actor_of r = Some actor) (records_of decode c) = records_of decode c"
    using assms(4) by (simp add: filter_id_conv)
  then show ?case using Suc assms page_at [of c "records_of decode c" 0 actor_of "Some actor" decode 0]
    by (simp add: Let_def)
qed simp

end
