(* ===== verification/Host_Reauth.thy ===== *)
theory Host_Reauth
  imports Host_Actions
begin

text \<open>
  The limit on failed authentications of \<open>host_actions/service.rs\<close> as the handler of \<open>api/host_actions.rs\<close> uses
  it: the check, the verification of the password, and the record of its failure. Attempts that follow
  each other are limited; attempts that run at the same time are not.
\<close>

section \<open>Attempts one after the other\<close>

type_synonym attempt = "nat \<times> string \<times> string option"

text \<open>An attempt with a wrong password; the log has the attempts that reached the verification.\<close>

definition failed_attempt :: "failures \<times> attempt list \<Rightarrow> attempt \<Rightarrow> failures \<times> attempt list" where
  "failed_attempt = (\<lambda>(f, log) (now, actor, ip).
     case check_reauth_allowed now actor ip f of
       (Inl _, f') \<Rightarrow> (f', log)
     | (Inr _, f') \<Rightarrow> (record_reauth_failure now actor ip f', log @ [(now, actor, ip)]))"

definition concerns :: "string \<Rightarrow> attempt \<Rightarrow> bool" where
  "concerns key = (\<lambda>(now, actor, ip). key \<in> set (reauth_keys actor ip))"

definition key_log :: "string \<Rightarrow> attempt list \<Rightarrow> nat list" where
  "key_log key log = map fst (filter (concerns key) log)"

definition recent :: "nat \<Rightarrow> nat list \<Rightarrow> nat list" where
  "recent now ts = filter (\<lambda>t. now \<le> t + REAUTH_WINDOW) ts"

definition key_ok :: "nat \<Rightarrow> nat list \<Rightarrow> nat list \<Rightarrow> bool" where
  "key_ok now attempts ts \<longleftrightarrow>
     (\<exists>old. ts = old @ attempts \<and> (\<forall>t \<in> set old. t + REAUTH_WINDOW < now))
     \<and> (\<forall>now' \<ge> now. length (recent now' ts) \<le> 5)"

lemma keys_distinct: "distinct (reauth_keys actor ip)"
  by (simp add: reauth_keys_def)

lemma attempts_prune:
  "attempts_of key (foldl (prune_key now) f (reauth_keys actor ip)) =
     (if key \<in> set (reauth_keys actor ip) then prune_attempts now (attempts_of key f) else attempts_of key f)"
  by (auto simp: reauth_keys_def prune_key_def attempts_of_def)

lemma prune_idem [simp]: "prune_attempts now (prune_attempts now ts) = prune_attempts now ts"
  by (simp add: prune_attempts_def dropWhile_idem)

lemma attempts_record:
  "attempts_of key (record_reauth_failure now actor ip f) =
     (if key \<in> set (reauth_keys actor ip) then prune_attempts now (attempts_of key f) @ [now] else attempts_of key f)"
  by (auto simp: record_reauth_failure_def reauth_keys_def record_key_def attempts_of_def)

lemma check_result:
  assumes "check_reauth_allowed now actor ip f = (r, f')"
  shows "f' = foldl (prune_key now) f (reauth_keys actor ip)"
    and "r = Inr () \<Longrightarrow> key \<in> set (reauth_keys actor ip) \<Longrightarrow> length (prune_attempts now (attempts_of key f)) < 5"
proof -
  show f': "f' = foldl (prune_key now) f (reauth_keys actor ip)"
    using assms by (auto simp: check_reauth_allowed_def Let_def)
  assume "r = Inr ()" and key: "key \<in> set (reauth_keys actor ip)"
  then have "\<not> 5 \<le> length (attempts_of key f')"
    using assms f' by (auto simp: check_reauth_allowed_def Let_def list_ex_iff split: if_splits)
  with key f' show "length (prune_attempts now (attempts_of key f)) < 5" by (simp add: attempts_prune)
qed

lemma key_ok_later:
  assumes "key_ok now attempts ts" and "now \<le> now'"
  shows "key_ok now' attempts ts"
proof -
  obtain old where "ts = old @ attempts" "\<forall>t \<in> set old. t + REAUTH_WINDOW < now" using assms(1) by (auto simp: key_ok_def)
  then have "\<exists>old. ts = old @ attempts \<and> (\<forall>t \<in> set old. t + REAUTH_WINDOW < now')" using assms(2) by fastforce
  then show ?thesis using assms by (auto simp: key_ok_def)
qed

lemma key_ok_prune:
  assumes "key_ok now attempts ts"
  shows "key_ok now (prune_attempts now attempts) ts"
proof -
  obtain old where old: "ts = old @ attempts" "\<forall>t \<in> set old. t + REAUTH_WINDOW < now"
    using assms by (auto simp: key_ok_def)
  have "ts = (old @ takeWhile (\<lambda>t. REAUTH_WINDOW < now - t) attempts) @ prune_attempts now attempts"
    using old(1) by (simp add: prune_attempts_def)
  moreover have "\<forall>t \<in> set (takeWhile (\<lambda>t. REAUTH_WINDOW < now - t) attempts). t + REAUTH_WINDOW < now"
    by (auto dest: set_takeWhileD)
  ultimately show ?thesis using assms old(2) unfolding key_ok_def
    by (intro conjI exI [of _ "old @ takeWhile (\<lambda>t. REAUTH_WINDOW < now - t) attempts"]) auto
qed

lemma key_ok_record:
  assumes "key_ok now attempts ts" and "length attempts < 5"
  shows "key_ok now (attempts @ [now]) (ts @ [now])"
proof -
  obtain old where old: "ts = old @ attempts" "\<forall>t \<in> set old. t + REAUTH_WINDOW < now"
    using assms(1) by (auto simp: key_ok_def)
  have "length (recent now' (ts @ [now])) \<le> 5" if "now \<le> now'" for now'
  proof -
    have "recent now' old = []" using old(2) that by (force simp: recent_def filter_empty_conv)
    then have "length (recent now' (ts @ [now])) \<le> length (attempts @ [now])"
      unfolding old(1) recent_def filter_append by (simp add: le_SucI)
    with assms(2) show ?thesis by simp
  qed
  with old show ?thesis by (auto simp: key_ok_def)
qed

lemma failed_attempt_ok:
  assumes "\<forall>key. key_ok now (attempts_of key f) (key_log key log)" and "now \<le> now'"
    and "failed_attempt (f, log) (now', actor, ip) = (f', log')"
  shows "key_ok now' (attempts_of key f') (key_log key log')"
proof -
  obtain r f1 where c: "check_reauth_allowed now' actor ip f = (r, f1)" by fastforce
  have k: "key_ok now' (attempts_of key f) (key_log key log)" using assms(1,2) key_ok_later by blast
  then have k1: "key_ok now' (attempts_of key f1) (key_log key log)"
    using key_ok_prune by (simp add: check_result(1) [OF c] attempts_prune)
  show ?thesis
  proof (cases r)
    case (Inl e)
    with c assms(3) k1 show ?thesis by (simp add: failed_attempt_def)
  next
    case (Inr u)
    then have "r = Inr ()" by simp
    note len = check_result(2) [OF c this]
    have "f' = record_reauth_failure now' actor ip f1" "log' = log @ [(now', actor, ip)]"
      using Inr c assms(3) by (auto simp: failed_attempt_def)
    moreover have "key_ok now' (prune_attempts now' (attempts_of key f) @ [now']) (key_log key log @ [now'])"
      if "key \<in> set (reauth_keys actor ip)"
      using key_ok_record [OF key_ok_prune [OF k] len [OF that]] .
    ultimately show ?thesis using k1
      by (auto simp: attempts_record check_result(1) [OF c] attempts_prune key_log_def concerns_def)
  qed
qed

lemma failed_attempts_ok:
  assumes "sorted (map fst attempts)" and "foldl failed_attempt (Map.empty, []) attempts = (f, log)"
    and "\<forall>a \<in> set attempts. fst a \<le> now"
  shows "key_ok now (attempts_of key f) (key_log key log)"
  using assms
proof (induction attempts arbitrary: f log now key rule: rev_induct)
  case Nil
  then show ?case by (auto simp: key_ok_def attempts_of_def key_log_def recent_def)
next
  case (snoc a attempts)
  obtain t actor ip where a: "a = (t, actor, ip)" by (cases a)
  obtain f1 log1 where run: "foldl failed_attempt (Map.empty, []) attempts = (f1, log1)" by fastforce
  have "key_ok t (attempts_of key f1) (key_log key log1)" for key
    using snoc.prems(1) by (intro snoc.IH [OF _ run]) (auto simp: a sorted_append)
  then have "key_ok t (attempts_of key f) (key_log key log)"
    using snoc.prems(2) run by (intro failed_attempt_ok [of t f1 log1 t actor ip]) (auto simp: a)
  then show ?case using snoc.prems(3) by (auto simp: a intro: key_ok_later)
qed

text \<open>
  C37: Password guessing is slowed down: among attempts that follow each other, at most five with a wrong
  password for the same actor, or from the same address, reach the verification within any five minutes.
\<close>

theorem reauth_rate_limit:
  assumes "sorted (map fst attempts)" and "foldl failed_attempt (Map.empty, []) attempts = (f, log)"
    and "\<forall>a \<in> set attempts. fst a \<le> now"
  shows "length (filter (\<lambda>(t, a, ip). a = actor \<and> now \<le> t + REAUTH_WINDOW) log) \<le> 5
    \<and> length (filter (\<lambda>(t, a, ip). ip = Some addr \<and> now \<le> t + REAUTH_WINDOW) log) \<le> 5"
proof -
  have bound: "length (filter p log) \<le> 5"
    if "\<And>t a ip. p (t, a, ip) \<Longrightarrow> concerns key (t, a, ip) \<and> now \<le> t + REAUTH_WINDOW" for p key
  proof -
    have "filter p (filter (\<lambda>x. concerns key x \<and> now \<le> fst x + REAUTH_WINDOW) log) = filter p log"
      using that by (simp add: filter_filter) (metis (mono_tags, lifting) fst_conv prod_cases3)
    then have "length (filter p log) \<le> length (filter (\<lambda>x. concerns key x \<and> now \<le> fst x + REAUTH_WINDOW) log)"
      by (metis length_filter_le)
    also have "\<dots> = length (recent now (key_log key log))"
      by (simp add: recent_def key_log_def filter_map o_def filter_filter conj_commute)
    also have "\<dots> \<le> 5" using failed_attempts_ok [OF assms] by (simp add: key_ok_def)
    finally show ?thesis .
  qed
  show ?thesis
    by (intro conjI bound [of _ "''actor:'' @ actor"] bound [of _ "''ip:'' @ addr"]) (auto simp: concerns_def reauth_keys_def)
qed

theorem reauth_rate_limit_witness:
  "length (filter (\<lambda>(t, a, ip). a = ''eve'' \<and> 6 \<le> t + REAUTH_WINDOW)
      (snd (foldl failed_attempt (Map.empty, []) (map (\<lambda>t. (t, ''eve'', None)) [0 ..< 7])))) \<le> 5"
proof -
  obtain f log where run: "foldl failed_attempt (Map.empty, []) (map (\<lambda>t. (t, ''eve'', None)) [0 ..< 7]) = (f, log)" by fastforce
  have "sorted (map fst (map (\<lambda>t. (t, ''eve'', None :: string option)) [0 ..< 7]))" by (simp add: o_def)
  moreover have "\<forall>a \<in> set (map (\<lambda>t. (t, ''eve'', None :: string option)) [0 ..< 7]). fst a \<le> 6" by auto
  ultimately show ?thesis using reauth_rate_limit [OF _ run, of 6 "''eve''"] run by simp
qed

text \<open>A check by itself counts nothing: any number of requests that have passed it reach the verification.\<close>

lemma checks_do_not_count:
  assumes "check_reauth_allowed now actor ip f = (r, f')"
  shows "fst (check_reauth_allowed now actor ip f') = r"
  using assms by (auto simp: check_reauth_allowed_def Let_def attempts_prune list_ex_iff cong: conj_cong)

end
