(* ===== verification/SSH_Profile.thy ===== *)
theory SSH_Profile
  imports Text
begin

text \<open>
  The wire scalars, profiles and input validation of SSH forwarding in the native application:
  \<open>ssh_forward/profile.rs\<close> and the counters of \<open>ssh_forward/model.rs\<close>. A UTF-8 string is its byte
  sequence. \<open>Uuid::parse_str\<close> of the uuid crate is the parameter \<open>U\<close>: it gives what the code reads of
  a parsed UUID. A \<open>UtcTimestamp\<close> is a number of nanoseconds.

  The main facts: a decimal counter reads back, and the hosts that \<open>validate_canonical_ssh_host\<close>
  accepts are exactly the fixed points of \<open>canonicalize_ssh_host\<close>, which maps every accepted spelling
  to one of them.
\<close>

section \<open>Counters\<close>

datatype wire_scalar_error = InvalidCounter | CounterExhausted | InvalidTimestamp

type_synonym wire_counter = u64

type_synonym utc_timestamp = int

definition MAX_WIRE_COUNTER_DIGITS :: nat where
  "MAX_WIRE_COUNTER_DIGITS = 20"

definition counter_parse :: "string \<Rightarrow> wire_scalar_error + wire_counter" where
  "counter_parse value =
     (if value = [] \<or> length value > MAX_WIRE_COUNTER_DIGITS \<or> \<not> list_all is_ascii_digit value
         \<or> (length value > 1 \<and> starts_with ''0'' value)
      then Inl InvalidCounter
      else case parse_unsigned 64 value of None \<Rightarrow> Inl InvalidCounter | Some n \<Rightarrow> Inr (of_nat n))"

definition counter_increment :: "wire_counter \<Rightarrow> wire_scalar_error + wire_counter" where
  "counter_increment c = (case checked_add c 1 of Some c' \<Rightarrow> Inr c' | None \<Rightarrow> Inl CounterExhausted)"

definition counter_text :: "wire_counter \<Rightarrow> string" where
  "counter_text c = dec (unat c)"

lemma counter_increment_Inr:
  assumes "counter_increment c = Inr c'"
  shows "c < c'" "unat c' = unat c + 1"
proof -
  from assms have u: "unat c + 1 < 2 ^ 64" "c' = c + 1"
    by (simp_all add: counter_increment_def checked_add_def split: if_splits)
  then show "unat c' = unat c + 1" using unat_add_no_overflow [of c 1] by simp
  then show "c < c'" by (simp add: word_less_nat_alt)
qed

section \<open>Data\<close>

datatype loopback_host = LoopbackHost

definition loopback_parse :: "string \<Rightarrow> string + loopback_host" where
  "loopback_parse value =
     (if value = ''127.0.0.1'' then Inr LoopbackHost else Inl ''loopback_host_required'')"

datatype ssh_auth = AuthAgent | AuthKey string

record reconnect_policy =
  rp_enabled :: bool
  rp_max_attempts :: u8

text \<open>
  The same fields describe a profile on the wire and in the store, with their own type for the
  authentication.
\<close>

record 'auth forward_profile =
  fp_id :: string
  fp_scope_id :: string
  fp_name :: string
  fp_ssh_host :: string
  fp_ssh_port :: u16
  fp_ssh_user :: string
  fp_auth :: 'auth
  fp_local_port :: u16
  fp_target_host :: loopback_host
  fp_target_port :: u16
  fp_auto_start :: bool
  fp_reconnect :: reconnect_policy
  fp_created_at :: utc_timestamp
  fp_updated_at :: utc_timestamp

record 'auth connection_profile =
  cp_id :: string
  cp_scope_id :: string
  cp_name :: string
  cp_ssh_host :: string
  cp_ssh_port :: u16
  cp_ssh_user :: string
  cp_auth :: 'auth
  cp_created_at :: utc_timestamp
  cp_updated_at :: utc_timestamp

record forward_rule =
  fr_id :: string
  fr_scope_id :: string
  fr_connection_profile_id :: string
  fr_name :: string
  fr_local_port :: u16
  fr_target_host :: loopback_host
  fr_target_port :: u16
  fr_desired_enabled :: bool
  fr_reconnect :: reconnect_policy
  fr_created_at :: utc_timestamp
  fr_updated_at :: utc_timestamp

type_synonym ssh_forward_profile = "ssh_auth forward_profile"
type_synonym ssh_connection_profile = "ssh_auth connection_profile"

datatype ssh_auth_identity = IdentityAgent | IdentityKey string

record connection_identity =
  ci_scope_id :: string
  ci_ssh_host :: string
  ci_ssh_port :: u16
  ci_ssh_user :: string
  ci_auth :: ssh_auth_identity

datatype profile_validation_error =
  InvalidUuid | InvalidScalar | InvalidSshHost | InvalidPort | InvalidReconnectPolicy

section \<open>Scalars\<close>

text \<open>What the code reads of a UUID that \<open>Uuid::parse_str\<close> accepts.\<close>

record uuid_view =
  uv_rfc4122 :: bool
  uv_random :: bool
  uv_text :: string

type_synonym uuid_parser = "string \<Rightarrow> uuid_view option"

definition validate_uuid_v4 :: "uuid_parser \<Rightarrow> string \<Rightarrow> profile_validation_error + unit" where
  "validate_uuid_v4 U value =
     (case U value of
        Some v \<Rightarrow> ensure (uv_rfc4122 v \<and> uv_random v \<and> uv_text v = value) InvalidUuid
      | None \<Rightarrow> Inl InvalidUuid)"

text \<open>
  The characters of a UTF-8 string are its bytes that do not continue another; the control
  characters are U+0000 to U+001F, U+007F, and U+0080 to U+009F, which are encoded in two bytes.
\<close>

definition char_count :: "string \<Rightarrow> nat" where
  "char_count s = length (filter (\<lambda>c. \<not> (128 \<le> (of_char c :: nat) \<and> (of_char c :: nat) < 192)) s)"

fun any_control :: "string \<Rightarrow> bool" where
  "any_control [] = False"
| "any_control (c # cs) \<longleftrightarrow>
     (of_char c :: nat) < 32 \<or> (of_char c :: nat) = 127 \<or>
     ((of_char c :: nat) = 194 \<and>
        (case cs of d # _ \<Rightarrow> 128 \<le> (of_char d :: nat) \<and> (of_char d :: nat) < 160 | [] \<Rightarrow> False)) \<or>
     any_control cs"

definition validate_scalar :: "string \<Rightarrow> nat \<Rightarrow> profile_validation_error + unit" where
  "validate_scalar value limit =
     ensure (\<not> (value = [] \<or> char_count value > limit \<or> any_control value)) InvalidScalar"

definition validate_safe_ascii :: "string \<Rightarrow> nat \<Rightarrow> profile_validation_error + unit" where
  "validate_safe_ascii value limit =
     ensure (\<not> (value = [] \<or> length value > limit \<or>
        \<not> list_all (\<lambda>c. is_ascii_alphanumeric c \<or> c = CHR ''-'' \<or> c = CHR ''_'') value)) InvalidScalar"

definition validate_port :: "u16 \<Rightarrow> profile_validation_error + unit" where
  "validate_port port = ensure (port \<noteq> 0) InvalidPort"

definition MAX_PROFILE_SCALARS :: nat where
  "MAX_PROFILE_SCALARS = 64"

definition MAX_SSH_HOST :: nat where
  "MAX_SSH_HOST = 253"

definition MAX_KEY_ID :: nat where
  "MAX_KEY_ID = 128"

definition MAX_RECONNECT_ATTEMPTS :: u8 where
  "MAX_RECONNECT_ATTEMPTS = 5"

section \<open>Hosts\<close>

text \<open>
  \<open>Ipv4Addr::from_str\<close>: at most fifteen bytes, four decimal numbers of at most three digits
  without leading zeros, each at most 255.
\<close>

definition ipv4_octet :: "string \<Rightarrow> nat option" where
  "ipv4_octet s =
     (if s = [] \<or> length s > 3 \<or> \<not> list_all is_ascii_digit s \<or> (length s > 1 \<and> hd s = CHR ''0'')
         \<or> digits_value s > 255
      then None else Some (digits_value s))"

definition ipv4_parse :: "string \<Rightarrow> nat list option" where
  "ipv4_parse s =
     (let parts = split_on (CHR ''.'') s
      in if length s > 15 \<or> length parts \<noteq> 4 then None
         else those (map ipv4_octet parts))"

definition ipv4_text :: "nat list \<Rightarrow> string" where
  "ipv4_text octets = join_with (CHR ''.'') (map dec octets)"

definition digits_and_dots :: "string \<Rightarrow> bool" where
  "digits_and_dots s = list_all (\<lambda>c. is_ascii_digit c \<or> c = CHR ''.'') s"

definition bad_label :: "string \<Rightarrow> bool" where
  "bad_label label \<longleftrightarrow>
     label = [] \<or> length label > 63
     \<or> \<not> list_all (\<lambda>c. is_ascii_alphanumeric c \<or> c = CHR ''-'') label
     \<or> starts_with ''-'' label \<or> ends_with ''-'' label"

definition validate_canonical_ssh_host :: "string \<Rightarrow> profile_validation_error + unit" where
  "validate_canonical_ssh_host value =
     (if value = [] \<or> length value > MAX_SSH_HOST then Inl InvalidSshHost
      else case ipv4_parse value of
        Some ip \<Rightarrow> ensure (ipv4_text ip = value) InvalidSshHost
      | None \<Rightarrow>
          ensure (\<not> (digits_and_dots value \<or> value \<noteq> to_ascii_lowercase value
             \<or> ends_with ''.'' value \<or> list_ex bad_label (split_on (CHR ''.'') value))) InvalidSshHost)"

definition is_ascii_whitespace :: "char \<Rightarrow> bool" where
  "is_ascii_whitespace c \<longleftrightarrow> of_char c \<in> {9, 10, 12, 13, 32 :: nat}"

definition trim_matches :: "(char \<Rightarrow> bool) \<Rightarrow> string \<Rightarrow> string" where
  "trim_matches p s = rev (dropWhile p (rev (dropWhile p s)))"

definition trim_end_matches :: "char \<Rightarrow> string \<Rightarrow> string" where
  "trim_end_matches c s = rev (dropWhile (\<lambda>x. x = c) (rev s))"

definition is_ascii_str :: "string \<Rightarrow> bool" where
  "is_ascii_str s = list_all (\<lambda>c. (of_char c :: nat) < 128) s"

definition canonicalize_ssh_host :: "string \<Rightarrow> profile_validation_error + string" where
  "canonicalize_ssh_host value =
     (let trimmed = trim_matches is_ascii_whitespace value
      in if trimmed = [] \<or> \<not> is_ascii_str trimmed \<or> any_control trimmed then Inl InvalidSshHost
         else if digits_and_dots trimmed then
           (case ipv4_parse trimmed of
              None \<Rightarrow> Inl InvalidSshHost
            | Some ip \<Rightarrow> if ipv4_text ip = trimmed then Inr (ipv4_text ip) else Inl InvalidSshHost)
         else
           (let canonical = to_ascii_lowercase (trim_end_matches (CHR ''.'') trimmed)
            in and_then (validate_canonical_ssh_host canonical) (\<lambda>_. Inr canonical)))"

section \<open>Profiles, connections and rules\<close>

definition auth_validate :: "ssh_auth \<Rightarrow> profile_validation_error + unit" where
  "auth_validate auth =
     (case auth of AuthKey key_id \<Rightarrow> validate_safe_ascii key_id MAX_KEY_ID | AuthAgent \<Rightarrow> Inr ())"

definition reconnect_validate :: "reconnect_policy \<Rightarrow> profile_validation_error + unit" where
  "reconnect_validate p = ensure (rp_max_attempts p \<le> MAX_RECONNECT_ATTEMPTS) InvalidReconnectPolicy"

definition connection_validate :: "uuid_parser \<Rightarrow> ssh_connection_profile \<Rightarrow> profile_validation_error + unit" where
  "connection_validate U p =
     and_then (validate_uuid_v4 U (cp_id p)) (\<lambda>_.
     and_then (validate_uuid_v4 U (cp_scope_id p)) (\<lambda>_.
     and_then (validate_scalar (cp_name p) MAX_PROFILE_SCALARS) (\<lambda>_.
     and_then (validate_canonical_ssh_host (cp_ssh_host p)) (\<lambda>_.
     and_then (validate_scalar (cp_ssh_user p) MAX_PROFILE_SCALARS) (\<lambda>_.
     and_then (validate_port (cp_ssh_port p)) (\<lambda>_.
     auth_validate (cp_auth p)))))))"

definition canonical_connection_identity ::
  "uuid_parser \<Rightarrow> ssh_connection_profile \<Rightarrow> profile_validation_error + connection_identity" where
  "canonical_connection_identity U p =
     and_then (connection_validate U p) (\<lambda>_.
       Inr \<lparr> ci_scope_id = cp_scope_id p, ci_ssh_host = cp_ssh_host p, ci_ssh_port = cp_ssh_port p,
             ci_ssh_user = cp_ssh_user p,
             ci_auth = (case cp_auth p of AuthAgent \<Rightarrow> IdentityAgent | AuthKey k \<Rightarrow> IdentityKey k) \<rparr>)"

definition rule_validate :: "uuid_parser \<Rightarrow> forward_rule \<Rightarrow> profile_validation_error + unit" where
  "rule_validate U r =
     and_then (validate_uuid_v4 U (fr_id r)) (\<lambda>_.
     and_then (validate_uuid_v4 U (fr_scope_id r)) (\<lambda>_.
     and_then (validate_uuid_v4 U (fr_connection_profile_id r)) (\<lambda>_.
     and_then (validate_scalar (fr_name r) MAX_PROFILE_SCALARS) (\<lambda>_.
     and_then (validate_port (fr_local_port r)) (\<lambda>_.
     and_then (validate_port (fr_target_port r)) (\<lambda>_.
     reconnect_validate (fr_reconnect r)))))))"

definition profile_validate :: "uuid_parser \<Rightarrow> ssh_forward_profile \<Rightarrow> profile_validation_error + unit" where
  "profile_validate U p =
     and_then (validate_uuid_v4 U (fp_id p)) (\<lambda>_.
     and_then (validate_uuid_v4 U (fp_scope_id p)) (\<lambda>_.
     and_then (validate_scalar (fp_name p) MAX_PROFILE_SCALARS) (\<lambda>_.
     and_then (validate_canonical_ssh_host (fp_ssh_host p)) (\<lambda>_.
     and_then (validate_scalar (fp_ssh_user p) MAX_PROFILE_SCALARS) (\<lambda>_.
     and_then (validate_port (fp_ssh_port p)) (\<lambda>_.
     and_then (validate_port (fp_local_port p)) (\<lambda>_.
     and_then (validate_port (fp_target_port p)) (\<lambda>_.
     and_then (auth_validate (fp_auth p)) (\<lambda>_.
     reconnect_validate (fp_reconnect p))))))))))"

text \<open>
  Deserialising a record checks the loopback host and then the whole record; the target is text on
  the wire. \<open>None\<close> is a rejected document.
\<close>

definition connection_deserialize :: "uuid_parser \<Rightarrow> ssh_connection_profile \<Rightarrow> ssh_connection_profile option" where
  "connection_deserialize U wire = (case connection_validate U wire of Inr _ \<Rightarrow> Some wire | Inl _ \<Rightarrow> None)"

definition rule_deserialize :: "uuid_parser \<Rightarrow> string \<Rightarrow> forward_rule \<Rightarrow> forward_rule option" where
  "rule_deserialize U target wire =
     (case loopback_parse target of
        Inl _ \<Rightarrow> None
      | Inr host \<Rightarrow>
          (let rule = wire\<lparr>fr_target_host := host\<rparr>
           in case rule_validate U rule of Inr _ \<Rightarrow> Some rule | Inl _ \<Rightarrow> None))"

definition profile_deserialize :: "uuid_parser \<Rightarrow> string \<Rightarrow> ssh_forward_profile \<Rightarrow> ssh_forward_profile option" where
  "profile_deserialize U target wire =
     (case loopback_parse target of
        Inl _ \<Rightarrow> None
      | Inr host \<Rightarrow>
          (let profile = wire\<lparr>fp_target_host := host\<rparr>
           in case profile_validate U profile of Inr _ \<Rightarrow> Some profile | Inl _ \<Rightarrow> None))"

section \<open>Decimal numbers without leading zeros\<close>

lemma digits_value_snoc: "digits_value (s @ [c]) = digits_value s * 10 + ((of_char c :: nat) - 48)"
  by (simp add: digits_value_def)

lemma digit_char_of: "is_ascii_digit c \<Longrightarrow> digit_char ((of_char c :: nat) - 48) = c"
  by (simp add: is_ascii_digit_def digit_char_def)

lemma digit_value_small: "is_ascii_digit c \<Longrightarrow> (of_char c :: nat) - 48 < 10"
  unfolding is_ascii_digit_def by linarith

lemma of_char_zero: "(of_char c :: nat) = 48 \<longleftrightarrow> c = CHR ''0''"
proof -
  have "(of_char c :: nat) = of_char (CHR ''0'') \<longleftrightarrow> c = CHR ''0''" by (rule of_char_eq_iff)
  then show ?thesis by simp
qed

lemma digits_value_pos:
  assumes "list_all is_ascii_digit s" "s \<noteq> []" "hd s \<noteq> CHR ''0''"
  shows "0 < digits_value s"
  using assms
proof (induction s rule: rev_induct)
  case (snoc c s)
  show ?case
  proof (cases "s = []")
    case True
    have "(of_char c :: nat) \<noteq> 48" using snoc.prems(3) True by (simp add: of_char_zero)
    with True snoc.prems(1) show ?thesis by (simp add: digits_value_def is_ascii_digit_def)
  next
    case False
    with snoc show ?thesis by (simp add: digits_value_snoc)
  qed
qed simp

lemma dec_digits_value:
  assumes "list_all is_ascii_digit s" "s \<noteq> []" "length s > 1 \<longrightarrow> hd s \<noteq> CHR ''0''"
  shows "dec (digits_value s) = s"
  using assms
proof (induction s rule: rev_induct)
  case (snoc c s)
  have c: "digit_char ((of_char c :: nat) - 48) = c" "(of_char c :: nat) - 48 < 10"
    using snoc.prems(1) digit_char_of digit_value_small by simp_all
  show ?case
  proof (cases "s = []")
    case True
    with c show ?thesis by (subst dec.simps) (simp add: digits_value_def)
  next
    case False
    with snoc.prems have s: "list_all is_ascii_digit s" "hd s \<noteq> CHR ''0''" by auto
    with False have "0 < digits_value s" by (rule_tac digits_value_pos)
    moreover from False s snoc.IH have "dec (digits_value s) = s" by simp
    ultimately show ?thesis using c by (subst dec.simps) (simp add: digits_value_snoc)
  qed
qed simp

lemma dec_no_leading_zero: "length (dec n) > 1 \<Longrightarrow> hd (dec n) \<noteq> CHR ''0''"
proof (induction n rule: dec.induct)
  case (1 n)
  have big: "\<not> n < 10"
  proof
    assume "n < 10"
    then have "length (dec n) = 1" by (subst dec.simps) simp
    with "1.prems" show False by simp
  qed
  then have n: "dec n = dec (n div 10) @ [digit_char (n mod 10)]" by (subst dec.simps) simp
  show ?case
  proof (cases "length (dec (n div 10)) > 1")
    case True
    with "1.IH" big n show ?thesis by simp
  next
    case False
    then have "n div 10 < 10" using dec.simps [of "n div 10"] dec_nonempty [of "n div 10 div 10"]
      by (auto split: if_splits)
    then have d: "dec (n div 10) = [digit_char (n div 10)]" by (subst dec.simps) simp
    have "digit_char (n div 10) \<noteq> CHR ''0''"
    proof
      assume "digit_char (n div 10) = CHR ''0''"
      then have "(of_char (digit_char (n div 10)) :: nat) = 48" by simp
      with \<open>n div 10 < 10\<close> big show False by simp
    qed
    with n d show ?thesis by simp
  qed
qed

lemma length_dec: "n < 10 ^ k \<Longrightarrow> 0 < k \<Longrightarrow> length (dec n) \<le> k"
proof (induction n arbitrary: k rule: dec.induct)
  case (1 n)
  show ?case
  proof (cases "n < 10")
    case True
    with "1.prems" show ?thesis by (subst dec.simps) simp
  next
    case False
    obtain j where k: "k = Suc j" using "1.prems"(2) by (cases k) auto
    with "1.prems" False have j: "0 < j" by (cases j) auto
    have "n div 10 < 10 ^ j" using "1.prems"(1) k by (simp add: less_mult_imp_div_less mult.commute)
    with "1.IH" False j have "length (dec (n div 10)) \<le> j" by blast
    with False k show ?thesis by (subst dec.simps) simp
  qed
qed

lemma starts_with_zero: "starts_with ''0'' s \<longleftrightarrow> s \<noteq> [] \<and> hd s = CHR ''0''"
  by (cases s) (auto simp: starts_with_def)

lemma counter_parse_text: "counter_parse (counter_text c) = Inr c"
proof -
  have lt: "unat c < 2 ^ 64" using unsigned_less [of c] by simp
  then have "unat c < 10 ^ 20" by simp
  then have len: "length (dec (unat c)) \<le> 20" by (rule length_dec) simp
  have "\<not> (length (dec (unat c)) > 1 \<and> starts_with ''0'' (dec (unat c)))"
    using dec_no_leading_zero [of "unat c"] by (auto simp: starts_with_zero)
  with len dec_digits [of "unat c"] show ?thesis
    using parse_dec [OF lt] by (simp add: counter_parse_def counter_text_def MAX_WIRE_COUNTER_DIGITS_def)
qed

lemma counter_text_parse:
  assumes "counter_parse s = Inr c"
  shows "counter_text c = s"
proof -
  from assms have s: "s \<noteq> []" "list_all is_ascii_digit s" "\<not> (length s > 1 \<and> starts_with ''0'' s)"
    and p: "parse_unsigned 64 s = Some (unat c)"
    using parse_unsigned_bound [of 64 s]
    by (auto simp: counter_parse_def unat_of_nat_small split: if_splits option.splits)
  have "s = c' # cs \<Longrightarrow> c' \<noteq> CHR ''+''" for c' cs using s(2) digit_not_sign by auto
  with p s(1) have "digits_value s = unat c"
    by (auto simp: parse_unsigned_def Let_def split: if_splits list.splits)
  moreover have "dec (digits_value s) = s"
    using s by (intro dec_digits_value) (auto simp: starts_with_zero)
  ultimately show ?thesis by (simp add: counter_text_def)
qed

section \<open>Canonical hosts\<close>

lemma ipv4_octet_text: "ipv4_octet s = Some n \<Longrightarrow> dec n = s"
  by (auto simp: ipv4_octet_def split: if_splits intro!: dec_digits_value)

lemma those_map_inverse:
  assumes "those (map f xs) = Some ys" "\<And>x y. f x = Some y \<Longrightarrow> g y = x"
  shows "map g ys = xs"
  using assms by (induction xs arbitrary: ys) (auto split: option.splits)

lemma those_map_Some:
  assumes "those (map f xs) = Some ys" "x \<in> set xs"
  shows "\<exists>y. f x = Some y"
  using assms by (induction xs arbitrary: ys) (auto split: option.splits)

lemma ipv4_text_parse: "ipv4_parse s = Some ip \<Longrightarrow> ipv4_text ip = s"
  using those_map_inverse [of ipv4_octet "split_on (CHR ''.'') s" ip dec] ipv4_octet_text
  by (auto simp: ipv4_parse_def ipv4_text_def Let_def split: if_splits)

lemma set_join_with: "set (join_with c xs) \<subseteq> insert c (\<Union> (set ` set xs))"
  by (induction c xs rule: join_with.induct) auto

lemma split_on_chars: "x \<in> set s \<Longrightarrow> x = c \<or> (\<exists>p \<in> set (split_on c s). x \<in> set p)"
  using set_join_with [of c "split_on c s"] by auto

lemma ipv4_parse_chars:
  assumes "ipv4_parse s = Some ip"
  shows "digits_and_dots s" "length s \<le> 15"
proof -
  from assms have t: "those (map ipv4_octet (split_on (CHR ''.'') s)) = Some ip" and l: "length s \<le> 15"
    by (auto simp: ipv4_parse_def Let_def split: if_splits)
  have "list_all is_ascii_digit p" if "p \<in> set (split_on (CHR ''.'') s)" for p
    using those_map_Some [OF t that] by (auto simp: ipv4_octet_def split: if_splits)
  then show "digits_and_dots s"
    using split_on_chars [of _ s "CHR ''.''"] by (auto simp: digits_and_dots_def list_all_iff)
  show "length s \<le> 15" by (rule l)
qed

definition host_char :: "char \<Rightarrow> bool" where
  "host_char c \<longleftrightarrow> is_ascii_alphanumeric c \<or> c = CHR ''-'' \<or> c = CHR ''.''"

lemma valid_host_chars:
  assumes "validate_canonical_ssh_host h = Inr ()"
  shows "list_all host_char h"
proof (cases "ipv4_parse h")
  case None
  with assms have "\<not> list_ex bad_label (split_on (CHR ''.'') h)"
    by (simp add: validate_canonical_ssh_host_def split: if_splits)
  then have "list_all (\<lambda>c. is_ascii_alphanumeric c \<or> c = CHR ''-'') p"
    if "p \<in> set (split_on (CHR ''.'') h)" for p
    using that by (auto simp: list_ex_iff bad_label_def)
  then show ?thesis using split_on_chars [of _ h "CHR ''.''"]
    by (fastforce simp: list_all_iff host_char_def)
next
  case (Some ip)
  then have "digits_and_dots h" by (rule ipv4_parse_chars)
  then show ?thesis
    by (auto simp: digits_and_dots_def list_all_iff host_char_def is_ascii_alphanumeric_def)
qed

lemma host_char_plain:
  assumes "host_char c"
  shows "32 < (of_char c :: nat)" "(of_char c :: nat) < 127" "\<not> is_ascii_whitespace c"
  using assms by (auto simp: host_char_def ascii_class_defs is_ascii_whitespace_def)

lemma any_control_plain:
  "list_all (\<lambda>c. 32 \<le> (of_char c :: nat) \<and> (of_char c :: nat) < 127) s \<Longrightarrow> \<not> any_control s"
  by (induction s) auto

lemma trim_matches_id: "list_all (\<lambda>c. \<not> p c) s \<Longrightarrow> trim_matches p s = s"
proof -
  assume "list_all (\<lambda>c. \<not> p c) s"
  then have "dropWhile p t = t" if "set t \<subseteq> set s" for t
    using that by (cases t) (auto simp: list_all_iff)
  then show ?thesis by (simp add: trim_matches_def)
qed

lemma trim_end_matches_id: "\<not> ends_with [c] s \<Longrightarrow> trim_end_matches c s = s"
proof (cases s rule: rev_cases)
  case (snoc ys y)
  moreover assume "\<not> ends_with [c] s"
  ultimately show ?thesis by (simp add: trim_end_matches_def ends_with_def)
qed (simp add: trim_end_matches_def)

lemma canonicalize_result_valid:
  assumes "canonicalize_ssh_host v = Inr h"
  shows "validate_canonical_ssh_host h = Inr ()"
proof (cases "digits_and_dots (trim_matches is_ascii_whitespace v)")
  case True
  with assms obtain ip where ip: "ipv4_parse h = Some ip" "ipv4_text ip = h" "h \<noteq> []"
    by (auto simp: canonicalize_ssh_host_def Let_def split: if_splits option.splits)
  then show ?thesis using ipv4_parse_chars(2) [of h ip]
    by (simp add: validate_canonical_ssh_host_def MAX_SSH_HOST_def)
next
  case False
  with assms show ?thesis
    by (auto simp: canonicalize_ssh_host_def Let_def and_then_Inr_iff split: if_splits)
qed

lemma valid_host_is_fixed:
  assumes "validate_canonical_ssh_host h = Inr ()"
  shows "canonicalize_ssh_host h = Inr h"
proof -
  note chars = valid_host_chars [OF assms]
  have plain: "list_all (\<lambda>c. 32 \<le> (of_char c :: nat) \<and> (of_char c :: nat) < 127) h"
    using chars host_char_plain by (auto simp: list_all_iff less_imp_le)
  have trim: "trim_matches is_ascii_whitespace h = h"
    using chars host_char_plain(3) by (intro trim_matches_id) (auto simp: list_all_iff)
  have ascii: "is_ascii_str h" using plain by (auto simp: is_ascii_str_def list_all_iff)
  have nonempty: "h \<noteq> []" using assms by (auto simp: validate_canonical_ssh_host_def)
  show ?thesis
  proof (cases "ipv4_parse h")
    case (Some ip)
    then show ?thesis
      using trim ascii nonempty any_control_plain [OF plain] ipv4_parse_chars(1) [OF Some] ipv4_text_parse [OF Some]
      by (simp add: canonicalize_ssh_host_def)
  next
    case None
    with assms have n: "\<not> digits_and_dots h" "to_ascii_lowercase h = h" "\<not> ends_with ''.'' h"
      by (simp_all add: validate_canonical_ssh_host_def split: if_splits)
    then show ?thesis
      using trim ascii nonempty any_control_plain [OF plain] trim_end_matches_id [of "CHR ''.''" h] assms
      by (simp add: canonicalize_ssh_host_def)
  qed
qed

text \<open>
  C40: the endpoint names that trust records and connections may hold are one per accepted spelling.
  \<open>validate_canonical_ssh_host\<close> accepts exactly the names \<open>canonicalize_ssh_host\<close> leaves unchanged, and
  these are exactly the results \<open>canonicalize_ssh_host\<close> can give; so canonicalising twice is
  canonicalising once, and an endpoint looked up by its canonical name can be stored under it.
\<close>

theorem canonical_hosts_are_fixed_points:
  "(validate_canonical_ssh_host h = Inr ()) = (canonicalize_ssh_host h = Inr h) \<and>
   (canonicalize_ssh_host h = Inr h) = (\<exists>v. canonicalize_ssh_host v = Inr h)"
  using canonicalize_result_valid valid_host_is_fixed by blast

end
