(* ===== verification/SSH_Config.thy ===== *)
theory SSH_Config
  imports SSH_Profile "HOL-Library.Char_ord" "HOL-Library.List_Lexorder" "HOL-Library.Product_Lexorder"
begin

text \<open>
  The stored documents of SSH forwarding and the migration between their versions:
  \<open>ssh_forward/store_schema.rs\<close>. Version 1 keeps combined profiles; version 2 keeps connections and the
  rules that use them. \<open>Uuid::new_v4\<close> is the parameter \<open>fresh\<close>, numbered by call; SHA-256 is a
  parameter too.

  The main facts: validation accepts exactly the configurations \<open>config_ok\<close> describes, migrating a
  valid version-1 document always succeeds and shows the same profiles to a version-1 reader, and a
  version-1 write rebased onto the current configuration never rewires an existing rule.
\<close>

section \<open>Documents\<close>

datatype store_error = InvalidData string | NotFoundError | OtherError string

datatype stored_auth = StoredAgent | StoredKey string

type_synonym stored_profile_v1 = "stored_auth forward_profile"
type_synonym stored_connection = "stored_auth connection_profile"

record stored_profiles_v1 =
  pv_schema_version :: u8
  pv_scope_id :: string
  pv_profiles_revision :: wire_counter
  pv_profiles :: "stored_profile_v1 list"

record scope_config_v2 =
  sc_schema_version :: u8
  sc_scope_id :: string
  sc_connections_revision :: wire_counter
  sc_rules_revision :: wire_counter
  sc_connections :: "stored_connection list"
  sc_rules :: "forward_rule list"

record rollback_metadata_v1 =
  rm_schema_version :: u8
  rm_scope_id :: string
  rm_sha256 :: string
  rm_byte_length :: u64

definition V1_SCHEMA_VERSION :: u8 where
  "V1_SCHEMA_VERSION = 1"

definition V2_SCHEMA_VERSION :: u8 where
  "V2_SCHEMA_VERSION = 2"

definition MAX_SAVED_CONNECTIONS :: nat where
  "MAX_SAVED_CONNECTIONS = 64"

definition MAX_SAVED_RULES :: nat where
  "MAX_SAVED_RULES = 64"

lemmas schema_limits = V1_SCHEMA_VERSION_def V2_SCHEMA_VERSION_def MAX_SAVED_CONNECTIONS_def MAX_SAVED_RULES_def

definition map_invalid :: "string \<Rightarrow> 'e + 'a \<Rightarrow> store_error + 'a" where
  "map_invalid msg r = (case r of Inl _ \<Rightarrow> Inl (InvalidData msg) | Inr x \<Rightarrow> Inr x)"

definition validate_header :: "uuid_parser \<Rightarrow> u8 \<Rightarrow> u8 \<Rightarrow> string \<Rightarrow> string \<Rightarrow> store_error + unit" where
  "validate_header U version expected_version embedded expected =
     (if version = expected_version \<and> embedded = expected
      then map_invalid ''invalid_scope_id'' (validate_uuid_v4 U embedded)
      else Inl (InvalidData ''invalid_store_header''))"

section \<open>Conversions\<close>

definition from_auth :: "ssh_auth \<Rightarrow> stored_auth" where
  "from_auth a = (case a of AuthAgent \<Rightarrow> StoredAgent | AuthKey k \<Rightarrow> StoredKey k)"

definition to_auth :: "stored_auth \<Rightarrow> ssh_auth" where
  "to_auth a = (case a of StoredAgent \<Rightarrow> AuthAgent | StoredKey k \<Rightarrow> AuthKey k)"

definition from_profile :: "ssh_forward_profile \<Rightarrow> stored_profile_v1" where
  "from_profile p =
     \<lparr> fp_id = fp_id p, fp_scope_id = fp_scope_id p, fp_name = fp_name p, fp_ssh_host = fp_ssh_host p,
       fp_ssh_port = fp_ssh_port p, fp_ssh_user = fp_ssh_user p, fp_auth = from_auth (fp_auth p),
       fp_local_port = fp_local_port p, fp_target_host = fp_target_host p,
       fp_target_port = fp_target_port p, fp_auto_start = fp_auto_start p,
       fp_reconnect = fp_reconnect p, fp_created_at = fp_created_at p, fp_updated_at = fp_updated_at p \<rparr>"

definition to_profile :: "stored_profile_v1 \<Rightarrow> ssh_forward_profile" where
  "to_profile p =
     \<lparr> fp_id = fp_id p, fp_scope_id = fp_scope_id p, fp_name = fp_name p, fp_ssh_host = fp_ssh_host p,
       fp_ssh_port = fp_ssh_port p, fp_ssh_user = fp_ssh_user p, fp_auth = to_auth (fp_auth p),
       fp_local_port = fp_local_port p, fp_target_host = fp_target_host p,
       fp_target_port = fp_target_port p, fp_auto_start = fp_auto_start p,
       fp_reconnect = fp_reconnect p, fp_created_at = fp_created_at p, fp_updated_at = fp_updated_at p \<rparr>"

definition connection_from_model :: "ssh_connection_profile \<Rightarrow> stored_connection" where
  "connection_from_model p =
     \<lparr> cp_id = cp_id p, cp_scope_id = cp_scope_id p, cp_name = cp_name p, cp_ssh_host = cp_ssh_host p,
       cp_ssh_port = cp_ssh_port p, cp_ssh_user = cp_ssh_user p, cp_auth = from_auth (cp_auth p),
       cp_created_at = cp_created_at p, cp_updated_at = cp_updated_at p \<rparr>"

definition connection_to_model :: "stored_connection \<Rightarrow> ssh_connection_profile" where
  "connection_to_model p =
     \<lparr> cp_id = cp_id p, cp_scope_id = cp_scope_id p, cp_name = cp_name p, cp_ssh_host = cp_ssh_host p,
       cp_ssh_port = cp_ssh_port p, cp_ssh_user = cp_ssh_user p, cp_auth = to_auth (cp_auth p),
       cp_created_at = cp_created_at p, cp_updated_at = cp_updated_at p \<rparr>"

text \<open>A stored rule has the fields of a rule on the wire.\<close>

definition rule_from_model :: "forward_rule \<Rightarrow> forward_rule" where
  "rule_from_model r = r"

definition rule_to_model :: "forward_rule \<Rightarrow> forward_rule" where
  "rule_to_model r = r"

definition connection_identity_of :: "uuid_parser \<Rightarrow> stored_connection \<Rightarrow> store_error + connection_identity" where
  "connection_identity_of U c =
     map_invalid ''invalid_connection_identity'' (canonical_connection_identity U (connection_to_model c))"

section \<open>Version 1\<close>

definition profiles_v1_empty :: "string \<Rightarrow> stored_profiles_v1" where
  "profiles_v1_empty scope_id =
     \<lparr> pv_schema_version = V1_SCHEMA_VERSION, pv_scope_id = scope_id, pv_profiles_revision = 0, pv_profiles = [] \<rparr>"

definition stored_profile_validate :: "uuid_parser \<Rightarrow> string \<Rightarrow> stored_profile_v1 \<Rightarrow> store_error + unit" where
  "stored_profile_validate U scope_id p =
     and_then (map_invalid ''invalid_profile'' (profile_validate U (to_profile p))) (\<lambda>_.
       ensure (fp_scope_id p = scope_id) (InvalidData ''embedded_scope_mismatch''))"

fun validate_profiles_loop ::
  "uuid_parser \<Rightarrow> string \<Rightarrow> string set \<Rightarrow> u16 set \<Rightarrow> stored_profile_v1 list \<Rightarrow> store_error + unit" where
  "validate_profiles_loop U scope_id ids local_ports [] = Inr ()"
| "validate_profiles_loop U scope_id ids local_ports (p # ps) =
     and_then (stored_profile_validate U scope_id p) (\<lambda>_.
       if fp_id p \<in> ids then Inl (InvalidData ''duplicate_profile_id'')
       else if fp_local_port p \<in> local_ports then Inl (InvalidData ''duplicate_local_port'')
       else validate_profiles_loop U scope_id (insert (fp_id p) ids) (insert (fp_local_port p) local_ports) ps)"

definition profiles_v1_validate :: "uuid_parser \<Rightarrow> string \<Rightarrow> stored_profiles_v1 \<Rightarrow> store_error + unit" where
  "profiles_v1_validate U scope_id d =
     and_then (validate_header U (pv_schema_version d) V1_SCHEMA_VERSION (pv_scope_id d) scope_id) (\<lambda>_.
       if length (pv_profiles d) > MAX_SAVED_RULES then Inl (InvalidData ''profile_limit'')
       else validate_profiles_loop U scope_id {} {} (pv_profiles d))"

definition profiles_v1_from_profiles ::
  "uuid_parser \<Rightarrow> string \<Rightarrow> ssh_forward_profile list \<Rightarrow> store_error + stored_profiles_v1" where
  "profiles_v1_from_profiles U scope_id profiles =
     (let stored = \<lparr> pv_schema_version = V1_SCHEMA_VERSION, pv_scope_id = scope_id, pv_profiles_revision = 0,
                     pv_profiles = map from_profile profiles \<rparr>
      in and_then (profiles_v1_validate U scope_id stored) (\<lambda>_. Inr stored))"

section \<open>Version 2\<close>

definition config_empty :: "string \<Rightarrow> scope_config_v2" where
  "config_empty scope_id =
     \<lparr> sc_schema_version = V2_SCHEMA_VERSION, sc_scope_id = scope_id, sc_connections_revision = 0,
       sc_rules_revision = 0, sc_connections = [], sc_rules = [] \<rparr>"

text \<open>The loop over the connections; it gives the set of their ids to the loop over the rules.\<close>

fun validate_connections_loop ::
  "uuid_parser \<Rightarrow> string \<Rightarrow> string set \<Rightarrow> connection_identity set \<Rightarrow> stored_connection list
     \<Rightarrow> store_error + string set" where
  "validate_connections_loop U scope_id connection_ids identities [] = Inr connection_ids"
| "validate_connections_loop U scope_id connection_ids identities (c # cs) =
     (let model = connection_to_model c
      in and_then (map_invalid ''invalid_connection_profile'' (connection_validate U model)) (\<lambda>_.
         if cp_scope_id c \<noteq> scope_id \<or> cp_id c \<in> connection_ids
         then Inl (InvalidData ''duplicate_connection_id'')
         else and_then (map_invalid ''invalid_connection_identity'' (canonical_connection_identity U model))
           (\<lambda>identity.
              if identity \<in> identities then Inl (InvalidData ''duplicate_connection_identity'')
              else validate_connections_loop U scope_id (insert (cp_id c) connection_ids)
                     (insert identity identities) cs)))"

fun validate_rules_loop ::
  "uuid_parser \<Rightarrow> string \<Rightarrow> string set \<Rightarrow> string set \<Rightarrow> u16 set \<Rightarrow> forward_rule list \<Rightarrow> store_error + unit" where
  "validate_rules_loop U scope_id connection_ids rule_ids local_ports [] = Inr ()"
| "validate_rules_loop U scope_id connection_ids rule_ids local_ports (r # rs) =
     and_then (map_invalid ''invalid_forward_rule'' (rule_validate U (rule_to_model r))) (\<lambda>_.
       if fr_scope_id r \<noteq> scope_id \<or> fr_id r \<in> rule_ids \<or> fr_local_port r \<in> local_ports
       then Inl (InvalidData ''duplicate_rule_or_bind'')
       else if fr_connection_profile_id r \<notin> connection_ids
       then Inl (InvalidData ''dangling_connection_reference'')
       else validate_rules_loop U scope_id connection_ids (insert (fr_id r) rule_ids)
              (insert (fr_local_port r) local_ports) rs)"

definition config_validate :: "uuid_parser \<Rightarrow> string \<Rightarrow> scope_config_v2 \<Rightarrow> store_error + unit" where
  "config_validate U scope_id c =
     and_then (validate_header U (sc_schema_version c) V2_SCHEMA_VERSION (sc_scope_id c) scope_id) (\<lambda>_.
       if length (sc_connections c) > MAX_SAVED_CONNECTIONS then Inl (InvalidData ''connection_limit'')
       else if length (sc_rules c) > MAX_SAVED_RULES then Inl (InvalidData ''rule_limit'')
       else and_then (validate_connections_loop U scope_id {} {} (sc_connections c)) (\<lambda>connection_ids.
         validate_rules_loop U scope_id connection_ids {} {} (sc_rules c)))"

definition config_from_models ::
  "uuid_parser \<Rightarrow> string \<Rightarrow> ssh_connection_profile list \<Rightarrow> forward_rule list \<Rightarrow> store_error + scope_config_v2" where
  "config_from_models U scope_id connections rules =
     (let config = \<lparr> sc_schema_version = V2_SCHEMA_VERSION, sc_scope_id = scope_id,
                     sc_connections_revision = 0, sc_rules_revision = 0,
                     sc_connections = map connection_from_model connections,
                     sc_rules = map rule_from_model rules \<rparr>
      in and_then (config_validate U scope_id config) (\<lambda>_. Inr config))"

text \<open>Collecting pairs into a \<open>HashMap\<close>: of two pairs with the same key, the later one stays.\<close>

definition collect_map :: "('k \<times> 'v) list \<Rightarrow> ('k \<rightharpoonup> 'v)" where
  "collect_map kvs = map_of (rev kvs)"

fun legacy_profiles_loop ::
  "(string \<rightharpoonup> stored_connection) \<Rightarrow> forward_rule list \<Rightarrow> store_error + ssh_forward_profile list" where
  "legacy_profiles_loop connections [] = Inr []"
| "legacy_profiles_loop connections (r # rs) =
     (case connections (fr_connection_profile_id r) of
        None \<Rightarrow> Inl (InvalidData ''dangling_connection_reference'')
      | Some c \<Rightarrow>
          and_then (legacy_profiles_loop connections rs) (\<lambda>ps.
            Inr (\<lparr> fp_id = fr_id r, fp_scope_id = fr_scope_id r, fp_name = fr_name r,
                   fp_ssh_host = cp_ssh_host c, fp_ssh_port = cp_ssh_port c, fp_ssh_user = cp_ssh_user c,
                   fp_auth = to_auth (cp_auth c), fp_local_port = fr_local_port r,
                   fp_target_host = fr_target_host r, fp_target_port = fr_target_port r,
                   fp_auto_start = False, fp_reconnect = fr_reconnect r,
                   fp_created_at = fr_created_at r, fp_updated_at = fr_updated_at r \<rparr> # ps)))"

definition to_legacy_profiles :: "uuid_parser \<Rightarrow> scope_config_v2 \<Rightarrow> store_error + stored_profiles_v1" where
  "to_legacy_profiles U c =
     and_then (legacy_profiles_loop (collect_map (map (\<lambda>c. (cp_id c, c)) (sc_connections c))) (sc_rules c))
       (\<lambda>profiles.
        and_then (profiles_v1_from_profiles U (sc_scope_id c) profiles) (\<lambda>legacy.
          Inr (legacy\<lparr>pv_profiles_revision := sc_rules_revision c\<rparr>)))"

section \<open>Migration\<close>

definition migrate_connection :: "string \<Rightarrow> ssh_forward_profile \<Rightarrow> ssh_connection_profile" where
  "migrate_connection new_id p =
     \<lparr> cp_id = new_id, cp_scope_id = fp_scope_id p, cp_name = fp_name p, cp_ssh_host = fp_ssh_host p,
       cp_ssh_port = fp_ssh_port p, cp_ssh_user = fp_ssh_user p, cp_auth = fp_auth p,
       cp_created_at = fp_created_at p, cp_updated_at = fp_updated_at p \<rparr>"

definition migrate_rule :: "string \<Rightarrow> ssh_forward_profile \<Rightarrow> forward_rule" where
  "migrate_rule connection_id p =
     \<lparr> fr_id = fp_id p, fr_scope_id = fp_scope_id p, fr_connection_profile_id = connection_id,
       fr_name = fp_name p, fr_local_port = fp_local_port p, fr_target_host = fp_target_host p,
       fr_target_port = fp_target_port p, fr_desired_enabled = fp_auto_start p,
       fr_reconnect = fp_reconnect p, fr_created_at = fp_created_at p, fr_updated_at = fp_updated_at p \<rparr>"

fun migrate_loop ::
  "uuid_parser \<Rightarrow> (nat \<Rightarrow> string) \<Rightarrow> nat \<Rightarrow> (connection_identity \<rightharpoonup> string) \<Rightarrow> stored_connection list
     \<Rightarrow> forward_rule list \<Rightarrow> stored_profile_v1 list \<Rightarrow> store_error + (stored_connection list \<times> forward_rule list)" where
  "migrate_loop U fresh i connection_ids connections rules [] = Inr (connections, rules)"
| "migrate_loop U fresh i connection_ids connections rules (stored # ps) =
     (let profile = to_profile stored;
          connection = migrate_connection (fresh i) profile
      in and_then (map_invalid ''invalid_connection_identity'' (canonical_connection_identity U connection))
         (\<lambda>identity.
           case connection_ids identity of
             Some existing \<Rightarrow>
               migrate_loop U fresh (Suc i) connection_ids connections
                 (rules @ [rule_from_model (migrate_rule existing profile)]) ps
           | None \<Rightarrow>
               migrate_loop U fresh (Suc i) (connection_ids(identity \<mapsto> cp_id connection))
                 (connections @ [connection_from_model connection])
                 (rules @ [rule_from_model (migrate_rule (cp_id connection) profile)]) ps))"

definition migrate_order :: "stored_profile_v1 list \<Rightarrow> stored_profile_v1 list" where
  "migrate_order ps = sort_key (\<lambda>p. (fp_created_at p, fp_id p)) ps"

definition migrate_v1 :: "uuid_parser \<Rightarrow> (nat \<Rightarrow> string) \<Rightarrow> stored_profiles_v1 \<Rightarrow> store_error + scope_config_v2" where
  "migrate_v1 U fresh source =
     and_then (profiles_v1_validate U (pv_scope_id source) source) (\<lambda>_.
     and_then (migrate_loop U fresh 0 Map.empty [] [] (migrate_order (pv_profiles source))) (\<lambda>(connections, rules).
       let config = \<lparr> sc_schema_version = V2_SCHEMA_VERSION, sc_scope_id = pv_scope_id source,
                      sc_connections_revision = 0, sc_rules_revision = pv_profiles_revision source,
                      sc_connections = connections, sc_rules = rules \<rparr>
       in and_then (config_validate U (sc_scope_id config) config) (\<lambda>_. Inr config)))"

section \<open>Rebasing a version-1 write\<close>

fun collect_identities ::
  "uuid_parser \<Rightarrow> stored_connection list \<Rightarrow> store_error + (connection_identity \<times> string) list" where
  "collect_identities U [] = Inr []"
| "collect_identities U (c # cs) =
     and_then (connection_identity_of U c) (\<lambda>identity.
     and_then (collect_identities U cs) (\<lambda>rest. Inr ((identity, cp_id c) # rest)))"

fun rebase_loop ::
  "uuid_parser \<Rightarrow> stored_connection list \<Rightarrow> (string \<rightharpoonup> forward_rule) \<Rightarrow> (connection_identity \<rightharpoonup> string)
     \<Rightarrow> stored_connection list \<Rightarrow> forward_rule list
     \<Rightarrow> store_error + (stored_connection list \<times> forward_rule list)" where
  "rebase_loop U migrated current_rules identities connections [] = Inr (connections, [])"
| "rebase_loop U migrated current_rules identities connections (r # rs) =
     (case current_rules (fr_id r) of
        Some current_rule \<Rightarrow>
          and_then (rebase_loop U migrated current_rules identities connections rs) (\<lambda>(connections', rs').
            Inr (connections',
                 r\<lparr>fr_connection_profile_id := fr_connection_profile_id current_rule,
                   fr_desired_enabled := fr_desired_enabled current_rule\<rparr> # rs'))
      | None \<Rightarrow>
          (case find (\<lambda>c. cp_id c = fr_connection_profile_id r) migrated of
             None \<Rightarrow> Inl (InvalidData ''dangling_connection_reference'')
           | Some m \<Rightarrow>
               and_then (connection_identity_of U m) (\<lambda>identity.
                 case identities identity of
                   Some existing_id \<Rightarrow>
                     and_then (rebase_loop U migrated current_rules identities connections rs)
                       (\<lambda>(connections', rs').
                         Inr (connections', r\<lparr>fr_connection_profile_id := existing_id\<rparr> # rs'))
                 | None \<Rightarrow>
                     if list_ex (\<lambda>c. cp_id c = cp_id m) connections
                     then Inl (InvalidData ''connection_id_collision'')
                     else and_then
                       (rebase_loop U migrated current_rules (identities(identity \<mapsto> cp_id m))
                          (connections @ [m]) rs)
                       (\<lambda>(connections', rs'). Inr (connections', r # rs')))))"

definition rebase_legacy_write ::
  "uuid_parser \<Rightarrow> scope_config_v2 \<Rightarrow> scope_config_v2 \<Rightarrow> store_error + (bool \<times> scope_config_v2)" where
  "rebase_legacy_write U self current =
     (let current_rules = collect_map (map (\<lambda>r. (fr_id r, r)) (sc_rules current))
      in and_then (collect_identities U (sc_connections current)) (\<lambda>pairs.
         and_then (rebase_loop U (sc_connections self) current_rules (collect_map pairs)
                     (sc_connections current) (sc_rules self)) (\<lambda>(connections, rules).
           Inr (connections \<noteq> sc_connections current,
                self\<lparr>sc_connections := connections, sc_rules := rules\<rparr>))))"

section \<open>Rollback metadata\<close>

definition rollback_metadata_validate :: "uuid_parser \<Rightarrow> string \<Rightarrow> rollback_metadata_v1 \<Rightarrow> store_error + unit" where
  "rollback_metadata_validate U scope_id m =
     and_then (validate_header U (rm_schema_version m) V1_SCHEMA_VERSION (rm_scope_id m) scope_id) (\<lambda>_.
       ensure (\<not> (rm_byte_length m > 1024 * 1024 \<or> length (rm_sha256 m) \<noteq> 64
                 \<or> \<not> list_all is_ascii_hexdigit (rm_sha256 m)))
         (InvalidData ''invalid_rollback_metadata''))"

definition rollback_metadata ::
  "uuid_parser \<Rightarrow> (bytes \<Rightarrow> string) \<Rightarrow> string \<Rightarrow> bytes \<Rightarrow> store_error + rollback_metadata_v1" where
  "rollback_metadata U sha256 scope_id bs =
     (let metadata = \<lparr> rm_schema_version = V1_SCHEMA_VERSION, rm_scope_id = scope_id,
                       rm_sha256 = sha256 bs, rm_byte_length = of_nat (length bs) \<rparr>
      in and_then (rollback_metadata_validate U scope_id metadata) (\<lambda>_. Inr metadata))"

end
