(* ===== verification/SSH_Trust.thy ===== *)
theory SSH_Trust
  imports SSH_Config
begin

text \<open>
  Host trust of SSH forwarding: the error codes of \<open>ssh_forward/error.rs\<close>, the trust documents of
  \<open>ssh_forward/store.rs\<close>, the decision on an offered host key and the book of approval challenges of
  \<open>ssh_forward/known_hosts.rs\<close>, and the callback of \<open>ssh_forward/ssh_client.rs\<close> that uses them.

  Base64 and the key parser are the parameter \<open>K\<close>: \<open>kl_parse\<close> gives the algorithm and the SHA-256
  fingerprint of a wire key. The clock is explicit, in nanoseconds, and \<open>R\<close> says which timestamps can
  be represented. A book is a list of challenges under their ids, in the order the hash map shows them.
\<close>

section \<open>Error codes\<close>

text \<open>The codes that the modelled code raises.\<close>

datatype ssh_error_code =
    EInvalidArgument | EDesktopInstanceMismatch | EManagerSessionMismatch | EClientEpochStale
  | EActivationSuperseded | EScopeNotActive | EScopeGenerationConflict | EScopeActive
  | EConnectionsRevisionConflict | ERulesRevisionConflict | ETrustRevisionConflict
  | EGenerationConflict | ECounterExhausted | EProfileNotFound | EProfileActive | EConnectionRequired
  | EConnectionLimit | EConnectionNotEstablished | EStaleConnectionGeneration | ERuleLimit
  | EStaleRuleGeneration | EPortConflict | EHostKeyApprovalRequired | EHostKeyChanged
  | EHostKeyAlgorithmChanged | EHostKeyAlgorithmUnsupported | EHostKeyChallengeNotFound
  | EHostKeyChallengeExpired | EIdentityCorrupt | EShutdownInProgress | EStoreCorrupt | EStoreIo | EInternal

section \<open>Trust documents\<close>

record trusted_host =
  th_ssh_host :: string
  th_ssh_port :: u16
  th_algorithm :: string
  th_fingerprint :: string
  th_public_key :: "string option"

record stored_trust =
  tr_schema_version :: u8
  tr_scope_id :: string
  tr_trust_revision :: wire_counter
  tr_entries :: "trusted_host list"

record key_lib =
  kl_decode :: "string \<Rightarrow> bytes option"
  kl_encode :: "bytes \<Rightarrow> string"
  kl_parse :: "bytes \<Rightarrow> (string \<times> string) option"

definition SUPPORTED_ALGORITHMS :: "string list" where
  "SUPPORTED_ALGORITHMS = [''ssh-ed25519'', ''ecdsa-sha2-nistp256'', ''ecdsa-sha2-nistp384'', ''ecdsa-sha2-nistp521'']"

definition is_supported_algorithm :: "string \<Rightarrow> bool" where
  "is_supported_algorithm a \<longleftrightarrow> a \<in> set SUPPORTED_ALGORITHMS"

definition MAX_TRUSTED_ALGORITHMS_PER_ENDPOINT :: nat where
  "MAX_TRUSTED_ALGORITHMS_PER_ENDPOINT = 8"

definition trust_empty :: "string \<Rightarrow> stored_trust" where
  "trust_empty scope_id =
     \<lparr> tr_schema_version = V1_SCHEMA_VERSION, tr_scope_id = scope_id, tr_trust_revision = 0, tr_entries = [] \<rparr>"

definition endpoint_records :: "stored_trust \<Rightarrow> string \<Rightarrow> u16 \<Rightarrow> trusted_host list" where
  "endpoint_records t host port = filter (\<lambda>e. th_ssh_host e = host \<and> th_ssh_port e = port) (tr_entries t)"

definition public_key_bytes :: "key_lib \<Rightarrow> trusted_host \<Rightarrow> store_error + bytes option" where
  "public_key_bytes K h =
     (case th_public_key h of
        None \<Rightarrow> Inr None
      | Some text \<Rightarrow> (case kl_decode K text of
                        None \<Rightarrow> Inl (InvalidData ''invalid_trust_key'') | Some bs \<Rightarrow> Inr (Some bs)))"

definition is_canonical_sha256_fingerprint :: "key_lib \<Rightarrow> string \<Rightarrow> bool" where
  "is_canonical_sha256_fingerprint K fingerprint =
     (case strip_prefix_str ''SHA256:'' fingerprint of
        None \<Rightarrow> False
      | Some encoded \<Rightarrow>
          if length fingerprint \<noteq> 50
             \<or> \<not> list_all (\<lambda>c. is_ascii_alphanumeric c \<or> c = CHR ''+'' \<or> c = CHR ''/'') encoded
          then False
          else (case kl_decode K encoded of
                  None \<Rightarrow> False
                | Some decoded \<Rightarrow> length decoded = 32 \<and> kl_encode K decoded = encoded))"

definition invalid_public_key :: "key_lib \<Rightarrow> trusted_host \<Rightarrow> bool" where
  "invalid_public_key K h =
     (case th_public_key h of
        None \<Rightarrow> False
      | Some text \<Rightarrow>
          if text = [] \<or> length text > 16 * 1024
             \<or> \<not> list_all (\<lambda>c. is_ascii_alphanumeric c \<or> c = CHR ''+'' \<or> c = CHR ''/'' \<or> c = CHR ''='') text
          then True
          else (case kl_decode K text of
                  None \<Rightarrow> True
                | Some decoded \<Rightarrow>
                    if kl_encode K decoded \<noteq> text then True
                    else (case kl_parse K decoded of
                            None \<Rightarrow> True
                          | Some (algorithm, fingerprint) \<Rightarrow>
                              algorithm \<noteq> th_algorithm h \<or> fingerprint \<noteq> th_fingerprint h)))"

definition trusted_host_validate :: "key_lib \<Rightarrow> trusted_host \<Rightarrow> store_error + unit" where
  "trusted_host_validate K h =
     ensure (\<not> (\<not> is_ok (validate_canonical_ssh_host (th_ssh_host h)) \<or> th_ssh_port h = 0
               \<or> th_algorithm h = [] \<or> length (th_algorithm h) > 128
               \<or> \<not> is_supported_algorithm (th_algorithm h)
               \<or> \<not> list_all (\<lambda>c. is_ascii_alphanumeric c \<or> c \<in> set ''-_.@+'') (th_algorithm h)
               \<or> \<not> is_canonical_sha256_fingerprint K (th_fingerprint h)
               \<or> invalid_public_key K h)) (InvalidData ''invalid_trust'')"

fun validate_trust_loop ::
  "key_lib \<Rightarrow> (string \<times> u16 \<times> string) set \<Rightarrow> (string \<times> u16 \<Rightarrow> nat) \<Rightarrow> trusted_host list \<Rightarrow> store_error + unit" where
  "validate_trust_loop K algorithms counts [] = Inr ()"
| "validate_trust_loop K algorithms counts (e # es) =
     and_then (trusted_host_validate K e) (\<lambda>_.
       let endpoint = (th_ssh_host e, th_ssh_port e); counts' = counts(endpoint := counts endpoint + 1)
       in if counts' endpoint > MAX_TRUSTED_ALGORITHMS_PER_ENDPOINT
          then Inl (InvalidData ''trust_algorithm_limit'')
          else if (th_ssh_host e, th_ssh_port e, th_algorithm e) \<in> algorithms
          then Inl (InvalidData ''duplicate_trust_algorithm'')
          else validate_trust_loop K (insert (th_ssh_host e, th_ssh_port e, th_algorithm e) algorithms) counts' es)"

definition trust_validate :: "uuid_parser \<Rightarrow> key_lib \<Rightarrow> string \<Rightarrow> stored_trust \<Rightarrow> store_error + unit" where
  "trust_validate U K scope_id t =
     and_then (validate_header U (tr_schema_version t) V1_SCHEMA_VERSION (tr_scope_id t) scope_id) (\<lambda>_.
       validate_trust_loop K {} (\<lambda>_. 0) (tr_entries t))"

section \<open>The decision on an offered key\<close>

record ssh_endpoint =
  ep_host :: string
  ep_port :: u16

definition endpoint_new :: "string \<Rightarrow> u16 \<Rightarrow> ssh_error_code + ssh_endpoint" where
  "endpoint_new host port =
     (if port = 0 then Inl EInvalidArgument
      else case canonicalize_ssh_host host of
        Inl _ \<Rightarrow> Inl EInvalidArgument
      | Inr h \<Rightarrow> Inr \<lparr>ep_host = h, ep_port = port\<rparr>)"

record offered_host_key =
  ok_algorithm :: string
  ok_fingerprint :: string
  ok_public_key :: bytes

definition MAX_PUBLIC_KEY_BYTES :: nat where
  "MAX_PUBLIC_KEY_BYTES = 16 * 1024"

definition is_canonical_fingerprint :: "key_lib \<Rightarrow> string \<Rightarrow> bool" where
  "is_canonical_fingerprint K value =
     (case strip_prefix_str ''SHA256:'' value of
        None \<Rightarrow> False
      | Some encoded \<Rightarrow>
          if length encoded \<noteq> 43
             \<or> \<not> list_all (\<lambda>c. is_ascii_alphanumeric c \<or> c = CHR ''+'' \<or> c = CHR ''/'') encoded
          then False
          else (case kl_decode K encoded of None \<Rightarrow> False | Some decoded \<Rightarrow> kl_encode K decoded = encoded))"

definition offered_new :: "key_lib \<Rightarrow> string \<Rightarrow> string \<Rightarrow> bytes \<Rightarrow> ssh_error_code + offered_host_key" where
  "offered_new K algorithm fingerprint public_key =
     (if \<not> is_supported_algorithm algorithm \<or> \<not> is_canonical_fingerprint K fingerprint
         \<or> public_key = [] \<or> length public_key > MAX_PUBLIC_KEY_BYTES
      then Inl EInvalidArgument
      else case kl_parse K public_key of
        None \<Rightarrow> Inl EInvalidArgument
      | Some (parsed_algorithm, parsed_fingerprint) \<Rightarrow>
          if parsed_algorithm \<noteq> algorithm \<or> parsed_fingerprint \<noteq> fingerprint then Inl EInvalidArgument
          else Inr \<lparr>ok_algorithm = algorithm, ok_fingerprint = fingerprint, ok_public_key = public_key\<rparr>)"

text \<open>
  \<open>from_russh\<close>: the server's key is given by its wire bytes (\<open>None\<close> when they cannot be written), its
  fingerprint and its algorithm.
\<close>

definition offered_from_russh :: "key_lib \<Rightarrow> bytes option \<Rightarrow> string \<Rightarrow> string \<Rightarrow> ssh_error_code + offered_host_key" where
  "offered_from_russh K wire fingerprint algorithm =
     (case wire of
        None \<Rightarrow> Inl EInternal
      | Some bs \<Rightarrow>
          if \<not> is_canonical_fingerprint K fingerprint \<or> bs = [] \<or> length bs > MAX_PUBLIC_KEY_BYTES
          then Inl EInternal
          else Inr \<lparr>ok_algorithm = algorithm, ok_fingerprint = fingerprint, ok_public_key = bs\<rparr>)"

datatype trust_decision = Trusted | UnknownHost | ChangedKey | ChangedAlgorithm | UnsupportedAlgorithm

definition decision_error_code :: "trust_decision \<Rightarrow> ssh_error_code option" where
  "decision_error_code d =
     (case d of Trusted \<Rightarrow> None | UnknownHost \<Rightarrow> Some EHostKeyApprovalRequired
      | ChangedKey \<Rightarrow> Some EHostKeyChanged | ChangedAlgorithm \<Rightarrow> Some EHostKeyAlgorithmChanged
      | UnsupportedAlgorithm \<Rightarrow> Some EHostKeyAlgorithmUnsupported)"

text \<open>The loop over the records of the endpoint; the flag is \<open>endpoint_exists\<close>.\<close>

fun inspect_records :: "key_lib \<Rightarrow> offered_host_key \<Rightarrow> bool \<Rightarrow> trusted_host list \<Rightarrow> trust_decision" where
  "inspect_records K offered endpoint_exists [] = (if endpoint_exists then ChangedAlgorithm else UnknownHost)"
| "inspect_records K offered endpoint_exists (r # rs) =
     (if th_algorithm r \<noteq> ok_algorithm offered then inspect_records K offered True rs
      else if th_fingerprint r = ok_fingerprint offered
           \<and> public_key_bytes K r = Inr (Some (ok_public_key offered))
      then Trusted else ChangedKey)"

definition inspect_trust :: "key_lib \<Rightarrow> stored_trust \<Rightarrow> ssh_endpoint \<Rightarrow> offered_host_key \<Rightarrow> trust_decision" where
  "inspect_trust K trust endpoint offered =
     (if \<not> is_supported_algorithm (ok_algorithm offered) then UnsupportedAlgorithm
      else inspect_records K offered False (endpoint_records trust (ep_host endpoint) (ep_port endpoint)))"

datatype transport_error =
    HostKeyRejected offered_host_key | HostKeyChanged offered_host_key
  | HostKeyAlgorithmChanged offered_host_key | HostKeyAlgorithmUnsupported offered_host_key | TransportConnect

text \<open>The host key callback: the accepted key, or the error that ends the handshake.\<close>

definition check_server_key ::
  "key_lib \<Rightarrow> stored_trust \<Rightarrow> ssh_endpoint \<Rightarrow> ssh_error_code + offered_host_key \<Rightarrow> transport_error + offered_host_key" where
  "check_server_key K trust endpoint server_key =
     (case server_key of
        Inl _ \<Rightarrow> Inl TransportConnect
      | Inr offered \<Rightarrow>
          (case inspect_trust K trust endpoint offered of
             Trusted \<Rightarrow> Inr offered
           | UnknownHost \<Rightarrow> Inl (HostKeyRejected offered)
           | ChangedKey \<Rightarrow> Inl (HostKeyChanged offered)
           | ChangedAlgorithm \<Rightarrow> Inl (HostKeyAlgorithmChanged offered)
           | UnsupportedAlgorithm \<Rightarrow> Inl (HostKeyAlgorithmUnsupported offered)))"

section \<open>Challenges\<close>

definition checked_add_seconds :: "(utc_timestamp \<Rightarrow> bool) \<Rightarrow> utc_timestamp \<Rightarrow> int \<Rightarrow> wire_scalar_error + utc_timestamp" where
  "checked_add_seconds R t seconds =
     (if R (t + seconds * 1000000000) then Inr (t + seconds * 1000000000) else Inl InvalidTimestamp)"

definition CHALLENGE_TTL_SECONDS :: int where
  "CHALLENGE_TTL_SECONDS = 5 * 60"

record challenge_context =
  cc_client_epoch :: wire_counter
  cc_activation_token :: wire_counter
  cc_scope_generation :: wire_counter
  cc_generation :: wire_counter

record host_key_challenge =
  hc_challenge_id :: string
  hc_connection_profile_id :: string
  hc_scope_id :: string
  hc_generation :: wire_counter
  hc_ssh_host :: string
  hc_ssh_port :: u16
  hc_algorithm :: string
  hc_fingerprint :: string
  hc_expires_at :: utc_timestamp

record host_key_approval =
  ha_challenge_id :: string
  ha_algorithm :: string
  ha_fingerprint :: string
  ha_expected_generation :: wire_counter
  ha_expected_trust_revision :: wire_counter

record approved_host_key =
  ak_record :: trusted_host
  ak_trust_revision :: wire_counter

record challenge_record =
  cr_challenge :: host_key_challenge
  cr_context :: challenge_context
  cr_desktop_instance_id :: string
  cr_manager_session_id :: string
  cr_trust_revision :: wire_counter
  cr_public_key :: bytes

type_synonym challenge_book = "(string \<times> challenge_record) list"

definition book_expire :: "utc_timestamp \<Rightarrow> challenge_book \<Rightarrow> challenge_book" where
  "book_expire now book = filter (\<lambda>(_, r). hc_expires_at (cr_challenge r) > now) book"

definition book_remove :: "string \<Rightarrow> challenge_book \<Rightarrow> challenge_book" where
  "book_remove k book = filter (\<lambda>(k', _). k' \<noteq> k) book"

text \<open>Who asks: the caller's desktop, manager session, scope, profile and counters.\<close>

record challenge_owner =
  co_context :: challenge_context
  co_scope_id :: string
  co_desktop_instance_id :: string
  co_manager_session_id :: string
  co_profile_id :: string

definition same_challenge ::
  "challenge_owner \<Rightarrow> ssh_endpoint \<Rightarrow> offered_host_key \<Rightarrow> wire_counter \<Rightarrow> challenge_record \<Rightarrow> bool" where
  "same_challenge co endpoint offered trust_revision r \<longleftrightarrow>
     hc_connection_profile_id (cr_challenge r) = co_profile_id co
     \<and> hc_scope_id (cr_challenge r) = co_scope_id co
     \<and> hc_generation (cr_challenge r) = cc_generation (co_context co)
     \<and> hc_ssh_host (cr_challenge r) = ep_host endpoint
     \<and> hc_ssh_port (cr_challenge r) = ep_port endpoint
     \<and> hc_algorithm (cr_challenge r) = ok_algorithm offered
     \<and> hc_fingerprint (cr_challenge r) = ok_fingerprint offered
     \<and> cr_context r = co_context co
     \<and> cr_desktop_instance_id r = co_desktop_instance_id co
     \<and> cr_manager_session_id r = co_manager_session_id co
     \<and> cr_trust_revision r = trust_revision
     \<and> cr_public_key r = ok_public_key offered"

definition new_challenge ::
  "string \<Rightarrow> utc_timestamp \<Rightarrow> challenge_owner \<Rightarrow> ssh_endpoint \<Rightarrow> offered_host_key \<Rightarrow> host_key_challenge" where
  "new_challenge new_id expires_at co endpoint offered =
     \<lparr> hc_challenge_id = new_id, hc_connection_profile_id = co_profile_id co, hc_scope_id = co_scope_id co,
       hc_generation = cc_generation (co_context co), hc_ssh_host = ep_host endpoint,
       hc_ssh_port = ep_port endpoint, hc_algorithm = ok_algorithm offered,
       hc_fingerprint = ok_fingerprint offered, hc_expires_at = expires_at \<rparr>"

definition issue_or_repeat ::
  "uuid_parser \<Rightarrow> (utc_timestamp \<Rightarrow> bool) \<Rightarrow> string \<Rightarrow> utc_timestamp \<Rightarrow> challenge_owner \<Rightarrow> ssh_endpoint
     \<Rightarrow> offered_host_key \<Rightarrow> wire_counter \<Rightarrow> challenge_book
     \<Rightarrow> (ssh_error_code + host_key_challenge) \<times> challenge_book" where
  "issue_or_repeat U R new_id now co endpoint offered trust_revision book =
     (if \<not> is_ok (validate_uuid_v4 U (co_profile_id co)) \<or> \<not> is_ok (validate_uuid_v4 U (co_scope_id co))
      then (Inl EInvalidArgument, book)
      else
        let book1 = book_expire now book
        in case find (\<lambda>(_, r). same_challenge co endpoint offered trust_revision r) book1 of
             Some (_, existing) \<Rightarrow> (Inr (cr_challenge existing), book1)
           | None \<Rightarrow>
               (case checked_add_seconds R now CHALLENGE_TTL_SECONDS of
                  Inl _ \<Rightarrow> (Inl EInternal, book1)
                | Inr expires_at \<Rightarrow>
                    (let challenge = new_challenge new_id expires_at co endpoint offered
                     in (Inr challenge,
                         (new_id, \<lparr> cr_challenge = challenge, cr_context = co_context co,
                                    cr_desktop_instance_id = co_desktop_instance_id co,
                                    cr_manager_session_id = co_manager_session_id co,
                                    cr_trust_revision = trust_revision,
                                    cr_public_key = ok_public_key offered \<rparr>) # book_remove new_id book1))))"

text \<open>The checks of \<open>approve\<close> on the pending challenge, in their order.\<close>

definition approve_checks :: "challenge_owner \<Rightarrow> host_key_approval \<Rightarrow> challenge_record \<Rightarrow> ssh_error_code + unit" where
  "approve_checks co approval p =
     and_then (ensure (cr_desktop_instance_id p = co_desktop_instance_id co) EDesktopInstanceMismatch) (\<lambda>_.
     and_then (ensure (cr_manager_session_id p = co_manager_session_id co) EManagerSessionMismatch) (\<lambda>_.
     and_then (ensure (hc_connection_profile_id (cr_challenge p) = co_profile_id co) EHostKeyChallengeNotFound) (\<lambda>_.
     and_then (ensure (hc_scope_id (cr_challenge p) = co_scope_id co) EScopeGenerationConflict) (\<lambda>_.
     and_then (ensure (cc_client_epoch (cr_context p) = cc_client_epoch (co_context co)) EClientEpochStale) (\<lambda>_.
     and_then (ensure (cc_activation_token (cr_context p) = cc_activation_token (co_context co)) EActivationSuperseded) (\<lambda>_.
     and_then (ensure (cc_scope_generation (cr_context p) = cc_scope_generation (co_context co)) EScopeGenerationConflict) (\<lambda>_.
     and_then (ensure (cc_generation (cr_context p) = cc_generation (co_context co)) EGenerationConflict) (\<lambda>_.
     and_then (ensure (hc_generation (cr_challenge p) = ha_expected_generation approval) EHostKeyChallengeNotFound) (\<lambda>_.
     and_then (ensure (cr_trust_revision p = ha_expected_trust_revision approval) ETrustRevisionConflict) (\<lambda>_.
     ensure (hc_algorithm (cr_challenge p) = ha_algorithm approval
             \<and> hc_fingerprint (cr_challenge p) = ha_fingerprint approval) EHostKeyChallengeNotFound))))))))))"

definition approve ::
  "key_lib \<Rightarrow> utc_timestamp \<Rightarrow> host_key_approval \<Rightarrow> challenge_owner \<Rightarrow> challenge_book
     \<Rightarrow> (ssh_error_code + approved_host_key) \<times> challenge_book" where
  "approve K now approval co book =
     (if (case map_of book (ha_challenge_id approval) of
            Some r \<Rightarrow> hc_expires_at (cr_challenge r) \<le> now | None \<Rightarrow> False)
      then (Inl EHostKeyChallengeExpired, book_remove (ha_challenge_id approval) book)
      else
        let book1 = book_expire now book
        in case map_of book1 (ha_challenge_id approval) of
             None \<Rightarrow> (Inl EHostKeyChallengeNotFound, book1)
           | Some p \<Rightarrow>
               (case approve_checks co approval p of
                  Inl e \<Rightarrow> (Inl e, book1)
                | Inr _ \<Rightarrow>
                    (Inr \<lparr> ak_record = \<lparr> th_ssh_host = hc_ssh_host (cr_challenge p),
                                         th_ssh_port = hc_ssh_port (cr_challenge p),
                                         th_algorithm = hc_algorithm (cr_challenge p),
                                         th_fingerprint = hc_fingerprint (cr_challenge p),
                                         th_public_key = Some (kl_encode K (cr_public_key p)) \<rparr>,
                           ak_trust_revision = cr_trust_revision p \<rparr>,
                     book_remove (ha_challenge_id approval) book1)))"

definition clear_profile :: "string \<Rightarrow> string \<Rightarrow> challenge_book \<Rightarrow> challenge_book" where
  "clear_profile scope_id profile_id book =
     filter (\<lambda>(_, r). hc_scope_id (cr_challenge r) \<noteq> scope_id
        \<or> hc_connection_profile_id (cr_challenge r) \<noteq> profile_id) book"

definition has_profile_generation :: "utc_timestamp \<Rightarrow> challenge_owner \<Rightarrow> challenge_book \<Rightarrow> bool \<times> challenge_book" where
  "has_profile_generation now co book =
     (let book1 = book_expire now book
      in (list_ex (\<lambda>(_, r). hc_scope_id (cr_challenge r) = co_scope_id co
            \<and> hc_connection_profile_id (cr_challenge r) = co_profile_id co
            \<and> cr_context r = co_context co
            \<and> cr_desktop_instance_id r = co_desktop_instance_id co
            \<and> cr_manager_session_id r = co_manager_session_id co) book1, book1))"

definition book_snapshot :: "utc_timestamp \<Rightarrow> string \<Rightarrow> challenge_book \<Rightarrow> host_key_challenge list \<times> challenge_book" where
  "book_snapshot now scope_id book =
     (let book1 = book_expire now book
      in (sort_key hc_challenge_id
            (map (cr_challenge \<circ> snd) (filter (\<lambda>(_, r). hc_scope_id (cr_challenge r) = scope_id) book1)), book1))"

end
