(* ===== verification/SSH_Store.thy ===== *)
theory SSH_Store
  imports SSH_Trust "HOL-Library.AList"
begin

text \<open>
  The store of one SSH forwarding scope: the operations of \<open>ScopeStore\<close> in \<open>ssh_forward/store.rs\<close>, the
  retention decisions of \<open>ssh_forward/scope_retention.rs\<close> and the stopped-app commands of
  \<open>ssh_forward/trust_repair.rs\<close>, on the documents of the scope.

  Every operation runs under the write gate and the file lock of the store, so it is one function from
  the scope to a result and the scope it leaves. A read or write of a document is a numbered call; the
  environment \<open>E\<close> decides whether it fails, and a write that fails may have put the new document in
  place. TOML, SHA-256 and the formatting of timestamps are the parameter \<open>codec\<close>.
\<close>

section \<open>Retention\<close>

datatype known_scopes = KnownScopes "string list" | ScopesUnavailable

record scope_meta =
  sm_scope_id :: string
  sm_last_seen_at :: utc_timestamp
  sm_orphaned_at :: "utc_timestamp option"

datatype reconciliation = Refreshed | Quarantined | Unchanged

datatype retention_error = InvalidScopeId | InvalidKnownScopes | InvalidRetentionTime

definition ORPHAN_RETENTION_DAYS :: int where
  "ORPHAN_RETENTION_DAYS = 30"

definition validate_scope_id :: "uuid_parser \<Rightarrow> string \<Rightarrow> retention_error + unit" where
  "validate_scope_id U scope_id = (case validate_uuid_v4 U scope_id of Inl _ \<Rightarrow> Inl InvalidScopeId | Inr _ \<Rightarrow> Inr ())"

definition validate_known_scopes :: "uuid_parser \<Rightarrow> known_scopes \<Rightarrow> retention_error + unit" where
  "validate_known_scopes U known =
     (case known of
        ScopesUnavailable \<Rightarrow> Inr ()
      | KnownScopes ids \<Rightarrow>
          ensure (\<not> (length ids > 256 \<or> list_ex (\<lambda>s. \<not> is_ok (validate_scope_id U s)) ids)) InvalidKnownScopes)"

definition reconcile :: "uuid_parser \<Rightarrow> known_scopes \<Rightarrow> utc_timestamp \<Rightarrow> scope_meta \<Rightarrow> retention_error + (reconciliation \<times> scope_meta)" where
  "reconcile U known now meta =
     and_then (validate_scope_id U (sm_scope_id meta)) (\<lambda>_.
     and_then (validate_known_scopes U known) (\<lambda>_.
       case known of
         ScopesUnavailable \<Rightarrow> Inr (Unchanged, meta)
       | KnownScopes ids \<Rightarrow>
           if sm_scope_id meta \<in> set ids then
             Inr (Refreshed, meta\<lparr>sm_last_seen_at := (if now > sm_last_seen_at meta then now else sm_last_seen_at meta),
                                   sm_orphaned_at := None\<rparr>)
           else if sm_orphaned_at meta = None then
             Inr (Quarantined, meta\<lparr>sm_orphaned_at := Some (max now (sm_last_seen_at meta))\<rparr>)
           else Inr (Unchanged, meta)))"

definition checked_add_days :: "(utc_timestamp \<Rightarrow> bool) \<Rightarrow> utc_timestamp \<Rightarrow> int \<Rightarrow> wire_scalar_error + utc_timestamp" where
  "checked_add_days R t days = checked_add_seconds R t (days * 86400)"

definition is_purge_eligible :: "uuid_parser \<Rightarrow> (utc_timestamp \<Rightarrow> bool) \<Rightarrow> scope_meta \<Rightarrow> utc_timestamp \<Rightarrow> retention_error + bool" where
  "is_purge_eligible U R meta now =
     and_then (validate_scope_id U (sm_scope_id meta)) (\<lambda>_.
       case sm_orphaned_at meta of
         None \<Rightarrow> Inr False
       | Some orphaned_at \<Rightarrow>
           (case checked_add_days R orphaned_at ORPHAN_RETENTION_DAYS of
              Inl _ \<Rightarrow> Inl InvalidRetentionTime
            | Inr expiry \<Rightarrow> Inr (now \<ge> expiry)))"

section \<open>The documents of a scope\<close>

text \<open>The profiles file as the version in its header: its text in version 1, its value in version 2.\<close>

datatype profiles_file = ProfilesV1 bytes | ProfilesV2 scope_config_v2 | ProfilesUnreadable string

record stored_meta =
  me_schema_version :: u8
  me_scope_id :: string
  me_last_seen_at :: utc_timestamp
  me_orphaned_at :: "utc_timestamp option"

record scope_state =
  ss_profiles :: "profiles_file option"
  ss_trust :: "stored_trust option"
  ss_meta :: "stored_meta option"
  ss_rollback :: "bytes option"
  ss_rollback_meta :: "rollback_metadata_v1 option"
  ss_backups :: "(string \<times> stored_trust) list"
  ss_quarantine :: "(string \<times> stored_trust) list"
  ss_leased :: bool
  ss_tombstone :: bool
  ss_purged :: bool
  ss_ticks :: nat

text \<open>
  The libraries: the version-1 decoder, SHA-256, the digest of the TOML text of a trust document, the
  hash of an endpoint and the digits of a timestamp.
\<close>

record codec =
  cd_parse_v1 :: "bytes \<Rightarrow> stored_profiles_v1 option"
  cd_sha256 :: "bytes \<Rightarrow> string"
  cd_trust_digest :: "stored_trust \<Rightarrow> string"
  cd_endpoint_hash :: "string \<Rightarrow> u16 \<Rightarrow> string"
  cd_timestamp :: "utc_timestamp \<Rightarrow> string option"

datatype io_fate = IoOk | IoFails string bool

record store_env =
  se_uuid :: uuid_parser
  se_keys :: key_lib
  se_codec :: codec
  se_range :: "utc_timestamp \<Rightarrow> bool"
  se_scope :: string
  se_fate :: "nat \<Rightarrow> io_fate"
  se_fresh :: "nat \<Rightarrow> nat \<Rightarrow> string"
  se_now :: "nat \<Rightarrow> utc_timestamp"

type_synonym 'a scope_cmd = "scope_state \<Rightarrow> (store_error + 'a) \<times> scope_state"

definition retS :: "'a \<Rightarrow> 'a scope_cmd" where
  "retS x s = (Inr x, s)"

definition failS :: "store_error \<Rightarrow> 'a scope_cmd" where
  "failS e s = (Inl e, s)"

definition bindS :: "'a scope_cmd \<Rightarrow> ('a \<Rightarrow> 'b scope_cmd) \<Rightarrow> 'b scope_cmd" where
  "bindS m f s = (case m s of (Inl e, s') \<Rightarrow> (Inl e, s') | (Inr x, s') \<Rightarrow> f x s')"

definition liftS :: "store_error + 'a \<Rightarrow> 'a scope_cmd" where
  "liftS r s = (r, s)"

definition getS :: "(scope_state \<Rightarrow> 'a) \<Rightarrow> 'a scope_cmd" where
  "getS f s = (Inr (f s), s)"

definition checkS :: "(scope_state \<Rightarrow> bool) \<Rightarrow> string \<Rightarrow> unit scope_cmd" where
  "checkS p msg s = (if p s then (Inr (), s) else (Inl (InvalidData msg), s))"

text \<open>A read of a document, and a write of one.\<close>

definition read_doc :: "store_env \<Rightarrow> (scope_state \<Rightarrow> 'a) \<Rightarrow> 'a scope_cmd" where
  "read_doc E f s =
     (let s' = s\<lparr>ss_ticks := Suc (ss_ticks s)\<rparr>
      in case se_fate E (ss_ticks s) of IoOk \<Rightarrow> (Inr (f s), s') | IoFails e _ \<Rightarrow> (Inl (OtherError e), s'))"

definition write_doc :: "store_env \<Rightarrow> (scope_state \<Rightarrow> scope_state) \<Rightarrow> unit scope_cmd" where
  "write_doc E f s =
     (let s' = s\<lparr>ss_ticks := Suc (ss_ticks s)\<rparr>
      in case se_fate E (ss_ticks s) of
           IoOk \<Rightarrow> (Inr (), f s')
         | IoFails e placed \<Rightarrow> (Inl (OtherError e), if placed then f s' else s'))"

section \<open>Loading\<close>

definition ensure_live :: "unit scope_cmd" where
  "ensure_live = checkS (\<lambda>s. \<not> (ss_purged s \<or> ss_tombstone s)) ''scope_gone''"

definition acquire_activity_lock :: "unit scope_cmd" where
  "acquire_activity_lock = checkS (\<lambda>s. \<not> ss_leased s) ''scope_active''"

definition write_scope_config :: "store_env \<Rightarrow> scope_config_v2 \<Rightarrow> unit scope_cmd" where
  "write_scope_config E v =
     bindS (liftS (config_validate (se_uuid E) (se_scope E) v)) (\<lambda>_.
       write_doc E (ss_profiles_update (\<lambda>_. Some (ProfilesV2 v))))"

definition read_scope_config_v2 :: "store_env \<Rightarrow> scope_config_v2 scope_cmd" where
  "read_scope_config_v2 E =
     bindS (read_doc E ss_profiles) (\<lambda>f.
       case f of
         None \<Rightarrow> failS NotFoundError
       | Some (ProfilesV2 v) \<Rightarrow> bindS (liftS (config_validate (se_uuid E) (se_scope E) v)) (\<lambda>_. retS v)
       | Some _ \<Rightarrow> failS (InvalidData ''invalid_store_toml''))"

definition restore_v1_after_migration_failure :: "store_env \<Rightarrow> bytes \<Rightarrow> scope_config_v2 scope_cmd" where
  "restore_v1_after_migration_failure E bs =
     bindS (write_doc E (ss_profiles_update (\<lambda>_. Some (ProfilesV1 bs)))) (\<lambda>_.
       failS (InvalidData ''migration_readback_failed''))"

definition verify_v1_rollback :: "store_env \<Rightarrow> unit scope_cmd" where
  "verify_v1_rollback E =
     bindS (read_doc E ss_rollback) (\<lambda>rollback.
     bindS (liftS (case rollback of None \<Rightarrow> Inl NotFoundError | Some bs \<Rightarrow> Inr bs)) (\<lambda>bs.
     bindS (read_doc E ss_rollback_meta) (\<lambda>metadata.
     bindS (liftS (case metadata of None \<Rightarrow> Inl NotFoundError | Some m \<Rightarrow> Inr m)) (\<lambda>m.
     bindS (liftS (rollback_metadata_validate (se_uuid E) (se_scope E) m)) (\<lambda>_.
       if rm_byte_length m \<noteq> of_nat (length bs) \<or> rm_sha256 m \<noteq> cd_sha256 (se_codec E) bs
       then failS (InvalidData ''rollback_checksum_mismatch'')
       else case cd_parse_v1 (se_codec E) bs of
         None \<Rightarrow> failS (InvalidData ''invalid_rollback_document'')
       | Some source \<Rightarrow> liftS (profiles_v1_validate (se_uuid E) (se_scope E) source))))))"

definition persist_v1_rollback :: "store_env \<Rightarrow> bytes \<Rightarrow> unit scope_cmd" where
  "persist_v1_rollback E bs =
     bindS (liftS (rollback_metadata (se_uuid E) (cd_sha256 (se_codec E)) (se_scope E) bs)) (\<lambda>expected.
     bindS (read_doc E ss_rollback) (\<lambda>rollback.
     bindS (read_doc E ss_rollback_meta) (\<lambda>metadata.
       case (rollback, metadata) of
         (Some existing, Some m) \<Rightarrow>
           if existing \<noteq> bs then failS (InvalidData ''rollback_artifact_conflict'')
           else bindS (liftS (rollback_metadata_validate (se_uuid E) (se_scope E) m)) (\<lambda>_.
             if m \<noteq> expected then failS (InvalidData ''rollback_checksum_mismatch'') else retS ())
       | (None, None) \<Rightarrow>
           bindS (write_doc E (ss_rollback_update (\<lambda>_. Some bs))) (\<lambda>_.
           bindS (read_doc E ss_rollback) (\<lambda>readback.
             if readback \<noteq> Some bs then failS (InvalidData ''rollback_readback_mismatch'')
             else bindS (write_doc E (ss_rollback_meta_update (\<lambda>_. Some expected))) (\<lambda>_.
               verify_v1_rollback E)))
       | _ \<Rightarrow> failS (InvalidData ''incomplete_rollback_artifact''))))"

definition load_scope_config :: "store_env \<Rightarrow> scope_config_v2 scope_cmd" where
  "load_scope_config E =
     bindS (read_doc E ss_profiles) (\<lambda>f.
       case f of
         None \<Rightarrow> retS (config_empty (se_scope E))
       | Some (ProfilesUnreadable msg) \<Rightarrow> failS (InvalidData msg)
       | Some (ProfilesV2 v) \<Rightarrow> bindS (liftS (config_validate (se_uuid E) (se_scope E) v)) (\<lambda>_. retS v)
       | Some (ProfilesV1 bs) \<Rightarrow>
           (case cd_parse_v1 (se_codec E) bs of
              None \<Rightarrow> failS (InvalidData ''invalid_store_toml'')
            | Some source \<Rightarrow>
                bindS (getS ss_ticks) (\<lambda>n.
                bindS (liftS (migrate_v1 (se_uuid E) (se_fresh E n) source)) (\<lambda>migrated.
                bindS (persist_v1_rollback E bs) (\<lambda>_.
                bindS (write_scope_config E migrated) (\<lambda>_ s.
                  case read_scope_config_v2 E s of
                    (Inr v, s') \<Rightarrow> if v = migrated then (Inr v, s') else restore_v1_after_migration_failure E bs s'
                  | (Inl e, s') \<Rightarrow>
                      (case restore_v1_after_migration_failure E bs s' of
                         (Inr _, s'') \<Rightarrow> (Inl e, s'')
                       | (Inl _, s'') \<Rightarrow> (Inl (OtherError ''migration_restore_failed''), s''))))))))"

definition load_profiles :: "store_env \<Rightarrow> stored_profiles_v1 scope_cmd" where
  "load_profiles E = bindS (load_scope_config E) (\<lambda>config. liftS (to_legacy_profiles (se_uuid E) config))"

definition load_trust :: "store_env \<Rightarrow> stored_trust scope_cmd" where
  "load_trust E =
     bindS (read_doc E ss_trust) (\<lambda>f.
       case f of
         None \<Rightarrow> retS (trust_empty (se_scope E))
       | Some t \<Rightarrow> bindS (liftS (trust_validate (se_uuid E) (se_keys E) (se_scope E) t)) (\<lambda>_. retS t))"

definition meta_validate :: "uuid_parser \<Rightarrow> string \<Rightarrow> stored_meta \<Rightarrow> store_error + unit" where
  "meta_validate U scope_id m =
     and_then (validate_header U (me_schema_version m) V1_SCHEMA_VERSION (me_scope_id m) scope_id) (\<lambda>_.
       case me_orphaned_at m of
         Some orphaned_at \<Rightarrow> ensure (\<not> orphaned_at < me_last_seen_at m) (InvalidData ''invalid_scope_retention_order'')
       | None \<Rightarrow> Inr ())"

definition meta_new :: "string \<Rightarrow> utc_timestamp \<Rightarrow> stored_meta" where
  "meta_new scope_id now =
     \<lparr> me_schema_version = V1_SCHEMA_VERSION, me_scope_id = scope_id, me_last_seen_at = now, me_orphaned_at = None \<rparr>"

definition load_meta :: "store_env \<Rightarrow> stored_meta scope_cmd" where
  "load_meta E =
     bindS (read_doc E ss_meta) (\<lambda>f.
       case f of
         None \<Rightarrow> failS NotFoundError
       | Some m \<Rightarrow> bindS (liftS (meta_validate (se_uuid E) (se_scope E) m)) (\<lambda>_. retS m))"

definition ensure_metadata :: "store_env \<Rightarrow> unit scope_cmd" where
  "ensure_metadata E s =
     (case load_meta E s of
        (Inr _, s') \<Rightarrow> (Inr (), s')
      | (Inl NotFoundError, s') \<Rightarrow>
          write_doc E (ss_meta_update (\<lambda>_. Some (meta_new (se_scope E) (se_now E (ss_ticks s'))))) s'
      | (Inl e, s') \<Rightarrow> (Inl e, s'))"

section \<open>Replacing under a revision\<close>

definition counter_next :: "wire_counter \<Rightarrow> store_error + wire_counter" where
  "counter_next c = map_invalid ''counter_exhausted'' (counter_increment c)"

definition replace_connections :: "store_env \<Rightarrow> wire_counter \<Rightarrow> scope_config_v2 \<Rightarrow> scope_config_v2 scope_cmd" where
  "replace_connections E expected next =
     bindS ensure_live (\<lambda>_.
     bindS (load_scope_config E) (\<lambda>current.
       if sc_connections_revision current \<noteq> expected then failS (InvalidData ''connections_revision_conflict'')
       else bindS (liftS (counter_next (sc_connections_revision current))) (\<lambda>revision.
         let next' = next\<lparr>sc_scope_id := se_scope E, sc_connections_revision := revision,
                          sc_rules := sc_rules current, sc_rules_revision := sc_rules_revision current\<rparr>
         in bindS (liftS (config_validate (se_uuid E) (se_scope E) next')) (\<lambda>_.
            bindS (ensure_metadata E) (\<lambda>_.
            bindS (write_scope_config E next') (\<lambda>_. retS next'))))))"

definition replace_rules_inner :: "store_env \<Rightarrow> wire_counter \<Rightarrow> scope_config_v2 \<Rightarrow> bool \<Rightarrow> scope_config_v2 scope_cmd" where
  "replace_rules_inner E expected next activity_lease_held =
     bindS ensure_live (\<lambda>_.
     bindS (if activity_lease_held then retS () else acquire_activity_lock) (\<lambda>_.
     bindS (load_scope_config E) (\<lambda>current.
       if sc_rules_revision current \<noteq> expected then failS (InvalidData ''rules_revision_conflict'')
       else bindS (liftS (counter_next (sc_rules_revision current))) (\<lambda>revision.
         let next' = next\<lparr>sc_scope_id := se_scope E, sc_connections := sc_connections current,
                          sc_connections_revision := sc_connections_revision current, sc_rules_revision := revision\<rparr>
         in bindS (liftS (config_validate (se_uuid E) (se_scope E) next')) (\<lambda>_.
            bindS (ensure_metadata E) (\<lambda>_.
            bindS (write_scope_config E next') (\<lambda>_. retS next')))))))"

definition replace_rules :: "store_env \<Rightarrow> wire_counter \<Rightarrow> scope_config_v2 \<Rightarrow> scope_config_v2 scope_cmd" where
  "replace_rules E expected next = replace_rules_inner E expected next False"

definition replace_rules_with_activity_lease ::
  "store_env \<Rightarrow> wire_counter \<Rightarrow> scope_config_v2 \<Rightarrow> scope_config_v2 scope_cmd" where
  "replace_rules_with_activity_lease E expected next = replace_rules_inner E expected next True"

definition replace_profiles :: "store_env \<Rightarrow> wire_counter \<Rightarrow> stored_profiles_v1 \<Rightarrow> stored_profiles_v1 scope_cmd" where
  "replace_profiles E expected next =
     bindS ensure_live (\<lambda>_.
     bindS (load_scope_config E) (\<lambda>current.
       if sc_rules_revision current \<noteq> expected then failS (InvalidData ''profiles_revision_conflict'')
       else bindS (getS ss_ticks) (\<lambda>n.
         bindS (liftS (migrate_v1 (se_uuid E) (se_fresh E n) next)) (\<lambda>legacy.
         bindS (liftS (rebase_legacy_write (se_uuid E) legacy current)) (\<lambda>(connections_changed, replacement).
         bindS (if connections_changed then liftS (counter_next (sc_connections_revision current))
                else retS (sc_connections_revision current)) (\<lambda>connections_revision.
         bindS (liftS (counter_next (sc_rules_revision current))) (\<lambda>rules_revision.
         let replacement' = replacement\<lparr>sc_connections_revision := connections_revision, sc_rules_revision := rules_revision\<rparr>
         in bindS (liftS (config_validate (se_uuid E) (se_scope E) replacement')) (\<lambda>_.
            bindS (ensure_metadata E) (\<lambda>_.
            bindS (write_scope_config E replacement') (\<lambda>_.
              liftS (to_legacy_profiles (se_uuid E) replacement')))))))))))"

definition replace_trust :: "store_env \<Rightarrow> wire_counter \<Rightarrow> stored_trust \<Rightarrow> stored_trust scope_cmd" where
  "replace_trust E expected next =
     bindS ensure_live (\<lambda>_.
     bindS (load_trust E) (\<lambda>current.
       if tr_trust_revision current \<noteq> expected then failS (InvalidData ''trust_revision_conflict'')
       else bindS (liftS (counter_next (tr_trust_revision current))) (\<lambda>revision.
         let next' = next\<lparr>tr_trust_revision := revision\<rparr>
         in bindS (liftS (trust_validate (se_uuid E) (se_keys E) (se_scope E) next')) (\<lambda>_.
            bindS (ensure_metadata E) (\<lambda>_.
            bindS (write_doc E (ss_trust_update (\<lambda>_. Some next'))) (\<lambda>_. retS next'))))))"

section \<open>Trust repair\<close>

definition backup_id :: "codec \<Rightarrow> stored_trust \<Rightarrow> utc_timestamp \<Rightarrow> store_error + string" where
  "backup_id C t now =
     (case cd_timestamp C now of
        None \<Rightarrow> Inl (InvalidData ''invalid_backup_timestamp'')
      | Some timestamp \<Rightarrow> Inr (timestamp @ ''-'' @ cd_trust_digest C t))"

definition is_timestamp_hash_id :: "string \<Rightarrow> bool" where
  "is_timestamp_hash_id value =
     (case rsplit_once (CHR ''-'') value of
        None \<Rightarrow> False
      | Some (timestamp, digest) \<Rightarrow>
          length timestamp = 17 \<and> list_all is_ascii_digit timestamp \<and> length digest = 64
          \<and> list_all is_ascii_hexdigit digest)"

definition verify_backup_checksum :: "codec \<Rightarrow> string \<Rightarrow> stored_trust \<Rightarrow> store_error + unit" where
  "verify_backup_checksum C k t =
     (case rsplit_once (CHR ''-'') k of
        None \<Rightarrow> Inl (InvalidData ''invalid_backup_id'')
      | Some (_, expected) \<Rightarrow> ensure (cd_trust_digest C t = expected) (InvalidData ''backup_checksum_mismatch''))"

definition at_endpoint :: "string \<Rightarrow> u16 \<Rightarrow> trusted_host \<Rightarrow> bool" where
  "at_endpoint host port e \<longleftrightarrow> th_ssh_host e = host \<and> th_ssh_port e = port"

definition repair_remove_endpoint :: "store_env \<Rightarrow> string \<Rightarrow> u16 \<Rightarrow> utc_timestamp \<Rightarrow> stored_trust scope_cmd" where
  "repair_remove_endpoint E host port now =
     bindS (if \<not> is_ok (validate_canonical_ssh_host host) \<or> port = 0
            then failS (InvalidData ''invalid_repair_endpoint'') else retS ()) (\<lambda>_.
     bindS ensure_live (\<lambda>_.
     bindS acquire_activity_lock (\<lambda>_.
     bindS (load_trust E) (\<lambda>current.
     bindS (liftS (backup_id (se_codec E) current now)) (\<lambda>k.
     bindS (write_doc E (ss_backups_update (AList.update k current))) (\<lambda>_.
     let removed = filter (at_endpoint host port) (tr_entries current)
     in bindS (if removed = [] then retS ()
               else case cd_timestamp (se_codec E) now of
                 None \<Rightarrow> failS (InvalidData ''invalid_backup_timestamp'')
               | Some timestamp \<Rightarrow>
                   write_doc E (ss_quarantine_update (AList.update
                     (timestamp @ ''-'' @ cd_endpoint_hash (se_codec E) host port) (current\<lparr>tr_entries := removed\<rparr>)))) (\<lambda>_.
        bindS (liftS (counter_next (tr_trust_revision current))) (\<lambda>revision.
        let next = current\<lparr>tr_entries := filter (\<lambda>e. \<not> at_endpoint host port e) (tr_entries current),
                           tr_trust_revision := revision\<rparr>
        in bindS (liftS (trust_validate (se_uuid E) (se_keys E) (se_scope E) next)) (\<lambda>_.
           bindS (write_doc E (ss_trust_update (\<lambda>_. Some next))) (\<lambda>_. retS next))))))))))"

definition repair_restore_backup :: "store_env \<Rightarrow> string \<Rightarrow> wire_counter \<Rightarrow> stored_trust scope_cmd" where
  "repair_restore_backup E k expected_revision =
     bindS (if \<not> is_timestamp_hash_id k then failS (InvalidData ''invalid_backup_id'') else retS ()) (\<lambda>_.
     bindS ensure_live (\<lambda>_.
     bindS acquire_activity_lock (\<lambda>_.
     bindS (read_doc E (\<lambda>s. map_of (ss_backups s) k)) (\<lambda>f.
     bindS (liftS (case f of None \<Rightarrow> Inl NotFoundError | Some t \<Rightarrow> Inr t)) (\<lambda>backup.
     bindS (liftS (verify_backup_checksum (se_codec E) k backup)) (\<lambda>_.
     bindS (liftS (trust_validate (se_uuid E) (se_keys E) (se_scope E) backup)) (\<lambda>_.
     bindS (load_trust E) (\<lambda>current.
       if tr_trust_revision current \<noteq> expected_revision then failS (InvalidData ''trust_revision_conflict'')
       else bindS (liftS (counter_next (tr_trust_revision current))) (\<lambda>revision.
         let next = backup\<lparr>tr_trust_revision := revision\<rparr>
         in bindS (liftS (trust_validate (se_uuid E) (se_keys E) (se_scope E) next)) (\<lambda>_.
            bindS (write_doc E (ss_trust_update (\<lambda>_. Some next))) (\<lambda>_. retS next)))))))))))"

section \<open>Retention and purge of a scope\<close>

definition meta_retention :: "stored_meta \<Rightarrow> scope_meta" where
  "meta_retention m = \<lparr> sm_scope_id = me_scope_id m, sm_last_seen_at = me_last_seen_at m, sm_orphaned_at = me_orphaned_at m \<rparr>"

definition set_retention :: "scope_meta \<Rightarrow> stored_meta \<Rightarrow> stored_meta" where
  "set_retention r m = m\<lparr>me_last_seen_at := sm_last_seen_at r, me_orphaned_at := sm_orphaned_at r\<rparr>"

text \<open>
  The purge renames the directory of the scope to a tombstone and deletes it. A failure before the
  rename leaves the scope, a failure after it the tombstone.
\<close>

definition purge_locked :: "store_env \<Rightarrow> unit scope_cmd" where
  "purge_locked E =
     bindS acquire_activity_lock (\<lambda>_ s.
       let s' = s\<lparr>ss_ticks := Suc (ss_ticks s)\<rparr>;
           gone = s'\<lparr>ss_profiles := None, ss_trust := None, ss_meta := None, ss_rollback := None, ss_rollback_meta := None\<rparr>
       in case se_fate E (ss_ticks s) of
            IoOk \<Rightarrow> (Inr (), gone\<lparr>ss_tombstone := False, ss_purged := True\<rparr>)
          | IoFails e renamed \<Rightarrow> (Inl (OtherError e), if renamed then gone\<lparr>ss_tombstone := True\<rparr> else s'))"

definition reconcile_known_scope :: "store_env \<Rightarrow> known_scopes \<Rightarrow> utc_timestamp \<Rightarrow> reconciliation scope_cmd" where
  "reconcile_known_scope E known now =
     bindS ensure_live (\<lambda>_.
     bindS (liftS (map_invalid ''invalid_known_scopes'' (validate_known_scopes (se_uuid E) known))) (\<lambda>_.
       if known = ScopesUnavailable then retS Unchanged
       else
         bindS (load_profiles E) (\<lambda>_.
         bindS (load_trust E) (\<lambda>_.
         bindS (\<lambda>s. case load_meta E s of
                  (Inr m, s') \<Rightarrow> (Inr m, s')
                | (Inl NotFoundError, s') \<Rightarrow> (Inr (meta_new (se_scope E) now), s')
                | (Inl e, s') \<Rightarrow> (Inl e, s')) (\<lambda>stored.
         bindS (liftS (map_invalid ''invalid_known_scopes'' (reconcile (se_uuid E) known now (meta_retention stored))))
           (\<lambda>(result, meta).
         let stored' = set_retention meta stored
         in bindS (write_doc E (ss_meta_update (\<lambda>_. Some stored'))) (\<lambda>_.
            bindS (liftS (map_invalid ''invalid_meta'' (is_purge_eligible (se_uuid E) (se_range E) (meta_retention stored') now)))
              (\<lambda>eligible.
            bindS (if eligible then purge_locked E else retS ()) (\<lambda>_. retS result)))))))))"

definition validate_documents_for_purge :: "store_env \<Rightarrow> unit scope_cmd" where
  "validate_documents_for_purge E =
     bindS (load_profiles E) (\<lambda>_.
     bindS (load_trust E) (\<lambda>_ s.
       case load_meta E s of
         (Inr _, s') \<Rightarrow> (Inr (), s')
       | (Inl NotFoundError, s') \<Rightarrow> (Inr (), s')
       | (Inl e, s') \<Rightarrow> (Inl e, s')))"

definition purge_if_deleted :: "store_env \<Rightarrow> known_scopes \<Rightarrow> bool scope_cmd" where
  "purge_if_deleted E known s =
     (if ss_purged s then (Inr False, s)
      else
        bindS (liftS (map_invalid ''invalid_known_scopes'' (validate_known_scopes (se_uuid E) known))) (\<lambda>_.
        bindS (case known of
                 ScopesUnavailable \<Rightarrow> failS (InvalidData ''known_scopes_unavailable'')
               | KnownScopes ids \<Rightarrow>
                   if se_scope E \<in> set ids then failS (InvalidData ''scope_not_deleted'') else retS ()) (\<lambda>_ s.
          if ss_tombstone s then bindS (purge_locked E) (\<lambda>_. retS True) s
          else bindS (validate_documents_for_purge E) (\<lambda>_. bindS (purge_locked E) (\<lambda>_. retS True)) s)) s)"

section \<open>Stopped-app commands\<close>

datatype trust_repair_command = RemoveEndpoint string string u16 | RestoreBackup string string

datatype trust_repair_error = RepairInvalidArguments | RepairInvalidScope | RepairInvalidEndpoint | RepairInvalidBackupId | RepairStore

definition trust_repair_parse :: "uuid_parser \<Rightarrow> string list \<Rightarrow> trust_repair_error + trust_repair_command option" where
  "trust_repair_parse U args =
     (case args of
        [] \<Rightarrow> Inr None
      | flag # rest \<Rightarrow>
          if flag \<noteq> ''--ssh-forward-trust-repair'' then Inr None
          else case rest of
            [cmd, f1, scope_id, f2, host, f3, port] \<Rightarrow>
              if cmd \<noteq> ''remove-endpoint'' \<or> f1 \<noteq> ''--scope'' \<or> f2 \<noteq> ''--host'' \<or> f3 \<noteq> ''--port''
              then Inl RepairInvalidArguments
              else if \<not> is_ok (validate_uuid_v4 U scope_id) then Inl RepairInvalidScope
              else (case canonicalize_ssh_host host of
                      Inl _ \<Rightarrow> Inl RepairInvalidEndpoint
                    | Inr h \<Rightarrow>
                        (case parse_unsigned 16 port of
                           None \<Rightarrow> Inl RepairInvalidEndpoint
                         | Some p \<Rightarrow> if p = 0 then Inl RepairInvalidEndpoint
                                     else Inr (Some (RemoveEndpoint scope_id h (of_nat p)))))
          | [cmd, f1, scope_id, f2, k] \<Rightarrow>
              if cmd \<noteq> ''restore'' \<or> f1 \<noteq> ''--scope'' \<or> f2 \<noteq> ''--backup-id'' then Inl RepairInvalidArguments
              else if \<not> is_ok (validate_uuid_v4 U scope_id) then Inl RepairInvalidScope
              else if \<not> is_timestamp_hash_id k then Inl RepairInvalidBackupId
              else Inr (Some (RestoreBackup scope_id k))
          | _ \<Rightarrow> Inl RepairInvalidArguments)"

text \<open>\<open>execute\<close> on the scope of the command.\<close>

definition trust_repair_execute :: "store_env \<Rightarrow> utc_timestamp \<Rightarrow> trust_repair_command \<Rightarrow> scope_state
  \<Rightarrow> (trust_repair_error + stored_trust) \<times> scope_state" where
  "trust_repair_execute E now cmd s =
     (case (case cmd of
              RemoveEndpoint _ host port \<Rightarrow> repair_remove_endpoint E host port now s
            | RestoreBackup _ k \<Rightarrow>
                bindS ensure_live (\<lambda>_.
                bindS (load_trust E) (\<lambda>t. repair_restore_backup E k (tr_trust_revision t))) s) of
        (Inl _, s') \<Rightarrow> (Inl RepairStore, s')
      | (Inr t, s') \<Rightarrow> (Inr t, s'))"

end
