(* ===== verification/SSH_Migration.thy ===== *)
theory SSH_Migration
  imports SSH_Config "HOL-Library.Multiset"
begin

text \<open>
  What the stored configurations of SSH forwarding satisfy: the declarative content of validation, the
  round trip of the migration from version 1, and what a rebased version-1 write keeps.
\<close>

section \<open>What validation accepts\<close>

lemma map_invalid_Inr [simp]: "map_invalid msg r = Inr x \<longleftrightarrow> r = Inr x"
  by (cases r) (auto simp: map_invalid_def)

lemma to_auth_from_auth [simp]: "to_auth (from_auth a) = a"
  by (cases a) (simp_all add: to_auth_def from_auth_def)

lemma from_auth_to_auth [simp]: "from_auth (to_auth a) = a"
  by (cases a) (simp_all add: to_auth_def from_auth_def)

lemma to_from_profile [simp]: "to_profile (from_profile p) = p"
  by (simp add: to_profile_def from_profile_def)

lemma from_to_profile [simp]: "from_profile (to_profile p) = p"
  by (simp add: to_profile_def from_profile_def)

lemma to_from_connection [simp]: "connection_to_model (connection_from_model c) = c"
  by (simp add: connection_to_model_def connection_from_model_def)

definition identity_of :: "stored_connection \<Rightarrow> connection_identity" where
  "identity_of c =
     \<lparr> ci_scope_id = cp_scope_id c, ci_ssh_host = cp_ssh_host c, ci_ssh_port = cp_ssh_port c,
       ci_ssh_user = cp_ssh_user c,
       ci_auth = (case cp_auth c of StoredAgent \<Rightarrow> IdentityAgent | StoredKey k \<Rightarrow> IdentityKey k) \<rparr>"

definition connection_ok :: "uuid_parser \<Rightarrow> stored_connection \<Rightarrow> bool" where
  "connection_ok U c \<longleftrightarrow> connection_validate U (connection_to_model c) = Inr ()"

lemma canonical_identity_Inr:
  "canonical_connection_identity U (connection_to_model c) = Inr i \<longleftrightarrow> connection_ok U c \<and> i = identity_of c"
  by (cases "cp_auth c")
     (auto simp: canonical_connection_identity_def connection_ok_def identity_of_def and_then_Inr_iff
       connection_to_model_def to_auth_def)

lemma connection_identity_of_Inr:
  "connection_identity_of U c = Inr i \<longleftrightarrow> connection_ok U c \<and> i = identity_of c"
  by (simp add: connection_identity_of_def canonical_identity_Inr)

lemma validate_connections_loop_Inr:
  "validate_connections_loop U scope ids identities cs = Inr S \<longleftrightarrow>
     S = ids \<union> cp_id ` set cs \<and> (\<forall>c \<in> set cs. connection_ok U c \<and> cp_scope_id c = scope) \<and>
     distinct (map cp_id cs) \<and> distinct (map identity_of cs) \<and>
     cp_id ` set cs \<inter> ids = {} \<and> identity_of ` set cs \<inter> identities = {}"
proof (induction cs arbitrary: ids identities)
  case Nil
  then show ?case by auto
next
  case (Cons c cs)
  show ?case
    by (auto simp: Let_def and_then_Inr_iff Cons.IH canonical_identity_Inr connection_ok_def [symmetric])
qed

lemma validate_rules_loop_Inr:
  "validate_rules_loop U scope conns ids ports rs = Inr () \<longleftrightarrow>
     (\<forall>r \<in> set rs. rule_validate U r = Inr () \<and> fr_scope_id r = scope \<and> fr_connection_profile_id r \<in> conns) \<and>
     distinct (map fr_id rs) \<and> distinct (map fr_local_port rs) \<and>
     fr_id ` set rs \<inter> ids = {} \<and> fr_local_port ` set rs \<inter> ports = {}"
proof (induction rs arbitrary: ids ports)
  case Nil
  then show ?case by auto
next
  case (Cons r rs)
  show ?case by (auto simp: and_then_Inr_iff Cons.IH rule_to_model_def)
qed

lemma validate_profiles_loop_Inr:
  "validate_profiles_loop U scope ids ports ps = Inr () \<longleftrightarrow>
     (\<forall>p \<in> set ps. profile_validate U (to_profile p) = Inr () \<and> fp_scope_id p = scope) \<and>
     distinct (map fp_id ps) \<and> distinct (map fp_local_port ps) \<and>
     fp_id ` set ps \<inter> ids = {} \<and> fp_local_port ` set ps \<inter> ports = {}"
proof (induction ps arbitrary: ids ports)
  case Nil
  then show ?case by auto
next
  case (Cons p ps)
  show ?case by (auto simp: and_then_Inr_iff Cons.IH stored_profile_validate_def)
qed

lemma validate_header_Inr:
  "validate_header U v e embedded expected = Inr () \<longleftrightarrow>
     v = e \<and> embedded = expected \<and> validate_uuid_v4 U embedded = Inr ()"
  by (auto simp: validate_header_def)

text \<open>
  A configuration that keeps its promises: ids, endpoint identities and local ports are unique, every
  part is valid and of the scope, and every rule names a connection of the configuration.
\<close>

definition config_ok :: "uuid_parser \<Rightarrow> string \<Rightarrow> scope_config_v2 \<Rightarrow> bool" where
  "config_ok U scope c \<longleftrightarrow>
     sc_schema_version c = V2_SCHEMA_VERSION \<and> sc_scope_id c = scope \<and> validate_uuid_v4 U scope = Inr () \<and>
     length (sc_connections c) \<le> MAX_SAVED_CONNECTIONS \<and> length (sc_rules c) \<le> MAX_SAVED_RULES \<and>
     (\<forall>k \<in> set (sc_connections c). connection_ok U k \<and> cp_scope_id k = scope) \<and>
     distinct (map cp_id (sc_connections c)) \<and> distinct (map identity_of (sc_connections c)) \<and>
     (\<forall>r \<in> set (sc_rules c). rule_validate U r = Inr () \<and> fr_scope_id r = scope \<and>
        fr_connection_profile_id r \<in> cp_id ` set (sc_connections c)) \<and>
     distinct (map fr_id (sc_rules c)) \<and> distinct (map fr_local_port (sc_rules c))"

definition profiles_ok :: "uuid_parser \<Rightarrow> string \<Rightarrow> stored_profiles_v1 \<Rightarrow> bool" where
  "profiles_ok U scope d \<longleftrightarrow>
     pv_schema_version d = V1_SCHEMA_VERSION \<and> pv_scope_id d = scope \<and> validate_uuid_v4 U scope = Inr () \<and>
     length (pv_profiles d) \<le> MAX_SAVED_RULES \<and>
     (\<forall>p \<in> set (pv_profiles d). profile_validate U (to_profile p) = Inr () \<and> fp_scope_id p = scope) \<and>
     distinct (map fp_id (pv_profiles d)) \<and> distinct (map fp_local_port (pv_profiles d))"

text \<open>
  The validation loops accept exactly the configurations whose connections have distinct ids and
  distinct endpoint identities, whose rules have distinct ids and distinct local ports and name an
  existing connection, and whose parts are valid, of the document's scope and at most 64 of each.
\<close>

lemma config_validate_ok: "config_validate U scope c = Inr () \<longleftrightarrow> config_ok U scope c"
  by (auto simp: config_validate_def config_ok_def and_then_Inr_iff validate_header_Inr
      validate_connections_loop_Inr validate_rules_loop_Inr)

lemma profiles_v1_validate_ok: "profiles_v1_validate U scope d = Inr () \<longleftrightarrow> profiles_ok U scope d"
  by (auto simp: profiles_v1_validate_def profiles_ok_def and_then_Inr_iff validate_header_Inr
      validate_profiles_loop_Inr)

section \<open>Migrating a version-1 document\<close>

definition profile_identity :: "stored_profile_v1 \<Rightarrow> connection_identity" where
  "profile_identity p = identity_of (connection_from_model (migrate_connection [] (to_profile p)))"

lemma migrated_identity: "identity_of (connection_from_model (migrate_connection k (to_profile p))) = profile_identity p"
  by (simp add: profile_identity_def identity_of_def connection_from_model_def migrate_connection_def)

lemma migrated_connection_ok:
  assumes "profile_validate U (to_profile p) = Inr ()" "validate_uuid_v4 U k = Inr ()"
  shows "connection_ok U (connection_from_model (migrate_connection k (to_profile p)))"
  using assms
  by (auto simp: connection_ok_def profile_validate_def connection_validate_def and_then_Inr_iff migrate_connection_def)

lemma migrated_rule_ok:
  assumes "profile_validate U (to_profile p) = Inr ()" "validate_uuid_v4 U k = Inr ()"
  shows "rule_validate U (migrate_rule k (to_profile p)) = Inr ()"
  using assms by (auto simp: profile_validate_def rule_validate_def and_then_Inr_iff migrate_rule_def)

text \<open>The connections a migration has built so far.\<close>

definition built :: "uuid_parser \<Rightarrow> (nat \<Rightarrow> string) \<Rightarrow> nat \<Rightarrow> string \<Rightarrow> stored_connection list \<Rightarrow> bool" where
  "built U fresh i scope cs \<longleftrightarrow>
     (\<forall>c \<in> set cs. connection_ok U c \<and> cp_scope_id c = scope) \<and>
     distinct (map cp_id cs) \<and> cp_id ` set cs \<subseteq> fresh ` {..<i} \<and> distinct (map identity_of cs)"

definition indexed :: "(connection_identity \<rightharpoonup> string) \<Rightarrow> stored_connection list \<Rightarrow> bool" where
  "indexed ids cs \<longleftrightarrow> (\<forall>k v. ids k = Some v \<longleftrightarrow> (\<exists>c \<in> set cs. identity_of c = k \<and> cp_id c = v))"

lemma built_later: "built U fresh i scope cs \<Longrightarrow> built U fresh (Suc i) scope cs"
  by (auto simp: built_def lessThan_Suc)

lemma built_snoc:
  assumes "built U fresh i scope cs" "connection_ok U c" "cp_scope_id c = scope" "cp_id c = fresh i"
    "identity_of c \<notin> identity_of ` set cs" "inj_on fresh {..<Suc i}"
  shows "built U fresh (Suc i) scope (cs @ [c])"
proof -
  have "fresh i \<notin> fresh ` {..<i}" using assms(6) by (simp add: lessThan_Suc)
  with assms(1,4) have "cp_id c \<notin> cp_id ` set cs" by (auto simp: built_def)
  with assms show ?thesis by (auto simp: built_def lessThan_Suc)
qed

lemma indexed_snoc:
  assumes "indexed ids cs" "ids (identity_of c) = None"
  shows "indexed (ids(identity_of c \<mapsto> cp_id c)) (cs @ [c])"
  using assms by (force simp: indexed_def)

lemma indexed_None: "indexed ids cs \<Longrightarrow> ids k = None \<Longrightarrow> k \<notin> identity_of ` set cs"
  unfolding indexed_def by (metis imageE option.distinct(1))

definition migrates_to :: "stored_connection list \<Rightarrow> stored_profile_v1 \<Rightarrow> forward_rule \<Rightarrow> bool" where
  "migrates_to cs p r \<longleftrightarrow>
     (\<exists>c \<in> set cs. r = migrate_rule (cp_id c) (to_profile p) \<and> identity_of c = profile_identity p)"

lemma migrates_to_mono: "migrates_to cs p r \<Longrightarrow> set cs \<subseteq> set cs' \<Longrightarrow> migrates_to cs' p r"
  by (auto simp: migrates_to_def)

lemma migrate_loop_result:
  assumes "\<forall>p \<in> set ps. profile_validate U (to_profile p) = Inr () \<and> fp_scope_id p = scope"
    and "\<forall>j < i + length ps. validate_uuid_v4 U (fresh j) = Inr ()" "inj_on fresh {..<i + length ps}"
    and "built U fresh i scope cs" "indexed ids cs"
  shows "\<exists>cs' rs'. migrate_loop U fresh i ids cs rules ps = Inr (cs @ cs', rules @ rs') \<and>
           built U fresh (i + length ps) scope (cs @ cs') \<and> length cs' \<le> length ps \<and>
           list_all2 (migrates_to (cs @ cs')) ps rs'"
  using assms
proof (induction ps arbitrary: i ids cs rules)
  case Nil
  then show ?case by simp
next
  case (Cons p ps)
  let ?c = "connection_from_model (migrate_connection (fresh i) (to_profile p))"
  have ok: "connection_ok U ?c" using Cons.prems by (intro migrated_connection_ok) auto
  have ident: "canonical_connection_identity U (migrate_connection (fresh i) (to_profile p)) = Inr (profile_identity p)"
    using canonical_identity_Inr [of U ?c] ok migrated_identity by simp
  have id: "cp_id ?c = fresh i" "cp_id (migrate_connection (fresh i) (to_profile p)) = fresh i" "cp_scope_id ?c = scope"
    using Cons.prems by (simp_all add: connection_from_model_def migrate_connection_def to_profile_def)
  have inj: "inj_on fresh {..<Suc i}" by (rule inj_on_subset [OF Cons.prems(3)]) auto
  note rest = Cons.IH [where i = "Suc i"]
  show ?case
  proof (cases "ids (profile_identity p)")
    case None
    then have "built U fresh (Suc i) scope (cs @ [?c])"
      using Cons.prems(4) ok id inj indexed_None [OF Cons.prems(5)] migrated_identity
      by (intro built_snoc) auto
    moreover have "indexed (ids(profile_identity p \<mapsto> fresh i)) (cs @ [?c])"
      using indexed_snoc [OF Cons.prems(5), of ?c] None id migrated_identity by simp
    ultimately obtain cs' rs' where r:
      "migrate_loop U fresh (Suc i) (ids(profile_identity p \<mapsto> fresh i)) (cs @ [?c])
         (rules @ [migrate_rule (fresh i) (to_profile p)]) ps
       = Inr ((cs @ [?c]) @ cs', (rules @ [migrate_rule (fresh i) (to_profile p)]) @ rs')"
      "built U fresh (Suc i + length ps) scope ((cs @ [?c]) @ cs')" "length cs' \<le> length ps"
      "list_all2 (migrates_to ((cs @ [?c]) @ cs')) ps rs'"
      using rest [where cs = "cs @ [?c]" and ids = "ids(profile_identity p \<mapsto> fresh i)"
          and rules = "rules @ [migrate_rule (fresh i) (to_profile p)]"] Cons.prems
      by (auto simp del: fun_upd_apply)
    have "migrates_to (cs @ ?c # cs') p (migrate_rule (fresh i) (to_profile p))"
      using id migrated_identity by (auto simp: migrates_to_def)
    with r None ident id show ?thesis
      by (intro exI [of _ "?c # cs'"] exI [of _ "migrate_rule (fresh i) (to_profile p) # rs'"])
         (simp add: Let_def map_invalid_def rule_from_model_def)
  next
    case (Some k)
    then obtain c where c: "c \<in> set cs" "identity_of c = profile_identity p" "cp_id c = k"
      using Cons.prems(5) by (auto simp: indexed_def)
    obtain cs' rs' where r:
      "migrate_loop U fresh (Suc i) ids cs (rules @ [migrate_rule k (to_profile p)]) ps
       = Inr (cs @ cs', (rules @ [migrate_rule k (to_profile p)]) @ rs')"
      "built U fresh (Suc i + length ps) scope (cs @ cs')" "length cs' \<le> length ps"
      "list_all2 (migrates_to (cs @ cs')) ps rs'"
      using rest [where cs = cs and ids = ids and rules = "rules @ [migrate_rule k (to_profile p)]"]
        Cons.prems built_later [OF Cons.prems(4)] by auto
    have "migrates_to (cs @ cs') p (migrate_rule k (to_profile p))" using c by (auto simp: migrates_to_def)
    with r Some ident show ?thesis
      by (intro exI [of _ cs'] exI [of _ "migrate_rule k (to_profile p) # rs'"])
         (simp add: Let_def map_invalid_def rule_from_model_def)
  qed
qed

definition not_started :: "stored_profile_v1 \<Rightarrow> stored_profile_v1" where
  "not_started p = p\<lparr>fp_auto_start := False\<rparr>"

lemma collect_map_connection:
  assumes "distinct (map cp_id cs)" "c \<in> set cs"
  shows "collect_map (map (\<lambda>c. (cp_id c, c)) cs) (cp_id c) = Some c"
proof -
  have "distinct (map fst (rev (map (\<lambda>c. (cp_id c, c)) cs)))"
    using assms(1) by (simp add: rev_map [symmetric] comp_def)
  then show ?thesis using assms(2) by (auto simp: collect_map_def)
qed

lemma legacy_of_migrated:
  assumes "identity_of c = profile_identity p"
  shows "cp_ssh_host c = fp_ssh_host p" "cp_ssh_port c = fp_ssh_port p" "cp_ssh_user c = fp_ssh_user p"
    "cp_auth c = fp_auth p"
proof -
  have e: "identity_of c = identity_of (connection_from_model (migrate_connection [] (to_profile p)))"
    using assms by (simp add: profile_identity_def)
  then show "cp_ssh_host c = fp_ssh_host p" "cp_ssh_port c = fp_ssh_port p" "cp_ssh_user c = fp_ssh_user p"
    by (simp_all add: identity_of_def connection_from_model_def migrate_connection_def to_profile_def)
  from e show "cp_auth c = fp_auth p"
    by (simp add: identity_of_def connection_from_model_def migrate_connection_def to_profile_def split: stored_auth.splits)
qed

lemma legacy_profiles_loop_migrated:
  assumes "list_all2 (migrates_to cs) ps rs" "distinct (map cp_id cs)"
  shows "legacy_profiles_loop (collect_map (map (\<lambda>c. (cp_id c, c)) cs)) rs
           = Inr (map (\<lambda>p. to_profile (not_started p)) ps)"
  using assms(1)
proof (induction rule: list_all2_induct)
  case Nil
  then show ?case by simp
next
  case (Cons p ps r rs)
  then obtain c where c: "c \<in> set cs" "r = migrate_rule (cp_id c) (to_profile p)" "identity_of c = profile_identity p"
    by (auto simp: migrates_to_def)
  then show ?case using collect_map_connection [OF assms(2) c(1)] Cons.IH legacy_of_migrated [OF c(3)]
    by (simp add: migrate_rule_def to_profile_def not_started_def)
qed

lemma migrates_to_rules:
  assumes "list_all2 (migrates_to cs) ps rs"
  shows "map (\<lambda>r. (fr_id r, fr_desired_enabled r)) rs = map (\<lambda>p. (fp_id p, fp_auto_start p)) ps"
    "map fr_id rs = map fp_id ps" "map fr_local_port rs = map fp_local_port ps"
  using assms
  by (induction rule: list_all2_induct) (auto simp: migrates_to_def migrate_rule_def to_profile_def)

lemma list_all2_source:
  assumes "list_all2 R xs ys" "y \<in> set ys"
  obtains x where "x \<in> set xs" "R x y"
  using assms by (induction rule: list_all2_induct) auto

lemma migrates_to_valid:
  assumes "list_all2 (migrates_to cs) ps rs" "r \<in> set rs"
    "\<forall>p \<in> set ps. profile_validate U (to_profile p) = Inr () \<and> fp_scope_id p = scope"
    "\<forall>c \<in> set cs. connection_ok U c"
  shows "rule_validate U r = Inr ()" "fr_scope_id r = scope" "fr_connection_profile_id r \<in> cp_id ` set cs"
proof -
  obtain p where p: "p \<in> set ps" "migrates_to cs p r" using assms(1,2) by (rule list_all2_source)
  then obtain c where c: "c \<in> set cs" "r = migrate_rule (cp_id c) (to_profile p)"
    by (auto simp: migrates_to_def)
  with assms(4) have "validate_uuid_v4 U (cp_id c) = Inr ()"
    by (auto simp: connection_ok_def connection_validate_def and_then_Inr_iff connection_to_model_def)
  with p c assms(3) show "rule_validate U r = Inr ()" by (auto intro: migrated_rule_ok)
  show "fr_scope_id r = scope" "fr_connection_profile_id r \<in> cp_id ` set cs"
    using p c assms(3) by (auto simp: migrate_rule_def to_profile_def)
qed

lemma not_started_fields [simp]:
  "fp_id (not_started p) = fp_id p" "fp_local_port (not_started p) = fp_local_port p"
  "fp_scope_id (not_started p) = fp_scope_id p"
  by (simp_all add: not_started_def)

lemma not_started_valid: "profile_validate U (to_profile (not_started p)) = profile_validate U (to_profile p)"
  by (simp add: not_started_def profile_validate_def to_profile_def)

lemma migrate_order_props:
  "set (migrate_order ps) = set ps" "length (migrate_order ps) = length ps"
  "distinct (map fp_id (migrate_order ps)) = distinct (map fp_id ps)"
  "distinct (map fp_local_port (migrate_order ps)) = distinct (map fp_local_port ps)"
proof -
  have "mset (map f (migrate_order ps)) = mset (map f ps)" for f :: "stored_profile_v1 \<Rightarrow> 'x"
    by (simp add: migrate_order_def)
  then show "distinct (map fp_id (migrate_order ps)) = distinct (map fp_id ps)"
    "distinct (map fp_local_port (migrate_order ps)) = distinct (map fp_local_port ps)"
    by (metis mset_eq_imp_distinct_iff)+
qed (simp_all add: migrate_order_def)

text \<open>
  C39: migrating a valid version-1 document with fresh, distinct connection ids always succeeds. The
  result is a valid version-2 configuration whose rules are the old profiles, oldest first, under
  their old ids and with their old auto-start wish as the desired state; and a version-1 reader of the
  result sees the old document again, in that order and with auto-start switched off.
\<close>

theorem migration_round_trip:
  assumes "profiles_v1_validate U (pv_scope_id d) d = Inr ()"
    and "\<forall>j < length (pv_profiles d). validate_uuid_v4 U (fresh j) = Inr ()"
    and "inj_on fresh {..<length (pv_profiles d)}"
  shows "\<exists>cfg. migrate_v1 U fresh d = Inr cfg \<and> config_validate U (pv_scope_id d) cfg = Inr () \<and>
    map (\<lambda>r. (fr_id r, fr_desired_enabled r)) (sc_rules cfg)
      = map (\<lambda>p. (fp_id p, fp_auto_start p)) (migrate_order (pv_profiles d)) \<and>
    to_legacy_profiles U cfg
      = Inr (d\<lparr>pv_profiles := map (\<lambda>p. p\<lparr>fp_auto_start := False\<rparr>) (migrate_order (pv_profiles d))\<rparr>)"
proof -
  let ?ps = "migrate_order (pv_profiles d)" and ?scope = "pv_scope_id d"
  from assms(1) have ok: "profiles_ok U ?scope d" by (simp add: profiles_v1_validate_ok)
  then have valid: "\<forall>p \<in> set ?ps. profile_validate U (to_profile p) = Inr () \<and> fp_scope_id p = ?scope"
    by (simp add: profiles_ok_def migrate_order_props)
  from migrate_loop_result [where ps = ?ps and fresh = fresh and i = 0 and cs = "[]" and ids = Map.empty and rules = "[]", OF valid] assms(2,3)
  obtain cs rs where m: "migrate_loop U fresh 0 Map.empty [] [] ?ps = Inr (cs, rs)"
      "built U fresh (length ?ps) ?scope cs" "length cs \<le> length ?ps" "list_all2 (migrates_to cs) ?ps rs"
    by (auto simp: migrate_order_props built_def indexed_def)
  let ?cfg = "\<lparr> sc_schema_version = V2_SCHEMA_VERSION, sc_scope_id = ?scope, sc_connections_revision = 0,
                 sc_rules_revision = pv_profiles_revision d, sc_connections = cs, sc_rules = rs \<rparr>"
  have len: "length rs = length ?ps" using m(4) by (simp add: list_all2_lengthD)
  have "config_ok U ?scope ?cfg"
    using ok m migrates_to_valid [OF m(4) _ valid] migrates_to_rules [OF m(4)] len
    by (auto simp: config_ok_def built_def profiles_ok_def migrate_order_props schema_limits)
  then have cfg: "config_validate U ?scope ?cfg = Inr ()" by (simp add: config_validate_ok)
  let ?old = "\<lparr> pv_schema_version = V1_SCHEMA_VERSION, pv_scope_id = ?scope, pv_profiles_revision = 0,
                 pv_profiles = map not_started ?ps \<rparr>"
  have "profiles_ok U ?scope ?old"
    using ok by (auto simp: profiles_ok_def migrate_order_props not_started_valid comp_def)
  then have "profiles_v1_validate U ?scope ?old = Inr ()" by (simp add: profiles_v1_validate_ok)
  moreover have "legacy_profiles_loop (collect_map (map (\<lambda>c. (cp_id c, c)) cs)) rs
      = Inr (map (\<lambda>p. to_profile (not_started p)) ?ps)"
    using m(2) by (intro legacy_profiles_loop_migrated [OF m(4)]) (simp add: built_def)
  moreover have "pv_schema_version d = V1_SCHEMA_VERSION" using ok by (simp add: profiles_ok_def)
  ultimately have "to_legacy_profiles U ?cfg = Inr (d\<lparr>pv_profiles := map (\<lambda>p. p\<lparr>fp_auto_start := False\<rparr>) ?ps\<rparr>)"
    by (simp add: to_legacy_profiles_def profiles_v1_from_profiles_def comp_def) (simp add: not_started_def)
  moreover have "migrate_v1 U fresh d = Inr ?cfg"
    using assms(1) m(1) cfg by (simp add: migrate_v1_def)
  ultimately show ?thesis using cfg migrates_to_rules(1) [OF m(4)] by (intro exI [of _ ?cfg]) simp
qed

definition demo_uuids :: uuid_parser where
  "demo_uuids s = (if s \<in> set [''scope'', ''p1'', ''p2'', ''c1'', ''c2'']
                   then Some \<lparr>uv_rfc4122 = True, uv_random = True, uv_text = s\<rparr> else None)"

definition demo_profile :: "string \<Rightarrow> u16 \<Rightarrow> int \<Rightarrow> stored_profile_v1" where
  "demo_profile k port created =
     \<lparr> fp_id = k, fp_scope_id = ''scope'', fp_name = ''metrics'', fp_ssh_host = ''bastion.example'',
       fp_ssh_port = 22, fp_ssh_user = ''operator'', fp_auth = StoredAgent, fp_local_port = port,
       fp_target_host = LoopbackHost, fp_target_port = 5432, fp_auto_start = True,
       fp_reconnect = \<lparr>rp_enabled = True, rp_max_attempts = 5\<rparr>, fp_created_at = created, fp_updated_at = created \<rparr>"

definition demo_v1 :: stored_profiles_v1 where
  "demo_v1 = \<lparr> pv_schema_version = 1, pv_scope_id = ''scope'', pv_profiles_revision = 7,
               pv_profiles = [demo_profile ''p2'' 15433 9, demo_profile ''p1'' 15432 4] \<rparr>"

definition demo_fresh :: "nat \<Rightarrow> string" where
  "demo_fresh i = (if i = 0 then ''c1'' else ''c2'')"

lemma demo_v1_valid: "profiles_v1_validate demo_uuids (pv_scope_id demo_v1) demo_v1 = Inr ()"
  by code_simp

lemma demo_fresh_valid:
  "\<forall>j < length (pv_profiles demo_v1). validate_uuid_v4 demo_uuids (demo_fresh j) = Inr ()"
  "inj_on demo_fresh {..<length (pv_profiles demo_v1)}"
  by (auto simp: demo_v1_def demo_uuids_def demo_fresh_def validate_uuid_v4_def inj_on_def)

theorem migration_round_trip_witness:
  "profiles_v1_validate demo_uuids (pv_scope_id demo_v1) demo_v1 = Inr () \<and>
   (\<exists>cfg. migrate_v1 demo_uuids demo_fresh demo_v1 = Inr cfg \<and>
      config_validate demo_uuids ''scope'' cfg = Inr ())"
  using migration_round_trip [OF demo_v1_valid demo_fresh_valid] demo_v1_valid
  by (auto simp: demo_v1_def)

section \<open>Rebasing a version-1 write onto the current configuration\<close>

lemma collect_identities_Inr:
  assumes "\<forall>c \<in> set cs. connection_ok U c"
  shows "collect_identities U cs = Inr (map (\<lambda>c. (identity_of c, cp_id c)) cs)"
proof -
  have "connection_identity_of U c = Inr (identity_of c)" if "c \<in> set cs" for c
    using assms that by (simp add: connection_identity_of_Inr)
  then show ?thesis by (induction cs) auto
qed

lemma collect_map_indexed:
  assumes "distinct (map identity_of cs)"
  shows "indexed (collect_map (map (\<lambda>c. (identity_of c, cp_id c)) cs)) cs"
proof -
  have "distinct (map fst (rev (map (\<lambda>c. (identity_of c, cp_id c)) cs)))"
    using assms by (simp add: rev_map [symmetric] comp_def)
  then show ?thesis by (auto simp: indexed_def collect_map_def)
qed

text \<open>What becomes of a rule of the write.\<close>

definition rebased ::
  "stored_connection list \<Rightarrow> (string \<rightharpoonup> forward_rule) \<Rightarrow> stored_connection list \<Rightarrow> forward_rule \<Rightarrow> forward_rule \<Rightarrow> bool" where
  "rebased migrated current connections r r' =
     (case current (fr_id r) of
        Some q \<Rightarrow> r' = r\<lparr>fr_connection_profile_id := fr_connection_profile_id q,
                          fr_desired_enabled := fr_desired_enabled q\<rparr>
      | None \<Rightarrow> \<exists>m \<in> set migrated. \<exists>c \<in> set connections. cp_id m = fr_connection_profile_id r \<and>
                  identity_of c = identity_of m \<and> r' = r\<lparr>fr_connection_profile_id := cp_id c\<rparr>)"

lemma rebase_loop_result:
  assumes "\<forall>r \<in> set rs. fr_connection_profile_id r \<in> cp_id ` set migrated"
    and "\<forall>m \<in> set migrated. connection_ok U m" "distinct (map cp_id migrated)"
    and "cp_id ` set migrated \<inter> cp_id ` set base = {}" "set ext \<subseteq> set migrated"
    and "distinct (map cp_id (base @ ext))" "distinct (map identity_of (base @ ext))" "indexed ids (base @ ext)"
  shows "\<exists>ext' rs'. rebase_loop U migrated current ids (base @ ext) rs = Inr (base @ ext @ ext', rs') \<and>
           set (ext @ ext') \<subseteq> set migrated \<and> distinct (map cp_id (base @ ext @ ext')) \<and>
           distinct (map identity_of (base @ ext @ ext')) \<and>
           list_all2 (rebased migrated current (base @ ext @ ext')) rs rs'"
  using assms
proof (induction rs arbitrary: ids ext)
  case Nil
  then show ?case by (auto intro!: exI [of _ "[]"])
next
  case (Cons r rs)
  have keep: ?case if s: "rebase_loop U migrated current ids (base @ ext) (r # rs)
      = and_then (rebase_loop U migrated current ids (base @ ext) rs) (\<lambda>(cs, rs'). Inr (cs, f r # rs'))"
      and f: "\<And>cs. rebased migrated current (base @ ext @ cs) r (f r)" for f
  proof -
    from Cons.IH [where ids = ids and ext = ext] Cons.prems
    obtain ext' rs' where "rebase_loop U migrated current ids (base @ ext) rs = Inr (base @ ext @ ext', rs')"
      "set (ext @ ext') \<subseteq> set migrated" "distinct (map cp_id (base @ ext @ ext'))"
      "distinct (map identity_of (base @ ext @ ext'))" "list_all2 (rebased migrated current (base @ ext @ ext')) rs rs'"
      by auto
    with s f show ?thesis by (intro exI [of _ ext'] exI [of _ "f r # rs'"]) simp
  qed
  show ?case
  proof (cases "current (fr_id r)")
    case (Some q)
    then show ?thesis
      by (intro keep [where f = "\<lambda>r. r\<lparr>fr_connection_profile_id := fr_connection_profile_id q,
            fr_desired_enabled := fr_desired_enabled q\<rparr>"]) (auto simp: rebased_def)
  next
    case None
    obtain m where m: "find (\<lambda>c. cp_id c = fr_connection_profile_id r) migrated = Some m" "m \<in> set migrated"
      "cp_id m = fr_connection_profile_id r"
      using Cons.prems(1) by (cases "find (\<lambda>c. cp_id c = fr_connection_profile_id r) migrated")
        (auto simp: find_None_iff find_Some_iff)
    have i: "connection_identity_of U m = Inr (identity_of m)"
      using Cons.prems(2) m(2) by (simp add: connection_identity_of_Inr)
    show ?thesis
    proof (cases "ids (identity_of m)")
      case (Some k)
      then obtain c where c: "c \<in> set (base @ ext)" "identity_of c = identity_of m" "cp_id c = k"
        using Cons.prems(8) by (auto simp: indexed_def)
      have "rebased migrated current (base @ ext @ cs) r (r\<lparr>fr_connection_profile_id := k\<rparr>)" for cs
        using c m None by (auto simp: rebased_def)
      then show ?thesis using Some None m i
        by (intro keep [where f = "\<lambda>r. r\<lparr>fr_connection_profile_id := k\<rparr>"]) auto
    next
      case new: None
      then have unseen: "identity_of m \<notin> identity_of ` set (base @ ext)"
        using indexed_None [OF Cons.prems(8)] by blast
      have free: "cp_id m \<notin> cp_id ` set (base @ ext)"
      proof
        assume "cp_id m \<in> cp_id ` set (base @ ext)"
        then obtain c where c: "c \<in> set (base @ ext)" "cp_id c = cp_id m" by (metis imageE)
        then have "c \<in> set ext" using Cons.prems(4) m(2) by auto
        then have "c = m" using Cons.prems(3,5) m(2) c(2) by (auto simp: distinct_map inj_on_def)
        with c(1) unseen show False by auto
      qed
      have "\<forall>r \<in> set rs. fr_connection_profile_id r \<in> cp_id ` set migrated" "set (ext @ [m]) \<subseteq> set migrated"
        "distinct (map cp_id (base @ ext @ [m]))" "distinct (map identity_of (base @ ext @ [m]))"
        using Cons.prems(1,5,6,7) m(2) free unseen by (simp_all add: image_Un)
      moreover have "indexed (ids(identity_of m \<mapsto> cp_id m)) (base @ ext @ [m])"
        using indexed_snoc [OF Cons.prems(8) new] by simp
      ultimately obtain ext' rs' where r:
        "rebase_loop U migrated current (ids(identity_of m \<mapsto> cp_id m)) (base @ ext @ [m]) rs
           = Inr (base @ ext @ m # ext', rs')"
        "set (ext @ m # ext') \<subseteq> set migrated" "distinct (map cp_id (base @ ext @ m # ext'))"
        "distinct (map identity_of (base @ ext @ m # ext'))"
        "list_all2 (rebased migrated current (base @ ext @ m # ext')) rs rs'"
        using Cons.IH [of "ext @ [m]" "ids(identity_of m \<mapsto> cp_id m)"] Cons.prems(2,3,4)
        by (simp del: fun_upd_apply distinct.simps map_append set_append) blast
      have "rebased migrated current (base @ ext @ m # ext') r r" using m None
        by (auto simp: rebased_def)
      moreover have "\<not> list_ex (\<lambda>c. cp_id c = cp_id m) (base @ ext)"
        using free unfolding list_ex_iff by (metis imageI)
      ultimately show ?thesis using r new None m i
        by (intro exI [of _ "m # ext'"] exI [of _ "r # rs'"]) (simp del: fun_upd_apply list_ex_append)
    qed
  qed
qed

lemma connection_ok_uuid: "connection_ok U c \<Longrightarrow> validate_uuid_v4 U (cp_id c) = Inr ()"
  by (auto simp: connection_ok_def connection_validate_def and_then_Inr_iff connection_to_model_def)

lemma rule_validate_retarget:
  assumes "rule_validate U r = Inr ()" "validate_uuid_v4 U k = Inr ()"
  shows "rule_validate U (r\<lparr>fr_connection_profile_id := k\<rparr>) = Inr ()"
    "rule_validate U (r\<lparr>fr_connection_profile_id := k, fr_desired_enabled := b\<rparr>) = Inr ()"
  using assms by (auto simp: rule_validate_def and_then_Inr_iff)

lemma collect_map_rule:
  "collect_map (map (\<lambda>r. (fr_id r, r)) rs) k = Some q \<Longrightarrow> q \<in> set rs \<and> fr_id q = k"
  by (auto simp: collect_map_def dest: map_of_SomeD)

lemma collect_map_rule_None:
  "collect_map (map (\<lambda>r. (fr_id r, r)) rs) k = None \<longleftrightarrow> k \<notin> fr_id ` set rs"
  by (auto simp: collect_map_def map_of_eq_None_iff image_image)

lemma rebased_fields:
  assumes "rebased migrated current connections r r'"
  shows "fr_id r' = fr_id r" "fr_local_port r' = fr_local_port r" "fr_scope_id r' = fr_scope_id r"
  using assms by (auto simp: rebased_def split: option.splits)

lemma rebased_valid:
  assumes "rebased migrated (collect_map (map (\<lambda>r. (fr_id r, r)) cur_rules)) cs r r'"
    and "rule_validate U r = Inr ()" "\<forall>c \<in> set cs. connection_ok U c"
    and "\<forall>q \<in> set cur_rules. fr_connection_profile_id q \<in> cp_id ` set cs"
  shows "rule_validate U r' = Inr ()" "fr_connection_profile_id r' \<in> cp_id ` set cs"
proof -
  have *: "rule_validate U r' = Inr () \<and> fr_connection_profile_id r' \<in> cp_id ` set cs"
  proof (cases "collect_map (map (\<lambda>r. (fr_id r, r)) cur_rules) (fr_id r)")
    case (Some q)
    then have "fr_connection_profile_id q \<in> cp_id ` set cs" using collect_map_rule [OF Some] assms(4) by blast
    with Some assms(1,2,3) show ?thesis
      by (auto simp: rebased_def intro!: rule_validate_retarget connection_ok_uuid)
  next
    case None
    with assms(1,2,3) show ?thesis
      by (auto simp: rebased_def intro!: rule_validate_retarget connection_ok_uuid)
  qed
  then show "rule_validate U r' = Inr ()" "fr_connection_profile_id r' \<in> cp_id ` set cs" by auto
qed

lemma list_all2_maps:
  assumes "list_all2 R xs ys" "\<And>x y. R x y \<Longrightarrow> f y = f x"
  shows "map f ys = map f xs"
  using assms by (induction rule: list_all2_induct) auto

lemma rebase_result:
  assumes self: "config_ok U scope self" and cur: "config_ok U scope current"
    and fresh: "cp_id ` set (sc_connections self) \<inter> cp_id ` set (sc_connections current) = {}"
  shows "\<exists>added rules. let next = self\<lparr>sc_connections := sc_connections current @ added, sc_rules := rules\<rparr> in
     rebase_legacy_write U self current = Inr (added \<noteq> [], next) \<and>
     list_all2 (rebased (sc_connections self) (collect_map (map (\<lambda>r. (fr_id r, r)) (sc_rules current)))
       (sc_connections next)) (sc_rules self) (sc_rules next) \<and>
     (length (sc_connections next) \<le> MAX_SAVED_CONNECTIONS \<longrightarrow> config_ok U scope next)"
proof -
  let ?cur = "collect_map (map (\<lambda>r. (fr_id r, r)) (sc_rules current))"
  let ?M = "sc_connections self" and ?B = "sc_connections current"
  have pairs: "collect_identities U ?B = Inr (map (\<lambda>c. (identity_of c, cp_id c)) ?B)"
    using cur by (intro collect_identities_Inr) (auto simp: config_ok_def)
  have idx: "indexed (collect_map (map (\<lambda>c. (identity_of c, cp_id c)) ?B)) (?B @ [])"
    using cur by (simp add: collect_map_indexed config_ok_def)
  have "\<forall>r \<in> set (sc_rules self). fr_connection_profile_id r \<in> cp_id ` set ?M" "\<forall>m \<in> set ?M. connection_ok U m"
    "distinct (map cp_id ?M)" "set [] \<subseteq> set ?M" "distinct (map cp_id (?B @ []))" "distinct (map identity_of (?B @ []))"
    using self cur by (simp_all add: config_ok_def)
  from rebase_loop_result [OF this(1,2,3) fresh this(4,5,6) idx, of ?cur]
  obtain added rules where r: "rebase_loop U ?M ?cur (collect_map (map (\<lambda>c. (identity_of c, cp_id c)) ?B)) ?B (sc_rules self)
        = Inr (?B @ added, rules)" "set added \<subseteq> set ?M" "distinct (map cp_id (?B @ added))"
      "distinct (map identity_of (?B @ added))" "list_all2 (rebased ?M ?cur (?B @ added)) (sc_rules self) rules"
    by (simp del: map_append) blast
  let ?next = "self\<lparr>sc_connections := ?B @ added, sc_rules := rules\<rparr>"
  have conns: "\<forall>c \<in> set (?B @ added). connection_ok U c \<and> cp_scope_id c = scope"
    using self cur r(2) by (auto simp: config_ok_def)
  have refs: "\<forall>q \<in> set (sc_rules current). fr_connection_profile_id q \<in> cp_id ` set (?B @ added)"
    using cur by (auto simp: config_ok_def)
  have rule: "rule_validate U r' = Inr () \<and> fr_scope_id r' = scope \<and> fr_connection_profile_id r' \<in> cp_id ` set (?B @ added)"
    if member: "r' \<in> set rules" for r'
  proof -
    obtain q where q: "q \<in> set (sc_rules self)" "rebased ?M ?cur (?B @ added) q r'"
      using r(5) member by (rule list_all2_source)
    then have v: "rule_validate U q = Inr ()" "fr_scope_id q = scope" using self by (simp_all add: config_ok_def)
    have ok: "\<forall>c \<in> set (?B @ added). connection_ok U c" using conns by blast
    from rebased_valid [OF q(2) v(1) ok refs] rebased_fields(3) [OF q(2)] v(2) show ?thesis by metis
  qed
  have "map fr_id rules = map fr_id (sc_rules self)" "map fr_local_port rules = map fr_local_port (sc_rules self)"
    by (rule list_all2_maps [OF r(5)], erule rebased_fields)+
  moreover have "length rules = length (sc_rules self)" using list_all2_lengthD [OF r(5)] by simp
  ultimately have "length (?B @ added) \<le> MAX_SAVED_CONNECTIONS \<longrightarrow> config_ok U scope ?next"
    using self r(3,4) conns rule by (simp add: config_ok_def del: set_append map_append length_append)
  moreover have "rebase_legacy_write U self current = Inr (added \<noteq> [], ?next)"
    using r(1) pairs by (simp add: rebase_legacy_write_def)
  ultimately show ?thesis using r(5) by (intro exI [of _ added] exI [of _ rules]) (simp add: Let_def)
qed

end
