(* ===== verification/SSH_Store_Safety.thy ===== *)
theory SSH_Store_Safety
  imports SSH_Store SSH_Migration
begin

text \<open>
  What the store of a scope guarantees to concurrent writers: revisions never go back, a revision
  stands for one content, and a purge needs thirty days of absence.
\<close>

section \<open>Commands\<close>

text \<open>
  \<open>wp m Q X s\<close>: run in \<open>s\<close>, the command \<open>m\<close> ends in a state with \<open>Q\<close> when it succeeds and in a state with
  \<open>X\<close> when it fails.
\<close>

definition wp :: "'a scope_cmd \<Rightarrow> ('a \<Rightarrow> scope_state \<Rightarrow> bool) \<Rightarrow> (scope_state \<Rightarrow> bool) \<Rightarrow> scope_state \<Rightarrow> bool" where
  "wp m Q X s = (case m s of (Inr x, t) \<Rightarrow> Q x t | (Inl _, t) \<Rightarrow> X t)"

lemma wp_bind: "wp (bindS m f) Q X s = wp m (\<lambda>x. wp (f x) Q X) X s"
  by (auto simp: wp_def bindS_def split: sum.splits prod.splits)

lemma wp_check [simp]: "wp (checkS p msg) Q X s = (if p s then Q () s else X s)"
  by (simp add: wp_def checkS_def)

lemma wp_simps [simp]:
  "wp (retS x) Q X s = Q x s"
  "wp (failS e) Q X s = X s"
  "wp (liftS r) Q X s = (case r of Inr x \<Rightarrow> Q x s | Inl _ \<Rightarrow> X s)"
  "wp (getS g) Q X s = Q (g s) s"
  by (auto simp: wp_def retS_def failS_def liftS_def getS_def split: sum.splits)

lemma wp_if [simp]: "wp (if b then m else n) Q X s = (if b then wp m Q X s else wp n Q X s)"
  by simp

lemma wpD:
  assumes "wp m Q X s" "m s = (r, t)"
  shows "(\<forall>x. r = Inr x \<longrightarrow> Q x t) \<and> (\<forall>e. r = Inl e \<longrightarrow> X t)"
  using assms by (auto simp: wp_def split: sum.splits)

lemma wp_snd: "wp m (\<lambda>_. P) P s \<longleftrightarrow> P (snd (m s))"
  by (auto simp: wp_def split: sum.splits prod.splits)

lemma wp_bindI: "wp m (\<lambda>x. wp (f x) Q X) X s \<Longrightarrow> wp (bindS m f) Q X s"
  by (simp add: wp_bind)

lemma wp_liftI: "(\<And>x. r = Inr x \<Longrightarrow> Q x s) \<Longrightarrow> X s \<Longrightarrow> wp (liftS r) Q X s"
  by (simp split: sum.split)

lemma wp_retI: "Q x s \<Longrightarrow> wp (retS x) Q X s"
  by simp

lemma wp_ifI: "(b \<Longrightarrow> wp m Q X s) \<Longrightarrow> (\<not> b \<Longrightarrow> wp n Q X s) \<Longrightarrow> wp (if b then m else n) Q X s"
  by simp

lemma wp_mono:
  assumes "wp m Q X s" "\<And>x t. Q x t \<Longrightarrow> Q' x t" "\<And>t. X t \<Longrightarrow> X' t"
  shows "wp m Q' X' s"
  using assms by (auto simp: wp_def split: sum.splits prod.splits)

section \<open>What a reader sees\<close>

definition disk_config :: "store_env \<Rightarrow> scope_state \<Rightarrow> scope_config_v2" where
  "disk_config E s = (case ss_profiles s of Some (ProfilesV2 v) \<Rightarrow> v | _ \<Rightarrow> config_empty (se_scope E))"

definition disk_trust :: "store_env \<Rightarrow> scope_state \<Rightarrow> stored_trust" where
  "disk_trust E s = (case ss_trust s of Some t \<Rightarrow> t | None \<Rightarrow> trust_empty (se_scope E))"

definition upgraded :: "scope_state \<Rightarrow> bool" where
  "upgraded s \<longleftrightarrow> (\<forall>bs. ss_profiles s \<noteq> Some (ProfilesV1 bs))"

definition gone :: "scope_state \<Rightarrow> bool" where
  "gone s \<longleftrightarrow> ss_purged s \<or> ss_tombstone s"

text \<open>The part of a scope that readers and the revisions depend on.\<close>

definition docs :: "scope_state \<Rightarrow> profiles_file option \<times> stored_trust option \<times> bool \<times> bool" where
  "docs s = (ss_profiles s, ss_trust s, ss_tombstone s, ss_purged s)"

lemma docs_eqD:
  assumes "docs t = docs s"
  shows "disk_config E t = disk_config E s" "disk_trust E t = disk_trust E s" "upgraded t = upgraded s"
    "gone t = gone s"
  using assms by (simp_all add: docs_def disk_config_def disk_trust_def upgraded_def gone_def)

lemma docs_ticks [simp]: "docs (s\<lparr>ss_ticks := n\<rparr>) = docs s"
  by (simp add: docs_def)

lemma docs_updates [simp]:
  "docs (ss_meta_update f s) = docs s" "docs (ss_backups_update g s) = docs s" "docs (ss_quarantine_update h s) = docs s"
  by (simp_all add: docs_def)

lemma wp_read_doc:
  assumes "\<And>t. docs t = docs s \<Longrightarrow> Q (f s) t" "\<And>t. docs t = docs s \<Longrightarrow> X t"
  shows "wp (read_doc E f) Q X s"
  using assms by (auto simp: wp_def read_doc_def Let_def split: io_fate.splits)

lemma wp_write_doc:
  assumes "\<And>n. Q () (f (s\<lparr>ss_ticks := n\<rparr>))" "\<And>n. X (f (s\<lparr>ss_ticks := n\<rparr>))" "\<And>n. X (s\<lparr>ss_ticks := n\<rparr>)"
  shows "wp (write_doc E f) Q X s"
  using assms by (auto simp: wp_def write_doc_def Let_def split: io_fate.splits)

lemma wp_load_scope_config:
  assumes "upgraded s" "\<And>t. docs t = docs s \<Longrightarrow> Q (disk_config E s) t" "\<And>t. docs t = docs s \<Longrightarrow> X t"
  shows "wp (load_scope_config E) Q X s"
  unfolding load_scope_config_def wp_bind
  using assms
  by (intro wp_read_doc) (auto simp: upgraded_def disk_config_def wp_bind split: option.splits profiles_file.splits sum.splits)

lemma wp_load_trust:
  assumes "\<And>t. docs t = docs s \<Longrightarrow> Q (disk_trust E s) t" "\<And>t. docs t = docs s \<Longrightarrow> X t"
  shows "wp (load_trust E) Q X s"
  unfolding load_trust_def wp_bind
  using assms by (intro wp_read_doc) (auto simp: disk_trust_def wp_bind split: option.splits sum.splits)

lemma wp_load_meta:
  assumes "\<And>m t. docs t = docs s \<Longrightarrow> Q m t" "\<And>t. docs t = docs s \<Longrightarrow> X t"
  shows "wp (load_meta E) Q X s"
  unfolding load_meta_def wp_bind
  using assms by (intro wp_read_doc) (auto simp: wp_bind split: option.splits sum.splits)

lemma wp_ensure_metadata:
  assumes "\<And>t. docs t = docs s \<Longrightarrow> Q () t" "\<And>t. docs t = docs s \<Longrightarrow> X t"
  shows "wp (ensure_metadata E) Q X s"
proof -
  obtain r u where l: "load_meta E s = (r, u)" by fastforce
  have d: "docs u = docs s" using wp_load_meta [of s "\<lambda>_ t. docs t = docs s" "\<lambda>t. docs t = docs s" E] l
    by (auto simp: wp_def split: sum.splits)
  have w: "wp (write_doc E (ss_meta_update (\<lambda>_. m))) Q X u" for m
    using assms d by (intro wp_write_doc) simp_all
  show ?thesis
  proof (cases "r = Inl NotFoundError")
    case True
    with w l show ?thesis by (simp add: wp_def ensure_metadata_def)
  next
    case False
    with l assms d show ?thesis
      by (auto simp: wp_def ensure_metadata_def split: sum.splits store_error.splits)
  qed
qed

definition with_config :: "scope_state \<Rightarrow> scope_config_v2 \<Rightarrow> scope_state" where
  "with_config s v = s\<lparr>ss_profiles := Some (ProfilesV2 v)\<rparr>"

lemma docs_with_config: "docs t = docs s \<Longrightarrow> docs (with_config t v) = docs (with_config s v)"
  by (simp add: docs_def with_config_def)

lemma wp_write_scope_config:
  assumes "\<And>t. docs t = docs (with_config s v) \<Longrightarrow> config_ok (se_uuid E) (se_scope E) v \<Longrightarrow> Q () t"
    "\<And>t. docs t = docs (with_config s v) \<Longrightarrow> X t" "\<And>t. docs t = docs s \<Longrightarrow> X t"
  shows "wp (write_scope_config E v) Q X s"
  unfolding write_scope_config_def wp_bind
  using assms
  by (auto simp: docs_def with_config_def config_validate_ok [symmetric] intro!: wp_write_doc split: sum.splits)

section \<open>Revisions\<close>

text \<open>A content with its revision moved on: unchanged, or under a larger revision.\<close>

definition moved :: "('d \<Rightarrow> wire_counter) \<Rightarrow> ('d \<Rightarrow> 'x) \<Rightarrow> 'd \<Rightarrow> 'd \<Rightarrow> bool" where
  "moved revision content c d \<longleftrightarrow> revision c < revision d \<or> revision c = revision d \<and> content c = content d"

lemma moved_refl [simp]: "moved revision content c c"
  by (simp add: moved_def)

lemma moved_trans: "moved revision content c d \<Longrightarrow> moved revision content d e \<Longrightarrow> moved revision content c e"
  by (auto simp: moved_def)

definition config_moved :: "scope_config_v2 \<Rightarrow> scope_config_v2 \<Rightarrow> bool" where
  "config_moved c d \<longleftrightarrow> moved sc_connections_revision sc_connections c d \<and> moved sc_rules_revision sc_rules c d"

text \<open>What any operation may do to a scope: take it away, or move its documents on.\<close>

definition newer :: "store_env \<Rightarrow> scope_state \<Rightarrow> scope_state \<Rightarrow> bool" where
  "newer E s t \<longleftrightarrow> upgraded t \<and> (gone t \<or>
     \<not> gone s \<and> config_moved (disk_config E s) (disk_config E t) \<and>
      moved tr_trust_revision tr_entries (disk_trust E s) (disk_trust E t))"

lemma newer_trans: "newer E s t \<Longrightarrow> newer E t u \<Longrightarrow> newer E s u"
  by (auto simp: newer_def config_moved_def intro: moved_trans)

lemma newer_docs: "upgraded s \<Longrightarrow> docs t = docs s \<Longrightarrow> newer E s t"
proof -
  assume a: "upgraded s" "docs t = docs s"
  note d = docs_eqD [OF a(2)]
  show ?thesis unfolding newer_def config_moved_def d(1,2) using d(3,4) a(1) by simp
qed

lemma newer_with_config:
  assumes "docs t = docs (with_config s v)" "config_moved (disk_config E s) v"
  shows "newer E s t"
proof -
  have "disk_config E t = v" "disk_trust E t = disk_trust E s" "upgraded t" "gone t = gone s"
    using assms(1) by (simp_all add: docs_def with_config_def disk_config_def disk_trust_def upgraded_def gone_def)
  with assms(2) show ?thesis by (auto simp: newer_def moved_refl)
qed

lemma newer_with_trust:
  assumes "docs t = docs (s\<lparr>ss_trust := Some x\<rparr>)" "moved tr_trust_revision tr_entries (disk_trust E s) x" "upgraded s"
  shows "newer E s t"
proof -
  have "disk_config E t = disk_config E s" "disk_trust E t = x" "upgraded t" "gone t = gone s"
    using assms(1,3) by (simp_all add: docs_def disk_config_def disk_trust_def upgraded_def gone_def)
  with assms(2) show ?thesis by (auto simp: newer_def config_moved_def moved_refl)
qed

lemma counter_next_less: "counter_next c = Inr d \<Longrightarrow> c < d \<and> unat d = unat c + 1"
  by (auto simp: counter_next_def counter_increment_Inr)

lemma wp_ensure_live: "(\<not> gone s \<Longrightarrow> Q () s) \<Longrightarrow> X s \<Longrightarrow> wp ensure_live Q X s"
  by (simp add: ensure_live_def gone_def)

lemma wp_activity: "Q () s \<Longrightarrow> X s \<Longrightarrow> wp acquire_activity_lock Q X s"
  by (simp add: acquire_activity_lock_def)

text \<open>The tail that the writers of a configuration share.\<close>

lemma wp_commit:
  assumes "docs s' = docs s" "upgraded s" "config_moved (disk_config E s) v"
    and "\<And>t. docs t = docs (with_config s v) \<Longrightarrow> config_ok (se_uuid E) (se_scope E) v \<Longrightarrow> wp k Q (newer E s) t"
  shows "wp (bindS (ensure_metadata E) (\<lambda>_. bindS (write_scope_config E v) (\<lambda>_. k))) Q (newer E s) s'"
proof -
  have "wp (write_scope_config E v) (\<lambda>_. wp k Q (newer E s)) (newer E s) t" if "docs t = docs s" for t
    using that assms(2,3,4) docs_with_config [OF that] newer_docs newer_with_config
    by (intro wp_write_scope_config) auto
  with assms(1,2) newer_docs show ?thesis unfolding wp_bind by (intro wp_ensure_metadata) auto
qed

text \<open>What a successful writer of connections and a successful writer of rules has done.\<close>

definition connections_written :: "store_env \<Rightarrow> wire_counter \<Rightarrow> scope_config_v2 \<Rightarrow> scope_state \<Rightarrow> scope_config_v2 \<Rightarrow> bool" where
  "connections_written E expected next s v \<longleftrightarrow> \<not> gone s \<and> config_ok (se_uuid E) (se_scope E) v \<and> config_moved (disk_config E s) v \<and>
     sc_connections_revision (disk_config E s) = expected \<and> unat (sc_connections_revision v) = unat expected + 1 \<and>
     sc_connections v = sc_connections next \<and> sc_rules v = sc_rules (disk_config E s)"

definition rules_written :: "store_env \<Rightarrow> wire_counter \<Rightarrow> scope_config_v2 \<Rightarrow> scope_state \<Rightarrow> scope_config_v2 \<Rightarrow> bool" where
  "rules_written E expected next s v \<longleftrightarrow> \<not> gone s \<and> config_ok (se_uuid E) (se_scope E) v \<and> config_moved (disk_config E s) v \<and>
     sc_rules_revision (disk_config E s) = expected \<and> unat (sc_rules_revision v) = unat expected + 1 \<and>
     sc_rules v = sc_rules next \<and> sc_connections v = sc_connections (disk_config E s)"

lemma replace_connections_wp:
  assumes "upgraded s"
  shows "wp (replace_connections E expected next)
    (\<lambda>v t. docs t = docs (with_config s v) \<and> connections_written E expected next s v) (newer E s) s"
  unfolding replace_connections_def Let_def
  apply (intro wp_bindI wp_ensure_live wp_load_scope_config [OF assms] newer_docs [OF assms], simp_all only:)
  apply (intro wp_ifI wp_bindI [where m = "liftS _"] wp_liftI newer_docs [OF assms] wp_commit, simp_all only:)
  using assms counter_next_less
  by (auto simp: newer_docs config_moved_def moved_def connections_written_def)

lemma wp_lease: "Q () s \<Longrightarrow> X s \<Longrightarrow> wp (if held then retS () else acquire_activity_lock) Q X s"
  by (simp add: acquire_activity_lock_def)

lemma replace_rules_inner_wp:
  assumes "upgraded s"
  shows "wp (replace_rules_inner E expected next held)
    (\<lambda>v t. docs t = docs (with_config s v) \<and> rules_written E expected next s v) (newer E s) s"
  unfolding replace_rules_inner_def Let_def
  apply (intro wp_bindI wp_ensure_live wp_lease wp_load_scope_config [OF assms] newer_docs [OF assms], simp_all only:)
  apply (intro wp_ifI wp_bindI [where m = "liftS _"] wp_liftI newer_docs [OF assms] wp_commit, simp_all only:)
  using assms counter_next_less
  by (auto simp: newer_docs config_moved_def moved_def rules_written_def)

lemma wp_prod: "(\<And>a b. x = (a, b) \<Longrightarrow> wp (f a b) Q X s) \<Longrightarrow> wp (case x of (a, b) \<Rightarrow> f a b) Q X s"
  by (simp split: prod.split)

lemma wp_getI: "Q (g s) s \<Longrightarrow> wp (getS g) Q X s"
  by simp

lemma wp_checkI: "(p s \<Longrightarrow> Q () s) \<Longrightarrow> X s \<Longrightarrow> wp (checkS p msg) Q X s"
  by simp

lemma wp_failI: "X s \<Longrightarrow> wp (failS e) Q X s"
  by simp

lemma rebase_unchanged: "rebase_legacy_write U self current = Inr (False, next) \<Longrightarrow> sc_connections next = sc_connections current"
  by (auto simp: rebase_legacy_write_def Let_def and_then_def split: sum.splits)

lemma wp_if_lift: "(\<And>x. if b then r = Inr x else x = y \<Longrightarrow> Q x s) \<Longrightarrow> X s \<Longrightarrow> wp (if b then liftS r else retS y) Q X s"
  by (simp split: sum.split)

lemma wp_liftS_any: "Q s \<Longrightarrow> wp (liftS r) (\<lambda>_. Q) Q s"
  by (simp split: sum.split)

lemma replace_profiles_newer:
  assumes "upgraded s"
  shows "wp (replace_profiles E expected next) (\<lambda>_. newer E s) (newer E s) s"
  unfolding replace_profiles_def Let_def
  apply (intro wp_bindI wp_ensure_live wp_load_scope_config [OF assms] newer_docs [OF assms], simp_all only:)
  apply (rule wp_ifI, intro wp_failI newer_docs [OF assms], simp)
  apply (intro wp_bindI [where m = "liftS _"] wp_bindI [where m = "getS _"] wp_bindI [where m = "if _ then _ else _"]
     wp_prod wp_liftI wp_getI wp_if_lift wp_commit wp_liftS_any, simp_all only:)
  using assms
  by (auto simp: newer_docs config_moved_def moved_def split: if_splits dest!: rebase_unchanged counter_next_less
      intro: newer_with_config)

text \<open>A command that may only move the trust document on.\<close>

lemma wp_write_trust:
  assumes "docs s' = docs s" "upgraded s" "moved tr_trust_revision tr_entries (disk_trust E s) x"
    and "\<And>t. docs t = docs (s\<lparr>ss_trust := Some x\<rparr>) \<Longrightarrow> Q () t"
  shows "wp (write_doc E (ss_trust_update (\<lambda>_. Some x))) Q (newer E s) s'"
proof (rule wp_write_doc)
  fix n
  have d: "docs (s'\<lparr>ss_ticks := n, ss_trust := Some x\<rparr>) = docs (s\<lparr>ss_trust := Some x\<rparr>)"
    using assms(1) by (simp add: docs_def)
  then show "Q () (s'\<lparr>ss_ticks := n\<rparr>\<lparr>ss_trust := Some x\<rparr>)" by (rule assms(4))
  from d assms(2,3) show "newer E s (s'\<lparr>ss_ticks := n\<rparr>\<lparr>ss_trust := Some x\<rparr>)" by (intro newer_with_trust)
  show "newer E s (s'\<lparr>ss_ticks := n\<rparr>)" using assms(1,2) by (simp add: newer_docs)
qed

lemma wp_write_aside:
  assumes "\<And>t. docs (f t) = docs t" "\<And>t. docs t = docs s \<Longrightarrow> Q () t" "\<And>t. docs t = docs s \<Longrightarrow> X t"
  shows "wp (write_doc E f) Q X s"
  using assms by (intro wp_write_doc) simp_all

lemma replace_trust_wp:
  assumes "upgraded s"
  shows "wp (replace_trust E expected next)
    (\<lambda>x t. docs t = docs (s\<lparr>ss_trust := Some x\<rparr>) \<and> \<not> gone s \<and> tr_trust_revision (disk_trust E s) = expected \<and>
       unat (tr_trust_revision x) = unat expected + 1 \<and> tr_entries x = tr_entries next \<and>
       trust_validate (se_uuid E) (se_keys E) (se_scope E) x = Inr ()) (newer E s) s"
  unfolding replace_trust_def Let_def
  apply (intro wp_bindI wp_ensure_live wp_load_trust newer_docs [OF assms], simp_all only:)
  apply (rule wp_ifI, intro wp_failI newer_docs [OF assms], simp)
  apply (intro wp_bindI wp_liftI wp_ensure_metadata wp_write_trust newer_docs [OF assms], simp_all only:)
  using assms
  by (auto simp: moved_def dest!: counter_next_less)

lemma disk_trust_written: "docs t = docs (s\<lparr>ss_trust := Some x\<rparr>) \<Longrightarrow> disk_trust E t = x"
  by (simp add: docs_def disk_trust_def)

text \<open>The tail that the repairs share: the trust \<open>g r\<close> under the next revision \<open>r\<close>.\<close>

lemma wp_commit_trust:
  assumes "docs s' = docs s" "upgraded s" "\<And>r. tr_trust_revision (g r) = r"
    and c: "c = tr_trust_revision (disk_trust E s)"
    and "\<And>r t. newer E s t \<Longrightarrow> disk_trust E t = g r \<Longrightarrow> unat r = unat (tr_trust_revision (disk_trust E s)) + 1 \<Longrightarrow> Q (g r) t"
  shows "wp (bindS (liftS (counter_next c)) (\<lambda>r.
      bindS (liftS (trust_validate (se_uuid E) (se_keys E) (se_scope E) (g r))) (\<lambda>_.
      bindS (write_doc E (ss_trust_update (\<lambda>_. Some (g r)))) (\<lambda>_. retS (g r))))) Q (newer E s) s'"
proof (intro wp_bindI wp_liftI wp_write_trust wp_retI assms(1,2) newer_docs [OF assms(2)])
  fix r
  assume "counter_next c = Inr r"
  then have r: "tr_trust_revision (disk_trust E s) < r" "unat r = unat (tr_trust_revision (disk_trust E s)) + 1"
    using c by (auto dest: counter_next_less)
  from r assms(3) show m: "moved tr_trust_revision tr_entries (disk_trust E s) (g r)" by (simp add: moved_def)
  fix t
  assume d: "docs t = docs (s\<lparr>ss_trust := Some (g r)\<rparr>)"
  from newer_with_trust [OF d m assms(2)] disk_trust_written [OF d] r(2) show "Q (g r) t" by (rule assms(5))
qed

lemma wp_backup_trust:
  assumes "\<And>t. docs t = docs s \<Longrightarrow> Q () t" "\<And>t. docs t = docs s \<Longrightarrow> X t"
  shows "wp (write_doc E (ss_backups_update f)) Q X s"
    "wp (if b then retS () else case k of None \<Rightarrow> failS e | Some n \<Rightarrow> write_doc E (ss_quarantine_update (g n))) Q X s"
  using assms by (auto intro!: wp_write_aside split: option.split)

lemma repair_remove_endpoint_wp:
  assumes "upgraded s"
  shows "wp (repair_remove_endpoint E host port now)
    (\<lambda>x t. newer E s t \<and> \<not> gone s \<and> \<not> ss_leased s \<and> disk_trust E t = x \<and>
       unat (tr_trust_revision x) = unat (tr_trust_revision (disk_trust E s)) + 1 \<and>
       tr_entries x = filter (\<lambda>e. \<not> at_endpoint host port e) (tr_entries (disk_trust E s))) (newer E s) s"
  unfolding repair_remove_endpoint_def Let_def acquire_activity_lock_def
  apply (rule wp_bindI, rule wp_ifI, intro wp_failI newer_docs [OF assms], rule refl, rule wp_retI)
  apply (intro wp_bindI [where m = ensure_live] wp_bindI [where m = "checkS _ _"] wp_bindI [where m = "load_trust _"]
      wp_bindI [where m = "liftS (backup_id _ _ _)"] wp_bindI [where m = "write_doc _ _"] wp_bindI [where m = "if _ then _ else _"]
      wp_backup_trust wp_ensure_live wp_checkI wp_load_trust wp_liftI wp_commit_trust newer_docs [OF assms], simp_all only:)
  using assms by auto

lemma repair_restore_backup_wp:
  assumes "upgraded s"
  shows "wp (repair_restore_backup E k expected)
    (\<lambda>x t. newer E s t \<and> \<not> gone s \<and> \<not> ss_leased s \<and> disk_trust E t = x \<and>
       tr_trust_revision (disk_trust E s) = expected \<and> unat (tr_trust_revision x) = unat expected + 1) (newer E s) s"
  unfolding repair_restore_backup_def Let_def acquire_activity_lock_def
  apply (rule wp_bindI, rule wp_ifI, intro wp_failI newer_docs [OF assms], rule refl, rule wp_retI)
  apply (intro wp_bindI wp_ensure_live wp_checkI wp_read_doc wp_load_trust wp_liftI newer_docs [OF assms], simp_all only:)
  apply (rule wp_ifI, intro wp_failI newer_docs [OF assms], simp)
  apply (rule wp_commit_trust [OF _ assms, where g = "\<lambda>r. _\<lparr>tr_trust_revision := r\<rparr>"])
  by (simp, simp, metis docs_eqD(2)) (simp, metis docs_eqD(2))

lemma newer_gone: "upgraded t \<Longrightarrow> gone t \<Longrightarrow> newer E s t"
  by (simp add: newer_def)

lemma wp_purge:
  assumes "upgraded s" "docs s' = docs s" "\<And>t. upgraded t \<Longrightarrow> gone t \<Longrightarrow> Q () t"
  shows "wp (purge_locked E) Q (newer E s) s'"
  unfolding purge_locked_def wp_bind acquire_activity_lock_def wp_check
  using assms newer_docs [OF assms(1)]
  by (auto simp: wp_def Let_def split: io_fate.splits intro!: assms(3) newer_gone)
    (auto simp: gone_def upgraded_def)

lemma wp_load_profiles:
  assumes "upgraded s" "\<And>p t. docs t = docs s \<Longrightarrow> Q p t" "\<And>t. docs t = docs s \<Longrightarrow> X t"
  shows "wp (load_profiles E) Q X s"
  unfolding load_profiles_def wp_bind
  using assms by (intro wp_load_scope_config) (auto split: sum.splits)

section \<open>Retention\<close>

definition misses :: "string \<Rightarrow> known_scopes \<Rightarrow> bool" where
  "misses scope known \<longleftrightarrow> (\<exists>ids. known = KnownScopes ids \<and> scope \<notin> set ids)"

definition THIRTY_DAYS :: int where
  "THIRTY_DAYS = 30 * 24 * 60 * 60 * 1000000000"

text \<open>What a reconciliation does to the time since which the scope is missing.\<close>

lemma reconcile_orphaned:
  assumes "reconcile U known now meta = Inr (result, meta')"
  shows "(\<forall>t. sm_orphaned_at meta' = Some t \<longrightarrow>
      sm_orphaned_at meta = Some t \<and> (misses (sm_scope_id meta) known \<or> known = ScopesUnavailable) \<or>
      sm_orphaned_at meta = None \<and> misses (sm_scope_id meta) known \<and> now \<le> t) \<and>
    (result = Refreshed \<longrightarrow> sm_orphaned_at meta' = None)"
  using assms
  by (auto simp: reconcile_def and_then_def misses_def max_def split: sum.splits known_scopes.splits if_splits)

lemma purge_eligible_time:
  assumes "is_purge_eligible U R meta now = Inr True"
  shows "\<exists>t. sm_orphaned_at meta = Some t \<and> t + THIRTY_DAYS \<le> now"
  using assms
  by (auto simp: is_purge_eligible_def and_then_def checked_add_days_def checked_add_seconds_def ORPHAN_RETENTION_DAYS_def
      THIRTY_DAYS_def split: sum.splits option.splits if_splits)

text \<open>The same calls with all they keep: a read changes the number of calls only.\<close>

lemma wp_read_doc_ticks: "(\<And>n. Q (f s) (s\<lparr>ss_ticks := n\<rparr>)) \<Longrightarrow> (\<And>n. X (s\<lparr>ss_ticks := n\<rparr>)) \<Longrightarrow> wp (read_doc E f) Q X s"
  by (auto simp: wp_def read_doc_def Let_def split: io_fate.splits)

lemma wp_load_profiles_ticks:
  assumes "upgraded s" "\<And>p n. Q p (s\<lparr>ss_ticks := n\<rparr>)" "\<And>n. X (s\<lparr>ss_ticks := n\<rparr>)"
  shows "wp (load_profiles E) Q X s"
  unfolding load_profiles_def load_scope_config_def wp_bind
  using assms by (intro wp_read_doc_ticks) (auto simp: upgraded_def wp_bind split: option.splits profiles_file.splits sum.splits)

lemma wp_load_trust_ticks:
  assumes "\<And>p n. Q p (s\<lparr>ss_ticks := n\<rparr>)" "\<And>n. X (s\<lparr>ss_ticks := n\<rparr>)"
  shows "wp (load_trust E) Q X s"
  unfolding load_trust_def wp_bind
  using assms by (intro wp_read_doc_ticks) (auto simp: wp_bind split: option.splits sum.splits)

lemma meta_validate_error: "meta_validate U scope m \<noteq> Inl NotFoundError"
  by (auto simp: meta_validate_def validate_header_def map_invalid_def and_then_def ensure_def split: sum.splits option.splits)

lemma meta_validate_scope: "meta_validate U scope m = Inr () \<Longrightarrow> me_scope_id m = scope"
  by (auto simp: meta_validate_def validate_header_def map_invalid_def and_then_def ensure_def split: sum.splits option.splits if_splits)

lemma load_meta_cases:
  "load_meta E s = (r, t) \<Longrightarrow> (\<exists>n. t = s\<lparr>ss_ticks := n\<rparr>) \<and>
     (\<forall>m. r = Inr m \<longrightarrow> ss_meta s = Some m \<and> me_scope_id m = se_scope E) \<and> (r = Inl NotFoundError \<longrightarrow> ss_meta s = None)"
  using meta_validate_error meta_validate_scope
  by (auto simp: load_meta_def read_doc_def bindS_def Let_def failS_def liftS_def retS_def
      split: io_fate.splits option.splits sum.splits)

definition orphan_time :: "scope_state \<Rightarrow> utc_timestamp option" where
  "orphan_time s = Option.bind (ss_meta s) me_orphaned_at"

text \<open>What a reconciliation may do to a scope and to the time since which it is missing.\<close>

definition reconciled :: "string \<Rightarrow> known_scopes \<Rightarrow> utc_timestamp \<Rightarrow> scope_state \<Rightarrow> scope_state \<Rightarrow> bool" where
  "reconciled scope known now s t \<longleftrightarrow>
     (gone t \<longrightarrow> gone s \<or> misses scope known \<and> \<not> ss_leased s \<and> (\<exists>t0. orphan_time s = Some t0 \<and> t0 + THIRTY_DAYS \<le> now)) \<and>
     (\<forall>t0. orphan_time t = Some t0 \<longrightarrow> orphan_time s = Some t0 \<or> misses scope known \<and> now \<le> t0)"

lemma reconciled_same: "reconciled scope known now s (s\<lparr>ss_ticks := n\<rparr>)"
  by (simp add: reconciled_def gone_def orphan_time_def)

lemma wp_purge_ticks:
  assumes "\<not> ss_leased s \<Longrightarrow> Q () (s\<lparr>ss_ticks := Suc (ss_ticks s), ss_profiles := None, ss_trust := None, ss_meta := None,
      ss_rollback := None, ss_rollback_meta := None, ss_tombstone := False, ss_purged := True\<rparr>)"
    "\<not> ss_leased s \<Longrightarrow> X (s\<lparr>ss_ticks := Suc (ss_ticks s), ss_profiles := None, ss_trust := None, ss_meta := None,
      ss_rollback := None, ss_rollback_meta := None, ss_tombstone := True\<rparr>)"
    "X s" "X (s\<lparr>ss_ticks := Suc (ss_ticks s)\<rparr>)"
  shows "wp (purge_locked E) Q X s"
  unfolding purge_locked_def wp_bind acquire_activity_lock_def wp_check
  using assms by (auto simp: wp_def Let_def split: io_fate.splits)

text \<open>The metadata a reconciliation starts from.\<close>

lemma wp_start_meta:
  assumes "\<And>n m. me_scope_id m = se_scope E \<Longrightarrow> me_orphaned_at m = orphan_time s \<Longrightarrow> Q m (s\<lparr>ss_ticks := n\<rparr>)"
    "\<And>n. X (s\<lparr>ss_ticks := n\<rparr>)"
  shows "wp (\<lambda>s. case load_meta E s of
                  (Inr m, s') \<Rightarrow> (Inr m, s')
                | (Inl NotFoundError, s') \<Rightarrow> (Inr (meta_new (se_scope E) now), s')
                | (Inl e, s') \<Rightarrow> (Inl e, s')) Q X s"
proof -
  obtain r t where l: "load_meta E s = (r, t)" by fastforce
  from load_meta_cases [OF l] assms l show ?thesis
    by (cases r) (auto simp: wp_def meta_new_def orphan_time_def split: store_error.splits)
qed

lemma reconcile_known_scope_newer:
  assumes "upgraded s"
  shows "wp (reconcile_known_scope E known now) (\<lambda>_. newer E s) (newer E s) s"
  unfolding reconcile_known_scope_def Let_def
  apply (intro wp_bindI wp_ensure_live wp_liftI wp_ifI wp_retI wp_load_profiles_ticks wp_load_trust_ticks wp_start_meta wp_prod wp_write_doc wp_purge_ticks)
  using assms
  apply (simp_all add: newer_docs)
  apply (auto simp: newer_def upgraded_def gone_def)
  done

lemma wp_meta_readable:
  assumes "\<And>n. Q () (s\<lparr>ss_ticks := n\<rparr>)" "\<And>n. X (s\<lparr>ss_ticks := n\<rparr>)"
  shows "wp (\<lambda>s. case load_meta E s of
                  (Inr _, s') \<Rightarrow> (Inr (), s')
                | (Inl NotFoundError, s') \<Rightarrow> (Inr (), s')
                | (Inl e, s') \<Rightarrow> (Inl e, s')) Q X s"
proof -
  obtain r t where l: "load_meta E s = (r, t)" by fastforce
  from load_meta_cases [OF l] assms l show ?thesis
    by (cases r) (auto simp: wp_def split: store_error.splits)
qed

lemma wp_fun_if: "wp (\<lambda>s. if b s then m s else n s) Q X s = (if b s then wp m Q X s else wp n Q X s)"
  by (simp add: wp_def)

lemma wp_scopes: "(known = ScopesUnavailable \<Longrightarrow> wp m Q X s) \<Longrightarrow> (\<And>ids. known = KnownScopes ids \<Longrightarrow> wp (f ids) Q X s) \<Longrightarrow>
    wp (case known of ScopesUnavailable \<Rightarrow> m | KnownScopes ids \<Rightarrow> f ids) Q X s"
  by (simp split: known_scopes.split)

lemma purge_if_deleted_newer:
  assumes "upgraded s"
  shows "wp (purge_if_deleted E known) (\<lambda>_. newer E s) (newer E s) s"
    (is "wp _ (\<lambda>_. ?P) _ s")
proof -
  have ticks: "?P (s\<lparr>ss_ticks := n\<rparr>)" for n
    using assms by (simp add: newer_docs)
  have s0: "?P s" using assms by (simp add: newer_docs)
  have purge: "wp (bindS (purge_locked E) (\<lambda>_. retS True)) (\<lambda>_. ?P) ?P (s\<lparr>ss_ticks := n\<rparr>)"
    if "known = KnownScopes ids" "se_scope E \<notin> set ids" for n ids
    using that ticks
    by (intro wp_bindI wp_purge_ticks wp_retI) (auto simp: newer_def upgraded_def gone_def)
  have docs: "wp (bindS (validate_documents_for_purge E) (\<lambda>_. bindS (purge_locked E) (\<lambda>_. retS True))) (\<lambda>_. ?P) ?P s"
    if "known = KnownScopes ids" "se_scope E \<notin> set ids" for ids
    unfolding validate_documents_for_purge_def
    apply (intro wp_bindI [where f="\<lambda>_. bindS (purge_locked E) (\<lambda>_. retS True)"] wp_bindI [where m = "load_profiles E"]
        wp_bindI [where m = "load_trust E"] wp_load_profiles_ticks [OF assms] wp_load_trust_ticks wp_meta_readable ticks)
    using purge [OF that] ticks by auto
  have here: "wp (bindS (purge_locked E) (\<lambda>_. retS True)) (\<lambda>_. ?P) ?P s"
    if "known = KnownScopes ids" "se_scope E \<notin> set ids" for ids
    using purge [OF that, of "ss_ticks s"] by simp
  have rest: "wp (bindS (case known of
                 ScopesUnavailable \<Rightarrow> failS (InvalidData ''known_scopes_unavailable'')
               | KnownScopes ids \<Rightarrow>
                   if se_scope E \<in> set ids then failS (InvalidData ''scope_not_deleted'') else retS ()) (\<lambda>_ s.
          if ss_tombstone s then bindS (purge_locked E) (\<lambda>_. retS True) s
          else bindS (validate_documents_for_purge E) (\<lambda>_. bindS (purge_locked E) (\<lambda>_. retS True)) s)) (\<lambda>_. ?P) ?P s"
    using s0 here docs by (cases known) (auto intro!: wp_bindI simp: wp_fun_if)
  have "wp (Pair (Inr False)) (\<lambda>_. ?P) ?P s" using s0 by (simp add: wp_def)
  with s0 rest show ?thesis
    unfolding purge_if_deleted_def wp_fun_if by (auto intro!: wp_bindI wp_liftI)
qed

section \<open>What the other operations leave alone\<close>

text \<open>
  Loading a scope may migrate its profiles and write almost every document. A relation between states that
  all these writes respect is respected by the loads, whatever fails.
\<close>

named_theorems keep_rules

locale kept =
  fixes rel :: "scope_state \<Rightarrow> scope_state \<Rightarrow> bool"
  assumes rel_refl: "rel s s" and rel_trans: "rel s t \<Longrightarrow> rel t u \<Longrightarrow> rel s u"
    and rel_ticks: "rel s (ss_ticks_update n s)"
    and rel_writes: "rel s (ss_profiles_update p s)" "rel s (ss_trust_update q s)" "rel s (ss_backups_update b s)"
      "rel s (ss_quarantine_update b s)" "rel s (ss_rollback_update r s)" "rel s (ss_rollback_meta_update m s)"
begin

definition keeps :: "'a scope_cmd \<Rightarrow> bool" where
  "keeps m \<longleftrightarrow> (\<forall>s. rel s (snd (m s)))"

lemma keeps_run: "keeps m \<Longrightarrow> rel s (snd (m s))"
  by (simp add: keeps_def)

lemma keeps_after:
  assumes "keeps m" and "\<And>r t. m s = (r, t) \<Longrightarrow> rel t (snd (f r t))"
  shows "rel s (snd (case m s of (r, t) \<Rightarrow> f r t))"
  using rel_trans [OF keeps_run [OF assms(1), of s], of "snd (f (fst (m s)) (snd (m s)))"] assms(2) [of "fst (m s)" "snd (m s)"]
  by (simp add: case_prod_beta)

lemma keeps_seq [keep_rules]:
  assumes "keeps m" and "\<And>x. keeps (f x)"
  shows "keeps (bindS m f)"
  unfolding keeps_def
proof
  fix s
  have "bindS m f s = (case m s of (r, t) \<Rightarrow> case r of Inl e \<Rightarrow> (Inl e, t) | Inr x \<Rightarrow> f x t)"
    by (simp add: bindS_def case_prod_beta split: sum.split)
  moreover have "rel s (snd (case m s of (r, t) \<Rightarrow> case r of Inl e \<Rightarrow> (Inl e, t) | Inr x \<Rightarrow> f x t))"
    by (rule keeps_after [OF assms(1)]) (simp add: rel_refl keeps_run [OF assms(2)] split: sum.split)
  ultimately show "rel s (snd (bindS m f s))" by simp
qed

lemma keeps_pure [keep_rules]: "keeps (retS x)" "keeps (failS e)" "keeps (liftS r)" "keeps (getS g)" "keeps (checkS p msg)"
  by (simp_all add: keeps_def retS_def failS_def liftS_def getS_def checkS_def rel_refl)

lemma keeps_cases [keep_rules]:
  "keeps m \<Longrightarrow> keeps n \<Longrightarrow> keeps (if b then m else n)"
  "keeps m \<Longrightarrow> (\<And>x. keeps (f x)) \<Longrightarrow> keeps (case y of None \<Rightarrow> m | Some x \<Rightarrow> f x)"
  "(\<And>a b. keeps (g a b)) \<Longrightarrow> keeps (case z of (a, b) \<Rightarrow> g a b)"
  by (auto split: option.split prod.split)

lemma keeps_read [keep_rules]: "keeps (read_doc E f)"
  using rel_ticks by (auto simp: keeps_def read_doc_def Let_def split: io_fate.split)

lemma keeps_write:
  assumes "\<And>s. rel s (f s)"
  shows "keeps (write_doc E f)"
  using rel_ticks rel_trans [OF rel_ticks assms] by (auto simp: keeps_def write_doc_def Let_def split: io_fate.split)

lemma keeps_writes [keep_rules]:
  "keeps (write_doc E (ss_profiles_update p))" "keeps (write_doc E (ss_trust_update q))" "keeps (write_doc E (ss_backups_update b))"
  "keeps (write_doc E (ss_quarantine_update b))" "keeps (write_doc E (ss_rollback_update r))" "keeps (write_doc E (ss_rollback_meta_update m))"
  by (intro keeps_write rel_writes)+

lemma keeps_profiles [keep_rules]:
  "(\<And>bs. keeps (f bs)) \<Longrightarrow> (\<And>v. keeps (g v)) \<Longrightarrow> (\<And>m. keeps (h m)) \<Longrightarrow>
     keeps (case p of ProfilesV1 bs \<Rightarrow> f bs | ProfilesV2 v \<Rightarrow> g v | ProfilesUnreadable m \<Rightarrow> h m)"
  by (simp split: profiles_file.split)

lemma keeps_loads [keep_rules]: "keeps ensure_live" "keeps acquire_activity_lock" "keeps (write_scope_config E v)" "keeps (load_trust E)"
    "keeps (read_scope_config_v2 E)" "keeps (restore_v1_after_migration_failure E bs)" "keeps (verify_v1_rollback E)" "keeps (load_meta E)"
  unfolding ensure_live_def acquire_activity_lock_def write_scope_config_def load_trust_def read_scope_config_v2_def
    restore_v1_after_migration_failure_def verify_v1_rollback_def load_meta_def
  by (intro keep_rules)+

lemma keeps_persist [keep_rules]: "keeps (persist_v1_rollback E bs)"
  unfolding persist_v1_rollback_def by (intro keep_rules)

lemma keeps_readback:
  "keeps (\<lambda>s. case read_scope_config_v2 E s of
                    (Inr v, s') \<Rightarrow> if v = migrated then (Inr v, s') else restore_v1_after_migration_failure E bs s'
                  | (Inl e, s') \<Rightarrow>
                      (case restore_v1_after_migration_failure E bs s' of
                         (Inr _, s'') \<Rightarrow> (Inl e, s'')
                       | (Inl _, s'') \<Rightarrow> (Inl (OtherError ''migration_restore_failed''), s'')))"
  unfolding keeps_def
proof
  fix s
  let ?restore = "restore_v1_after_migration_failure E bs"
  obtain r t where read: "read_scope_config_v2 E s = (r, t)" by fastforce
  obtain r' t' where restored: "?restore t = (r', t')" by fastforce
  have "rel s t" using keeps_run [OF keeps_loads(5), of s E] read by simp
  moreover from this have "rel s t'"
    using rel_trans keeps_run [OF keeps_loads(6), of t E bs] restored by simp
  ultimately show "rel s (snd (case read_scope_config_v2 E s of
                    (Inr v, s') \<Rightarrow> if v = migrated then (Inr v, s') else ?restore s'
                  | (Inl e, s') \<Rightarrow>
                      (case ?restore s' of
                         (Inr _, s'') \<Rightarrow> (Inl e, s'')
                       | (Inl _, s'') \<Rightarrow> (Inl (OtherError ''migration_restore_failed''), s''))))"
    by (simp add: read restored split: sum.split)
qed

lemma keeps_load_scope_config [keep_rules]: "keeps (load_scope_config E)"
  unfolding load_scope_config_def by (intro keep_rules keeps_readback)

lemma keeps_load_profiles [keep_rules]: "keeps (load_profiles E)"
  unfolding load_profiles_def by (intro keep_rules)

lemma keeps_validate_documents: "keeps (validate_documents_for_purge E)"
proof -
  have "keeps (\<lambda>s. case load_meta E s of
       (Inr _, s') \<Rightarrow> (Inr (), s')
     | (Inl NotFoundError, s') \<Rightarrow> (Inr (), s')
     | (Inl e, s') \<Rightarrow> (Inl e, s'))"
    using keeps_run [OF keeps_loads(8), of _ E] unfolding keeps_def
    by (auto split: prod.splits sum.splits store_error.splits) (metis snd_conv)+
  then show ?thesis unfolding validate_documents_for_purge_def by (intro keep_rules)
qed

lemma keeps_wp:
  assumes "keeps m" and "\<And>x t. rel s t \<Longrightarrow> Q x t" and "\<And>t. rel s t \<Longrightarrow> X t"
  shows "wp m Q X s"
  using keeps_run [OF assms(1), of s] assms(2,3) by (auto simp: wp_def split: prod.split sum.split)

end

text \<open>
  Two such relations. \<open>calm\<close> also survives the creation of metadata: the scope is there, leased and marked
  missing as before. \<open>unmoved\<close> keeps the metadata itself.
\<close>

definition calm :: "scope_state \<Rightarrow> scope_state \<Rightarrow> bool" where
  "calm s t \<longleftrightarrow> gone t = gone s \<and> ss_leased t = ss_leased s \<and> (\<forall>t0. orphan_time t = Some t0 \<longrightarrow> orphan_time s = Some t0)"

definition unmoved :: "scope_state \<Rightarrow> scope_state \<Rightarrow> bool" where
  "unmoved s t \<longleftrightarrow> gone t = gone s \<and> ss_leased t = ss_leased s \<and> ss_meta t = ss_meta s"

interpretation calming: kept calm
  by unfold_locales (auto simp: calm_def gone_def orphan_time_def)

interpretation loading: kept unmoved
  by unfold_locales (auto simp: unmoved_def gone_def)

abbreviation calms :: "'a scope_cmd \<Rightarrow> bool" where
  "calms \<equiv> calming.keeps"

lemma calms_ensure_metadata [keep_rules]: "calms (ensure_metadata E)"
  unfolding calming.keeps_def
proof
  fix s
  obtain r t where l: "load_meta E s = (r, t)" by fastforce
  from load_meta_cases [OF l] l show "calm s (snd (ensure_metadata E s))"
    by (cases r) (auto simp: ensure_metadata_def calm_def gone_def orphan_time_def write_doc_def Let_def meta_new_def
        split: store_error.splits io_fate.splits)
qed

lemma calms_replace [keep_rules]: "calms (replace_connections E x c)" "calms (replace_rules_inner E x c held)" "calms (replace_profiles E x p)"
    "calms (replace_trust E x t)" "calms (repair_remove_endpoint E host port now)" "calms (repair_restore_backup E k x)"
  unfolding replace_connections_def replace_rules_inner_def replace_profiles_def replace_trust_def
    repair_remove_endpoint_def repair_restore_backup_def Let_def
  by (intro keep_rules)+

text \<open>
  What a reconciliation and a purge on demand do to a scope in any state, also one whose profiles are still of
  version 1 and are migrated on the way.
\<close>

lemma unmovedD: "unmoved s t \<Longrightarrow> gone t = gone s \<and> ss_leased t = ss_leased s \<and> orphan_time t = orphan_time s"
  by (simp add: unmoved_def orphan_time_def)

lemma reconcile_known_scope_wp:
  "wp (reconcile_known_scope E known now)
    (\<lambda>r t. reconciled (se_scope E) known now s t \<and> (r = Refreshed \<longrightarrow> orphan_time t = None))
    (\<lambda>t. reconciled (se_scope E) known now s t) s"
  unfolding reconcile_known_scope_def Let_def
  apply (intro wp_bindI wp_ensure_live wp_liftI wp_ifI wp_retI wp_start_meta wp_prod wp_write_doc wp_purge_ticks
      loading.keeps_wp [OF loading.keeps_load_profiles] loading.keeps_wp [OF loading.keeps_loads(4)])
  apply (simp_all add: reconciled_same)
  apply (auto simp: reconciled_def gone_def orphan_time_def meta_retention_def set_retention_def map_invalid_def unmoved_def split: sum.splits
   dest!: reconcile_orphaned purge_eligible_time)
   apply (auto simp: THIRTY_DAYS_def)
  done

lemma purge_if_deleted_wp:
  "wp (purge_if_deleted E known) (\<lambda>_ t. (gone t \<longrightarrow> gone s \<or> misses (se_scope E) known \<and> \<not> ss_leased s) \<and>
      (\<forall>t0. orphan_time t = Some t0 \<longrightarrow> orphan_time s = Some t0))
    (\<lambda>t. (gone t \<longrightarrow> gone s \<or> misses (se_scope E) known \<and> \<not> ss_leased s) \<and>
      (\<forall>t0. orphan_time t = Some t0 \<longrightarrow> orphan_time s = Some t0)) s"
    (is "wp _ (\<lambda>_. ?P) _ s")
proof -
  have same: "?P t" if "unmoved s t" for t using unmovedD [OF that] by simp
  have purge: "wp (bindS (purge_locked E) (\<lambda>_. retS True)) (\<lambda>_. ?P) ?P t"
    if "known = KnownScopes ids" "se_scope E \<notin> set ids" "unmoved s t" for ids t
  proof (intro wp_bindI wp_purge_ticks)
    have ticks: "unmoved s (t\<lparr>ss_ticks := n\<rparr>)" for n using that(3) by (simp add: unmoved_def gone_def)
    then show "?P (t\<lparr>ss_ticks := Suc (ss_ticks t)\<rparr>)" by (rule same)
    show "?P t" using that(3) by (rule same)
  qed (use that(1,2) unmovedD [OF that(3)] in \<open>auto simp: gone_def orphan_time_def misses_def\<close>)
  have docs: "wp (bindS (validate_documents_for_purge E) (\<lambda>_. bindS (purge_locked E) (\<lambda>_. retS True))) (\<lambda>_. ?P) ?P s"
    if "known = KnownScopes ids" "se_scope E \<notin> set ids" for ids
    by (rule wp_bindI, rule loading.keeps_wp [OF loading.keeps_validate_documents], rule purge [OF that], assumption, rule same)
  have rest: "wp (bindS (case known of
                 ScopesUnavailable \<Rightarrow> failS (InvalidData ''known_scopes_unavailable'')
               | KnownScopes ids \<Rightarrow>
                   if se_scope E \<in> set ids then failS (InvalidData ''scope_not_deleted'') else retS ()) (\<lambda>_ s.
          if ss_tombstone s then bindS (purge_locked E) (\<lambda>_. retS True) s
          else bindS (validate_documents_for_purge E) (\<lambda>_. bindS (purge_locked E) (\<lambda>_. retS True)) s)) (\<lambda>_. ?P) ?P s"
    using same [OF loading.rel_refl] purge [OF _ _ loading.rel_refl] docs
    by (cases known) (auto intro!: wp_bindI simp: wp_fun_if)
  have "wp (Pair (Inr False)) (\<lambda>_. ?P) ?P s" using same [OF loading.rel_refl] by (simp add: wp_def)
  with same [OF loading.rel_refl] rest show ?thesis
    unfolding purge_if_deleted_def wp_fun_if by (auto intro!: wp_bindI wp_liftI)
qed

section \<open>Runs\<close>

text \<open>
  The operations on one scope. The write gate and the file lock make every operation one step. A lease
  is taken and given back by a session of the scope.
\<close>

datatype store_op =
    OpLoad
  | OpReplaceConnections wire_counter scope_config_v2
  | OpReplaceRules bool wire_counter scope_config_v2
  | OpReplaceProfiles wire_counter stored_profiles_v1
  | OpReplaceTrust wire_counter stored_trust
  | OpRemoveEndpoint string u16 utc_timestamp
  | OpRestoreBackup string wire_counter
  | OpReconcile known_scopes utc_timestamp
  | OpPurge known_scopes
  | OpLease bool

definition store_step :: "store_env \<Rightarrow> scope_state \<Rightarrow> store_op \<Rightarrow> scope_state" where
  "store_step E s op = (case op of
       OpLoad \<Rightarrow> snd (load_profiles E s)
     | OpReplaceConnections expected next \<Rightarrow> snd (replace_connections E expected next s)
     | OpReplaceRules held expected next \<Rightarrow> snd (replace_rules_inner E expected next held s)
     | OpReplaceProfiles expected next \<Rightarrow> snd (replace_profiles E expected next s)
     | OpReplaceTrust expected next \<Rightarrow> snd (replace_trust E expected next s)
     | OpRemoveEndpoint host port now \<Rightarrow> snd (repair_remove_endpoint E host port now s)
     | OpRestoreBackup k expected \<Rightarrow> snd (repair_restore_backup E k expected s)
     | OpReconcile known now \<Rightarrow> snd (reconcile_known_scope E known now s)
     | OpPurge known \<Rightarrow> snd (purge_if_deleted E known s)
     | OpLease held \<Rightarrow> s\<lparr>ss_leased := held\<rparr>)"

lemma wp_snd_mono:
  assumes "wp m Q X s" "\<And>x t. Q x t \<Longrightarrow> P t" "\<And>t. X t \<Longrightarrow> P t"
  shows "P (snd (m s))"
  using wp_mono [OF assms(1), of "\<lambda>_. P" P] assms(2,3) by (simp add: wp_snd)

lemma store_step_newer:
  assumes "upgraded s"
  shows "newer E s (store_step E s op)"
proof -
  have c: "newer E s t" if "docs t = docs (with_config s v)" "connections_written E x n s v \<or> rules_written E x n s v" for t v x n
    using that by (auto simp: connections_written_def rules_written_def intro: newer_with_config)
  have t: "newer E s t" if "docs t = docs (s\<lparr>ss_trust := Some x\<rparr>)" "unat (tr_trust_revision x) = unat (tr_trust_revision (disk_trust E s)) + 1" for t x
    using that assms by (intro newer_with_trust) (auto simp: moved_def word_less_nat_alt)
  have "wp (load_profiles E) (\<lambda>_. newer E s) (newer E s) s"
    using assms by (intro wp_load_profiles newer_docs)
  then have "newer E s (snd (load_profiles E s))" by (simp add: wp_snd)
  moreover have "newer E s (snd (replace_connections E x n s))" for x n
    by (rule wp_snd_mono [OF replace_connections_wp [OF assms]]) (auto intro: c)
  moreover have "newer E s (snd (replace_rules_inner E x n held s))" for x n held
    by (rule wp_snd_mono [OF replace_rules_inner_wp [OF assms]]) (auto intro: c)
  moreover have "newer E s (snd (replace_profiles E x n s))" for x n
    using replace_profiles_newer [OF assms] by (simp add: wp_snd)
  moreover have "newer E s (snd (replace_trust E x n s))" for x n
    by (rule wp_snd_mono [OF replace_trust_wp [OF assms]]) (auto intro: t)
  moreover have "newer E s (snd (repair_remove_endpoint E host port now s))" for host port now
    by (rule wp_snd_mono [OF repair_remove_endpoint_wp [OF assms]]) auto
  moreover have "newer E s (snd (repair_restore_backup E k x s))" for k x
    by (rule wp_snd_mono [OF repair_restore_backup_wp [OF assms]]) auto
  moreover have "newer E s (snd (reconcile_known_scope E known now s))" for known now
    using reconcile_known_scope_newer [OF assms] by (simp add: wp_snd)
  moreover have "newer E s (snd (purge_if_deleted E known s))" for known
    using purge_if_deleted_newer [OF assms] by (simp add: wp_snd)
  moreover have "newer E s (s\<lparr>ss_leased := b\<rparr>)" for b
    using assms by (simp add: newer_docs docs_def)
  ultimately show ?thesis
    unfolding store_step_def by (cases op) simp_all
qed

text \<open>A run only moves on.\<close>

interpretation store_runs: transition_system s "store_step E" "\<lambda>t. upgraded s \<longrightarrow> newer E s t" for E s
proof
  show "upgraded s \<longrightarrow> newer E s s" by (simp add: newer_docs)
  show "upgraded s \<longrightarrow> newer E s (store_step E t op)" if "upgraded s \<longrightarrow> newer E s t" for t op
    using that store_step_newer [of t E op] newer_trans by (auto simp: newer_def)
qed

lemma load_scope_config_read:
  assumes "load_scope_config E s = (Inr c, t)"
  shows "upgraded t \<and> disk_config E t = c"
proof -
  have v2: "ss_profiles t = Some (ProfilesV2 v)" if "read_scope_config_v2 E s = (Inr v, t)" for v s t
    using that
    by (auto simp: read_scope_config_v2_def read_doc_def bindS_def Let_def failS_def liftS_def retS_def
        split: io_fate.splits option.splits sum.splits profiles_file.splits)
  have never: "restore_v1_after_migration_failure E bs s \<noteq> (Inr x, t)" for bs s x t
    by (auto simp: restore_v1_after_migration_failure_def bindS_def failS_def split: prod.splits sum.splits)
  show ?thesis
    using assms
    by (auto simp: load_scope_config_def read_doc_def bindS_def Let_def failS_def liftS_def retS_def getS_def never
        upgraded_def disk_config_def
        split: io_fate.splits option.splits sum.splits profiles_file.splits prod.splits if_splits dest!: v2)
qed

lemma moved_same: "moved revision content c d \<Longrightarrow> revision d = revision c \<Longrightarrow> content d = content (c :: 'a)"
  by (auto simp: moved_def)

lemma disk_config_written: "docs t = docs (with_config s v) \<Longrightarrow> disk_config E t = v"
  by (simp add: docs_def with_config_def disk_config_def)

text \<open>What a client may conclude when its revision is still the current one.\<close>

lemma loaded_still_current:
  assumes "load_scope_config E s0 = (Inr c, s1)" "s2 = foldl (store_step E) s1 ops" "\<not> gone s2"
  shows "upgraded s2" "config_moved c (disk_config E s2)"
proof -
  from load_scope_config_read [OF assms(1)] have "upgraded s1" "disk_config E s1 = c" by auto
  with store_runs.inv_reachable [of s1 E ops] assms(2,3) show "upgraded s2" "config_moved c (disk_config E s2)"
    by (auto simp: newer_def)
qed

text \<open>
  C2: no lost update. A client loads the configuration of a scope; any operations follow, each with
  any failures of its reads and writes. When the client then replaces the connections under the
  revision it loaded and this succeeds, the connections on disk were still the ones it had loaded,
  the rules of the moment are kept, and its connections are on disk under the next revision, in a
  configuration that passes validation. The same for the rules.
\<close>

theorem no_lost_update:
  assumes "load_scope_config E s0 = (Inr c, s1)" "s2 = foldl (store_step E) s1 ops"
  shows "(replace_connections E (sc_connections_revision c) next s2 = (Inr v, s3) \<longrightarrow>
      sc_connections (disk_config E s2) = sc_connections c \<and> disk_config E s3 = v \<and> config_ok (se_uuid E) (se_scope E) v \<and>
      sc_connections v = sc_connections next \<and> sc_rules v = sc_rules (disk_config E s2) \<and>
      unat (sc_connections_revision v) = unat (sc_connections_revision c) + 1) \<and>
    (replace_rules E (sc_rules_revision c) next s2 = (Inr v, s3) \<longrightarrow>
      sc_rules (disk_config E s2) = sc_rules c \<and> disk_config E s3 = v \<and> config_ok (se_uuid E) (se_scope E) v \<and>
      sc_rules v = sc_rules next \<and> sc_connections v = sc_connections (disk_config E s2) \<and>
      unat (sc_rules_revision v) = unat (sc_rules_revision c) + 1)"
proof -
  have up: "upgraded s2"
    using store_runs.inv_reachable [of s1 E ops] load_scope_config_read [OF assms(1)] assms(2) by (auto simp: newer_def)
  note current = loaded_still_current(2) [OF assms, unfolded config_moved_def]
  show ?thesis
  proof (rule conjI; rule impI)
    assume "replace_connections E (sc_connections_revision c) next s2 = (Inr v, s3)"
    from wpD [OF replace_connections_wp [OF up] this]
    have w: "docs s3 = docs (with_config s2 v)" "connections_written E (sc_connections_revision c) next s2 v" by auto
    with current have "sc_connections (disk_config E s2) = sc_connections c"
      by (auto simp: connections_written_def moved_def)
    with w disk_config_written [OF w(1)] show "sc_connections (disk_config E s2) = sc_connections c \<and> disk_config E s3 = v \<and>
      config_ok (se_uuid E) (se_scope E) v \<and> sc_connections v = sc_connections next \<and> sc_rules v = sc_rules (disk_config E s2) \<and>
      unat (sc_connections_revision v) = unat (sc_connections_revision c) + 1"
      by (simp add: connections_written_def)
  next
    assume "replace_rules E (sc_rules_revision c) next s2 = (Inr v, s3)"
    from wpD [OF replace_rules_inner_wp [OF up] this [unfolded replace_rules_def]]
    have w: "docs s3 = docs (with_config s2 v)" "rules_written E (sc_rules_revision c) next s2 v" by auto
    with current have "sc_rules (disk_config E s2) = sc_rules c"
      by (auto simp: rules_written_def moved_def)
    with w disk_config_written [OF w(1)] show "sc_rules (disk_config E s2) = sc_rules c \<and> disk_config E s3 = v \<and>
      config_ok (se_uuid E) (se_scope E) v \<and> sc_rules v = sc_rules next \<and> sc_connections v = sc_connections (disk_config E s2) \<and>
      unat (sc_rules_revision v) = unat (sc_rules_revision c) + 1"
      by (simp add: rules_written_def)
  qed
qed

section \<open>Purging\<close>

lemma store_step_calm:
  assumes "\<forall>k n. op \<noteq> OpReconcile k n" "\<forall>k. op \<noteq> OpPurge k"
  shows "gone (store_step E s op) = gone s \<and> (\<forall>t0. orphan_time (store_step E s op) = Some t0 \<longrightarrow> orphan_time s = Some t0)"
proof (cases "\<exists>b. op = OpLease b")
  case True
  then show ?thesis by (auto simp: store_step_def gone_def orphan_time_def)
next
  case False
  with assms have "calm s (store_step E s op)"
    unfolding store_step_def by (cases op) (simp_all add: calming.keeps_run calms_replace calming.keeps_load_profiles)
  then show ?thesis by (simp add: calm_def)
qed

lemma store_step_reconcile:
  "reconciled (se_scope E) known now s (store_step E s (OpReconcile known now))"
  "reconcile_known_scope E known now s = (Inr Refreshed, t) \<Longrightarrow> orphan_time (store_step E s (OpReconcile known now)) = None"
proof -
  show "reconciled (se_scope E) known now s (store_step E s (OpReconcile known now))"
    unfolding store_step_def store_op.case by (rule wp_snd_mono [OF reconcile_known_scope_wp]) auto
  assume r: "reconcile_known_scope E known now s = (Inr Refreshed, t)"
  with wpD [OF reconcile_known_scope_wp r] show "orphan_time (store_step E s (OpReconcile known now)) = None"
    by (simp add: store_step_def)
qed

lemma store_step_purge:
  "(gone (store_step E s (OpPurge known)) \<longrightarrow> gone s \<or> misses (se_scope E) known \<and> \<not> ss_leased s) \<and>
    (\<forall>t0. orphan_time (store_step E s (OpPurge known)) = Some t0 \<longrightarrow> orphan_time s = Some t0)"
  unfolding store_step_def store_op.case by (rule wp_snd_mono [OF purge_if_deleted_wp]) auto

text \<open>
  The observations of a run that say the scope is missing since \<open>t0\<close>: the mark was there at the start, or a
  reconciliation at or before that time found the scope missing, and no reconciliation after it found the scope.
\<close>

definition unseen :: "store_env \<Rightarrow> scope_state \<Rightarrow> store_op list \<Rightarrow> bool" where
  "unseen E s ops \<longleftrightarrow> (\<forall>xs k n ys t. ops = xs @ OpReconcile k n # ys \<longrightarrow>
     reconcile_known_scope E k n (foldl (store_step E) s xs) \<noteq> (Inr Refreshed, t))"

definition missing_since :: "store_env \<Rightarrow> scope_state \<Rightarrow> store_op list \<Rightarrow> utc_timestamp \<Rightarrow> bool" where
  "missing_since E s0 ops t0 \<longleftrightarrow>
     orphan_time s0 = Some t0 \<and> unseen E s0 ops \<or>
     (\<exists>before known now after. ops = before @ OpReconcile known now # after \<and>
        misses (se_scope E) known \<and> now \<le> t0 \<and>
        unseen E (foldl (store_step E) s0 (before @ [OpReconcile known now])) after)"

lemma unseen_Nil [simp]: "unseen E s []"
  by (simp add: unseen_def)

lemma unseen_snoc:
  assumes "unseen E s ops"
    and "\<forall>k n t. op = OpReconcile k n \<longrightarrow> reconcile_known_scope E k n (foldl (store_step E) s ops) \<noteq> (Inr Refreshed, t)"
  shows "unseen E s (ops @ [op])"
  unfolding unseen_def
proof (intro allI impI)
  fix xs k n ys t
  assume "ops @ [op] = xs @ OpReconcile k n # ys"
  with assms show "reconcile_known_scope E k n (foldl (store_step E) s xs) \<noteq> (Inr Refreshed, t)"
    by (cases ys rule: rev_cases) (auto simp: unseen_def)
qed

lemma missing_since_snoc:
  assumes "missing_since E s0 ops t0"
    and "\<forall>k n t. op = OpReconcile k n \<longrightarrow> reconcile_known_scope E k n (foldl (store_step E) s0 ops) \<noteq> (Inr Refreshed, t)"
  shows "missing_since E s0 (ops @ [op]) t0"
  using assms(1) unfolding missing_since_def
proof (elim disjE exE conjE)
  assume "orphan_time s0 = Some t0" "unseen E s0 ops"
  with unseen_snoc [OF _ assms(2)] show "orphan_time s0 = Some t0 \<and> unseen E s0 (ops @ [op]) \<or>
     (\<exists>before known now after. ops @ [op] = before @ OpReconcile known now # after \<and>
        misses (se_scope E) known \<and> now \<le> t0 \<and>
        unseen E (foldl (store_step E) s0 (before @ [OpReconcile known now])) after)" by blast
next
  fix a known now b
  assume m: "ops = a @ OpReconcile known now # b" "misses (se_scope E) known" "now \<le> t0"
    "unseen E (foldl (store_step E) s0 (a @ [OpReconcile known now])) b"
  then have "unseen E (foldl (store_step E) s0 (a @ [OpReconcile known now])) (b @ [op])"
    using assms(2) by (intro unseen_snoc) auto
  with m show "orphan_time s0 = Some t0 \<and> unseen E s0 (ops @ [op]) \<or>
     (\<exists>before known now after. ops @ [op] = before @ OpReconcile known now # after \<and>
        misses (se_scope E) known \<and> now \<le> t0 \<and>
        unseen E (foldl (store_step E) s0 (before @ [OpReconcile known now])) after)" by auto
qed

lemma missing_since_new: "misses (se_scope E) k \<Longrightarrow> n \<le> t0 \<Longrightarrow> missing_since E s0 (ops @ [OpReconcile k n]) t0"
  unfolding missing_since_def
  by (rule disjI2, intro exI [of _ ops] exI [of _ k] exI [of _ n] exI [of _ "[]"]) simp

lemma orphaned_missing:
  "orphan_time (foldl (store_step E) s0 ops) = Some t0 \<Longrightarrow> missing_since E s0 ops t0"
proof (induction ops rule: rev_induct)
  case Nil
  then show ?case by (simp add: missing_since_def)
next
  case (snoc op ops)
  let ?s = "foldl (store_step E) s0 ops"
  show ?case
  proof (cases "\<exists>k n. op = OpReconcile k n")
    case True
    then obtain k n where op: "op = OpReconcile k n" by blast
    have "reconcile_known_scope E k n ?s \<noteq> (Inr Refreshed, t)" for t
      using store_step_reconcile(2) [of E k n ?s] snoc.prems op by fastforce
    moreover have "orphan_time ?s = Some t0 \<or> misses (se_scope E) k \<and> n \<le> t0"
      using store_step_reconcile(1) [of E k n ?s] snoc.prems op by (simp add: reconciled_def)
    ultimately show ?thesis
      using missing_since_snoc [OF snoc.IH] missing_since_new op by blast
  next
    case False
    then have "orphan_time ?s = Some t0"
      using store_step_calm [of op E ?s] store_step_purge [of E ?s] snoc.prems by (cases op) auto
    with False show ?thesis by (intro missing_since_snoc snoc.IH) auto
  qed
qed

lemma first_gone:
  assumes "\<not> gone s" "gone (foldl step s ops)"
  shows "\<exists>before op after. ops = before @ op # after \<and> \<not> gone (foldl step s before) \<and> gone (step (foldl step s before) op)"
  using assms(2)
proof (induction ops rule: rev_induct)
  case Nil
  with assms(1) show ?case by simp
next
  case (snoc op ops)
  show ?case
  proof (cases "gone (foldl step s ops)")
    case True
    with snoc.IH obtain before x after where "ops @ [op] = before @ x # (after @ [op])" "\<not> gone (foldl step s before)"
      "gone (step (foldl step s before) x)" by fastforce
    then show ?thesis by blast
  next
    case False
    with snoc.prems show ?thesis by (intro exI [of _ ops] exI [of _ op] exI [of _ "[]"]) simp
  qed
qed

text \<open>
  C38: the data of a scope, of either schema version and in any state, is only purged when the scope is missing from a
  list of known scopes and no session holds its lease: either on demand, or by a reconciliation at least thirty
  days after the time since which it is missing. That time is the mark the scope already had at the
  start of the run or one set by an earlier reconciliation of the run that found it missing too, with no
  reconciliation in between that found it.
\<close>

theorem purge_needs_absence:
  assumes "\<not> gone s0" "gone (foldl (store_step E) s0 ops)"
  shows "\<exists>before op after. ops = before @ op # after \<and> \<not> gone (foldl (store_step E) s0 before) \<and>
    \<not> ss_leased (foldl (store_step E) s0 before) \<and>
    ((\<exists>known. op = OpPurge known \<and> misses (se_scope E) known) \<or>
     (\<exists>known now t0. op = OpReconcile known now \<and> misses (se_scope E) known \<and> t0 + THIRTY_DAYS \<le> now \<and>
        missing_since E s0 before t0))"
proof -
  obtain before op after where g: "ops = before @ op # after" "\<not> gone (foldl (store_step E) s0 before)"
      "gone (store_step E (foldl (store_step E) s0 before) op)"
    using first_gone [OF assms] by blast
  let ?s = "foldl (store_step E) s0 before"
  consider known where "op = OpPurge known" | known now where "op = OpReconcile known now"
    using store_step_calm [of op E ?s] g(2,3) by blast
  then show ?thesis
  proof cases
    case 1
    with store_step_purge [of E ?s known] g show ?thesis by (intro exI [of _ before] exI [of _ op] exI [of _ after]) auto
  next
    case 2
    with store_step_reconcile(1) [of E known now ?s] g(2,3) obtain t0 where
      t: "misses (se_scope E) known" "\<not> ss_leased ?s" "orphan_time ?s = Some t0" "t0 + THIRTY_DAYS \<le> now"
      by (auto simp: reconciled_def)
    moreover have "missing_since E s0 before t0" using t(3) by (rule orphaned_missing)
    ultimately show ?thesis using g(1,2) 2
      by (intro exI [of _ before] exI [of _ op] exI [of _ after]) blast
  qed
qed

definition demo_env :: store_env where
  "demo_env = \<lparr> se_uuid = demo_uuids,
     se_keys = \<lparr> kl_decode = \<lambda>_. None, kl_encode = \<lambda>_. [], kl_parse = \<lambda>_. None \<rparr>,
     se_codec = \<lparr> cd_parse_v1 = \<lambda>_. None, cd_sha256 = \<lambda>_. [], cd_trust_digest = \<lambda>_. [], cd_endpoint_hash = \<lambda>_ _. [],
                  cd_timestamp = \<lambda>_. None \<rparr>,
     se_range = \<lambda>_. True, se_scope = ''scope'', se_fate = \<lambda>_. IoOk,
     se_fresh = \<lambda>_ _. [], se_now = \<lambda>_. 0 \<rparr>"

definition demo_scope :: scope_state where
  "demo_scope = \<lparr> ss_profiles = None, ss_trust = None, ss_meta = None, ss_rollback = None, ss_rollback_meta = None,
     ss_backups = [], ss_quarantine = [], ss_leased = False, ss_tombstone = False, ss_purged = False, ss_ticks = 0 \<rparr>"

text \<open>The demonstration: a write of the rules comes between the load and the write of the connections.\<close>

definition demo_config :: "wire_counter \<Rightarrow> wire_counter \<Rightarrow> scope_config_v2" where
  "demo_config connections rules =
     \<lparr> sc_schema_version = V2_SCHEMA_VERSION, sc_scope_id = ''scope'', sc_connections_revision = connections,
       sc_rules_revision = rules, sc_connections = [], sc_rules = [] \<rparr>"

lemma demo_config_valid: "config_validate demo_uuids ''scope'' (demo_config a b) = Inr ()"
  unfolding config_validate_ok by (simp add: demo_config_def config_ok_def demo_uuids_def validate_uuid_v4_def)

definition demo_meta :: stored_meta where
  "demo_meta = meta_new ''scope'' 0"

definition demo_at :: "wire_counter \<Rightarrow> wire_counter \<Rightarrow> nat \<Rightarrow> scope_state" where
  "demo_at a b n = demo_scope\<lparr>ss_profiles := Some (ProfilesV2 (demo_config a b)), ss_meta := Some demo_meta, ss_ticks := n\<rparr>"

lemma demo_meta_valid: "meta_validate demo_uuids ''scope'' demo_meta = Inr ()"
  by code_simp

lemmas demo_simps = ensure_live_def checkS_def acquire_activity_lock_def load_scope_config_def demo_env_def map_invalid_def
  bindS_def read_doc_def write_doc_def retS_def liftS_def failS_def Let_def counter_next_def counter_increment_def checked_add_def
  write_scope_config_def ensure_metadata_def load_meta_def

lemma demo_load: "load_scope_config demo_env demo_scope = (Inr (demo_config 0 0), demo_scope\<lparr>ss_ticks := 1\<rparr>)"
  by (simp add: demo_simps demo_scope_def demo_config_def config_empty_def)

lemma demo_rules: "replace_rules_inner demo_env 0 (demo_config 0 0) False (demo_scope\<lparr>ss_ticks := 1\<rparr>) = (Inr (demo_config 0 1), demo_at 0 1 5)"
  using demo_config_valid [of 0 1]
  by (simp add: replace_rules_inner_def demo_simps demo_scope_def config_empty_def demo_config_def demo_at_def demo_meta_def)

lemma demo_write: "replace_connections demo_env 0 (demo_config 0 0) (demo_at 0 1 5) = (Inr (demo_config 1 1), demo_at 1 1 8)"
  using demo_config_valid [of 0 1] demo_config_valid [of 1 1] demo_meta_valid
  by (simp add: replace_connections_def demo_simps demo_scope_def demo_config_def demo_at_def)

theorem no_lost_update_witness:
  "load_scope_config demo_env demo_scope = (Inr (demo_config 0 0), demo_scope\<lparr>ss_ticks := 1\<rparr>) \<and>
   replace_connections demo_env 0 (demo_config 0 0)
     (foldl (store_step demo_env) (demo_scope\<lparr>ss_ticks := 1\<rparr>) [OpReplaceRules False 0 (demo_config 0 0)])
     = (Inr (demo_config 1 1), demo_at 1 1 8) \<and>
   sc_rules (demo_config 1 1) = sc_rules (disk_config demo_env (demo_at 0 1 5))"
  using no_lost_update [OF demo_load refl, of "demo_config 0 0" "[OpReplaceRules False 0 (demo_config 0 0)]" "demo_config 1 1" "demo_at 1 1 8"]
    demo_load demo_rules demo_write
  by (simp add: store_step_def demo_config_def)

definition demo_ops :: "store_op list" where
  "demo_ops = [OpReconcile (KnownScopes []) 5, OpReconcile (KnownScopes []) (5 + THIRTY_DAYS)]"

lemma demo_start: "\<not> gone demo_scope"
  by (simp add: demo_scope_def gone_def)

lemma demo_purged: "gone (foldl (store_step demo_env) demo_scope demo_ops)"
  by code_simp

theorem purge_needs_absence_witness:
  "gone (foldl (store_step demo_env) demo_scope demo_ops) \<and>
   (\<exists>before known now. OpReconcile known now \<in> set demo_ops \<and> misses ''scope'' known \<and>
      (\<exists>t0. t0 + THIRTY_DAYS \<le> now \<and> missing_since demo_env demo_scope before t0))"
proof -
  have scope: "se_scope demo_env = ''scope''" by (simp add: demo_env_def)
  obtain before op after where op: "demo_ops = before @ op # after"
      "(\<exists>known. op = OpPurge known \<and> misses ''scope'' known) \<or>
       (\<exists>known now t0. op = OpReconcile known now \<and> misses ''scope'' known \<and> t0 + THIRTY_DAYS \<le> now \<and>
          missing_since demo_env demo_scope before t0)"
    using purge_needs_absence [OF demo_start demo_purged] unfolding scope by blast
  then have "op \<in> set demo_ops" "\<forall>known. op \<noteq> OpPurge known"
    by (auto simp: demo_ops_def Cons_eq_append_conv)
  with op(2) demo_purged show ?thesis by blast
qed

end
