(* ===== verification/SSH_Registry.thy ===== *)
theory SSH_Registry
  imports SSH_Trust "HOL-Library.AList"
begin

text \<open>
  The registry of live SSH connections and of the port forwards under them: \<open>ConnectionRegistry\<close> of
  \<open>ssh_forward/connection_runtime.rs\<close>.

  Sessions, workers and channels to them are numbers, \<open>V s\<close> is the host key that session \<open>s\<close> was
  verified with, \<open>P t\<close> the text of the address of cancellation \<open>t\<close>. A cancellation is a number too;
  the registry records which are cancelled. The session slot of an entry is part of the entry. The
  clock \<open>T\<close> gives the times of the calls of \<open>now\<close> in one operation. The semaphore of the channels and the
  mutex of the lifecycle have no effect of their own on the registry and are left out, and so are
  wake-ups of waiting tasks.
\<close>

section \<open>Entries\<close>

definition MAX_LIVE_CONNECTIONS :: nat where
  "MAX_LIVE_CONNECTIONS = 16"

definition MAX_ENABLED_RULES :: nat where
  "MAX_ENABLED_RULES = 64"

datatype connection_state = Disconnected | Authenticating | Established | Reconnecting | Disconnecting

datatype rule_state = RuleOff | RuleOpening | RuleOn | RuleClosing | RuleFailed

datatype runtime_error =
    InvalidArgument | CounterExhaustedError | ConnectionNotFound | ConnectionLimit | ConnectionNotEstablished
  | ConnectionCancelled | HostKeyIdentityMissing | StaleConnectionGeneration wire_counter | RuleLimit
  | StaleRuleGeneration wire_counter | PortConflict

definition runtime_error_code :: "runtime_error \<Rightarrow> ssh_error_code" where
  "runtime_error_code e = (case e of
       InvalidArgument \<Rightarrow> EInvalidArgument
     | CounterExhaustedError \<Rightarrow> ECounterExhausted
     | ConnectionNotFound \<Rightarrow> EConnectionRequired
     | ConnectionLimit \<Rightarrow> EConnectionLimit
     | ConnectionNotEstablished \<Rightarrow> EConnectionNotEstablished
     | ConnectionCancelled \<Rightarrow> EActivationSuperseded
     | HostKeyIdentityMissing \<Rightarrow> EInternal
     | StaleConnectionGeneration _ \<Rightarrow> EStaleConnectionGeneration
     | RuleLimit \<Rightarrow> ERuleLimit
     | StaleRuleGeneration _ \<Rightarrow> EStaleRuleGeneration
     | PortConflict \<Rightarrow> EPortConflict)"

definition next_counter :: "wire_counter \<Rightarrow> runtime_error + wire_counter" where
  "next_counter c = (case counter_increment c of Inr d \<Rightarrow> Inr d | Inl _ \<Rightarrow> Inl CounterExhaustedError)"

definition runtime_task_key :: "(nat \<Rightarrow> string) \<Rightarrow> string \<Rightarrow> string \<Rightarrow> wire_counter \<Rightarrow> nat \<Rightarrow> string" where
  "runtime_task_key P connection_id rule_id generation cancellation =
     connection_id @ '':'' @ rule_id @ '':'' @ counter_text generation @ '':'' @ P cancellation"

record forward_child =
  fc_rule :: forward_rule
  fc_generation :: wire_counter
  fc_state :: rule_state
  fc_active_channels :: u16
  fc_state_changed_at :: utc_timestamp
  fc_started_at :: "utc_timestamp option"
  fc_error_code :: "ssh_error_code option"
  fc_task_key :: "string option"
  fc_stop_tx :: "nat option"
  fc_worker :: "nat option"

definition child_new :: "utc_timestamp \<Rightarrow> forward_rule \<Rightarrow> wire_counter \<Rightarrow> forward_child" where
  "child_new now rule generation =
     \<lparr> fc_rule = rule, fc_generation = generation, fc_state = RuleOpening, fc_active_channels = 0,
       fc_state_changed_at = now, fc_started_at = None, fc_error_code = None, fc_task_key = None,
       fc_stop_tx = None, fc_worker = None \<rparr>"

record connection_entry =
  ce_profile :: ssh_connection_profile
  ce_generation :: wire_counter
  ce_state :: connection_state
  ce_retry_attempt :: u8
  ce_state_changed_at :: utc_timestamp
  ce_started_at :: "utc_timestamp option"
  ce_error_code :: "ssh_error_code option"
  ce_session :: "nat option"
  ce_slot :: "nat option"
  ce_slot_version :: u64
  ce_reconnect_owner :: "string option"
  ce_credential_lease :: "nat option"
  ce_accepted_host_key :: "offered_host_key option"
  ce_children :: "(string \<times> forward_child) list"
  ce_cancellation :: nat

definition entry_new :: "utc_timestamp \<Rightarrow> ssh_connection_profile \<Rightarrow> wire_counter \<Rightarrow> nat \<Rightarrow> connection_entry" where
  "entry_new now profile generation cancellation =
     \<lparr> ce_profile = profile, ce_generation = generation, ce_state = Authenticating, ce_retry_attempt = 0,
       ce_state_changed_at = now, ce_started_at = None, ce_error_code = None, ce_session = None, ce_slot = None,
       ce_slot_version = 0, ce_reconnect_owner = None, ce_credential_lease = None, ce_accepted_host_key = None,
       ce_children = [], ce_cancellation = cancellation \<rparr>"

text \<open>What the registry does to the outside: it tells workers to stop or to start, and aborts them.\<close>

datatype runtime_signal = StopSent nat | StartSent nat | WorkerAborted nat

record registry =
  cr_entries :: "(string \<times> connection_entry) list"
  cr_cancelled :: "nat list"
  cr_next_cancellation :: nat
  cr_signals :: "runtime_signal list"

definition registry_new :: registry where
  "registry_new = \<lparr> cr_entries = [], cr_cancelled = [], cr_next_cancellation = 0, cr_signals = [] \<rparr>"

type_synonym clock = "nat \<Rightarrow> utc_timestamp"

section \<open>Access\<close>

definition is_cancelled :: "registry \<Rightarrow> connection_entry \<Rightarrow> bool" where
  "is_cancelled r e \<longleftrightarrow> ce_cancellation e \<in> set (cr_cancelled r)"

definition cancel :: "nat \<Rightarrow> registry \<Rightarrow> registry" where
  "cancel t r = r\<lparr>cr_cancelled := List.insert t (cr_cancelled r)\<rparr>"

definition slot_replace :: "nat option \<Rightarrow> connection_entry \<Rightarrow> connection_entry" where
  "slot_replace s e = e\<lparr>ce_slot := s, ce_slot_version := ce_slot_version e + 1\<rparr>"

definition slot_notify_changed :: "connection_entry \<Rightarrow> connection_entry" where
  "slot_notify_changed e = e\<lparr>ce_slot_version := ce_slot_version e + 1\<rparr>"

definition slot_clear_if_matches :: "nat \<Rightarrow> connection_entry \<Rightarrow> bool \<times> connection_entry" where
  "slot_clear_if_matches expected e =
     (if ce_slot e = Some expected then (True, slot_replace None e) else (False, e))"

text \<open>\<open>get\<close> of an entry with the check of its generation, and the entry put back.\<close>

definition locate :: "registry \<Rightarrow> string \<Rightarrow> wire_counter \<Rightarrow> runtime_error + connection_entry" where
  "locate r connection_id generation =
     (case map_of (cr_entries r) connection_id of
        None \<Rightarrow> Inl ConnectionNotFound
      | Some entry \<Rightarrow>
          if ce_generation entry \<noteq> generation then Inl (StaleConnectionGeneration (ce_generation entry)) else Inr entry)"

definition put_entry :: "string \<Rightarrow> connection_entry \<Rightarrow> registry \<Rightarrow> registry" where
  "put_entry connection_id e r = r\<lparr>cr_entries := AList.update connection_id e (cr_entries r)\<rparr>"

definition signal :: "runtime_signal list \<Rightarrow> registry \<Rightarrow> registry" where
  "signal xs r = r\<lparr>cr_signals := cr_signals r @ xs\<rparr>"

text \<open>\<open>get\<close> of a child with the check of its generation, and a change of it in place.\<close>

definition locate_child :: "connection_entry \<Rightarrow> string \<Rightarrow> wire_counter \<Rightarrow> runtime_error + forward_child" where
  "locate_child e rule_id generation =
     (case map_of (ce_children e) rule_id of
        None \<Rightarrow> Inl (StaleRuleGeneration 0)
      | Some child \<Rightarrow>
          if fc_generation child \<noteq> generation then Inl (StaleRuleGeneration (fc_generation child)) else Inr child)"

definition modify_child :: "string \<Rightarrow> (forward_child \<Rightarrow> forward_child) \<Rightarrow> connection_entry \<Rightarrow> connection_entry" where
  "modify_child rule_id f e = e\<lparr>ce_children := map (\<lambda>(k, c). (k, if k = rule_id then f c else c)) (ce_children e)\<rparr>"

definition modify_children :: "(forward_child \<Rightarrow> forward_child) \<Rightarrow> connection_entry \<Rightarrow> connection_entry" where
  "modify_children f e = e\<lparr>ce_children := map (\<lambda>(k, c). (k, f c)) (ce_children e)\<rparr>"

definition is_live :: "connection_entry \<Rightarrow> bool" where
  "is_live e \<longleftrightarrow> ce_state e \<noteq> Disconnected"

definition is_active_child :: "forward_child \<Rightarrow> bool" where
  "is_active_child c \<longleftrightarrow> fc_state c \<in> {RuleOpening, RuleOn, RuleClosing}"

definition active_rule_count :: "registry \<Rightarrow> nat" where
  "active_rule_count r =
     sum_list (map (\<lambda>(_, e). length (filter (\<lambda>(_, c). is_active_child c) (ce_children e))) (cr_entries r))"

definition port_conflict :: "registry \<Rightarrow> u16 \<Rightarrow> string \<Rightarrow> bool" where
  "port_conflict r port except_rule_id \<longleftrightarrow>
     (\<exists>(_, e) \<in> set (cr_entries r). \<exists>(_, c) \<in> set (ce_children e).
        fr_id (fc_rule c) \<noteq> except_rule_id \<and> fr_local_port (fc_rule c) = port \<and> is_active_child c)"

section \<open>Connections\<close>

datatype connection_admission = ConnectionReserved wire_counter nat | ConnectionAlreadyCurrent wire_counter

text \<open>The look at the present entry: a refusal, the current generation, or nothing in the way.\<close>

definition reservation_check :: "registry \<Rightarrow> string \<Rightarrow> wire_counter \<Rightarrow> runtime_error + wire_counter option" where
  "reservation_check r connection_id expected_generation =
     (case map_of (cr_entries r) connection_id of
        Some entry \<Rightarrow>
          if ce_generation entry \<noteq> expected_generation then Inl (StaleConnectionGeneration (ce_generation entry))
          else if ce_state entry = Established then Inr (Some (ce_generation entry))
          else if ce_state entry \<noteq> Disconnected then Inl ConnectionNotEstablished
          else Inr None
      | None \<Rightarrow> if expected_generation \<noteq> 0 then Inl (StaleConnectionGeneration 0) else Inr None)"

definition reserve_connection ::
  "uuid_parser \<Rightarrow> clock \<Rightarrow> ssh_connection_profile \<Rightarrow> wire_counter \<Rightarrow> registry
     \<Rightarrow> (runtime_error + connection_admission) \<times> registry" where
  "reserve_connection U T profile expected_generation r =
     (if connection_validate U profile \<noteq> Inr () then (Inl InvalidArgument, r)
      else case reservation_check r (cp_id profile) expected_generation of
        Inl e \<Rightarrow> (Inl e, r)
      | Inr (Some generation) \<Rightarrow> (Inr (ConnectionAlreadyCurrent generation), r)
      | Inr None \<Rightarrow>
          if length (filter (\<lambda>(_, e). is_live e) (cr_entries r)) \<ge> MAX_LIVE_CONNECTIONS then (Inl ConnectionLimit, r)
          else case next_counter expected_generation of
            Inl e \<Rightarrow> (Inl e, r)
          | Inr generation \<Rightarrow>
              (let t = cr_next_cancellation r
               in (Inr (ConnectionReserved generation t),
                   put_entry (cp_id profile) (entry_new (T 0) profile generation t)
                     (r\<lparr>cr_next_cancellation := Suc t\<rparr>))))"

definition commit_established ::
  "(nat \<Rightarrow> offered_host_key option) \<Rightarrow> clock \<Rightarrow> string \<Rightarrow> wire_counter \<Rightarrow> nat \<Rightarrow> nat option \<Rightarrow> registry
     \<Rightarrow> (runtime_error + unit) \<times> registry" where
  "commit_established V T connection_id generation session credential_lease r =
     (case locate r connection_id generation of
        Inl e \<Rightarrow> (Inl e, r)
      | Inr entry \<Rightarrow>
          if ce_state entry \<noteq> Authenticating then (Inl ConnectionNotEstablished, r)
          else if is_cancelled r entry then (Inl ConnectionCancelled, r)
          else case V session of
            None \<Rightarrow> (Inl HostKeyIdentityMissing, r)
          | Some accepted_host_key \<Rightarrow>
              (Inr (), put_entry connection_id
                 ((slot_replace (Some session) (entry\<lparr>ce_session := Some session\<rparr>))
                    \<lparr>ce_credential_lease := credential_lease, ce_accepted_host_key := Some accepted_host_key,
                     ce_state := Established, ce_started_at := Some (T 0), ce_state_changed_at := T 1,
                     ce_error_code := None\<rparr>) r))"

definition set_established_error ::
  "clock \<Rightarrow> string \<Rightarrow> wire_counter \<Rightarrow> ssh_error_code \<Rightarrow> registry \<Rightarrow> (runtime_error + unit) \<times> registry" where
  "set_established_error T connection_id generation error_code r =
     (case locate r connection_id generation of
        Inl e \<Rightarrow> (Inl e, r)
      | Inr entry \<Rightarrow>
          if ce_state entry \<noteq> Established then (Inl ConnectionNotEstablished, r)
          else (Inr (), put_entry connection_id
                 (entry\<lparr>ce_error_code := Some error_code, ce_state_changed_at := T 0\<rparr>) r))"

definition disconnected_with :: "clock \<Rightarrow> ssh_error_code \<Rightarrow> connection_entry \<Rightarrow> connection_entry" where
  "disconnected_with T error_code entry =
     (slot_replace None (entry\<lparr>ce_session := None\<rparr>))
       \<lparr>ce_reconnect_owner := None, ce_credential_lease := None, ce_accepted_host_key := None,
        ce_state := Disconnected, ce_error_code := Some error_code, ce_state_changed_at := T 0\<rparr>"

definition fail_connection ::
  "clock \<Rightarrow> string \<Rightarrow> wire_counter \<Rightarrow> ssh_error_code \<Rightarrow> registry \<Rightarrow> (runtime_error + unit) \<times> registry" where
  "fail_connection T connection_id generation error_code r =
     (case locate r connection_id generation of
        Inl e \<Rightarrow> (Inl e, r)
      | Inr entry \<Rightarrow>
          (Inr (), put_entry connection_id (disconnected_with T error_code entry)
             (cancel (ce_cancellation entry) r)))"

record reconnect_context =
  rx_profile :: ssh_connection_profile
  rx_generation :: wire_counter
  rx_session :: "nat option"
  rx_credential_lease :: "nat option"
  rx_cancellation :: nat
  rx_policy :: reconnect_policy

definition reconnectable :: "forward_child \<Rightarrow> bool" where
  "reconnectable c \<longleftrightarrow> fc_state c = RuleOn \<and> rp_enabled (fr_reconnect (fc_rule c))"

definition reconnect_policy_of :: "connection_entry \<Rightarrow> reconnect_policy" where
  "reconnect_policy_of e =
     (let on = filter reconnectable (map snd (ce_children e))
      in \<lparr> rp_enabled = (on \<noteq> []), rp_max_attempts = foldr max (map (\<lambda>c. rp_max_attempts (fr_reconnect (fc_rule c))) on) 0 \<rparr>)"

text \<open>The session that a reconnection takes over: none to reconnect, or the lost one if it is still there.\<close>

definition lost_session :: "connection_entry \<Rightarrow> nat option option" where
  "lost_session entry =
     (if ce_state entry = Reconnecting then (if ce_reconnect_owner entry \<noteq> None then None else Some None)
      else if ce_state entry = Established then
        (if ce_slot entry \<noteq> None then None
         else case ce_session entry of None \<Rightarrow> None | Some session \<Rightarrow> Some (Some session))
      else None)"

definition begin_reconnect ::
  "clock \<Rightarrow> string \<Rightarrow> wire_counter \<Rightarrow> string \<Rightarrow> registry \<Rightarrow> (runtime_error + reconnect_context option) \<times> registry" where
  "begin_reconnect T connection_id generation owner_name r =
     (case locate r connection_id generation of
        Inl e \<Rightarrow> (Inl e, r)
      | Inr entry \<Rightarrow>
          (case lost_session entry of
             None \<Rightarrow> (Inr None, r)
           | Some session \<Rightarrow>
               (Inr (Some \<lparr> rx_profile = ce_profile entry, rx_generation = ce_generation entry, rx_session = session,
                            rx_credential_lease = ce_credential_lease entry, rx_cancellation = ce_cancellation entry,
                            rx_policy = reconnect_policy_of entry \<rparr>),
                put_entry connection_id
                  (slot_replace None (entry\<lparr>ce_session := (if session = None then ce_session entry else None),
                     ce_state := Reconnecting, ce_retry_attempt := 0, ce_error_code := None,
                     ce_state_changed_at := T 0, ce_reconnect_owner := Some owner_name\<rparr>)) r)))"

definition set_reconnect_attempt ::
  "clock \<Rightarrow> string \<Rightarrow> wire_counter \<Rightarrow> u8 \<Rightarrow> registry \<Rightarrow> (runtime_error + unit) \<times> registry" where
  "set_reconnect_attempt T connection_id generation attempt r =
     (case locate r connection_id generation of
        Inl e \<Rightarrow> (Inl e, r)
      | Inr entry \<Rightarrow>
          if ce_state entry \<noteq> Reconnecting then (Inl ConnectionNotEstablished, r)
          else (Inr (), put_entry connection_id
                 (entry\<lparr>ce_retry_attempt := attempt, ce_state_changed_at := T 0\<rparr>) r))"

definition finish_reconnect ::
  "(nat \<Rightarrow> offered_host_key option) \<Rightarrow> clock \<Rightarrow> string \<Rightarrow> wire_counter \<Rightarrow> nat \<Rightarrow> nat option \<Rightarrow> registry
     \<Rightarrow> (runtime_error + unit) \<times> registry" where
  "finish_reconnect V T connection_id generation session credential_lease r =
     (case locate r connection_id generation of
        Inl e \<Rightarrow> (Inl e, r)
      | Inr entry \<Rightarrow>
          if ce_state entry \<noteq> Reconnecting then (Inl ConnectionNotEstablished, r)
          else if is_cancelled r entry then (Inl ConnectionCancelled, r)
          else case V session of
            None \<Rightarrow> (Inl HostKeyIdentityMissing, r)
          | Some accepted_host_key \<Rightarrow>
              (Inr (), put_entry connection_id
                 ((slot_replace (Some session) (entry\<lparr>ce_accepted_host_key := Some accepted_host_key, ce_session := Some session\<rparr>))
                    \<lparr>ce_reconnect_owner := None, ce_credential_lease := credential_lease, ce_state := Established,
                     ce_retry_attempt := 0, ce_error_code := None, ce_state_changed_at := T 0\<rparr>) r))"

text \<open>The children of a connection that could not be reconnected: stopped and failed, unless off.\<close>

definition fail_child :: "utc_timestamp \<Rightarrow> ssh_error_code \<Rightarrow> forward_child \<Rightarrow> forward_child" where
  "fail_child now error_code c =
     (if fc_state c = RuleOff then c
      else c\<lparr>fc_stop_tx := None, fc_state := RuleFailed, fc_error_code := Some error_code, fc_state_changed_at := now\<rparr>)"

definition stops_of :: "connection_entry \<Rightarrow> runtime_signal list" where
  "stops_of e = List.map_filter (\<lambda>(_, c). if fc_state c = RuleOff then None else map_option StopSent (fc_stop_tx c)) (ce_children e)"

definition fail_reconnect ::
  "clock \<Rightarrow> string \<Rightarrow> wire_counter \<Rightarrow> ssh_error_code \<Rightarrow> registry \<Rightarrow> (runtime_error + unit) \<times> registry" where
  "fail_reconnect T connection_id generation error_code r =
     (case locate r connection_id generation of
        Inl e \<Rightarrow> (Inl e, r)
      | Inr entry \<Rightarrow>
          if ce_state entry \<noteq> Reconnecting then (Inr (), r)
          else (Inr (), signal (stops_of entry)
                 (put_entry connection_id (modify_children (fail_child (T 1) error_code) (disconnected_with T error_code entry))
                   (cancel (ce_cancellation entry) r))))"

definition abandon_reconnect ::
  "clock \<Rightarrow> string \<Rightarrow> wire_counter \<Rightarrow> string \<Rightarrow> registry \<Rightarrow> (runtime_error + bool) \<times> registry" where
  "abandon_reconnect T connection_id generation owner_name r =
     (case map_of (cr_entries r) connection_id of
        None \<Rightarrow> (Inl ConnectionNotFound, r)
      | Some entry \<Rightarrow>
          if ce_generation entry \<noteq> generation \<or> ce_state entry \<noteq> Reconnecting \<or> ce_reconnect_owner entry \<noteq> Some owner_name
          then (Inr False, r)
          else (Inr True, put_entry connection_id
                 (slot_notify_changed (entry\<lparr>ce_reconnect_owner := None, ce_state_changed_at := T 0\<rparr>)) r))"

definition is_reconnect_owner :: "string \<Rightarrow> wire_counter \<Rightarrow> string \<Rightarrow> registry \<Rightarrow> runtime_error + bool" where
  "is_reconnect_owner connection_id generation owner_name r =
     and_then (locate r connection_id generation) (\<lambda>entry.
       Inr (ce_state entry = Reconnecting \<and> ce_reconnect_owner entry = Some owner_name))"

definition has_reconnectable_rules :: "string \<Rightarrow> wire_counter \<Rightarrow> string \<Rightarrow> registry \<Rightarrow> runtime_error + bool" where
  "has_reconnectable_rules connection_id generation excluded_rule_id r =
     and_then (locate r connection_id generation) (\<lambda>entry.
       Inr (list_ex (\<lambda>(rule_id, c). rule_id \<noteq> excluded_rule_id \<and> reconnectable c) (ce_children entry)))"

definition retain_authenticating_session ::
  "(nat \<Rightarrow> offered_host_key option) \<Rightarrow> string \<Rightarrow> wire_counter \<Rightarrow> nat \<Rightarrow> registry \<Rightarrow> (runtime_error + unit) \<times> registry" where
  "retain_authenticating_session V connection_id generation session r =
     (case locate r connection_id generation of
        Inl e \<Rightarrow> (Inl e, r)
      | Inr entry \<Rightarrow>
          if ce_state entry \<noteq> Authenticating then (Inl ConnectionNotEstablished, r)
          else (Inr (), put_entry connection_id
                 (slot_replace (Some session) (entry\<lparr>ce_accepted_host_key := V session, ce_session := Some session\<rparr>)) r))"

section \<open>Disconnecting\<close>

record child_shutdown =
  cs_task_key :: "string option"
  cs_stop_tx :: "nat option"
  cs_worker :: "nat option"

record disconnect_plan =
  dp_generation :: wire_counter
  dp_children :: "child_shutdown list"
  dp_session :: "nat option"

record rule_disable_plan =
  rd_generation :: wire_counter
  rd_child :: child_shutdown

definition shutdown_of :: "forward_child \<Rightarrow> child_shutdown" where
  "shutdown_of c = \<lparr> cs_task_key = fc_task_key c, cs_stop_tx = fc_stop_tx c, cs_worker = fc_worker c \<rparr>"

definition closing_child :: "forward_child \<Rightarrow> forward_child" where
  "closing_child c = c\<lparr>fc_generation := fc_generation c + 1, fc_state := RuleClosing, fc_task_key := None,
     fc_stop_tx := None, fc_worker := None\<rparr>"

definition begin_disconnect ::
  "clock \<Rightarrow> string \<Rightarrow> wire_counter \<Rightarrow> registry \<Rightarrow> (runtime_error + disconnect_plan option) \<times> registry" where
  "begin_disconnect T connection_id expected_generation r =
     (case locate r connection_id expected_generation of
        Inl e \<Rightarrow> (Inl e, r)
      | Inr entry \<Rightarrow>
          if ce_state entry = Disconnected then (Inr None, r)
          else case next_counter (ce_generation entry) of
            Inl e \<Rightarrow> (Inl e, r)
          | Inr generation \<Rightarrow>
              if list_ex (\<lambda>(_, c). \<not> is_ok (next_counter (fc_generation c))) (ce_children entry)
              then (Inl CounterExhaustedError, r)
              else (Inr (Some \<lparr> dp_generation = generation, dp_children = map (shutdown_of \<circ> snd) (ce_children entry),
                                dp_session = ce_session entry \<rparr>),
                    put_entry connection_id
                      ((slot_replace None ((modify_children closing_child entry)
                          \<lparr>ce_state := Disconnecting, ce_generation := generation, ce_credential_lease := None,
                           ce_reconnect_owner := None\<rparr>))
                        \<lparr>ce_state_changed_at := T 0, ce_session := None\<rparr>)
                      (cancel (ce_cancellation entry) r)))"

definition begin_disconnect_if_matches ::
  "clock \<Rightarrow> string \<Rightarrow> wire_counter \<Rightarrow> nat \<Rightarrow> registry \<Rightarrow> (runtime_error + disconnect_plan option) \<times> registry" where
  "begin_disconnect_if_matches T connection_id expected_generation cancellation r =
     (case map_of (cr_entries r) connection_id of
        None \<Rightarrow> (Inr None, r)
      | Some entry \<Rightarrow>
          if ce_generation entry \<noteq> expected_generation \<or> ce_cancellation entry \<noteq> cancellation then (Inr None, r)
          else begin_disconnect T connection_id expected_generation r)"

definition off_child :: "utc_timestamp \<Rightarrow> forward_child \<Rightarrow> forward_child" where
  "off_child now c = c\<lparr>fc_state := RuleOff, fc_task_key := None, fc_state_changed_at := now\<rparr>"

definition finish_disconnect ::
  "clock \<Rightarrow> string \<Rightarrow> wire_counter \<Rightarrow> registry \<Rightarrow> (runtime_error + unit) \<times> registry" where
  "finish_disconnect T connection_id generation r =
     (case locate r connection_id generation of
        Inl e \<Rightarrow> (Inl e, r)
      | Inr entry \<Rightarrow>
          (Inr (), put_entry connection_id
             ((slot_replace None ((modify_children (off_child (T 0)) entry)\<lparr>ce_state := Disconnected, ce_session := None\<rparr>))
                \<lparr>ce_credential_lease := None, ce_accepted_host_key := None, ce_error_code := None,
                 ce_state_changed_at := T 1\<rparr>) r))"

definition retain_disconnect_session ::
  "string \<Rightarrow> wire_counter \<Rightarrow> nat \<Rightarrow> registry \<Rightarrow> (runtime_error + unit) \<times> registry" where
  "retain_disconnect_session connection_id generation session r =
     (case locate r connection_id generation of
        Inl e \<Rightarrow> (Inl e, r)
      | Inr entry \<Rightarrow>
          if ce_state entry \<noteq> Disconnecting then (Inl ConnectionNotEstablished, r)
          else (Inr (), put_entry connection_id (slot_replace (Some session) (entry\<lparr>ce_session := Some session\<rparr>)) r))"

definition remove_entry :: "string \<Rightarrow> registry \<Rightarrow> registry" where
  "remove_entry connection_id r = r\<lparr>cr_entries := AList.delete connection_id (cr_entries r)\<rparr>"

definition discard_connection :: "string \<Rightarrow> wire_counter \<Rightarrow> registry \<Rightarrow> (runtime_error + unit) \<times> registry" where
  "discard_connection connection_id generation r =
     (case locate r connection_id generation of
        Inl e \<Rightarrow> (Inl e, r)
      | Inr _ \<Rightarrow> (Inr (), remove_entry connection_id r))"

definition ensure_disconnected :: "string \<Rightarrow> wire_counter \<Rightarrow> registry \<Rightarrow> runtime_error + unit" where
  "ensure_disconnected connection_id expected_generation r =
     (case map_of (cr_entries r) connection_id of
        None \<Rightarrow> Inr ()
      | Some entry \<Rightarrow>
          if ce_generation entry \<noteq> expected_generation then Inl (StaleConnectionGeneration (ce_generation entry))
          else if ce_state entry \<noteq> Disconnected then Inl ConnectionNotEstablished
          else Inr ())"

definition remove_if_disconnected :: "string \<Rightarrow> wire_counter \<Rightarrow> registry \<Rightarrow> (runtime_error + unit) \<times> registry" where
  "remove_if_disconnected connection_id expected_generation r =
     (case ensure_disconnected connection_id expected_generation r of
        Inl e \<Rightarrow> (Inl e, r)
      | Inr _ \<Rightarrow> (Inr (), remove_entry connection_id r))"

definition discard_connection_if_matches ::
  "string \<Rightarrow> wire_counter \<Rightarrow> nat \<Rightarrow> registry \<Rightarrow> (runtime_error + unit) \<times> registry" where
  "discard_connection_if_matches connection_id generation cancellation r =
     (case map_of (cr_entries r) connection_id of
        None \<Rightarrow> (Inr (), r)
      | Some entry \<Rightarrow>
          if ce_generation entry \<noteq> generation then (Inr (), r)
          else if ce_cancellation entry \<noteq> cancellation then (Inr (), r)
          else (Inr (), remove_entry connection_id r))"

section \<open>Rules\<close>

record rule_reservation =
  rr_rule :: forward_rule
  rr_connection_generation :: wire_counter
  rr_generation :: wire_counter
  rr_cancellation :: nat

datatype rule_admission =
  RuleReserved rule_reservation | RuleAlreadyCurrent | RuleInProgress | RuleReplaceRequired wire_counter

text \<open>The look at the present child: a refusal, an answer, or nothing in the way.\<close>

definition child_check :: "connection_entry \<Rightarrow> forward_rule \<Rightarrow> wire_counter \<Rightarrow> runtime_error + rule_admission option" where
  "child_check entry rule expected_rule_generation =
     (case map_of (ce_children entry) (fr_id rule) of
        Some child \<Rightarrow>
          if fc_generation child \<noteq> expected_rule_generation then Inl (StaleRuleGeneration (fc_generation child))
          else if is_active_child child then
            (if fc_rule child \<noteq> rule then Inr (Some (RuleReplaceRequired (fc_generation child)))
             else if fc_state child = RuleOn then Inr (Some RuleAlreadyCurrent)
             else Inr (Some RuleInProgress))
          else Inr None
      | None \<Rightarrow> if expected_rule_generation \<noteq> 0 then Inl (StaleRuleGeneration 0) else Inr None)"

definition reserve_rule ::
  "uuid_parser \<Rightarrow> clock \<Rightarrow> forward_rule \<Rightarrow> wire_counter \<Rightarrow> wire_counter \<Rightarrow> registry
     \<Rightarrow> (runtime_error + rule_admission) \<times> registry" where
  "reserve_rule U T rule connection_generation expected_rule_generation r =
     (if rule_validate U rule \<noteq> Inr () then (Inl InvalidArgument, r)
      else case map_of (cr_entries r) (fr_connection_profile_id rule) of
        None \<Rightarrow> (Inl ConnectionNotFound, r)
      | Some entry \<Rightarrow>
          if cp_scope_id (ce_profile entry) \<noteq> fr_scope_id rule then (Inl InvalidArgument, r)
          else if ce_generation entry \<noteq> connection_generation then (Inl (StaleConnectionGeneration (ce_generation entry)), r)
          else if is_cancelled r entry then (Inl ConnectionCancelled, r)
          else if ce_state entry \<noteq> Established \<or> ce_session entry = None then (Inl ConnectionNotEstablished, r)
          else case child_check entry rule expected_rule_generation of
            Inl e \<Rightarrow> (Inl e, r)
          | Inr (Some admission) \<Rightarrow> (Inr admission, r)
          | Inr None \<Rightarrow>
              if active_rule_count r \<ge> MAX_ENABLED_RULES then (Inl RuleLimit, r)
              else if port_conflict r (fr_local_port rule) (fr_id rule) then (Inl PortConflict, r)
              else case next_counter expected_rule_generation of
                Inl e \<Rightarrow> (Inl e, r)
              | Inr generation \<Rightarrow>
                  (Inr (RuleReserved \<lparr> rr_rule = rule, rr_connection_generation = connection_generation,
                                        rr_generation = generation, rr_cancellation = ce_cancellation entry \<rparr>),
                   put_entry (fr_connection_profile_id rule)
                     (entry\<lparr>ce_children := AList.update (fr_id rule) (child_new (T 0) rule generation) (ce_children entry)\<rparr>) r))"

text \<open>The conditions under which a listener that was opened for a reservation goes live.\<close>

definition commit_rule_check ::
  "string \<Rightarrow> wire_counter \<Rightarrow> string \<Rightarrow> wire_counter \<Rightarrow> registry \<Rightarrow> runtime_error + connection_entry" where
  "commit_rule_check connection_id connection_generation rule_id generation r =
     and_then (locate r connection_id connection_generation) (\<lambda>entry.
       if is_cancelled r entry then Inl ConnectionCancelled
       else if ce_state entry \<noteq> Established \<or> ce_session entry = None then Inl ConnectionNotEstablished
       else and_then (locate_child entry rule_id generation) (\<lambda>child.
         if fc_state child \<noteq> RuleOpening then Inl (StaleRuleGeneration (fc_generation child)) else Inr entry))"

definition on_child :: "clock \<Rightarrow> string \<Rightarrow> nat \<Rightarrow> nat \<Rightarrow> forward_child \<Rightarrow> forward_child" where
  "on_child T key stop_tx worker c =
     c\<lparr>fc_stop_tx := Some stop_tx, fc_worker := Some worker, fc_task_key := Some key, fc_state := RuleOn,
       fc_started_at := Some (T 0), fc_state_changed_at := T 1, fc_error_code := None\<rparr>"

definition commit_rule ::
  "(nat \<Rightarrow> string) \<Rightarrow> clock \<Rightarrow> string \<Rightarrow> wire_counter \<Rightarrow> string \<Rightarrow> wire_counter \<Rightarrow> nat \<Rightarrow> nat \<Rightarrow> nat \<Rightarrow> registry
     \<Rightarrow> (runtime_error \<times> nat + unit) \<times> registry" where
  "commit_rule P T connection_id connection_generation rule_id generation stop_tx start_tx worker r =
     (case commit_rule_check connection_id connection_generation rule_id generation r of
        Inl e \<Rightarrow> (Inl (e, worker), signal [WorkerAborted worker] r)
      | Inr entry \<Rightarrow>
          (Inr (), signal [StartSent start_tx] (put_entry connection_id
             (modify_child rule_id
                (on_child T (runtime_task_key P connection_id rule_id generation (ce_cancellation entry)) stop_tx worker)
                entry) r)))"

definition failed_child :: "utc_timestamp \<Rightarrow> ssh_error_code \<Rightarrow> forward_child \<Rightarrow> forward_child" where
  "failed_child now error_code c =
     c\<lparr>fc_state := RuleFailed, fc_error_code := Some error_code, fc_task_key := None, fc_state_changed_at := now\<rparr>"

definition fail_rule ::
  "clock \<Rightarrow> string \<Rightarrow> wire_counter \<Rightarrow> string \<Rightarrow> wire_counter \<Rightarrow> ssh_error_code \<Rightarrow> registry
     \<Rightarrow> (runtime_error + unit) \<times> registry" where
  "fail_rule T connection_id connection_generation rule_id generation error_code r =
     (case and_then (locate r connection_id connection_generation) (\<lambda>entry.
             and_then (locate_child entry rule_id generation) (\<lambda>_. Inr entry)) of
        Inl e \<Rightarrow> (Inl e, r)
      | Inr entry \<Rightarrow> (Inr (), put_entry connection_id (modify_child rule_id (failed_child (T 0) error_code) entry) r))"

definition begin_disable_rule ::
  "clock \<Rightarrow> string \<Rightarrow> wire_counter \<Rightarrow> string \<Rightarrow> wire_counter \<Rightarrow> registry
     \<Rightarrow> (runtime_error + rule_disable_plan option) \<times> registry" where
  "begin_disable_rule T connection_id connection_generation rule_id expected_rule_generation r =
     (case locate r connection_id connection_generation of
        Inl e \<Rightarrow> (Inl e, r)
      | Inr entry \<Rightarrow>
          (case map_of (ce_children entry) rule_id of
             None \<Rightarrow> (if expected_rule_generation = 0 then Inr None else Inl (StaleRuleGeneration 0), r)
           | Some child \<Rightarrow>
               if fc_generation child \<noteq> expected_rule_generation then (Inl (StaleRuleGeneration (fc_generation child)), r)
               else if fc_state child = RuleOff then (Inr None, r)
               else case next_counter (fc_generation child) of
                 Inl e \<Rightarrow> (Inl e, r)
               | Inr generation \<Rightarrow>
                   (Inr (Some \<lparr> rd_generation = generation, rd_child = shutdown_of child \<rparr>),
                    put_entry connection_id
                      (modify_child rule_id (\<lambda>c. (closing_child c)\<lparr>fc_generation := generation, fc_state_changed_at := T 0\<rparr>) entry) r)))"

definition finish_disable_rule ::
  "clock \<Rightarrow> string \<Rightarrow> wire_counter \<Rightarrow> string \<Rightarrow> wire_counter \<Rightarrow> registry \<Rightarrow> (runtime_error + unit) \<times> registry" where
  "finish_disable_rule T connection_id connection_generation rule_id generation r =
     (case and_then (locate r connection_id connection_generation) (\<lambda>entry.
             and_then (locate_child entry rule_id generation) (\<lambda>_. Inr entry)) of
        Inl e \<Rightarrow> (Inl e, r)
      | Inr entry \<Rightarrow>
          (Inr (), put_entry connection_id
             (modify_child rule_id (\<lambda>c. c\<lparr>fc_state := RuleOff, fc_error_code := None, fc_started_at := None,
                                          fc_state_changed_at := T 0\<rparr>) entry) r))"

definition ensure_rule_removable ::
  "string \<Rightarrow> wire_counter \<Rightarrow> string \<Rightarrow> wire_counter \<Rightarrow> registry \<Rightarrow> runtime_error + connection_entry" where
  "ensure_rule_removable connection_id connection_generation rule_id expected_rule_generation r =
     and_then (locate r connection_id connection_generation) (\<lambda>entry.
     and_then (locate_child entry rule_id expected_rule_generation) (\<lambda>child.
       if fc_state child \<notin> {RuleOff, RuleFailed} then Inl ConnectionNotEstablished else Inr entry))"

definition remove_rule ::
  "string \<Rightarrow> wire_counter \<Rightarrow> string \<Rightarrow> wire_counter \<Rightarrow> registry \<Rightarrow> (runtime_error + unit) \<times> registry" where
  "remove_rule connection_id connection_generation rule_id expected_rule_generation r =
     (case ensure_rule_removable connection_id connection_generation rule_id expected_rule_generation r of
        Inl e \<Rightarrow> (Inl e, r)
      | Inr entry \<Rightarrow> (Inr (), put_entry connection_id (entry\<lparr>ce_children := AList.delete rule_id (ce_children entry)\<rparr>) r))"

definition cancel_connection :: "string \<Rightarrow> wire_counter \<Rightarrow> registry \<Rightarrow> (runtime_error + unit) \<times> registry" where
  "cancel_connection connection_id expected_generation r =
     (case locate r connection_id expected_generation of
        Inl e \<Rightarrow> (Inl e, r)
      | Inr entry \<Rightarrow> (Inr (), cancel (ce_cancellation entry) r))"

definition worker_exited ::
  "clock \<Rightarrow> string \<Rightarrow> wire_counter \<Rightarrow> string \<Rightarrow> wire_counter \<Rightarrow> nat \<Rightarrow> ssh_error_code \<Rightarrow> registry
     \<Rightarrow> (runtime_error + bool) \<times> registry" where
  "worker_exited T connection_id connection_generation rule_id rule_generation cancellation error_code r =
     (case locate r connection_id connection_generation of
        Inl e \<Rightarrow> (Inl e, r)
      | Inr entry \<Rightarrow>
          if ce_cancellation entry \<noteq> cancellation then (Inr False, r)
          else case locate_child entry rule_id rule_generation of
            Inl e \<Rightarrow> (Inl e, r)
          | Inr child \<Rightarrow>
              if fc_state child \<noteq> RuleOn then (Inr False, r)
              else (Inr True, put_entry connection_id (modify_child rule_id (failed_child (T 0) error_code) entry) r))"

section \<open>Queries\<close>

definition rule_generation :: "string \<Rightarrow> string \<Rightarrow> registry \<Rightarrow> runtime_error + wire_counter option" where
  "rule_generation connection_id rule_id r =
     (case map_of (cr_entries r) connection_id of
        None \<Rightarrow> Inl ConnectionNotFound
      | Some entry \<Rightarrow> Inr (map_option fc_generation (map_of (ce_children entry) rule_id)))"

definition rule_definitions :: "string \<Rightarrow> registry \<Rightarrow> runtime_error + (string \<times> wire_counter \<times> forward_rule) list" where
  "rule_definitions connection_id r =
     (case map_of (cr_entries r) connection_id of
        None \<Rightarrow> Inl ConnectionNotFound
      | Some entry \<Rightarrow> Inr (sort_key fst (map (\<lambda>(k, c). (k, fc_generation c, fc_rule c)) (ce_children entry))))"

definition rule_is_in_progress :: "string \<Rightarrow> string \<Rightarrow> wire_counter \<Rightarrow> registry \<Rightarrow> runtime_error + bool" where
  "rule_is_in_progress connection_id rule_id expected_generation r =
     (case map_of (cr_entries r) connection_id of
        None \<Rightarrow> Inl ConnectionNotFound
      | Some entry \<Rightarrow>
          Inr (case map_of (ce_children entry) rule_id of
                 None \<Rightarrow> False
               | Some child \<Rightarrow> fc_generation child = expected_generation \<and> fc_state child \<in> {RuleOpening, RuleClosing}))"

definition connection_keys :: "registry \<Rightarrow> (string \<times> wire_counter) list" where
  "connection_keys r = sort_key fst (map (\<lambda>(k, e). (k, ce_generation e)) (cr_entries r))"

definition connection_handle :: "string \<Rightarrow> registry \<Rightarrow> (wire_counter \<times> nat) option" where
  "connection_handle connection_id r = map_option (\<lambda>e. (ce_generation e, ce_cancellation e)) (map_of (cr_entries r) connection_id)"

definition ensure_established :: "string \<Rightarrow> wire_counter \<Rightarrow> registry \<Rightarrow> runtime_error + unit" where
  "ensure_established connection_id generation r =
     and_then (locate r connection_id generation) (\<lambda>entry.
       if ce_state entry \<noteq> Established \<or> ce_session entry = None then Inl ConnectionNotEstablished
       else if is_cancelled r entry then Inl ConnectionCancelled
       else Inr ())"

definition is_reconnecting :: "string \<Rightarrow> wire_counter \<Rightarrow> registry \<Rightarrow> runtime_error + bool" where
  "is_reconnecting connection_id generation r =
     and_then (locate r connection_id generation) (\<lambda>entry. Inr (ce_state entry = Reconnecting))"

record connection_runtime =
  cn_connection_profile_id :: string
  cn_generation :: wire_counter
  cn_state :: connection_state
  cn_retry_attempt :: u8
  cn_active_channels :: u16
  cn_state_changed_at :: utc_timestamp
  cn_started_at :: "utc_timestamp option"
  cn_error_code :: "ssh_error_code option"

record rule_runtime =
  ru_rule_id :: string
  ru_connection_profile_id :: string
  ru_connection_generation :: wire_counter
  ru_generation :: wire_counter
  ru_state :: rule_state
  ru_local_port :: u16
  ru_active_channels :: u16
  ru_state_changed_at :: utc_timestamp
  ru_started_at :: "utc_timestamp option"
  ru_error_code :: "ssh_error_code option"

definition child_snapshot :: "wire_counter \<Rightarrow> forward_child \<Rightarrow> rule_runtime" where
  "child_snapshot connection_generation c =
     \<lparr> ru_rule_id = fr_id (fc_rule c), ru_connection_profile_id = fr_connection_profile_id (fc_rule c),
       ru_connection_generation = connection_generation, ru_generation = fc_generation c, ru_state = fc_state c,
       ru_local_port = fr_local_port (fc_rule c), ru_active_channels = fc_active_channels c,
       ru_state_changed_at = fc_state_changed_at c, ru_started_at = fc_started_at c, ru_error_code = fc_error_code c \<rparr>"

definition entry_active_channels :: "connection_entry \<Rightarrow> u16" where
  "entry_active_channels e = foldl saturating_add 0 (map (fc_active_channels \<circ> snd) (ce_children e))"

definition entry_snapshot :: "connection_entry \<Rightarrow> connection_runtime" where
  "entry_snapshot e =
     \<lparr> cn_connection_profile_id = cp_id (ce_profile e), cn_generation = ce_generation e, cn_state = ce_state e,
       cn_retry_attempt = ce_retry_attempt e, cn_active_channels = entry_active_channels e,
       cn_state_changed_at = ce_state_changed_at e, cn_started_at = ce_started_at e, cn_error_code = ce_error_code e \<rparr>"

definition connection_snapshots_for_scope :: "string \<Rightarrow> registry \<Rightarrow> connection_runtime list" where
  "connection_snapshots_for_scope scope_id r =
     sort_key cn_connection_profile_id
       (map entry_snapshot (filter (\<lambda>e. cp_scope_id (ce_profile e) = scope_id) (map snd (cr_entries r))))"

definition rule_snapshots_for_scope :: "string \<Rightarrow> registry \<Rightarrow> rule_runtime list" where
  "rule_snapshots_for_scope scope_id r =
     sort_key ru_rule_id
       (concat (map (\<lambda>e. map (child_snapshot (ce_generation e))
                            (filter (\<lambda>c. fr_scope_id (fc_rule c) = scope_id) (map snd (ce_children e))))
          (filter (\<lambda>e. cp_scope_id (ce_profile e) = scope_id) (map snd (cr_entries r)))))"

section \<open>Ending all\<close>

definition clear_if_disconnected :: "registry \<Rightarrow> registry" where
  "clear_if_disconnected r =
     (if list_all (\<lambda>(_, e). ce_state e = Disconnected) (cr_entries r) then r\<lparr>cr_entries := []\<rparr> else r)"

definition force_close :: "registry \<Rightarrow> registry" where
  "force_close r =
     (let workers = concat (map (\<lambda>(_, e). List.map_filter (\<lambda>(_, c). fc_worker c) (ce_children e)) (cr_entries r))
      in signal (map WorkerAborted workers)
           (r\<lparr>cr_cancelled := fold List.insert (map (ce_cancellation \<circ> snd) (cr_entries r)) (cr_cancelled r), cr_entries := []\<rparr>))"

end
