(* ===== verification/SSH_Registry_Safety.thy ===== *)
theory SSH_Registry_Safety
  imports SSH_Registry
begin

text \<open>
  What holds of the registry of SSH connections in every run: its limits, the uniqueness of the
  forwarded ports, what a connection in each state owns, and that a cancellation is final.

  Every operation is one of four kinds of change (\<open>registry_change\<close>): entries go, one entry moves on,
  a connection is reserved, a rule is reserved. The invariants are proved for the kinds.
\<close>

section \<open>Sums over association lists\<close>

definition tally :: "('e \<Rightarrow> nat) \<Rightarrow> (string \<times> 'e) list \<Rightarrow> nat" where
  "tally f xs = sum_list (map (f \<circ> snd) xs)"

lemma tally_simps [simp]: "tally f [] = 0" "tally f ((k, e) # xs) = f e + tally f xs"
  by (simp_all add: tally_def)

lemma tally_update:
  assumes "distinct (map fst xs)"
  shows "tally f (AList.update k e' xs) + (case map_of xs k of None \<Rightarrow> 0 | Some e \<Rightarrow> f e) = tally f xs + f e'"
  using assms by (induction xs) auto

lemma tally_filter: "tally f (filter P xs) \<le> tally f xs"
  by (induction xs) auto

lemma tally_mono:
  assumes "\<And>e. f e \<le> (g e :: nat)"
  shows "tally f xs \<le> tally g xs"
proof (induction xs)
  case (Cons x xs)
  then show ?case using assms [of "snd x"] by (cases x) simp
qed simp

lemma set_update_cases: "(k, e) \<in> set (AList.update k' e' xs) \<Longrightarrow> distinct (map fst xs) \<Longrightarrow> (k = k' \<and> e = e') \<or> (k \<noteq> k' \<and> (k, e) \<in> set xs)"
  by (induction xs) (auto split: if_splits intro: rev_image_eqI)

section \<open>Invariant\<close>

text \<open>A rule is open while a listener is being opened or runs.\<close>

definition is_open :: "forward_child \<Rightarrow> bool" where
  "is_open c \<longleftrightarrow> fc_state c \<in> {RuleOpening, RuleOn}"

definition open_count :: "connection_entry \<Rightarrow> nat" where
  "open_count e = length (filter (\<lambda>(_, c). is_open c) (ce_children e))"

definition live_count :: "connection_entry \<Rightarrow> nat" where
  "live_count e = (if is_live e then 1 else 0)"

definition child_ok :: "uuid_parser \<Rightarrow> connection_entry \<Rightarrow> string \<Rightarrow> forward_child \<Rightarrow> bool" where
  "child_ok U e k c \<longleftrightarrow> fr_id (fc_rule c) = k \<and> rule_validate U (fc_rule c) = Inr () \<and>
     fr_connection_profile_id (fc_rule c) = cp_id (ce_profile e) \<and> fr_scope_id (fc_rule c) = cp_scope_id (ce_profile e) \<and>
     (fc_state c = RuleOn \<longrightarrow> fc_worker c \<noteq> None \<and> fc_stop_tx c \<noteq> None)"

text \<open>What a connection in a state owns.\<close>

definition state_ok :: "(nat \<Rightarrow> offered_host_key option) \<Rightarrow> connection_entry \<Rightarrow> bool" where
  "state_ok V e = (case ce_state e of
       Established \<Rightarrow> (\<exists>s. ce_session e = Some s \<and> V s \<noteq> None \<and> ce_accepted_host_key e = V s)
     | Authenticating \<Rightarrow> ce_children e = [] \<and> ce_credential_lease e = None
     | Disconnected \<Rightarrow> ce_session e = None \<and> ce_slot e = None \<and> ce_credential_lease e = None \<and> ce_accepted_host_key e = None
     | Disconnecting \<Rightarrow> ce_credential_lease e = None \<and> open_count e = 0
     | Reconnecting \<Rightarrow> ce_session e = None)"

definition entry_ok :: "uuid_parser \<Rightarrow> (nat \<Rightarrow> offered_host_key option) \<Rightarrow> string \<Rightarrow> connection_entry \<Rightarrow> bool" where
  "entry_ok U V k e \<longleftrightarrow> cp_id (ce_profile e) = k \<and> connection_validate U (ce_profile e) = Inr () \<and>
     distinct (map fst (ce_children e)) \<and> (\<forall>(i, c) \<in> set (ce_children e). child_ok U e i c) \<and> state_ok V e"

definition open_rules :: "registry \<Rightarrow> forward_rule set" where
  "open_rules r = {fc_rule c | c k e i. (k, e) \<in> set (cr_entries r) \<and> (i, c) \<in> set (ce_children e) \<and> is_open c}"

definition ports_apart :: "forward_rule set \<Rightarrow> bool" where
  "ports_apart S \<longleftrightarrow> (\<forall>p \<in> S. \<forall>q \<in> S. fr_local_port p = fr_local_port q \<longrightarrow> fr_id p = fr_id q)"

definition registry_ok :: "uuid_parser \<Rightarrow> (nat \<Rightarrow> offered_host_key option) \<Rightarrow> registry \<Rightarrow> bool" where
  "registry_ok U V r \<longleftrightarrow> distinct (map fst (cr_entries r)) \<and> (\<forall>(k, e) \<in> set (cr_entries r). entry_ok U V k e) \<and>
     tally live_count (cr_entries r) \<le> MAX_LIVE_CONNECTIONS \<and> tally open_count (cr_entries r) \<le> MAX_ENABLED_RULES \<and>
     ports_apart (open_rules r) \<and> distinct (map (\<lambda>x. ce_cancellation (snd x)) (cr_entries r)) \<and>
     (\<forall>(k, e) \<in> set (cr_entries r). ce_cancellation e < cr_next_cancellation r)"

section \<open>Kinds of change\<close>

text \<open>What a child may become when nothing new is opened; \<open>b\<close> says that its connection is cancelled.\<close>

definition child_moves :: "bool \<Rightarrow> forward_child \<Rightarrow> forward_child \<Rightarrow> bool" where
  "child_moves b c c' \<longleftrightarrow> fc_rule c' = fc_rule c \<and> (is_open c' \<longrightarrow> is_open c) \<and>
     (fc_state c' = RuleOn \<longrightarrow> fc_worker c' \<noteq> None \<and> fc_stop_tx c' \<noteq> None \<or>
        fc_state c = RuleOn \<and> fc_worker c' = fc_worker c \<and> fc_stop_tx c' = fc_stop_tx c) \<and>
     (b \<and> fc_state c' = RuleOn \<longrightarrow> fc_state c = RuleOn \<and> fc_generation c' = fc_generation c)"

definition entry_moves :: "(nat \<Rightarrow> offered_host_key option) \<Rightarrow> bool \<Rightarrow> connection_entry \<Rightarrow> connection_entry \<Rightarrow> bool" where
  "entry_moves V b e e' \<longleftrightarrow> ce_profile e' = ce_profile e \<and> ce_cancellation e' = ce_cancellation e \<and>
     (is_live e' \<longrightarrow> is_live e) \<and> (state_ok V e \<longrightarrow> state_ok V e') \<and>
     (b \<and> ce_state e' = Established \<longrightarrow> ce_state e = Established) \<and>
     (\<exists>f P. (\<forall>k c. (k, c) \<in> set (ce_children e) \<longrightarrow> child_moves b c (f k c)) \<and>
        ce_children e' = map (\<lambda>(k, c). (k, f k c)) (filter P (ce_children e)))"

definition kept :: "registry \<Rightarrow> registry \<Rightarrow> bool" where
  "kept r r' \<longleftrightarrow> set (cr_cancelled r) \<subseteq> set (cr_cancelled r') \<and> cr_next_cancellation r' = cr_next_cancellation r"

inductive registry_change :: "uuid_parser \<Rightarrow> (nat \<Rightarrow> offered_host_key option) \<Rightarrow> registry \<Rightarrow> registry \<Rightarrow> bool" for U V where
  entries_go: "registry_change U V r r'"
    if "cr_entries r' = filter P (cr_entries r)" "kept r r'"
| entry_moves_on: "registry_change U V r r'"
    if "map_of (cr_entries r) k = Some e" "entry_moves V (is_cancelled r e) e e'"
      "cr_entries r' = AList.update k e' (cr_entries r)" "kept r r'"
| connection_reserved: "registry_change U V r r'"
    if "connection_validate U profile = Inr ()" "tally live_count (cr_entries r) < MAX_LIVE_CONNECTIONS"
      "\<And>e. map_of (cr_entries r) (cp_id profile) = Some e \<Longrightarrow> ce_state e = Disconnected"
      "cr_entries r' = AList.update (cp_id profile) (entry_new now profile generation (cr_next_cancellation r)) (cr_entries r)"
      "cr_cancelled r' = cr_cancelled r" "cr_next_cancellation r' = Suc (cr_next_cancellation r)"
| rule_reserved: "registry_change U V r r'"
    if "map_of (cr_entries r) (fr_connection_profile_id rule) = Some e" "rule_validate U rule = Inr ()"
      "cp_scope_id (ce_profile e) = fr_scope_id rule" "\<not> is_cancelled r e" "ce_state e = Established"
      "active_rule_count r < MAX_ENABLED_RULES" "\<not> port_conflict r (fr_local_port rule) (fr_id rule)"
      "\<And>c. map_of (ce_children e) (fr_id rule) = Some c \<Longrightarrow> \<not> is_active_child c"
      "cr_entries r' = AList.update (fr_connection_profile_id rule)
         (e\<lparr>ce_children := AList.update (fr_id rule) (child_new now rule generation) (ce_children e)\<rparr>) (cr_entries r)"
      "kept r r'"

lemma kept_refl [simp]: "kept r r"
  by (simp add: kept_def)

lemma change_refl: "cr_entries r' = cr_entries r \<Longrightarrow> kept r r' \<Longrightarrow> registry_change U V r r'"
  by (rule entries_go [where P = "\<lambda>_. True"]) auto

section \<open>The kinds of change keep the invariant\<close>

lemma length_filter_impl: "(\<And>x. x \<in> set xs \<Longrightarrow> R x \<Longrightarrow> S x) \<Longrightarrow> length (filter R (filter P xs)) \<le> length (filter S xs)"
  by (induction xs) auto

lemma registry_okD:
  assumes "registry_ok U V r" "map_of (cr_entries r) k = Some e"
  shows "entry_ok U V k e" "(k, e) \<in> set (cr_entries r)" "ce_cancellation e < cr_next_cancellation r"
  using assms map_of_SomeD [OF assms(2)] by (auto simp: registry_ok_def)

lemma entry_moves_ok:
  assumes "entry_moves V b e e'" "entry_ok U V k e"
  shows "entry_ok U V k e'" "live_count e' \<le> live_count e" "open_count e' \<le> open_count e"
    "\<And>i c'. (i, c') \<in> set (ce_children e') \<Longrightarrow> is_open c' \<Longrightarrow> \<exists>c. (i, c) \<in> set (ce_children e) \<and> is_open c \<and> fc_rule c' = fc_rule c"
proof -
  from assms(1) obtain f P where f: "\<And>k c. (k, c) \<in> set (ce_children e) \<Longrightarrow> child_moves b c (f k c)"
    and ch: "ce_children e' = map (\<lambda>(k, c). (k, f k c)) (filter P (ce_children e))"
    unfolding entry_moves_def by blast
  have keys: "map fst (ce_children e') = map fst (filter P (ce_children e))"
    unfolding ch by (simp add: case_prod_beta comp_def)
  have child: "child_ok U e' i c'" if "(i, c') \<in> set (ce_children e')" for i c'
  proof -
    from that obtain c where c: "(i, c) \<in> set (ce_children e)" "c' = f i c" unfolding ch by auto
    with assms(2) have "child_ok U e i c" by (auto simp: entry_ok_def)
    moreover have "ce_profile e' = ce_profile e" using assms(1) by (simp add: entry_moves_def)
    ultimately show ?thesis using f [OF c(1)] unfolding c(2) child_ok_def child_moves_def by auto
  qed
  have "state_ok V e'" "ce_profile e' = ce_profile e"
    using assms unfolding entry_ok_def entry_moves_def by blast+
  with child keys assms(2) show "entry_ok U V k e'"
    unfolding entry_ok_def by (simp add: distinct_map_filter case_prod_beta)
  show "live_count e' \<le> live_count e" using assms(1) unfolding live_count_def entry_moves_def by simp
  have "open_count e' = length (filter (\<lambda>(k, c). is_open (f k c)) (filter P (ce_children e)))"
    unfolding open_count_def ch by (simp add: filter_map comp_def case_prod_beta)
  also have "\<dots> \<le> open_count e"
    unfolding open_count_def using f by (intro length_filter_impl) (auto simp: child_moves_def)
  finally show "open_count e' \<le> open_count e" .
  show "\<exists>c. (i, c) \<in> set (ce_children e) \<and> is_open c \<and> fc_rule c' = fc_rule c"
    if "(i, c') \<in> set (ce_children e')" "is_open c'" for i c'
    using that f unfolding ch by (fastforce simp: child_moves_def)
qed

lemma open_rules_update:
  assumes "distinct (map fst (cr_entries r))" "cr_entries r' = AList.update k e' (cr_entries r)"
  shows "open_rules r' \<subseteq> open_rules r \<union> {fc_rule c | c i. (i, c) \<in> set (ce_children e') \<and> is_open c}"
  unfolding open_rules_def assms(2) using set_update_cases [OF _ assms(1)] by blast

lemma ports_apart_mono: "ports_apart S \<Longrightarrow> R \<subseteq> S \<Longrightarrow> ports_apart R"
  by (auto simp: ports_apart_def)

lemma tokens_update:
  assumes "distinct (map (\<lambda>x. g (snd x)) xs)" "distinct (map fst xs)" "\<And>i d. (i, d) \<in> set xs \<Longrightarrow> i \<noteq> k \<Longrightarrow> g d \<noteq> g e'"
  shows "distinct (map (\<lambda>x. g (snd x)) (AList.update k e' xs))"
  using assms
proof (induction xs)
  case (Cons x xs)
  obtain i d where x: "x = (i, d)" by fastforce
  show ?case
  proof (cases "i = k")
    case True
    with Cons.prems(2) x have "j \<noteq> k" if "(j, c) \<in> set xs" for j c using that by (auto simp: image_iff)
    with Cons.prems(3) have "\<forall>y \<in> set xs. g (snd y) \<noteq> g e'" by fastforce
    with Cons.prems(1) x True show ?thesis by (auto simp: image_iff)
  next
    case False
    have ih: "distinct (map (\<lambda>x. g (snd x)) (AList.update k e' xs))"
      using Cons.prems by (intro Cons.IH) auto
    have "g d \<noteq> g e'" using Cons.prems(3) [of i d] x False by auto
    then have "\<forall>y \<in> set (AList.update k e' xs). g d \<noteq> g (snd y)"
      using set_update_cases [of _ _ k e' xs] Cons.prems(1,2) x by (fastforce simp: image_iff)
    with ih x False show ?thesis by (auto simp: image_iff)
  qed
qed simp

lemma entries_go_ok:
  assumes "registry_ok U V r" "cr_entries r' = filter P (cr_entries r)" "kept r r'"
  shows "registry_ok U V r'"
proof -
  have "open_rules r' \<subseteq> open_rules r" unfolding open_rules_def assms(2) by auto
  moreover have "tally live_count (cr_entries r') \<le> tally live_count (cr_entries r)"
    "tally open_count (cr_entries r') \<le> tally open_count (cr_entries r)"
    unfolding assms(2) by (rule tally_filter)+
  ultimately show ?thesis using assms(1,3)
    unfolding registry_ok_def assms(2) kept_def by (auto simp: distinct_map_filter intro: ports_apart_mono)
qed

lemma keys_update: "distinct (map fst xs) \<Longrightarrow> distinct (map fst (AList.update k e xs))"
  by (rule distinct_update)

text \<open>The shape of the three updates: one entry changes and all but the tallies and the ports is local.\<close>

lemma update_ok:
  assumes "registry_ok U V r" "cr_entries r' = AList.update k e' (cr_entries r)" "entry_ok U V k e'"
    and "map_of (cr_entries r) k = Some e \<and> ce_cancellation e' = ce_cancellation e \<and> cr_next_cancellation r' = cr_next_cancellation r \<or>
      ce_cancellation e' = cr_next_cancellation r \<and> cr_next_cancellation r' = Suc (cr_next_cancellation r)"
    and "tally live_count (cr_entries r') \<le> MAX_LIVE_CONNECTIONS" "tally open_count (cr_entries r') \<le> MAX_ENABLED_RULES"
    and "ports_apart (open_rules r')"
  shows "registry_ok U V r'"
proof -
  note ok = assms(1) [unfolded registry_ok_def]
  have "ce_cancellation d \<noteq> ce_cancellation e'" if "(i, d) \<in> set (cr_entries r)" "i \<noteq> k" for i d
    using assms(4)
  proof (elim disjE conjE)
    assume "map_of (cr_entries r) k = Some e" "ce_cancellation e' = ce_cancellation e"
    with that(2) map_of_SomeD [of "cr_entries r" k e] have "(k, e) \<in> set (cr_entries r)" "(k, e) \<noteq> (i, d)" by auto
    with ok that(1) \<open>ce_cancellation e' = ce_cancellation e\<close> show ?thesis
      unfolding distinct_map inj_on_def by force
  next
    assume "ce_cancellation e' = cr_next_cancellation r"
    with ok that(1) show ?thesis by fastforce
  qed
  with ok have "distinct (map (\<lambda>x. ce_cancellation (snd x)) (cr_entries r'))"
    unfolding assms(2) by (intro tokens_update) auto
  moreover have "entry_ok U V i d \<and> ce_cancellation d < cr_next_cancellation r'" if "(i, d) \<in> set (cr_entries r')" for i d
    using set_update_cases [OF that [unfolded assms(2)]] ok assms(3,4) registry_okD(3) [OF assms(1), of k e] by fastforce
  ultimately show ?thesis
    using ok assms(5-7) keys_update unfolding registry_ok_def assms(2) by auto
qed

lemma tally_live: "tally live_count xs = length (filter (\<lambda>(_, e). is_live e) xs)"
  by (induction xs) (auto simp: live_count_def)

lemma tally_le: "map_of xs k = Some e \<Longrightarrow> f e \<le> tally f xs"
  by (induction xs) (auto split: if_splits)

lemma entry_moves_on_ok:
  assumes ok: "registry_ok U V r" and e: "map_of (cr_entries r) k = Some e" and m: "entry_moves V b e e'"
    and r': "cr_entries r' = AList.update k e' (cr_entries r)" "kept r r'"
  shows "registry_ok U V r'"
proof (rule update_ok [OF ok r'(1)])
  note eok = registry_okD [OF ok e]
  note m' = entry_moves_ok [OF m eok(1)]
  have d: "distinct (map fst (cr_entries r))" using ok by (simp add: registry_ok_def)
  show "entry_ok U V k e'" by (rule m'(1))
  show "map_of (cr_entries r) k = Some e \<and> ce_cancellation e' = ce_cancellation e \<and> cr_next_cancellation r' = cr_next_cancellation r \<or>
      ce_cancellation e' = cr_next_cancellation r \<and> cr_next_cancellation r' = Suc (cr_next_cancellation r)"
    using e m r'(2) by (simp add: entry_moves_def kept_def)
  show "tally live_count (cr_entries r') \<le> MAX_LIVE_CONNECTIONS" "tally open_count (cr_entries r') \<le> MAX_ENABLED_RULES"
    using tally_update [OF d, of live_count k e'] tally_update [OF d, of open_count k e'] e m'(2,3) ok
    unfolding r'(1) registry_ok_def by simp_all
  have "{fc_rule c | c i. (i, c) \<in> set (ce_children e') \<and> is_open c} \<subseteq> open_rules r"
    unfolding open_rules_def using m'(4) eok(2) by blast
  with open_rules_update [OF d r'(1)] have "open_rules r' \<subseteq> open_rules r" by blast
  then show "ports_apart (open_rules r')" using ok by (auto simp: registry_ok_def intro: ports_apart_mono)
qed

lemma connection_reserved_ok:
  assumes ok: "registry_ok U V r" and p: "connection_validate U profile = Inr ()" "tally live_count (cr_entries r) < MAX_LIVE_CONNECTIONS"
    and r': "cr_entries r' = AList.update (cp_id profile) (entry_new now profile generation (cr_next_cancellation r)) (cr_entries r)"
      "cr_next_cancellation r' = Suc (cr_next_cancellation r)"
  shows "registry_ok U V r'"
proof (rule update_ok [OF ok r'(1)])
  let ?e = "entry_new now profile generation (cr_next_cancellation r)"
  have d: "distinct (map fst (cr_entries r))" using ok by (simp add: registry_ok_def)
  show "entry_ok U V (cp_id profile) ?e" using p(1) by (simp add: entry_ok_def entry_new_def state_ok_def)
  show "map_of (cr_entries r) (cp_id profile) = Some e \<and> ce_cancellation ?e = ce_cancellation e \<and> cr_next_cancellation r' = cr_next_cancellation r \<or>
      ce_cancellation ?e = cr_next_cancellation r \<and> cr_next_cancellation r' = Suc (cr_next_cancellation r)" for e
    using r'(2) by (simp add: entry_new_def)
  have "live_count ?e = 1" "open_count ?e = 0" by (simp_all add: entry_new_def live_count_def is_live_def open_count_def)
  then show "tally live_count (cr_entries r') \<le> MAX_LIVE_CONNECTIONS" "tally open_count (cr_entries r') \<le> MAX_ENABLED_RULES"
    using tally_update [OF d, of live_count "cp_id profile" ?e] tally_update [OF d, of open_count "cp_id profile" ?e] p(2) ok
    unfolding r'(1) registry_ok_def by simp_all
  have "ce_children ?e = []" by (simp add: entry_new_def)
  with open_rules_update [OF d r'(1)] have "open_rules r' \<subseteq> open_rules r" by auto
  then show "ports_apart (open_rules r')" using ok by (auto simp: registry_ok_def intro: ports_apart_mono)
qed

lemma open_count_active: "tally open_count (cr_entries r) \<le> active_rule_count r"
proof -
  have "open_count e \<le> length (filter (\<lambda>(_, c). is_active_child c) (ce_children e))" for e
    using length_filter_impl [of "ce_children e" "\<lambda>(_, c). is_open c" "\<lambda>(_, c). is_active_child c" "\<lambda>_. True"]
    by (auto simp: open_count_def is_open_def is_active_child_def)
  then have "tally open_count (cr_entries r) \<le> tally (\<lambda>e. length (filter (\<lambda>(_, c). is_active_child c) (ce_children e))) (cr_entries r)"
    by (rule tally_mono)
  then show ?thesis unfolding active_rule_count_def tally_def comp_def split_def .
qed

lemma open_count_update:
  assumes "distinct (map fst xs)" "\<And>c. map_of xs k = Some c \<Longrightarrow> \<not> is_open c"
  shows "length (filter (\<lambda>(_, c). is_open c) (AList.update k c' xs)) \<le> Suc (length (filter (\<lambda>(_, c). is_open c) xs))"
  using assms by (induction xs) auto

lemma rule_reserved_ok:
  assumes ok: "registry_ok U V r" and e: "map_of (cr_entries r) (fr_connection_profile_id rule) = Some e" "rule_validate U rule = Inr ()"
      "cp_scope_id (ce_profile e) = fr_scope_id rule" "ce_state e = Established" "active_rule_count r < MAX_ENABLED_RULES"
      "\<not> port_conflict r (fr_local_port rule) (fr_id rule)" "\<And>c. map_of (ce_children e) (fr_id rule) = Some c \<Longrightarrow> \<not> is_active_child c"
    and r': "cr_entries r' = AList.update (fr_connection_profile_id rule)
         (e\<lparr>ce_children := AList.update (fr_id rule) (child_new now rule generation) (ce_children e)\<rparr>) (cr_entries r)" "kept r r'"
  shows "registry_ok U V r'"
proof (rule update_ok [OF ok r'(1)])
  let ?c = "child_new now rule generation" and ?k = "fr_connection_profile_id rule"
  let ?e = "e\<lparr>ce_children := AList.update (fr_id rule) ?c (ce_children e)\<rparr>"
  note eok = registry_okD [OF ok e(1)]
  have d: "distinct (map fst (cr_entries r))" using ok by (simp add: registry_ok_def)
  have dc: "distinct (map fst (ce_children e))" "cp_id (ce_profile e) = ?k" using eok(1) by (simp_all add: entry_ok_def)
  have child: "(i = fr_id rule \<and> c = ?c) \<or> (i, c) \<in> set (ce_children e)" if "(i, c) \<in> set (ce_children ?e)" for i c
    using set_update_cases [OF _ dc(1), of i c "fr_id rule" ?c] that by auto
  have "child_ok U ?e (fr_id rule) ?c"
    using e(2,3) dc(2) by (simp add: child_ok_def child_new_def)
  moreover have "child_ok U ?e i c" if "(i, c) \<in> set (ce_children e)" for i c
    using that eok(1) by (auto simp: entry_ok_def child_ok_def)
  moreover have "state_ok V ?e" using eok(1) e(4) by (simp add: entry_ok_def state_ok_def)
  ultimately show "entry_ok U V ?k ?e"
    using child eok(1) keys_update [OF dc(1)] unfolding entry_ok_def by fastforce
  show "map_of (cr_entries r) ?k = Some e \<and> ce_cancellation ?e = ce_cancellation e \<and> cr_next_cancellation r' = cr_next_cancellation r \<or>
      ce_cancellation ?e = cr_next_cancellation r \<and> cr_next_cancellation r' = Suc (cr_next_cancellation r)"
    using e(1) r'(2) by (simp add: kept_def)
  have "live_count ?e = live_count e" by (simp add: live_count_def is_live_def)
  then show "tally live_count (cr_entries r') \<le> MAX_LIVE_CONNECTIONS"
    using tally_update [OF d, of live_count ?k ?e] e(1) ok unfolding r'(1) registry_ok_def by simp
  have "open_count ?e \<le> Suc (open_count e)"
    unfolding open_count_def using open_count_update [OF dc(1)] e(7) by (fastforce simp: is_open_def is_active_child_def)
  then show "tally open_count (cr_entries r') \<le> MAX_ENABLED_RULES"
    using tally_update [OF d, of open_count ?k ?e] e(1) open_count_active [of r] e(5) unfolding r'(1) by simp
  have "{fc_rule c | c i. (i, c) \<in> set (ce_children ?e) \<and> is_open c} \<subseteq> insert rule (open_rules r)"
    using child eok(2) unfolding open_rules_def by (fastforce simp: child_new_def)
  with open_rules_update [OF d r'(1)] have sub: "open_rules r' \<subseteq> insert rule (open_rules r)" by blast
  have "fr_id q = fr_id rule" if "q \<in> open_rules r" "fr_local_port q = fr_local_port rule" for q
    using that e(6) unfolding open_rules_def port_conflict_def by (fastforce simp: is_open_def is_active_child_def)
  then have apart: "ports_apart (insert rule (open_rules r))"
    using ok unfolding registry_ok_def ports_apart_def by (metis insert_iff)
  show "ports_apart (open_rules r')" by (rule ports_apart_mono [OF apart sub])
qed

lemma registry_change_ok: "registry_change U V r r' \<Longrightarrow> registry_ok U V r \<Longrightarrow> registry_ok U V r'"
  by (induction rule: registry_change.induct)
    (blast intro: entries_go_ok entry_moves_on_ok connection_reserved_ok rule_reserved_ok)+

section \<open>Every operation is such a change\<close>

lemma locate_Inr: "locate r k g = Inr e \<longleftrightarrow> map_of (cr_entries r) k = Some e \<and> ce_generation e = g"
  by (auto simp: locate_def split: option.splits if_splits)

lemma locate_child_Inr: "locate_child e k g = Inr c \<longleftrightarrow> map_of (ce_children e) k = Some c \<and> fc_generation c = g"
  by (auto simp: locate_child_def split: option.splits if_splits)

lemma put_change:
  assumes "map_of (cr_entries r) k = Some e" "cr_entries r0 = cr_entries r" "kept r r0" "entry_moves V (is_cancelled r e) e e'"
  shows "registry_change U V r (put_entry k e' r0)"
  using assms by (intro entry_moves_on [where k = k and e = e and e' = e']) (auto simp: put_entry_def kept_def)

lemma signal_change:
  assumes "registry_change U V r r'"
  shows "registry_change U V r (signal xs r')"
  using assms
proof (cases rule: registry_change.cases)
  case (entries_go P)
  then show ?thesis by (intro registry_change.entries_go [where P = P]) (simp_all add: signal_def kept_def)
next
  case (entry_moves_on k e e')
  then show ?thesis by (intro registry_change.entry_moves_on [where k = k and e = e and e' = e']) (simp_all add: signal_def kept_def)
next
  case (connection_reserved profile now generation)
  then show ?thesis
    by (intro registry_change.connection_reserved [where profile = profile and now = now and generation = generation])
      (simp_all add: signal_def)
next
  case (rule_reserved rule e now generation)
  then show ?thesis
    by (intro registry_change.rule_reserved [where rule = rule and e = e and now = now and generation = generation])
      (simp_all add: signal_def kept_def)
qed

lemma kept_cancel [simp]: "kept r (cancel t r)" "cr_entries (cancel t r) = cr_entries r"
  by (auto simp: kept_def cancel_def)

lemma child_moves_refl [simp]: "child_moves b c c"
  by (simp add: child_moves_def)

lemma entry_moves_same:
  assumes "ce_profile e' = ce_profile e" "ce_cancellation e' = ce_cancellation e" "ce_children e' = ce_children e"
    "is_live e' \<Longrightarrow> is_live e" "state_ok V e \<Longrightarrow> state_ok V e'" "b \<Longrightarrow> ce_state e' = Established \<Longrightarrow> ce_state e = Established"
  shows "entry_moves V b e e'"
  unfolding entry_moves_def using assms
  by (auto intro!: exI [of _ "\<lambda>k c. c"] exI [of _ "\<lambda>_. True"])

lemma open_count_map:
  assumes "\<And>k c. (k, c) \<in> set (ce_children e) \<Longrightarrow> is_open (f k c) \<Longrightarrow> is_open c"
    "ce_children e' = map (\<lambda>(k, c). (k, f k c)) (filter P (ce_children e))"
  shows "open_count e' \<le> open_count e"
proof -
  have "open_count e' = length (filter (\<lambda>(k, c). is_open (f k c)) (filter P (ce_children e)))"
    unfolding open_count_def assms(2) by (simp add: filter_map comp_def case_prod_beta)
  also have "\<dots> \<le> open_count e"
    unfolding open_count_def using assms(1) by (intro length_filter_impl) auto
  finally show ?thesis .
qed

text \<open>A change of the children alone.\<close>

lemma entry_moves_children:
  assumes "\<And>k c. (k, c) \<in> set (ce_children e) \<Longrightarrow> child_moves b c (f k c)"
    "ch = map (\<lambda>(k, c). (k, f k c)) (filter P (ce_children e))"
  shows "entry_moves V b e (e\<lparr>ce_children := ch\<rparr>)"
proof -
  have "open_count (e\<lparr>ce_children := ch\<rparr>) \<le> open_count e"
    using assms by (intro open_count_map [where f = f and P = P]) (auto simp: child_moves_def)
  then have "state_ok V e \<longrightarrow> state_ok V (e\<lparr>ce_children := ch\<rparr>)"
    using assms(2) by (auto simp: state_ok_def split: connection_state.splits)
  with assms show ?thesis unfolding entry_moves_def by (auto simp: is_live_def)
qed

lemma entry_moves_child:
  assumes "distinct (map fst (ce_children e))" "map_of (ce_children e) k = Some c" "child_moves b c (f c)"
  shows "entry_moves V b e (modify_child k f e)"
  unfolding modify_child_def
proof (rule entry_moves_children [where f = "\<lambda>i c. if i = k then f c else c" and P = "\<lambda>_. True"])
  show "child_moves b d (if i = k then f d else d)" if "(i, d) \<in> set (ce_children e)" for i d
    using map_of_is_SomeI [OF assms(1) that] assms(2,3) by auto
qed simp

named_theorems registry_changes

lemma change_same [simp]: "registry_change U V r r"
  by (rule change_refl) simp_all

lemmas entry_simps = slot_replace_def slot_notify_changed_def disconnected_with_def is_live_def is_cancelled_def

lemma reserve_connection_change [registry_changes]: "registry_change U V r (snd (reserve_connection U T profile g r))"
proof -
  have "registry_change U V r (put_entry (cp_id profile) (entry_new (T 0) profile g' (cr_next_cancellation r))
      (r\<lparr>cr_next_cancellation := Suc (cr_next_cancellation r)\<rparr>))"
    if "connection_validate U profile = Inr ()" "reservation_check r (cp_id profile) g = Inr None"
      "length (filter (\<lambda>(_, e). is_live e) (cr_entries r)) < MAX_LIVE_CONNECTIONS" for g'
    using that by (intro connection_reserved [where profile = profile and now = "T 0" and generation = g'])
      (auto simp: tally_live put_entry_def reservation_check_def split: if_splits)
  then show ?thesis
    by (auto simp: reserve_connection_def Let_def not_le split: sum.split option.split)
qed

lemma commit_established_change [registry_changes]: "registry_change U V r (snd (commit_established V T k g s l r))"
  by (auto simp: commit_established_def locate_Inr entry_simps state_ok_def split: sum.split option.split
      intro!: put_change entry_moves_same)

lemma set_established_error_change [registry_changes]: "registry_change U V r (snd (set_established_error T k g c r))"
  by (auto simp: set_established_error_def locate_Inr entry_simps state_ok_def split: sum.split
      intro!: put_change entry_moves_same)

lemma fail_connection_change [registry_changes]: "registry_change U V r (snd (fail_connection T k g c r))"
  by (auto simp: fail_connection_def locate_Inr entry_simps state_ok_def split: sum.split
      intro!: put_change entry_moves_same)

lemma begin_reconnect_change [registry_changes]: "registry_change U V r (snd (begin_reconnect T k g n r))"
  by (auto simp: begin_reconnect_def lost_session_def locate_Inr entry_simps state_ok_def
      split: sum.split option.split if_splits intro!: put_change entry_moves_same)

lemma set_reconnect_attempt_change [registry_changes]: "registry_change U V r (snd (set_reconnect_attempt T k g n r))"
  by (auto simp: set_reconnect_attempt_def locate_Inr entry_simps state_ok_def split: sum.split
      intro!: put_change entry_moves_same)

lemma finish_reconnect_change [registry_changes]: "registry_change U V r (snd (finish_reconnect V T k g s l r))"
  by (auto simp: finish_reconnect_def locate_Inr entry_simps state_ok_def split: sum.split option.split
      intro!: put_change entry_moves_same)

lemma abandon_reconnect_change [registry_changes]: "registry_change U V r (snd (abandon_reconnect T k g n r))"
  by (auto simp: abandon_reconnect_def locate_Inr entry_simps state_ok_def split: option.split
      intro!: put_change entry_moves_same)

lemma retain_authenticating_session_change [registry_changes]: "registry_change U V r (snd (retain_authenticating_session V k g s r))"
  by (auto simp: retain_authenticating_session_def locate_Inr entry_simps state_ok_def split: sum.split
      intro!: put_change entry_moves_same)

lemma retain_disconnect_session_change [registry_changes]: "registry_change U V r (snd (retain_disconnect_session k g s r))"
  by (auto simp: retain_disconnect_session_def locate_Inr entry_simps state_ok_def open_count_def split: sum.split
      intro!: put_change entry_moves_same)

text \<open>A change of all the children together with the entry.\<close>

lemma entry_moves_all:
  assumes "ce_profile e' = ce_profile e" "ce_cancellation e' = ce_cancellation e"
    "ce_children e' = map (\<lambda>(k, c). (k, f c)) (ce_children e)" "\<And>c. child_moves b c (f c)"
    "is_live e' \<Longrightarrow> is_live e" "state_ok V e'" "ce_state e' \<noteq> Established"
  shows "entry_moves V b e e'"
  unfolding entry_moves_def using assms
  by (auto intro!: exI [of _ "\<lambda>k c. f c"] exI [of _ "\<lambda>_. True"])

lemma child_moves_ends [simp]:
  "child_moves b c (fail_child now x c)" "child_moves b c (closing_child c)" "child_moves b c (off_child now c)"
  "child_moves b c (failed_child now x c)" "child_moves b c ((closing_child c)\<lparr>fc_generation := g, fc_state_changed_at := now\<rparr>)"
  "child_moves b c (c\<lparr>fc_state := RuleOff, fc_error_code := y, fc_started_at := z, fc_state_changed_at := now\<rparr>)"
  by (auto simp: child_moves_def fail_child_def closing_child_def off_child_def failed_child_def is_open_def)

lemma fail_reconnect_change [registry_changes]: "registry_change U V r (snd (fail_reconnect T k g c r))"
  by (auto simp: fail_reconnect_def locate_Inr entry_simps state_ok_def modify_children_def split: sum.split
      intro!: signal_change put_change entry_moves_all [where f = "fail_child (T 1) c"])

lemma open_count_none: "\<forall>(k, c) \<in> set (ce_children e). \<not> is_open c \<Longrightarrow> open_count e = 0"
  by (auto simp: open_count_def filter_empty_conv)

lemma begin_disconnect_change [registry_changes]: "registry_change U V r (snd (begin_disconnect T k g r))"
proof -
  have "open_count (e\<lparr>ce_children := map (\<lambda>(k, c). (k, closing_child c)) ch\<rparr>) = 0" for e ch
    by (rule open_count_none) (auto simp: closing_child_def is_open_def)
  then show ?thesis
    by (auto simp: begin_disconnect_def locate_Inr entry_simps state_ok_def modify_children_def open_count_def split: sum.split
        intro!: put_change entry_moves_all [where f = closing_child])
qed

lemma begin_disconnect_if_matches_change [registry_changes]:
  "registry_change U V r (snd (begin_disconnect_if_matches T k g t r))"
  by (auto simp: begin_disconnect_if_matches_def split: option.split intro: begin_disconnect_change)

lemma finish_disconnect_change [registry_changes]: "registry_change U V r (snd (finish_disconnect T k g r))"
  by (auto simp: finish_disconnect_def locate_Inr entry_simps state_ok_def modify_children_def split: sum.split
      intro!: put_change entry_moves_all [where f = "off_child (T 0)"])

lemma remove_change: "registry_change U V r (remove_entry k r)"
  by (rule entries_go [where P = "\<lambda>(k', _). k \<noteq> k'"]) (simp_all add: remove_entry_def AList.delete_eq kept_def)

lemma removals_change [registry_changes]:
  "registry_change U V r (snd (discard_connection k g r))"
  "registry_change U V r (snd (remove_if_disconnected k g r))"
  "registry_change U V r (snd (discard_connection_if_matches k g t r))"
  by (auto simp: discard_connection_def remove_if_disconnected_def discard_connection_if_matches_def
      split: sum.split option.split intro: remove_change)

lemma cancel_connection_change [registry_changes]: "registry_change U V r (snd (cancel_connection k g r))"
  by (auto simp: cancel_connection_def split: sum.split intro: change_refl)

lemma end_all_change [registry_changes]:
  "registry_change U V r (clear_if_disconnected r)" "registry_change U V r (force_close r)" "registry_change U V r (cancel t r)"
proof -
  show "registry_change U V r (clear_if_disconnected r)"
    by (auto simp: clear_if_disconnected_def kept_def intro!: entries_go [where P = "\<lambda>_. False"])
  have "set xs \<subseteq> set (fold List.insert ys xs)" for xs ys :: "nat list"
    by (induction ys arbitrary: xs) fastforce+
  then show "registry_change U V r (force_close r)"
    unfolding force_close_def Let_def
    by (intro signal_change entries_go [where P = "\<lambda>_. False"]) (simp_all add: kept_def)
  show "registry_change U V r (cancel t r)" by (rule change_refl) simp_all
qed

section \<open>Rules\<close>

lemma child_check_free: "child_check e rule h = Inr None \<Longrightarrow> map_of (ce_children e) (fr_id rule) = Some c \<Longrightarrow> \<not> is_active_child c"
  by (auto simp: child_check_def split: if_splits)

lemma reserve_rule_change [registry_changes]: "registry_change U V r (snd (reserve_rule U T rule g h r))"
proof -
  have "registry_change U V r (put_entry (fr_connection_profile_id rule)
      (e\<lparr>ce_children := AList.update (fr_id rule) (child_new (T 0) rule g') (ce_children e)\<rparr>) r)"
    if "rule_validate U rule = Inr ()" "map_of (cr_entries r) (fr_connection_profile_id rule) = Some e"
      "cp_scope_id (ce_profile e) = fr_scope_id rule" "\<not> is_cancelled r e" "ce_state e = Established"
      "child_check e rule h = Inr None" "active_rule_count r < MAX_ENABLED_RULES"
      "\<not> port_conflict r (fr_local_port rule) (fr_id rule)" for e g'
    using that child_check_free [OF that(6)]
    by (intro rule_reserved [where rule = rule and e = e and now = "T 0" and generation = g'])
      (auto simp: put_entry_def kept_def)
  then show ?thesis
    by (auto simp: reserve_rule_def not_le split: sum.split option.split)
qed

lemma child_keys:
  assumes "registry_ok U V r" "map_of (cr_entries r) k = Some e"
  shows "distinct (map fst (ce_children e))"
  using registry_okD(1) [OF assms] by (simp add: entry_ok_def)

lemma modify_change:
  assumes "registry_ok U V r" "map_of (cr_entries r) k = Some e" "map_of (ce_children e) i = Some c" "child_moves (is_cancelled r e) c (f c)"
  shows "registry_change U V r (put_entry k (modify_child i f e) r)"
  using assms by (intro put_change [where e = e] entry_moves_child child_keys) simp_all

lemma commit_rule_change:
  assumes "registry_ok U V r"
  shows "registry_change U V r (snd (commit_rule P T k g i h stop start w r))"
  using assms
  by (auto simp: commit_rule_def commit_rule_check_def and_then_Inr_iff locate_Inr locate_child_Inr split: sum.split if_splits
      intro!: signal_change modify_change)
    (auto simp: child_moves_def on_child_def is_open_def)

lemma rule_changes:
  assumes "registry_ok U V r"
  shows "registry_change U V r (snd (fail_rule T k g i h x r))"
    "registry_change U V r (snd (begin_disable_rule T k g i h r))"
    "registry_change U V r (snd (finish_disable_rule T k g i h r))"
    "registry_change U V r (snd (worker_exited T k g i h t x r))"
  using assms
  by (auto simp: fail_rule_def begin_disable_rule_def finish_disable_rule_def worker_exited_def and_then_Inr_iff locate_Inr
      locate_child_Inr split: sum.split option.split if_splits intro!: modify_change)

lemma remove_rule_change [registry_changes]: "registry_change U V r (snd (remove_rule k g i h r))"
proof -
  have "entry_moves V b e (e\<lparr>ce_children := AList.delete i (ce_children e)\<rparr>)" for b e
    by (rule entry_moves_children [where f = "\<lambda>k c. c" and P = "\<lambda>(k, _). i \<noteq> k"]) (simp_all add: AList.delete_eq)
  then show ?thesis
    by (auto simp: remove_rule_def ensure_rule_removable_def and_then_Inr_iff locate_Inr locate_child_Inr
        split: sum.split if_splits intro!: put_change)
qed

section \<open>Runs\<close>

text \<open>
  The calls on a registry, with what tasks do to the objects they share with it: a session slot that is
  cleared when its session is lost, a cancellation, the number of open channels of a rule.
\<close>

datatype establish_op =
    OpReserveConnection clock ssh_connection_profile wire_counter
  | OpCommitEstablished clock string wire_counter nat "nat option"
  | OpSetEstablishedError clock string wire_counter ssh_error_code
  | OpFailConnection clock string wire_counter ssh_error_code
  | OpBeginReconnect clock string wire_counter string
  | OpSetReconnectAttempt clock string wire_counter u8
  | OpFinishReconnect clock string wire_counter nat "nat option"
  | OpFailReconnect clock string wire_counter ssh_error_code
  | OpAbandonReconnect clock string wire_counter string
  | OpRetainAuthenticating string wire_counter nat

datatype end_op =
    OpBeginDisconnect clock string wire_counter
  | OpBeginDisconnectIfMatches clock string wire_counter nat
  | OpFinishDisconnect clock string wire_counter
  | OpRetainDisconnect string wire_counter nat
  | OpDiscard string wire_counter
  | OpRemoveIfDisconnected string wire_counter
  | OpDiscardIfMatches string wire_counter nat
  | OpCancelConnection string wire_counter
  | OpClearIfDisconnected
  | OpForceClose

datatype rule_op =
    OpReserveRule clock forward_rule wire_counter wire_counter
  | OpCommitRule clock string wire_counter string wire_counter nat nat nat
  | OpFailRule clock string wire_counter string wire_counter ssh_error_code
  | OpBeginDisable clock string wire_counter string wire_counter
  | OpFinishDisable clock string wire_counter string wire_counter
  | OpRemoveRule string wire_counter string wire_counter
  | OpWorkerExited clock string wire_counter string wire_counter nat ssh_error_code

datatype shared_op = OpCancel nat | OpSlotLost string nat nat | OpChannels string string u16

datatype registry_op = Establish establish_op | End end_op | Rule rule_op | Shared shared_op

definition slot_lost :: "string \<Rightarrow> nat \<Rightarrow> nat \<Rightarrow> registry \<Rightarrow> registry" where
  "slot_lost k t session r =
     (case map_of (cr_entries r) k of
        Some e \<Rightarrow> if ce_cancellation e = t then put_entry k (snd (slot_clear_if_matches session e)) r else r
      | None \<Rightarrow> r)"

definition set_channels :: "string \<Rightarrow> string \<Rightarrow> u16 \<Rightarrow> registry \<Rightarrow> registry" where
  "set_channels k i n r =
     (case map_of (cr_entries r) k of
        Some e \<Rightarrow> put_entry k (modify_child i (fc_active_channels_update (\<lambda>_. n)) e) r
      | None \<Rightarrow> r)"

definition establish_step ::
  "uuid_parser \<Rightarrow> (nat \<Rightarrow> offered_host_key option) \<Rightarrow> registry \<Rightarrow> establish_op \<Rightarrow> registry" where
  "establish_step U V r op = (case op of
       OpReserveConnection T profile g \<Rightarrow> snd (reserve_connection U T profile g r)
     | OpCommitEstablished T k g s l \<Rightarrow> snd (commit_established V T k g s l r)
     | OpSetEstablishedError T k g x \<Rightarrow> snd (set_established_error T k g x r)
     | OpFailConnection T k g x \<Rightarrow> snd (fail_connection T k g x r)
     | OpBeginReconnect T k g n \<Rightarrow> snd (begin_reconnect T k g n r)
     | OpSetReconnectAttempt T k g n \<Rightarrow> snd (set_reconnect_attempt T k g n r)
     | OpFinishReconnect T k g s l \<Rightarrow> snd (finish_reconnect V T k g s l r)
     | OpFailReconnect T k g x \<Rightarrow> snd (fail_reconnect T k g x r)
     | OpAbandonReconnect T k g n \<Rightarrow> snd (abandon_reconnect T k g n r)
     | OpRetainAuthenticating k g s \<Rightarrow> snd (retain_authenticating_session V k g s r))"

definition end_step :: "registry \<Rightarrow> end_op \<Rightarrow> registry" where
  "end_step r op = (case op of
       OpBeginDisconnect T k g \<Rightarrow> snd (begin_disconnect T k g r)
     | OpBeginDisconnectIfMatches T k g t \<Rightarrow> snd (begin_disconnect_if_matches T k g t r)
     | OpFinishDisconnect T k g \<Rightarrow> snd (finish_disconnect T k g r)
     | OpRetainDisconnect k g s \<Rightarrow> snd (retain_disconnect_session k g s r)
     | OpDiscard k g \<Rightarrow> snd (discard_connection k g r)
     | OpRemoveIfDisconnected k g \<Rightarrow> snd (remove_if_disconnected k g r)
     | OpDiscardIfMatches k g t \<Rightarrow> snd (discard_connection_if_matches k g t r)
     | OpCancelConnection k g \<Rightarrow> snd (cancel_connection k g r)
     | OpClearIfDisconnected \<Rightarrow> clear_if_disconnected r
     | OpForceClose \<Rightarrow> force_close r)"

definition rule_step :: "uuid_parser \<Rightarrow> (nat \<Rightarrow> string) \<Rightarrow> registry \<Rightarrow> rule_op \<Rightarrow> registry" where
  "rule_step U P r op = (case op of
       OpReserveRule T rule g h \<Rightarrow> snd (reserve_rule U T rule g h r)
     | OpCommitRule T k g i h stop start w \<Rightarrow> snd (commit_rule P T k g i h stop start w r)
     | OpFailRule T k g i h x \<Rightarrow> snd (fail_rule T k g i h x r)
     | OpBeginDisable T k g i h \<Rightarrow> snd (begin_disable_rule T k g i h r)
     | OpFinishDisable T k g i h \<Rightarrow> snd (finish_disable_rule T k g i h r)
     | OpRemoveRule k g i h \<Rightarrow> snd (remove_rule k g i h r)
     | OpWorkerExited T k g i h t x \<Rightarrow> snd (worker_exited T k g i h t x r))"

definition shared_step :: "registry \<Rightarrow> shared_op \<Rightarrow> registry" where
  "shared_step r op = (case op of
       OpCancel t \<Rightarrow> cancel t r
     | OpSlotLost k t s \<Rightarrow> slot_lost k t s r
     | OpChannels k i n \<Rightarrow> set_channels k i n r)"

definition registry_step :: "uuid_parser \<Rightarrow> (nat \<Rightarrow> offered_host_key option) \<Rightarrow> (nat \<Rightarrow> string) \<Rightarrow> registry \<Rightarrow> registry_op \<Rightarrow> registry" where
  "registry_step U V P r op = (case op of
       Establish x \<Rightarrow> establish_step U V r x
     | End x \<Rightarrow> end_step r x
     | Rule x \<Rightarrow> rule_step U P r x
     | Shared x \<Rightarrow> shared_step r x)"

lemma shared_changes [registry_changes]:
  "registry_change U V r (slot_lost k t s r)" "registry_change U V r (set_channels k i n r)"
proof -
  show "registry_change U V r (slot_lost k t s r)"
    by (auto simp: slot_lost_def slot_clear_if_matches_def entry_simps state_ok_def open_count_def
        split: option.split connection_state.splits intro!: put_change entry_moves_same)
  have "entry_moves V b e (modify_child i (fc_active_channels_update (\<lambda>_. n)) e)" for b e
    unfolding modify_child_def
    by (rule entry_moves_children [where P = "\<lambda>_. True" and f = "\<lambda>k c. if k = i then c\<lparr>fc_active_channels := n\<rparr> else c"])
      (auto simp: child_moves_def is_open_def)
  then show "registry_change U V r (set_channels k i n r)"
    by (auto simp: set_channels_def split: option.split intro!: put_change)
qed

lemma registry_step_change:
  assumes "registry_ok U V r"
  shows "registry_change U V r (registry_step U V P r op)"
proof -
  have "registry_change U V r (establish_step U V r x)" for x
    unfolding establish_step_def by (cases x) (simp_all add: registry_changes)
  moreover have "registry_change U V r (end_step r x)" for x
    unfolding end_step_def by (cases x) (simp_all add: registry_changes)
  moreover have "registry_change U V r (rule_step U P r x)" for x
    unfolding rule_step_def using rule_changes [OF assms] commit_rule_change [OF assms]
    by (cases x) (simp_all add: registry_changes)
  moreover have "registry_change U V r (shared_step r x)" for x
    unfolding shared_step_def by (cases x) (simp_all add: registry_changes)
  ultimately show ?thesis unfolding registry_step_def by (cases op) simp_all
qed

interpretation registry_runs: transition_system registry_new "registry_step U V P" "registry_ok U V" for U V P
proof
  show "registry_ok U V registry_new"
    by (simp add: registry_ok_def registry_new_def ports_apart_def open_rules_def)
  show "registry_ok U V (registry_step U V P r op)" if "registry_ok U V r" for r op
    using registry_change_ok [OF registry_step_change [OF that] that] .
qed

text \<open>
  C4: in every run of the registry at most 16 connections are live and at most 64 rules have a
  listener, opening or open; rules with different ids never listen on one local port; connections and rules
  are filed under their ids and belong to each other's scope; an established connection has a session
  that was verified with the host key on record, and a running rule a worker that can be stopped; a
  connection that authenticates has no rules, one that disconnects no open rule and no credential, and
  one that is disconnected neither session nor credential nor host key.
\<close>

theorem registry_invariant: "registry_ok U V (foldl (registry_step U V P) registry_new ops)"
  by (rule registry_runs.inv_reachable)

section \<open>Cancellation\<close>

text \<open>What is left of the connection with the cancelled token \<open>t\<close>: nothing that was not there before.\<close>

definition runs_before :: "(string \<times> forward_child) list \<Rightarrow> string \<Rightarrow> forward_child \<Rightarrow> bool" where
  "runs_before cs i c \<longleftrightarrow> (\<exists>d. (i, d) \<in> set cs \<and> fc_state d = RuleOn \<and> fc_generation d = fc_generation c)"

definition remains :: "connection_entry \<Rightarrow> connection_entry \<Rightarrow> bool" where
  "remains e0 e \<longleftrightarrow> (ce_state e = Established \<longrightarrow> ce_state e0 = Established) \<and>
     (\<forall>(i, c) \<in> set (ce_children e). fc_state c = RuleOn \<longrightarrow> runs_before (ce_children e0) i c)"

definition frozen :: "nat \<Rightarrow> registry \<Rightarrow> registry \<Rightarrow> bool" where
  "frozen t r0 r \<longleftrightarrow> t \<in> set (cr_cancelled r) \<and> t < cr_next_cancellation r \<and>
     (\<forall>(k, e) \<in> set (cr_entries r). ce_cancellation e = t \<longrightarrow>
        (\<exists>e0. (k, e0) \<in> set (cr_entries r0) \<and> ce_cancellation e0 = t \<and> remains e0 e))"

lemma remains_moves:
  assumes "entry_moves V True e e'" "remains e0 e"
  shows "remains e0 e'"
proof -
  from assms(1) obtain f P where f: "\<And>k c. (k, c) \<in> set (ce_children e) \<Longrightarrow> child_moves True c (f k c)"
    and ch: "ce_children e' = map (\<lambda>(k, c). (k, f k c)) (filter P (ce_children e))"
    unfolding entry_moves_def by blast
  have "runs_before (ce_children e0) i c'" if "(i, c') \<in> set (ce_children e')" "fc_state c' = RuleOn" for i c'
  proof -
    from that(1) obtain c where c: "(i, c) \<in> set (ce_children e)" "c' = f i c" unfolding ch by auto
    with f [OF c(1)] that(2) have "fc_state c = RuleOn" "fc_generation c' = fc_generation c" by (auto simp: child_moves_def)
    with assms(2) c(1) show ?thesis by (auto simp: remains_def runs_before_def)
  qed
  moreover have "ce_state e' = Established \<longrightarrow> ce_state e = Established" using assms(1) by (simp add: entry_moves_def)
  ultimately show ?thesis using assms(2) by (auto simp: remains_def)
qed

lemma frozen_update:
  assumes "frozen t r0 r" "registry_ok U V r" "cr_entries r' = AList.update k e' (cr_entries r)"
    and "set (cr_cancelled r) \<subseteq> set (cr_cancelled r')" "cr_next_cancellation r \<le> cr_next_cancellation r'"
    and "ce_cancellation e' = t \<Longrightarrow> \<exists>e0. (k, e0) \<in> set (cr_entries r0) \<and> ce_cancellation e0 = t \<and> remains e0 e'"
  shows "frozen t r0 r'"
proof -
  have d: "distinct (map fst (cr_entries r))" using assms(2) by (simp add: registry_ok_def)
  have "\<exists>e0. (i, e0) \<in> set (cr_entries r0) \<and> ce_cancellation e0 = t \<and> remains e0 e"
    if "(i, e) \<in> set (cr_entries r')" "ce_cancellation e = t" for i e
    using set_update_cases [OF that(1) [unfolded assms(3)] d] assms(1,6) that(2) by (auto simp: frozen_def)
  with assms(1,4,5) show ?thesis by (auto simp: frozen_def)
qed

lemma frozen_change:
  assumes "registry_change U V r r'" "registry_ok U V r" "frozen t r0 r"
  shows "frozen t r0 r'"
  using assms(1)
proof (cases rule: registry_change.cases)
  case (entries_go P)
  with assms(3) show ?thesis by (auto simp: frozen_def kept_def)
next
  case (entry_moves_on k e e')
  show ?thesis
  proof (rule frozen_update [OF assms(3,2) entry_moves_on(3)])
    assume t: "ce_cancellation e' = t"
    with entry_moves_on(2) assms(3) have c: "ce_cancellation e = t" "is_cancelled r e"
      by (auto simp: entry_moves_def frozen_def is_cancelled_def)
    with assms(3) registry_okD(2) [OF assms(2) entry_moves_on(1)] obtain e0 where
      "(k, e0) \<in> set (cr_entries r0)" "ce_cancellation e0 = t" "remains e0 e" by (auto simp: frozen_def)
    with remains_moves entry_moves_on(2) c(2)
    show "\<exists>e0. (k, e0) \<in> set (cr_entries r0) \<and> ce_cancellation e0 = t \<and> remains e0 e'" by fastforce
  qed (use entry_moves_on(4) in \<open>auto simp: kept_def\<close>)
next
  case (connection_reserved profile now generation)
  show ?thesis
    by (rule frozen_update [OF assms(3,2) connection_reserved(4)])
      (use connection_reserved(5,6) assms(3) in \<open>auto simp: frozen_def entry_new_def\<close>)
next
  case (rule_reserved rule e now generation)
  show ?thesis
    by (rule frozen_update [OF assms(3,2) rule_reserved(9)])
      (use rule_reserved(4,10) assms(3) in \<open>auto simp: frozen_def is_cancelled_def kept_def\<close>)
qed

lemma frozen_run:
  assumes "registry_ok U V r" "frozen t r0 r"
  shows "frozen t r0 (foldl (registry_step U V P) r ops)"
proof -
  have "registry_ok U V (foldl (registry_step U V P) r ops) \<and> frozen t r0 (foldl (registry_step U V P) r ops)"
    using assms
  proof (induction ops arbitrary: r)
    case (Cons op ops)
    have "registry_change U V r (registry_step U V P r op)" by (rule registry_step_change [OF Cons.prems(1)])
    with Cons show ?case by (simp add: registry_change_ok frozen_change)
  qed simp
  then show ?thesis by simp
qed

text \<open>
  C3: a cancellation is final. Once a connection is cancelled (\<open>cancel_connection\<close>, by a disconnect, a
  timeout or a superseded activation), no operation that any task still performs establishes it: if it
  was authenticating or reconnecting it never becomes established, and no listener of it starts, so
  every rule that is on was on under the same generation when the connection was cancelled. Only a new
  reservation, with its own token, brings the connection back.
\<close>

theorem cancellation_is_final:
  assumes "r0 = foldl (registry_step U V P) registry_new before" "map_of (cr_entries r0) k = Some e0"
    and "cancel_connection k (ce_generation e0) r0 = (Inr (), r1)" "r = foldl (registry_step U V P) r1 after"
    and "map_of (cr_entries r) k = Some e" "ce_cancellation e = ce_cancellation e0"
  shows "(ce_state e = Established \<longrightarrow> ce_state e0 = Established) \<and>
    (\<forall>(i, c) \<in> set (ce_children e). fc_state c = RuleOn \<longrightarrow> runs_before (ce_children e0) i c)"
proof -
  have ok: "registry_ok U V r0" unfolding assms(1) by (rule registry_runs.inv_reachable)
  have r1: "r1 = cancel (ce_cancellation e0) r0"
    using assms(2,3) by (auto simp: cancel_connection_def locate_def)
  have d: "distinct (map fst (cr_entries r0))" "distinct (map (\<lambda>x. ce_cancellation (snd x)) (cr_entries r0))"
    using ok by (simp_all add: registry_ok_def)
  have "frozen (ce_cancellation e0) r0 r1"
    using registry_okD [OF ok assms(2)] r1 by (auto simp: frozen_def cancel_def remains_def runs_before_def)
  moreover have "registry_ok U V r1" unfolding r1 by (rule registry_change_ok [OF end_all_change(3) ok])
  ultimately have "frozen (ce_cancellation e0) r0 r" unfolding assms(4) by (intro frozen_run)
  with map_of_SomeD [OF assms(5)] assms(6) obtain e1 where
    e1: "(k, e1) \<in> set (cr_entries r0)" "remains e1 e" by (auto simp: frozen_def)
  with d(1) assms(2) have "e1 = e0" by (auto dest: map_of_is_SomeI)
  with e1(2) show ?thesis by (simp add: remains_def)
qed

definition reg_uuids :: uuid_parser where
  "reg_uuids s = Some \<lparr>uv_rfc4122 = True, uv_random = True, uv_text = s\<rparr>"

definition reg_profile :: ssh_connection_profile where
  "reg_profile = \<lparr> cp_id = ''c1'', cp_scope_id = ''scope'', cp_name = ''bastion'', cp_ssh_host = ''bastion.example'',
     cp_ssh_port = 22, cp_ssh_user = ''operator'', cp_auth = AuthAgent, cp_created_at = 0, cp_updated_at = 0 \<rparr>"

definition reg_key :: "nat \<Rightarrow> offered_host_key option" where
  "reg_key s = Some \<lparr> ok_algorithm = ''ssh-ed25519'', ok_fingerprint = [], ok_public_key = [] \<rparr>"

lemma reg_valid: "connection_validate reg_uuids reg_profile = Inr ()"
  by code_simp

definition reg_before :: "registry_op list" where
  "reg_before = [Establish (OpReserveConnection (\<lambda>_. 0) reg_profile 0)]"

definition reg_after :: "registry_op list" where
  "reg_after = [Establish (OpCommitEstablished (\<lambda>_. 1) ''c1'' 1 7 None)]"

definition reg_entry :: connection_entry where
  "reg_entry = entry_new 0 reg_profile 1 0"

definition reg_reserved :: registry where
  "reg_reserved = \<lparr> cr_entries = [(''c1'', reg_entry)], cr_cancelled = [], cr_next_cancellation = 1, cr_signals = [] \<rparr>"

lemma reg_run: "reg_reserved = foldl (registry_step reg_uuids reg_key (\<lambda>_. [])) registry_new reg_before"
  using reg_valid
  by (simp add: reg_reserved_def reg_entry_def reg_before_def registry_step_def establish_step_def reserve_connection_def registry_new_def
      reservation_check_def reg_profile_def MAX_LIVE_CONNECTIONS_def next_counter_def counter_increment_def checked_add_def put_entry_def)

lemma reg_cancel: "cancel_connection ''c1'' 1 reg_reserved = (Inr (), reg_reserved\<lparr>cr_cancelled := [0]\<rparr>)"
  by (simp add: reg_reserved_def cancel_connection_def locate_def reg_entry_def entry_new_def cancel_def)

lemma reg_refused: "foldl (registry_step reg_uuids reg_key (\<lambda>_. [])) (reg_reserved\<lparr>cr_cancelled := [0]\<rparr>) reg_after = reg_reserved\<lparr>cr_cancelled := [0]\<rparr>"
  by (simp add: reg_reserved_def reg_after_def registry_step_def establish_step_def commit_established_def locate_def reg_entry_def
      entry_new_def is_cancelled_def)

theorem cancellation_is_final_witness:
  "map_of (cr_entries (foldl (registry_step reg_uuids reg_key (\<lambda>_. [])) (reg_reserved\<lparr>cr_cancelled := [0]\<rparr>) reg_after)) ''c1'' = Some reg_entry \<and>
   ce_state reg_entry \<noteq> Established"
  using cancellation_is_final [OF reg_run, of "''c1''" reg_entry "reg_reserved\<lparr>cr_cancelled := [0]\<rparr>" _ reg_after reg_entry] reg_cancel reg_refused
  by (simp add: reg_reserved_def reg_entry_def entry_new_def)

end
