(* ===== verification/FS_Tree.thy ===== *)
theory FS_Tree
  imports Prelude Text "HOL-Library.AList"
begin

text \<open>
  The file system beneath the file service: a table of inodes with directories, regular files and
  symbolic links, path resolution as the kernel does it, and the system calls that \<open>fs/\<close> makes.

  A path is the list of its raw components. Every system call is numbered. Before it the environment
  may change the tree in any way (other processes run), and the environment decides whether it fails.
  A handle of an open directory is its inode. File names are valid UTF-8; owners, permissions, link
  counts and devices are left out, a refusal by permission is a failure of the call.
\<close>

section \<open>Commands\<close>

text \<open>A fallible computation on a state.\<close>

type_synonym ('s, 'e, 'a) cmd = "'s \<Rightarrow> ('e + 'a) \<times> 's"

definition retC :: "'a \<Rightarrow> ('s, 'e, 'a) cmd" where
  "retC x s = (Inr x, s)"

definition failC :: "'e \<Rightarrow> ('s, 'e, 'a) cmd" where
  "failC e s = (Inl e, s)"

definition bindC :: "('s, 'e, 'a) cmd \<Rightarrow> ('a \<Rightarrow> ('s, 'e, 'b) cmd) \<Rightarrow> ('s, 'e, 'b) cmd" where
  "bindC m f s = (case m s of (Inl e, s') \<Rightarrow> (Inl e, s') | (Inr x, s') \<Rightarrow> f x s')"

definition liftC :: "'e + 'a \<Rightarrow> ('s, 'e, 'a) cmd" where
  "liftC r s = (r, s)"

definition map_errC :: "('e \<Rightarrow> 'f) \<Rightarrow> ('s, 'e, 'a) cmd \<Rightarrow> ('s, 'f, 'a) cmd" where
  "map_errC g m s = (case m s of (Inl e, s') \<Rightarrow> (Inl (g e), s') | (Inr x, s') \<Rightarrow> (Inr x, s'))"

text \<open>\<open>attemptC\<close> hands the result over as a value: \<open>match\<close> on a result, or \<open>let _ =\<close>.\<close>

definition attemptC :: "('s, 'e, 'a) cmd \<Rightarrow> ('s, 'f, 'e + 'a) cmd" where
  "attemptC m s = (case m s of (r, s') \<Rightarrow> (Inr r, s'))"

section \<open>Nodes and paths\<close>

datatype io_error = IoNotFound | IoDenied | IoOther

datatype fs_node = FDir "(string \<times> nat) list" | FFile bytes int | FLink string

type_synonym tree = "nat \<Rightarrow> fs_node option"

definition ROOT :: nat where
  "ROOT = 0"

definition child :: "tree \<Rightarrow> nat \<Rightarrow> string \<Rightarrow> nat option" where
  "child t d n = (case t d of Some (FDir es) \<Rightarrow> map_of es n | _ \<Rightarrow> None)"

fun descend :: "tree \<Rightarrow> nat \<Rightarrow> string list \<Rightarrow> nat option" where
  "descend t d [] = Some d"
| "descend t d (n # ns) = (case child t d n of None \<Rightarrow> None | Some i \<Rightarrow> descend t i ns)"

definition is_directory :: "tree \<Rightarrow> nat \<Rightarrow> bool" where
  "is_directory t i = (case t i of Some (FDir _) \<Rightarrow> True | _ \<Rightarrow> False)"

definition is_link :: "tree \<Rightarrow> nat \<Rightarrow> bool" where
  "is_link t i = (case t i of Some (FLink _) \<Rightarrow> True | _ \<Rightarrow> False)"

text \<open>\<open>Path::components\<close> of an absolute path: the current directory and empty components are skipped.\<close>

definition path_pieces :: "string \<Rightarrow> string list" where
  "path_pieces p = split_on (CHR ''/'') p"

definition proper :: "string \<Rightarrow> bool" where
  "proper c \<longleftrightarrow> c \<noteq> [] \<and> c \<noteq> ''.''"

definition components :: "string list \<Rightarrow> string list" where
  "components p = filter proper p"

definition path_parent :: "string list \<Rightarrow> string list option" where
  "path_parent p = (if components p = [] then None else Some (butlast (components p)))"

definition path_name :: "string list \<Rightarrow> string option" where
  "path_name p = (if components p = [] \<or> last (components p) = ''..'' then None else Some (last (components p)))"

text \<open>
  Path resolution (\<open>realpath\<close>), with every link followed and at most 40 of them: the literal path of
  the object, a path without links. A regular file ends a path.
\<close>

definition MAX_LINKS :: nat where
  "MAX_LINKS = 40"

function canonical :: "tree \<Rightarrow> nat \<Rightarrow> string list \<Rightarrow> string list \<Rightarrow> io_error + string list" where
  "canonical t n acc [] = Inr acc"
| "canonical t n acc (c # cs) =
     (if \<not> proper c then canonical t n acc cs
      else if c = ''..'' then canonical t n (butlast acc) cs
      else if CHR 0x00 \<in> set c then Inl IoOther
      else case descend t ROOT (acc @ [c]) of
        None \<Rightarrow> Inl IoNotFound
      | Some i \<Rightarrow>
          (case t i of
             None \<Rightarrow> Inl IoOther
           | Some (FDir _) \<Rightarrow> canonical t n (acc @ [c]) cs
           | Some (FFile _ _) \<Rightarrow> if cs = [] then Inr (acc @ [c]) else Inl IoOther
           | Some (FLink target) \<Rightarrow>
               (case n of
                  0 \<Rightarrow> Inl IoOther
                | Suc m \<Rightarrow>
                    canonical t m (if starts_with ''/'' target then [] else acc) (path_pieces target @ cs))))"
  by pat_completeness auto
termination
  by (relation "measures [\<lambda>(t, n, acc, cs). n, \<lambda>(t, n, acc, cs). length cs]") auto

definition realpath_of :: "tree \<Rightarrow> string list \<Rightarrow> io_error + string list" where
  "realpath_of t p = canonical t MAX_LINKS [] p"

text \<open>The inode of a path with its last link followed, and without.\<close>

definition resolve_follow :: "tree \<Rightarrow> string list \<Rightarrow> io_error + nat" where
  "resolve_follow t p =
     and_then (realpath_of t p) (\<lambda>q. case descend t ROOT q of None \<Rightarrow> Inl IoNotFound | Some i \<Rightarrow> Inr i)"

definition resolve_parent :: "tree \<Rightarrow> string list \<Rightarrow> io_error + nat" where
  "resolve_parent t p =
     and_then (resolve_follow t (butlast p)) (\<lambda>d. if is_directory t d then Inr d else Inl IoOther)"

definition resolve_nofollow :: "tree \<Rightarrow> string list \<Rightarrow> io_error + nat" where
  "resolve_nofollow t p =
     (if p = [] then Inr ROOT
      else and_then (resolve_parent t p) (\<lambda>d. case child t d (last p) of None \<Rightarrow> Inl IoNotFound | Some i \<Rightarrow> Inr i))"

section \<open>System calls\<close>

record fs_env =
  fv_change :: "nat \<Rightarrow> tree \<Rightarrow> tree"
  fv_fail :: "nat \<Rightarrow> io_error option"
  fv_now :: "nat \<Rightarrow> int"
  fv_inode :: "nat \<Rightarrow> nat"
  fv_name :: "nat \<Rightarrow> string"
  fv_mtime :: "nat \<Rightarrow> int"

record os =
  os_tree :: tree
  os_calls :: nat

type_synonym 'a os_cmd = "(os, io_error, 'a) cmd"

definition oscall :: "fs_env \<Rightarrow> (nat \<Rightarrow> tree \<Rightarrow> (io_error + 'a) \<times> tree) \<Rightarrow> 'a os_cmd" where
  "oscall E f s =
     (let k = os_calls s; t = fv_change E k (os_tree s)
      in case fv_fail E k of
           Some e \<Rightarrow> (Inl e, s\<lparr>os_tree := t, os_calls := Suc k\<rparr>)
         | None \<Rightarrow> (case f k t of (r, t') \<Rightarrow> (r, s\<lparr>os_tree := t', os_calls := Suc k\<rparr>)))"

text \<open>A call that only looks.\<close>

definition look :: "fs_env \<Rightarrow> (tree \<Rightarrow> io_error + 'a) \<Rightarrow> 'a os_cmd" where
  "look E f = oscall E (\<lambda>k t. (f t, t))"

definition sys_canonicalize :: "fs_env \<Rightarrow> string list \<Rightarrow> string list os_cmd" where
  "sys_canonicalize E p = look E (\<lambda>t. realpath_of t p)"

definition node_at :: "tree \<Rightarrow> nat \<Rightarrow> io_error + fs_node" where
  "node_at t i = (case t i of None \<Rightarrow> Inl IoOther | Some x \<Rightarrow> Inr x)"

definition sys_metadata :: "fs_env \<Rightarrow> string list \<Rightarrow> (nat \<times> fs_node) os_cmd" where
  "sys_metadata E p = look E (\<lambda>t. and_then (resolve_follow t p) (\<lambda>i. and_then (node_at t i) (\<lambda>x. Inr (i, x))))"

text \<open>The modification time is kept for regular files, and any number for the others.\<close>

definition stat_mtime :: "fs_env \<Rightarrow> nat \<Rightarrow> fs_node \<Rightarrow> int" where
  "stat_mtime E k x = (case x of FFile _ m \<Rightarrow> m | _ \<Rightarrow> fv_mtime E k)"

definition sys_symlink_metadata :: "fs_env \<Rightarrow> string list \<Rightarrow> fs_node os_cmd" where
  "sys_symlink_metadata E p = look E (\<lambda>t. and_then (resolve_nofollow t p) (node_at t))"

text \<open>\<open>Path::exists\<close> takes every error for absence.\<close>

definition sys_exists :: "fs_env \<Rightarrow> string list \<Rightarrow> (os, 'e, bool) cmd" where
  "sys_exists E p = bindC (attemptC (sys_metadata E p)) (\<lambda>r. retC (is_ok r))"

text \<open>\<open>open\<close> and \<open>openat\<close> of a directory with \<open>O_DIRECTORY\<close> and \<open>O_NOFOLLOW\<close>.\<close>

definition directory_only :: "tree \<Rightarrow> nat \<Rightarrow> io_error + nat" where
  "directory_only t i = (if is_directory t i then Inr i else Inl IoOther)"

definition sys_open_dir :: "fs_env \<Rightarrow> string list \<Rightarrow> nat os_cmd" where
  "sys_open_dir E p = look E (\<lambda>t. and_then (resolve_nofollow t p) (directory_only t))"

definition sys_openat_dir :: "fs_env \<Rightarrow> nat \<Rightarrow> string \<Rightarrow> nat os_cmd" where
  "sys_openat_dir E d n =
     look E (\<lambda>t. case child t d n of None \<Rightarrow> Inl IoNotFound | Some i \<Rightarrow> directory_only t i)"

text \<open>\<open>fstatat\<close> with \<open>AT_SYMLINK_NOFOLLOW\<close>.\<close>

definition sys_statat :: "fs_env \<Rightarrow> nat \<Rightarrow> string \<Rightarrow> (fs_node \<times> int) os_cmd" where
  "sys_statat E d n = oscall E (\<lambda>k t.
     (case child t d n of
        None \<Rightarrow> Inl IoNotFound
      | Some i \<Rightarrow> and_then (node_at t i) (\<lambda>x. Inr (x, stat_mtime E k x)), t))"

text \<open>Entries of a directory.\<close>

definition set_entry :: "nat \<Rightarrow> string \<Rightarrow> nat \<Rightarrow> tree \<Rightarrow> tree" where
  "set_entry d n i t = (case t d of Some (FDir es) \<Rightarrow> t(d \<mapsto> FDir (AList.update n i es)) | _ \<Rightarrow> t)"

definition del_entry :: "nat \<Rightarrow> string \<Rightarrow> tree \<Rightarrow> tree" where
  "del_entry d n t = (case t d of Some (FDir es) \<Rightarrow> t(d \<mapsto> FDir (AList.delete n es)) | _ \<Rightarrow> t)"

text \<open>Whether an object may take the place of another: a directory only that of an empty directory.\<close>

definition may_replace :: "tree \<Rightarrow> nat \<Rightarrow> nat option \<Rightarrow> bool" where
  "may_replace t i old =
     (case old of
        None \<Rightarrow> True
      | Some j \<Rightarrow> if is_directory t i then t j = Some (FDir []) else \<not> is_directory t j)"

text \<open>A directory is not moved into itself: the directories above \<open>d\<close> on the path do not contain \<open>i\<close>.\<close>

fun on_path :: "tree \<Rightarrow> nat \<Rightarrow> nat \<Rightarrow> string list \<Rightarrow> bool" where
  "on_path t i d [] = (d = i)"
| "on_path t i d (n # ns) = (d = i \<or> (case child t d n of None \<Rightarrow> False | Some j \<Rightarrow> on_path t i j ns))"

definition rename_entry :: "nat \<Rightarrow> string \<Rightarrow> nat \<Rightarrow> string \<Rightarrow> tree \<Rightarrow> (io_error + unit) \<times> tree" where
  "rename_entry d n d' n' t =
     (case child t d n of
        None \<Rightarrow> (Inl IoNotFound, t)
      | Some i \<Rightarrow>
          if child t d' n' = Some i then (Inr (), t)
          else if \<not> is_directory t d' \<or> \<not> may_replace t i (child t d' n') then (Inl IoOther, t)
          else (Inr (), set_entry d' n' i (del_entry d n t)))"

definition sys_renameat :: "fs_env \<Rightarrow> nat \<Rightarrow> string \<Rightarrow> string \<Rightarrow> unit os_cmd" where
  "sys_renameat E d old new = oscall E (\<lambda>k. rename_entry d old d new)"

definition sys_rename :: "fs_env \<Rightarrow> string list \<Rightarrow> string list \<Rightarrow> unit os_cmd" where
  "sys_rename E src dst = oscall E (\<lambda>k t.
     if src = [] \<or> dst = [] then (Inl IoOther, t)
     else case (resolve_parent t src, resolve_parent t dst, realpath_of t (butlast dst)) of
       (Inr d, Inr d', Inr q) \<Rightarrow>
         (case child t d (last src) of
            None \<Rightarrow> (Inl IoNotFound, t)
          | Some i \<Rightarrow> if is_directory t i \<and> on_path t i ROOT q then (Inl IoOther, t)
                      else rename_entry d (last src) d' (last dst) t)
     | (Inl e, _, _) \<Rightarrow> (Inl e, t)
     | (_, Inl e, _) \<Rightarrow> (Inl e, t)
     | (_, _, Inl e) \<Rightarrow> (Inl e, t))"

definition sys_unlink :: "fs_env \<Rightarrow> string list \<Rightarrow> unit os_cmd" where
  "sys_unlink E p = oscall E (\<lambda>k t.
     if p = [] then (Inl IoOther, t)
     else case resolve_parent t p of
       Inl e \<Rightarrow> (Inl e, t)
     | Inr d \<Rightarrow>
         (case child t d (last p) of
            None \<Rightarrow> (Inl IoNotFound, t)
          | Some i \<Rightarrow> if is_directory t i then (Inl IoOther, t) else (Inr (), del_entry d (last p) t)))"

text \<open>\<open>remove_dir_all\<close>: the entry of a directory, and with it all that is beneath, disappears.\<close>

definition sys_remove_dir_all :: "fs_env \<Rightarrow> string list \<Rightarrow> unit os_cmd" where
  "sys_remove_dir_all E p = oscall E (\<lambda>k t.
     if p = [] then (Inl IoOther, t)
     else case resolve_parent t p of
       Inl e \<Rightarrow> (Inl e, t)
     | Inr d \<Rightarrow>
         (case child t d (last p) of
            None \<Rightarrow> (Inl IoNotFound, t)
          | Some i \<Rightarrow> if is_directory t i then (Inr (), del_entry d (last p) t) else (Inl IoOther, t)))"

text \<open>A new object under an unused inode.\<close>

definition new_entry :: "nat \<Rightarrow> nat \<Rightarrow> string \<Rightarrow> fs_node \<Rightarrow> tree \<Rightarrow> (io_error + nat) \<times> tree" where
  "new_entry i d n x t =
     (if \<not> is_directory t d \<or> t i \<noteq> None then (Inl IoOther, t) else (Inr i, set_entry d n i (t(i \<mapsto> x))))"

text \<open>
  \<open>File::create\<close> opens with \<open>O_CREAT\<close> and \<open>O_TRUNC\<close>: the path is walked as for \<open>realpath\<close>, every link followed, and
  when its last component is missing from a directory, that is where the file is created. An existing file
  is emptied, a directory is refused.
\<close>

datatype creation = NewEntry nat string | ExistingFile nat

function creation_of :: "tree \<Rightarrow> nat \<Rightarrow> string list \<Rightarrow> string list \<Rightarrow> io_error + creation" where
  "creation_of t n acc [] = Inl IoOther"
| "creation_of t n acc (c # cs) =
     (if \<not> proper c then creation_of t n acc cs
      else if c = ''..'' then creation_of t n (butlast acc) cs
      else if CHR 0x00 \<in> set c then Inl IoOther
      else case descend t ROOT acc of
        None \<Rightarrow> Inl IoNotFound
      | Some d \<Rightarrow>
          (case child t d c of
             None \<Rightarrow> if cs = [] then Inr (NewEntry d c) else Inl IoNotFound
           | Some i \<Rightarrow>
               (case t i of
                  None \<Rightarrow> Inl IoOther
                | Some (FDir _) \<Rightarrow> creation_of t n (acc @ [c]) cs
                | Some (FFile _ _) \<Rightarrow> if cs = [] then Inr (ExistingFile i) else Inl IoOther
                | Some (FLink target) \<Rightarrow>
                    (case n of
                       0 \<Rightarrow> Inl IoOther
                     | Suc m \<Rightarrow>
                         creation_of t m (if starts_with ''/'' target then [] else acc) (path_pieces target @ cs)))))"
  by pat_completeness auto
termination
  by (relation "measures [\<lambda>(t, n, acc, cs). n, \<lambda>(t, n, acc, cs). length cs]") auto

definition sys_create :: "fs_env \<Rightarrow> string list \<Rightarrow> nat os_cmd" where
  "sys_create E p = oscall E (\<lambda>k t.
     case creation_of t MAX_LINKS [] p of
       Inl e \<Rightarrow> (Inl e, t)
     | Inr (NewEntry d n) \<Rightarrow> new_entry (fv_inode E k) d n (FFile [] (fv_now E k)) t
     | Inr (ExistingFile i) \<Rightarrow> (Inr i, t(i \<mapsto> FFile [] (fv_now E k))))"

text \<open>\<open>openat\<close> with \<open>O_CREAT | O_EXCL | O_NOFOLLOW\<close>, and the temporary file of a directory.\<close>

definition sys_create_exclat :: "fs_env \<Rightarrow> nat \<Rightarrow> string \<Rightarrow> nat os_cmd" where
  "sys_create_exclat E d n = oscall E (\<lambda>k t.
     if child t d n \<noteq> None then (Inl IoOther, t)
     else new_entry (fv_inode E k) d n (FFile [] (fv_now E k)) t)"

definition sys_tempfile_in :: "fs_env \<Rightarrow> string list \<Rightarrow> (string \<times> nat) os_cmd" where
  "sys_tempfile_in E p = oscall E (\<lambda>k t.
     case resolve_follow t p of
       Inl e \<Rightarrow> (Inl e, t)
     | Inr d \<Rightarrow>
         if child t d (fv_name E k) \<noteq> None then (Inl IoOther, t)
         else case new_entry (fv_inode E k) d (fv_name E k) (FFile [] (fv_now E k)) t of
           (Inl e, t') \<Rightarrow> (Inl e, t')
         | (Inr i, t') \<Rightarrow> (Inr (fv_name E k, i), t'))"

text \<open>\<open>write_all\<close> to an open file: its content grows.\<close>

definition sys_append :: "fs_env \<Rightarrow> nat \<Rightarrow> bytes \<Rightarrow> unit os_cmd" where
  "sys_append E i bs = oscall E (\<lambda>k t.
     case t i of
       Some (FFile old _) \<Rightarrow> (Inr (), t(i \<mapsto> FFile (old @ bs) (fv_now E k)))
     | _ \<Rightarrow> (Inl IoOther, t))"

definition sys_sync :: "fs_env \<Rightarrow> unit os_cmd" where
  "sys_sync E = look E (\<lambda>t. Inr ())"

definition sys_unlinkat :: "fs_env \<Rightarrow> nat \<Rightarrow> string \<Rightarrow> unit os_cmd" where
  "sys_unlinkat E d n = oscall E (\<lambda>k t.
     case child t d n of
       None \<Rightarrow> (Inl IoNotFound, t)
     | Some i \<Rightarrow> if is_directory t i then (Inl IoOther, t) else (Inr (), del_entry d n t))"

definition sys_mkdir :: "fs_env \<Rightarrow> string list \<Rightarrow> unit os_cmd" where
  "sys_mkdir E p = oscall E (\<lambda>k t.
     if p = [] then (Inl IoOther, t)
     else case resolve_parent t p of
       Inl e \<Rightarrow> (Inl e, t)
     | Inr d \<Rightarrow>
         if child t d (last p) \<noteq> None then (Inl IoOther, t)
         else case new_entry (fv_inode E k) d (last p) (FDir []) t of
           (Inl e, t') \<Rightarrow> (Inl e, t')
         | (Inr _, t') \<Rightarrow> (Inr (), t'))"

end
