(* ===== verification/FS_Service.thy ===== *)
theory FS_Service
  imports FS_Tree
begin

text \<open>
  The file service of the server: which directory a request is about (\<open>workspace_target.rs\<close>), the
  sandbox that keeps a path beneath it (\<open>fs/sandbox.rs\<close>), mutations (\<open>fs/mutate.rs\<close>), writes through
  directory handles (\<open>fs/secure_path.rs\<close>) and the request \<open>fs:op\<close> (\<open>do_fs_op\<close> of \<open>api/ws.rs\<close>).

  What git reports, the list of worktrees and the root of a repository, is the parameter \<open>git_view\<close>;
  the hash in a target key is a parameter. Texts of messages are left out.
\<close>

section \<open>Errors\<close>

datatype fs_error =
  FsNotFound | FsPathEscape | FsPermissionDenied | FsTooLarge nat | FsUnavailable | FsConflict
| FsMutationRefused | FsInvalidName | FsIo

definition fs_status_code :: "fs_error \<Rightarrow> nat" where
  "fs_status_code e =
     (case e of
        FsNotFound \<Rightarrow> 404
      | FsPathEscape \<Rightarrow> 403 | FsPermissionDenied \<Rightarrow> 403 | FsMutationRefused \<Rightarrow> 403
      | FsTooLarge _ \<Rightarrow> 413
      | FsUnavailable \<Rightarrow> 503
      | FsConflict \<Rightarrow> 409
      | FsInvalidName \<Rightarrow> 400
      | FsIo \<Rightarrow> 500)"

type_synonym 'a fs_cmd = "(os, fs_error, 'a) cmd"

definition map_io :: "io_error \<Rightarrow> fs_error" where
  "map_io e = (case e of IoNotFound \<Rightarrow> FsNotFound | IoDenied \<Rightarrow> FsPermissionDenied | IoOther \<Rightarrow> FsIo)"

text \<open>Errors as \<open>fs/\<close> maps them: by kind, and all alike.\<close>

abbreviation io :: "'a os_cmd \<Rightarrow> 'a fs_cmd" where
  "io m \<equiv> map_errC map_io m"

abbreviation raw_io :: "'a os_cmd \<Rightarrow> 'a fs_cmd" where
  "raw_io m \<equiv> map_errC (\<lambda>_. FsIo) m"

section \<open>Paths as text\<close>

fun normalize_components :: "string list \<Rightarrow> string list \<Rightarrow> string list" where
  "normalize_components acc [] = acc"
| "normalize_components acc (c # cs) =
     normalize_components (if c = ''..'' then (if acc \<noteq> [] then butlast acc else [''..'']) else acc @ [c]) cs"

definition normalize_target_path :: "string list \<Rightarrow> string list" where
  "normalize_target_path p = normalize_components [] (components p)"

definition target_path_identity :: "string list \<Rightarrow> string" where
  "target_path_identity p = CHR ''/'' # join_with (CHR ''/'') (normalize_target_path p)"

definition trim_end_slash :: "string \<Rightarrow> string" where
  "trim_end_slash s = rev (dropWhile (\<lambda>c. c = CHR ''/'') (rev s))"

definition target_path_is_within :: "string list \<Rightarrow> string list \<Rightarrow> bool" where
  "target_path_is_within path root =
     (let path_identity = target_path_identity path; root_identity = target_path_identity root;
          root_prefix = trim_end_slash root_identity
      in if path_identity = root_identity then True
         else if root_prefix = [] then starts_with ''/'' path_identity
         else starts_with (root_prefix @ ''/'') path_identity)"

definition target_path_relative :: "string list \<Rightarrow> string list \<Rightarrow> string list option" where
  "target_path_relative path root =
     (if ''..'' \<in> set (components path) then None
      else
        let path_identity = target_path_identity path; root_identity = target_path_identity root;
            root_prefix = trim_end_slash root_identity
        in if path_identity = root_identity then Some []
           else if root_prefix = [] then map_option (\<lambda>r. components (path_pieces r)) (strip_prefix_str ''/'' path_identity)
           else map_option (\<lambda>r. components (path_pieces r)) (strip_prefix_str (root_prefix @ ''/'') path_identity))"

section \<open>Targets\<close>

record worktree =
  wt_path :: string
  wt_branch :: string
  wt_commit_hash :: string
  wt_is_main :: bool
  wt_is_locked :: bool
  wt_is_detached :: bool
  wt_is_bare :: bool
  wt_is_prunable :: bool
  wt_is_available :: bool

record target_ref =
  tr_project :: string
  tr_worktree_path :: "string option"

record resolved_target =
  rt_project :: string
  rt_configured_root :: "string list"
  rt_target_path :: "string list"
  rt_target_key :: string
  rt_is_root :: bool
  rt_available :: bool
  rt_worktree :: "worktree option"

datatype target_error =
  UnknownProject | UnregisteredTarget | UnavailableTarget | InvalidTargetPath | GitError string

record registered_worktree =
  rw_worktree :: worktree
  rw_target_path :: "string list"
  rw_canonical_target_path :: "string list option"
  rw_stable_target_path :: "string list"
  rw_available :: bool

record git_view =
  gv_worktrees :: "string list \<Rightarrow> string + worktree list"
  gv_repository_root :: "string list \<Rightarrow> string + string list"

type_synonym 'a target_cmd = "(os, target_error, 'a) cmd"

text \<open>\<open>canonicalize(\<dots>).ok()\<close> and \<open>is_dir()\<close>.\<close>

definition canonicalize_path :: "fs_env \<Rightarrow> string list \<Rightarrow> (os, 'e, string list option) cmd" where
  "canonicalize_path E p =
     bindC (attemptC (sys_canonicalize E p)) (\<lambda>r. retC (case r of Inl _ \<Rightarrow> None | Inr q \<Rightarrow> Some q))"

definition path_is_dir :: "fs_env \<Rightarrow> string list \<Rightarrow> (os, 'e, bool) cmd" where
  "path_is_dir E p =
     bindC (attemptC (sys_metadata E p)) (\<lambda>r. retC (case r of Inr (_, FDir _) \<Rightarrow> True | _ \<Rightarrow> False))"

definition okC :: "'e \<Rightarrow> 'a option \<Rightarrow> ('s, 'e, 'a) cmd" where
  "okC e x = (case x of None \<Rightarrow> failC e | Some y \<Rightarrow> retC y)"

fun mapC :: "('a \<Rightarrow> ('s, 'e, 'b) cmd) \<Rightarrow> 'a list \<Rightarrow> ('s, 'e, 'b list) cmd" where
  "mapC f [] = retC []"
| "mapC f (x # xs) = bindC (f x) (\<lambda>y. bindC (mapC f xs) (\<lambda>ys. retC (y # ys)))"

definition canonical_configured_root :: "fs_env \<Rightarrow> string list \<Rightarrow> string list target_cmd" where
  "canonical_configured_root E p =
     bindC (canonicalize_path E p) (\<lambda>c.
     bindC (okC UnavailableTarget c) (\<lambda>q.
     bindC (path_is_dir E q) (\<lambda>d. if d then retC q else failC InvalidTargetPath)))"

definition root_target :: "string \<Rightarrow> string list \<Rightarrow> resolved_target" where
  "root_target project root =
     \<lparr> rt_project = project, rt_configured_root = root, rt_target_path = root, rt_target_key = ''root'',
       rt_is_root = True, rt_available = True, rt_worktree = None \<rparr>"

definition discover_target :: "fs_env \<Rightarrow> string list \<Rightarrow> worktree \<Rightarrow> registered_worktree target_cmd" where
  "discover_target E relative w =
     (let root = path_pieces (wt_path w); target = (if relative = [] then root else root @ relative)
      in bindC (canonicalize_path E target) (\<lambda>canonical_target.
         bindC (canonicalize_path E root) (\<lambda>canonical_root.
         bindC (if \<not> wt_is_bare w \<and> wt_is_available w
                then case (canonical_root, canonical_target) of
                       (Some r, Some t) \<Rightarrow> bindC (path_is_dir E t) (\<lambda>d. retC (d \<and> target_path_is_within t r))
                     | _ \<Rightarrow> retC False
                else retC False) (\<lambda>available.
         retC \<lparr> rw_worktree = w, rw_target_path = target, rw_canonical_target_path = canonical_target,
                rw_stable_target_path = (case canonical_target of Some t \<Rightarrow> t | None \<Rightarrow> normalize_target_path target),
                rw_available = available \<rparr>))))"

definition discover_targets :: "fs_env \<Rightarrow> git_view \<Rightarrow> string list \<Rightarrow> worktree list \<Rightarrow> registered_worktree list target_cmd" where
  "discover_targets E G configured_root worktrees =
     bindC (liftC (case gv_repository_root G configured_root of Inl m \<Rightarrow> Inl (GitError m) | Inr r \<Rightarrow> Inr r)) (\<lambda>r.
     bindC (canonicalize_path E r) (\<lambda>c.
     bindC (okC UnavailableTarget c) (\<lambda>repository.
     bindC (okC InvalidTargetPath (target_path_relative configured_root repository)) (\<lambda>relative.
       mapC (discover_target E relative) worktrees))))"

definition is_not_git_repository_error :: "string \<Rightarrow> bool" where
  "is_not_git_repository_error message = contains_str ''not a git repository'' (to_ascii_lowercase message)"

definition map_target_discovery_error :: "target_error \<Rightarrow> target_error" where
  "map_target_discovery_error e =
     (case e of GitError m \<Rightarrow> if is_not_git_repository_error m then UnregisteredTarget else e | _ \<Rightarrow> e)"

definition paths_match :: "string list option \<Rightarrow> string list \<Rightarrow> registered_worktree \<Rightarrow> bool" where
  "paths_match requested_canonical requested candidate =
     ((case (requested_canonical, rw_canonical_target_path candidate) of
         (Some r, Some c) \<Rightarrow>
           target_path_identity r = target_path_identity c \<and>
           (\<not> wt_is_main (rw_worktree candidate) \<or>
            target_path_identity requested = target_path_identity (rw_target_path candidate))
       | _ \<Rightarrow> False) \<or>
      target_path_identity requested = target_path_identity (rw_stable_target_path candidate))"

definition live_target_path :: "fs_env \<Rightarrow> registered_worktree \<Rightarrow> (os, 'e, string list option) cmd" where
  "live_target_path E candidate =
     (if wt_is_prunable (rw_worktree candidate) \<or> \<not> rw_available candidate then retC None
      else
        let root = path_pieces (wt_path (rw_worktree candidate)) in
        bindC (attemptC (sys_symlink_metadata E (components root))) (\<lambda>m.
          case m of
            Inr (FDir _) \<Rightarrow>
              bindC (canonicalize_path E root) (\<lambda>canonical_root.
                case canonical_root of
                  None \<Rightarrow> retC None
                | Some r \<Rightarrow>
                    bindC (canonicalize_path E (rw_target_path candidate)) (\<lambda>canonical_target.
                      case canonical_target of
                        None \<Rightarrow> retC None
                      | Some t \<Rightarrow>
                          bindC (path_is_dir E t) (\<lambda>d.
                            retC (if \<not> d \<or> \<not> target_path_is_within t r then None else Some t))))
          | _ \<Rightarrow> retC None))"

definition worktree_projection :: "registered_worktree \<Rightarrow> worktree" where
  "worktree_projection candidate =
     (rw_worktree candidate)\<lparr>wt_path := CHR ''/'' # join_with (CHR ''/'') (rw_stable_target_path candidate),
       wt_is_available := rw_available candidate\<rparr>"

definition resolve_target :: "fs_env \<Rightarrow> git_view \<Rightarrow> (string list \<Rightarrow> string) \<Rightarrow> target_ref \<Rightarrow> string list \<Rightarrow> resolved_target target_cmd" where
  "resolve_target E G H ref root0 =
     bindC (canonical_configured_root E root0) (\<lambda>configured_root.
       case tr_worktree_path ref of
         None \<Rightarrow> retC (root_target (tr_project ref) configured_root)
       | Some requested_path \<Rightarrow>
           if requested_path = [] \<or> CHR 0x00 \<in> set requested_path \<or> \<not> starts_with ''/'' requested_path
           then failC InvalidTargetPath
           else
             let requested = path_pieces requested_path in
             bindC (canonicalize_path E requested) (\<lambda>requested_canonical.
             bindC (map_errC map_target_discovery_error
                      (liftC (case gv_worktrees G configured_root of Inl m \<Rightarrow> Inl (GitError m) | Inr ws \<Rightarrow> Inr ws))) (\<lambda>worktrees.
             bindC (map_errC map_target_discovery_error (discover_targets E G configured_root worktrees)) (\<lambda>candidates.
             bindC (okC UnregisteredTarget (find (paths_match requested_canonical requested) candidates)) (\<lambda>candidate.
             bindC (live_target_path E candidate) (\<lambda>live.
             bindC (okC UnavailableTarget live) (\<lambda>target_path.
               retC \<lparr> rt_project = tr_project ref, rt_configured_root = configured_root, rt_target_path = target_path,
                      rt_target_key = H target_path, rt_is_root = False, rt_available = True,
                      rt_worktree = Some (worktree_projection candidate) \<rparr>)))))))"

text \<open>The configuration and the parts of the service that requests share.\<close>

record fs_service =
  sv_projects :: "(string \<times> string) list"
  sv_sandbox :: "(string \<rightharpoonup> string list) option"
  sv_git :: git_view
  sv_key :: "string list \<Rightarrow> string"

definition resolve_project_target :: "fs_env \<Rightarrow> fs_service \<Rightarrow> target_ref \<Rightarrow> resolved_target target_cmd" where
  "resolve_project_target E V ref =
     (case map_of (sv_projects V) (tr_project ref) of
        None \<Rightarrow> failC UnknownProject
      | Some path \<Rightarrow> resolve_target E (sv_git V) (sv_key V) ref (path_pieces path))"

section \<open>Sandbox\<close>

definition canonicalize_existing :: "fs_env \<Rightarrow> string list \<Rightarrow> string list fs_cmd" where
  "canonicalize_existing E p =
     map_errC (\<lambda>e. if e = IoNotFound then FsNotFound else FsIo) (sys_canonicalize E p)"

fun sandbox_new :: "fs_env \<Rightarrow> (string \<times> string list) list \<Rightarrow> (string \<rightharpoonup> string list) \<Rightarrow> (os, 'e, string \<rightharpoonup> string list) cmd" where
  "sandbox_new E [] roots = retC roots"
| "sandbox_new E ((name, root) # projects) roots =
     bindC (attemptC (canonicalize_existing E root)) (\<lambda>r.
       sandbox_new E projects (case r of Inl _ \<Rightarrow> roots | Inr q \<Rightarrow> roots(name \<mapsto> q)))"

definition validate_new_name :: "string \<Rightarrow> fs_error + unit" where
  "validate_new_name name =
     and_then (ensure (name \<noteq> []) FsInvalidName) (\<lambda>_.
       ensure (\<not> (CHR ''/'' \<in> set name \<or> CHR 0x5C \<in> set name \<or> name = ''..'' \<or> name = ''.'')) FsInvalidName)"

definition validate_existing_under_root :: "fs_env \<Rightarrow> string list \<Rightarrow> string list \<Rightarrow> string list fs_cmd" where
  "validate_existing_under_root E root proposed =
     (if ''..'' \<in> set (components proposed) then failC FsPathEscape
      else bindC (canonicalize_existing E proposed) (\<lambda>canonical.
        if \<not> target_path_is_within canonical root then failC FsPathEscape else retC canonical))"

definition validate_new_under_root :: "fs_env \<Rightarrow> string list \<Rightarrow> string list \<Rightarrow> string \<Rightarrow> string list fs_cmd" where
  "validate_new_under_root E root parent name =
     bindC (liftC (validate_new_name name)) (\<lambda>_.
       if ''..'' \<in> set (components parent) then failC FsPathEscape
       else bindC (canonicalize_existing E parent) (\<lambda>canonical_parent.
         if \<not> target_path_is_within canonical_parent root then failC FsPathEscape
         else retC (canonical_parent @ [name])))"

definition sandbox_target_root :: "(string \<rightharpoonup> string list) \<Rightarrow> resolved_target \<Rightarrow> fs_error + string list" where
  "sandbox_target_root roots target =
     (case roots (rt_project target) of
        None \<Rightarrow> Inl FsNotFound
      | Some configured_root \<Rightarrow>
          if target_path_identity configured_root \<noteq> target_path_identity (rt_configured_root target) \<or> \<not> rt_available target
          then Inl FsPathEscape else Inr (rt_target_path target))"

definition validate_target :: "fs_env \<Rightarrow> (string \<rightharpoonup> string list) \<Rightarrow> resolved_target \<Rightarrow> string list \<Rightarrow> string list fs_cmd" where
  "validate_target E roots target proposed =
     bindC (liftC (sandbox_target_root roots target)) (\<lambda>root. validate_existing_under_root E root proposed)"

definition validate_new_target_path ::
  "fs_env \<Rightarrow> (string \<rightharpoonup> string list) \<Rightarrow> resolved_target \<Rightarrow> string list \<Rightarrow> string \<Rightarrow> string list fs_cmd" where
  "validate_new_target_path E roots target parent name =
     bindC (liftC (sandbox_target_root roots target)) (\<lambda>root. validate_new_under_root E root parent name)"

definition service_sandbox :: "fs_service \<Rightarrow> fs_error + (string \<rightharpoonup> string list)" where
  "service_sandbox V = (case sv_sandbox V of None \<Rightarrow> Inl FsUnavailable | Some roots \<Rightarrow> Inr roots)"

section \<open>Mutations\<close>

definition assert_safe_mutation :: "string list \<Rightarrow> string list \<Rightarrow> bool \<Rightarrow> fs_error + unit" where
  "assert_safe_mutation path project_root force_git =
     (if path = project_root then Inl FsMutationRefused
      else if \<not> force_git \<and> ''.git'' \<in> set (components path) then Inl FsMutationRefused
      else Inr ())"

definition create_file :: "fs_env \<Rightarrow> string list \<Rightarrow> string list \<Rightarrow> unit fs_cmd" where
  "create_file E path project_root =
     bindC (liftC (assert_safe_mutation path project_root False)) (\<lambda>_.
     bindC (sys_exists E path) (\<lambda>exists.
       if exists then failC FsMutationRefused
       else bindC (io (sys_create E path)) (\<lambda>_. retC ())))"

text \<open>\<open>create_dir_all\<close> of the standard library; an error is forgiven where a directory is found.\<close>

definition or_directory :: "fs_env \<Rightarrow> string list \<Rightarrow> io_error + unit \<Rightarrow> unit os_cmd" where
  "or_directory E p r =
     (case r of
        Inr _ \<Rightarrow> retC ()
      | Inl e \<Rightarrow> bindC (path_is_dir E p) (\<lambda>d. if d then retC () else failC e))"

function create_dir_all :: "fs_env \<Rightarrow> string list \<Rightarrow> unit os_cmd" where
  "create_dir_all E p =
     (if p = [] then retC ()
      else bindC (attemptC (sys_mkdir E p)) (\<lambda>r.
        if r = Inl IoNotFound then
          bindC (create_dir_all E (butlast p)) (\<lambda>_.
          bindC (attemptC (sys_mkdir E p)) (or_directory E p))
        else or_directory E p r))"
  by pat_completeness auto
termination
  by (relation "measure (\<lambda>(E, p). length p)") auto

declare create_dir_all.simps [simp del]

definition create_dir :: "fs_env \<Rightarrow> string list \<Rightarrow> string list \<Rightarrow> unit fs_cmd" where
  "create_dir E path project_root =
     bindC (liftC (assert_safe_mutation path project_root False)) (\<lambda>_. io (create_dir_all E path))"

definition rename_path :: "fs_env \<Rightarrow> string list \<Rightarrow> string list \<Rightarrow> string list \<Rightarrow> unit fs_cmd" where
  "rename_path E src dst project_root =
     bindC (liftC (assert_safe_mutation src project_root False)) (\<lambda>_.
     bindC (sys_exists E src) (\<lambda>exists.
       if \<not> exists then failC FsNotFound
       else bindC (case path_parent dst of None \<Rightarrow> retC True | Some p \<Rightarrow> sys_exists E p) (\<lambda>parent_exists.
         if \<not> parent_exists then failC FsNotFound else io (sys_rename E src dst))))"

definition move_path :: "fs_env \<Rightarrow> string list \<Rightarrow> string list \<Rightarrow> string list \<Rightarrow> unit fs_cmd" where
  "move_path E src dst project_root =
     bindC (liftC (assert_safe_mutation src project_root False)) (\<lambda>_.
     bindC (sys_exists E src) (\<lambda>exists.
       if \<not> exists then failC FsNotFound
       else bindC (case path_parent dst of None \<Rightarrow> retC True | Some p \<Rightarrow> sys_exists E p) (\<lambda>parent_exists.
         if \<not> parent_exists then failC FsNotFound else io (sys_rename E src dst))))"

definition delete_path :: "fs_env \<Rightarrow> string list \<Rightarrow> string list \<Rightarrow> bool \<Rightarrow> unit fs_cmd" where
  "delete_path E path project_root force_git =
     bindC (liftC (assert_safe_mutation path project_root force_git)) (\<lambda>_.
     bindC (sys_exists E path) (\<lambda>exists.
       if \<not> exists then failC FsNotFound
       else bindC (io (sys_symlink_metadata E path)) (\<lambda>meta.
         case meta of FDir _ \<Rightarrow> io (sys_remove_dir_all E path) | _ \<Rightarrow> io (sys_unlink E path))))"

section \<open>The request\<close>

definition trim_leading_slash :: "string \<Rightarrow> string" where
  "trim_leading_slash s =
     (if s = [] \<or> s = ''/'' then ''.'' else dropWhile (\<lambda>c. c = CHR ''/'') s)"

definition join_path :: "string list \<Rightarrow> string \<Rightarrow> string list" where
  "join_path root rel = root @ path_pieces rel"

text \<open>The parent and the name of a path that need not exist.\<close>

definition split_new :: "string list \<Rightarrow> string list \<Rightarrow> string list \<times> string" where
  "split_new root proposed =
     (case path_parent proposed of None \<Rightarrow> root | Some p \<Rightarrow> p,
      case path_name proposed of None \<Rightarrow> [] | Some n \<Rightarrow> n)"

definition refused :: "'a target_cmd \<Rightarrow> 'a fs_cmd" where
  "refused m = map_errC (\<lambda>_. FsMutationRefused) m"

text \<open>The part of the request after its target is known.\<close>

definition fs_op_at :: "fs_env \<Rightarrow> fs_service \<Rightarrow> string \<Rightarrow> string \<Rightarrow> string option \<Rightarrow> bool \<Rightarrow> resolved_target \<Rightarrow> unit fs_cmd" where
  "fs_op_at E V oper path new_path force_git target =
     bindC (liftC (service_sandbox V)) (\<lambda>roots.
       let root = rt_target_path target in
       if oper = ''create_file'' \<or> oper = ''create_dir'' then
         (case split_new root (join_path root (trim_leading_slash path)) of
            (parent, name) \<Rightarrow>
              bindC (validate_new_target_path E roots target parent name) (\<lambda>new_abs.
                if oper = ''create_file'' then create_file E new_abs root else create_dir E new_abs root))
       else if oper = ''delete'' then
         bindC (if trim_leading_slash path = ''.'' then retC root
                else validate_target E roots target (join_path root (trim_leading_slash path))) (\<lambda>abs.
           delete_path E abs root force_git)
       else if oper = ''rename'' \<or> oper = ''move'' then
         bindC (validate_target E roots target (join_path root (trim_leading_slash path))) (\<lambda>abs.
         bindC (okC FsMutationRefused new_path) (\<lambda>dst.
           (case split_new root (join_path root (trim_leading_slash dst)) of
              (dst_parent, dst_name) \<Rightarrow>
                bindC (validate_new_target_path E roots target dst_parent dst_name) (\<lambda>dst_abs.
                  if oper = ''rename'' then rename_path E abs dst_abs root else move_path E abs dst_abs root))))
       else failC FsMutationRefused)"

definition do_fs_op ::
  "fs_env \<Rightarrow> fs_service \<Rightarrow> string \<Rightarrow> target_ref \<Rightarrow> string \<Rightarrow> string option \<Rightarrow> bool \<Rightarrow> unit fs_cmd" where
  "do_fs_op E V oper ref path new_path force_git =
     bindC (refused (resolve_project_target E V ref)) (fs_op_at E V oper path new_path force_git)"

section \<open>Writes through directory handles\<close>

definition directory_identity :: "fs_env \<Rightarrow> string list \<Rightarrow> nat fs_cmd" where
  "directory_identity E p =
     bindC (raw_io (sys_metadata E p)) (\<lambda>(i, x). case x of FDir _ \<Rightarrow> retC i | _ \<Rightarrow> failC FsPathEscape)"

definition c_name :: "string \<Rightarrow> fs_error + string" where
  "c_name n = (if CHR 0x00 \<in> set n then Inl FsPathEscape else Inr n)"

fun open_components :: "fs_env \<Rightarrow> nat \<Rightarrow> string list \<Rightarrow> nat fs_cmd" where
  "open_components E d [] = retC d"
| "open_components E d (c # cs) =
     (if c = ''..'' then failC FsPathEscape
      else bindC (liftC (c_name c)) (\<lambda>name.
           bindC (io (sys_openat_dir E d name)) (\<lambda>d'. open_components E d' cs)))"

definition open_parent :: "fs_env \<Rightarrow> string list \<Rightarrow> string list \<Rightarrow> nat option \<Rightarrow> nat fs_cmd" where
  "open_parent E root relative expected_root =
     (if \<exists>c \<in> set root. CHR 0x00 \<in> set c then failC FsPathEscape
      else bindC (io (sys_open_dir E root)) (\<lambda>current.
      bindC (case expected_root of
               None \<Rightarrow> retC ()
             | Some i \<Rightarrow> bindC (io (look E (\<lambda>t. Inr current))) (\<lambda>j. if j \<noteq> i then failC FsMutationRefused else retC ())) (\<lambda>_.
        open_components E current relative)))"

definition component_name :: "string list \<Rightarrow> fs_error + string" where
  "component_name p = (case path_name p of None \<Rightarrow> Inl FsMutationRefused | Some n \<Rightarrow> c_name n)"

definition check_expected_mtime :: "fs_env \<Rightarrow> nat \<Rightarrow> string \<Rightarrow> int option \<Rightarrow> unit fs_cmd" where
  "check_expected_mtime E d name expected =
     (case expected of
        None \<Rightarrow> retC ()
      | Some m \<Rightarrow> bindC (io (sys_statat E d name)) (\<lambda>(_, m'). if m' \<noteq> m then failC FsConflict else retC ()))"

definition stat_mtime_after_rename :: "fs_env \<Rightarrow> nat \<Rightarrow> string \<Rightarrow> int fs_cmd" where
  "stat_mtime_after_rename E d name =
     bindC (io (sys_statat E d name)) (\<lambda>(x, m). case x of FFile _ _ \<Rightarrow> retC m | _ \<Rightarrow> failC FsMutationRefused)"

text \<open>A temporary file: where it was made and its inode. When it is dropped its path is unlinked.\<close>

record temp_file =
  tf_dir :: "string list"
  tf_name :: string
  tf_inode :: nat

definition drop_temp :: "fs_env \<Rightarrow> temp_file \<Rightarrow> (os, 'e, unit) cmd" where
  "drop_temp E temp = bindC (attemptC (sys_unlink E (tf_dir temp @ [tf_name temp]))) (\<lambda>_. retC ())"

definition with_temp :: "fs_env \<Rightarrow> temp_file \<Rightarrow> 'a fs_cmd \<Rightarrow> 'a fs_cmd" where
  "with_temp E temp m = bindC (attemptC m) (\<lambda>r. bindC (drop_temp E temp) (\<lambda>_. liftC r))"

definition persist_steps :: "fs_env \<Rightarrow> string list \<Rightarrow> string list \<Rightarrow> temp_file \<Rightarrow> int option \<Rightarrow> nat option \<Rightarrow> bool \<Rightarrow> int fs_cmd" where
  "persist_steps E root relative temp expected_mtime expected_root fsync =
     bindC (okC FsMutationRefused (path_parent relative)) (\<lambda>parent_path.
     bindC (open_parent E root parent_path expected_root) (\<lambda>d.
     bindC (liftC (component_name relative)) (\<lambda>name.
     bindC (check_expected_mtime E d name expected_mtime) (\<lambda>_.
     bindC (liftC (component_name (tf_dir temp @ [tf_name temp]))) (\<lambda>temp_name.
     bindC (if fsync then io (sys_sync E) else retC ()) (\<lambda>_.
     bindC (io (sys_renameat E d temp_name name)) (\<lambda>_.
       stat_mtime_after_rename E d name)))))))"

definition persist_temp :: "fs_env \<Rightarrow> string list \<Rightarrow> string list \<Rightarrow> temp_file \<Rightarrow> int option \<Rightarrow> nat option \<Rightarrow> bool \<Rightarrow> int fs_cmd" where
  "persist_temp E root relative temp expected_mtime expected_root fsync =
     with_temp E temp (persist_steps E root relative temp expected_mtime expected_root fsync)"

definition write_bytes ::
  "fs_env \<Rightarrow> string list \<Rightarrow> string list \<Rightarrow> string \<Rightarrow> bytes \<Rightarrow> int option \<Rightarrow> nat option \<Rightarrow> bool \<Rightarrow> int fs_cmd" where
  "write_bytes E root relative temp_name bs expected_mtime expected_root fsync =
     bindC (okC FsMutationRefused (path_parent relative)) (\<lambda>parent_path.
     bindC (open_parent E root parent_path expected_root) (\<lambda>d.
     bindC (liftC (component_name relative)) (\<lambda>name.
     bindC (check_expected_mtime E d name expected_mtime) (\<lambda>_.
     bindC (io (sys_create_exclat E d temp_name)) (\<lambda>file.
     bindC (attemptC (io (sys_append E file bs))) (\<lambda>written.
       case written of
         Inl e \<Rightarrow> bindC (attemptC (sys_unlinkat E d temp_name)) (\<lambda>_. failC e)
       | Inr _ \<Rightarrow>
           bindC (if fsync then io (sys_sync E) else retC ()) (\<lambda>_.
           bindC (attemptC (io (sys_renameat E d temp_name name))) (\<lambda>renamed.
             case renamed of
               Inl e \<Rightarrow> bindC (attemptC (sys_unlinkat E d temp_name)) (\<lambda>_. failC e)
             | Inr _ \<Rightarrow> stat_mtime_after_rename E d name))))))))"

end
