(* ===== verification/FS_Transfer.thy ===== *)
theory FS_Transfer
  imports FS_Service
begin

text \<open>
  Writes and uploads in pieces over a WebSocket connection (\<open>api/ws.rs\<close>, \<open>fs/upload.rs\<close>): a session
  begins with a validated path, the identity of its target directory and a temporary file, takes
  numbered chunks as text or as binary frames, and ends with a commit that validates all again.

  The sessions of a connection are association lists. Sizes and sequence numbers are natural numbers:
  they count bytes and messages that were received. The decoder of Base64 is a parameter. A session that
  ends without a commit drops its temporary file.
\<close>

section \<open>Sessions\<close>

definition FS_WRITE_MAX :: nat where
  "FS_WRITE_MAX = 100 * 1024 * 1024"

definition MAX_UPLOAD_BYTES :: nat where
  "MAX_UPLOAD_BYTES = 100 * 1024 * 1024"

record target_binding =
  tb_resolved :: resolved_target
  tb_root_identity :: nat

record write_in_flight =
  wf_target :: target_binding
  wf_relative_path :: "string list"
  wf_abs_path :: "string list"
  wf_expected_mtime :: int
  wf_declared_size :: nat
  wf_next_seq :: nat
  wf_temp :: temp_file
  wf_bytes_written :: nat

record upload_state =
  us_temp :: temp_file
  us_target_abs :: "string list"
  us_bytes_written :: nat
  us_expected_len :: nat
  us_next_seq :: nat

record upload_in_flight =
  uf_target :: target_binding
  uf_relative_path :: "string list"
  uf_inner :: upload_state

datatype pending_binary = PendingUpload string nat | PendingWrite nat nat

record transfers =
  xf_writes :: "(nat \<times> write_in_flight) list"
  xf_next_write_id :: nat
  xf_uploads :: "(string \<times> upload_in_flight) list"
  xf_pending :: "pending_binary option"

definition transfers_new :: transfers where
  "transfers_new = \<lparr> xf_writes = [], xf_next_write_id = 1, xf_uploads = [], xf_pending = None \<rparr>"

datatype resolve_error = ResolveTarget target_error | ResolveFs fs_error

datatype begin_error = BeginTooLarge | BeginRejected resolve_error | BeginOutside | BeginFs fs_error | BeginIo

datatype ws_reply =
  WriteAck nat | WriteBeginError begin_error | WriteChunkAck nat nat
| WriteDone nat int | WriteConflict nat | WriteFailed nat
| UploadBeginOk string | UploadBeginFailed string fs_error | UploadChunkAck string nat
| UploadDone string int | UploadFailed string

section \<open>Paths of a session\<close>

definition api_resolve ::
  "fs_env \<Rightarrow> fs_service \<Rightarrow> target_ref \<Rightarrow> string \<Rightarrow> (os, resolve_error, resolved_target \<times> string list) cmd" where
  "api_resolve E V ref rel_path =
     (if starts_with ''/'' rel_path then failC (ResolveFs FsPathEscape)
      else bindC (map_errC ResolveTarget (resolve_project_target E V ref)) (\<lambda>target.
      bindC (map_errC ResolveFs (liftC (service_sandbox V))) (\<lambda>roots.
      bindC (map_errC ResolveFs (validate_target E roots target (join_path (rt_target_path target) rel_path))) (\<lambda>canonical.
        retC (target, canonical)))))"

definition resolve_target_path ::
  "fs_env \<Rightarrow> fs_service \<Rightarrow> target_ref \<Rightarrow> string \<Rightarrow> (os, resolve_error, resolved_target \<times> string list) cmd" where
  "resolve_target_path E V ref path = api_resolve E V ref (trim_leading_slash path)"

definition bind_resolved_target :: "fs_env \<Rightarrow> resolved_target \<Rightarrow> target_binding fs_cmd" where
  "bind_resolved_target E target =
     bindC (directory_identity E (rt_target_path target)) (\<lambda>i.
       retC \<lparr> tb_resolved = target, tb_root_identity = i \<rparr>)"

definition revalidate_target_binding :: "fs_env \<Rightarrow> fs_service \<Rightarrow> target_binding \<Rightarrow> resolved_target fs_cmd" where
  "revalidate_target_binding E V binding =
     (let expected = tb_resolved binding;
          ref = \<lparr> tr_project = rt_project expected,
                  tr_worktree_path = (if rt_is_root expected then None
                                      else Some (CHR ''/'' # join_with (CHR ''/'') (rt_target_path expected))) \<rparr>
      in bindC (refused (resolve_project_target E V ref)) (\<lambda>current.
           if rt_project current \<noteq> rt_project expected \<or> rt_configured_root current \<noteq> rt_configured_root expected \<or>
              rt_target_path current \<noteq> rt_target_path expected \<or> rt_target_key current \<noteq> rt_target_key expected \<or>
              rt_is_root current \<noteq> rt_is_root expected
           then failC FsMutationRefused
           else bindC (directory_identity E (rt_target_path current)) (\<lambda>i.
             if i \<noteq> tb_root_identity binding then failC FsMutationRefused else retC current)))"

definition revalidate_bound_path ::
  "fs_env \<Rightarrow> fs_service \<Rightarrow> target_binding \<Rightarrow> string list \<Rightarrow> string list \<Rightarrow> bool \<Rightarrow> string list fs_cmd" where
  "revalidate_bound_path E V binding relative_path expected_abs allow_missing_final =
     bindC (revalidate_target_binding E V binding) (\<lambda>current.
     bindC (liftC (service_sandbox V)) (\<lambda>roots.
       let proposed = rt_target_path current @ relative_path in
       bindC (if allow_missing_final then
                bindC (okC FsMutationRefused (path_parent proposed)) (\<lambda>parent.
                bindC (okC FsMutationRefused (path_name proposed)) (\<lambda>name.
                  validate_new_target_path E roots current parent name))
              else validate_target E roots current proposed) (\<lambda>validated.
         if validated \<noteq> expected_abs then failC FsMutationRefused else retC validated)))"

definition strip_root :: "string list \<Rightarrow> string list \<Rightarrow> string list option" where
  "strip_root root p = (if take (length root) p = root then Some (drop (length root) p) else None)"

definition tempfile_in :: "fs_env \<Rightarrow> string list \<Rightarrow> temp_file os_cmd" where
  "tempfile_in E dir =
     bindC (sys_tempfile_in E dir) (\<lambda>(n, i). retC \<lparr> tf_dir = dir, tf_name = n, tf_inode = i \<rparr>)"

section \<open>Writes\<close>

text \<open>A handler leaves a reply, if any, and the new state of the connection.\<close>

type_synonym handler = "transfers \<Rightarrow> os \<Rightarrow> ws_reply option \<times> transfers \<times> os"

definition write_begin_check ::
  "fs_env \<Rightarrow> fs_service \<Rightarrow> target_ref \<Rightarrow> string \<Rightarrow> int \<Rightarrow> nat \<Rightarrow> (os, begin_error, write_in_flight) cmd" where
  "write_begin_check E V ref path expected_mtime size_bytes =
     (if size_bytes > FS_WRITE_MAX then failC BeginTooLarge
      else bindC (map_errC BeginRejected (resolve_target_path E V ref path)) (\<lambda>(target, abs_path).
      bindC (okC BeginOutside (strip_root (rt_target_path target) abs_path)) (\<lambda>relative_path.
      bindC (map_errC BeginFs (bind_resolved_target E target)) (\<lambda>binding.
      bindC (map_errC (\<lambda>_. BeginIo)
               (tempfile_in E (case path_parent abs_path of None \<Rightarrow> abs_path | Some p \<Rightarrow> p))) (\<lambda>temp.
        retC \<lparr> wf_target = binding, wf_relative_path = relative_path, wf_abs_path = abs_path,
               wf_expected_mtime = expected_mtime, wf_declared_size = size_bytes, wf_next_seq = 0,
               wf_temp = temp, wf_bytes_written = 0 \<rparr>)))))"

definition fs_write_begin :: "fs_env \<Rightarrow> fs_service \<Rightarrow> target_ref \<Rightarrow> string \<Rightarrow> int \<Rightarrow> nat \<Rightarrow> handler" where
  "fs_write_begin E V ref path expected_mtime size_bytes x s =
     (case write_begin_check E V ref path expected_mtime size_bytes s of
        (Inl e, s') \<Rightarrow> (Some (WriteBeginError e), x, s')
      | (Inr w, s') \<Rightarrow>
          (let write_id = xf_next_write_id x
           in (Some (WriteAck write_id),
               x\<lparr>xf_next_write_id := Suc write_id, xf_writes := AList.update write_id w (xf_writes x)\<rparr>, s')))"

definition abort_write :: "fs_env \<Rightarrow> nat \<Rightarrow> write_in_flight \<Rightarrow> handler" where
  "abort_write E write_id w x s =
     (None, x\<lparr>xf_writes := AList.delete write_id (xf_writes x)\<rparr>, snd (drop_temp E (wf_temp w) s :: (unit + unit) \<times> os))"

text \<open>What both kinds of chunk do with their bytes (\<open>FsWriteChunk\<close>, \<open>handle_write_binary\<close>).\<close>

definition accept_write_chunk :: "fs_env \<Rightarrow> nat \<Rightarrow> nat \<Rightarrow> bytes \<Rightarrow> write_in_flight \<Rightarrow> handler" where
  "accept_write_chunk E write_id seq bs w x s =
     (let accumulated = wf_bytes_written w + length bs
      in if accumulated > wf_declared_size w then abort_write E write_id w x s
         else case sys_append E (tf_inode (wf_temp w)) bs s of
           (Inl _, s') \<Rightarrow> abort_write E write_id w x s'
         | (Inr _, s') \<Rightarrow>
             (Some (WriteChunkAck write_id seq),
              x\<lparr>xf_writes := AList.update write_id
                   (w\<lparr>wf_bytes_written := accumulated, wf_next_seq := Suc (wf_next_seq w)\<rparr>) (xf_writes x)\<rparr>, s'))"

definition fs_write_chunk :: "fs_env \<Rightarrow> (string \<Rightarrow> bytes option) \<Rightarrow> nat \<Rightarrow> nat \<Rightarrow> string \<Rightarrow> handler" where
  "fs_write_chunk E B write_id seq data x s =
     (case map_of (xf_writes x) write_id of
        None \<Rightarrow> (None, x, s)
      | Some w \<Rightarrow>
          if seq \<noteq> wf_next_seq w then abort_write E write_id w x s
          else case B data of
            None \<Rightarrow> abort_write E write_id w x s
          | Some bs \<Rightarrow> accept_write_chunk E write_id seq bs w x s)"

definition fs_write_chunk_binary :: "fs_env \<Rightarrow> nat \<Rightarrow> nat \<Rightarrow> handler" where
  "fs_write_chunk_binary E write_id seq x s =
     (case map_of (xf_writes x) write_id of
        None \<Rightarrow> (None, x, s)
      | Some w \<Rightarrow>
          if seq \<noteq> wf_next_seq w then abort_write E write_id w x s
          else (None, x\<lparr>xf_pending := Some (PendingWrite write_id seq)\<rparr>, s))"

definition handle_write_binary :: "fs_env \<Rightarrow> nat \<Rightarrow> nat \<Rightarrow> bytes \<Rightarrow> handler" where
  "handle_write_binary E write_id seq bs x s =
     (case map_of (xf_writes x) write_id of
        None \<Rightarrow> (None, x, s)
      | Some w \<Rightarrow> accept_write_chunk E write_id seq bs w x s)"

definition write_commit :: "fs_env \<Rightarrow> fs_service \<Rightarrow> write_in_flight \<Rightarrow> int fs_cmd" where
  "write_commit E V w s =
     (case revalidate_bound_path E V (wf_target w) (wf_relative_path w) (wf_abs_path w) False s of
        (Inl e, s') \<Rightarrow> (Inl e, snd (drop_temp E (wf_temp w) s' :: (unit + unit) \<times> os))
      | (Inr _, s') \<Rightarrow>
          persist_temp E (rt_target_path (tb_resolved (wf_target w))) (wf_relative_path w) (wf_temp w)
            (Some (wf_expected_mtime w)) (Some (tb_root_identity (wf_target w))) False s')"

definition fs_write_commit :: "fs_env \<Rightarrow> fs_service \<Rightarrow> nat \<Rightarrow> handler" where
  "fs_write_commit E V write_id x s =
     (case map_of (xf_writes x) write_id of
        None \<Rightarrow> (Some (WriteFailed write_id), x, s)
      | Some w \<Rightarrow>
          (let x' = x\<lparr>xf_writes := AList.delete write_id (xf_writes x)\<rparr>
           in if wf_bytes_written w \<noteq> wf_declared_size w
              then (Some (WriteFailed write_id), x', snd (drop_temp E (wf_temp w) s :: (unit + unit) \<times> os))
              else case write_commit E V w s of
                (Inr m, s') \<Rightarrow> (Some (WriteDone write_id m), x', s')
              | (Inl FsConflict, s') \<Rightarrow> (Some (WriteConflict write_id), x', s')
              | (Inl _, s') \<Rightarrow> (Some (WriteFailed write_id), x', s')))"

section \<open>Uploads\<close>

definition upload_new :: "fs_env \<Rightarrow> string list \<Rightarrow> nat \<Rightarrow> upload_state fs_cmd" where
  "upload_new E target_abs expected_len =
     bindC (okC FsIo (path_parent target_abs)) (\<lambda>parent.
     bindC (raw_io (tempfile_in E parent)) (\<lambda>temp.
       retC \<lparr> us_temp = temp, us_target_abs = target_abs, us_bytes_written = 0, us_expected_len = expected_len,
              us_next_seq = 0 \<rparr>))"

definition append_chunk :: "fs_env \<Rightarrow> bytes \<Rightarrow> upload_state \<Rightarrow> upload_state fs_cmd" where
  "append_chunk E data u =
     (let new_total = us_bytes_written u + length data
      in if new_total > max (us_expected_len u) MAX_UPLOAD_BYTES then failC (FsTooLarge new_total)
         else bindC (raw_io (sys_append E (tf_inode (us_temp u)) data)) (\<lambda>_.
           retC (u\<lparr>us_bytes_written := new_total, us_next_seq := Suc (us_next_seq u)\<rparr>)))"

definition commit_at_target ::
  "fs_env \<Rightarrow> string list \<Rightarrow> string list \<Rightarrow> int option \<Rightarrow> nat option \<Rightarrow> bool \<Rightarrow> upload_state \<Rightarrow> int fs_cmd" where
  "commit_at_target E target_root relative_path expected_mtime expected_root fsync u =
     (if us_bytes_written u \<noteq> us_expected_len u
      then bindC (drop_temp E (us_temp u)) (\<lambda>_. failC FsMutationRefused)
      else persist_temp E target_root relative_path (us_temp u) expected_mtime expected_root fsync)"

definition do_upload_begin ::
  "fs_env \<Rightarrow> fs_service \<Rightarrow> target_ref \<Rightarrow> string \<Rightarrow> string \<Rightarrow> nat \<Rightarrow> upload_in_flight fs_cmd" where
  "do_upload_begin E V ref dir filename len =
     (if len > MAX_UPLOAD_BYTES then failC (FsTooLarge len)
      else bindC (refused (resolve_project_target E V ref)) (\<lambda>target.
      bindC (liftC (service_sandbox V)) (\<lambda>roots.
      bindC (validate_target E roots target (join_path (rt_target_path target) (trim_leading_slash dir))) (\<lambda>dir_abs.
      bindC (validate_new_target_path E roots target dir_abs filename) (\<lambda>target_abs.
      bindC (okC FsPathEscape (strip_root (rt_target_path target) target_abs)) (\<lambda>relative_path.
      bindC (bind_resolved_target E target) (\<lambda>binding.
      bindC (upload_new E target_abs len) (\<lambda>inner.
        retC \<lparr> uf_target = binding, uf_relative_path = relative_path, uf_inner = inner \<rparr>))))))))"

text \<open>A session in the map that is removed, or replaced by one of the same name, is dropped.\<close>

definition drop_upload :: "fs_env \<Rightarrow> string \<Rightarrow> transfers \<Rightarrow> os \<Rightarrow> transfers \<times> os" where
  "drop_upload E upload_id x s =
     (case map_of (xf_uploads x) upload_id of
        None \<Rightarrow> (x, s)
      | Some u \<Rightarrow> (x\<lparr>xf_uploads := AList.delete upload_id (xf_uploads x)\<rparr>,
                   snd (drop_temp E (us_temp (uf_inner u)) s :: (unit + unit) \<times> os)))"

definition fs_upload_begin ::
  "fs_env \<Rightarrow> fs_service \<Rightarrow> string \<Rightarrow> target_ref \<Rightarrow> string \<Rightarrow> string \<Rightarrow> nat \<Rightarrow> handler" where
  "fs_upload_begin E V upload_id ref dir filename len x s =
     (case do_upload_begin E V ref dir filename len s of
        (Inl e, s') \<Rightarrow> (Some (UploadBeginFailed upload_id e), x, s')
      | (Inr u, s') \<Rightarrow>
          (case drop_upload E upload_id x s' of
             (x', s'') \<Rightarrow> (Some (UploadBeginOk upload_id), x'\<lparr>xf_uploads := AList.update upload_id u (xf_uploads x')\<rparr>, s'')))"

definition fs_upload_chunk :: "fs_env \<Rightarrow> string \<Rightarrow> nat \<Rightarrow> handler" where
  "fs_upload_chunk E upload_id seq x s =
     (case map_of (xf_uploads x) upload_id of
        None \<Rightarrow> (None, x, s)
      | Some u \<Rightarrow>
          if us_next_seq (uf_inner u) \<noteq> seq then (None, drop_upload E upload_id x s)
          else (None, x\<lparr>xf_pending := Some (PendingUpload upload_id seq)\<rparr>, s))"

definition handle_upload_binary :: "fs_env \<Rightarrow> string \<Rightarrow> nat \<Rightarrow> bytes \<Rightarrow> handler" where
  "handle_upload_binary E upload_id seq data x s =
     (case map_of (xf_uploads x) upload_id of
        None \<Rightarrow> (None, x, s)
      | Some u \<Rightarrow>
          (case append_chunk E data (uf_inner u) s of
             (Inr inner, s') \<Rightarrow>
               (Some (UploadChunkAck upload_id seq),
                x\<lparr>xf_uploads := AList.update upload_id (u\<lparr>uf_inner := inner\<rparr>) (xf_uploads x)\<rparr>, s')
           | (Inl _, s') \<Rightarrow> (None, drop_upload E upload_id x s')))"

definition upload_commit :: "fs_env \<Rightarrow> fs_service \<Rightarrow> upload_in_flight \<Rightarrow> int fs_cmd" where
  "upload_commit E V u s =
     (case revalidate_bound_path E V (uf_target u) (uf_relative_path u) (us_target_abs (uf_inner u)) True s of
        (Inl e, s') \<Rightarrow> (Inl e, snd (drop_temp E (us_temp (uf_inner u)) s' :: (unit + unit) \<times> os))
      | (Inr _, s') \<Rightarrow>
          commit_at_target E (rt_target_path (tb_resolved (uf_target u))) (uf_relative_path u) None
            (Some (tb_root_identity (uf_target u))) False (uf_inner u) s')"

definition fs_upload_commit :: "fs_env \<Rightarrow> fs_service \<Rightarrow> string \<Rightarrow> handler" where
  "fs_upload_commit E V upload_id x s =
     (case map_of (xf_uploads x) upload_id of
        None \<Rightarrow> (Some (UploadFailed upload_id), x, s)
      | Some u \<Rightarrow>
          (let x' = x\<lparr>xf_uploads := AList.delete upload_id (xf_uploads x)\<rparr>
           in case upload_commit E V u s of
                (Inr m, s') \<Rightarrow> (Some (UploadDone upload_id m), x', s')
              | (Inl _, s') \<Rightarrow> (Some (UploadFailed upload_id), x', s')))"

section \<open>Frames\<close>

text \<open>A binary frame belongs to the last header that announced one.\<close>

definition binary_frame :: "fs_env \<Rightarrow> bytes \<Rightarrow> handler" where
  "binary_frame E bs x s =
     (case xf_pending x of
        None \<Rightarrow> (None, x, s)
      | Some (PendingUpload upload_id seq) \<Rightarrow> handle_upload_binary E upload_id seq bs (x\<lparr>xf_pending := None\<rparr>) s
      | Some (PendingWrite write_id seq) \<Rightarrow> handle_write_binary E write_id seq bs (x\<lparr>xf_pending := None\<rparr>) s)"

text \<open>The end of a connection drops what is left.\<close>

definition close_transfers :: "fs_env \<Rightarrow> transfers \<Rightarrow> os \<Rightarrow> os" where
  "close_transfers E x s =
     fold (\<lambda>temp s. snd (drop_temp E temp s :: (unit + unit) \<times> os))
       (map (\<lambda>(_, w). wf_temp w) (xf_writes x) @ map (\<lambda>(_, u). us_temp (uf_inner u)) (xf_uploads x)) s"

end
