(* ===== verification/FS_Paths.thy ===== *)
theory FS_Paths
  imports FS_Transfer
begin

text \<open>
  Paths that the sandbox hands out: a canonical path is literal, that is it names its object without any
  link, and the textual containment check is the prefix relation on literal paths.
\<close>

section \<open>Literal paths\<close>

definition normal_name :: "string \<Rightarrow> bool" where
  "normal_name c \<longleftrightarrow> proper c \<and> c \<noteq> ''..'' \<and> CHR ''/'' \<notin> set c \<and> CHR 0x00 \<notin> set c"

text \<open>A literal path names a directory or a regular file, and no link is on it.\<close>

definition literal :: "tree \<Rightarrow> string list \<Rightarrow> bool" where
  "literal t q \<longleftrightarrow> (\<forall>c \<in> set q. normal_name c) \<and>
     (q = [] \<or> (\<exists>i x. descend t ROOT q = Some i \<and> t i = Some x \<and> (\<forall>target. x \<noteq> FLink target)))"

definition literal_dir :: "tree \<Rightarrow> string list \<Rightarrow> bool" where
  "literal_dir t q \<longleftrightarrow> (\<forall>c \<in> set q. normal_name c) \<and>
     (q = [] \<or> (\<exists>i. descend t ROOT q = Some i \<and> is_directory t i))"

lemma is_directory_iff: "is_directory t i \<longleftrightarrow> (\<exists>es. t i = Some (FDir es))"
  by (simp add: is_directory_def split: option.splits fs_node.splits)

lemma literal_dir_literal: "literal_dir t q \<Longrightarrow> literal t q"
  by (auto simp: literal_def literal_dir_def is_directory_iff)

lemma descend_append: "descend t d (p @ q) = Option.bind (descend t d p) (\<lambda>i. descend t i q)"
  by (induction p arbitrary: d) (auto split: option.splits)

lemma child_directory: "child t d n = Some i \<Longrightarrow> is_directory t d"
  by (auto simp: child_def is_directory_def split: option.splits fs_node.splits)

lemma descend_snoc: "descend t d (p @ [c]) = Some i \<longleftrightarrow> (\<exists>e. descend t d p = Some e \<and> child t e c = Some i)"
  by (auto simp: descend_append bind_eq_Some_conv split: option.splits)

lemma literal_parent:
  assumes "literal t (p @ [c])"
  shows "literal_dir t p"
proof -
  from assms obtain i where "descend t ROOT (p @ [c]) = Some i" by (auto simp: literal_def)
  then obtain e where "descend t ROOT p = Some e" "is_directory t e"
    by (auto simp: descend_snoc dest: child_directory)
  with assms show ?thesis by (auto simp: literal_def literal_dir_def)
qed

lemma literal_dir_butlast: "literal_dir t p \<Longrightarrow> literal_dir t (butlast p)"
  by (cases p rule: rev_cases) (auto intro: literal_parent literal_dir_literal)

lemma literal_dir_append: "literal_dir t (p @ q) \<Longrightarrow> literal_dir t p"
  by (induction q rule: rev_induct)
     (auto simp flip: append_assoc intro: literal_parent literal_dir_literal)

lemma literal_dirD:
  assumes "literal_dir t p" "p \<noteq> [] \<or> is_directory t ROOT"
  obtains i where "descend t ROOT p = Some i" "is_directory t i"
  using assms by (cases "p = []") (auto simp: literal_dir_def)

section \<open>Canonical paths are literal\<close>

lemma path_pieces_no_slash: "c \<in> set (path_pieces s) \<Longrightarrow> CHR ''/'' \<notin> set c"
  unfolding path_pieces_def by (rule split_on_free)

declare canonical.simps(2) [simp del]

text \<open>What one component of a path does.\<close>

lemma canonical_skip: "\<not> proper c \<Longrightarrow> canonical t n acc (c # cs) = canonical t n acc cs"
  "c = ''..'' \<Longrightarrow> canonical t n acc (c # cs) = canonical t n (butlast acc) cs"
  by (simp_all add: canonical.simps(2) proper_def)

lemma canonical_enter:
  assumes "canonical t n acc (c # cs) = Inr q" "proper c" "c \<noteq> ''..''"
  obtains (dir) i where "CHR 0x00 \<notin> set c" "descend t ROOT (acc @ [c]) = Some i" "is_directory t i"
      "canonical t n (acc @ [c]) cs = Inr q"
  | (reg) i bs m where "CHR 0x00 \<notin> set c" "descend t ROOT (acc @ [c]) = Some i" "t i = Some (FFile bs m)"
      "cs = []" "q = acc @ [c]"
  | (link) i target m where "t i = Some (FLink target)" "n = Suc m"
      "canonical t m (if starts_with ''/'' target then [] else acc) (path_pieces target @ cs) = Inr q"
  using assms
  by (auto simp: canonical.simps(2) is_directory_iff split: if_splits option.splits fs_node.splits nat.splits)

lemma canonical_literal:
  assumes "canonical t n acc cs = Inr q" "literal_dir t acc" "\<forall>c \<in> set cs. CHR ''/'' \<notin> set c"
  shows "literal t q"
  using assms
proof (induction "(n, length cs)" arbitrary: n acc cs q
    rule: wf_induct_rule [OF wf_lex_prod [OF wf_less_than wf_less_than]])
  case 1
  show ?case
  proof (cases cs)
    case Nil
    with 1(2,3) show ?thesis by (auto intro: literal_dir_literal)
  next
    case (Cons c ds)
    show ?thesis
    proof (cases "proper c \<and> c \<noteq> ''..''")
      case False
      then consider "\<not> proper c" | "c = ''..''" by auto
      then show ?thesis
        using 1(1) [of n ds acc q] 1(1) [of n ds "butlast acc" q] 1(2-4) Cons literal_dir_butlast
        by cases (auto simp: canonical_skip)
    next
      case True
      from 1(2) Cons True have "canonical t n acc (c # ds) = Inr q" "proper c" "c \<noteq> ''..''" by auto
      then show ?thesis
      proof (cases rule: canonical_enter)
        case (dir i)
        then have "literal_dir t (acc @ [c])"
          using 1(3,4) Cons True by (auto simp: literal_dir_def normal_name_def)
        with 1(1) [of n ds "acc @ [c]" q] dir 1(4) Cons show ?thesis by auto
      next
        case (reg i bs m)
        with 1(3,4) Cons True show ?thesis by (auto simp: literal_def literal_dir_def normal_name_def)
      next
        case (link i target m)
        have "\<forall>d \<in> set (path_pieces target @ ds). CHR ''/'' \<notin> set d"
          using 1(4) Cons path_pieces_no_slash by auto
        with 1(1) [of m "path_pieces target @ ds" "if starts_with ''/'' target then [] else acc" q] link 1(3)
        show ?thesis by (auto simp: literal_dir_def)
      qed
    qed
  qed
qed

lemma realpath_literal:
  assumes "realpath_of t p = Inr q" "\<forall>c \<in> set p. CHR ''/'' \<notin> set c"
  shows "literal t q"
  using assms unfolding realpath_of_def by (auto intro: canonical_literal simp: literal_dir_def)

text \<open>A literal path is its own canonical path, so the kernel finds what \<open>descend\<close> finds.\<close>

lemma canonical_literal_step:
  assumes "literal t (acc @ cs)"
  shows "canonical t n acc cs = Inr (acc @ cs)"
  using assms
proof (induction cs arbitrary: acc)
  case (Cons c cs)
  have c: "proper c" "c \<noteq> ''..''" "CHR 0x00 \<notin> set c"
    using Cons.prems by (auto simp: literal_def normal_name_def)
  have rest: "canonical t n (acc @ [c]) cs = Inr (acc @ c # cs)" using Cons.IH [of "acc @ [c]"] Cons.prems by simp
  show ?case
  proof (cases "cs = []")
    case True
    with Cons.prems obtain i x where "descend t ROOT (acc @ [c]) = Some i" "t i = Some x" "\<forall>target. x \<noteq> FLink target"
      by (auto simp: literal_def)
    with c True rest show ?thesis by (cases x) (auto simp: canonical.simps(2))
  next
    case False
    then obtain e es where "cs = es @ [e]" by (cases cs rule: rev_cases) auto
    with Cons.prems have "literal_dir t ((acc @ [c]) @ es)" using literal_parent [of t "acc @ c # es" e] by simp
    then have "literal_dir t (acc @ [c])" by (rule literal_dir_append)
    then obtain i es where "descend t ROOT (acc @ [c]) = Some i" "t i = Some (FDir es)"
      by (auto simp: literal_dir_def is_directory_iff)
    with c rest show ?thesis by (simp add: canonical.simps(2))
  qed
qed simp

lemma realpath_of_literal: "literal t q \<Longrightarrow> realpath_of t q = Inr q"
  unfolding realpath_of_def using canonical_literal_step [of t "[]" q] by simp

lemma resolve_follow_literal:
  "literal t q \<Longrightarrow> resolve_follow t q = (case descend t ROOT q of None \<Rightarrow> Inl IoNotFound | Some i \<Rightarrow> Inr i)"
  by (simp add: resolve_follow_def realpath_of_literal)

lemma resolve_parent_literal:
  assumes "literal_dir t p"
  shows "resolve_parent t (p @ [n]) = Inr d \<longleftrightarrow> descend t ROOT p = Some d \<and> is_directory t d"
  using assms by (auto simp: resolve_parent_def resolve_follow_literal literal_dir_literal and_then_Inr_iff split: option.splits)

section \<open>Containment as text\<close>

lemma components_normal: "\<forall>c \<in> set q. normal_name c \<Longrightarrow> components q = q"
  by (induction q) (auto simp: components_def normal_name_def)

lemma normalize_normal: "\<forall>c \<in> set q. normal_name c \<Longrightarrow> normalize_components acc q = acc @ q"
  by (induction q arbitrary: acc) (auto simp: normal_name_def)

lemma identity_normal:
  "\<forall>c \<in> set q. normal_name c \<Longrightarrow> target_path_identity q = CHR ''/'' # join_with (CHR ''/'') q"
  by (simp add: target_path_identity_def normalize_target_path_def components_normal normalize_normal)

lemma split_on_join_append:
  "\<forall>l \<in> set ls. c \<notin> set l \<Longrightarrow> ls \<noteq> [] \<Longrightarrow> split_on c (join_with c ls @ c # s) = ls @ split_on c s"
  by (induction ls rule: join_with.induct) (auto simp: split_on_append_sep)

lemma join_prefix:
  assumes "\<forall>l \<in> set p. c \<notin> set l" "\<forall>l \<in> set q. c \<notin> set l" "p \<noteq> []" "q \<noteq> []"
  shows "(\<exists>r. join_with c q = join_with c p @ c # r) \<longleftrightarrow> (\<exists>r. r \<noteq> [] \<and> q = p @ r)"
proof
  assume "\<exists>r. join_with c q = join_with c p @ c # r"
  then obtain r where r: "join_with c q = join_with c p @ c # r" ..
  have "q @ [[]] = split_on c (join_with c p @ c # (r @ [c]))"
    using split_on_join [of q c] assms(2,4) r by simp
  also have "\<dots> = p @ split_on c (r @ [c])" using split_on_join_append assms(1,3) by blast
  finally have eq: "q @ [[]] = p @ split_on c (r @ [c])" .
  have "split_on c (r @ [c]) = split_on c r @ [[]]" by (induction r) (auto split: list.splits)
  with eq have "q = p @ split_on c r" by simp
  then show "\<exists>r. r \<noteq> [] \<and> q = p @ r" using split_on_nonempty by blast
next
  assume "\<exists>r. r \<noteq> [] \<and> q = p @ r"
  then show "\<exists>r. join_with c q = join_with c p @ c # r" using join_with_append assms(3) by blast
qed

lemma join_eq:
  assumes "\<forall>l \<in> set p. normal_name l" "\<forall>l \<in> set q. normal_name l"
  shows "join_with (CHR ''/'') p = join_with (CHR ''/'') q \<longleftrightarrow> p = q"
proof -
  have free: "\<forall>l \<in> set p. CHR ''/'' \<notin> set l" "\<forall>l \<in> set q. CHR ''/'' \<notin> set l" using assms by (auto simp: normal_name_def)
  have nonempty: "join_with (CHR ''/'') r \<noteq> []" if "r \<noteq> []" "\<forall>l \<in> set r. normal_name l" for r
    using that by (cases "(CHR ''/'', r)" rule: join_with.cases) (auto simp: normal_name_def proper_def)
  show ?thesis
  proof (cases "p = [] \<or> q = []")
    case True
    then show ?thesis using nonempty [of p] nonempty [of q] assms by (metis join_with.simps(1))
  next
    case False
    then show ?thesis using split_on_join [OF free(1)] split_on_join [OF free(2)] by (metis append_same_eq)
  qed
qed

lemma trim_identity:
  assumes "\<forall>c \<in> set q. normal_name c" "q \<noteq> []"
  shows "trim_end_slash (CHR ''/'' # join_with (CHR ''/'') q) = CHR ''/'' # join_with (CHR ''/'') q"
proof -
  obtain p c where q: "q = p @ [c]" using assms(2) by (cases q rule: rev_cases) auto
  have c: "c \<noteq> []" "CHR ''/'' \<notin> set c" using assms(1) q by (auto simp: normal_name_def proper_def)
  have "\<exists>z. CHR ''/'' # join_with (CHR ''/'') q = z @ c"
    using q join_with_append [of p "[c]" "CHR ''/''"] by (cases "p = []") (auto simp flip: append_Cons append_assoc)
  then obtain z where z: "CHR ''/'' # join_with (CHR ''/'') q = z @ c" ..
  from c obtain c1 c2 where "c = c1 @ [c2]" "c2 \<noteq> CHR ''/''" by (cases c rule: rev_cases) auto
  with z show ?thesis by (simp add: trim_end_slash_def)
qed

text \<open>The check on text is the prefix relation on paths.\<close>

lemma within_iff_prefix:
  assumes "\<forall>c \<in> set q. normal_name c" "\<forall>c \<in> set root. normal_name c"
  shows "target_path_is_within q root \<longleftrightarrow> (\<exists>r. q = root @ r)"
proof (cases "root = []")
  case True
  then show ?thesis
    using assms by (simp add: target_path_is_within_def identity_normal trim_end_slash_def starts_with_iff)
next
  case False
  have free: "\<forall>l \<in> set q. CHR ''/'' \<notin> set l" "\<forall>l \<in> set root. CHR ''/'' \<notin> set l"
    using assms by (auto simp: normal_name_def)
  have "target_path_is_within q root \<longleftrightarrow>
      q = root \<or> (\<exists>r. join_with (CHR ''/'') q = join_with (CHR ''/'') root @ CHR ''/'' # r)"
    using assms False trim_identity [OF assms(2) False]
    by (simp add: target_path_is_within_def identity_normal join_eq starts_with_iff Let_def)
  also have "\<dots> \<longleftrightarrow> (\<exists>r. q = root @ r)"
  proof (cases "q = []")
    case True
    with False show ?thesis by auto
  next
    case q: False
    show ?thesis unfolding join_prefix [OF free(2,1) False q] by auto
  qed
  finally show ?thesis .
qed

end
