(* ===== verification/FS_Safety.thy ===== *)
theory FS_Safety
  imports FS_Paths
begin

text \<open>
  What the file service guarantees. A delayed write stays among the directories of its target while
  other processes move, replace and link files there. The requests that change the tree stay beneath
  their target while nobody else changes it.
\<close>

section \<open>Triples\<close>

text \<open>
  \<open>triple I m Q J\<close>: run on a tree with \<open>I\<close>, the command \<open>m\<close> leaves a tree with \<open>Q\<close> when it succeeds and
  one with \<open>J\<close> when it fails.
\<close>

definition triple :: "(tree \<Rightarrow> bool) \<Rightarrow> (os, 'e, 'a) cmd \<Rightarrow> ('a \<Rightarrow> tree \<Rightarrow> bool) \<Rightarrow> (tree \<Rightarrow> bool) \<Rightarrow> bool" where
  "triple I m Q J \<longleftrightarrow> (\<forall>s. I (os_tree s) \<longrightarrow>
     (case m s of (Inr x, s') \<Rightarrow> Q x (os_tree s') | (Inl _, s') \<Rightarrow> J (os_tree s')))"

abbreviation keeps :: "(tree \<Rightarrow> bool) \<Rightarrow> (os, 'e, 'a) cmd \<Rightarrow> bool" where
  "keeps I m \<equiv> triple I m (\<lambda>_. I) I"

lemma tripleI:
  assumes "\<And>s x s'. I (os_tree s) \<Longrightarrow> m s = (Inr x, s') \<Longrightarrow> Q x (os_tree s')"
    and "\<And>s e s'. I (os_tree s) \<Longrightarrow> m s = (Inl e, s') \<Longrightarrow> J (os_tree s')"
  shows "triple I m Q J"
  using assms by (auto simp: triple_def split: sum.splits prod.splits)

lemma tripleD: "triple I m Q J \<Longrightarrow> I (os_tree s) \<Longrightarrow> m s = (Inr x, s') \<Longrightarrow> Q x (os_tree s')"
  "triple I m Q J \<Longrightarrow> I (os_tree s) \<Longrightarrow> m s = (Inl e, s') \<Longrightarrow> J (os_tree s')"
  by (force simp: triple_def)+

lemma bindC_Inr: "bindC m f s = (Inr y, s') \<longleftrightarrow> (\<exists>x s1. m s = (Inr x, s1) \<and> f x s1 = (Inr y, s'))"
  by (auto simp: bindC_def split: sum.splits prod.splits)

lemma bindC_Inl:
  "bindC m f s = (Inl e, s') \<longleftrightarrow> m s = (Inl e, s') \<or> (\<exists>x s1. m s = (Inr x, s1) \<and> f x s1 = (Inl e, s'))"
  by (auto simp: bindC_def split: sum.splits prod.splits)

lemma triple_bind:
  assumes "triple I m P J" "\<And>x. triple (P x) (f x) Q J"
  shows "triple I (bindC m f) Q J"
  using tripleD [OF assms(1)] tripleD [OF assms(2)]
  by (intro tripleI) (auto simp: bindC_Inr bindC_Inl, blast+)

lemma triple_weaken:
  assumes "triple I m Q J" "\<And>t. I' t \<Longrightarrow> I t" "\<And>x t. Q x t \<Longrightarrow> Q' x t" "\<And>t. J t \<Longrightarrow> J' t"
  shows "triple I' m Q' J'"
  using tripleD [OF assms(1)] assms(2-4) by (intro tripleI) blast+

lemma triple_ret: "(\<And>t. I t \<Longrightarrow> Q x t) \<Longrightarrow> triple I (retC x) Q J"
  by (simp add: triple_def retC_def)

lemma triple_fail: "(\<And>t. I t \<Longrightarrow> J t) \<Longrightarrow> triple I (failC e) Q J"
  by (simp add: triple_def failC_def)

lemma triple_lift: "(\<And>t x. I t \<Longrightarrow> r = Inr x \<Longrightarrow> Q x t) \<Longrightarrow> (\<And>t. I t \<Longrightarrow> J t) \<Longrightarrow> triple I (liftC r) Q J"
  by (auto simp: triple_def liftC_def split: sum.splits)

lemma triple_ok: "(\<And>t y. I t \<Longrightarrow> x = Some y \<Longrightarrow> Q y t) \<Longrightarrow> (\<And>t. I t \<Longrightarrow> J t) \<Longrightarrow> triple I (okC e x) Q J"
  by (cases x) (auto simp: okC_def intro: triple_ret triple_fail)

lemma triple_map_err: "triple I m Q J \<Longrightarrow> triple I (map_errC g m) Q J"
  by (intro tripleI) (auto simp: map_errC_def dest: tripleD split: sum.splits prod.splits)

lemma triple_attempt:
  "triple I m Q J \<Longrightarrow> triple I (attemptC m) (\<lambda>r t. case r of Inr x \<Rightarrow> Q x t | Inl _ \<Rightarrow> J t) K"
  by (intro tripleI) (auto simp: attemptC_def dest: tripleD split: sum.splits prod.splits)

lemma triple_pre: "(\<And>t. I t \<Longrightarrow> P) \<Longrightarrow> (P \<Longrightarrow> triple I m Q J) \<Longrightarrow> triple I m Q J"
  by (auto simp: triple_def)

lemma stable_run:
  assumes "keeps I m" "I (os_tree s)" "m s = (r, s')"
  shows "I (os_tree s')"
  using assms by (cases r) (auto dest: tripleD)

lemma stable_attempt: "keeps I m \<Longrightarrow> keeps I (attemptC m)"
  by (intro tripleI) (auto simp: attemptC_def dest: stable_run split: prod.splits)

lemma stable_if: "(b \<Longrightarrow> triple I m Q J) \<Longrightarrow> (\<not> b \<Longrightarrow> triple I n Q J) \<Longrightarrow> triple I (if b then m else n) Q J"
  by simp

lemma stable_bind: "keeps I m \<Longrightarrow> (\<And>x. keeps I (f x)) \<Longrightarrow> keeps I (bindC m f)"
  by (rule triple_bind)

lemma stable_bind_in:
  assumes "triple I m (\<lambda>d t. I t \<and> d \<in> S) I" "\<And>d. d \<in> S \<Longrightarrow> keeps I (f d)"
  shows "keeps I (bindC m f)"
  by (rule triple_bind [OF assms(1)], rule triple_pre, erule conjunct2, rule triple_weaken [OF assms(2)]) auto

lemma stable_map: "(\<And>x. keeps I (f x)) \<Longrightarrow> keeps I (mapC f xs)"
  by (induction xs) (simp_all add: triple_ret stable_bind)

lemmas stable_rules = stable_bind triple_ret triple_fail
  triple_lift triple_ok triple_map_err stable_attempt stable_if stable_map

section \<open>Looking at a changing tree\<close>

text \<open>
  An invariant of the tree that other processes keep is kept by every command that only looks,
  whatever it finds: the resolution of targets, the sandbox, and all checks before a change.
\<close>

locale tree_invariant =
  fixes E :: fs_env and I :: "tree \<Rightarrow> bool"
  assumes keep: "I t \<Longrightarrow> I (fv_change E k t)"
begin

lemma triple_oscall:
  assumes "\<And>k t r t'. I t \<Longrightarrow> f k t = (r, t') \<Longrightarrow> case r of Inr x \<Rightarrow> Q x t' | Inl _ \<Rightarrow> I t'"
  shows "triple I (oscall E f) Q I"
  unfolding triple_def
proof (intro allI impI)
  fix s :: os
  assume "I (os_tree s)"
  then have "I (fv_change E (os_calls s) (os_tree s))" by (rule keep)
  with assms [OF this, of "os_calls s"] show "case oscall E f s of (Inr x, s') \<Rightarrow> Q x (os_tree s') | (Inl _, s') \<Rightarrow> I (os_tree s')"
    by (auto simp: oscall_def Let_def split: option.splits sum.splits prod.splits)
qed

lemma triple_look: "triple I (look E f) (\<lambda>x t. I t \<and> f t = Inr x) I"
  unfolding look_def by (rule triple_oscall) (auto split: sum.splits)

lemma keeps_look: "keeps I (look E f)"
  by (rule triple_weaken [OF triple_look]) auto

lemma keeps_calls:
  "keeps I (sys_canonicalize E p)" "keeps I (sys_metadata E p)" "keeps I (sys_symlink_metadata E p)"
  "keeps I (sys_open_dir E p)" "keeps I (sys_openat_dir E d n)" "keeps I (sys_sync E)" "keeps I (sys_statat E d n)"
  unfolding sys_canonicalize_def sys_metadata_def sys_symlink_metadata_def sys_open_dir_def sys_openat_dir_def
    sys_sync_def sys_statat_def
  by (rule keeps_look triple_oscall; auto split: sum.splits)+

lemma keeps_exists: "keeps I (sys_exists E p)"
  unfolding sys_exists_def by (intro stable_rules keeps_calls)

lemma keeps_path: "keeps I (canonicalize_path E p)" "keeps I (path_is_dir E p)"
  unfolding canonicalize_path_def path_is_dir_def by (intro stable_rules keeps_calls; simp)+

lemma keeps_discover: "keeps I (discover_target E relative w)"
  unfolding discover_target_def Let_def
  by (auto intro!: stable_rules keeps_path split: option.splits)

lemma keeps_live: "keeps I (live_target_path E c)"
  unfolding live_target_path_def Let_def
  by (auto intro!: stable_rules keeps_path keeps_calls split: option.splits sum.splits fs_node.splits)

lemma keeps_resolve: "keeps I (resolve_project_target E V ref)"
  unfolding resolve_project_target_def resolve_target_def discover_targets_def canonical_configured_root_def Let_def
  by (auto intro!: stable_rules keeps_path keeps_discover keeps_live split: option.splits)

lemma keeps_validate:
  "keeps I (validate_target E roots target p)" "keeps I (validate_new_target_path E roots target p n)"
  unfolding validate_target_def validate_new_target_path_def validate_existing_under_root_def validate_new_under_root_def
    canonicalize_existing_def
  by (auto intro!: stable_rules keeps_calls)

lemma keeps_identity: "keeps I (directory_identity E p)"
  unfolding directory_identity_def by (auto intro!: stable_rules keeps_calls split: fs_node.splits prod.splits)

lemma keeps_revalidate: "keeps I (revalidate_bound_path E V b rel path missing)"
  unfolding revalidate_bound_path_def revalidate_target_binding_def refused_def Let_def
  by (auto intro!: stable_rules keeps_resolve keeps_validate keeps_identity)

end

section \<open>Directories of a target\<close>

text \<open>
  \<open>S\<close> holds the directories of a target: what is a directory and an entry of one of them is in \<open>S\<close>. Other
  processes may do in \<open>S\<close> what they like, links to anywhere included, as long as they do not move
  foreign directories in; outside nothing is done.
\<close>

definition shut :: "nat set \<Rightarrow> tree \<Rightarrow> bool" where
  "shut S t \<longleftrightarrow> (\<forall>d \<in> S. \<forall>n i. child t d n = Some i \<longrightarrow> is_directory t i \<longrightarrow> i \<in> S)"

definition outside :: "nat set \<Rightarrow> tree \<Rightarrow> tree \<Rightarrow> bool" where
  "outside S t t' \<longleftrightarrow> (\<forall>i x. i \<notin> S \<longrightarrow> t i = Some x \<longrightarrow> t' i = Some x)"

definition stays_in :: "nat set \<Rightarrow> fs_env \<Rightarrow> bool" where
  "stays_in S E \<longleftrightarrow> (\<forall>k t. shut S t \<longrightarrow> shut S (fv_change E k t) \<and> outside S t (fv_change E k t))"

definition guarded :: "nat set \<Rightarrow> fs_env \<Rightarrow> tree \<Rightarrow> tree \<Rightarrow> bool" where
  "guarded S E t0 t \<longleftrightarrow> stays_in S E \<and> shut S t \<and> outside S t0 t"

lemma outside_trans: "outside S t t' \<Longrightarrow> outside S t' t'' \<Longrightarrow> outside S t t''"
  by (auto simp: outside_def)

interpretation guarded: tree_invariant E "guarded S E t0"
proof
  show "guarded S E t0 (fv_change E k t)" if "guarded S E t0 t" for t k
    using that by (auto simp: guarded_def stays_in_def intro: outside_trans)
qed

text \<open>Changes of the entries of one directory.\<close>

lemma is_directory_entries [simp]:
  "is_directory (set_entry d n i t) j = is_directory t j" "is_directory (del_entry d n t) j = is_directory t j"
  by (auto simp: set_entry_def del_entry_def is_directory_def split: option.splits fs_node.splits)

lemma child_set_entry:
  "child (set_entry d n i t) e m = (if e = d \<and> m = n \<and> is_directory t d then Some i else child t e m)"
  by (auto simp: set_entry_def child_def is_directory_def update_conv' split: option.splits fs_node.splits)

lemma child_del_entry: "child (del_entry d n t) e m = (if e = d \<and> m = n then None else child t e m)"
  by (auto simp: del_entry_def child_def delete_conv' split: option.splits fs_node.splits)

lemma outside_entry: "d \<in> S \<Longrightarrow> outside S t (set_entry d n i t)" "d \<in> S \<Longrightarrow> outside S t (del_entry d n t)"
  by (auto simp: outside_def set_entry_def del_entry_def split: option.splits fs_node.splits)

lemma shut_del: "shut S t \<Longrightarrow> shut S (del_entry d n t)"
  by (auto simp: shut_def child_del_entry)

lemma shut_set: "shut S t \<Longrightarrow> (is_directory t i \<Longrightarrow> d \<in> S \<Longrightarrow> i \<in> S) \<Longrightarrow> shut S (set_entry d n i t)"
  by (auto simp: shut_def child_set_entry)

lemma shut_child: "shut S t \<Longrightarrow> d \<in> S \<Longrightarrow> child t d n = Some i \<Longrightarrow> is_directory t i \<Longrightarrow> i \<in> S"
  by (auto simp: shut_def)

lemma guarded_del: "guarded S E t0 t \<Longrightarrow> d \<in> S \<Longrightarrow> guarded S E t0 (del_entry d n t)"
  by (auto simp: guarded_def shut_del intro: outside_trans outside_entry)

lemma guarded_set:
  "guarded S E t0 t \<Longrightarrow> d \<in> S \<Longrightarrow> (is_directory t i \<Longrightarrow> i \<in> S) \<Longrightarrow> guarded S E t0 (set_entry d n i t)"
  by (auto simp: guarded_def intro: shut_set outside_trans outside_entry)

lemma guarded_rename:
  assumes "guarded S E t0 t" "d \<in> S" "rename_entry d n d n' t = (r, t')"
  shows "guarded S E t0 t'"
  using assms shut_child [of S t d n]
  by (auto simp: rename_entry_def split: option.splits if_splits intro!: guarded_set guarded_del)
     (simp add: guarded_def)

lemma guarded_renameat: "d \<in> S \<Longrightarrow> keeps (guarded S E t0) (sys_renameat E d n n')"
  unfolding sys_renameat_def by (rule guarded.triple_oscall) (auto intro: guarded_rename split: sum.splits)

lemma guarded_open_components:
  "d \<in> S \<Longrightarrow> triple (guarded S E t0) (open_components E d cs) (\<lambda>d' t. guarded S E t0 t \<and> d' \<in> S) (guarded S E t0)"
proof (induction cs arbitrary: d)
  case Nil
  then show ?case by (auto intro: triple_ret)
next
  case (Cons c cs)
  have "triple (guarded S E t0) (io (sys_openat_dir E d n)) (\<lambda>d' t. guarded S E t0 t \<and> d' \<in> S) (guarded S E t0)" for n
    unfolding sys_openat_dir_def using Cons.prems
    by (intro triple_map_err triple_weaken [OF guarded.triple_look])
       (auto simp: directory_only_def guarded_def intro: shut_child split: option.splits if_splits)
  then have "triple (guarded S E t0) (bindC (io (sys_openat_dir E d n)) (\<lambda>d'. open_components E d' cs))
      (\<lambda>d' t. guarded S E t0 t \<and> d' \<in> S) (guarded S E t0)" for n
    by (rule triple_bind) (rule triple_pre, erule conjunct2, rule triple_weaken [OF Cons.IH], auto)
  then show ?case
    by (auto intro!: triple_bind [where P="\<lambda>_. guarded S E t0" and m="liftC _"] triple_lift triple_fail)
qed

lemma guarded_open_parent:
  assumes "identity \<in> S"
  shows "triple (guarded S E t0) (open_parent E root rel (Some identity)) (\<lambda>d t. guarded S E t0 t \<and> d \<in> S) (guarded S E t0)"
proof -
  have "triple (guarded S E t0)
      (bindC (bindC (io (look E (\<lambda>t. Inr current))) (\<lambda>j. if j \<noteq> identity then failC FsMutationRefused else retC ()))
         (\<lambda>_. open_components E current rel))
      (\<lambda>d t. guarded S E t0 t \<and> d \<in> S) (guarded S E t0)" for current
  proof (rule triple_bind [where P="\<lambda>_ t. guarded S E t0 t \<and> current = identity"])
    show "triple (guarded S E t0)
        (bindC (io (look E (\<lambda>t. Inr current))) (\<lambda>j. if j \<noteq> identity then failC FsMutationRefused else retC ()))
        (\<lambda>_ t. guarded S E t0 t \<and> current = identity) (guarded S E t0)"
      by (rule triple_bind [OF triple_map_err [OF guarded.triple_look]]) (auto intro!: triple_fail triple_ret)
    show "triple (\<lambda>t. guarded S E t0 t \<and> current = identity) (open_components E current rel)
        (\<lambda>d t. guarded S E t0 t \<and> d \<in> S) (guarded S E t0)" for x :: unit
      by (rule triple_pre, erule conjunct2, rule triple_weaken [OF guarded_open_components]) (use assms in auto)
  qed
  then show ?thesis
    unfolding open_parent_def
    by (auto intro!: triple_fail triple_bind [where P="\<lambda>_. guarded S E t0" and m="io (sys_open_dir E root)"]
        triple_map_err guarded.keeps_calls)
qed

lemma guarded_mtime:
  "keeps (guarded S E t0) (check_expected_mtime E d n m)" "keeps (guarded S E t0) (stat_mtime_after_rename E d n)"
  unfolding check_expected_mtime_def stat_mtime_after_rename_def
  by (auto intro!: stable_rules guarded.keeps_calls split: option.splits fs_node.splits)

lemma guarded_persist:
  assumes "identity \<in> S"
  shows "keeps (guarded S E t0) (persist_steps E root rel temp m (Some identity) sync)"
  unfolding persist_steps_def
proof (rule stable_bind)
  show "keeps (guarded S E t0) (okC FsMutationRefused (path_parent rel))" by (auto intro: triple_ok)
  show "keeps (guarded S E t0) (bindC (open_parent E root p (Some identity)) (\<lambda>d.
     bindC (liftC (component_name rel)) (\<lambda>name.
     bindC (check_expected_mtime E d name m) (\<lambda>_.
     bindC (liftC (component_name (tf_dir temp @ [tf_name temp]))) (\<lambda>temp_name.
     bindC (if sync then io (sys_sync E) else retC ()) (\<lambda>_.
     bindC (io (sys_renameat E d temp_name name)) (\<lambda>_. stat_mtime_after_rename E d name)))))))" for p
    by (rule stable_bind_in [OF guarded_open_parent [OF assms]])
       (auto intro!: stable_rules guarded_mtime guarded.keeps_calls guarded_renameat)
qed

text \<open>A temporary file that is dropped takes at most an entry of its own name along.\<close>

definition but_for :: "nat set \<Rightarrow> string \<Rightarrow> tree \<Rightarrow> tree \<Rightarrow> bool" where
  "but_for S n t t' \<longleftrightarrow> (\<forall>i x. i \<notin> S \<longrightarrow> t i = Some x \<longrightarrow>
     t' i = Some x \<or> (\<exists>es. x = FDir es \<and> t' i = Some (FDir (AList.delete n es))))"

lemma drop_temp_but_for:
  assumes "guarded S E t0 (os_tree s)" "drop_temp E temp s = (r, s')"
  shows "but_for S (tf_name temp) t0 (os_tree s')"
proof -
  have "triple (guarded S E t0) (sys_unlink E (tf_dir temp @ [tf_name temp]))
      (\<lambda>_. but_for S (tf_name temp) t0) (guarded S E t0)"
    unfolding sys_unlink_def
    by (rule guarded.triple_oscall)
       (auto simp: guarded_def outside_def but_for_def del_entry_def
          split: if_splits sum.splits option.splits fs_node.splits)
  then have "triple (guarded S E t0) (sys_unlink E (tf_dir temp @ [tf_name temp]))
      (\<lambda>_. but_for S (tf_name temp) t0) (but_for S (tf_name temp) t0)"
    by (rule triple_weaken) (auto simp: guarded_def outside_def but_for_def)
  with assms show ?thesis
    by (auto simp: drop_temp_def bindC_def attemptC_def retC_def split: prod.splits)
       (metis stable_run triple_def tripleD sum.exhaust)
qed

lemma persist_temp_but_for:
  assumes "guarded S E t0 (os_tree s)" "identity \<in> S"
    and "persist_temp E root rel temp m (Some identity) sync s = (r, s')"
  shows "but_for S (tf_name temp) t0 (os_tree s')"
proof -
  obtain q u where run: "persist_steps E root rel temp m (Some identity) sync s = (q, u)"
    by (cases "persist_steps E root rel temp m (Some identity) sync s")
  then have "guarded S E t0 (os_tree u)" using stable_run [OF guarded_persist] assms(1,2) by blast
  moreover obtain w where "(drop_temp E temp u :: (fs_error + unit) \<times> os) = (w, s')"
    using assms(3) run by (auto simp: persist_temp_def with_temp_def bindC_def attemptC_def liftC_def
        split: prod.splits sum.splits)
  ultimately show ?thesis by (rule drop_temp_but_for)
qed

lemma write_commit_but_for:
  assumes "guarded S E t0 (os_tree s)" "tb_root_identity (wf_target w) \<in> S" "write_commit E V w s = (r, s')"
  shows "but_for S (tf_name (wf_temp w)) t0 (os_tree s')"
proof -
  obtain q u where run: "revalidate_bound_path E V (wf_target w) (wf_relative_path w) (wf_abs_path w) False s = (q, u)"
    by (cases "revalidate_bound_path E V (wf_target w) (wf_relative_path w) (wf_abs_path w) False s")
  then have g: "guarded S E t0 (os_tree u)" using stable_run [OF guarded.keeps_revalidate] assms(1) by blast
  obtain d1 d2 where drop: "(drop_temp E (wf_temp w) u :: (unit + unit) \<times> os) = (d1, d2)"
    by (cases "drop_temp E (wf_temp w) u :: (unit + unit) \<times> os")
  show ?thesis
    using assms(2,3) run drop drop_temp_but_for [OF g drop] persist_temp_but_for [OF g assms(2)]
    by (cases q) (auto simp: write_commit_def)
qed

lemma upload_commit_but_for:
  assumes "guarded S E t0 (os_tree s)" "tb_root_identity (uf_target u) \<in> S" "upload_commit E V u s = (r, s')"
  shows "but_for S (tf_name (us_temp (uf_inner u))) t0 (os_tree s')"
proof -
  obtain q v where run: "revalidate_bound_path E V (uf_target u) (uf_relative_path u) (us_target_abs (uf_inner u)) True s = (q, v)"
    by (cases "revalidate_bound_path E V (uf_target u) (uf_relative_path u) (us_target_abs (uf_inner u)) True s")
  then have g: "guarded S E t0 (os_tree v)" using stable_run [OF guarded.keeps_revalidate] assms(1) by blast
  obtain d1 d2 where drop: "(drop_temp E (us_temp (uf_inner u)) v :: (unit + unit) \<times> os) = (d1, d2)"
    by (cases "drop_temp E (us_temp (uf_inner u)) v :: (unit + unit) \<times> os")
  obtain e1 e2 where drop': "(drop_temp E (us_temp (uf_inner u)) v :: (fs_error + unit) \<times> os) = (e1, e2)"
    by (cases "drop_temp E (us_temp (uf_inner u)) v :: (fs_error + unit) \<times> os")
  show ?thesis
    using assms(2,3) run drop drop_temp_but_for [OF g drop] drop_temp_but_for [OF g drop'] drop' persist_temp_but_for [OF g assms(2)]
    by (cases q) (auto simp: upload_commit_def commit_at_target_def bindC_def failC_def split: if_splits sum.splits)
qed

lemma but_for_mono: "outside S t t' \<Longrightarrow> but_for S n t t'"
  by (auto simp: outside_def but_for_def)

lemma guarded_start: "stays_in S E \<Longrightarrow> shut S t \<Longrightarrow> guarded S E t t"
  by (simp add: guarded_def outside_def)

lemma write_commit_request:
  assumes "guarded S E t0 (os_tree s)" "map_of (xf_writes x) k = Some w" "tb_root_identity (wf_target w) \<in> S"
    and "fs_write_commit E V k x s = (reply, x', s')"
  shows "but_for S (tf_name (wf_temp w)) t0 (os_tree s')"
proof (cases "wf_bytes_written w = wf_declared_size w")
  case True
  obtain r u where "write_commit E V w s = (r, u)" by (cases "write_commit E V w s")
  with True assms write_commit_but_for [OF assms(1,3)] show ?thesis
    by (auto simp: fs_write_commit_def Let_def split: sum.splits fs_error.splits)
next
  case False
  obtain d1 d2 where drop: "(drop_temp E (wf_temp w) s :: (unit + unit) \<times> os) = (d1, d2)"
    by (cases "drop_temp E (wf_temp w) s :: (unit + unit) \<times> os")
  with False assms(2,4) drop_temp_but_for [OF assms(1) drop] show ?thesis by (auto simp: fs_write_commit_def)
qed

lemma upload_commit_request:
  assumes "guarded S E t0 (os_tree s)" "map_of (xf_uploads x) k = Some u" "tb_root_identity (uf_target u) \<in> S"
    and "fs_upload_commit E V k x s = (reply, x', s')"
  shows "but_for S (tf_name (us_temp (uf_inner u))) t0 (os_tree s')"
proof -
  obtain r v where "upload_commit E V u s = (r, v)" by (cases "upload_commit E V u s")
  with assms upload_commit_but_for [OF assms(1,3)] show ?thesis
    by (auto simp: fs_upload_commit_def Let_def split: sum.splits)
qed

text \<open>
  C5: the commit of a write in pieces stays among the directories of its target, whatever other
  processes do there in the meantime. Let \<open>S\<close> contain the directory whose identity was recorded when the
  write began, and all directories beneath it. Before every system call of the commit other processes may
  replace files and directories in \<open>S\<close>, by symbolic links to anywhere too, and any call may fail. Then every
  object outside \<open>S\<close> is afterwards what it was, but that a directory may have lost an entry with the name of
  the temporary file, which is unlinked by its path.
\<close>

theorem delayed_write_confined:
  assumes "stays_in S E" "shut S (os_tree s)"
    and "map_of (xf_writes x) k = Some w" "tb_root_identity (wf_target w) \<in> S"
    and "fs_write_commit E V k x s = (reply, x', s')" "i \<notin> S" "os_tree s i = Some node"
  shows "os_tree s' i = Some node \<or>
    (\<exists>es. node = FDir es \<and> os_tree s' i = Some (FDir (AList.delete (tf_name (wf_temp w)) es)))"
  using write_commit_request [OF guarded_start [OF assms(1,2)] assms(3-5)] assms(6,7) by (simp add: but_for_def)

section \<open>A small project\<close>

text \<open>A project with a file, a link to nothing outside and a repository; nothing fails.\<close>

definition demo_tree :: tree where
  "demo_tree = map_of
     [(0, FDir [(''proj'', 1), (''etc'', 2)]), (1, FDir [(''a'', 3), (''l'', 4), (''b'', 6), (''.git'', 5)]), (2, FDir []),
      (3, FFile [1, 2] 7), (4, FLink ''/etc/x''), (5, FDir []), (6, FLink ''a'')]"

definition demo_env :: fs_env where
  "demo_env = \<lparr> fv_change = (\<lambda>_ t. t), fv_fail = (\<lambda>_. None), fv_now = (\<lambda>_. 9), fv_inode = (\<lambda>_. 10),
     fv_name = (\<lambda>_. ''tmp''), fv_mtime = (\<lambda>_. 0) \<rparr>"

definition demo_service :: fs_service where
  "demo_service = \<lparr> sv_projects = [(''p'', ''/proj'')], sv_sandbox = Some [''p'' \<mapsto> [''proj'']],
     sv_git = \<lparr> gv_worktrees = (\<lambda>_. Inl []), gv_repository_root = (\<lambda>_. Inl []) \<rparr>, sv_key = (\<lambda>_. []) \<rparr>"

definition demo_ref :: target_ref where
  "demo_ref = \<lparr> tr_project = ''p'', tr_worktree_path = None \<rparr>"

definition demo_os :: os where
  "demo_os = \<lparr> os_tree = demo_tree, os_calls = 0 \<rparr>"

text \<open>A process that puts the link in the place of the file while its write is committed.\<close>

definition demo_race :: fs_env where
  "demo_race = demo_env\<lparr>fv_change := \<lambda>k t. if k \<ge> 7 \<and> is_link t 4 then set_entry 1 ''a'' 4 t else t\<rparr>"

definition demo_write :: transfers where
  "demo_write = transfers_new\<lparr>xf_writes := [(1,
     \<lparr> wf_target = \<lparr> tb_resolved = root_target ''p'' [''proj''], tb_root_identity = 1 \<rparr>, wf_relative_path = [''a''],
       wf_abs_path = [''proj'', ''a''], wf_expected_mtime = 7, wf_declared_size = 0, wf_next_seq = 0,
       wf_temp = \<lparr> tf_dir = [''proj''], tf_name = ''tmp'', tf_inode = 9 \<rparr>, wf_bytes_written = 0 \<rparr>)]\<rparr>"

lemma demo_race_stays: "stays_in {1, 5} demo_race"
  by (auto simp: stays_in_def demo_race_def outside_def is_link_def is_directory_def
      intro: outside_entry(1) [unfolded outside_def, rule_format] shut_set split: option.splits fs_node.splits)

lemma demo_shut: "shut {1, 5} (os_tree demo_os)"
  by (auto simp: shut_def demo_os_def demo_tree_def child_def is_directory_def split: if_splits)

theorem delayed_write_confined_witness:
  "os_tree (snd (snd (fs_write_commit demo_race demo_service 1 demo_write demo_os))) 2 = Some (FDir [])"
proof -
  obtain reply x' s' where run: "fs_write_commit demo_race demo_service 1 demo_write demo_os = (reply, x', s')"
    by (cases "fs_write_commit demo_race demo_service 1 demo_write demo_os")
  have "os_tree s' 2 = Some (FDir []) \<or> (\<exists>es. FDir [] = FDir es \<and> os_tree s' 2 = Some (FDir (AList.delete ''tmp'' es)))"
    using delayed_write_confined [OF demo_race_stays demo_shut _ _ run, of _ 2 "FDir []"]
    by (simp add: demo_write_def transfers_new_def demo_os_def demo_tree_def)
  then show ?thesis using run by simp
qed

end
