(* ===== verification/FS_Confinement.thy ===== *)
theory FS_Confinement
  imports FS_Safety
begin

text \<open>
  Requests that change the tree (\<open>fs:op\<close>) while no other process does: what changes lies beneath the
  target that the request names, whichever calls fail. The exception is \<open>create_file\<close> when the very path it is
  about is a link: the new file appears where the link points.
\<close>

section \<open>A tree that only the service changes\<close>

definition quiet :: "fs_env \<Rightarrow> bool" where
  "quiet E \<longleftrightarrow> (\<forall>k t. fv_change E k t = t)"

definition still :: "fs_env \<Rightarrow> tree \<Rightarrow> tree \<Rightarrow> bool" where
  "still E t0 t \<longleftrightarrow> quiet E \<and> t = t0"

interpretation still: tree_invariant E "still E t0"
  by unfold_locales (simp add: still_def quiet_def)

definition free_of_slash :: "string list \<Rightarrow> bool" where
  "free_of_slash p \<longleftrightarrow> (\<forall>c \<in> set p. CHR ''/'' \<notin> set c)"

lemma free_of_slash_simps [simp]:
  "free_of_slash (path_pieces s)" "free_of_slash (p @ q) \<longleftrightarrow> free_of_slash p \<and> free_of_slash q"
  "free_of_slash p \<Longrightarrow> free_of_slash (components p)" "free_of_slash p \<Longrightarrow> free_of_slash (butlast p)"
  "literal t p \<Longrightarrow> free_of_slash p"
  by (auto simp: free_of_slash_def components_def literal_def normal_name_def dest: path_pieces_no_slash in_set_butlastD)

lemma relative_free: "target_path_relative p root = Some q \<Longrightarrow> free_of_slash q"
  by (auto simp: target_path_relative_def Let_def free_of_slash_def components_def split: if_splits dest: path_pieces_no_slash)

lemma tripleD_both: "triple I m (\<lambda>_. C) C \<Longrightarrow> I (os_tree s) \<Longrightarrow> m s = (r, s') \<Longrightarrow> C (os_tree s')"
  by (cases r) (auto dest: tripleD)

section \<open>What the checks hand out\<close>

abbreviation finds :: "fs_env \<Rightarrow> tree \<Rightarrow> (os, 'e, 'a) cmd \<Rightarrow> ('a \<Rightarrow> bool) \<Rightarrow> bool" where
  "finds E t0 m P \<equiv> triple (still E t0) m (\<lambda>x t. still E t0 t \<and> P x) (still E t0)"

lemma finds_bind:
  assumes "finds E t0 m P" "\<And>x. P x \<Longrightarrow> triple (still E t0) (f x) Q J" "\<And>t. still E t0 t \<Longrightarrow> J t"
  shows "triple (still E t0) (bindC m f) Q J"
proof (rule triple_bind [where P="\<lambda>x t. still E t0 t \<and> P x"])
  show "triple (still E t0) m (\<lambda>x t. still E t0 t \<and> P x) J"
    using assms(1) by (rule triple_weaken) (auto intro: assms(3))
  show "triple (\<lambda>t. still E t0 t \<and> P x) (f x) Q J" for x
    by (rule triple_pre, erule conjunct2, rule triple_weaken [OF assms(2)]) auto
qed

lemma finds_any: "keeps (still E t0) m \<Longrightarrow> finds E t0 m (\<lambda>_. True)"
  by simp

lemma finds_ret: "P x \<Longrightarrow> finds E t0 (retC x) P"
  by (auto intro: triple_ret)

lemma finds_fail: "finds E t0 (failC e) P"
  by (auto intro: triple_fail)

lemma finds_ok: "(\<And>y. x = Some y \<Longrightarrow> P y) \<Longrightarrow> finds E t0 (okC e x) P"
  by (auto intro: triple_ok)

lemma finds_lift: "(\<And>y. r = Inr y \<Longrightarrow> P y) \<Longrightarrow> finds E t0 (liftC r) P"
  by (auto intro: triple_lift)

lemma finds_if: "(b \<Longrightarrow> finds E t0 m P) \<Longrightarrow> (\<not> b \<Longrightarrow> finds E t0 n P) \<Longrightarrow> finds E t0 (if b then m else n) P"
  by simp

lemma finds_map:
  "(\<And>x. finds E t0 (f x) P) \<Longrightarrow> finds E t0 (mapC f xs) (\<lambda>ys. \<forall>y \<in> set ys. P y)"
proof (induction xs)
  case (Cons x xs)
  show ?case
    by (auto intro!: finds_bind [OF Cons.prems] finds_bind [OF Cons.IH [OF Cons.prems]] finds_ret)
qed (auto intro: finds_ret)

lemma finds_canonical:
  "finds E t0 (canonicalize_path E p) (\<lambda>r. \<forall>q. r = Some q \<longrightarrow> realpath_of t0 p = Inr q)"
proof -
  have "triple (still E t0) (sys_canonicalize E p) (\<lambda>q t. still E t0 t \<and> realpath_of t0 p = Inr q) (still E t0)"
    unfolding sys_canonicalize_def by (rule triple_weaken [OF still.triple_look]) (auto simp: still_def)
  from triple_attempt [OF this]
  show ?thesis
    unfolding canonicalize_path_def
    by (rule triple_bind) (auto intro!: tripleI simp: retC_def split: sum.splits)
qed

lemma finds_is_dir:
  "finds E t0 (path_is_dir E p) (\<lambda>b. b \<longrightarrow> (\<exists>i. resolve_follow t0 p = Inr i \<and> is_directory t0 i))"
proof -
  have "triple (still E t0) (sys_metadata E p)
      (\<lambda>r t. still E t0 t \<and> resolve_follow t0 p = Inr (fst r) \<and> t0 (fst r) = Some (snd r)) (still E t0)"
    unfolding sys_metadata_def
    by (rule triple_weaken [OF still.triple_look])
       (auto simp: still_def and_then_Inr_iff node_at_def split: option.splits)
  from triple_attempt [OF this]
  show ?thesis
    unfolding path_is_dir_def
    by (rule triple_bind) (auto intro!: tripleI simp: retC_def is_directory_iff split: sum.splits fs_node.splits)
qed

lemma literal_dir_found:
  assumes "realpath_of t p = Inr q" "free_of_slash p" "\<exists>i. resolve_follow t q = Inr i \<and> is_directory t i"
  shows "literal_dir t q"
proof -
  have "literal t q" using realpath_literal assms(1,2) by (auto simp: free_of_slash_def)
  with assms(3) show ?thesis by (auto simp: resolve_follow_literal literal_def literal_dir_def split: option.splits)
qed

lemma finds_live:
  assumes "free_of_slash (rw_target_path c)"
  shows "finds E t0 (live_target_path E c) (\<lambda>r. \<forall>q. r = Some q \<longrightarrow> literal_dir t0 q)"
  unfolding live_target_path_def Let_def using assms
  by (auto intro!: finds_if finds_ret finds_fail finds_bind [OF finds_any] stable_attempt still.keeps_calls
      finds_bind [OF finds_canonical] finds_bind [OF finds_is_dir]
      split: option.splits sum.splits fs_node.splits if_splits)
     (metis literal_dir_found)+

lemma finds_discover:
  "free_of_slash relative \<Longrightarrow> finds E t0 (discover_target E relative w) (\<lambda>c. free_of_slash (rw_target_path c))"
  unfolding discover_target_def Let_def
  by (auto intro!: finds_bind [OF finds_any] finds_ret still.keeps_path stable_rules split: option.splits)

lemma finds_configured_root:
  assumes "free_of_slash p"
  shows "finds E t0 (canonical_configured_root E p) (literal_dir t0)"
  unfolding canonical_configured_root_def using assms
  by (auto intro!: finds_bind [OF finds_canonical] finds_bind [OF finds_ok [where P="\<lambda>q. realpath_of t0 p = Inr q"]]
      finds_bind [OF finds_is_dir] finds_ret finds_fail)
     (metis literal_dir_found)

text \<open>The root of a resolved target is a literal directory.\<close>

lemma finds_target: "finds E t0 (resolve_project_target E V ref) (\<lambda>target. literal_dir t0 (rt_target_path target))"
proof -
  have relative: "finds E t0 (okC InvalidTargetPath (target_path_relative a b)) free_of_slash" for a b
    by (auto intro: finds_ok relative_free)
  have discover: "finds E t0 (discover_targets E G configured_root worktrees) (\<lambda>cs. \<forall>c \<in> set cs. free_of_slash (rw_target_path c))"
    for G configured_root worktrees
    unfolding discover_targets_def
    by (rule finds_bind [OF relative] finds_bind [OF finds_any] finds_map finds_discover stable_rules still.keeps_path
        | assumption)+
  have chosen: "finds E t0 (okC UnregisteredTarget (find P cs)) (\<lambda>c. free_of_slash (rw_target_path c))"
    if "\<forall>c \<in> set cs. free_of_slash (rw_target_path c)" for P cs
    using that by (auto intro!: finds_ok simp: find_Some_iff)
  have worktree: "finds E t0 (bindC (canonicalize_path E requested) (\<lambda>rc.
      bindC (map_errC map_target_discovery_error (liftC r)) (\<lambda>worktrees.
      bindC (map_errC map_target_discovery_error (discover_targets E G root worktrees)) (\<lambda>cs.
      bindC (okC UnregisteredTarget (find (paths_match rc requested) cs)) (\<lambda>candidate.
      bindC (live_target_path E candidate) (\<lambda>live.
      bindC (okC UnavailableTarget live) (\<lambda>target_path. retC (F candidate target_path))))))))
      (\<lambda>target. literal_dir t0 (rt_target_path target))"
    if "\<And>c q. rt_target_path (F c q) = q" for requested r G root and F :: "registered_worktree \<Rightarrow> string list \<Rightarrow> resolved_target"
    by (rule finds_bind [OF triple_map_err [OF discover]] finds_bind [OF chosen] finds_bind [OF finds_live]
        finds_bind [OF finds_ok [where P="literal_dir t0"]] finds_bind [OF finds_any] finds_ret stable_rules
        still.keeps_path | assumption | simp add: that)+
  show ?thesis
    unfolding resolve_project_target_def resolve_target_def Let_def
    by (cases "map_of (sv_projects V) (tr_project ref)"; cases "tr_worktree_path ref")
       (simp_all add: finds_fail finds_ret root_target_def worktree finds_bind [OF finds_configured_root])
qed

definition beneath :: "string list \<Rightarrow> string list \<Rightarrow> bool" where
  "beneath root q \<longleftrightarrow> (\<exists>r. q = root @ r)"

lemma finds_canonical_existing: "finds E t0 (canonicalize_existing E p) (\<lambda>q. realpath_of t0 p = Inr q)"
  unfolding canonicalize_existing_def sys_canonicalize_def
  by (intro triple_map_err triple_weaken [OF still.triple_look]) (auto simp: still_def)

lemma canonical_within:
  assumes "realpath_of t p = Inr q" "free_of_slash p" "literal_dir t root" "target_path_is_within q root"
  shows "literal t q \<and> beneath root q"
proof -
  have q: "literal t q" using assms(1,2) by (auto intro: realpath_literal simp: free_of_slash_def)
  with assms(3,4) show ?thesis
    by (auto simp: literal_def literal_dir_def within_iff_prefix beneath_def)
qed

lemma finds_validate:
  assumes "literal_dir t0 (rt_target_path target)" "free_of_slash p"
  shows "finds E t0 (validate_target E roots target p) (\<lambda>q. literal t0 q \<and> beneath (rt_target_path target) q)"
    "finds E t0 (validate_new_target_path E roots target p n)
       (\<lambda>q. \<exists>d. q = d @ [n] \<and> realpath_of t0 p = Inr d \<and> literal t0 d \<and> beneath (rt_target_path target) d)"
proof -
  have root: "finds E t0 (liftC (sandbox_target_root roots target)) (\<lambda>root. root = rt_target_path target)"
    by (auto intro!: finds_lift simp: sandbox_target_root_def split: option.splits if_splits)
  show "finds E t0 (validate_target E roots target p) (\<lambda>q. literal t0 q \<and> beneath (rt_target_path target) q)"
    unfolding validate_target_def validate_existing_under_root_def using assms
    by (auto intro!: finds_bind [OF root] finds_bind [OF finds_canonical_existing] finds_if finds_ret finds_fail
        dest: canonical_within)
  show "finds E t0 (validate_new_target_path E roots target p n)
       (\<lambda>q. \<exists>d. q = d @ [n] \<and> realpath_of t0 p = Inr d \<and> literal t0 d \<and> beneath (rt_target_path target) d)"
    unfolding validate_new_target_path_def validate_new_under_root_def using assms
    by (auto intro!: finds_bind [OF root] finds_bind [OF finds_canonical_existing] finds_bind [OF finds_any]
        finds_if finds_ret finds_fail stable_rules dest: canonical_within)
qed

section \<open>What the changes reach\<close>

text \<open>Everything that changed was beneath \<open>root\<close>.\<close>

definition confined :: "tree \<Rightarrow> string list \<Rightarrow> tree \<Rightarrow> bool" where
  "confined t0 root t \<longleftrightarrow> (\<forall>i x. t0 i = Some x \<longrightarrow> t i \<noteq> Some x \<longrightarrow> (\<exists>r. descend t0 ROOT (root @ r) = Some i))"

lemma still_confined: "still E t0 t \<Longrightarrow> confined t0 root t"
  by (simp add: still_def confined_def)

lemma confined_set:
  assumes "confined t0 root t" "descend t0 ROOT (root @ r) = Some d"
  shows "confined t0 root (set_entry d n i t)" "confined t0 root (del_entry d n t)"
  using assms by (auto simp: confined_def set_entry_def del_entry_def split: option.splits fs_node.splits)

lemma confined_refl: "confined t0 root t0"
  by (simp add: confined_def)

lemma confined_new:
  assumes "t0 i = None" "descend t0 ROOT (root @ r) = Some d"
  shows "confined t0 root (set_entry d n i (t0(i \<mapsto> x)))"
  by (rule confined_set [OF _ assms(2)]) (use assms(1) in \<open>simp add: confined_def\<close>)

lemma confined_rename:
  assumes "descend t0 ROOT (root @ r) = Some d" "descend t0 ROOT (root @ r') = Some d'"
    and "rename_entry d n d' n' t0 = (q, t)"
  shows "confined t0 root t"
  using assms by (auto simp: rename_entry_def split: option.splits if_splits intro!: confined_set confined_refl)

text \<open>A call that changes the tree.\<close>

lemma still_last:
  assumes "\<And>k r t. f k t0 = (r, t) \<Longrightarrow> C t" "C t0"
  shows "triple (still E t0) (oscall E f) (\<lambda>_. C) C"
  using assms
  by (intro tripleI) (auto simp: still_def quiet_def oscall_def Let_def split: option.splits prod.splits)

lemma literal_place:
  assumes "literal t p" "beneath root p" "resolve_parent t (p @ [n]) = Inr d"
  shows "\<exists>r. descend t ROOT (root @ r) = Some d"
proof -
  from assms(3) have "resolve_follow t p = Inr d" by (auto simp: resolve_parent_def and_then_Inr_iff split: if_splits)
  with assms(1) have "descend t ROOT p = Some d" by (auto simp: resolve_follow_literal split: option.splits)
  with assms(2) show ?thesis by (auto simp: beneath_def)
qed

lemma descend_child: "descend t ROOT (root @ r) = Some d \<Longrightarrow> child t d n = Some i \<Longrightarrow> descend t ROOT (root @ (r @ [n])) = Some i"
  using descend_snoc [of t ROOT "root @ r" n i] by simp

lemma confined_mkdir:
  assumes "literal t0 p" "beneath root p"
  shows "triple (still E t0) (sys_mkdir E (p @ [n])) (\<lambda>_. confined t0 root) (still E t0)"
proof -
  have "confined t0 root t \<and> (\<forall>e. r = Inl e \<longrightarrow> t = t0)"
    if "(if p @ [n] = [] then (Inl IoOther, t0)
     else case resolve_parent t0 (p @ [n]) of
       Inl e \<Rightarrow> (Inl e, t0)
     | Inr d \<Rightarrow>
         if child t0 d (last (p @ [n])) \<noteq> None then (Inl IoOther, t0)
         else case new_entry (fv_inode E k) d (last (p @ [n])) (FDir []) t0 of
           (Inl e, t') \<Rightarrow> (Inl e, t')
         | (Inr _, t') \<Rightarrow> (Inr (), t')) = (r, t)" for k r t
    using that literal_place [OF assms]
    by (auto simp: new_entry_def confined_refl split: sum.splits if_splits)
       (metis confined_new)
  then show ?thesis
    unfolding sys_mkdir_def
    by (intro triple_weaken [OF still.triple_oscall]) (auto simp: still_def split: sum.splits)
qed

text \<open>What is there already is not made again.\<close>

lemma still_mkdir:
  assumes "literal t0 q"
  shows "keeps (still E t0) (sys_mkdir E q)"
proof (cases q rule: rev_cases)
  case (snoc p c)
  have "t = t0"
    if "(if q = [] then (Inl IoOther, t0)
     else case resolve_parent t0 q of
       Inl e \<Rightarrow> (Inl e, t0)
     | Inr d \<Rightarrow>
         if child t0 d (last q) \<noteq> None then (Inl IoOther, t0)
         else case new_entry (fv_inode E k) d (last q) (FDir []) t0 of
           (Inl e, t') \<Rightarrow> (Inl e, t')
         | (Inr _, t') \<Rightarrow> (Inr (), t')) = (r, t)" for k r and t :: tree
  proof -
    from assms snoc have p: "literal_dir t0 p" by (auto intro: literal_parent)
    from assms snoc obtain i where "descend t0 ROOT (p @ [c]) = Some i" by (auto simp: literal_def)
    then obtain d where "descend t0 ROOT p = Some d" "child t0 d c = Some i" by (auto simp: descend_snoc)
    then have "resolve_parent t0 (p @ [c]) = Inr d" "child t0 d c = Some i"
      using resolve_parent_literal [OF p] child_directory by auto
    with that snoc show ?thesis by simp
  qed
  then show ?thesis
    unfolding sys_mkdir_def
    by (intro triple_weaken [OF still.triple_oscall]) (auto simp: still_def split: sum.splits)
next
  case Nil
  then show ?thesis
    unfolding sys_mkdir_def
    by (intro triple_weaken [OF still.triple_oscall]) (auto simp: still_def split: sum.splits)
qed

lemma still_create_dir_all: "literal t0 q \<Longrightarrow> keeps (still E t0) (create_dir_all E q)"
proof (induction q rule: length_induct)
  case (1 q)
  show ?case
  proof (cases q rule: rev_cases)
    case Nil
    then show ?thesis by (auto simp: create_dir_all.simps [of E "[]"] intro: triple_ret)
  next
    case (snoc p c)
    have "literal t0 p" using 1(2) snoc by (auto intro: literal_dir_literal literal_parent)
    then have rest: "keeps (still E t0) (create_dir_all E p)" using 1(1) snoc by simp
    have "keeps (still E t0) (create_dir_all E (p @ [c]))"
      unfolding create_dir_all.simps [of E "p @ [c]"] or_directory_def using 1(2) snoc rest
      by (auto intro!: stable_rules still_mkdir still.keeps_path split: sum.splits)
    then show ?thesis using snoc by simp
  qed
qed

lemma confined_create_dir_all:
  assumes "literal t0 p" "beneath root p"
  shows "triple (still E t0) (create_dir_all E (p @ [n])) (\<lambda>_. confined t0 root) (confined t0 root)"
proof -
  define made where "made = (\<lambda>(r :: io_error + unit) t. confined t0 root t \<and> (\<forall>e. r = Inl e \<longrightarrow> still E t0 t))"
  have mkdir: "triple (still E t0) (attemptC (sys_mkdir E (p @ [n]))) made (confined t0 root)"
    by (rule triple_weaken [OF triple_attempt [OF confined_mkdir [OF assms]]])
       (auto simp: made_def still_confined split: sum.splits)
  have here: "triple (made r) (or_directory E (p @ [n]) r) (\<lambda>_. confined t0 root) (confined t0 root)" for r
  proof (cases r)
    case (Inl e)
    show ?thesis
      unfolding or_directory_def Inl sum.case
      by (rule triple_weaken [OF stable_bind [OF still.keeps_path(2) [of E t0]]])
         (auto intro!: stable_rules simp: made_def still_confined)
  qed (auto simp: or_directory_def made_def intro: triple_ret)
  have again: "triple (made (Inl e)) (bindC (create_dir_all E p) (\<lambda>_.
      bindC (attemptC (sys_mkdir E (p @ [n]))) (or_directory E (p @ [n])))) (\<lambda>_. confined t0 root) (confined t0 root)" for e
  proof (rule triple_bind [where P="\<lambda>_. still E t0"])
    show "triple (made (Inl e)) (create_dir_all E p) (\<lambda>_. still E t0) (confined t0 root)"
      by (rule triple_weaken [OF still_create_dir_all [OF assms(1)]]) (auto simp: made_def still_confined)
  qed (rule triple_bind [OF mkdir here])
  show ?thesis
    unfolding create_dir_all.simps [of E "p @ [n]"]
    by (auto intro!: triple_bind [OF mkdir] here again)
qed

text \<open>The directory that holds an object beneath the root, when the object is not the root itself.\<close>

lemma literal_holder:
  assumes "literal t0 q" "beneath root q" "q \<noteq> root" "resolve_parent t0 q = Inr d"
  shows "\<exists>r. descend t0 ROOT (root @ r) = Some d"
proof -
  from assms(2,3) obtain r0 where r0: "q = root @ r0" "r0 \<noteq> []" by (auto simp: beneath_def)
  then obtain r c where q: "q = (root @ r) @ [c]" by (cases r0 rule: rev_cases) auto
  have "literal t0 (root @ r)" by (rule literal_dir_literal, rule literal_parent [of _ _ c]) (use assms(1) q in simp)
  with assms(4) q show ?thesis using literal_place [of t0 "root @ r" root c d] by (auto simp: beneath_def)
qed

lemma confined_remove:
  assumes "literal t0 q" "beneath root q" "q \<noteq> root"
  shows "triple (still E t0) (sys_unlink E q) (\<lambda>_. confined t0 root) (confined t0 root)"
    "triple (still E t0) (sys_remove_dir_all E q) (\<lambda>_. confined t0 root) (confined t0 root)"
proof -
  have holder: "confined t0 root (del_entry d n t0)" if "resolve_parent t0 q = Inr d" for d n
    using literal_holder [OF assms that] confined_set(2) [OF confined_refl] by blast
  show "triple (still E t0) (sys_unlink E q) (\<lambda>_. confined t0 root) (confined t0 root)"
    unfolding sys_unlink_def
    by (rule still_last) (auto simp: confined_refl holder split: if_splits sum.splits option.splits)
  show "triple (still E t0) (sys_remove_dir_all E q) (\<lambda>_. confined t0 root) (confined t0 root)"
    unfolding sys_remove_dir_all_def
    by (rule still_last) (auto simp: confined_refl holder split: if_splits sum.splits option.splits)
qed

lemma confined_sys_rename:
  assumes "literal t0 q" "beneath root q" "q \<noteq> root" "literal t0 p" "beneath root p"
  shows "triple (still E t0) (sys_rename E q (p @ [n])) (\<lambda>_. confined t0 root) (confined t0 root)"
proof -
  have moved: "confined t0 root t"
    if "resolve_parent t0 q = Inr d" "resolve_parent t0 (p @ [n]) = Inr d'" "rename_entry d a d' b t0 = (r, t)" for d d' a b r t
    using literal_holder [OF assms(1-3) that(1)] literal_place [OF assms(4,5) that(2)] confined_rename [OF _ _ that(3)] by blast
  show ?thesis
    unfolding sys_rename_def
    by (rule still_last) (auto simp: confined_refl split: if_splits sum.splits option.splits dest: moved)
qed

lemma finds_safe: "finds E t0 (liftC (assert_safe_mutation q root force_git)) (\<lambda>_. q \<noteq> root)"
  by (rule finds_lift) (auto simp: assert_safe_mutation_def split: if_splits)

lemma confined_rename_path:
  assumes "literal t0 q" "beneath root q" "literal t0 p" "beneath root p"
  shows "triple (still E t0) (rename_path E q (p @ [n]) root) (\<lambda>_. confined t0 root) (confined t0 root)"
    "triple (still E t0) (move_path E q (p @ [n]) root) (\<lambda>_. confined t0 root) (confined t0 root)"
proof -
  have parent: "keeps (still E t0) (case path_parent (p @ [n]) of None \<Rightarrow> retC True | Some p \<Rightarrow> sys_exists E p)"
    by (auto intro!: stable_rules still.keeps_exists split: option.splits)
  note rules = finds_bind [OF finds_safe] finds_bind [OF finds_any [OF still.keeps_exists]] finds_bind [OF finds_any [OF parent]]
    triple_map_err confined_sys_rename triple_fail
  show "triple (still E t0) (rename_path E q (p @ [n]) root) (\<lambda>_. confined t0 root) (confined t0 root)"
    unfolding rename_path_def using assms by (auto intro!: rules simp: still_confined)
  show "triple (still E t0) (move_path E q (p @ [n]) root) (\<lambda>_. confined t0 root) (confined t0 root)"
    unfolding move_path_def using assms by (auto intro!: rules simp: still_confined)
qed

lemma confined_delete_path:
  assumes "literal t0 q" "beneath root q"
  shows "triple (still E t0) (delete_path E q root force_git) (\<lambda>_. confined t0 root) (confined t0 root)"
  unfolding delete_path_def using assms
  by (auto intro!: finds_bind [OF finds_safe] finds_bind [OF finds_any [OF still.keeps_exists]]
      finds_bind [OF finds_any [OF triple_map_err [OF still.keeps_calls(3)]]] triple_map_err confined_remove triple_fail
      simp: still_confined split: fs_node.splits)

lemma confined_create_dir:
  assumes "literal t0 p" "beneath root p"
  shows "triple (still E t0) (create_dir E (p @ [n]) root) (\<lambda>_. confined t0 root) (confined t0 root)"
  unfolding create_dir_def
  by (rule finds_bind [OF finds_safe]) (auto intro!: triple_map_err confined_create_dir_all assms simp: still_confined)

section \<open>Creating a file\<close>

declare creation_of.simps(2) [simp del]

text \<open>What a creation would empty is what the path resolves to.\<close>

lemma creation_existing:
  "creation_of t n acc cs = Inr (ExistingFile i) \<Longrightarrow> \<exists>q. canonical t n acc cs = Inr q \<and> descend t ROOT q = Some i"
proof (induction "(n, length cs)" arbitrary: n acc cs rule: wf_induct_rule [OF wf_lex_prod [OF wf_less_than wf_less_than]])
  case 1
  show ?case
  proof (cases cs)
    case Nil
    with 1(2) show ?thesis by simp
  next
    case (Cons c ds)
    have shorter: "creation_of t n acc' ds = Inr (ExistingFile i) \<Longrightarrow>
        \<exists>q. canonical t n acc' ds = Inr q \<and> descend t ROOT q = Some i" for acc'
      using 1(1) [of n ds acc'] Cons by simp
    show ?thesis
    proof (cases "proper c \<and> c \<noteq> ''..''")
      case False
      with 1(2) Cons shorter show ?thesis
        by (simp add: creation_of.simps(2) canonical.simps(2) split: if_splits)
    next
      case True
      with 1(2) Cons obtain d j x where j: "descend t ROOT acc = Some d" "child t d c = Some j" "CHR 0x00 \<notin> set c" "t j = Some x"
        by (auto simp: creation_of.simps(2) split: if_splits option.splits)
      then have dj: "descend t ROOT (acc @ [c]) = Some j" by (simp add: descend_snoc)
      show ?thesis
      proof (cases x)
        case (FDir es)
        with 1(2) Cons True j dj shorter [of "acc @ [c]"] show ?thesis by (simp add: creation_of.simps(2) canonical.simps(2))
      next
        case (FFile bs m)
        with 1(2) Cons True j dj show ?thesis
          by (simp add: creation_of.simps(2) canonical.simps(2) split: if_splits)
      next
        case (FLink target)
        let ?acc = "if starts_with ''/'' target then [] else acc"
        from 1(2) Cons True j FLink obtain m where m: "n = Suc m"
            "creation_of t m ?acc (path_pieces target @ ds) = Inr (ExistingFile i)"
          by (cases n) (simp_all add: creation_of.simps(2))
        with 1(1) [of m "path_pieces target @ ds" ?acc] obtain q where
          "canonical t m ?acc (path_pieces target @ ds) = Inr q" "descend t ROOT q = Some i" by auto
        with Cons True j dj FLink m(1) show ?thesis by (simp add: canonical.simps(2))
      qed
    qed
  qed
qed

text \<open>A new entry is for a name that its directory does not have yet.\<close>

lemma creation_new: "creation_of t n acc cs = Inr (NewEntry d c) \<Longrightarrow> child t d c = None"
proof (induction t n acc cs rule: creation_of.induct)
  case (2 t n acc x cs)
  then show ?case
    by (auto simp: creation_of.simps(2) split: option.splits fs_node.splits if_splits nat.splits)
qed simp

text \<open>Walking down a literal directory.\<close>

lemma creation_literal:
  "literal_dir t (acc @ p) \<Longrightarrow> creation_of t n acc (p @ cs) = creation_of t n (acc @ p) cs"
proof (induction p arbitrary: acc)
  case (Cons c p)
  have c: "proper c" "c \<noteq> ''..''" "CHR 0x00 \<notin> set c"
    using Cons.prems by (auto simp: literal_dir_def normal_name_def)
  have "literal_dir t (acc @ [c])" using Cons.prems literal_dir_append [of t "acc @ [c]" p] by simp
  then obtain i es where i: "descend t ROOT (acc @ [c]) = Some i" "t i = Some (FDir es)"
    by (auto simp: literal_dir_def is_directory_iff)
  then obtain d where "descend t ROOT acc = Some d" "child t d c = Some i" by (auto simp: descend_snoc)
  with c i Cons.IH [of "acc @ [c]"] Cons.prems show ?case by (simp add: creation_of.simps(2))
qed simp

definition link_at :: "tree \<Rightarrow> string list \<Rightarrow> bool" where
  "link_at t p \<longleftrightarrow> (\<exists>i. descend t ROOT p = Some i \<and> is_link t i)"

text \<open>Unless the path itself is a link, the creation happens in its own directory.\<close>

lemma creation_here:
  assumes "literal_dir t p" "\<not> link_at t (p @ [n])" "creation_of t MAX_LINKS [] (p @ [n]) = Inr r"
  shows "r = NewEntry d c \<Longrightarrow> descend t ROOT p = Some d \<and> c = n"
    "r = ExistingFile i \<Longrightarrow> descend t ROOT (p @ [n]) = Some i"
  using assms creation_literal [of t "[]" p MAX_LINKS "[n]"]
  by (auto simp: creation_of.simps(2) link_at_def is_link_def descend_snoc
      split: if_splits option.splits fs_node.splits)

text \<open>
  What creating a file does to an object \<open>x\<close> that existed: a directory gains one entry under a name it did not
  have, or a file is emptied.
\<close>

definition gains_entry :: "fs_node \<Rightarrow> fs_node option \<Rightarrow> bool" where
  "gains_entry x y \<longleftrightarrow> (\<exists>es c i. x = FDir es \<and> map_of es c = None \<and> y = Some (FDir (AList.update c i es)))"

definition emptied :: "fs_node option \<Rightarrow> bool" where
  "emptied y \<longleftrightarrow> (\<exists>m. y = Some (FFile [] m))"

lemma creation_in_dir:
  assumes "literal t p" "creation_of t m [] (p @ [n]) = Inr r"
  shows "literal_dir t p"
proof (cases p rule: rev_cases)
  case Nil
  then show ?thesis by (simp add: literal_dir_def)
next
  case (snoc q c)
  with assms(1) have q: "literal_dir t q" by (auto intro: literal_parent)
  from assms(1) snoc obtain i x where i: "descend t ROOT (q @ [c]) = Some i" "t i = Some x" "\<forall>target. x \<noteq> FLink target"
      "normal_name c" by (auto simp: literal_def)
  then obtain d where "descend t ROOT q = Some d" "child t d c = Some i" by (auto simp: descend_snoc)
  moreover have "creation_of t m q [c, n] = Inr r"
    using assms(2) creation_literal [of t "[]" q m "[c, n]"] q snoc by simp
  ultimately have "is_directory t i" using i
    by (cases x) (auto simp: creation_of.simps(2) [of t m q c] is_directory_iff normal_name_def split: if_splits)
  with q i snoc show ?thesis by (auto simp: literal_dir_def)
qed

lemma sys_exists_run:
  assumes "quiet E" "sys_exists E p s = (r, s')"
  shows "\<exists>b. r = Inr b \<and> os_tree s' = os_tree s \<and> os_calls s' = Suc (os_calls s) \<and>
    (b = False \<longrightarrow> fv_fail E (os_calls s) \<noteq> None \<or> (\<forall>i x. resolve_follow (os_tree s) p = Inr i \<longrightarrow> os_tree s i \<noteq> Some x))"
  using assms
  by (auto simp: sys_exists_def bindC_def attemptC_def retC_def sys_metadata_def look_def oscall_def Let_def quiet_def
      is_ok_def and_then_def node_at_def split: option.splits sum.splits prod.splits)

lemma sys_create_run:
  assumes "quiet E" "sys_create E p s = (r, s')" "os_tree s i = Some x" "os_tree s' i \<noteq> Some x"
  shows "os_calls s' = Suc (os_calls s) \<and>
    ((\<exists>c. creation_of (os_tree s) MAX_LINKS [] p = Inr (NewEntry i c)) \<and> gains_entry x (os_tree s' i) \<or>
     creation_of (os_tree s) MAX_LINKS [] p = Inr (ExistingFile i) \<and> emptied (os_tree s' i))"
proof -
  let ?t = "os_tree s" and ?k = "os_calls s"
  have run: "sys_create E p s = (case fv_fail E ?k of
      Some e \<Rightarrow> (Inl e, s\<lparr>os_calls := Suc ?k\<rparr>)
    | None \<Rightarrow> (case (case creation_of ?t MAX_LINKS [] p of
         Inl e \<Rightarrow> (Inl e, ?t)
       | Inr (NewEntry d n) \<Rightarrow> new_entry (fv_inode E ?k) d n (FFile [] (fv_now E ?k)) ?t
       | Inr (ExistingFile j) \<Rightarrow> (Inr j, ?t(j \<mapsto> FFile [] (fv_now E ?k)))) of
         (r, t') \<Rightarrow> (r, s\<lparr>os_tree := t', os_calls := Suc ?k\<rparr>)))"
    using assms(1) by (simp add: sys_create_def oscall_def Let_def quiet_def split: option.split)
  then have calls: "os_calls s' = Suc ?k" using assms(2) by (auto split: option.splits prod.splits)
  from run assms(2-4) consider
    d c where "creation_of ?t MAX_LINKS [] p = Inr (NewEntry d c)" "is_directory ?t d" "?t (fv_inode E ?k) = None"
      "os_tree s' = set_entry d c (fv_inode E ?k) (?t(fv_inode E ?k \<mapsto> FFile [] (fv_now E ?k)))"
    | j where "creation_of ?t MAX_LINKS [] p = Inr (ExistingFile j)" "os_tree s' = ?t(j \<mapsto> FFile [] (fv_now E ?k))"
    by (auto simp: new_entry_def split: option.splits sum.splits creation.splits if_splits)
  then show ?thesis
  proof cases
    case 1
    then obtain es where es: "?t d = Some (FDir es)" by (auto simp: is_directory_iff)
    with creation_new [OF 1(1)] have fresh: "map_of es c = None" by (simp add: child_def)
    have "fv_inode E ?k \<noteq> d" using 1(3) es by auto
    with 1(4) es have s': "os_tree s' = ?t(fv_inode E ?k \<mapsto> FFile [] (fv_now E ?k), d \<mapsto> FDir (AList.update c (fv_inode E ?k) es))"
      by (simp add: set_entry_def)
    with assms(3,4) 1(3) have "i = d" by (auto split: if_splits)
    with s' es assms(3) fresh 1(1) calls show ?thesis by (auto simp: gains_entry_def)
  next
    case 2
    with assms(3,4) have "i = j" by (auto split: if_splits)
    with 2 calls show ?thesis by (simp add: emptied_def)
  qed
qed

lemma create_file_run:
  assumes "quiet E" "literal t p" "create_file E (p @ [n]) root s = (r, s')" "os_tree s = t"
    "t i = Some x" "os_tree s' i \<noteq> Some x"
  shows "(link_at t (p @ [n]) \<or> descend t ROOT p = Some i \<or> descend t ROOT (p @ [n]) = Some i) \<and>
    ((\<exists>c. creation_of t MAX_LINKS [] (p @ [n]) = Inr (NewEntry i c)) \<and> gains_entry x (os_tree s' i) \<or>
     fv_fail E (os_calls s' - 2) \<noteq> None \<and> resolve_follow t (p @ [n]) = Inr i \<and> emptied (os_tree s' i))"
proof -
  obtain b :: "fs_error + bool" and s1 where ex: "sys_exists E (p @ [n]) s = (b, s1)" by fastforce
  note checked = sys_exists_run [OF assms(1) ex]
  have b: "b = Inr False" using assms(3-6) ex checked
    by (auto simp: create_file_def bindC_def liftC_def failC_def split: sum.splits if_splits)
  with assms(3-6) ex obtain q where cr: "sys_create E (p @ [n]) s1 = (q, s')"
    by (auto simp: create_file_def bindC_def liftC_def map_errC_def retC_def split: sum.splits prod.splits)
  have s1: "os_tree s1 = t" "os_calls s1 = Suc (os_calls s)" using checked assms(4) by auto
  from sys_create_run [OF assms(1) cr, of i x] assms(5,6) s1
  have calls: "os_calls s' - 2 = os_calls s" and
    made: "(\<exists>c. creation_of t MAX_LINKS [] (p @ [n]) = Inr (NewEntry i c)) \<and> gains_entry x (os_tree s' i) \<or>
      creation_of t MAX_LINKS [] (p @ [n]) = Inr (ExistingFile i) \<and> emptied (os_tree s' i)" by auto
  then have dir: "literal_dir t p" using creation_in_dir [OF assms(2)] by blast
  show ?thesis
  proof (cases "creation_of t MAX_LINKS [] (p @ [n]) = Inr (ExistingFile i)")
    case True
    then have found: "resolve_follow t (p @ [n]) = Inr i"
      using creation_existing [OF True] by (auto simp: resolve_follow_def realpath_of_def)
    then have "fv_fail E (os_calls s) \<noteq> None" using checked b assms(4,5) by auto
    moreover have "link_at t (p @ [n]) \<or> descend t ROOT (p @ [n]) = Some i"
      using creation_here(2) [OF dir _ True] by blast
    moreover have "emptied (os_tree s' i)" using made True by auto
    ultimately show ?thesis using found calls by auto
  next
    case False
    then obtain c where new: "creation_of t MAX_LINKS [] (p @ [n]) = Inr (NewEntry i c)"
      and gains: "gains_entry x (os_tree s' i)" using made by blast
    then have "link_at t (p @ [n]) \<or> descend t ROOT p = Some i"
      using creation_here(1) [OF dir _ new] by blast
    with new gains show ?thesis by blast
  qed
qed

section \<open>The request\<close>

text \<open>The directory and the name of the file that a request to create one is about.\<close>

definition new_parent :: "string list \<Rightarrow> string \<Rightarrow> string list" where
  "new_parent root path = fst (split_new root (join_path root (trim_leading_slash path)))"

definition new_name :: "string list \<Rightarrow> string \<Rightarrow> string" where
  "new_name root path = snd (split_new root (join_path root (trim_leading_slash path)))"

lemma free_of_slash_parent: "path_parent p = Some q \<Longrightarrow> free_of_slash p \<Longrightarrow> free_of_slash q"
  by (auto simp: path_parent_def split: if_splits)

lemma split_new_free: "free_of_slash root \<Longrightarrow> free_of_slash (fst (split_new root (join_path root rel)))"
  by (auto simp: split_new_def join_path_def split: option.splits dest: free_of_slash_parent)

text \<open>Every request but \<open>create_file\<close>.\<close>

lemma fs_op_at_confined:
  assumes "literal_dir t0 (rt_target_path target)" "oper \<noteq> ''create_file''"
  shows "triple (still E t0) (fs_op_at E V oper path new_path force_git target)
    (\<lambda>_. confined t0 (rt_target_path target)) (confined t0 (rt_target_path target))"
proof -
  let ?root = "rt_target_path target"
  let ?H = "confined t0 ?root"
  have root: "free_of_slash ?root" "literal t0 ?root" "beneath ?root ?root"
    using literal_dir_literal [OF assms(1)] free_of_slash_simps(5) by (auto simp: beneath_def)
  have join: "free_of_slash (join_path ?root rel)" for rel using root by (simp add: join_path_def)
  have old: "finds E t0 (if b then retC ?root else validate_target E roots target (join_path ?root rel))
      (\<lambda>q. literal t0 q \<and> beneath ?root q)" for b roots rel
    using root by (auto intro!: finds_ret finds_validate assms join)
  note validated_new = finds_bind [OF finds_validate(2) [OF assms(1) split_new_free [OF root(1)]]]
  have create: "triple (still E t0) (case split_new ?root (join_path ?root (trim_leading_slash path)) of (parent, name) \<Rightarrow>
      bindC (validate_new_target_path E roots target parent name) (\<lambda>q.
        if oper = ''create_file'' then create_file E q ?root else create_dir E q ?root)) (\<lambda>_. ?H) ?H" for roots
    unfolding split_beta
    by (rule validated_new) (use assms(2) in \<open>auto intro!: confined_create_dir simp: still_confined\<close>)
  have remove: "triple (still E t0) (bindC (if b then retC ?root else validate_target E roots target (join_path ?root rel))
      (\<lambda>q. delete_path E q ?root force_git)) (\<lambda>_. ?H) ?H" for b roots rel
    by (rule finds_bind [OF old]) (auto intro!: confined_delete_path simp: still_confined)
  have renamed: "triple (still E t0) (bindC (validate_target E roots target (join_path ?root rel)) (\<lambda>q.
      bindC (okC FsMutationRefused new_path) (\<lambda>dst.
        (case split_new ?root (join_path ?root (trim_leading_slash dst)) of (parent, name) \<Rightarrow>
           bindC (validate_new_target_path E roots target parent name) (\<lambda>r.
             if oper = ''rename'' then rename_path E q r ?root else move_path E q r ?root))))) (\<lambda>_. ?H) ?H" for roots rel
  proof (rule finds_bind [OF finds_validate(1) [OF assms(1) join]], rule finds_bind [OF finds_ok [where P="\<lambda>_. True"]], goal_cases)
    case (2 q dst)
    show ?case unfolding split_beta by (rule validated_new) (use 2 in \<open>auto intro!: confined_rename_path simp: still_confined\<close>)
  qed (auto simp: still_confined)
  have body: "triple (still E t0) (if oper = ''create_file'' \<or> oper = ''create_dir'' then c
      else if oper = ''delete'' then d else if oper = ''rename'' \<or> oper = ''move'' then m else failC FsMutationRefused) (\<lambda>_. ?H) ?H"
    if "triple (still E t0) c (\<lambda>_. ?H) ?H" "triple (still E t0) d (\<lambda>_. ?H) ?H" "triple (still E t0) m (\<lambda>_. ?H) ?H" for c d m
    using that by (auto intro: triple_fail still_confined)
  show ?thesis
    unfolding fs_op_at_def Let_def
    by (rule finds_bind [where P="\<lambda>_. True"], rule finds_lift, simp)
       (rule body [OF create remove renamed], rule still_confined)
qed

text \<open>What a request to create a file may do to an object that existed.\<close>

definition create_file_change ::
  "fs_env \<Rightarrow> os \<Rightarrow> os \<Rightarrow> string list \<Rightarrow> string list \<Rightarrow> nat \<Rightarrow> fs_node \<Rightarrow> bool" where
  "create_file_change E s s' root p i x \<longleftrightarrow>
     (link_at (os_tree s) p \<or> (\<exists>q. descend (os_tree s) ROOT (root @ q) = Some i)) \<and>
     ((\<exists>c. creation_of (os_tree s) MAX_LINKS [] p = Inr (NewEntry i c)) \<and> gains_entry x (os_tree s' i) \<or>
      fv_fail E (os_calls s' - 2) \<noteq> None \<and> resolve_follow (os_tree s) p = Inr i \<and> emptied (os_tree s' i))"

lemma fs_op_at_create:
  assumes "quiet E" "literal_dir (os_tree u) (rt_target_path target)"
    "fs_op_at E V ''create_file'' path new_path force_git target u = (r, s')"
    "os_tree u i = Some x" "os_tree s' i \<noteq> Some x"
  shows "\<exists>d. realpath_of (os_tree u) (new_parent (rt_target_path target) path) = Inr d \<and>
    beneath (rt_target_path target) d \<and>
    create_file_change E u s' (rt_target_path target) (d @ [new_name (rt_target_path target) path]) i x"
proof -
  let ?root = "rt_target_path target" and ?t = "os_tree u"
  have still: "still E ?t (os_tree u)" using assms(1) by (simp add: still_def)
  have root: "free_of_slash ?root" using literal_dir_literal [OF assms(2)] by simp
  obtain roots where roots: "service_sandbox V = Inr roots"
    using assms(3-5) by (cases "service_sandbox V") (auto simp: fs_op_at_def bindC_def liftC_def)
  obtain q u1 where val: "validate_new_target_path E roots target (new_parent ?root path) (new_name ?root path) u = (q, u1)"
    by fastforce
  note found = finds_validate(2) [OF assms(2) split_new_free [OF root, of "trim_leading_slash path"], folded new_parent_def]
  have u1: "os_tree u1 = ?t" using tripleD [OF found still] val by (cases q) (auto simp: still_def)
  have run: "(case q of Inl e \<Rightarrow> (Inl e, u1) | Inr new_abs \<Rightarrow> create_file E new_abs ?root u1) = (r, s')"
    using assms(3) roots val
    by (simp add: fs_op_at_def bindC_def liftC_def Let_def split_beta new_parent_def new_name_def split: sum.splits)
  with assms(4,5) u1 obtain new_abs where q: "q = Inr new_abs" by (cases q) auto
  from tripleD(1) [OF found still] val q obtain d where d: "new_abs = d @ [new_name ?root path]"
    "realpath_of ?t (new_parent ?root path) = Inr d" "literal ?t d" "beneath ?root d" by fastforce
  have "create_file E (d @ [new_name ?root path]) ?root u1 = (r, s')" using run q d(1) by simp
  from create_file_run [OF assms(1) d(3) this u1 assms(4,5)] d(2,4)
  show ?thesis unfolding create_file_change_def beneath_def by (metis append_assoc)
qed

text \<open>
  C6: the requests that create, delete, rename and move files stay beneath their target. While no other
  process changes the tree, whichever system calls fail, everything that existed and is different after a
  request other than \<open>create_file\<close> was reached from the root of the target by a path without links, so nothing
  outside of the project or worktree changes. For \<open>create_file\<close> the path is the canonical parent, which lies beneath
  the target, and the name of the request. What it changes is a directory, which gains one entry under a name it
  did not have; no existing file changes, unless the call that asks whether the path exists has failed: then the
  file the path leads to is emptied. Either is beneath the target unless the very path is a link: a link to
  nothing does not count as existing, and the new file appears where it points.
\<close>

theorem fs_op_confined:
  assumes "quiet E" "do_fs_op E V oper ref path new_path force_git s = (r, s')"
    and "os_tree s i = Some x" "os_tree s' i \<noteq> Some x"
  shows "\<exists>target u. resolve_project_target E V ref s = (Inr target, u) \<and>
    (if oper = ''create_file'' then
       \<exists>d. realpath_of (os_tree s) (new_parent (rt_target_path target) path) = Inr d \<and>
         beneath (rt_target_path target) d \<and>
         create_file_change E s s' (rt_target_path target) (d @ [new_name (rt_target_path target) path]) i x
     else \<exists>q. descend (os_tree s) ROOT (rt_target_path target @ q) = Some i)"
proof -
  let ?t = "os_tree s"
  have start: "still E ?t ?t" using assms(1) by (simp add: still_def)
  obtain q u where run: "resolve_project_target E V ref s = (q, u)" by (cases "resolve_project_target E V ref s")
  show ?thesis
  proof (cases q)
    case (Inl e)
    then have "s' = u" using assms(2) run
      by (auto simp: do_fs_op_def refused_def bindC_def map_errC_def)
    moreover have "still E ?t (os_tree u)" using stable_run [OF still.keeps_resolve start run] .
    ultimately show ?thesis using assms(3,4) by (simp add: still_def)
  next
    case (Inr target)
    then have t: "literal_dir ?t (rt_target_path target)" "still E ?t (os_tree u)"
      using tripleD(1) [OF finds_target start] run by auto
    then have u: "os_tree u = ?t" by (simp add: still_def)
    have op: "fs_op_at E V oper path new_path force_git target u = (r, s')"
      using assms(2) run Inr by (auto simp: do_fs_op_def refused_def bindC_def map_errC_def)
    show ?thesis
    proof (cases "oper = ''create_file''")
      case True
      from fs_op_at_create [OF assms(1) _ op [unfolded True]] t(1) assms(3,4) u
      show ?thesis using True run Inr by (simp add: create_file_change_def)
    next
      case False
      from tripleD_both [OF fs_op_at_confined [OF t(1) False] t(2) op] assms(3,4) False run Inr
      show ?thesis by (auto simp: confined_def)
    qed
  qed
qed

section \<open>Examples\<close>

lemma demo_quiet: "quiet demo_env"
  by (simp add: quiet_def demo_env_def)

text \<open>A new file under the name of a link to nothing appears outside of the project.\<close>

lemma create_file_follows_link:
  "os_tree (snd (do_fs_op demo_env demo_service ''create_file'' demo_ref ''l'' None False demo_os)) 2 =
     Some (FDir [(''x'', 10)])"
  by code_simp

theorem fs_op_confined_witness:
  "\<exists>target u. resolve_project_target demo_env demo_service demo_ref demo_os = (Inr target, u) \<and>
     (\<exists>d. realpath_of demo_tree (new_parent (rt_target_path target) ''l'') = Inr d \<and> beneath (rt_target_path target) d \<and>
        create_file_change demo_env demo_os
          (snd (do_fs_op demo_env demo_service ''create_file'' demo_ref ''l'' None False demo_os))
          (rt_target_path target) (d @ [new_name (rt_target_path target) ''l'']) 2 (FDir []))"
  using fs_op_confined [OF demo_quiet surjective_pairing, of demo_os 2 "FDir []"
      demo_service "''create_file''" demo_ref "''l''" None False] create_file_follows_link
  by (simp add: demo_os_def demo_tree_def)

text \<open>
  When the call that asks whether the path exists fails, the creation empties the file that is there, also one
  outside of the project that a link leads to.
\<close>

definition linked_tree :: tree where
  "linked_tree = map_of
     [(0, FDir [(''proj'', 1), (''etc'', 2)]), (1, FDir [(''l'', 4)]), (2, FDir [(''x'', 3)]),
      (3, FFile [1, 2] 7), (4, FLink ''/etc/x'')]"

definition failing_stat :: fs_env where
  "failing_stat = demo_env\<lparr>fv_fail := \<lambda>k. if k = 3 then Some IoDenied else None\<rparr>"

lemma create_file_empties:
  "fst (do_fs_op failing_stat demo_service ''create_file'' demo_ref ''l'' None False \<lparr> os_tree = linked_tree, os_calls = 0 \<rparr>) = Inr () \<and>
   os_tree (snd (do_fs_op failing_stat demo_service ''create_file'' demo_ref ''l'' None False \<lparr> os_tree = linked_tree, os_calls = 0 \<rparr>)) 3 =
     Some (FFile [] 9)"
  by code_simp

text \<open>A file is moved into the repository without the force that a deletion there needs.\<close>

lemma rename_into_git:
  "fst (do_fs_op demo_env demo_service ''rename'' demo_ref ''a'' (Some ''.git/config'') False demo_os) = Inr () \<and>
   os_tree (snd (do_fs_op demo_env demo_service ''rename'' demo_ref ''a'' (Some ''.git/config'') False demo_os)) 5 =
     Some (FDir [(''config'', 3)])"
  by code_simp

text \<open>The deletion of a link deletes the file it points to, and the link stays.\<close>

lemma delete_follows_link:
  "os_tree (snd (do_fs_op demo_env demo_service ''delete'' demo_ref ''b'' None False demo_os)) 1 =
     Some (FDir [(''l'', 4), (''b'', 6), (''.git'', 5)])"
  by code_simp

end
