(* ===== verification/Spec2Isabelle.thy ===== *)
theory Spec2Isabelle
  imports Scrollback Media_Stream Release_Safety Release_Archive_Safety Release_Migration_Safety
    Alert_Safety Resource_Alert_Safety Shell_Lifecycle_Safety Port_Tunnels
    Host_Action_Safety Host_Audit Host_Reauth SSH_Store_Safety SSH_Registry_Safety FS_Confinement
begin

text \<open>
  \<^bold>\<open>dam-hopper: a verification of the server\<close>

  dam-hopper is a workspace server: it runs terminals, serves project files and media to a browser,
  watches the host and raises alerts, and ships with a release manager that installs, activates and
  rolls back its own releases on Linux hosts. A desktop application connects to such servers through
  SSH and keeps the connections, forwarding rules and trusted host keys of each server. This
  development models parts of the Rust code under \<open>src/server/src\<close> and
  \<open>src/apps/native/src-tauri/src\<close> as executable functions and proves what makes them correct.

  \<^bold>\<open>Conventions.\<close> A struct is a record with a two-letter field prefix, an enum a datatype, a
  \<open>Result<T, E>\<close> the sum \<open>E + T\<close> with \<open>and_then\<close> for the question-mark operator, a \<open>u64\<close> a 64-bit word
  with the saturating and checked operations of \<open>Prelude\<close>, a \<open>HashMap\<close> a partial function, a string
  the sequence of its UTF-8 bytes. Error messages are kept where the code looks at them and
  abbreviated otherwise. Code from libraries (JSON and TOML decoders, the semver parser, SHA-256,
  decompression and the tar format, the random source, account lookups) is a parameter.

  \<^bold>\<open>Shared theories.\<close> \<open>Prelude\<close>: machine integers, fallible calls, hash maps, and the interfaces
  \<open>transition_system\<close> (an invariant of every reachable state of a step function), \<open>step_relation\<close> (of an
  inductive step relation), \<open>monotone_system\<close>, \<open>refinement\<close> and \<open>streak\<close> (a start time that every run of a
  step function keeps only while a condition holds).
  \<open>Text\<close>: the string operations of the standard library the code uses, with decimal printing and
  parsing. \<open>Utf8\<close>: validity of UTF-8 text, and what joining and tearing do to it.

  \<^bold>\<open>Terminals.\<close> \<open>Scrollback\<close> models \<open>pty/buffer.rs\<close>: the ring of the last bytes of a terminal, with
  replay from an offset, snapshot and hydration. It refines an exact history: it holds the last \<open>capacity\<close> bytes
  pushed since the last clear and counts all of them, a replay brings any client to the true history, and hydration joins a persisted
  snapshot with the output of a relaunched terminal. \<open>Shell_Lifecycle\<close> models \<open>pty/shell_lifecycle.rs\<close> and
  the step of the reader thread that calls it: a byte automaton that takes the markers of the shell
  integration out of the output. \<open>Shell_Lifecycle_Safety\<close> lifts laws of one iteration of its loop to
  whole inputs (\<open>stream_law\<close>): no byte is lost or reordered and only markers with the nonce of the
  session are hidden, output without the nonce can only reset the lifecycle, the events of all the chunks of a
  session come in order, and the cutting into chunks does not matter unless it splits \<open>ESC \\<close>, where the terminator
  is missed; the reset on entry of the alternate buffer drops held bytes.

  \<^bold>\<open>Media.\<close> \<open>Media_Tickets\<close> models the ticket store of \<open>fs/media_ticket.rs\<close> and \<open>fs/media_session.rs\<close>
  on an explicit clock and random source; \<open>Media_Ticket_Safety\<close> proves its invariant over all
  sequences of calls, what an authorisation means, that a finalisation is for the ticket that was
  authorised although other calls ran in between, that revocation and deadlines cannot be
  escaped, and that an issued ticket works until it is due or revoked, whatever other calls run. \<open>Byte_Range\<close> models \<open>api/http_byte_range.rs\<close>. \<open>Media_Stream\<close> models the image and video adapters
  (\<open>fs/image_ticket.rs\<close>, \<open>fs/video_ticket.rs\<close>), the session cookie, the headers and the stream handler
  (\<open>api/media_stream_headers.rs\<close>, \<open>api/media_stream_response.rs\<close>), with the calls of other tasks at its
  await point as an arbitrary sequence; a successful answer is the slice that the request's own headers ask for.

  \<^bold>\<open>Alerts.\<close> \<open>Alert_Engine\<close> models \<open>system/alerts.rs\<close>: thresholds and their clamping, the classification of
  a sample and the state machine of incidents. A floating-point number is a rational, an infinity
  or not a number, and the rounding of arithmetic is a parameter. \<open>Alert_Safety\<close>: the state is
  well-formed and reports exactly its changes, an incident opens and resolves only after its
  condition held for its duration, and a candidate that a lower sample interrupted escalates at
  once. \<open>Resource_Alerts\<close> models the temperature and disk alerts with their bounded tables and the
  histories of \<open>system/monitor.rs\<close> (an ordered map is an ordered association list); \<open>Resource_Alert_Safety\<close>: the
  table of targets is the 50 smallest keys, a temperature incident needs five minutes above the
  threshold.

  \<^bold>\<open>Ports and tunnels.\<close> \<open>Tunnel_Manager\<close> models the critical sections of \<open>tunnel/manager.rs\<close> and the events of
  \<open>tunnel/cloudflared.rs\<close>; \<open>Tunnel_System\<close> interleaves them as the inductive relation \<open>tunnel_step\<close> of the tasks that
  create, stop and watch tunnels and of the shutdown, and proves by rule induction that no driver is
  orphaned, that a stop while the driver starts wins, and that shutdown leaves nothing running; two
  theorems show a creation message after the stop message and a silent end of a ready tunnel.
  \<open>Port_Forward\<close> models \<open>port_forward/\<close> with its rows in \<open>persistence/mod.rs\<close>: the detector, the registry of
  ports with their owners, the poller, the restoring of ports. \<open>Port_Forward_Safety\<close>: what the
  registry tracks, that an ended terminal cannot own a port again, that the database agrees with the
  registry, that a round of the poller brings every entry up to date, and that no port is ever
  restored. \<open>Port_Tunnels\<close> composes both with the handler of \<open>api/tunnel.rs\<close>: a tunnel does not outlive
  the claim of its owner to the port.

  \<^bold>\<open>Host actions\<close> (\<open>host_actions/\<close>). \<open>Host_Approval\<close>: the store of intents with their challenges and tokens; the form
  over which the digest of an intent is taken determines its fields. \<open>Host_Actions\<close>: samples, executions,
  cooldown, the limit on failed authentications and the guards of \<open>api/host_actions.rs\<close>.
  \<open>Host_Action_System\<close> and \<open>Host_Action_Safety\<close>: the relation \<open>host_step\<close> of the tasks that submit and execute, with
  a trace of events; the helper is called only for an approved intent whose audit appends reported success, once, and one
  execution at a time. \<open>Host_Audit\<close>: the audit file, which must be UTF-8 to be read; an append to complete lines keeps the
  record, the pages show every record once, and after a torn line the next record is lost or every later append fails. \<open>Host_Reauth\<close>: attempts one
  after the other are limited, and a check alone counts nothing.

  \<^bold>\<open>Files\<close> (\<open>fs/\<close>, \<open>workspace_target.rs\<close> and the file requests of \<open>api/ws.rs\<close>). \<open>FS_Tree\<close>: a file system of
  inodes, links and directory handles, path resolution and the system calls; before every call other
  processes may change the tree, and every call may fail. \<open>FS_Service\<close>: the directory a request is about, the
  sandbox, mutations and writes through directory handles. \<open>FS_Transfer\<close>: writes and uploads in pieces.
  \<open>FS_Paths\<close>: a canonical path is literal and the containment check on text is the prefix relation.
  \<open>FS_Safety\<close>: triples for commands, the interface \<open>tree_invariant\<close> of what other processes keep, and the
  confinement of a delayed write against links that appear meanwhile. \<open>FS_Confinement\<close>: the requests that
  change the tree stay beneath their target when nobody else changes it, and creating a file changes no existing one
  while the check for its existence works; examples show a link to nothing that leads a new file outside, an existing
  file emptied after a failed check, a move into the repository, and a deleted link that takes its file along.

  \<^bold>\<open>SSH forwarding\<close> (\<open>ssh_forward/\<close> of the desktop application). \<open>SSH_Profile\<close>: revision counters, profiles,
  connections and rules with their validation (\<open>profile.rs\<close>, \<open>model.rs\<close>); the valid host names are the
  fixed points of canonicalisation. \<open>SSH_Config\<close>: the documents of both schema versions
  (\<open>store_schema.rs\<close>). \<open>SSH_Migration\<close>: validation as a predicate, the migration and its inverse view,
  and what a rebased version-1 write keeps. \<open>SSH_Trust\<close>: trust documents, the decision on an offered
  host key, and the book of challenges (\<open>known_hosts.rs\<close>, \<open>ssh_client.rs\<close>). \<open>SSH_Store\<close>: the
  operations of \<open>ScopeStore\<close> (\<open>store.rs\<close>) on the documents of a scope, with retention and repair
  (\<open>scope_retention.rs\<close>, \<open>trust_repair.rs\<close>); every read and write is a numbered call whose failure, with
  or without effect, the environment decides. \<open>SSH_Store_Safety\<close>: weakest preconditions of the
  operations; in every run the documents only move on under larger revisions, so no update is lost,
  and a purge, of a scope in any state and of either version, needs thirty days of absence (the interface \<open>kept\<close> carries
  what a load, with or without a migration, leaves alone). \<open>SSH_Registry\<close>: the live connections and their rules with
  every operation of \<open>ConnectionRegistry\<close> (\<open>connection_runtime.rs\<close>). \<open>SSH_Registry_Safety\<close>: each operation
  is one of a few kinds of change; the limits hold, ports are not shared, every state owns what it
  needs, and a cancellation is final.

  \<^bold>\<open>Releases\<close> (\<open>linux_release/\<close>). \<open>Release_Manifest\<close>: errors, constants, versions, the inventory and the
  manifest with their validation. \<open>Release_Unit\<close>: web origins, the systemd unit parser, policies,
  rendering and the rewriting of the service account. \<open>Release_State\<close>: the state envelope, its
  validation and the phases of a transaction. \<open>Release_Probe\<close>: the judgement of a service from its
  process, port and health reply. \<open>Release_Host\<close>: the machine as files, services, the state file and a
  counter of the calls that leave the process; the environment \<open>env\<close> decides for every such call
  whether it fails, so a statement about every environment covers every failure at every place,
  and a crash is the environment in which every later call fails. On it the durable writes
  (\<open>durable_fs.rs\<close>), the layout, \<open>systemctl\<close>, unit backups, load and save of the state.
  \<open>Release_Retention\<close>: resolution of paths with links, pruning of releases (\<open>retention.rs\<close>,
  \<open>ownership.rs\<close>). \<open>Release_Archive\<close>: the bounded reader, inspection and extraction (\<open>archive.rs\<close>,
  \<open>archive_extract.rs\<close>). \<open>Release_Migration\<close>: the exchange of directories of a format-2 migration
  (\<open>migration.rs\<close>). \<open>Release_Activation\<close>: the transaction, the activation pipeline, rollback and boot
  recovery (\<open>transaction.rs\<close>, \<open>activate.rs\<close>, \<open>rollback.rs\<close>, \<open>recovery.rs\<close>, \<open>health.rs\<close>).

  The proofs about commands use two interfaces. \<open>Release_Frame\<close> (\<open>clock_view\<close>): which part of the host
  a command leaves alone, interpreted on the node of a file, on the links and on the state
  envelope. \<open>Release_Envelope\<close> (\<open>saving_invariant\<close>, \<open>envelope_invariant\<close>, \<open>commit_invariant\<close>): an
  invariant of the state on disk and in memory that every save and every phase keeps, interpreted
  in \<open>Release_Safety\<close> on the invariants of its theorems. The results: whichever calls fail,
  activation leaves a valid state on disk whose releases are the old ones or the candidate, success
  means that the candidate is committed after consecutive healthy rounds (\<open>Release_Health\<close>), the
  generation never decreases; an accepted archive is the inventory, its extraction writes no path that
  leads out of its directory, with every \<open>..\<close> resolved, and leaves the verified files of the role (\<open>Release_Archive_Safety\<close>); the exchange of a
  migration is undone by its rollback (\<open>Release_Migration_Safety\<close>). Three theorems show behaviours that
  the code does not mean: a staged migration can never be activated, a commit whose save fails is
  persisted by the recording of its failure, and recovery on an unreadable state blocks nothing.

  \<^bold>\<open>Bounds and fuel.\<close> \<open>health_loop\<close> has fuel; \<open>health_fuel\<close> is the number of intervals in the overall deadline
  and two more, and \<open>health_loop_terminates\<close> shows that it never runs out. The other recursions are
  structural or have a termination proof: \<open>realpath\<close> follows at most 40 links like the kernel,
  \<open>visit_dir_recursive\<close> goes to longer paths of a finite file table.

  \<^bold>\<open>Abstractions.\<close> The host knows the type, the content and the mode of a file, not its owner.
  The release host's file table is keyed by written paths: where a link among the ancestors of a path matters, its
  absence is a hypothesis, and the confinement of extraction is stated on the location a path leads to. A failed call has no effect of its own; a write that fails after its effect is a write
  and a failed sync. In the file service a handle is an inode, names are valid UTF-8, and the removal of a
  directory with its content is one step. The state file is what the JSON decoder makes of it. Identifiers of tunnels never
  repeat; the tasks that stop the tunnels of an old owner are sets of what they still have to do, and
  the end of a terminal always schedules them, as it does when a Tokio runtime is at hand. The handler that creates a
  tunnel runs to its end: the dropping of its future at an await point when the client disconnects is not a step of
  \<open>tunnel_step\<close> or \<open>port_tunnel_step\<close>. The steps of \<open>host_step\<close> record whether an audit append reported success, not the
  content of the audit file.

  \<^bold>\<open>Not modelled.\<close> The staging transaction and the acquisition of releases, the import of a format-2
  installation, the evidence collected from \<open>/proc\<close>; outside the release manager the other parts of the PTY threads,
  listing and search of files, encrypted uploads, git, the SQLite stores, telemetry, the installer of cloudflared, and of the native application the
  manager of the SSH sessions, the file handles beneath the scope store and browser debugging: they are
  calls of the operating system, of libgit2 and of SQLite around little logic of their own, or
  still to come.

  \<^bold>\<open>Remaining work.\<close> The staging transaction and manual rollback on the same host model, the session table
  and restart policy of the PTY manager, and the approval of host keys on top of \<open>SSH_Trust\<close> and \<open>SSH_Store\<close>.
\<close>

end
